(* ===== verification/Prelude.thy ===== *)
theory Prelude
  imports Main "HOL-Library.AList" "HOL-Library.List_Lexorder" "HOL-Library.Char_ord"
    "HOL-Library.Multiset"
begin

text \<open>
  Shared material of the Eigen OS development: results of code that may raise, Python
  dictionaries as association lists in insertion order, the generic list facts the components
  use, and the interfaces (locales) several components implement: systems with an invariant, and
  check functions that decide a specification.
\<close>

named_theorems dict_simps "facts on dictionaries in insertion order"
named_theorems result_simps "facts on results of code that may raise"

section \<open>Results of code that may raise\<close>

type_synonym ('e, 'a) result = "'e + 'a"

definition rbind :: "('e, 'a) result \<Rightarrow> ('a \<Rightarrow> ('e, 'b) result) \<Rightarrow> ('e, 'b) result" where
  "rbind m f = (case m of Inl e \<Rightarrow> Inl e | Inr x \<Rightarrow> f x)"

text \<open>A list comprehension whose element expression may raise: it stops at the first error.\<close>

fun rmap :: "('a \<Rightarrow> ('e, 'b) result) \<Rightarrow> 'a list \<Rightarrow> ('e, 'b list) result" where
  "rmap f [] = Inr []"
| "rmap f (x # xs) = rbind (f x) (\<lambda>y. rbind (rmap f xs) (\<lambda>ys. Inr (y # ys)))"

text \<open>A \<open>for\<close> loop over a list whose body updates a state and may raise.\<close>

fun rfold :: "('a \<Rightarrow> 's \<Rightarrow> ('e, 's) result) \<Rightarrow> 'a list \<Rightarrow> 's \<Rightarrow> ('e, 's) result" where
  "rfold f [] s = Inr s"
| "rfold f (x # xs) s = rbind (f x s) (rfold f xs)"

lemma rbind_Inl [simp, result_simps]: "rbind (Inl e) f = Inl e"
  and rbind_Inr [simp, result_simps]: "rbind (Inr x) f = f x"
  by (simp_all add: rbind_def)

lemma rbind_eq_Inr [result_simps]: "rbind m f = Inr y \<longleftrightarrow> (\<exists>x. m = Inr x \<and> f x = Inr y)"
  by (cases m) auto

lemma rbind_eq_Inl [result_simps]:
  "rbind m f = Inl e \<longleftrightarrow> m = Inl e \<or> (\<exists>x. m = Inr x \<and> f x = Inl e)"
  by (cases m) auto

lemma rbind_cong [fundef_cong]:
  "m = m' \<Longrightarrow> (\<And>x. m' = Inr x \<Longrightarrow> f x = g x) \<Longrightarrow> rbind m f = rbind m' g"
  by (cases m') auto

lemma rmap_cong [fundef_cong]:
  "xs = ys \<Longrightarrow> (\<And>x. x \<in> set ys \<Longrightarrow> f x = g x) \<Longrightarrow> rmap f xs = rmap g ys"
  by (induction ys arbitrary: xs) (auto intro: rbind_cong)

lemma rmap_Inr_iff: "rmap f xs = Inr ys \<longleftrightarrow> list_all2 (\<lambda>x y. f x = Inr y) xs ys"
proof (induction xs arbitrary: ys)
  case Nil
  show ?case by auto
next
  case (Cons x xs)
  then show ?case by (cases ys) (auto simp: rbind_eq_Inr)
qed

lemma rmap_length: "rmap f xs = Inr ys \<Longrightarrow> length ys = length xs"
  by (auto simp: rmap_Inr_iff dest: list_all2_lengthD)

lemma rmap_pointwise:
  assumes "rmap f xs = Inr ys" and "\<And>x y. x \<in> set xs \<Longrightarrow> f x = Inr y \<Longrightarrow> P y"
  shows "\<forall>y\<in>set ys. P y"
  using assms
proof (induction xs arbitrary: ys)
  case (Cons x xs)
  then obtain z zs where "f x = Inr z" "rmap f xs = Inr zs" "ys = z # zs"
    by (auto simp: rbind_eq_Inr)
  with Cons show ?case by auto
qed simp

text \<open>An invariant of the loop state is an invariant of the whole loop.\<close>

lemma rfold_invariant:
  assumes "rfold f xs s = Inr t" and "P s"
    and "\<And>x s t. x \<in> set xs \<Longrightarrow> P s \<Longrightarrow> f x s = Inr t \<Longrightarrow> P t"
  shows "P t"
  using assms
proof (induction xs arbitrary: s)
  case (Cons x xs)
  then obtain u where "f x s = Inr u" "rfold f xs u = Inr t"
    by (auto simp: rbind_eq_Inr)
  with Cons show ?case by (metis list.set_intros)
qed simp

lemma rfold_append: "rfold f (xs @ ys) s = rbind (rfold f xs s) (rfold f ys)"
  by (induction xs arbitrary: s) (auto simp: rbind_def split: sum.splits)

section \<open>Dictionaries\<close>

text \<open>
  A Python \<open>dict\<close> keeps the order in which its keys were first inserted. It is an association
  list with distinct keys; assignment (\<open>AList.update\<close>) overwrites in place or appends,
  \<open>pop\<close> (\<open>AList.delete\<close>) removes the entry, \<open>map_of\<close> looks a key up.
\<close>

type_synonym ('k, 'v) dict = "('k \<times> 'v) list"

abbreviation dget :: "('k, 'v) dict \<Rightarrow> 'k \<Rightarrow> 'v option" where
  "dget \<equiv> map_of"

abbreviation dset :: "'k \<Rightarrow> 'v \<Rightarrow> ('k, 'v) dict \<Rightarrow> ('k, 'v) dict" where
  "dset \<equiv> AList.update"

abbreviation dpop :: "'k \<Rightarrow> ('k, 'v) dict \<Rightarrow> ('k, 'v) dict" where
  "dpop \<equiv> AList.delete"

abbreviation dkeys :: "('k, 'v) dict \<Rightarrow> 'k list" where
  "dkeys d \<equiv> map fst d"

abbreviation dvalues :: "('k, 'v) dict \<Rightarrow> 'v list" where
  "dvalues d \<equiv> map snd d"

abbreviation wf_dict :: "('k, 'v) dict \<Rightarrow> bool" where
  "wf_dict d \<equiv> distinct (map fst d)"

definition dget_or :: "('k, 'v) dict \<Rightarrow> 'k \<Rightarrow> 'v \<Rightarrow> 'v" where
  "dget_or d k x = (case map_of d k of None \<Rightarrow> x | Some v \<Rightarrow> v)"

definition dhas :: "('k, 'v) dict \<Rightarrow> 'k \<Rightarrow> bool" where
  "dhas d k \<longleftrightarrow> map_of d k \<noteq> None"

lemma dget_dset [simp, dict_simps]: "map_of (AList.update k v d) k' = (if k' = k then Some v else map_of d k')"
  by (simp add: update_conv')

lemma dget_dpop [simp, dict_simps]: "map_of (AList.delete k d) k' = (if k' = k then None else map_of d k')"
  by (simp add: delete_conv')

lemma wf_dict_dset [intro, dict_simps]: "wf_dict d \<Longrightarrow> wf_dict (dset k v d)"
  by (rule distinct_update)

lemma wf_dict_dpop [intro, dict_simps]: "wf_dict d \<Longrightarrow> wf_dict (dpop k d)"
  by (rule distinct_delete)

lemma dhas_iff [dict_simps]: "dhas d k \<longleftrightarrow> k \<in> set (dkeys d)"
  by (simp add: dhas_def map_of_eq_None_iff)

lemma dset_fresh: "k \<notin> set (dkeys d) \<Longrightarrow> dset k v d = d @ [(k, v)]"
  by (induction d) auto

lemma dhas_dset [simp]: "dhas (dset k v d) k' \<longleftrightarrow> k' = k \<or> dhas d k'"
  by (auto simp: dhas_def)

lemma dhas_dpop [simp]: "dhas (dpop k d) j \<longleftrightarrow> j \<noteq> k \<and> dhas d j"
  by (auto simp: dhas_def)

lemma dpop_filter: "dpop k d = filter (\<lambda>e. fst e \<noteq> k) d"
  by (induction d) auto

lemma length_dpop_less: "dhas d k \<Longrightarrow> length (dpop k d) < length d"
  unfolding dpop_filter dhas_iff by (auto intro: length_filter_less)

lemma length_dpop: "wf_dict d \<Longrightarrow> dhas d k \<Longrightarrow> Suc (length (dpop k d)) = length d"
  by (induction d) (auto simp: dhas_iff delete_id)

lemma length_dset: "length (dset k v d) = (if dhas d k then length d else Suc (length d))"
  by (induction d) (auto simp: dhas_iff)

section \<open>Sorting\<close>

lemma sort_key_eq_nil [simp]: "sort_key f xs = [] \<longleftrightarrow> xs = []"
  by (metis length_0_conv length_sort)

lemma map_of_sort_key [simp]: "wf_dict d \<Longrightarrow> map_of (sort_key f d) = map_of d"
  by (rule map_of_inject_set [THEN iffD2])
    (auto simp: distinct_map intro: distinct_sort)

lemma wf_dict_sort_key [simp]: "wf_dict (sort_key f d) \<longleftrightarrow> wf_dict d"
proof -
  have "mset (map fst (sort_key f d)) = mset (map fst d)" by simp
  then show ?thesis by (metis mset_eq_imp_distinct_iff)
qed

lemma insort_key_map: "insort_key f (g x) (map g xs) = map g (insort_key (\<lambda>x. f (g x)) x xs)"
  by (induction xs) auto

lemma sort_key_map: "sort_key f (map g xs) = map g (sort_key (\<lambda>x. f (g x)) xs)"
  by (induction xs) (simp_all add: insort_key_map)

section \<open>Systems with an invariant\<close>

text \<open>
  The contract of a component with state: what holds of a fresh component and is kept by each
  of its operations holds in every state it reaches.
\<close>

locale invariant_system =
  fixes init :: "'s \<Rightarrow> bool" and step :: "'s \<Rightarrow> 's \<Rightarrow> bool" and inv :: "'s \<Rightarrow> bool"
  assumes init_inv: "init s \<Longrightarrow> inv s"
    and step_inv: "inv s \<Longrightarrow> step s t \<Longrightarrow> inv t"
begin

lemma reach_inv_from: "step\<^sup>*\<^sup>* s t \<Longrightarrow> inv s \<Longrightarrow> inv t"
  by (induction rule: rtranclp_induct) (auto intro: step_inv)

lemma reach_inv: "init s \<Longrightarrow> step\<^sup>*\<^sup>* s t \<Longrightarrow> inv t"
  by (blast intro: reach_inv_from init_inv)

end

section \<open>Simulations\<close>

text \<open>
  The contract of a component that implements an abstract one: each of its operations, started in related
  states, answers as the abstract operation does and ends in related states. Then every sequence of operations
  gets the same answers.
\<close>

primrec run_ops_on :: "('i \<Rightarrow> 's \<Rightarrow> 's \<times> 'o) \<Rightarrow> 'i list \<Rightarrow> 's \<Rightarrow> 's \<times> 'o list" where
  "run_ops_on f [] s = (s, [])"
| "run_ops_on f (i # is) s = (let (s', out) = f i s; (s'', outs) = run_ops_on f is s' in (s'', out # outs))"

locale simulation =
  fixes cstep :: "'i \<Rightarrow> 'c \<Rightarrow> 'c \<times> 'o" and astep :: "'i \<Rightarrow> 'a \<Rightarrow> 'a \<times> 'o" and related :: "'c \<Rightarrow> 'a \<Rightarrow> bool"
  assumes step_related: "related c a \<Longrightarrow> related (fst (cstep i c)) (fst (astep i a))"
    and step_answers: "related c a \<Longrightarrow> snd (cstep i c) = snd (astep i a)"
begin

lemma runs_agree:
  "related c a \<Longrightarrow> related (fst (run_ops_on cstep is c)) (fst (run_ops_on astep is a))
     \<and> snd (run_ops_on cstep is c) = snd (run_ops_on astep is a)"
proof (induction "is" arbitrary: c a)
  case (Cons i "is")
  from Cons.IH [OF step_related [OF Cons.prems, of i]] step_answers [OF Cons.prems, of i]
  show ?case by (simp add: case_prod_unfold Let_def)
qed simp

end

section \<open>Check functions\<close>

text \<open>
  The contract of a check that reports a list of problems: it reports nothing exactly when the
  specification holds. The gate the code builds from it (\<open>if violations: raise\<close>) then lets
  exactly the inputs through that satisfy the specification.
\<close>

definition gate :: "('v list \<Rightarrow> 'e) \<Rightarrow> 'v list \<Rightarrow> 'a \<Rightarrow> ('e, 'a) result" where
  "gate mk vs x = (if vs = [] then Inr x else Inl (mk vs))"

lemma gate_Inr [simp, result_simps]: "gate mk vs x = Inr y \<longleftrightarrow> vs = [] \<and> x = y"
  by (auto simp: gate_def)

lemma gate_Inl [simp, result_simps]: "gate mk vs x = Inl e \<longleftrightarrow> vs \<noteq> [] \<and> e = mk vs"
  by (auto simp: gate_def)

locale decides =
  fixes check :: "'a \<Rightarrow> 'v list" and ok :: "'a \<Rightarrow> bool"
  assumes check_iff: "check x = [] \<longleftrightarrow> ok x"
begin

lemma gate_passes_iff: "(\<exists>y. gate mk (check x) z = Inr y) \<longleftrightarrow> ok x"
  by (auto simp: gate_def check_iff)

lemma gate_returns: "gate mk (check x) z = Inr y \<Longrightarrow> ok x \<and> y = z"
  by (auto simp: check_iff)

lemma gate_raises: "\<not> ok x \<Longrightarrow> gate mk (check x) z = Inl (mk (check x))"
  by (auto simp: gate_def check_iff)

end

end
