(* ===== verification/PyString.thy ===== *)
theory PyString
  imports Prelude
begin

text \<open>
  The operations of Python's \<open>str\<close> the services use. A string is a list of code points below
  256 (Latin-1). White space, case mapping and \<open>int()\<close> follow the language reference on that
  range.
\<close>

section \<open>White space and case\<close>

abbreviation ord :: "char \<Rightarrow> nat" where
  "ord c \<equiv> of_char c"

definition is_ws :: "char \<Rightarrow> bool" where
  "is_ws c = (let n = ord c in (9 \<le> n \<and> n \<le> 13) \<or> (28 \<le> n \<and> n \<le> 32) \<or> n = 133 \<or> n = 160)"

definition py_lstrip :: "string \<Rightarrow> string" where
  "py_lstrip s = dropWhile is_ws s"

definition py_rstrip :: "string \<Rightarrow> string" where
  "py_rstrip s = rev (dropWhile is_ws (rev s))"

definition py_strip :: "string \<Rightarrow> string" where
  "py_strip s = py_rstrip (py_lstrip s)"

definition lower_char :: "char \<Rightarrow> char" where
  "lower_char c = (let n = ord c in
     if (65 \<le> n \<and> n \<le> 90) \<or> (192 \<le> n \<and> n \<le> 222 \<and> n \<noteq> 215) then char_of (n + 32) else c)"

definition py_lower :: "string \<Rightarrow> string" where
  "py_lower s = map lower_char s"

text \<open>Upper-casing is applied to ASCII gate names only.\<close>

definition upper_char :: "char \<Rightarrow> char" where
  "upper_char c = (let n = ord c in if 97 \<le> n \<and> n \<le> 122 then char_of (n - 32) else c)"

definition py_upper :: "string \<Rightarrow> string" where
  "py_upper s = map upper_char s"

text \<open>\<open>not s.strip()\<close>: the string is blank.\<close>

definition blank :: "string \<Rightarrow> bool" where
  "blank s \<longleftrightarrow> py_strip s = []"

lemma dropWhile_all: "dropWhile P s = [] \<longleftrightarrow> list_all P s"
  by (induction s) auto

lemma list_all_dropWhile: "list_all P (dropWhile P s) \<longleftrightarrow> list_all P s"
  by (induction s) auto

lemma blank_iff: "blank s \<longleftrightarrow> list_all is_ws s"
proof -
  have "blank s \<longleftrightarrow> list_all is_ws (rev (dropWhile is_ws s))"
    by (simp add: blank_def py_strip_def py_rstrip_def py_lstrip_def list_all_iff)
  also have "\<dots> \<longleftrightarrow> list_all is_ws s"
    by (simp only: list_all_rev list_all_dropWhile)
  finally show ?thesis .
qed

lemma blank_Nil [simp]: "blank []"
  by (simp add: blank_iff)

section \<open>Prefixes, splitting, joining\<close>

definition py_startswith :: "string \<Rightarrow> string \<Rightarrow> bool" where
  "py_startswith s p \<longleftrightarrow> take (length p) s = p"

text \<open>\<open>s.split(sep, 1)[0]\<close> for a one-character separator.\<close>

definition split_head :: "char \<Rightarrow> string \<Rightarrow> string" where
  "split_head c s = takeWhile (\<lambda>x. x \<noteq> c) s"

text \<open>\<open>s.split(sep)\<close> for a one-character separator: the parts between separators.\<close>

fun py_split :: "char \<Rightarrow> string \<Rightarrow> string list" where
  "py_split c [] = [[]]"
| "py_split c (x # xs) =
     (if x = c then [] # py_split c xs
      else case py_split c xs of [] \<Rightarrow> [[x]] | p # ps \<Rightarrow> (x # p) # ps)"

fun py_join :: "string \<Rightarrow> string list \<Rightarrow> string" where
  "py_join sep [] = []"
| "py_join sep [x] = x"
| "py_join sep (x # y # zs) = x @ sep @ py_join sep (y # zs)"

text \<open>\<open>sub in s\<close> for strings.\<close>

fun py_contains :: "string \<Rightarrow> string \<Rightarrow> bool" where
  "py_contains s p = (py_startswith s p \<or> (case s of [] \<Rightarrow> False | _ # t \<Rightarrow> py_contains t p))"

declare py_contains.simps [simp del]

lemma py_split_not_Nil [simp]: "py_split c s \<noteq> []"
  by (induction s) (auto split: list.splits)

lemma py_split_join: "py_join [c] (py_split c s) = s"
proof (induction s)
  case (Cons x xs)
  obtain p ps where "py_split c xs = p # ps"
    by (cases "py_split c xs") auto
  with Cons show ?case by (cases ps) auto
qed simp

lemma py_startswith_append [simp]: "py_startswith (p @ s) p"
  by (simp add: py_startswith_def)

lemma py_startswith_Nil [simp]: "py_startswith s []"
  by (simp add: py_startswith_def)

lemma py_startswith_Cons [simp]: "py_startswith (c # s) (d # p) \<longleftrightarrow> c = d \<and> py_startswith s p"
  by (auto simp: py_startswith_def)

lemma py_startswith_Cons_Nil [simp]: "\<not> py_startswith [] (d # p)"
  by (simp add: py_startswith_def)

lemma py_startswith_prefix: "py_startswith s (p @ q) \<Longrightarrow> py_startswith s p"
proof (induction p arbitrary: s)
  case (Cons c p)
  then show ?case by (cases s) auto
qed simp

section \<open>ASCII\<close>

definition is_ascii :: "string \<Rightarrow> bool" where
  "is_ascii s \<longleftrightarrow> list_all (\<lambda>c. of_char c < (128::nat)) s"

lemma is_ascii_append [simp]: "is_ascii (s @ t) \<longleftrightarrow> is_ascii s \<and> is_ascii t"
  by (simp add: is_ascii_def)

lemma is_ascii_Cons [simp]: "is_ascii (c # s) \<longleftrightarrow> of_char c < (128::nat) \<and> is_ascii s"
  by (simp add: is_ascii_def)

lemma is_ascii_Nil [simp]: "is_ascii []"
  by (simp add: is_ascii_def)

section \<open>Decimal integers\<close>

definition digit_char :: "nat \<Rightarrow> char" where
  "digit_char n = char_of (48 + n)"

definition is_digit :: "char \<Rightarrow> bool" where
  "is_digit c \<longleftrightarrow> 48 \<le> ord c \<and> ord c \<le> 57"

definition digit_val :: "char \<Rightarrow> nat" where
  "digit_val c = ord c - 48"

lemma digit_char_digit [simp]: "n < 10 \<Longrightarrow> is_digit (digit_char n)"
  by (simp add: is_digit_def digit_char_def)

lemma digit_val_char [simp]: "n < 10 \<Longrightarrow> digit_val (digit_char n) = n"
  by (simp add: digit_val_def digit_char_def)

text \<open>\<open>str(n)\<close>.\<close>

fun show_nat :: "nat \<Rightarrow> string" where
  "show_nat n = (if n < 10 then [digit_char n] else show_nat (n div 10) @ [digit_char (n mod 10)])"

declare show_nat.simps [simp del]

definition show_int :: "int \<Rightarrow> string" where
  "show_int i = (if i < 0 then ''-'' @ show_nat (nat (- i)) else show_nat (nat i))"

definition digits_val :: "nat \<Rightarrow> string \<Rightarrow> nat" where
  "digits_val a s = foldl (\<lambda>n c. 10 * n + digit_val c) a s"

lemma show_nat_not_Nil [simp]: "show_nat n \<noteq> []"
  by (subst show_nat.simps) simp

lemma show_nat_digits: "list_all is_digit (show_nat n)"
proof (induction n rule: show_nat.induct)
  case (1 n)
  then show ?case by (subst show_nat.simps) auto
qed

lemma digits_val_show_nat [simp]: "digits_val 0 (show_nat n) = n"
proof (induction n rule: show_nat.induct)
  case (1 n)
  show ?case
  proof (cases "n < 10")
    case True
    then show ?thesis by (subst show_nat.simps) (simp add: digits_val_def)
  next
    case False
    with 1 have "digits_val 0 (show_nat (n div 10)) = n div 10" by simp
    with False show ?thesis
      by (subst show_nat.simps) (simp add: digits_val_def)
  qed
qed

lemma show_nat_inject [simp]: "show_nat m = show_nat n \<longleftrightarrow> m = n"
  by (metis digits_val_show_nat)

lemma show_nat_hd: "is_digit (hd (show_nat n))"
  using show_nat_digits [of n] by (cases "show_nat n") auto

lemma show_nat_no_leading_zero: "0 < n \<Longrightarrow> hd (show_nat n) \<noteq> CHR ''0''"
proof (induction n rule: show_nat.induct)
  case (1 n)
  have "digit_val (CHR ''0'') = 0" by (simp add: digit_val_def)
  with 1 show ?case
    by (subst show_nat.simps) (auto simp: hd_append, metis digit_val_char less_irrefl_nat)
qed

text \<open>
  \<open>int(s)\<close>: surrounding white space, a sign, then digits with single underscores between
  them; more than 4300 digits raise \<open>ValueError\<close> too. \<open>None\<close> is \<open>ValueError\<close>.
\<close>

definition int_digits :: "string \<Rightarrow> nat option" where
  "int_digits s =
     (let parts = py_split (CHR ''_'') s; ds = concat parts in
      if list_all (\<lambda>p. p \<noteq> [] \<and> list_all is_digit p) parts \<and> length ds \<le> 4300
      then Some (digits_val 0 ds) else None)"

definition py_int :: "string \<Rightarrow> int option" where
  "py_int s = (case py_strip s of
       [] \<Rightarrow> None
     | c # t \<Rightarrow> (if c = CHR ''-'' then map_option (\<lambda>n. - int n) (int_digits t)
               else if c = CHR ''+'' then map_option int (int_digits t)
               else map_option int (int_digits (c # t))))"

lemma py_split_absent: "c \<notin> set s \<Longrightarrow> py_split c s = [s]"
  by (induction s) auto

lemma py_split_append: "c \<notin> set s \<Longrightarrow> py_split c (s @ c # t) = s # py_split c t"
  by (induction s) auto

lemma is_digit_not_ws: "is_digit c \<Longrightarrow> \<not> is_ws c"
  by (auto simp: is_digit_def is_ws_def Let_def)

lemma digits_strip: "list_all is_digit s \<Longrightarrow> py_strip s = s"
proof -
  have *: "list_all is_digit t \<Longrightarrow> dropWhile is_ws t = t" for t
    by (cases t) (auto simp: is_digit_not_ws)
  assume "list_all is_digit s"
  with * [of s] * [of "rev s"] show ?thesis
    by (simp add: py_strip_def py_rstrip_def py_lstrip_def)
qed

lemma int_digits_show_nat:
  assumes "length (show_nat n) \<le> 4300" shows "int_digits (show_nat n) = Some n"
proof -
  have "CHR ''_'' \<notin> set (show_nat n)"
    using show_nat_digits [of n] by (auto simp: list_all_iff is_digit_def)
  then have "py_split (CHR ''_'') (show_nat n) = [show_nat n]"
    by (rule py_split_absent)
  then show ?thesis
    using assms show_nat_digits [of n] by (simp add: int_digits_def)
qed

lemma py_int_show_nat:
  assumes "length (show_nat n) \<le> 4300" shows "py_int (show_nat n) = Some (int n)"
proof -
  obtain c t where ct: "show_nat n = c # t" by (cases "show_nat n") auto
  have "is_digit c" using show_nat_hd [of n] ct by simp
  then have "c \<noteq> CHR ''-''" "c \<noteq> CHR ''+''" by (auto simp: is_digit_def)
  moreover have "py_strip (show_nat n) = show_nat n"
    by (rule digits_strip [OF show_nat_digits])
  ultimately show ?thesis
    using int_digits_show_nat [OF assms] ct by (simp add: py_int_def)
qed

text \<open>\<open>list(range(n))\<close> for a Python integer.\<close>

definition py_range :: "int \<Rightarrow> int list" where
  "py_range n = map int [0..<nat n]"

lemma py_range_mem [simp]: "i \<in> set (py_range n) \<longleftrightarrow> 0 \<le> i \<and> i < n"
proof
  assume "0 \<le> i \<and> i < n"
  then have "i = int (nat i)" "nat i \<in> {0..<nat n}" by auto
  then show "i \<in> set (py_range n)" unfolding py_range_def by (metis image_eqI set_map set_upt)
qed (auto simp: py_range_def)

lemma py_range_length [simp]: "length (py_range n) = nat n"
  by (simp add: py_range_def)

end
