(* ===== verification/PyValue.thy ===== *)
theory PyValue
  imports PyString
begin

text \<open>
  Python's dynamically typed values, as far as the services put them into JSON-like payloads:
  \<open>None\<close>, booleans, integers, floats, complex numbers, strings, lists and string-keyed
  dictionaries. A float is identified by its \<open>repr\<close>, which Python guarantees to be injective
  on floats other than NaN and which is what \<open>json.dumps\<close> writes; \<open>nan\<close>, \<open>inf\<close> and
  \<open>-inf\<close> are the reprs of the non-finite ones. Arithmetic and comparison of floats is the
  machine's and a parameter where the code computes with floats.
\<close>

datatype pyval =
    PNone
  | PBool bool
  | PInt int
  | PFloat string
  | PComplex string
  | PStr string
  | PList "pyval list"
  | PDict "(string \<times> pyval) list"

datatype pyexn =
    TypeError
  | ValueError string
  | KeyError string
  | RecursionError
  | IndexError
  | OverflowError
  | ZeroDivisionError
  | AttributeError

section \<open>Type tests, truth, access\<close>

text \<open>\<open>isinstance(v, int)\<close> holds of booleans too.\<close>

fun is_int :: "pyval \<Rightarrow> bool" where
  "is_int (PInt _) = True"
| "is_int (PBool _) = True"
| "is_int _ = False"

fun int_of :: "pyval \<Rightarrow> int" where
  "int_of (PInt i) = i"
| "int_of (PBool b) = (if b then 1 else 0)"
| "int_of _ = 0"

fun is_str :: "pyval \<Rightarrow> bool" where
  "is_str (PStr _) = True"
| "is_str _ = False"

fun is_float :: "pyval \<Rightarrow> bool" where
  "is_float (PFloat _) = True"
| "is_float _ = False"

fun is_dict :: "pyval \<Rightarrow> bool" where
  "is_dict (PDict _) = True"
| "is_dict _ = False"

definition isfinite :: "string \<Rightarrow> bool" where
  "isfinite r \<longleftrightarrow> r \<notin> {''nan'', ''inf'', ''-inf''}"

fun truthy :: "pyval \<Rightarrow> bool" where
  "truthy PNone = False"
| "truthy (PBool b) = b"
| "truthy (PInt i) = (i \<noteq> 0)"
| "truthy (PFloat r) = (r \<notin> {''0.0'', ''-0.0''})"
| "truthy (PComplex r) = (r \<notin> {''0j'', ''-0j'', ''(-0+0j)'', ''(-0-0j)''})"
| "truthy (PStr s) = (s \<noteq> [])"
| "truthy (PList xs) = (xs \<noteq> [])"
| "truthy (PDict d) = (d \<noteq> [])"

text \<open>Membership in a set hashes the value: lists and dictionaries raise \<open>TypeError\<close>.\<close>

fun hashable :: "pyval \<Rightarrow> bool" where
  "hashable (PList _) = False"
| "hashable (PDict _) = False"
| "hashable _ = True"

text \<open>\<open>v in names\<close> for a set of strings.\<close>

definition in_str_set :: "pyval \<Rightarrow> string list \<Rightarrow> (pyexn, bool) result" where
  "in_str_set v names =
     (if hashable v then Inr (case v of PStr s \<Rightarrow> s \<in> set names | _ \<Rightarrow> False) else Inl TypeError)"

text \<open>\<open>d.get(k)\<close> on a dictionary of values, with \<open>None\<close> for a missing key.\<close>

definition vget :: "(string, pyval) dict \<Rightarrow> string \<Rightarrow> pyval" where
  "vget d k = dget_or d k PNone"

lemma vget_simps [simp]: "vget [] k = PNone" "vget ((k', v) # d) k = (if k = k' then v else vget d k)"
  by (simp_all add: vget_def dget_or_def)

lemma is_int_cases: "is_int v \<Longrightarrow> (\<exists>i. v = PInt i) \<or> (\<exists>b. v = PBool b)"
  by (cases v) auto

lemma is_str_iff: "is_str v \<longleftrightarrow> (\<exists>s. v = PStr s)"
  by (cases v) auto

section \<open>Canonical form\<close>

text \<open>
  \<open>json.dumps(\<dots>, sort_keys=True)\<close> visits the entries of every dictionary in the order of
  their keys. The canonical form of a value is the value with every dictionary in that order.
\<close>

fun canon :: "pyval \<Rightarrow> pyval" where
  "canon (PList xs) = PList (map canon xs)"
| "canon (PDict d) = PDict (sort_key fst (map (\<lambda>(k, v). (k, canon v)) d))"
| "canon v = v"

text \<open>Well-formed values: dictionaries have distinct keys.\<close>

fun wf_val :: "pyval \<Rightarrow> bool" where
  "wf_val (PList xs) = list_all wf_val xs"
| "wf_val (PDict d) = (wf_dict d \<and> list_all (\<lambda>(k, v). wf_val v) d)"
| "wf_val v = True"

text \<open>
  Equality of payloads: dictionaries are compared as maps, everything else structurally. Two
  well-formed values are equal in this sense exactly when their canonical forms coincide, which is
  how the comparison is defined.
\<close>

definition same_payload :: "pyval \<Rightarrow> pyval \<Rightarrow> bool" where
  "same_payload v w \<longleftrightarrow> canon v = canon w"

lemma fst_canon_entries: "map fst (map (\<lambda>(k, v). (k, f v)) d) = map fst d"
  by (induction d) auto

lemma canon_canon [simp]: "canon (canon v) = canon v"
proof (induction v rule: canon.induct)
  case (1 xs)
  then show ?case by simp
next
  case (2 d)
  let ?m = "map (\<lambda>(k, v). (k, canon v)) d"
  have "map (\<lambda>(k, v). (k, canon v)) (sort_key fst ?m) = sort_key fst ?m"
    using 2 by (intro map_idI) (auto; metis)
  moreover have "sort_key fst (sort_key fst ?m) = sort_key fst ?m"
    by (rule sort_key_id_if_sorted) simp
  ultimately show ?case by simp
qed auto

lemma wf_val_canon [simp]: "wf_val (canon v) \<longleftrightarrow> wf_val v"
proof (induction v rule: canon.induct)
  case (1 xs)
  then show ?case by (simp add: list_all_iff)
next
  case (2 d)
  let ?m = "map (\<lambda>(k, v). (k, canon v)) d"
  have keys: "wf_dict ?m \<longleftrightarrow> wf_dict d"
    by (simp only: fst_canon_entries)
  have "list_all (\<lambda>(k, v). wf_val v) ?m \<longleftrightarrow> list_all (\<lambda>(k, v). wf_val v) d"
    using 2 by (auto simp: list_all_iff)
  with keys show ?case by (simp add: list_all_iff)
qed auto

lemma map_of_canon_entries: "map_of (map (\<lambda>(k, v). (k, f v)) d) k = map_option f (map_of d k)"
  by (induction d) auto

lemma canon_dict_lookup:
  assumes "wf_dict d" and "canon (PDict d) = PDict e"
  shows "map_of e k = map_option canon (map_of d k)"
proof -
  have "wf_dict (map (\<lambda>(k, v). (k, canon v)) d)"
    using assms(1) by (simp only: fst_canon_entries)
  moreover have "e = sort_key fst (map (\<lambda>(k, v). (k, canon v)) d)"
    using assms(2) by simp
  ultimately show ?thesis by (simp add: map_of_canon_entries)
qed

text \<open>
  On dictionaries of scalars equality of payloads is equality of the maps, whatever the order in
  which the keys were inserted.
\<close>

lemma sorted_entries_unique:
  assumes "wf_dict d" "wf_dict e" "map_of d = map_of e"
  shows "sort_key fst d = sort_key fst (e :: (string \<times> 'v) list)"
proof (rule map_sorted_distinct_set_unique [where f = fst])
  show "inj_on fst (set (sort_key fst d) \<union> set (sort_key fst e))"
  proof -
    have "set d = set e" using assms by (simp add: map_of_inject_set)
    with assms show ?thesis by (simp add: distinct_map)
  qed
  show "sorted (map fst (sort_key fst d))" "sorted (map fst (sort_key fst e))" by simp_all
  show "distinct (map fst (sort_key fst d))" "distinct (map fst (sort_key fst e))"
    using assms by simp_all
  show "set (sort_key fst d) = set (sort_key fst e)"
    using assms by (simp add: map_of_inject_set)
qed

lemma same_payload_dict:
  assumes "wf_dict d" "wf_dict e" "\<And>k. map_option canon (map_of d k) = map_option canon (map_of e k)"
  shows "same_payload (PDict d) (PDict e)"
proof -
  let ?c = "\<lambda>d. map (\<lambda>(k, v). (k, canon v)) d"
  have "sort_key fst (?c d) = sort_key fst (?c e)"
  proof (rule sorted_entries_unique)
    show "wf_dict (?c d)" "wf_dict (?c e)"
      using assms by (simp_all only: fst_canon_entries)
    show "map_of (?c d) = map_of (?c e)"
      using assms(3) by (intro ext) (simp add: map_of_canon_entries)
  qed
  then show ?thesis by (simp add: same_payload_def)
qed

end
