(* ===== verification/PyJson.thy ===== *)
theory PyJson
  imports PyValue
begin

text \<open>
  The JSON text the services hash, store and compare: \<open>json.dumps(v, sort_keys=True,
  separators=(",", ":"))\<close> with its default ASCII escaping, and \<open>json.loads\<close>. The main fact is
  the round trip: reading canonical text gives the canonical form back. It makes equality of
  canonical texts the same as equality of payloads.
\<close>

section \<open>Writing\<close>

definition hex_digit :: "nat \<Rightarrow> char" where
  "hex_digit n = (if n < 10 then char_of (48 + n) else char_of (87 + n))"

definition json_char :: "char \<Rightarrow> string" where
  "json_char c = (let n = ord c in
     if n = 34 then [CHR 0x5C, CHR 0x22]
     else if n = 92 then [CHR 0x5C, CHR 0x5C]
     else if n = 10 then [CHR 0x5C, CHR ''n'']
     else if n = 13 then [CHR 0x5C, CHR ''r'']
     else if n = 9 then [CHR 0x5C, CHR ''t'']
     else if n = 8 then [CHR 0x5C, CHR ''b'']
     else if n = 12 then [CHR 0x5C, CHR ''f'']
     else if 32 \<le> n \<and> n \<le> 126 then [c]
     else [CHR 0x5C, CHR ''u'', CHR ''0'', CHR ''0'', hex_digit (n div 16), hex_digit (n mod 16)])"

definition json_str :: "string \<Rightarrow> string" where
  "json_str s = CHR 0x22 # concat (map json_char s) @ [CHR 0x22]"

definition json_float :: "string \<Rightarrow> string" where
  "json_float r = (if r = ''nan'' then ''NaN'' else if r = ''inf'' then ''Infinity''
     else if r = ''-inf'' then ''-Infinity'' else r)"

fun json_text :: "pyval \<Rightarrow> string" where
  "json_text PNone = ''null''"
| "json_text (PBool b) = (if b then ''true'' else ''false'')"
| "json_text (PInt i) = show_int i"
| "json_text (PFloat r) = json_float r"
| "json_text (PComplex r) = []"
| "json_text (PStr s) = json_str s"
| "json_text (PList xs) = ''['' @ py_join '','' (map json_text xs) @ '']''"
| "json_text (PDict d) =
     ''{'' @ py_join '','' (map (\<lambda>(k, v). json_str k @ '':'' @ json_text v) d) @ ''}''"

text \<open>
  The first error the encoder meets: a complex number is not serialisable, and with
  \<open>allow_nan=False\<close> a non-finite float raises \<open>ValueError\<close>.
\<close>

fun json_error :: "bool \<Rightarrow> pyval \<Rightarrow> pyexn option" where
  "json_error nan_ok (PFloat r) =
     (if nan_ok \<or> isfinite r then None
      else Some (ValueError ''Out of range float values are not JSON compliant''))"
| "json_error nan_ok (PComplex r) = Some TypeError"
| "json_error nan_ok (PList xs) =
     foldr (\<lambda>x e. case json_error nan_ok x of None \<Rightarrow> e | Some f \<Rightarrow> Some f) xs None"
| "json_error nan_ok (PDict d) =
     foldr (\<lambda>(k, v) e. case json_error nan_ok v of None \<Rightarrow> e | Some f \<Rightarrow> Some f) d None"
| "json_error nan_ok v = None"

definition json_dumps :: "bool \<Rightarrow> pyval \<Rightarrow> (pyexn, string) result" where
  "json_dumps nan_ok v =
     (let w = canon v in
      case json_error nan_ok w of Some e \<Rightarrow> Inl e | None \<Rightarrow> Inr (json_text w))"

section \<open>Reading\<close>

definition json_ws :: "char \<Rightarrow> bool" where
  "json_ws c \<longleftrightarrow> c \<in> {CHR '' '', CHR 0x09, CHR 0x0A, CHR 0x0D}"

definition skip_ws :: "string \<Rightarrow> string" where
  "skip_ws s = dropWhile json_ws s"

definition hex_val :: "char \<Rightarrow> nat option" where
  "hex_val c = (let n = ord c in
     if 48 \<le> n \<and> n \<le> 57 then Some (n - 48)
     else if 97 \<le> n \<and> n \<le> 102 then Some (n - 87)
     else if 65 \<le> n \<and> n \<le> 70 then Some (n - 55) else None)"

definition unescape :: "char \<Rightarrow> char option" where
  "unescape c =
     (if c = CHR 0x22 \<or> c = CHR 0x5C \<or> c = CHR ''/'' then Some c
      else if c = CHR ''n'' then Some (CHR 0x0A)
      else if c = CHR ''r'' then Some (CHR 0x0D)
      else if c = CHR ''t'' then Some (CHR 0x09)
      else if c = CHR ''b'' then Some (CHR 0x08)
      else if c = CHR ''f'' then Some (CHR 0x0C) else None)"

definition hex4 :: "char \<Rightarrow> char \<Rightarrow> char \<Rightarrow> char \<Rightarrow> nat option" where
  "hex4 a b c d = (case (hex_val a, hex_val b, hex_val c, hex_val d) of
       (Some w, Some x, Some y, Some z) \<Rightarrow> Some (((w * 16 + x) * 16 + y) * 16 + z)
     | _ \<Rightarrow> None)"

text \<open>The rest of a string literal after its opening quote; code points of 256 and more are outside the model.\<close>

fun pstr :: "string \<Rightarrow> (string \<times> string) option" where
  "pstr [] = None"
| "pstr (c # cs) =
     (if c = CHR 0x22 then Some ([], cs)
      else if c = CHR 0x5C then
        (case cs of
           [] \<Rightarrow> None
         | e # t \<Rightarrow>
             (if e = CHR ''u'' then
                (case t of
                   a # b # x # y # u \<Rightarrow>
                     (case hex4 a b x y of
                        None \<Rightarrow> None
                      | Some n \<Rightarrow> if n < 256 then map_option (apfst ((#) (char_of n))) (pstr u) else None)
                 | _ \<Rightarrow> None)
              else (case unescape e of
                      None \<Rightarrow> None
                    | Some ch \<Rightarrow> map_option (apfst ((#) ch)) (pstr t))))
      else if ord c < 32 then None
      else map_option (apfst ((#) c)) (pstr cs))"

text \<open>Numbers: \<open>-?(0|[1-9][0-9]*)(\.[0-9]+)?([eE][-+]?[0-9]+)?\<close>, part by part.\<close>

definition sign_part :: "string \<Rightarrow> string" where
  "sign_part s = (case s of [] \<Rightarrow> [] | c # t \<Rightarrow> if c = CHR ''-'' then [c] else [])"

definition int_part :: "string \<Rightarrow> string" where
  "int_part s = (case s of [] \<Rightarrow> [] | c # t \<Rightarrow> if c = CHR ''0'' then [c] else takeWhile is_digit s)"

definition frac_part :: "string \<Rightarrow> string" where
  "frac_part s = (case s of [] \<Rightarrow> []
     | c # t \<Rightarrow> if c = CHR ''.'' \<and> takeWhile is_digit t \<noteq> [] then c # takeWhile is_digit t else [])"

definition exp_sign :: "string \<Rightarrow> string" where
  "exp_sign s = (case s of [] \<Rightarrow> [] | c # t \<Rightarrow> if c = CHR ''-'' \<or> c = CHR ''+'' then [c] else [])"

definition exp_part :: "string \<Rightarrow> string" where
  "exp_part s = (case s of [] \<Rightarrow> []
     | c # t \<Rightarrow>
         (if c = CHR ''e'' \<or> c = CHR ''E'' then
            (let sg = exp_sign t; ds = takeWhile is_digit (drop (length sg) t)
             in if ds = [] then [] else c # sg @ ds)
          else []))"

definition pnum :: "string \<Rightarrow> (pyval \<times> string) option" where
  "pnum s =
     (let sg = sign_part s; t = drop (length sg) s;
          ds = int_part t; r = drop (length ds) t;
          fr = frac_part r; r2 = drop (length fr) r;
          ex = exp_part r2; r3 = drop (length ex) r2
      in if ds = [] then None
         else if fr = [] \<and> ex = [] then
           Some (PInt (if sg = [] then int (digits_val 0 ds) else - int (digits_val 0 ds)), r3)
         else Some (PFloat (sg @ ds @ fr @ ex), r3))"

fun pval :: "nat \<Rightarrow> string \<Rightarrow> (pyval \<times> string) option"
and pelems :: "nat \<Rightarrow> string \<Rightarrow> (pyval list \<times> string) option"
and pmembers :: "nat \<Rightarrow> string \<Rightarrow> ((string \<times> pyval) list \<times> string) option" where
  "pval 0 s = None"
| "pval (Suc n) s =
     (case s of
        [] \<Rightarrow> None
      | c # t \<Rightarrow>
          (if c = CHR 0x22 then map_option (apfst PStr) (pstr t)
           else if c = CHR ''['' then
             (case skip_ws t of
                [] \<Rightarrow> None
              | d # u \<Rightarrow> if d = CHR '']'' then Some (PList [], u)
                        else map_option (apfst PList) (pelems n (d # u)))
           else if c = CHR ''{'' then
             (case skip_ws t of
                [] \<Rightarrow> None
              | d # u \<Rightarrow> if d = CHR ''}'' then Some (PDict [], u)
                        else map_option (apfst (\<lambda>kvs. PDict (foldl (\<lambda>e (k, v). dset k v e) [] kvs)))
                               (pmembers n (d # u)))
           else if py_startswith s ''null'' then Some (PNone, drop 4 s)
           else if py_startswith s ''true'' then Some (PBool True, drop 4 s)
           else if py_startswith s ''false'' then Some (PBool False, drop 5 s)
           else if py_startswith s ''NaN'' then Some (PFloat ''nan'', drop 3 s)
           else if py_startswith s ''Infinity'' then Some (PFloat ''inf'', drop 8 s)
           else if py_startswith s ''-Infinity'' then Some (PFloat ''-inf'', drop 9 s)
           else pnum s))"
| "pelems 0 s = None"
| "pelems (Suc n) s =
     (case pval n s of
        None \<Rightarrow> None
      | Some (v, r) \<Rightarrow>
          (case skip_ws r of
             [] \<Rightarrow> None
           | c # t \<Rightarrow> if c = CHR '']'' then Some ([v], t)
                     else if c = CHR '','' then map_option (apfst ((#) v)) (pelems n (skip_ws t))
                     else None))"
| "pmembers 0 s = None"
| "pmembers (Suc n) s =
     (case s of
        [] \<Rightarrow> None
      | q # s' \<Rightarrow>
          (if q \<noteq> CHR 0x22 then None
           else case pstr s' of
             None \<Rightarrow> None
           | Some (k, r) \<Rightarrow>
               (case skip_ws r of
                  [] \<Rightarrow> None
                | c # t \<Rightarrow>
                    (if c \<noteq> CHR '':'' then None
                     else case pval n (skip_ws t) of
                       None \<Rightarrow> None
                     | Some (v, r') \<Rightarrow>
                         (case skip_ws r' of
                            [] \<Rightarrow> None
                          | c' # t' \<Rightarrow>
                              (if c' = CHR ''}'' then Some ([(k, v)], t')
                               else if c' = CHR '','' then
                                 map_option (apfst ((#) (k, v))) (pmembers n (skip_ws t'))
                               else None))))))"

text \<open>
  Every call of a value parser is below a bracket and every further element or member is behind a
  comma, so a fuel of twice the length of the text is never exhausted by text that
  \<open>json_dumps\<close> wrote (\<open>json_need_le\<close> below).
\<close>

definition json_loads :: "string \<Rightarrow> pyval option" where
  "json_loads s =
     (case pval (Suc (2 * length s)) (skip_ws s) of
        Some (v, r) \<Rightarrow> if skip_ws r = [] then Some v else None
      | None \<Rightarrow> None)"

section \<open>Round trip\<close>

text \<open>What follows a value inside canonical text: nothing, a comma or a closing bracket.\<close>

definition stop :: "string \<Rightarrow> bool" where
  "stop r \<longleftrightarrow> r = [] \<or> hd r \<in> {CHR '','', CHR '']'', CHR ''}''}"

lemma stop_digit: "stop r \<Longrightarrow> takeWhile is_digit r = []"
  by (cases r) (auto simp: stop_def is_digit_def)

lemma takeWhile_digit_append: "stop r \<Longrightarrow> takeWhile is_digit (s @ r) = takeWhile is_digit s"
  by (induction s) (auto simp: stop_digit)

lemma stop_skip [simp]: "stop r \<Longrightarrow> skip_ws r = r"
  by (cases r) (auto simp: stop_def skip_ws_def json_ws_def)

lemma hex_round:
  assumes "n < 256" shows "hex4 (CHR ''0'') (CHR ''0'') (hex_digit (n div 16)) (hex_digit (n mod 16)) = Some n"
proof -
  have "hex_val (hex_digit m) = Some m" if "m < 16" for m
    using that by (auto simp: hex_val_def hex_digit_def Let_def)
  moreover have "n div 16 < 16" "n mod 16 < 16" using assms by auto
  moreover have "hex_val (CHR ''0'') = Some 0" by (simp add: hex_val_def)
  ultimately show ?thesis by (simp add: hex4_def)
qed

lemma ord_inject: "ord c = ord d \<longleftrightarrow> c = d"
  by (metis char_of_char)

lemma ord_special:
  "ord c = 34 \<longleftrightarrow> c = CHR 0x22" "ord c = 92 \<longleftrightarrow> c = CHR 0x5C" "ord c = 10 \<longleftrightarrow> c = CHR 0x0A"
  "ord c = 13 \<longleftrightarrow> c = CHR 0x0D" "ord c = 9 \<longleftrightarrow> c = CHR 0x09" "ord c = 8 \<longleftrightarrow> c = CHR 0x08"
  "ord c = 12 \<longleftrightarrow> c = CHR 0x0C"
  by (subst ord_inject [symmetric], simp)+

lemma pstr_escape:
  "pstr (CHR 0x5C # e # s) =
     (if e = CHR ''u'' then
        (case s of a # b # x # y # u \<Rightarrow>
             (case hex4 a b x y of
                None \<Rightarrow> None
              | Some n \<Rightarrow> if n < 256 then map_option (apfst ((#) (char_of n))) (pstr u) else None)
         | _ \<Rightarrow> None)
      else (case unescape e of None \<Rightarrow> None | Some ch \<Rightarrow> map_option (apfst ((#) ch)) (pstr s)))"
  by (simp split: list.splits)

lemma pstr_char: "pstr (json_char c @ s) = map_option (apfst ((#) c)) (pstr s)"
proof -
  have lt: "ord c < 256" by simp
  consider (esc) "c \<in> {CHR 0x22, CHR 0x5C, CHR 0x0A, CHR 0x0D, CHR 0x09, CHR 0x08, CHR 0x0C}"
    | (plain) "32 \<le> ord c" "ord c \<le> 126" "c \<noteq> CHR 0x22" "c \<noteq> CHR 0x5C"
    | (other) "ord c < 32 \<or> 126 < ord c"
        "c \<notin> {CHR 0x22, CHR 0x5C, CHR 0x0A, CHR 0x0D, CHR 0x09, CHR 0x08, CHR 0x0C}"
    by fastforce
  then show ?thesis
  proof cases
    case esc
    then show ?thesis
      by (elim insertE emptyE; simp add: json_char_def unescape_def)
  next
    case plain
    then have "json_char c = [c]" by (auto simp: json_char_def Let_def ord_special)
    then show ?thesis using plain by simp
  next
    case other
    then have "json_char c = [CHR 0x5C, CHR ''u'', CHR ''0'', CHR ''0'',
        hex_digit (ord c div 16), hex_digit (ord c mod 16)]"
      by (auto simp: json_char_def Let_def ord_special)
    then show ?thesis using lt by (simp only: append_Cons append_Nil pstr_escape) (simp add: hex_round)
  qed
qed

lemma pstr_json_str: "pstr (concat (map json_char s) @ CHR 0x22 # r) = Some (s, r)"
  by (induction s) (auto simp: pstr_char)

lemma sign_part_stop: "stop r \<Longrightarrow> sign_part (s @ r) = sign_part s"
  by (cases s; cases r) (auto simp: sign_part_def stop_def)

lemma int_part_stop: "stop r \<Longrightarrow> int_part (s @ r) = int_part s"
  by (cases s; cases r) (auto simp: int_part_def stop_def takeWhile_digit_append is_digit_def)

lemma frac_part_stop: "stop r \<Longrightarrow> frac_part (s @ r) = frac_part s"
  by (cases s; cases r) (auto simp: frac_part_def stop_def takeWhile_digit_append)

lemma exp_sign_stop: "stop r \<Longrightarrow> exp_sign (s @ r) = exp_sign s"
  by (cases s; cases r) (auto simp: exp_sign_def stop_def)

lemma exp_sign_le: "length (exp_sign s) \<le> length s"
  by (cases s) (auto simp: exp_sign_def)

lemma exp_part_stop: "stop r \<Longrightarrow> exp_part (s @ r) = exp_part s"
proof (cases s)
  case Nil
  moreover assume "stop r"
  ultimately show ?thesis by (cases r) (auto simp: exp_part_def stop_def)
next
  case (Cons c t)
  assume st: "stop r"
  have "drop (length (exp_sign t)) (t @ r) = drop (length (exp_sign t)) t @ r"
    using exp_sign_le [of t] by simp
  with st Cons show ?thesis
    by (simp add: exp_part_def exp_sign_stop takeWhile_digit_append)
qed

lemma takeWhile_le: "length (takeWhile P s) \<le> length s"
  by (simp add: length_takeWhile_le)

lemma sign_part_le: "length (sign_part s) \<le> length s"
  by (cases s) (auto simp: sign_part_def)

lemma int_part_le: "length (int_part s) \<le> length s"
  using takeWhile_le [of is_digit s] by (cases s) (auto simp: int_part_def)

lemma frac_part_le: "length (frac_part s) \<le> length s"
  using takeWhile_le [of is_digit "tl s"] by (cases s) (auto simp: frac_part_def)

lemma exp_part_le: "length (exp_part s) \<le> length s"
proof (cases s)
  case (Cons c t)
  have "length (takeWhile is_digit (drop (length (exp_sign t)) t)) \<le> length t - length (exp_sign t)"
    using takeWhile_le [of is_digit "drop (length (exp_sign t)) t"] by simp
  then have "length (exp_sign t) + length (takeWhile is_digit (drop (length (exp_sign t)) t)) \<le> length t"
    using exp_sign_le [of t] by simp
  with Cons show ?thesis by (simp add: exp_part_def Let_def)
qed (simp add: exp_part_def)

lemma pnum_stop:
  assumes s: "pnum s = Some (v, r)" and q: "stop q"
  shows "pnum (s @ q) = Some (v, r @ q)"
proof -
  define sg where "sg = sign_part s"
  define t where "t = drop (length sg) s"
  define ds where "ds = int_part t"
  define r1 where "r1 = drop (length ds) t"
  define fr where "fr = frac_part r1"
  define r2 where "r2 = drop (length fr) r1"
  define ex where "ex = exp_part r2"
  define r3 where "r3 = drop (length ex) r2"
  have "sign_part (s @ q) = sg" "drop (length sg) (s @ q) = t @ q"
    using sign_part_le [of s] q by (simp_all add: sg_def t_def sign_part_stop)
  moreover have "int_part (t @ q) = ds" "drop (length ds) (t @ q) = r1 @ q"
    using int_part_le [of t] q by (simp_all add: ds_def r1_def int_part_stop)
  moreover have "frac_part (r1 @ q) = fr" "drop (length fr) (r1 @ q) = r2 @ q"
    using frac_part_le [of r1] q by (simp_all add: fr_def r2_def frac_part_stop)
  moreover have "exp_part (r2 @ q) = ex" "drop (length ex) (r2 @ q) = r3 @ q"
    using exp_part_le [of r2] q by (simp_all add: ex_def r3_def exp_part_stop)
  ultimately have "pnum (s @ q) = (if ds = [] then None
      else if fr = [] \<and> ex = [] then
        Some (PInt (if sg = [] then int (digits_val 0 ds) else - int (digits_val 0 ds)), r3 @ q)
      else Some (PFloat (sg @ ds @ fr @ ex), r3 @ q))"
    unfolding pnum_def Let_def by presburger
  moreover have "pnum s = (if ds = [] then None
      else if fr = [] \<and> ex = [] then
        Some (PInt (if sg = [] then int (digits_val 0 ds) else - int (digits_val 0 ds)), r3)
      else Some (PFloat (sg @ ds @ fr @ ex), r3))"
    unfolding pnum_def Let_def sg_def t_def ds_def r1_def fr_def r2_def ex_def r3_def by (rule refl)
  ultimately show ?thesis using s by (simp split: if_splits)
qed

lemma takeWhile_all_digits: "list_all is_digit s \<Longrightarrow> takeWhile is_digit s = s"
  by (simp add: list_all_iff)

lemma pnum_digits:
  assumes "s = show_nat n"
  shows "pnum s = Some (PInt (int n), [])" "pnum (CHR ''-'' # s) = Some (PInt (- int n), [])"
proof -
  obtain c t where ct: "s = c # t" using assms show_nat_not_Nil [of n] by (metis list.exhaust)
  have c: "is_digit c" and tw: "takeWhile is_digit s = s"
    using show_nat_digits [of n] show_nat_hd [of n] ct unfolding assms [symmetric]
    by (simp_all add: takeWhile_all_digits)
  have "c = CHR ''0'' \<Longrightarrow> t = []"
    using show_nat_no_leading_zero [of n] ct assms
    by (cases "n = 0") (auto simp: show_nat.simps)
  then have ip: "int_part s = s" using tw ct by (auto simp: int_part_def)
  have "c \<noteq> CHR ''-''" using c by (auto simp: is_digit_def)
  then have "sign_part s = []" using ct by (simp add: sign_part_def)
  then show "pnum s = Some (PInt (int n), [])"
    using ip assms ct by (simp add: pnum_def frac_part_def exp_part_def)
  show "pnum (CHR ''-'' # s) = Some (PInt (- int n), [])"
    using ip assms ct by (simp add: pnum_def frac_part_def exp_part_def sign_part_def)
qed

lemma pnum_show_int: "pnum (show_int i) = Some (PInt i, [])"
  using pnum_digits [of "show_nat (nat i)" "nat i"] pnum_digits [of "show_nat (nat (- i))" "nat (- i)"]
  by (auto simp: show_int_def)


text \<open>A finite float's repr is a JSON number with a fraction or an exponent.\<close>

definition wf_float :: "string \<Rightarrow> bool" where
  "wf_float r \<longleftrightarrow> pnum r = Some (PFloat r, [])"

fun wf_json :: "pyval \<Rightarrow> bool" where
  "wf_json (PFloat r) = (r \<in> {''nan'', ''inf'', ''-inf''} \<or> wf_float r)"
| "wf_json (PComplex r) = False"
| "wf_json (PList xs) = list_all wf_json xs"
| "wf_json (PDict d) = (wf_dict d \<and> list_all (\<lambda>(k, v). wf_json v) d)"
| "wf_json v = True"

fun json_need :: "pyval \<Rightarrow> nat" where
  "json_need (PList xs) = 2 + sum_list (map (\<lambda>x. json_need x + 1) xs)"
| "json_need (PDict d) = 2 + sum_list (map (\<lambda>(k, v). json_need v + 1) d)"
| "json_need v = 1"

text \<open>The first character of a value's text selects the branch of the parser.\<close>

lemma pnum_hd:
  assumes "pnum s = Some (v, r)"
  shows "\<exists>c t. s = c # t \<and> (is_digit c \<or> c = CHR ''-'')"
proof (cases s)
  case Nil
  with assms show ?thesis by (simp add: pnum_def sign_part_def int_part_def)
next
  case (Cons c t)
  with assms show ?thesis
    by (auto simp: pnum_def sign_part_def int_part_def Let_def is_digit_def split: if_splits)
qed

lemma pnum_not_I:
  assumes "pnum s = Some (v, r)" shows "\<not> py_startswith s ''-I''"
proof
  assume "py_startswith s ''-I''"
  then obtain t where "s = CHR ''-'' # CHR ''I'' # t"
    by (cases s; cases "tl s") (auto simp: py_startswith_def)
  with assms show False
    by (simp add: pnum_def sign_part_def int_part_def is_digit_def)
qed

lemma pval_num:
  assumes "pnum s = Some (v, r)" and "stop q"
  shows "pval (Suc n) (s @ q) = Some (v, r @ q)"
proof -
  obtain c t where s: "s = c # t" and c: "is_digit c \<or> c = CHR ''-''"
    using pnum_hd [OF assms(1)] by auto
  have "\<not> py_startswith (s @ q) ''-I''"
    using pnum_not_I pnum_stop [OF assms] by blast
  then have "\<not> py_startswith (s @ q) ''-Infinity''"
    using py_startswith_prefix [of "s @ q" "''-I''" "''nfinity''"] by auto
  moreover have "c \<noteq> CHR 0x22" "c \<noteq> CHR ''[''" "c \<noteq> CHR ''{''" "c \<noteq> CHR ''n''" "c \<noteq> CHR ''t''"
    "c \<noteq> CHR ''f''" "c \<noteq> CHR ''N''" "c \<noteq> CHR ''I''"
    using c by (auto simp: is_digit_def)
  ultimately show ?thesis
    using pnum_stop [OF assms] s by auto
qed

lemma wf_float_sim: "wf_float r \<Longrightarrow> r \<notin> {''nan'', ''inf'', ''-inf''}"
  by (auto simp: wf_float_def pnum_def sign_part_def int_part_def is_digit_def)

lemma json_str_hd: "json_str k @ r = CHR 0x22 # (concat (map json_char k) @ CHR 0x22 # r)"
  by (simp add: json_str_def)

text \<open>A value's text starts with neither white space nor a closing bracket.\<close>

lemma json_text_hd:
  assumes "wf_json v"
  shows "\<exists>c t. json_text v = c # t \<and> \<not> json_ws c \<and> c \<noteq> CHR '']'' \<and> c \<noteq> CHR ''}''"
proof (cases v)
  case (PInt i)
  obtain c t where "show_int i = c # t" "is_digit c \<or> c = CHR ''-''"
    using pnum_hd [OF pnum_show_int] by blast
  then show ?thesis using PInt by (auto simp: is_digit_def json_ws_def)
next
  case (PFloat r)
  show ?thesis
  proof (cases "r \<in> {''nan'', ''inf'', ''-inf''}")
    case True
    then show ?thesis using PFloat by (auto simp: json_float_def json_ws_def)
  next
    case False
    then have "wf_float r" using assms PFloat by simp
    then obtain c t where "r = c # t" "is_digit c \<or> c = CHR ''-''"
      using pnum_hd [of r "PFloat r" "[]"] by (auto simp: wf_float_def)
    then show ?thesis using PFloat False by (auto simp: json_float_def is_digit_def json_ws_def)
  qed
qed (use assms in \<open>auto simp: json_ws_def json_str_def\<close>)

lemma skip_text: "wf_json v \<Longrightarrow> skip_ws (json_text v @ r) = json_text v @ r"
  using json_text_hd [of v] by (auto simp: skip_ws_def)

definition parses :: "pyval \<Rightarrow> bool" where
  "parses v \<longleftrightarrow> (\<forall>n r. json_need v \<le> n \<longrightarrow> stop r \<longrightarrow> pval n (json_text v @ r) = Some (v, r))"

lemma parsesD:
  assumes "parses v" "json_need v \<le> n" "c \<in> {CHR '','', CHR '']'', CHR ''}''}"
  shows "pval n (json_text v @ c # r) = Some (v, c # r)"
proof -
  have "stop (c # r)" using assms(3) by (simp add: stop_def)
  with assms show ?thesis by (simp add: parses_def)
qed

lemma pelems_text:
  assumes "xs \<noteq> []" and "\<And>x. x \<in> set xs \<Longrightarrow> wf_json x \<and> parses x"
    and "sum_list (map (\<lambda>x. json_need x + 1) xs) < n"
  shows "pelems n (py_join '','' (map json_text xs) @ CHR '']'' # r) = Some (xs, r)"
  using assms
proof (induction xs arbitrary: n rule: list_nonempty_induct)
  case (single x)
  then obtain m where m: "n = Suc m" "json_need x \<le> m" by (cases n) auto
  have "pval m (json_text x @ CHR '']'' # r) = Some (x, CHR '']'' # r)"
    using single m by (intro parsesD) auto
  with m show ?case by (simp add: skip_ws_def json_ws_def)
next
  case (cons x xs)
  then obtain m where m: "n = Suc m" "json_need x \<le> m" "sum_list (map (\<lambda>x. json_need x + 1) xs) < m"
    by (cases n) auto
  let ?q = "py_join '','' (map json_text xs) @ CHR '']'' # r"
  obtain y ys where xs: "xs = y # ys" using cons by (cases xs) auto
  have "wf_json y" using cons xs by auto
  then have sk: "skip_ws ?q = ?q"
    using json_text_hd [of y] xs by (cases ys) (auto simp: skip_ws_def)
  have "pval m (json_text x @ CHR '','' # ?q) = Some (x, CHR '','' # ?q)"
    using cons m by (intro parsesD) auto
  moreover have "pelems m ?q = Some (xs, r)"
    using cons m by auto
  ultimately show ?case using m sk xs by (simp add: skip_ws_def json_ws_def)
qed

lemma pmembers_text:
  assumes "d \<noteq> []" and "\<And>k v. (k, v) \<in> set d \<Longrightarrow> wf_json v \<and> parses v"
    and "sum_list (map (\<lambda>(k, v). json_need v + 1) d) < n"
  shows "pmembers n (py_join '','' (map (\<lambda>(k, v). json_str k @ '':'' @ json_text v) d) @ CHR ''}'' # r) = Some (d, r)"
  using assms
proof (induction d arbitrary: n rule: list_nonempty_induct)
  case (single x)
  obtain k v where x: "x = (k, v)" by (cases x)
  from single x obtain m where m: "n = Suc m" "json_need v \<le> m" by (cases n) auto
  have "pval m (json_text v @ CHR ''}'' # r) = Some (v, CHR ''}'' # r)"
    using single m x by (intro parsesD) auto
  with m x single show ?case
    by (simp add: json_str_hd pstr_json_str skip_text skip_ws_def [of "CHR '':'' # _"] skip_ws_def [of "CHR ''}'' # _"] json_ws_def)
next
  case (cons x xs)
  obtain k v where x: "x = (k, v)" by (cases x)
  from cons x obtain m where m: "n = Suc m" "json_need v \<le> m"
      "sum_list (map (\<lambda>(k, v). json_need v + 1) xs) < m"
    by (cases n) auto
  let ?q = "py_join '','' (map (\<lambda>(k, v). json_str k @ '':'' @ json_text v) xs) @ CHR ''}'' # r"
  have sk: "skip_ws ?q = ?q"
    using cons by (cases xs; cases "tl xs") (auto simp: skip_ws_def json_ws_def json_str_def)
  have "pval m (json_text v @ CHR '','' # ?q) = Some (v, CHR '','' # ?q)"
    using cons m x by (intro parsesD) auto
  moreover have "pmembers m ?q = Some (xs, r)"
    using cons m by auto
  moreover obtain y ys where "xs = y # ys" using cons by (cases xs) auto
  moreover have "wf_json v" using cons x by auto
  ultimately show ?case using m sk x
    by (simp add: json_str_hd pstr_json_str skip_text skip_ws_def [of "CHR '':'' # _"] skip_ws_def [of "CHR '','' # _"] json_ws_def)
qed

lemma foldl_dset_append: "distinct (map fst (e @ d)) \<Longrightarrow> foldl (\<lambda>e (k, v). dset k v e) e d = e @ d"
  by (induction d arbitrary: e) (auto simp: dset_fresh)


lemma parses_int: "parses (PInt i)"
  unfolding parses_def
proof (intro allI impI)
  fix n r assume "json_need (PInt i) \<le> n" and st: "stop r"
  then obtain m where "n = Suc m" by (cases n) auto
  then show "pval n (json_text (PInt i) @ r) = Some (PInt i, r)"
    using pval_num [OF pnum_show_int st, of m i] by simp
qed

lemma parses_str: "parses (PStr s)"
  unfolding parses_def by (intro allI impI, case_tac n) (auto simp: json_str_hd pstr_json_str)

lemma parses_all: "wf_json v \<Longrightarrow> parses v"
proof (induction v rule: wf_json.induct)
  case (1 f)
  show ?case unfolding parses_def
  proof (intro allI impI)
    fix n r assume "json_need (PFloat f) \<le> n" and st: "stop r"
    then obtain m where n: "n = Suc m" by (cases n) auto
    show "pval n (json_text (PFloat f) @ r) = Some (PFloat f, r)"
    proof (cases "f \<in> {''nan'', ''inf'', ''-inf''}")
      case True
      then show ?thesis using n by (auto simp: json_float_def)
    next
      case False
      then have "pnum f = Some (PFloat f, [])" using 1 by (simp add: wf_float_def)
      from pval_num [OF this st] False n show ?thesis by (simp add: json_float_def)
    qed
  qed
next
  case (3 xs)
  show ?case unfolding parses_def
  proof (intro allI impI)
    fix n r assume le: "json_need (PList xs) \<le> n" and st: "stop r"
    then obtain m where n: "n = Suc m" by (cases n) auto
    show "pval n (json_text (PList xs) @ r) = Some (PList xs, r)"
    proof (cases xs)
      case Nil
      then show ?thesis using n by (simp add: skip_ws_def json_ws_def)
    next
      case (Cons y ys)
      have el: "pelems m (py_join '','' (map json_text xs) @ CHR '']'' # r) = Some (xs, r)"
        using 3 le n Cons by (intro pelems_text) (auto simp: list_all_iff)
      have "wf_json y" using 3 Cons by simp
      then obtain c t where ct: "py_join '','' (map json_text xs) @ CHR '']'' # r = c # t"
          "\<not> json_ws c" "c \<noteq> CHR '']''"
        using json_text_hd [of y] Cons by (cases ys) auto
      then show ?thesis using el n by (simp add: skip_ws_def)
    qed
  qed
next
  case (4 d)
  show ?case unfolding parses_def
  proof (intro allI impI)
    fix n r assume le: "json_need (PDict d) \<le> n" and st: "stop r"
    then obtain m where n: "n = Suc m" by (cases n) auto
    show "pval n (json_text (PDict d) @ r) = Some (PDict d, r)"
    proof (cases d)
      case Nil
      then show ?thesis using n by (simp add: skip_ws_def json_ws_def)
    next
      case (Cons y ys)
      let ?t = "py_join '','' (map (\<lambda>(k, v). json_str k @ '':'' @ json_text v) d) @ CHR ''}'' # r"
      have el: "pmembers m ?t = Some (d, r)"
        using 4 le n Cons by (intro pmembers_text) (fastforce simp: list_all_iff)+
      obtain t where "?t = CHR 0x22 # t"
        using Cons by (cases y; cases ys) (auto simp: json_str_def)
      moreover have "foldl (\<lambda>e (k, v). dset k v e) [] d = d"
        using foldl_dset_append [of "[]" d] 4 by simp
      ultimately show ?thesis using el n by (simp add: skip_ws_def json_ws_def)
    qed
  qed
qed (auto simp: parses_int parses_str, auto simp: parses_def dest!: Suc_le_D)

lemma join_length:
  "xs \<noteq> [] \<Longrightarrow> length (py_join '','' xs) + 1 = sum_list (map (\<lambda>x. length x + 1) xs)"
  by (induction xs rule: list_nonempty_induct) (auto simp: neq_Nil_conv)

lemma text_nonempty: "wf_json v \<Longrightarrow> 1 \<le> length (json_text v)"
  using json_text_hd [of v] by auto

lemma json_need_le: "wf_json v \<Longrightarrow> json_need v \<le> 2 * length (json_text v)"
proof (induction v rule: wf_json.induct)
  case (3 xs)
  show ?case
  proof (cases "xs = []")
    case False
    have "sum_list (map (\<lambda>x. json_need x + 1) xs) \<le> sum_list (map (\<lambda>x. 2 * (length (json_text x) + 1)) xs)"
      using 3 by (intro sum_list_mono) (fastforce simp: list_all_iff)
    also have "\<dots> = 2 * sum_list (map (\<lambda>x. length (json_text x) + 1) xs)"
      by (rule sum_list_const_mult)
    also have "\<dots> = 2 * (length (py_join '','' (map json_text xs)) + 1)"
      using join_length [of "map json_text xs"] False by (simp add: o_def)
    finally show ?thesis by simp
  qed simp
next
  case (4 d)
  let ?f = "\<lambda>(k, v). json_str k @ '':'' @ json_text v"
  show ?case
  proof (cases "d = []")
    case False
    have "sum_list (map (\<lambda>(k, v). json_need v + 1) d) \<le> sum_list (map (\<lambda>x. 2 * (length (?f x) + 1)) d)"
      using 4 by (intro sum_list_mono) (fastforce simp: list_all_iff)
    also have "\<dots> = 2 * sum_list (map (\<lambda>x. length (?f x) + 1) d)"
      by (rule sum_list_const_mult)
    also have "\<dots> = 2 * (length (py_join '','' (map ?f d)) + 1)"
      using join_length [of "map ?f d"] False by (simp add: o_def)
    finally show ?thesis by simp
  qed simp
qed (frule text_nonempty, simp)+

lemma json_loads_text: "wf_json v \<Longrightarrow> json_loads (json_text v) = Some v"
proof -
  assume v: "wf_json v"
  have "json_need v \<le> Suc (2 * length (json_text v))"
    using json_need_le [OF v] by simp
  with parses_all [OF v] have "pval (Suc (2 * length (json_text v))) (json_text v @ []) = Some (v, [])"
    unfolding parses_def by (simp only: stop_def) blast
  then show ?thesis
    using skip_text [OF v, of "[]"] by (simp add: json_loads_def skip_ws_def [of "[]"])
qed

section \<open>Canonical text\<close>

text \<open>
  The interface the services rely on when they store and compare canonical text: an encoder of
  values up to a normal form, and a decoder that reads the normal form back. Texts are then equal
  exactly when the normal forms are.
\<close>

locale canonical_encoding =
  fixes enc :: "'a \<Rightarrow> 'c" and dec :: "'c \<Rightarrow> 'a option" and norm :: "'a \<Rightarrow> 'a" and valid :: "'a \<Rightarrow> bool"
  assumes dec_enc: "valid x \<Longrightarrow> dec (enc x) = Some (norm x)"
    and enc_norm: "enc (norm x) = enc x"
begin

lemma enc_eq_iff: "valid x \<Longrightarrow> valid y \<Longrightarrow> enc x = enc y \<longleftrightarrow> norm x = norm y"
  by (metis dec_enc enc_norm option.inject)

text \<open>A digest of the text identifies the payload as long as the digest does not collide on it.\<close>

lemma digest_eq_iff:
  assumes "valid x" "valid y" "h (enc x) = h (enc y) \<Longrightarrow> enc x = enc y"
  shows "h (enc x) = h (enc y) \<longleftrightarrow> norm x = norm y"
  using assms enc_eq_iff by metis

end

lemma wf_json_canon [simp]: "wf_json (canon v) \<longleftrightarrow> wf_json v"
proof (induction v rule: canon.induct)
  case (1 xs)
  then show ?case by (simp add: list_all_iff)
next
  case (2 d)
  let ?m = "map (\<lambda>(k, v). (k, canon v)) d"
  have "wf_dict ?m \<longleftrightarrow> wf_dict d"
    by (simp only: fst_canon_entries)
  moreover have "list_all (\<lambda>(k, v). wf_json v) ?m \<longleftrightarrow> list_all (\<lambda>(k, v). wf_json v) d"
    using 2 by (auto simp: list_all_iff)
  ultimately show ?case by (simp add: list_all_iff)
qed auto

definition canonical_text :: "pyval \<Rightarrow> string" where
  "canonical_text v = json_text (canon v)"

interpretation json: canonical_encoding canonical_text json_loads canon wf_json
  by unfold_locales (simp_all add: canonical_text_def json_loads_text)

lemma foldr_none_iff:
  "foldr (\<lambda>x e. case f x of None \<Rightarrow> e | Some y \<Rightarrow> Some y) xs None = None \<longleftrightarrow> (\<forall>x\<in>set xs. f x = None)"
  by (induction xs) (auto split: option.splits)

lemma json_error_dict:
  "json_error b (PDict d) = None \<longleftrightarrow> (\<forall>(k, v)\<in>set d. json_error b v = None)"
proof -
  have "json_error b (PDict d) =
      foldr (\<lambda>x e. case json_error b (snd x) of None \<Rightarrow> e | Some y \<Rightarrow> Some y) d None"
    by (simp add: case_prod_unfold)
  then show ?thesis by (simp only: foldr_none_iff) (auto simp: case_prod_unfold)
qed

lemma json_error_list:
  "json_error b (PList xs) = None \<longleftrightarrow> (\<forall>v\<in>set xs. json_error b v = None)"
  by (simp add: foldr_none_iff)

text \<open>Values without complex numbers are serialised; with \<open>allow_nan\<close> this is no further restriction.\<close>

lemma json_error_wf: "wf_json v \<Longrightarrow> json_error True v = None"
proof (induction v rule: wf_json.induct)
  case (3 xs)
  then show ?case by (simp only: json_error_list) (simp add: list_all_iff)
next
  case (4 d)
  then show ?case by (simp only: json_error_dict) (fastforce simp: list_all_iff)
qed auto

lemma json_dumps_wf: "wf_json v \<Longrightarrow> json_dumps True v = Inr (canonical_text v)"
  by (simp add: json_dumps_def json_error_wf canonical_text_def)

lemma json_dumps_Inr: "json_dumps b v = Inr t \<Longrightarrow> t = canonical_text v"
  by (auto simp: json_dumps_def Let_def canonical_text_def split: option.splits)

section \<open>Canonical text is ASCII\<close>

lemma hex_digit_ascii: "n < 16 \<Longrightarrow> of_char (hex_digit n) < (128::nat)"
  by (simp add: hex_digit_def)

lemma json_char_ascii: "is_ascii (json_char c)"
proof -
  have "ord c div 16 < 16" "ord c mod 16 < 16" by (simp_all add: div_less_iff_less_mult)
  then show ?thesis by (auto simp: json_char_def Let_def hex_digit_ascii)
qed

lemma json_str_ascii: "is_ascii (json_str s)"
proof -
  have "is_ascii (concat (map json_char s))" using json_char_ascii by (induction s) auto
  then show ?thesis by (simp add: json_str_def)
qed

end
