(* ===== verification/Violations.thy ===== *)
theory Violations
  imports PyJson
begin

text \<open>
  The compiler's structured diagnostics (\<open>eigen_compiler/errors.py\<close>): field violations, their
  annotation with stage, rule and pass, and the diagnostics payload. Annotation never overwrites
  what an inner check already set, so a violation keeps the label of the innermost stage.
\<close>

record field_violation =
  fv_field :: string
  fv_description :: string
  fv_stage :: string
  fv_rule :: string
  fv_pass_name :: string

text \<open>\<open>FieldViolation(field=\<dots>, description=\<dots>)\<close>: the labels default to the empty string.\<close>

definition violation :: "string \<Rightarrow> string \<Rightarrow> field_violation" where
  "violation f d = \<lparr>fv_field = f, fv_description = d, fv_stage = [], fv_rule = [], fv_pass_name = []\<rparr>"

text \<open>Python's \<open>a or b\<close> on strings.\<close>

definition str_or :: "string \<Rightarrow> string \<Rightarrow> string" where
  "str_or a b = (if a \<noteq> [] then a else b)"

definition annotate1 :: "string \<Rightarrow> string \<Rightarrow> string \<Rightarrow> field_violation \<Rightarrow> field_violation" where
  "annotate1 st ru pa v =
     \<lparr>fv_field = fv_field v, fv_description = fv_description v,
      fv_stage = str_or (fv_stage v) st, fv_rule = str_or (fv_rule v) ru,
      fv_pass_name = str_or (fv_pass_name v) pa\<rparr>"

definition annotate_violations ::
  "field_violation list \<Rightarrow> string \<Rightarrow> string \<Rightarrow> string \<Rightarrow> field_violation list" where
  "annotate_violations vs st ru pa = map (annotate1 st ru pa) vs"

definition diagnostics_payload :: "field_violation list \<Rightarrow> pyval" where
  "diagnostics_payload vs =
     PList (map (\<lambda>v. PDict
       [(''field'', PStr (fv_field v)),
        (''description'', PStr (fv_description v)),
        (''stage'', PStr (str_or (fv_stage v) ''unknown'')),
        (''rule'', PStr (str_or (fv_rule v) ''unknown'')),
        (''pass_name'', PStr (str_or (fv_pass_name v) ''unknown''))]) vs)"

text \<open>A conditional \<open>violations.append\<close>.\<close>

definition add_if :: "bool \<Rightarrow> 'a \<Rightarrow> 'a list" where
  "add_if c v = (if c then [v] else [])"

text \<open>A value in single quotes inside a message.\<close>

definition quoted :: "string \<Rightarrow> string" where
  "quoted s = CHR 0x27 # s @ [CHR 0x27]"

lemma add_if_eq_Nil [simp]: "add_if c v = [] \<longleftrightarrow> \<not> c"
  by (simp add: add_if_def)

lemma set_add_if [simp]: "set (add_if c v) = (if c then {v} else {})"
  by (simp add: add_if_def)

lemma str_or_simps [simp]: "str_or [] b = b" "a \<noteq> [] \<Longrightarrow> str_or a b = a"
  by (simp_all add: str_or_def)

lemma str_or_assoc: "str_or (str_or a b) c = str_or a (str_or b c)"
  by (simp add: str_or_def)

lemma annotate_eq_Nil [simp]: "annotate_violations vs st ru pa = [] \<longleftrightarrow> vs = []"
  by (simp add: annotate_violations_def)

text \<open>
  Relabelling twice is relabelling once with the inner label where there is one: the innermost
  stage that set a label wins.
\<close>

lemma annotate_twice:
  "annotate_violations (annotate_violations vs st ru pa) st' ru' pa' =
     annotate_violations vs (str_or st st') (str_or ru ru') (str_or pa pa')"
  by (simp add: annotate_violations_def annotate1_def str_or_assoc)

lemma annotate_keeps_fields:
  "map fv_field (annotate_violations vs st ru pa) = map fv_field vs"
  "map fv_description (annotate_violations vs st ru pa) = map fv_description vs"
  by (simp_all add: annotate_violations_def annotate1_def o_def)

end
