(* ===== verification/PyAst.thy ===== *)
theory PyAst
  imports Violations
begin

text \<open>
  Python syntax trees as \<open>ast.parse\<close> builds them, with the node classes the compiler inspects as
  constructors and every other class as \<open>Other\<close> with its name and its children. Children come in
  the order of the class's fields, as \<open>ast.iter_child_nodes\<close> yields them; contexts (\<open>Load\<close>) and
  operators are nodes too. \<open>ast.walk\<close> is the breadth-first traversal of the standard library.
\<close>

section \<open>Trees\<close>

datatype const =
    CStr string
  | CInt int
  | CFloat string
  | CBool bool
  | CNone
  | COther

datatype node =
    Constant const
  | Name string node
  | Attribute node string node
  | Call node "node list" "node list"
  | Keyword "string option" node
  | UnaryOp node node
  | BinOp node node node
  | ListExpr "node list" node
  | TupleExpr "node list" node
  | DictExpr "node option list" "node list"
  | Assign "node list" node
  | Import "node list"
  | ImportFrom "string option" "node list"
  | Alias string
  | FunctionDef bool string node "node list" "node list" "node list"
  | Other string "node list"

text \<open>
  \<open>FunctionDef\<close> holds the async flag, the name, the arguments node, the body, the decorators, and
  the return annotation and type parameters, in the order of the fields of the class.
\<close>

definition somes :: "'a option list \<Rightarrow> 'a list" where
  "somes xs = concat (map (\<lambda>x. case x of None \<Rightarrow> [] | Some y \<Rightarrow> [y]) xs)"

fun child_nodes :: "node \<Rightarrow> node list" where
  "child_nodes (Constant c) = []"
| "child_nodes (Name i ctx) = [ctx]"
| "child_nodes (Attribute v a ctx) = [v, ctx]"
| "child_nodes (Call f args kws) = f # args @ kws"
| "child_nodes (Keyword a v) = [v]"
| "child_nodes (UnaryOp p v) = [p, v]"
| "child_nodes (BinOp l p r) = [l, p, r]"
| "child_nodes (ListExpr es ctx) = es @ [ctx]"
| "child_nodes (TupleExpr es ctx) = es @ [ctx]"
| "child_nodes (DictExpr ks vs) = somes ks @ vs"
| "child_nodes (Assign ts v) = ts @ [v]"
| "child_nodes (Import ns) = ns"
| "child_nodes (ImportFrom m ns) = ns"
| "child_nodes (Alias n) = []"
| "child_nodes (FunctionDef a n args body decs rest) = args # body @ decs @ rest"
| "child_nodes (Other cls cs) = cs"

section \<open>Traversal\<close>

text \<open>
  A weight of which the children of a node have less in total than the node: the measure behind
  the traversals.
\<close>

definition weight :: "node \<Rightarrow> nat" where
  "weight n = Suc (3 * size n)"

definition weights :: "node list \<Rightarrow> nat" where
  "weights ns = sum_list (map weight ns)"

lemma weights_simps [simp]:
  "weights [] = 0" "weights (n # ns) = weight n + weights ns" "weights (ms @ ns) = weights ms + weights ns"
  by (simp_all add: weights_def)

lemma weights_le: "weights ns \<le> 3 * size_list size ns"
  by (induction ns) (auto simp: weight_def)

lemma weights_somes_le: "weights (somes ks) \<le> 3 * size_list (size_option size) ks"
  by (induction ks) (auto simp: somes_def weight_def split: option.splits)

lemma weights_children: "weights (child_nodes n) < weight n"
proof (cases n)
  case (Call f args kws)
  then show ?thesis using weights_le [of args] weights_le [of kws] by (simp add: weight_def)
next
  case (ListExpr es ctx)
  then show ?thesis using weights_le [of es] by (simp add: weight_def)
next
  case (TupleExpr es ctx)
  then show ?thesis using weights_le [of es] by (simp add: weight_def)
next
  case (DictExpr ks vs)
  then show ?thesis using weights_somes_le [of ks] weights_le [of vs] by (simp add: weight_def)
next
  case (Assign ts v)
  then show ?thesis using weights_le [of ts] by (simp add: weight_def)
next
  case (Import ns)
  then show ?thesis using weights_le [of ns] by (simp add: weight_def)
next
  case (ImportFrom m ns)
  then show ?thesis using weights_le [of ns] by (simp add: weight_def)
next
  case (FunctionDef a nm args body decs rest)
  then show ?thesis
    using weights_le [of body] weights_le [of decs] weights_le [of rest] by (simp add: weight_def)
next
  case (Other c cs)
  then show ?thesis using weights_le [of cs] by (simp add: weight_def)
qed (simp_all add: weight_def)

lemma weight_child: "c \<in> set (child_nodes n) \<Longrightarrow> weight c < weight n"
  using weights_children [of n] member_le_sum_list [of "weight c" "map weight (child_nodes n)"]
  by (simp add: weights_def)

text \<open>
  \<open>ast.walk\<close>: a queue of nodes to visit; the children of the visited node go to its end.
\<close>

function walk_queue :: "node list \<Rightarrow> node list" where
  "walk_queue [] = []"
| "walk_queue (n # q) = n # walk_queue (q @ child_nodes n)"
  by pat_completeness auto
termination
proof (relation "measure weights")
  show "(q @ child_nodes n, n # q) \<in> measure weights" for n q
    using weights_children [of n] by simp
qed simp

definition ast_walk :: "node \<Rightarrow> node list" where
  "ast_walk t = walk_queue [t]"

text \<open>The nodes of a tree and its height, by recursion over the children.\<close>

function subnodes :: "node \<Rightarrow> node list" where
  "subnodes n = n # concat (map subnodes (child_nodes n))"
  by pat_completeness auto
termination
  by (relation "measure weight") (auto intro: weight_child)

function height :: "node \<Rightarrow> nat" where
  "height n = Suc (foldr max (map height (child_nodes n)) 0)"
  by pat_completeness auto
termination
  by (relation "measure weight") (auto intro: weight_child)

declare subnodes.simps [simp del] height.simps [simp del]

section \<open>Facts about the traversal\<close>

text \<open>The queue is served level by level: all of the queue, then all of its children.\<close>

lemma walk_queue_append: "walk_queue (xs @ ys) = xs @ walk_queue (ys @ concat (map child_nodes xs))"
  by (induction xs arbitrary: ys) auto

lemma walk_queue_levels: "walk_queue q = q @ walk_queue (concat (map child_nodes q))"
  using walk_queue_append [of q "[]"] by simp

text \<open>Breadth-first search visits exactly the nodes of the tree, each as often as it occurs.\<close>

lemma mset_walk_queue: "mset (walk_queue q) = mset (concat (map subnodes q))"
proof (induction q rule: walk_queue.induct)
  case (2 n q)
  have "mset (walk_queue (n # q)) = add_mset n (mset (concat (map subnodes (q @ child_nodes n))))"
    using 2 by simp
  also have "\<dots> = mset (concat (map subnodes (n # q)))"
    by (simp add: subnodes.simps [of n])
  finally show ?case .
qed simp

lemma mset_ast_walk: "mset (ast_walk t) = mset (subnodes t)"
  unfolding ast_walk_def mset_walk_queue by simp

lemma set_ast_walk: "set (ast_walk t) = set (subnodes t)"
  by (metis mset_ast_walk set_mset_mset)

lemma length_ast_walk: "length (ast_walk t) = length (subnodes t)"
  by (metis mset_ast_walk size_mset)

lemma child_subnode: "c \<in> set (child_nodes n) \<Longrightarrow> set (subnodes c) \<subseteq> set (subnodes n)"
  by (auto simp: subnodes.simps [of n])

lemma subnodes_self [simp]: "n \<in> set (subnodes n)"
  by (subst subnodes.simps) simp

section \<open>Breadth-first order against source order\<close>

text \<open>
  \<open>subnodes\<close> lists the nodes in source order. The nodes that satisfy \<open>P\<close> come in the same order
  from the breadth-first walk if they are all on one level of the tree: \<open>only_at P k\<close>.
\<close>

fun only_at :: "(node \<Rightarrow> bool) \<Rightarrow> nat \<Rightarrow> node \<Rightarrow> bool" where
  "only_at P 0 n = (\<forall>c\<in>set (child_nodes n). \<forall>x\<in>set (subnodes c). \<not> P x)"
| "only_at P (Suc k) n = (\<not> P n \<and> (\<forall>c\<in>set (child_nodes n). only_at P k c))"

fun level :: "nat \<Rightarrow> node list \<Rightarrow> node list" where
  "level 0 q = q"
| "level (Suc k) q = level k (concat (map child_nodes q))"

lemma set_walk_queue: "set (walk_queue q) = (\<Union>n\<in>set q. set (subnodes n))"
proof -
  have "set_mset (mset (walk_queue q)) = set_mset (mset (concat (map subnodes q)))"
    by (simp only: mset_walk_queue)
  then show ?thesis by simp
qed

lemma filter_walk_level:
  "(\<And>n. n \<in> set q \<Longrightarrow> only_at P k n) \<Longrightarrow> filter P (walk_queue q) = filter P (level k q)"
proof (induction k arbitrary: q)
  case 0
  have "filter P (walk_queue (concat (map child_nodes q))) = []"
    using 0 by (auto simp: filter_empty_conv set_walk_queue)
  then show ?case by (subst walk_queue_levels) simp
next
  case (Suc k)
  have "filter P q = []" using Suc.prems by (auto simp: filter_empty_conv)
  moreover have "filter P (walk_queue (concat (map child_nodes q))) = filter P (level k (concat (map child_nodes q)))"
    using Suc.prems by (intro Suc.IH) auto
  ultimately show ?case by (subst walk_queue_levels) simp
qed

lemma filter_subnodes_cons: "filter P (subnodes n) = (if P n then [n] else []) @ filter P (concat (map subnodes (child_nodes n)))"
  by (subst subnodes.simps) simp

lemma filter_concat_level:
  "(\<And>n. n \<in> set q \<Longrightarrow> only_at P k n) \<Longrightarrow> filter P (concat (map subnodes q)) = filter P (level k q)"
proof (induction k arbitrary: q)
  case 0
  have "filter P (subnodes n) = filter P [n]" if "n \<in> set q" for n
    using 0 [OF that] by (subst filter_subnodes_cons) (auto simp: filter_empty_conv)
  then show ?case
    by (induction q) auto
next
  case (Suc k)
  have "filter P (subnodes n) = filter P (concat (map subnodes (child_nodes n)))" if "n \<in> set q" for n
    using Suc.prems [OF that] by (subst filter_subnodes_cons) auto
  then have "filter P (concat (map subnodes q)) = filter P (concat (map subnodes (concat (map child_nodes q))))"
    by (induction q) auto
  also have "\<dots> = filter P (level k (concat (map child_nodes q)))"
    using Suc.prems by (intro Suc.IH) auto
  finally show ?case by simp
qed

lemma walk_source_order:
  assumes "only_at P k t" shows "filter P (ast_walk t) = filter P (subnodes t)"
proof -
  have "filter P (ast_walk t) = filter P (level k [t])"
    unfolding ast_walk_def using assms by (intro filter_walk_level) simp
  also have "\<dots> = filter P (concat (map subnodes [t]))"
    using assms by (intro filter_concat_level [symmetric]) simp
  finally show ?thesis by simp
qed

end
