(* ===== verification/Profiles.thy ===== *)
theory Profiles
  imports Violations
begin

text \<open>
  Request validation and workload profiles of the compiler (\<open>eigen_compiler/validation.py\<close>): the
  profile catalogue, the resolution of a profile from the options, the rules each profile imposes,
  the backend contract, and the checks of a compile request. Options are a dictionary of strings.
\<close>

type_synonym options = "(string, string) dict"

section \<open>Constants\<close>

definition SUPPORTED_LANGUAGES :: "string list" where
  "SUPPORTED_LANGUAGES = [''eigen-lang'']"

definition SUPPORTED_DISTRIBUTED_TARGETS :: "string list" where
  "SUPPORTED_DISTRIBUTED_TARGETS = [''cluster'', ''cluster:auto'', ''cluster:gpu'', ''cluster:quantum'']"

definition SUPPORTED_QUEUE_PROVIDERS :: "string list" where
  "SUPPORTED_QUEUE_PROVIDERS = [''memory'', ''redis'', ''sqs'']"

definition SUPPORTED_TOPOLOGY_HINTS :: "string list" where
  "SUPPORTED_TOPOLOGY_HINTS = [''data_parallel'', ''pipeline'']"

definition SUPPORTED_WORKLOAD_KINDS :: "string list" where
  "SUPPORTED_WORKLOAD_KINDS =
     [''QuantumJob'', ''HybridWorkflow'', ''DistributedJob'', ''BenchmarkJob'', ''PipelineJob'', ''ReplayJob'']"

definition PROFILE_ALLOWED_BACKEND_TARGET_CLASSES :: "(string, string list) dict" where
  "PROFILE_ALLOWED_BACKEND_TARGET_CLASSES =
     [(''QuantumJob'', [''implicit'', ''simulator'', ''provider'', ''policy'']),
      (''HybridWorkflow'', [''implicit'', ''simulator'', ''provider'', ''policy'', ''distributed'']),
      (''DistributedJob'', [''distributed'']),
      (''BenchmarkJob'', [''simulator'', ''provider'', ''policy'', ''distributed'']),
      (''PipelineJob'', [''implicit'', ''simulator'', ''provider'', ''policy'', ''distributed'']),
      (''ReplayJob'', [''implicit'', ''simulator'', ''provider'', ''policy'', ''distributed''])]"

record workload_profile =
  wp_kind :: string
  required_semantic_checks :: "string list"
  allowed_rewrites :: "string list"
  forbidden_transformations :: "string list"
  target_expectations :: "string list"
  replay_or_benchmark_constraints :: "string list"
  observability_requirements :: "string list"

definition quantum_profile :: workload_profile where
  "quantum_profile = \<lparr>wp_kind = ''QuantumJob'',
     required_semantic_checks = [''compiler.semantic.ast_subset'', ''compiler.semantic.single_entrypoint'',
       ''compiler.profile.quantum.no_adaptive_markers''],
     allowed_rewrites = [''compiler.rewrite.measure_normalization'', ''compiler.rewrite.constant_theta_projection''],
     forbidden_transformations = [''compiler.rewrite.distributed_topology'', ''compiler.rewrite.benchmark_materialization'',
       ''compiler.rewrite.pipeline_handoff'', ''compiler.rewrite.replay_materialization''],
     target_expectations = [''sim:local'', ''backend:quantum''],
     replay_or_benchmark_constraints = [''benchmark=false'', ''replay=false''],
     observability_requirements = [''request_id'', ''trace_id'', ''traceparent'']\<rparr>"

definition hybrid_profile :: workload_profile where
  "hybrid_profile = \<lparr>wp_kind = ''HybridWorkflow'',
     required_semantic_checks = [''compiler.semantic.ast_subset'', ''compiler.semantic.single_entrypoint'',
       ''compiler.profile.hybrid.allow_expectation_and_minimize''],
     allowed_rewrites = [''compiler.rewrite.hybrid_annotation_projection'',
       ''compiler.rewrite.expectation_annotation_projection'', ''compiler.rewrite.measure_normalization''],
     forbidden_transformations = [''compiler.rewrite.pipeline_handoff'', ''compiler.rewrite.replay_materialization''],
     target_expectations = [''sim:local'', ''backend:cluster''],
     replay_or_benchmark_constraints = [''benchmark=false'', ''replay=false''],
     observability_requirements = [''request_id'', ''trace_id'', ''traceparent'']\<rparr>"

definition distributed_profile :: workload_profile where
  "distributed_profile = \<lparr>wp_kind = ''DistributedJob'',
     required_semantic_checks = [''compiler.semantic.ast_subset'', ''compiler.semantic.single_entrypoint'',
       ''compiler.profile.distributed.explicit_topology''],
     allowed_rewrites = [''compiler.rewrite.distributed_topology_projection'', ''compiler.rewrite.partition_hint_projection''],
     forbidden_transformations = [''compiler.rewrite.benchmark_materialization'', ''compiler.rewrite.pipeline_handoff'',
       ''compiler.rewrite.replay_materialization''],
     target_expectations = [''cluster:auto'', ''cluster:gpu'', ''cluster:quantum''],
     replay_or_benchmark_constraints = [''distributed.enabled=true'', ''partition_count>=1''],
     observability_requirements = [''request_id'', ''trace_id'', ''traceparent'', ''tenant_id'', ''project_id'']\<rparr>"

definition benchmark_profile :: workload_profile where
  "benchmark_profile = \<lparr>wp_kind = ''BenchmarkJob'',
     required_semantic_checks = [''compiler.semantic.ast_subset'', ''compiler.semantic.single_entrypoint'',
       ''compiler.profile.benchmark.fixed_seed''],
     allowed_rewrites = [],
     forbidden_transformations = [''compiler.rewrite.distributed_topology'', ''compiler.rewrite.pipeline_handoff'',
       ''compiler.rewrite.replay_materialization'', ''compiler.rewrite.adaptive_minimize''],
     target_expectations = [''explicit backend target''],
     replay_or_benchmark_constraints = [''seed required'', ''target required''],
     observability_requirements = [''request_id'', ''trace_id'', ''traceparent'', ''tenant_id'', ''project_id'']\<rparr>"

definition pipeline_profile :: workload_profile where
  "pipeline_profile = \<lparr>wp_kind = ''PipelineJob'',
     required_semantic_checks = [''compiler.semantic.ast_subset'', ''compiler.semantic.single_entrypoint'',
       ''compiler.profile.pipeline.explicit_handoff''],
     allowed_rewrites = [''compiler.rewrite.pipeline_handoff_projection''],
     forbidden_transformations = [''compiler.rewrite.benchmark_materialization'', ''compiler.rewrite.replay_materialization''],
     target_expectations = [''source_ref required'', ''handoff_ref required''],
     replay_or_benchmark_constraints = [''stage_id required''],
     observability_requirements = [''request_id'', ''trace_id'', ''traceparent'', ''tenant_id'', ''project_id'']\<rparr>"

definition replay_profile :: workload_profile where
  "replay_profile = \<lparr>wp_kind = ''ReplayJob'',
     required_semantic_checks = [''compiler.semantic.ast_subset'', ''compiler.semantic.single_entrypoint'',
       ''compiler.profile.replay.canonical_source_ref''],
     allowed_rewrites = [''compiler.rewrite.replay_lineage_projection''],
     forbidden_transformations = [''compiler.rewrite.adaptive_minimize'', ''compiler.rewrite.pipeline_handoff''],
     target_expectations = [''source_ref required''],
     replay_or_benchmark_constraints = [''replay enabled'', ''source_ref required''],
     observability_requirements = [''request_id'', ''trace_id'', ''traceparent'', ''tenant_id'', ''project_id'']\<rparr>"

definition WORKLOAD_PROFILE_CATALOG :: "(string, workload_profile) dict" where
  "WORKLOAD_PROFILE_CATALOG =
     [(''QuantumJob'', quantum_profile), (''HybridWorkflow'', hybrid_profile),
      (''DistributedJob'', distributed_profile), (''BenchmarkJob'', benchmark_profile),
      (''PipelineJob'', pipeline_profile), (''ReplayJob'', replay_profile)]"

text \<open>\<open>_WORKLOAD_PROFILE_CATALOG[kind]\<close>.\<close>

definition catalog_at :: "string \<Rightarrow> (pyexn, workload_profile) result" where
  "catalog_at k = (case dget WORKLOAD_PROFILE_CATALOG k of None \<Rightarrow> Inl (KeyError k) | Some p \<Rightarrow> Inr p)"

section \<open>Options\<close>

text \<open>
  \<open>sorted(items)\<close> orders the pairs by key first; the keys of a dictionary are distinct, so the
  values never decide.
\<close>

definition normalize_options :: "options option \<Rightarrow> options" where
  "normalize_options opts =
     foldl (\<lambda>d (k, v). dset k v d) [] (sort_key fst (case opts of None \<Rightarrow> [] | Some d \<Rightarrow> d))"

fun first_option :: "options \<Rightarrow> string list \<Rightarrow> string option" where
  "first_option opts [] = None"
| "first_option opts (k # ks) =
     (case dget opts k of
        None \<Rightarrow> first_option opts ks
      | Some v \<Rightarrow> if py_strip v \<noteq> [] then Some v else first_option opts ks)"

definition profile_violation :: "string \<Rightarrow> string \<Rightarrow> string \<Rightarrow> field_violation" where
  "profile_violation rule f d = violation f (rule @ '': '' @ d)"

definition parse_bool :: "string \<Rightarrow> bool option" where
  "parse_bool value =
     (let normalized = py_lower (py_strip value) in
      if normalized \<in> {''true'', ''1'', ''yes''} then Some True
      else if normalized \<in> {''false'', ''0'', ''no''} then Some False
      else None)"

definition option_enabled :: "options \<Rightarrow> bool" where
  "option_enabled normalized = (parse_bool (dget_or normalized ''distributed.enabled'' ''false'') = Some True)"

section \<open>Backend targets\<close>

definition backend_target_class :: "string option \<Rightarrow> string" where
  "backend_target_class target =
     (case target of
        None \<Rightarrow> ''implicit''
      | Some t \<Rightarrow>
          (if t = [] then ''implicit''
           else if t = ''sim:local'' then ''simulator''
           else if t \<in> {''cluster:auto'', ''cluster:gpu'', ''cluster:quantum''} then ''distributed''
           else if t \<in> {''backend:quantum'', ''ibm:qpu'', ''aws:braket'', ''azure:quantum''} then ''provider''
           else if t \<in> {''backend:cluster'', ''runtime:auto'', ''runtime:latency'', ''runtime:cost'',
               ''runtime:availability'', ''runtime:deterministic''} then ''policy''
           else ''unknown''))"

definition resolve_backend_target :: "options \<Rightarrow> string \<times> string \<times> string" where
  "resolve_backend_target normalized =
     (let explicit = first_option normalized [''spec.workload.backend_target'', ''target'', ''runtime.target''];
          distributed_enabled = option_enabled normalized;
          distributed_target = first_option normalized [''distributed.target'']
      in case explicit of
           Some e \<Rightarrow>
             (if e \<noteq> [] then (e, backend_target_class (Some e), ''explicit'')
              else if distributed_enabled \<or> distributed_target \<noteq> None
              then (str_or (case distributed_target of None \<Rightarrow> [] | Some t \<Rightarrow> t) ''cluster'', ''distributed'', ''distributed'')
              else ([], ''implicit'', ''implicit''))
         | None \<Rightarrow>
             (if distributed_enabled \<or> distributed_target \<noteq> None
              then (str_or (case distributed_target of None \<Rightarrow> [] | Some t \<Rightarrow> t) ''cluster'', ''distributed'', ''distributed'')
              else ([], ''implicit'', ''implicit'')))"

definition profile_backend_targets :: "string \<Rightarrow> string list" where
  "profile_backend_targets kind =
     (if kind = ''DistributedJob'' then [''cluster:auto'', ''cluster:gpu'', ''cluster:quantum'']
      else if kind \<in> {''QuantumJob'', ''HybridWorkflow'', ''BenchmarkJob'', ''PipelineJob'', ''ReplayJob''}
      then [''sim:local'', ''backend:quantum'', ''backend:cluster'', ''cluster:auto'', ''cluster:gpu'',
        ''cluster:quantum'', ''runtime:auto'', ''runtime:latency'', ''runtime:cost'', ''runtime:availability'',
        ''runtime:deterministic'', ''ibm:qpu'', ''aws:braket'', ''azure:quantum'']
      else [])"

definition profile_emission_modes :: "string \<Rightarrow> string list" where
  "profile_emission_modes kind =
     (if kind = ''DistributedJob'' then [''aqo_json+topology_metadata'', ''aqo_json+runtime_metadata'']
      else if kind = ''BenchmarkJob'' then [''aqo_json'', ''aqo_json+benchmark_metadata'']
      else if kind = ''PipelineJob'' then [''aqo_json'', ''aqo_json+handoff_metadata'']
      else if kind = ''ReplayJob'' then [''aqo_json'', ''aqo_json+replay_metadata'']
      else if kind = ''HybridWorkflow'' then [''aqo_json'', ''aqo_json+driver_metadata'', ''aqo_json+runtime_metadata'']
      else [''aqo_json'', ''aqo_json+driver_metadata''])"

definition emission_mode :: "string \<Rightarrow> string" where
  "emission_mode target_class =
     (if target_class = ''distributed'' then ''aqo_json+topology_metadata''
      else if target_class = ''provider'' then ''aqo_json+driver_metadata''
      else if target_class = ''policy'' then ''aqo_json+policy_metadata''
      else ''aqo_json'')"

definition str_list :: "string list \<Rightarrow> pyval" where
  "str_list xs = PList (map PStr xs)"

definition backend_contract_payload :: "workload_profile \<Rightarrow> options option \<Rightarrow> (string, pyval) dict" where
  "backend_contract_payload profile opts =
     (let normalized = normalize_options opts;
          (declared, cls, resolution) = resolve_backend_target normalized;
          distributed_enabled = option_enabled normalized;
          distributed_target = first_option normalized [''distributed.target'']
      in [(''contract_version'', PStr ''1.0.0''),
          (''workload_profile'', PStr (wp_kind profile)),
          (''declared_backend_target'', PStr declared),
          (''backend_target_class'', PStr cls),
          (''target_resolution'', PStr resolution),
          (''allowed_backend_target_classes'',
            str_list (if wp_kind profile \<noteq> ''DistributedJob''
              then [''implicit'', ''simulator'', ''provider'', ''policy'', ''distributed'']
              else [''distributed''])),
          (''allowed_backend_targets'', str_list (profile_backend_targets (wp_kind profile))),
          (''allowed_emission_modes'', str_list (profile_emission_modes (wp_kind profile))),
          (''selected_emission_mode'', PStr (emission_mode cls)),
          (''backend_specific_decisions'', PDict
            [(''distributed.enabled'', PBool distributed_enabled),
             (''distributed.target'', PStr (case distributed_target of None \<Rightarrow> [] | Some t \<Rightarrow> t)),
             (''requires_explicit_target'', PBool (wp_kind profile \<in> {''BenchmarkJob'', ''DistributedJob''})),
             (''core_ir_backend_agnostic'', PBool True)])])"

text \<open>The variant of the contract whose target classes come from the catalogue table.\<close>

definition backend_contract_payload_classes ::
  "workload_profile \<Rightarrow> options option \<Rightarrow> (string, pyval) dict" where
  "backend_contract_payload_classes profile opts =
     dset ''allowed_backend_target_classes''
       (str_list (dget_or PROFILE_ALLOWED_BACKEND_TARGET_CLASSES (wp_kind profile) []))
       (backend_contract_payload profile opts)"

definition workload_profile_payload :: "workload_profile \<Rightarrow> (string, pyval) dict" where
  "workload_profile_payload profile =
     [(''kind'', PStr (wp_kind profile)),
      (''required_semantic_checks'', str_list (required_semantic_checks profile)),
      (''allowed_rewrites'', str_list (allowed_rewrites profile)),
      (''forbidden_transformations'', str_list (forbidden_transformations profile)),
      (''target_expectations'', str_list (target_expectations profile)),
      (''replay_or_benchmark_constraints'', str_list (replay_or_benchmark_constraints profile)),
      (''observability_requirements'', str_list (observability_requirements profile)),
      (''backend_targets'', str_list (profile_backend_targets (wp_kind profile))),
      (''emission_modes'', str_list (profile_emission_modes (wp_kind profile)))]"

section \<open>Profile resolution\<close>

definition resolve_workload_profile ::
  "options option \<Rightarrow> bool \<Rightarrow> bool \<Rightarrow> (pyexn, workload_profile \<times> field_violation list) result" where
  "resolve_workload_profile opts has_expectation has_minimize =
     (let normalized = normalize_options opts;
          pick = (\<lambda>k. rbind (catalog_at k) (\<lambda>p. Inr (p, [])));
          explicit_kind = (case first_option normalized [''spec.workload.kind'', ''workload.kind''] of
                             None \<Rightarrow> [] | Some k \<Rightarrow> k);
          runtime_mode = (case first_option normalized [''runtime.mode'', ''spec.runtime.mode''] of
                            None \<Rightarrow> [] | Some m \<Rightarrow> m)
      in if explicit_kind \<noteq> [] then
           (if explicit_kind \<notin> set SUPPORTED_WORKLOAD_KINDS
            then rbind (catalog_at ''QuantumJob'') (\<lambda>p. Inr (p,
              [profile_violation ''compiler.profile.selection.unknown'' ''options.spec.workload.kind''
                (''unsupported workload profile '' @ quoted explicit_kind)]))
            else pick explicit_kind)
         else if runtime_mode = ''distributed'' \<or> option_enabled normalized then pick ''DistributedJob''
         else if runtime_mode = ''benchmark''
             \<or> first_option normalized [''spec.workload.seed'', ''workload.seed'', ''benchmark.seed''] \<noteq> None
         then pick ''BenchmarkJob''
         else if runtime_mode = ''pipeline''
             \<or> first_option normalized [''spec.workload.pipeline.handoff_ref'', ''workload.pipeline.handoff_ref''] \<noteq> None
         then pick ''PipelineJob''
         else if runtime_mode = ''replay''
             \<or> parse_bool (case first_option normalized [''spec.workload.replay.enabled'', ''workload.replay.enabled''] of
                  None \<Rightarrow> ''false'' | Some v \<Rightarrow> v) = Some True
         then pick ''ReplayJob''
         else if runtime_mode = ''hybrid'' \<or> has_expectation \<or> has_minimize then pick ''HybridWorkflow''
         else pick ''QuantumJob'')"

section \<open>Profile rules\<close>

text \<open>The facts about the options that the rules of \<open>validate_workload_profile\<close> read.\<close>

record profile_facts =
  pf_normalized :: options
  pf_distributed_enabled :: bool
  pf_seed :: "string option"
  pf_backend_target :: "string option"
  pf_declared :: string
  pf_class :: string
  pf_handoff_ref :: "string option"
  pf_stage_id :: "string option"
  pf_replay :: bool
  pf_source_ref_present :: bool
  pf_has_expectation :: bool
  pf_has_minimize :: bool

definition profile_facts_of :: "options option \<Rightarrow> bool \<Rightarrow> bool \<Rightarrow> bool \<Rightarrow> profile_facts" where
  "profile_facts_of opts source_ref_present has_expectation has_minimize =
     (let normalized = normalize_options opts;
          (declared, cls, _) = resolve_backend_target normalized
      in \<lparr>pf_normalized = normalized,
          pf_distributed_enabled = option_enabled normalized,
          pf_seed = first_option normalized [''spec.workload.seed'', ''workload.seed'', ''benchmark.seed''],
          pf_backend_target = first_option normalized [''spec.workload.backend_target'', ''target'', ''runtime.target''],
          pf_declared = declared,
          pf_class = cls,
          pf_handoff_ref = first_option normalized
            [''spec.workload.pipeline.handoff_ref'', ''workload.pipeline.handoff_ref''],
          pf_stage_id = first_option normalized
            [''spec.workload.pipeline.stage_id'', ''workload.pipeline.stage_id''],
          pf_replay = (parse_bool (case first_option normalized
              [''spec.workload.replay.enabled'', ''workload.replay.enabled''] of
                None \<Rightarrow> ''false'' | Some v \<Rightarrow> v) = Some True),
          pf_source_ref_present = source_ref_present,
          pf_has_expectation = has_expectation,
          pf_has_minimize = has_minimize\<rparr>)"

text \<open>The closure \<open>add\<close>: a violation labelled with the \<open>eigen_dpda\<close> stage.\<close>

definition dpda :: "string \<Rightarrow> string \<Rightarrow> string \<Rightarrow> field_violation" where
  "dpda rule f d =
     \<lparr>fv_field = f, fv_description = d, fv_stage = ''eigen_dpda'', fv_rule = rule, fv_pass_name = ''eigen_dpda''\<rparr>"

definition has_distributed_keys :: "options \<Rightarrow> bool" where
  "has_distributed_keys normalized =
     list_ex (dhas normalized)
       [''distributed.target'', ''distributed.partition_count'', ''distributed.queue_provider'',
        ''distributed.topology_hint'']"

definition unknown_target :: "profile_facts \<Rightarrow> field_violation" where
  "unknown_target pf =
     dpda ''compiler.backend.unknown_target'' ''options.spec.workload.backend_target''
       (''unsupported backend target '' @ quoted (pf_declared pf))"

definition quantum_violations :: "profile_facts \<Rightarrow> field_violation list" where
  "quantum_violations pf =
     add_if (pf_distributed_enabled pf \<or> has_distributed_keys (pf_normalized pf))
       (dpda ''compiler.profile.quantum.no_distributed_options'' ''options.distributed.enabled''
         ''QuantumJob forbids distributed compilation options'')
     @ add_if (pf_seed pf \<noteq> None)
       (dpda ''compiler.profile.quantum.no_benchmark_metadata'' ''options.spec.workload.seed''
         ''QuantumJob forbids benchmark seed metadata'')
     @ add_if (pf_handoff_ref pf \<noteq> None \<or> pf_stage_id pf \<noteq> None)
       (dpda ''compiler.profile.quantum.no_pipeline_handoff'' ''options.spec.workload.pipeline.handoff_ref''
         ''QuantumJob forbids pipeline handoff references'')
     @ add_if (pf_replay pf)
       (dpda ''compiler.profile.quantum.no_replay_marker'' ''options.spec.workload.replay.enabled''
         ''QuantumJob forbids replay markers'')
     @ add_if (pf_has_expectation pf \<or> pf_has_minimize pf)
       (dpda ''compiler.profile.quantum.no_hybrid_markers'' ''source''
         ''QuantumJob cannot be used with ExpectationValue or minimize markers'')
     @ add_if (pf_class pf = ''distributed'')
       (dpda ''compiler.profile.distributed.target_mismatch'' ''options.spec.workload.backend_target''
         ''QuantumJob cannot target distributed cluster backends'')"

definition hybrid_violations :: "profile_facts \<Rightarrow> field_violation list" where
  "hybrid_violations pf =
     add_if (pf_distributed_enabled pf \<or> has_distributed_keys (pf_normalized pf))
       (dpda ''compiler.profile.hybrid.no_distributed_options'' ''options.distributed.enabled''
         ''HybridWorkflow forbids distributed compilation options'')
     @ add_if (pf_seed pf \<noteq> None)
       (dpda ''compiler.profile.hybrid.no_benchmark_metadata'' ''options.spec.workload.seed''
         ''HybridWorkflow does not accept benchmark seed metadata'')
     @ add_if (pf_handoff_ref pf \<noteq> None \<or> pf_stage_id pf \<noteq> None)
       (dpda ''compiler.profile.hybrid.no_pipeline_handoff'' ''options.spec.workload.pipeline.handoff_ref''
         ''HybridWorkflow does not accept pipeline handoff references'')
     @ add_if (pf_replay pf)
       (dpda ''compiler.profile.hybrid.no_replay_marker'' ''options.spec.workload.replay.enabled''
         ''HybridWorkflow does not accept replay markers'')"

definition distributed_violations :: "profile_facts \<Rightarrow> field_violation list" where
  "distributed_violations pf =
     add_if (\<not> pf_distributed_enabled pf)
       (dpda ''compiler.profile.distributed.requires_enabled'' ''options.distributed.enabled''
         ''DistributedJob requires distributed.enabled=true'')
     @ add_if (first_option (pf_normalized pf) [''distributed.target''] = None)
       (dpda ''compiler.profile.distributed.requires_target'' ''options.distributed.target''
         ''DistributedJob requires distributed.target'')
     @ (case first_option (pf_normalized pf) [''distributed.partition_count''] of
          None \<Rightarrow>
            [dpda ''compiler.profile.distributed.requires_partition_count'' ''options.distributed.partition_count''
               ''DistributedJob requires distributed.partition_count'']
        | Some raw \<Rightarrow>
            add_if (case py_int raw of None \<Rightarrow> True | Some n \<Rightarrow> n < 1)
              (dpda ''compiler.profile.distributed.invalid_partition_count'' ''options.distributed.partition_count''
                ''distributed.partition_count must be a positive integer''))"

definition benchmark_violations :: "profile_facts \<Rightarrow> field_violation list" where
  "benchmark_violations pf =
     add_if (pf_seed pf = None)
       (dpda ''compiler.profile.benchmark.requires_seed'' ''options.spec.workload.seed''
         ''BenchmarkJob requires spec.workload.seed'')
     @ add_if (case pf_seed pf of None \<Rightarrow> False | Some s \<Rightarrow> py_int s = None)
       (dpda ''compiler.profile.benchmark.invalid_seed'' ''options.spec.workload.seed''
         ''BenchmarkJob seed must be an integer'')
     @ (if pf_backend_target pf = None \<and> pf_class pf = ''implicit''
        then [dpda ''compiler.profile.benchmark.requires_backend_target'' ''options.spec.workload.backend_target''
                ''BenchmarkJob requires an explicit backend target'']
        else add_if (pf_class pf = ''unknown'') (unknown_target pf))
     @ add_if (pf_backend_target pf = None)
       (dpda ''compiler.profile.benchmark.requires_backend_target'' ''options.spec.workload.backend_target''
         ''BenchmarkJob requires an explicit backend target'')
     @ add_if (pf_distributed_enabled pf)
       (dpda ''compiler.profile.benchmark.no_distributed_options'' ''options.distributed.enabled''
         ''BenchmarkJob forbids distributed compilation'')
     @ add_if (pf_has_minimize pf)
       (dpda ''compiler.profile.benchmark.no_adaptive_rewrite'' ''source''
         ''BenchmarkJob forbids minimize-based adaptive rewrites'')"

definition pipeline_violations :: "profile_facts \<Rightarrow> field_violation list" where
  "pipeline_violations pf =
     add_if (pf_handoff_ref pf = None)
       (dpda ''compiler.profile.pipeline.requires_handoff_ref'' ''options.spec.workload.pipeline.handoff_ref''
         ''PipelineJob requires spec.workload.pipeline.handoff_ref'')
     @ add_if (pf_stage_id pf = None)
       (dpda ''compiler.profile.pipeline.requires_stage_id'' ''options.spec.workload.pipeline.stage_id''
         ''PipelineJob requires spec.workload.pipeline.stage_id'')
     @ add_if (\<not> pf_source_ref_present pf)
       (dpda ''compiler.profile.pipeline.requires_source_ref'' ''source_ref''
         ''PipelineJob requires source_ref so the handoff lineage can be reconstructed'')
     @ add_if (pf_has_minimize pf)
       (dpda ''compiler.profile.pipeline.no_adaptive_rewrite'' ''source''
         ''PipelineJob forbids minimize-based adaptive rewrites'')
     @ add_if (pf_declared pf \<noteq> [] \<and> pf_class pf = ''unknown'') (unknown_target pf)"

definition replay_violations :: "string \<Rightarrow> profile_facts \<Rightarrow> field_violation list" where
  "replay_violations kind pf =
     add_if (\<not> pf_replay pf)
       (dpda ''compiler.profile.replay.requires_enabled'' ''options.spec.workload.replay.enabled''
         ''ReplayJob requires spec.workload.replay.enabled=true'')
     @ add_if (\<not> pf_source_ref_present pf)
       (dpda ''compiler.profile.replay.requires_source_ref'' ''source_ref''
         ''ReplayJob requires source_ref so canonical inputs can be replayed'')
     @ add_if (pf_has_minimize pf)
       (dpda ''compiler.profile.replay.no_adaptive_rewrite'' ''source''
         ''ReplayJob forbids minimize-based adaptive rewrites'')
     @ add_if (kind = ''DistributedJob'' \<and> pf_class pf \<noteq> ''distributed'')
       (dpda ''compiler.profile.distributed.target_mismatch'' ''options.spec.workload.backend_target''
         (''DistributedJob requires a distributed backend target, got '' @ quoted (str_or (pf_declared pf) ''implicit'')))
     @ add_if (pf_declared pf \<noteq> [] \<and> pf_class pf = ''unknown'') (unknown_target pf)"

definition distributed_target_violations :: "string \<Rightarrow> profile_facts \<Rightarrow> field_violation list" where
  "distributed_target_violations kind pf =
     (if kind = ''DistributedJob'' \<and> pf_declared pf \<noteq> [] \<and> pf_class pf \<noteq> ''distributed''
      then dpda ''compiler.profile.distributed.target_mismatch'' ''options.spec.workload.backend_target''
             (''DistributedJob requires a distributed backend target, got '' @ quoted (pf_declared pf))
           # add_if (pf_declared pf \<noteq> [] \<and> pf_class pf = ''unknown'') (unknown_target pf)
      else [])"

definition validate_workload_profile ::
  "workload_profile \<Rightarrow> options option \<Rightarrow> bool \<Rightarrow> bool \<Rightarrow> bool \<Rightarrow> field_violation list" where
  "validate_workload_profile profile opts source_ref_present has_expectation has_minimize =
     (let pf = profile_facts_of opts source_ref_present has_expectation has_minimize;
          kind = wp_kind profile
      in (if kind = ''QuantumJob'' then quantum_violations pf
          else if kind = ''HybridWorkflow'' then hybrid_violations pf
          else if kind = ''DistributedJob'' then distributed_violations pf
          else if kind = ''BenchmarkJob'' then benchmark_violations pf
          else if kind = ''PipelineJob'' then pipeline_violations pf
          else if kind = ''ReplayJob'' then replay_violations kind pf
          else [])
         @ distributed_target_violations kind pf)"

section \<open>Compile requests\<close>

record request_metadata =
  md_request_id :: string
  md_trace_id :: string
  md_traceparent :: string
  md_deadline :: string
  md_retry_policy :: string
  md_security_context :: string
  md_tenant_id :: string
  md_project_id :: string

record compile_request =
  rq_job_id :: string
  rq_language :: string
  rq_source :: string
  rq_source_ref :: string
  rq_options :: options
  rq_metadata :: "request_metadata option"

text \<open>The process environment: \<open>os.getenv\<close>.\<close>

type_synonym environ = "string \<Rightarrow> string option"

definition max_source_bytes :: "environ \<Rightarrow> int" where
  "max_source_bytes env =
     (case py_int (case env ''EIGEN_COMPILER_MAX_SOURCE_BYTES'' of None \<Rightarrow> ''262144'' | Some raw \<Rightarrow> raw) of
        None \<Rightarrow> 262144
      | Some value \<Rightarrow> max 1 value)"

definition strip_scheme :: "string \<Rightarrow> string" where
  "strip_scheme ref =
     (if py_startswith ref ''qfs://'' then drop 6 ref
      else if py_startswith ref ''circuitfs://'' then drop 12 ref
      else ref)"

text \<open>
  The parts of a POSIX path: the components between slashes, without empty ones and single dots.
  (\<open>Path.parts\<close> also lists the root; it is not equal to two dots.)
\<close>

definition path_parts :: "string \<Rightarrow> string list" where
  "path_parts p = filter (\<lambda>c. c \<noteq> [] \<and> c \<noteq> ''.'') (py_split (CHR ''/'') p)"

definition validate_source_inputs :: "compile_request \<Rightarrow> field_violation list" where
  "validate_source_inputs req =
     (let source_present = rq_source req \<noteq> []; source_ref_present = rq_source_ref req \<noteq> [] in
      if \<not> source_present \<and> \<not> source_ref_present
      then [violation ''input'' ''input or source_ref is required'']
      else
        (if source_ref_present
         then add_if (list_ex (\<lambda>part. part = ''..'') (path_parts (strip_scheme (rq_source_ref req))))
           (violation ''source_ref'' ''source_ref must not contain path traversal segments'')
         else [])
        @ add_if (source_ref_present \<and> rq_source_ref req = [])
          (violation ''source_ref'' ''source_ref must be non-empty''))"

definition distributed_keys :: "string list" where
  "distributed_keys =
     [''distributed.target'', ''distributed.partition_count'', ''distributed.queue_provider'',
      ''distributed.topology_hint'']"

text \<open>\<open>value and value not in allowed\<close> for an optional string option.\<close>

definition unsupported :: "string option \<Rightarrow> string list \<Rightarrow> bool" where
  "unsupported v allowed = (case v of None \<Rightarrow> False | Some s \<Rightarrow> s \<noteq> [] \<and> s \<notin> set allowed)"

definition partition_count_violations :: "options \<Rightarrow> field_violation list" where
  "partition_count_violations opts =
     (case dget opts ''distributed.partition_count'' of
        None \<Rightarrow> []
      | Some raw \<Rightarrow>
          (if raw = [] then []
           else case py_int raw of
             None \<Rightarrow> [violation ''options.distributed.partition_count''
                       ''distributed.partition_count must be an integer'']
           | Some n \<Rightarrow> add_if (n < 1) (violation ''options.distributed.partition_count''
                       ''distributed.partition_count must be >= 1'')))"

definition validate_distributed_options :: "options \<Rightarrow> field_violation list" where
  "validate_distributed_options opts =
     (case parse_bool (dget_or opts ''distributed.enabled'' ''false'') of
        None \<Rightarrow> [violation ''options.distributed.enabled'' ''distributed.enabled must be a boolean'']
      | Some enabled \<Rightarrow>
          add_if (unsupported (dget opts ''distributed.target'') SUPPORTED_DISTRIBUTED_TARGETS)
            (violation ''options.distributed.target'' ''unsupported distributed target, expected cluster'')
          @ partition_count_violations opts
          @ add_if (unsupported (dget opts ''distributed.queue_provider'') SUPPORTED_QUEUE_PROVIDERS)
            (violation ''options.distributed.queue_provider''
              ''unsupported queue provider, expected one of: memory, redis, sqs'')
          @ add_if (unsupported (dget opts ''distributed.topology_hint'') SUPPORTED_TOPOLOGY_HINTS)
            (violation ''options.distributed.topology_hint''
              ''unsupported topology hint, expected one of: data_parallel, pipeline'')
          @ (if \<not> enabled
             then concat (map (\<lambda>key. add_if (dhas opts key)
               (violation (''options.'' @ key) (key @ '' requires distributed.enabled=true''))) distributed_keys)
             else add_if (dget opts ''distributed.target'' = None)
               (violation ''options.distributed.target''
                 ''distributed.target is required when distributed.enabled=true'')))"

definition required_metadata :: "request_metadata \<Rightarrow> (string \<times> string) list" where
  "required_metadata md =
     [(''request_metadata.request_id'', md_request_id md),
      (''request_metadata.trace_id'', md_trace_id md),
      (''request_metadata.traceparent'', md_traceparent md),
      (''request_metadata.deadline'', md_deadline md),
      (''request_metadata.retry_policy'', md_retry_policy md),
      (''request_metadata.security_context'', md_security_context md),
      (''request_metadata.tenant_id'', md_tenant_id md),
      (''request_metadata.project_id'', md_project_id md)]"

definition validate_compile_circuit :: "environ \<Rightarrow> compile_request \<Rightarrow> field_violation list" where
  "validate_compile_circuit env req =
     (let source_limit = max_source_bytes env in
      (if rq_language req = [] then [violation ''language'' ''field is required'']
       else add_if (rq_language req \<notin> set SUPPORTED_LANGUAGES)
         (violation ''language'' ''unsupported language, expected eigen-lang''))
      @ validate_source_inputs req
      @ add_if (rq_source req \<noteq> [] \<and> int (length (rq_source req)) > source_limit)
        (violation ''source'' (''source exceeds max allowed size ('' @ show_int source_limit @ '' bytes)''))
      @ (case rq_metadata req of
           None \<Rightarrow> []
         | Some md \<Rightarrow> concat (map (\<lambda>(f, v). add_if (v = []) (violation f ''field is required''))
             (required_metadata md)))
      @ validate_distributed_options (rq_options req))"

definition validate_compile_job :: "environ \<Rightarrow> compile_request \<Rightarrow> field_violation list" where
  "validate_compile_job env req =
     add_if (rq_job_id req = []) (violation ''job_id'' ''field is required'')
     @ validate_compile_circuit env req"

section \<open>The resolution of a profile\<close>

lemma catalog_total: "k \<in> set SUPPORTED_WORKLOAD_KINDS \<Longrightarrow> \<exists>p. catalog_at k = Inr p \<and> wp_kind p = k"
  by (auto simp: SUPPORTED_WORKLOAD_KINDS_def catalog_at_def WORKLOAD_PROFILE_CATALOG_def quantum_profile_def
      hybrid_profile_def distributed_profile_def benchmark_profile_def pipeline_profile_def replay_profile_def)

lemma supported_kinds [simp]:
  "''QuantumJob'' \<in> set SUPPORTED_WORKLOAD_KINDS" "''HybridWorkflow'' \<in> set SUPPORTED_WORKLOAD_KINDS"
  "''DistributedJob'' \<in> set SUPPORTED_WORKLOAD_KINDS" "''BenchmarkJob'' \<in> set SUPPORTED_WORKLOAD_KINDS"
  "''PipelineJob'' \<in> set SUPPORTED_WORKLOAD_KINDS" "''ReplayJob'' \<in> set SUPPORTED_WORKLOAD_KINDS"
  by (simp_all add: SUPPORTED_WORKLOAD_KINDS_def)

lemma resolve_profile_total:
  "\<exists>p vs. resolve_workload_profile opts he hm = Inr (p, vs) \<and> wp_kind p \<in> set SUPPORTED_WORKLOAD_KINDS"
proof -
  define good :: "(pyexn, workload_profile \<times> field_violation list) result \<Rightarrow> bool" where
    "good r \<longleftrightarrow> (\<exists>p vs. r = Inr (p, vs) \<and> wp_kind p \<in> set SUPPORTED_WORKLOAD_KINDS)" for r
  have pick: "good (rbind (catalog_at k) (\<lambda>p. Inr (p, vs)))" if "k \<in> set SUPPORTED_WORKLOAD_KINDS" for k vs
    using catalog_total [OF that] that by (auto simp: good_def)
  have split: "(c \<Longrightarrow> good x) \<Longrightarrow> (\<not> c \<Longrightarrow> good y) \<Longrightarrow> good (if c then x else y)" for c x y
    by simp
  have "good (resolve_workload_profile opts he hm)"
    unfolding resolve_workload_profile_def Let_def by (intro split pick) simp_all
  then show ?thesis by (simp only: good_def)
qed

section \<open>What the profiles and the request checks accept\<close>

text \<open>What each profile asks of the options and the source.\<close>

definition quantum_ok :: "profile_facts \<Rightarrow> bool" where
  "quantum_ok pf \<longleftrightarrow> \<not> pf_distributed_enabled pf \<and> \<not> has_distributed_keys (pf_normalized pf)
     \<and> pf_seed pf = None \<and> pf_handoff_ref pf = None \<and> pf_stage_id pf = None \<and> \<not> pf_replay pf
     \<and> \<not> pf_has_expectation pf \<and> \<not> pf_has_minimize pf \<and> pf_class pf \<noteq> ''distributed''"

definition hybrid_ok :: "profile_facts \<Rightarrow> bool" where
  "hybrid_ok pf \<longleftrightarrow> \<not> pf_distributed_enabled pf \<and> \<not> has_distributed_keys (pf_normalized pf)
     \<and> pf_seed pf = None \<and> pf_handoff_ref pf = None \<and> pf_stage_id pf = None \<and> \<not> pf_replay pf"

definition distributed_ok :: "profile_facts \<Rightarrow> bool" where
  "distributed_ok pf \<longleftrightarrow> pf_distributed_enabled pf
     \<and> first_option (pf_normalized pf) [''distributed.target''] \<noteq> None
     \<and> (\<exists>raw n. first_option (pf_normalized pf) [''distributed.partition_count''] = Some raw \<and> py_int raw = Some n \<and> 1 \<le> n)
     \<and> pf_class pf = ''distributed''"

definition benchmark_ok :: "profile_facts \<Rightarrow> bool" where
  "benchmark_ok pf \<longleftrightarrow> (\<exists>s n. pf_seed pf = Some s \<and> py_int s = Some n)
     \<and> pf_backend_target pf \<noteq> None \<and> pf_class pf \<noteq> ''unknown'' \<and> \<not> pf_distributed_enabled pf \<and> \<not> pf_has_minimize pf"

definition pipeline_ok :: "profile_facts \<Rightarrow> bool" where
  "pipeline_ok pf \<longleftrightarrow> pf_handoff_ref pf \<noteq> None \<and> pf_stage_id pf \<noteq> None \<and> pf_source_ref_present pf
     \<and> \<not> pf_has_minimize pf \<and> pf_class pf \<noteq> ''unknown''"

definition replay_ok :: "profile_facts \<Rightarrow> bool" where
  "replay_ok pf \<longleftrightarrow> pf_replay pf \<and> pf_source_ref_present pf \<and> \<not> pf_has_minimize pf \<and> pf_class pf \<noteq> ''unknown''"

definition profile_ok :: "string \<Rightarrow> profile_facts \<Rightarrow> bool" where
  "profile_ok kind pf \<longleftrightarrow>
     (if kind = ''QuantumJob'' then quantum_ok pf
      else if kind = ''HybridWorkflow'' then hybrid_ok pf
      else if kind = ''DistributedJob'' then distributed_ok pf
      else if kind = ''BenchmarkJob'' then benchmark_ok pf
      else if kind = ''PipelineJob'' then pipeline_ok pf
      else if kind = ''ReplayJob'' then replay_ok pf
      else True)"

text \<open>What the classification of the backend target always satisfies.\<close>

lemma first_option_nonblank: "first_option opts ks = Some v \<Longrightarrow> v \<noteq> []"
  by (induction ks) (auto simp: py_strip_def py_lstrip_def py_rstrip_def split: option.splits if_splits)

lemma facts_target:
  fixes opts sr he hm
  defines "pf \<equiv> profile_facts_of opts sr he hm"
  shows "pf_class pf = ''unknown'' \<Longrightarrow> pf_declared pf \<noteq> []"
    and "pf_distributed_enabled pf \<Longrightarrow> pf_declared pf \<noteq> []"
    and "pf_backend_target pf = None \<Longrightarrow> pf_class pf = ''distributed'' \<or> pf_class pf = ''implicit''"
  using first_option_nonblank
    [of "normalize_options opts" "[''spec.workload.backend_target'', ''target'', ''runtime.target'']"]
  by (auto simp: pf_def profile_facts_of_def Let_def resolve_backend_target_def str_or_def
      simp del: first_option.simps split: prod.splits option.splits if_splits)

lemma validate_profile_iff:
  "validate_workload_profile p opts sr he hm = [] \<longleftrightarrow> profile_ok (wp_kind p) (profile_facts_of opts sr he hm)"
proof -
  define pf where "pf = profile_facts_of opts sr he hm"
  note t = facts_target [of opts sr he hm, folded pf_def]
  have q: "quantum_violations pf = [] \<longleftrightarrow> quantum_ok pf"
    and h: "hybrid_violations pf = [] \<longleftrightarrow> hybrid_ok pf"
    by (auto simp: quantum_violations_def quantum_ok_def hybrid_violations_def hybrid_ok_def)
  have d: "distributed_violations pf = [] \<and> distributed_target_violations ''DistributedJob'' pf = [] \<longleftrightarrow> distributed_ok pf"
    using t(2) by (auto simp: distributed_violations_def distributed_target_violations_def distributed_ok_def
        simp del: first_option.simps split: option.splits)
  have b: "benchmark_violations pf = [] \<longleftrightarrow> benchmark_ok pf"
    using t(3) by (auto simp: benchmark_violations_def benchmark_ok_def split: option.splits)
  have p: "pipeline_violations pf = [] \<longleftrightarrow> pipeline_ok pf"
    and r: "replay_violations ''ReplayJob'' pf = [] \<longleftrightarrow> replay_ok pf"
    using t(1) by (auto simp: pipeline_violations_def pipeline_ok_def replay_violations_def replay_ok_def)
  have n: "kind \<noteq> ''DistributedJob'' \<Longrightarrow> distributed_target_violations kind pf = []" for kind
    by (simp add: distributed_target_violations_def)
  show ?thesis
    unfolding validate_workload_profile_def Let_def profile_ok_def pf_def [symmetric]
    using q h d b p r n by simp
qed

text \<open>What a compile request has to satisfy.\<close>

definition distributed_options_ok :: "options \<Rightarrow> bool" where
  "distributed_options_ok opts \<longleftrightarrow>
     (\<exists>enabled. parse_bool (dget_or opts ''distributed.enabled'' ''false'') = Some enabled
        \<and> (if enabled then dget opts ''distributed.target'' \<noteq> None
           else (\<forall>key\<in>set distributed_keys. dget opts key = None)))
     \<and> \<not> unsupported (dget opts ''distributed.target'') SUPPORTED_DISTRIBUTED_TARGETS
     \<and> (\<forall>raw. dget opts ''distributed.partition_count'' = Some raw \<and> raw \<noteq> [] \<longrightarrow> (\<exists>n. py_int raw = Some n \<and> 1 \<le> n))
     \<and> \<not> unsupported (dget opts ''distributed.queue_provider'') SUPPORTED_QUEUE_PROVIDERS
     \<and> \<not> unsupported (dget opts ''distributed.topology_hint'') SUPPORTED_TOPOLOGY_HINTS"

definition circuit_request_ok :: "environ \<Rightarrow> compile_request \<Rightarrow> bool" where
  "circuit_request_ok env req \<longleftrightarrow>
     rq_language req = ''eigen-lang''
     \<and> (rq_source req \<noteq> [] \<or> rq_source_ref req \<noteq> [])
     \<and> (rq_source_ref req \<noteq> [] \<longrightarrow> ''..'' \<notin> set (path_parts (strip_scheme (rq_source_ref req))))
     \<and> (rq_source req \<noteq> [] \<longrightarrow> int (length (rq_source req)) \<le> max_source_bytes env)
     \<and> (\<forall>md. rq_metadata req = Some md \<longrightarrow> (\<forall>(f, v)\<in>set (required_metadata md). v \<noteq> []))
     \<and> distributed_options_ok (rq_options req)"

lemma partition_count_iff:
  "partition_count_violations opts = [] \<longleftrightarrow>
     (\<forall>raw. dget opts ''distributed.partition_count'' = Some raw \<and> raw \<noteq> [] \<longrightarrow> (\<exists>n. py_int raw = Some n \<and> 1 \<le> n))"
  by (auto simp: partition_count_violations_def split: option.splits)

lemma distributed_options_iff: "validate_distributed_options opts = [] \<longleftrightarrow> distributed_options_ok opts"
proof (cases "parse_bool (dget_or opts ''distributed.enabled'' ''false'')")
  case None
  then show ?thesis by (simp add: validate_distributed_options_def distributed_options_ok_def)
next
  case (Some enabled)
  have "concat (map (\<lambda>key. add_if (dhas opts key) (v key)) distributed_keys) = []
      \<longleftrightarrow> (\<forall>key\<in>set distributed_keys. dget opts key = None)" for v :: "string \<Rightarrow> field_violation"
    by (auto simp: dhas_def)
  with Some show ?thesis
    unfolding validate_distributed_options_def distributed_options_ok_def
    by (auto simp: partition_count_iff)
qed

lemma validate_source_inputs_iff:
  "validate_source_inputs req = [] \<longleftrightarrow>
     (rq_source req \<noteq> [] \<or> rq_source_ref req \<noteq> [])
     \<and> (rq_source_ref req \<noteq> [] \<longrightarrow> ''..'' \<notin> set (path_parts (strip_scheme (rq_source_ref req))))"
  by (auto simp: validate_source_inputs_def Let_def list_ex_iff)

lemma validate_circuit_iff: "validate_compile_circuit env req = [] \<longleftrightarrow> circuit_request_ok env req"
  unfolding validate_compile_circuit_def circuit_request_ok_def Let_def append_is_Nil_conv
    validate_source_inputs_iff distributed_options_iff
  by (auto simp: SUPPORTED_LANGUAGES_def split: option.splits)

interpretation circuit_requests: decides "validate_compile_circuit env" "circuit_request_ok env" for env
  by unfold_locales (rule validate_circuit_iff)

interpretation profiles: decides
    "\<lambda>(p, opts, sr, he, hm). validate_workload_profile p opts sr he hm"
    "\<lambda>(p, opts, sr, he, hm). profile_ok (wp_kind p) (profile_facts_of opts sr he hm)"
  by unfold_locales (auto simp: validate_profile_iff)

end
