(* ===== verification/Frontend.thy ===== *)
theory Frontend
  imports PyAst Profiles
begin

text \<open>
  The front end of the compiler (\<open>eigen_compiler/compiler.py\<close>): the checks that the parsed source
  has to pass before anything is lowered. They reject imports other than the language's own, calls
  that run code, dynamic control flow, oversized trees and programs without exactly one entrypoint.
\<close>

section \<open>Checks\<close>

definition ALLOWED_IMPORT_PREFIXES :: "string list" where
  "ALLOWED_IMPORT_PREFIXES = [''eigen_lang'']"

definition FORBIDDEN_MODULE_ROOTS :: "string list" where
  "FORBIDDEN_MODULE_ROOTS = [''os'', ''sys'', ''subprocess'']"

definition FORBIDDEN_CALLS :: "string list" where
  "FORBIDDEN_CALLS = [''exec'', ''eval'', ''compile'']"

definition compiler_limit :: "environ \<Rightarrow> string \<Rightarrow> int \<Rightarrow> int" where
  "compiler_limit env name dflt =
     (case py_int (case env name of None \<Rightarrow> show_int dflt | Some raw \<Rightarrow> raw) of
        None \<Rightarrow> dflt
      | Some value \<Rightarrow> max 1 value)"

definition banned_node :: "node \<Rightarrow> bool" where
  "banned_node n = (case n of
       Other cls _ \<Rightarrow> cls \<in> {''If'', ''For'', ''AsyncFor'', ''While'', ''Match'', ''IfExp''}
     | _ \<Rightarrow> False)"

definition reject_dynamic_control_flow :: "node \<Rightarrow> field_violation list" where
  "reject_dynamic_control_flow tree =
     (if list_ex banned_node (ast_walk tree)
      then [violation ''source'' ''dynamic runtime control flow is not supported in Eigen-Lang'']
      else [])"

fun alias_name :: "node \<Rightarrow> string" where
  "alias_name (Alias n) = n"
| "alias_name _ = []"

definition module_rejected :: "string \<Rightarrow> bool" where
  "module_rejected module_root \<longleftrightarrow>
     module_root \<in> set FORBIDDEN_MODULE_ROOTS \<or> module_root \<notin> set ALLOWED_IMPORT_PREFIXES"

fun import_violations :: "node \<Rightarrow> field_violation list" where
  "import_violations (Import names) =
     concat (map (\<lambda>a. add_if (module_rejected (split_head (CHR ''.'') (alias_name a)))
       (violation ''source'' (''import '' @ quoted (alias_name a) @ '' is not allowed in Eigen-Lang''))) names)"
| "import_violations (ImportFrom m names) =
     (let module = (case m of None \<Rightarrow> [] | Some s \<Rightarrow> s) in
      add_if (module_rejected (split_head (CHR ''.'') module))
        (violation ''source'' (''import from '' @ quoted module @ '' is not allowed in Eigen-Lang'')))"
| "import_violations _ = []"

definition reject_forbidden_imports :: "node \<Rightarrow> field_violation list" where
  "reject_forbidden_imports tree = concat (map import_violations (ast_walk tree))"

fun call_name :: "node \<Rightarrow> string option" where
  "call_name (Name i ctx) = Some i"
| "call_name (Attribute v a ctx) = Some a"
| "call_name _ = None"

text \<open>The module name in front of an attribute call: \<open>node.func.value.id\<close>.\<close>

fun attribute_root :: "node \<Rightarrow> string option" where
  "attribute_root (Attribute (Name i ctx') a ctx) = Some i"
| "attribute_root _ = None"

fun call_violations :: "node \<Rightarrow> field_violation list" where
  "call_violations (Call func args kws) =
     (case call_name func of
        None \<Rightarrow> []
      | Some name \<Rightarrow>
          (if name \<in> set FORBIDDEN_CALLS
           then [violation ''source'' (''call '' @ quoted name @ '' is not allowed in Eigen-Lang'')]
           else case attribute_root func of
             None \<Rightarrow> []
           | Some module_root \<Rightarrow>
               add_if (module_root \<in> set FORBIDDEN_MODULE_ROOTS)
                 (violation ''source'' (''dynamic I/O call '' @ quoted (module_root @ ''.'' @ name)
                   @ '' is not allowed in Eigen-Lang''))))"
| "call_violations _ = []"

definition reject_forbidden_calls :: "node \<Rightarrow> field_violation list" where
  "reject_forbidden_calls tree = concat (map call_violations (ast_walk tree))"

text \<open>
  The depth-first loop of \<open>_enforce_resource_limits\<close>. The top of the stack is the head of the list,
  so the children are pushed in reverse.
\<close>

function limits_loop :: "int \<Rightarrow> int \<Rightarrow> (node \<times> int) list \<Rightarrow> int \<Rightarrow> int \<Rightarrow> field_violation list" where
  "limits_loop max_ast_nodes max_nesting_depth [] node_count max_depth_seen = []"
| "limits_loop max_ast_nodes max_nesting_depth ((n, depth) # stack) node_count max_depth_seen =
     (if node_count + 1 > max_ast_nodes
      then [violation ''source'' (''AST node limit exceeded ('' @ show_int max_ast_nodes @ '')'')]
      else if max max_depth_seen depth > max_nesting_depth
      then [violation ''source'' (''AST depth limit exceeded ('' @ show_int max_nesting_depth @ '')'')]
      else limits_loop max_ast_nodes max_nesting_depth
             (rev (map (\<lambda>c. (c, depth + 1)) (child_nodes n)) @ stack) (node_count + 1) (max max_depth_seen depth))"
  by pat_completeness auto
termination
proof (relation "measure (\<lambda>(_, _, st, _, _). weights (map fst st))")
  fix mx md :: int and n :: node and d cnt seen :: int and st :: "(node \<times> int) list"
  have "weights (map fst (rev (map (\<lambda>c. (c, d + 1)) (child_nodes n)))) = weights (child_nodes n)"
    by (simp add: weights_def rev_map [symmetric] o_def)
  then show "((mx, md, rev (map (\<lambda>c. (c, d + 1)) (child_nodes n)) @ st, cnt + 1, max seen d),
      mx, md, (n, d) # st, cnt, seen) \<in> measure (\<lambda>(_, _, st, _, _). weights (map fst st))"
    using weights_children [of n] by simp
qed simp

definition enforce_resource_limits :: "environ \<Rightarrow> node \<Rightarrow> field_violation list" where
  "enforce_resource_limits env tree =
     limits_loop (compiler_limit env ''EIGEN_COMPILER_MAX_AST_NODES'' 50000)
       (compiler_limit env ''EIGEN_COMPILER_MAX_AST_DEPTH'' 200) [(tree, 1)] 0 0"

fun decorator_name :: "node \<Rightarrow> string option" where
  "decorator_name (Name i ctx) = Some i"
| "decorator_name (Call func args kws) = call_name func"
| "decorator_name _ = None"

fun is_entrypoint :: "node \<Rightarrow> bool" where
  "is_entrypoint (FunctionDef is_async name args body decorator_list rest) =
     list_ex (\<lambda>d. decorator_name d = Some ''hybrid_program'') decorator_list"
| "is_entrypoint _ = False"

definition validate_single_entrypoint :: "node \<Rightarrow> field_violation list" where
  "validate_single_entrypoint tree =
     (let entrypoints = filter is_entrypoint (ast_walk tree) in
      if length entrypoints = 1 then []
      else if length entrypoints = 0
      then [violation ''source'' ''exactly one @hybrid_program entrypoint is required'']
      else [violation ''source'' (''exactly one @hybrid_program entrypoint is required, found ''
              @ show_nat (length entrypoints))])"

text \<open>The check of the \<open>validate_ast\<close> stage: the five checks, in order.\<close>

definition validate_tree :: "environ \<Rightarrow> node \<Rightarrow> field_violation list" where
  "validate_tree env tree =
     enforce_resource_limits env tree
     @ reject_forbidden_imports tree
     @ reject_forbidden_calls tree
     @ reject_dynamic_control_flow tree
     @ validate_single_entrypoint tree"

section \<open>What the front end lets through\<close>

definition node_safe :: "node \<Rightarrow> bool" where
  "node_safe n = (case n of
       Import names \<Rightarrow> list_all (\<lambda>a. split_head (CHR ''.'') (alias_name a) = ''eigen_lang'') names
     | ImportFrom m names \<Rightarrow> (\<exists>s. m = Some s \<and> split_head (CHR ''.'') s = ''eigen_lang'')
     | Call func args kws \<Rightarrow>
         call_name func \<notin> Some ` {''exec'', ''eval'', ''compile''}
         \<and> attribute_root func \<notin> Some ` {''os'', ''sys'', ''subprocess''}
     | Other cls cs \<Rightarrow> cls \<notin> {''If'', ''For'', ''AsyncFor'', ''While'', ''Match'', ''IfExp''}
     | _ \<Rightarrow> True)"

definition frontend_ok :: "environ \<Rightarrow> node \<Rightarrow> bool" where
  "frontend_ok env tree \<longleftrightarrow>
     (\<forall>n\<in>set (subnodes tree). node_safe n)
     \<and> length (filter is_entrypoint (subnodes tree)) = 1
     \<and> int (length (subnodes tree)) \<le> compiler_limit env ''EIGEN_COMPILER_MAX_AST_NODES'' 50000
     \<and> int (height tree) \<le> compiler_limit env ''EIGEN_COMPILER_MAX_AST_DEPTH'' 200"

lemma length_subnodes: "length (subnodes n) = Suc (sum_list (map (\<lambda>c. length (subnodes c)) (child_nodes n)))"
  by (subst subnodes.simps) (simp add: length_concat o_def)

lemma foldr_max_le: "foldr max xs (0::nat) \<le> k \<longleftrightarrow> (\<forall>x\<in>set xs. x \<le> k)"
  by (induction xs) auto

lemma height_pos [simp]: "0 < height n"
  by (subst height.simps) simp

lemma height_le_iff: "int (height n) \<le> m \<longleftrightarrow> 1 \<le> m \<and> (\<forall>c\<in>set (child_nodes n). int (height c) + 1 \<le> m)"
proof (cases "1 \<le> m")
  case True
  then obtain k where k: "m = int (Suc k)" by (metis Suc_pred' int_one_le_iff_zero_less nonneg_int_cases zero_less_imp_eq_int)
  have "height n \<le> Suc k \<longleftrightarrow> (\<forall>c\<in>set (child_nodes n). height c \<le> k)"
    by (subst height.simps) (simp add: foldr_max_le)
  with k show ?thesis by auto
next
  case False
  then show ?thesis using height_pos [of n] by linarith
qed

lemma limits_loop_iff:
  assumes "node_count \<le> mx" "seen \<le> md"
  shows "limits_loop mx md stack node_count seen = [] \<longleftrightarrow>
     node_count + int (sum_list (map (\<lambda>x. length (subnodes (fst x))) stack)) \<le> mx
     \<and> (\<forall>x\<in>set stack. snd x + int (height (fst x)) \<le> md + 1)"
  using assms
proof (induction mx md stack node_count seen rule: limits_loop.induct)
  case (1 mx md cnt seen)
  then show ?case by simp
next
  case (2 mx md n d stack cnt seen)
  let ?kids = "rev (map (\<lambda>c. (c, d + 1)) (child_nodes n))"
  have kids_len: "sum_list (map (\<lambda>x. length (subnodes (fst x))) ?kids)
      = sum_list (map (\<lambda>c. length (subnodes c)) (child_nodes n))"
    by (simp add: rev_map [symmetric] o_def)
  have len: "length (subnodes n) = Suc (sum_list (map (\<lambda>c. length (subnodes c)) (child_nodes n)))"
    by (rule length_subnodes)
  have depth: "d + int (height n) \<le> md + 1 \<longleftrightarrow>
      d \<le> md \<and> (\<forall>x\<in>set ?kids. snd x + int (height (fst x)) \<le> md + 1)"
    using height_le_iff [of n "md + 1 - d"] by auto
  consider (count) "mx < cnt + 1" | (deep) "cnt + 1 \<le> mx" "md < max seen d"
    | (go) "cnt + 1 \<le> mx" "max seen d \<le> md"
    by linarith
  then show ?case
  proof cases
    case count
    then show ?thesis using len by simp
  next
    case deep
    then have "md < d" using 2 by simp
    then have "\<not> d + int (height n) \<le> md + 1" using depth by simp
    with deep show ?thesis by simp
  next
    case go
    then have "limits_loop mx md ((n, d) # stack) cnt seen =
        limits_loop mx md (?kids @ stack) (cnt + 1) (max seen d)"
      by (simp add: not_less [symmetric])
    then show ?thesis
      using 2(1) [OF _ _ go(1,2)] go depth kids_len len
      by (simp only: map_append sum_list_append set_append) (auto simp: ball_Un)
  qed
qed

lemma show_nat_200: "length (show_int 200) \<le> 4300" and show_nat_50000: "length (show_int 50000) \<le> 4300"
  by (simp_all add: show_int_def show_nat.simps)

lemma compiler_limit_pos: "0 < dflt \<Longrightarrow> 0 < compiler_limit env name dflt"
  by (auto simp: compiler_limit_def split: option.splits)

lemma enforce_resource_limits_iff:
  "enforce_resource_limits env t = [] \<longleftrightarrow>
     int (length (subnodes t)) \<le> compiler_limit env ''EIGEN_COMPILER_MAX_AST_NODES'' 50000
     \<and> int (height t) \<le> compiler_limit env ''EIGEN_COMPILER_MAX_AST_DEPTH'' 200"
  unfolding enforce_resource_limits_def
  using compiler_limit_pos [of 50000 env "''EIGEN_COMPILER_MAX_AST_NODES''"]
    compiler_limit_pos [of 200 env "''EIGEN_COMPILER_MAX_AST_DEPTH''"]
  by (subst limits_loop_iff) auto

lemma concat_map_Nil: "concat (map f xs) = [] \<longleftrightarrow> (\<forall>x\<in>set xs. f x = [])"
  by auto

lemma module_rejected_iff: "module_rejected r \<longleftrightarrow> r \<noteq> ''eigen_lang''"
  by (auto simp: module_rejected_def FORBIDDEN_MODULE_ROOTS_def ALLOWED_IMPORT_PREFIXES_def)

lemma call_name_None: "call_name f = None \<Longrightarrow> attribute_root f = None"
  by (cases f) auto

lemma node_safe_iff:
  "node_safe n \<longleftrightarrow> import_violations n = [] \<and> call_violations n = [] \<and> \<not> banned_node n"
proof (cases n)
  case (Call f args kws)
  then show ?thesis
    using call_name_None [of f]
    by (auto simp: node_safe_def banned_node_def FORBIDDEN_CALLS_def FORBIDDEN_MODULE_ROOTS_def
        split: option.splits)
next
  case (ImportFrom m ns)
  then show ?thesis
    by (cases m) (auto simp: node_safe_def banned_node_def module_rejected_iff split_head_def)
qed (auto simp: node_safe_def banned_node_def module_rejected_iff list_all_iff)

lemma entrypoints_walk: "length (filter P (ast_walk t)) = length (filter P (subnodes t))"
  by (metis mset_ast_walk mset_filter size_mset)

lemma validate_single_entrypoint_iff:
  "validate_single_entrypoint t = [] \<longleftrightarrow> length (filter is_entrypoint (subnodes t)) = 1"
  by (simp add: validate_single_entrypoint_def Let_def entrypoints_walk)

text \<open>The \<open>validate_ast\<close> stage decides the front-end specification.\<close>

lemma validate_tree_iff: "validate_tree env t = [] \<longleftrightarrow> frontend_ok env t"
proof -
  have "reject_forbidden_imports t = [] \<and> reject_forbidden_calls t = [] \<and> reject_dynamic_control_flow t = []
      \<longleftrightarrow> (\<forall>n\<in>set (subnodes t). node_safe n)"
    unfolding reject_forbidden_imports_def reject_forbidden_calls_def reject_dynamic_control_flow_def
    by (auto simp: concat_map_Nil list_ex_iff set_ast_walk node_safe_iff)
  then show ?thesis
    by (auto simp: validate_tree_def frontend_ok_def enforce_resource_limits_iff
        validate_single_entrypoint_iff)
qed

interpretation frontend: decides "validate_tree env" "frontend_ok env" for env
  by unfold_locales (rule validate_tree_iff)

end
