(* ===== verification/AqoSchema.thy ===== *)
theory AqoSchema
  imports Violations
begin

text \<open>
  The AQO payload contract (\<open>eigen_compiler/compiler.py\<close>, \<open>_validate_aqo_payload\<close>): the checks a
  payload has to pass before it is emitted, on arbitrary JSON-like values, with the places where
  Python raises \<open>TypeError\<close> (unhashable opcodes, comparison of unlike types, iteration over a
  number) as errors of the model. \<open>aqo_ok\<close> is the contract itself.
\<close>

section \<open>Floating point\<close>

text \<open>
  Arithmetic on machine floats is not part of the sources: a record of operations stands for it.
  \<open>fo_binop\<close> is a binary operator on numbers of which one is a float or whose result is one
  (\<open>None\<close>: it raises), \<open>fo_neg\<close> negates, \<open>fo_ge\<close> is \<open>>=\<close> where an operand is a float.
\<close>

datatype fres = FRfloat string | FRcomplex string

record float_ops =
  fo_binop :: "string \<Rightarrow> pyval \<Rightarrow> pyval \<Rightarrow> fres option"
  fo_neg :: "string \<Rightarrow> string"
  fo_ge :: "pyval \<Rightarrow> pyval \<Rightarrow> bool"

section \<open>Constants\<close>

definition AQO_VERSION :: string where
  "AQO_VERSION = ''1.0.0''"

definition AQO_ALLOWED_TOP_LEVEL_FIELDS :: "string list" where
  "AQO_ALLOWED_TOP_LEVEL_FIELDS =
     [''version'', ''qubits'', ''operations'', ''parameters'', ''metadata'', ''checksums'', ''topology'', ''annotations'']"

definition AQO_ALLOWED_OPS :: "string list" where
  "AQO_ALLOWED_OPS =
     [''RX'', ''RY'', ''RZ'', ''CX'', ''CZ'', ''SWAP'', ''CCX'', ''CCZ'', ''X'', ''Y'', ''Z'', ''H'', ''S'', ''T'', ''MEASURE'', ''RESET'']"

definition AQO_ROTATION_OPS :: "string list" where
  "AQO_ROTATION_OPS = [''RX'', ''RY'', ''RZ'']"

definition AQO_MEASUREMENT_BASIS :: "string list" where
  "AQO_MEASUREMENT_BASIS = [''X'', ''Y'', ''Z'']"

definition AQO_NON_PARAMETERIZED_OPS :: "string list" where
  "AQO_NON_PARAMETERIZED_OPS =
     [''CX'', ''CZ'', ''SWAP'', ''CCX'', ''CCZ'', ''X'', ''Y'', ''Z'', ''H'', ''S'', ''T'', ''RESET'']"

definition AQO_ARITY :: "(string, nat) dict" where
  "AQO_ARITY =
     [(''RX'', 1), (''RY'', 1), (''RZ'', 1), (''CX'', 2), (''CZ'', 2), (''SWAP'', 2), (''CCX'', 3), (''CCZ'', 3),
      (''X'', 1), (''Y'', 1), (''Z'', 1), (''H'', 1), (''S'', 1), (''T'', 1), (''MEASURE'', 1), (''RESET'', 1)]"

section \<open>The checks\<close>

text \<open>\<open>isinstance(value, (int, float, str))\<close> without a non-finite float.\<close>

definition scalar_value :: "pyval \<Rightarrow> bool" where
  "scalar_value v = (case v of PInt _ \<Rightarrow> True | PBool _ \<Rightarrow> True | PStr _ \<Rightarrow> True | PFloat r \<Rightarrow> isfinite r | _ \<Rightarrow> False)"

definition validate_parameters_object :: "pyval \<Rightarrow> field_violation list" where
  "validate_parameters_object parameters = (case parameters of
       PNone \<Rightarrow> []
     | PDict d \<Rightarrow> concat (map (\<lambda>(name, value).
         if name = [] then [violation ''parameters'' ''parameter names must be strings'']
         else add_if (\<not> scalar_value value)
           (violation (''parameters.'' @ name) ''parameter values must be integer, float, or string'')) d)
     | _ \<Rightarrow> [violation ''parameters'' ''parameters must be an object''])"

definition validate_optional_object :: "pyval \<Rightarrow> string \<Rightarrow> field_violation list" where
  "validate_optional_object value f = (case value of
       PNone \<Rightarrow> []
     | PDict _ \<Rightarrow> []
     | _ \<Rightarrow> [violation f (f @ '' must be an object'')])"

definition nonneg_int :: "pyval \<Rightarrow> bool" where
  "nonneg_int v \<longleftrightarrow> is_int v \<and> int_of v \<ge> 0"

text \<open>\<open>qubits is not None and item >= qubits\<close>.\<close>

fun ge_qubits :: "float_ops \<Rightarrow> pyval \<Rightarrow> pyval \<Rightarrow> (pyexn, bool) result" where
  "ge_qubits fo item PNone = Inr False"
| "ge_qubits fo item qubits =
     (if is_int item \<and> is_int qubits then Inr (int_of item \<ge> int_of qubits)
      else if (is_int item \<or> is_float item) \<and> (is_int qubits \<or> is_float qubits) then Inr (fo_ge fo item qubits)
      else case (item, qubits) of
        (PStr a, PStr b) \<Rightarrow> Inr (a \<ge> b)
      | _ \<Rightarrow> Inl TypeError)"

text \<open>\<open>any(\<dots> for item in items)\<close>, which stops at the first hit and at the first error.\<close>

fun any_ge :: "float_ops \<Rightarrow> pyval list \<Rightarrow> pyval \<Rightarrow> (pyexn, bool) result" where
  "any_ge fo [] qubits = Inr False"
| "any_ge fo (item # items) qubits =
     rbind (ge_qubits fo item qubits) (\<lambda>b. if b then Inr True else any_ge fo items qubits)"

text \<open>The items of \<open>c or []\<close>.\<close>

definition iter_or_empty :: "pyval \<Rightarrow> (pyexn, pyval list) result" where
  "iter_or_empty c =
     (if \<not> truthy c then Inr []
      else case c of
        PList xs \<Rightarrow> Inr xs
      | PStr s \<Rightarrow> Inr (map (\<lambda>ch. PStr [ch]) s)
      | PDict d \<Rightarrow> Inr (map (\<lambda>(k, v). PStr k) d)
      | _ \<Rightarrow> Inl TypeError)"

definition opfield :: "nat \<Rightarrow> string \<Rightarrow> string" where
  "opfield idx s = ''operations['' @ show_nat idx @ '']'' @ s"

text \<open>\<open>"key" in op and op["key"]\<close>.\<close>

definition has_truthy :: "(string, pyval) dict \<Rightarrow> string \<Rightarrow> bool" where
  "has_truthy op k \<longleftrightarrow> dhas op k \<and> truthy (vget op k)"

definition index_list :: "pyval \<Rightarrow> bool" where
  "index_list v = (case v of PList xs \<Rightarrow> list_all nonneg_int xs | _ \<Rightarrow> False)"

fun list_items :: "pyval \<Rightarrow> pyval list" where
  "list_items (PList xs) = xs"
| "list_items _ = []"

definition measure_violations ::
  "float_ops \<Rightarrow> pyval \<Rightarrow> nat \<Rightarrow> (string, pyval) dict \<Rightarrow> pyval list \<Rightarrow> (pyexn, field_violation list) result" where
  "measure_violations fo qubits idx op q =
     (let c = vget op ''c''; basis = vget op ''basis'' in
      rbind (iter_or_empty c) (\<lambda>items.
      rbind (any_ge fo items qubits) (\<lambda>out_of_range.
      rbind (if basis = PNone then Inr True else in_str_set basis AQO_MEASUREMENT_BASIS) (\<lambda>basis_ok.
        Inr (add_if (\<not> index_list c \<or> length (list_items c) \<noteq> length q)
               (violation (opfield idx ''.c'') ''MEASURE requires matching classical indices'')
             @ add_if out_of_range (violation (opfield idx ''.c'') ''classical index out of range'')
             @ add_if (\<not> basis_ok) (violation (opfield idx ''.basis'') ''unsupported measurement basis'')
             @ add_if (has_truthy op ''params'')
               (violation (opfield idx ''.params'') ''MEASURE must not include params''))))))"

definition rotation_violations :: "string \<Rightarrow> nat \<Rightarrow> pyval \<Rightarrow> field_violation list" where
  "rotation_violations op_name idx params =
     (case params of
        PDict d \<Rightarrow>
          (if set (dkeys d) \<noteq> {''theta''}
           then [violation (opfield idx ''.params'') (op_name @ '' requires theta parameter'')]
           else add_if (\<not> scalar_value (vget d ''theta''))
             (violation (opfield idx ''.params.theta'') ''theta must be integer, float, or string''))
      | _ \<Rightarrow> [violation (opfield idx ''.params'') (op_name @ '' requires theta parameter'')])"

definition gate_violations :: "string \<Rightarrow> nat \<Rightarrow> (string, pyval) dict \<Rightarrow> pyval list \<Rightarrow> field_violation list" where
  "gate_violations op_name idx op q =
     (let params = vget op ''params'' in
      add_if (length q \<noteq> dget_or AQO_ARITY op_name 0)
        (violation (opfield idx ''.q'') (op_name @ '' has invalid arity''))
      @ (if op_name \<in> set AQO_ROTATION_OPS then rotation_violations op_name idx params
         else add_if (truthy params)
           (violation (opfield idx ''.params'') (op_name @ '' must not include params'')))
      @ add_if (op_name \<in> set AQO_NON_PARAMETERIZED_OPS \<and> has_truthy op ''c'')
        (violation (opfield idx ''.c'') (op_name @ '' must not include c'')))"

text \<open>One iteration of the loop over the operations.\<close>

definition operation_violations ::
  "float_ops \<Rightarrow> pyval \<Rightarrow> nat \<Rightarrow> pyval \<Rightarrow> (pyexn, field_violation list) result" where
  "operation_violations fo qubits idx v =
     (case v of
        PDict op \<Rightarrow>
          rbind (in_str_set (vget op ''op'') AQO_ALLOWED_OPS) (\<lambda>allowed.
            if \<not> allowed then Inr [violation (opfield idx ''.op'') ''unsupported opcode'']
            else if \<not> index_list (vget op ''q'') \<or> list_items (vget op ''q'') = []
            then Inr [violation (opfield idx ''.q'') ''q must be a list of non-negative integers'']
            else
              (let q = list_items (vget op ''q'');
                   op_name = (case vget op ''op'' of PStr s \<Rightarrow> s | _ \<Rightarrow> [])
               in rbind (any_ge fo q qubits) (\<lambda>out_of_range.
                  rbind (if op_name = ''MEASURE'' then measure_violations fo qubits idx op q
                         else Inr (gate_violations op_name idx op q)) (\<lambda>vs.
                  Inr (add_if out_of_range (violation (opfield idx ''.q'') ''qubit index out of range'') @ vs)))))
      | _ \<Rightarrow> Inr [violation (opfield idx []) ''operation must be an object''])"

fun operations_violations ::
  "float_ops \<Rightarrow> pyval \<Rightarrow> nat \<Rightarrow> pyval list \<Rightarrow> (pyexn, field_violation list) result" where
  "operations_violations fo qubits idx [] = Inr []"
| "operations_violations fo qubits idx (v # vs) =
     rbind (operation_violations fo qubits idx v) (\<lambda>a.
     rbind (operations_violations fo qubits (Suc idx) vs) (\<lambda>b. Inr (a @ b)))"

definition validate_aqo_payload ::
  "float_ops \<Rightarrow> (string, pyval) dict \<Rightarrow> (pyexn, field_violation list) result" where
  "validate_aqo_payload fo aqo =
     (let qubits = vget aqo ''qubits'';
          operations = vget aqo ''operations'';
          ops = list_items operations
      in rbind (operations_violations fo qubits 0 ops) (\<lambda>op_violations.
           Inr (map (\<lambda>f. violation f ''unknown AQO top-level field'')
                  (sort (filter (\<lambda>k. k \<notin> set AQO_ALLOWED_TOP_LEVEL_FIELDS) (dkeys aqo)))
                @ add_if (vget aqo ''version'' \<noteq> PStr AQO_VERSION)
                  (violation ''version'' (''aqo version must be '' @ AQO_VERSION))
                @ add_if (\<not> is_int qubits \<or> int_of qubits < 1)
                  (violation ''qubits'' ''qubits must be a positive integer'')
                @ add_if (ops = []) (violation ''operations'' ''operations must be a non-empty array'')
                @ validate_parameters_object (vget aqo ''parameters'')
                @ validate_optional_object (vget aqo ''metadata'') ''metadata''
                @ validate_optional_object (vget aqo ''checksums'') ''checksums''
                @ validate_optional_object (vget aqo ''topology'') ''topology''
                @ validate_optional_object (vget aqo ''annotations'') ''annotations''
                @ op_violations)))"

section \<open>The contract\<close>

definition indices_below :: "int \<Rightarrow> pyval list \<Rightarrow> bool" where
  "indices_below n xs \<longleftrightarrow> (\<forall>x\<in>set xs. is_int x \<and> 0 \<le> int_of x \<and> int_of x < n)"

definition measure_ok :: "int \<Rightarrow> (string, pyval) dict \<Rightarrow> pyval list \<Rightarrow> bool" where
  "measure_ok n op q \<longleftrightarrow>
     (\<exists>c. vget op ''c'' = PList c \<and> length c = length q \<and> indices_below n c)
     \<and> vget op ''basis'' \<in> {PNone, PStr ''X'', PStr ''Y'', PStr ''Z''}
     \<and> \<not> has_truthy op ''params''"

definition gate_ok :: "string \<Rightarrow> (string, pyval) dict \<Rightarrow> pyval list \<Rightarrow> bool" where
  "gate_ok name op q \<longleftrightarrow>
     length q = dget_or AQO_ARITY name 0
     \<and> (if name \<in> {''RX'', ''RY'', ''RZ''}
        then (\<exists>d. vget op ''params'' = PDict d \<and> set (dkeys d) = {''theta''} \<and> scalar_value (vget d ''theta''))
        else \<not> truthy (vget op ''params'') \<and> \<not> has_truthy op ''c'')"

definition aqo_op_ok :: "int \<Rightarrow> pyval \<Rightarrow> bool" where
  "aqo_op_ok n v \<longleftrightarrow>
     (\<exists>op name q. v = PDict op \<and> vget op ''op'' = PStr name \<and> name \<in> set AQO_ALLOWED_OPS
        \<and> vget op ''q'' = PList q \<and> q \<noteq> [] \<and> indices_below n q
        \<and> (if name = ''MEASURE'' then measure_ok n op q else gate_ok name op q))"

definition optional_object :: "pyval \<Rightarrow> bool" where
  "optional_object v \<longleftrightarrow> v = PNone \<or> is_dict v"

definition parameters_ok :: "pyval \<Rightarrow> bool" where
  "parameters_ok v \<longleftrightarrow>
     v = PNone \<or> (\<exists>d. v = PDict d \<and> (\<forall>(name, value)\<in>set d. name \<noteq> [] \<and> scalar_value value))"

definition aqo_ok :: "(string, pyval) dict \<Rightarrow> bool" where
  "aqo_ok aqo \<longleftrightarrow>
     set (dkeys aqo) \<subseteq> set AQO_ALLOWED_TOP_LEVEL_FIELDS
     \<and> vget aqo ''version'' = PStr AQO_VERSION
     \<and> (\<exists>ops. vget aqo ''operations'' = PList ops \<and> ops \<noteq> []
          \<and> is_int (vget aqo ''qubits'') \<and> 1 \<le> int_of (vget aqo ''qubits'')
          \<and> (\<forall>v\<in>set ops. aqo_op_ok (int_of (vget aqo ''qubits'')) v))
     \<and> parameters_ok (vget aqo ''parameters'')
     \<and> optional_object (vget aqo ''metadata'') \<and> optional_object (vget aqo ''checksums'')
     \<and> optional_object (vget aqo ''topology'') \<and> optional_object (vget aqo ''annotations'')"

section \<open>The validator decides the contract\<close>

lemma ge_qubits_int: "is_int x \<Longrightarrow> is_int n \<Longrightarrow> ge_qubits fo x n = Inr (int_of x \<ge> int_of n)"
  by (cases n) auto

lemma any_ge_ints:
  "list_all is_int xs \<Longrightarrow> is_int n \<Longrightarrow> any_ge fo xs n = Inr (\<exists>x\<in>set xs. int_of x \<ge> int_of n)"
  by (induction xs) (auto simp: ge_qubits_int)

lemma index_list_iff: "index_list v \<longleftrightarrow> (\<exists>xs. v = PList xs \<and> (\<forall>x\<in>set xs. is_int x \<and> 0 \<le> int_of x))"
  by (cases v) (auto simp: index_list_def list_all_iff nonneg_int_def)

lemma indices_below_iff:
  "indices_below n xs \<longleftrightarrow> index_list (PList xs) \<and> \<not> (\<exists>x\<in>set xs. int_of x \<ge> n)"
  by (auto simp: indices_below_def index_list_def list_all_iff nonneg_int_def)

lemma validate_parameters_dict:
  "validate_parameters_object (PDict d) = [] \<longleftrightarrow> (\<forall>x\<in>set d. fst x \<noteq> [] \<and> scalar_value (snd x))"
  by (induction d) (auto simp: validate_parameters_object_def split: if_splits)

lemma validate_parameters_iff: "validate_parameters_object v = [] \<longleftrightarrow> parameters_ok v"
proof (cases v)
  case (PDict d)
  then show ?thesis using validate_parameters_dict [of d] by (auto simp: parameters_ok_def)
qed (simp_all add: validate_parameters_object_def parameters_ok_def)

lemma validate_optional_iff: "validate_optional_object v f = [] \<longleftrightarrow> optional_object v"
  by (cases v) (auto simp: validate_optional_object_def optional_object_def)

lemma rotation_violations_iff:
  "rotation_violations name idx params = [] \<longleftrightarrow>
     (\<exists>d. params = PDict d \<and> set (dkeys d) = {''theta''} \<and> scalar_value (vget d ''theta''))"
  by (cases params) (auto simp: rotation_violations_def)

lemma non_parameterized_iff:
  "name \<in> set AQO_ALLOWED_OPS \<Longrightarrow> name \<noteq> ''MEASURE'' \<Longrightarrow>
     name \<in> set AQO_NON_PARAMETERIZED_OPS \<longleftrightarrow> name \<notin> set AQO_ROTATION_OPS"
  by (auto simp: AQO_ALLOWED_OPS_def AQO_NON_PARAMETERIZED_OPS_def AQO_ROTATION_OPS_def)

lemma gate_violations_iff:
  assumes "name \<in> set AQO_ALLOWED_OPS" "name \<noteq> ''MEASURE''"
  shows "gate_violations name idx op q = [] \<longleftrightarrow> gate_ok name op q"
proof -
  have "set AQO_ROTATION_OPS = {''RX'', ''RY'', ''RZ''}" by (simp add: AQO_ROTATION_OPS_def)
  then show ?thesis
    using non_parameterized_iff [OF assms]
    by (auto simp: gate_violations_def gate_ok_def Let_def rotation_violations_iff)
qed

lemma measure_violations_iff:
  assumes "is_int n" "q \<noteq> []"
  shows "measure_violations fo n idx op q = Inr [] \<longleftrightarrow> measure_ok (int_of n) op q"
proof -
  let ?c = "vget op ''c''" and ?b = "vget op ''basis''"
  have basis: "(if ?b = PNone then Inr True else in_str_set ?b AQO_MEASUREMENT_BASIS) = Inr True
      \<longleftrightarrow> ?b \<in> {PNone, PStr ''X'', PStr ''Y'', PStr ''Z''}"
    by (cases ?b) (auto simp: in_str_set_def AQO_MEASUREMENT_BASIS_def)
  show ?thesis
  proof (cases "index_list ?c \<and> length (list_items ?c) = length q")
    case True
    then obtain c where c: "?c = PList c" "length c = length q" "\<forall>x\<in>set c. is_int x"
      by (auto simp: index_list_iff)
    then have items: "iter_or_empty ?c = Inr c" by (auto simp: iter_or_empty_def)
    have "any_ge fo c n = Inr (\<exists>x\<in>set c. int_of x \<ge> int_of n)"
      using c assms by (intro any_ge_ints) (auto simp: list_all_iff)
    with True c items basis show ?thesis
      by (auto simp: measure_violations_def measure_ok_def Let_def indices_below_iff rbind_eq_Inr)
  next
    case False
    then have "\<not> measure_ok (int_of n) op q"
      by (auto simp: measure_ok_def indices_below_iff)
    moreover have "measure_violations fo n idx op q \<noteq> Inr []"
      using False by (auto simp: measure_violations_def Let_def rbind_eq_Inr)
    ultimately show ?thesis by simp
  qed
qed

lemma in_str_set_True: "in_str_set v names = Inr True \<longleftrightarrow> (\<exists>s. v = PStr s \<and> s \<in> set names)"
  by (cases v) (auto simp: in_str_set_def)

lemma operation_violations_iff:
  assumes n: "is_int n"
  shows "operation_violations fo n idx v = Inr [] \<longleftrightarrow> aqo_op_ok (int_of n) v"
proof (cases "\<exists>op name q. v = PDict op \<and> vget op ''op'' = PStr name \<and> name \<in> set AQO_ALLOWED_OPS
    \<and> vget op ''q'' = PList q \<and> q \<noteq> [] \<and> index_list (PList q)")
  case True
  then obtain op name q where v: "v = PDict op" "vget op ''op'' = PStr name"
      "name \<in> set AQO_ALLOWED_OPS" "vget op ''q'' = PList q" "q \<noteq> []" "index_list (PList q)"
    by blast
  then have "any_ge fo q n = Inr (\<exists>x\<in>set q. int_of x \<ge> int_of n)"
    using n by (intro any_ge_ints) (auto simp: index_list_iff list_all_iff)
  moreover have "in_str_set (PStr name) AQO_ALLOWED_OPS = Inr True"
    using v by (simp add: in_str_set_True)
  ultimately show ?thesis
    using v gate_violations_iff [OF v(3)] measure_violations_iff [OF n v(5)]
    by (auto simp: operation_violations_def aqo_op_ok_def Let_def rbind_eq_Inr indices_below_iff)
next
  case False
  then have "\<not> aqo_op_ok (int_of n) v"
    by (auto simp: aqo_op_ok_def indices_below_iff)
  moreover have "operation_violations fo n idx v \<noteq> Inr []"
  proof
    assume a: "operation_violations fo n idx v = Inr []"
    then obtain op where op: "v = PDict op"
      by (cases v) (auto simp: operation_violations_def)
    with a have "in_str_set (vget op ''op'') AQO_ALLOWED_OPS = Inr True"
      and "index_list (vget op ''q'')" and "list_items (vget op ''q'') \<noteq> []"
      by (auto simp: operation_violations_def rbind_eq_Inr split: if_splits)
    with False op show False
      by (auto simp: in_str_set_True index_list_iff)
  qed
  ultimately show ?thesis by simp
qed

lemma operations_violations_iff:
  "is_int n \<Longrightarrow> operations_violations fo n idx vs = Inr [] \<longleftrightarrow> (\<forall>v\<in>set vs. aqo_op_ok (int_of n) v)"
  by (induction vs arbitrary: idx) (auto simp: rbind_eq_Inr operation_violations_iff)

lemma list_items_nonempty: "list_items v \<noteq> [] \<longleftrightarrow> (\<exists>xs. v = PList xs \<and> xs \<noteq> [])"
  by (cases v) auto

lemma unknown_fields_Nil:
  "map f (sort (filter (\<lambda>k. k \<notin> set A) ks)) = [] \<longleftrightarrow> set ks \<subseteq> set (A :: string list)"
  by (auto simp: filter_empty_conv)

text \<open>The checks outside the loop over the operations.\<close>

definition header_ok :: "(string, pyval) dict \<Rightarrow> bool" where
  "header_ok aqo \<longleftrightarrow>
     set (dkeys aqo) \<subseteq> set AQO_ALLOWED_TOP_LEVEL_FIELDS
     \<and> vget aqo ''version'' = PStr AQO_VERSION
     \<and> is_int (vget aqo ''qubits'') \<and> 1 \<le> int_of (vget aqo ''qubits'')
     \<and> list_items (vget aqo ''operations'') \<noteq> []
     \<and> parameters_ok (vget aqo ''parameters'')
     \<and> optional_object (vget aqo ''metadata'') \<and> optional_object (vget aqo ''checksums'')
     \<and> optional_object (vget aqo ''topology'') \<and> optional_object (vget aqo ''annotations'')"

lemma validate_aqo_split:
  "validate_aqo_payload fo aqo = Inr [] \<longleftrightarrow>
     operations_violations fo (vget aqo ''qubits'') 0 (list_items (vget aqo ''operations'')) = Inr []
     \<and> header_ok aqo"
  unfolding validate_aqo_payload_def header_ok_def Let_def rbind_eq_Inr sum.inject append_is_Nil_conv
    unknown_fields_Nil add_if_eq_Nil validate_parameters_iff validate_optional_iff
  by auto

lemma aqo_ok_split:
  "aqo_ok aqo \<longleftrightarrow>
     header_ok aqo
     \<and> (\<forall>v\<in>set (list_items (vget aqo ''operations'')). aqo_op_ok (int_of (vget aqo ''qubits'')) v)"
  by (cases "vget aqo ''operations''") (auto simp: aqo_ok_def header_ok_def)

lemma validate_aqo_payload_iff: "validate_aqo_payload fo aqo = Inr [] \<longleftrightarrow> aqo_ok aqo"
  unfolding validate_aqo_split aqo_ok_split
  by (auto simp: operations_violations_iff header_ok_def)

end
