(* ===== verification/Lowering.thy ===== *)
theory Lowering
  imports Frontend AqoSchema
begin

text \<open>
  Extraction and lowering (\<open>eigen_compiler/compiler.py\<close>): literal scalars, parameters, observables
  and expectation annotations, and the lowering of gate calls to AQO operations together with the
  qubit count. Code that raises \<open>CompilerValidationError\<close> returns it on the left.
\<close>

datatype cexn =
    ValidationError "field_violation list"
  | PyRaise pyexn

abbreviation source_error :: "string \<Rightarrow> cexn" where
  "source_error d \<equiv> ValidationError [violation ''source'' d]"

section \<open>Literals\<close>

fun op_class :: "node \<Rightarrow> string" where
  "op_class (Other cls cs) = cls"
| "op_class _ = []"

text \<open>The value of an operator on floats: complex numbers pass, non-finite floats do not.\<close>

definition of_fres :: "fres option \<Rightarrow> pyval option" where
  "of_fres r = (case r of
       None \<Rightarrow> None
     | Some (FRfloat f) \<Rightarrow> (if isfinite f then Some (PFloat f) else None)
     | Some (FRcomplex z) \<Rightarrow> Some (PComplex z))"

definition int_binop :: "float_ops \<Rightarrow> string \<Rightarrow> int \<Rightarrow> int \<Rightarrow> pyval option" where
  "int_binop fo p a b =
     (if p = ''Add'' then Some (PInt (a + b))
      else if p = ''Sub'' then Some (PInt (a - b))
      else if p = ''Mult'' then Some (PInt (a * b))
      else if p = ''Div'' then (if b = 0 then None else of_fres (fo_binop fo p (PInt a) (PInt b)))
      else if p = ''FloorDiv'' then (if b = 0 then None else Some (PInt (a div b)))
      else if p = ''Mod'' then (if b = 0 then None else Some (PInt (a mod b)))
      else if b \<ge> 0 then Some (PInt (a ^ nat b))
      else if a = 0 then None
      else of_fres (fo_binop fo p (PInt a) (PInt b)))"

definition scalar_binop :: "float_ops \<Rightarrow> string \<Rightarrow> pyval \<Rightarrow> pyval \<Rightarrow> pyval option" where
  "scalar_binop fo p l r = (case (l, r) of
       (PInt a, PInt b) \<Rightarrow> int_binop fo p a b
     | (PInt a, PFloat g) \<Rightarrow> of_fres (fo_binop fo p l r)
     | (PFloat f, PInt b) \<Rightarrow> of_fres (fo_binop fo p l r)
     | (PFloat f, PFloat g) \<Rightarrow> of_fres (fo_binop fo p l r)
     | _ \<Rightarrow> None)"

fun literal_scalar :: "float_ops \<Rightarrow> node \<Rightarrow> pyval option" where
  "literal_scalar fo (Constant c) = (case c of
       CStr s \<Rightarrow> Some (PStr s)
     | CInt i \<Rightarrow> Some (PInt i)
     | CFloat f \<Rightarrow> (if isfinite f then Some (PFloat f) else None)
     | _ \<Rightarrow> None)"
| "literal_scalar fo (UnaryOp p operand) =
     (if op_class p \<in> {''UAdd'', ''USub''} then
        (case literal_scalar fo operand of
           Some (PInt i) \<Rightarrow> Some (PInt (if op_class p = ''UAdd'' then i else - i))
         | Some (PFloat f) \<Rightarrow>
             (let value = (if op_class p = ''UAdd'' then f else fo_neg fo f)
              in if isfinite value then Some (PFloat value) else None)
         | _ \<Rightarrow> None)
      else None)"
| "literal_scalar fo (BinOp left p right) =
     (if op_class p \<in> {''Add'', ''Sub'', ''Mult'', ''Div'', ''FloorDiv'', ''Mod'', ''Pow''} then
        (case (literal_scalar fo left, literal_scalar fo right) of
           (Some l, Some r) \<Rightarrow> scalar_binop fo (op_class p) l r
         | _ \<Rightarrow> None)
      else None)"
| "literal_scalar fo _ = None"

text \<open>\<open>None\<close> if one of the elements is \<open>None\<close>.\<close>

fun all_some :: "'a option list \<Rightarrow> 'a list option" where
  "all_some [] = Some []"
| "all_some (None # xs) = None"
| "all_some (Some x # xs) = map_option ((#) x) (all_some xs)"

text \<open>A dictionary display of literals: every key a string, every value a literal.\<close>

fun dict_display :: "(pyval option \<times> pyval option) list \<Rightarrow> (string, pyval) dict \<Rightarrow> (string, pyval) dict option" where
  "dict_display [] acc = Some acc"
| "dict_display ((k, v) # kvs) acc =
     (case (k, v) of
        (Some (PStr key), Some value) \<Rightarrow> dict_display kvs (dset key value acc)
      | _ \<Rightarrow> None)"

fun literal_jsonish :: "float_ops \<Rightarrow> node \<Rightarrow> pyval option" where
  "literal_jsonish fo (ListExpr elts ctx) = map_option PList (all_some (map (literal_jsonish fo) elts))"
| "literal_jsonish fo (TupleExpr elts ctx) = map_option PList (all_some (map (literal_jsonish fo) elts))"
| "literal_jsonish fo (DictExpr ks vs) =
     map_option PDict (dict_display
       (zip (map (\<lambda>k. case k of None \<Rightarrow> None | Some kn \<Rightarrow> literal_jsonish fo kn) ks)
            (map (literal_jsonish fo) vs)) [])"
| "literal_jsonish fo n = literal_scalar fo n"

section \<open>Parameters\<close>

record param_entry =
  pe_name :: string
  pe_default :: pyval

type_synonym params = "(string, param_entry) dict"

text \<open>The single name an assignment binds: \<open>node.targets[0].id\<close>.\<close>

fun assign_target :: "node list \<Rightarrow> string option" where
  "assign_target [Name i ctx] = Some i"
| "assign_target _ = None"

text \<open>One iteration of \<open>_collect_params\<close>.\<close>

fun collect_param :: "float_ops \<Rightarrow> node \<Rightarrow> params \<times> field_violation list \<Rightarrow> params \<times> field_violation list" where
  "collect_param fo (Assign targets (Call func args kws)) (params, violations) =
     (case assign_target targets of
        None \<Rightarrow> (params, violations)
      | Some target \<Rightarrow>
          (if call_name func \<noteq> Some ''Param'' then (params, violations)
           else case args of
             Constant (CStr name) # rest \<Rightarrow>
               (case rest of
                  [] \<Rightarrow> (dset target \<lparr>pe_name = name, pe_default = PStr name\<rparr> params, violations)
                | dnode # _ \<Rightarrow>
                    (case literal_scalar fo dnode of
                       None \<Rightarrow> (params, violations @
                         [violation ''source'' ''Param default must be a literal integer, float, or string''])
                     | Some explicit_default \<Rightarrow>
                         (dset target \<lparr>pe_name = name, pe_default = explicit_default\<rparr> params, violations)))
           | _ \<Rightarrow> (params, violations)))"
| "collect_param fo _ st = st"

definition collect_params :: "float_ops \<Rightarrow> node \<Rightarrow> params \<times> field_violation list" where
  "collect_params fo tree = fold (collect_param fo) (ast_walk tree) ([], [])"

section \<open>Observables\<close>

fun kw_arg :: "node \<Rightarrow> string option" where
  "kw_arg (Keyword a v) = a"
| "kw_arg _ = None"

fun kw_value :: "node \<Rightarrow> node" where
  "kw_value (Keyword a v) = v"
| "kw_value n = n"

fun observable_terms :: "float_ops \<Rightarrow> node list \<Rightarrow> (string, pyval) dict \<Rightarrow> (string, pyval) dict option" where
  "observable_terms fo [] terms = Some terms"
| "observable_terms fo (kw # kws) terms =
     (case (kw_arg kw, literal_jsonish fo (kw_value kw)) of
        (Some a, Some value) \<Rightarrow> observable_terms fo kws (dset a value terms)
      | _ \<Rightarrow> None)"

fun resolve_observable_terms :: "float_ops \<Rightarrow> node \<Rightarrow> (string, pyval) dict option" where
  "resolve_observable_terms fo (Call func args kws) =
     (if call_name func \<noteq> Some ''Observable'' then None
      else case observable_terms fo kws [] of
        None \<Rightarrow> None
      | Some terms \<Rightarrow> if terms = [] then None else Some terms)"
| "resolve_observable_terms fo _ = None"

type_synonym bindings = "(string, (string, pyval) dict) dict"

fun collect_observable :: "float_ops \<Rightarrow> node \<Rightarrow> bindings \<Rightarrow> bindings" where
  "collect_observable fo (Assign targets value) bs =
     (case assign_target targets of
        None \<Rightarrow> bs
      | Some target \<Rightarrow>
          (case resolve_observable_terms fo value of
             None \<Rightarrow> bs
           | Some terms \<Rightarrow> dset target terms bs))"
| "collect_observable fo _ bs = bs"

definition collect_observable_bindings :: "float_ops \<Rightarrow> node \<Rightarrow> bindings \<times> field_violation list" where
  "collect_observable_bindings fo tree = (fold (collect_observable fo) (ast_walk tree) [], [])"

definition find_keyword :: "string \<Rightarrow> node list \<Rightarrow> node option" where
  "find_keyword a kws = map_option kw_value (List.find (\<lambda>kw. kw_arg kw = Some a) kws)"

text \<open>The annotation one call gives, if it gives one.\<close>

fun expectation_of :: "float_ops \<Rightarrow> bindings \<Rightarrow> node \<Rightarrow> (string, pyval) dict option" where
  "expectation_of fo bs (Call func args kws) =
     (if call_name func \<noteq> Some ''ExpectationValue'' then None
      else case find_keyword ''observable'' kws of
        None \<Rightarrow> None
      | Some e \<Rightarrow>
          (case e of
             Name i ctx \<Rightarrow>
               (if dhas bs i
                then Some [(''kind'', PStr ''ExpectationValue''), (''observable_name'', PStr i)]
                else None)
           | _ \<Rightarrow>
               map_option (\<lambda>terms. [(''kind'', PStr ''ExpectationValue''), (''observable_terms'', PDict terms)])
                 (resolve_observable_terms fo e)))"
| "expectation_of fo bs _ = None"

fun first_some :: "('a \<Rightarrow> 'b option) \<Rightarrow> 'a list \<Rightarrow> 'b option" where
  "first_some f [] = None"
| "first_some f (x # xs) = (case f x of None \<Rightarrow> first_some f xs | Some y \<Rightarrow> Some y)"

definition collect_expectation_annotation :: "float_ops \<Rightarrow> node \<Rightarrow> bindings \<Rightarrow> (string, pyval) dict option" where
  "collect_expectation_annotation fo tree bs = first_some (expectation_of fo bs) (ast_walk tree)"

section \<open>Operations\<close>

definition resolve_int_expr :: "float_ops \<Rightarrow> string \<Rightarrow> node \<Rightarrow> (cexn, int) result" where
  "resolve_int_expr fo context expr = (case literal_scalar fo expr of
       Some (PInt i) \<Rightarrow> Inr i
     | _ \<Rightarrow> Inl (source_error (context @ '' must be a literal integer'')))"

definition resolve_theta_expr :: "float_ops \<Rightarrow> params \<Rightarrow> node \<Rightarrow> (cexn, pyval) result" where
  "resolve_theta_expr fo params expr =
     (let symbolic = (case expr of Name i ctx \<Rightarrow> dget params i | _ \<Rightarrow> None) in
      case symbolic of
        Some p \<Rightarrow> Inr (PStr (pe_name p))
      | None \<Rightarrow>
          (case literal_scalar fo expr of
             Some (PInt i) \<Rightarrow> Inr (PInt i)
           | Some (PFloat f) \<Rightarrow> Inr (PFloat f)
           | Some (PStr s) \<Rightarrow> Inr (PStr s)
           | _ \<Rightarrow> Inl (source_error ''theta must be a literal or Param reference'')))"

definition extract_qubits :: "float_ops \<Rightarrow> node list \<Rightarrow> nat \<Rightarrow> string \<Rightarrow> (cexn, int list) result" where
  "extract_qubits fo args arity name =
     (if length args \<noteq> arity
      then Inl (source_error (name @ '' expects '' @ show_nat arity @ '' qubit argument(s)''))
      else rmap (resolve_int_expr fo (name @ '' qubit index'')) args)"

text \<open>A lowered operation and the dictionary it is emitted as, entries in the order they are set.\<close>

record lowered =
  lo_op :: string
  lo_q :: "int list"
  lo_theta :: "pyval option"
  lo_c :: "int list option"
  lo_basis :: "pyval option"

definition ints :: "int list \<Rightarrow> pyval" where
  "ints xs = PList (map PInt xs)"

definition op_payload :: "lowered \<Rightarrow> pyval" where
  "op_payload lo = PDict
     ([(''op'', PStr (lo_op lo)), (''q'', ints (lo_q lo))]
      @ (case lo_theta lo of None \<Rightarrow> [] | Some t \<Rightarrow> [(''params'', PDict [(''theta'', t)])])
      @ (case lo_c lo of None \<Rightarrow> [] | Some c \<Rightarrow> [(''c'', ints c)])
      @ (case lo_basis lo of None \<Rightarrow> [] | Some b \<Rightarrow> [(''basis'', b)]))"

definition plain_op :: "string \<Rightarrow> int list \<Rightarrow> lowered" where
  "plain_op name q = \<lparr>lo_op = name, lo_q = q, lo_theta = None, lo_c = None, lo_basis = None\<rparr>"

definition lower_rotation :: "float_ops \<Rightarrow> params \<Rightarrow> string \<Rightarrow> node list \<Rightarrow> node list \<Rightarrow> (cexn, lowered) result" where
  "lower_rotation fo params name args kws =
     rbind (extract_qubits fo (take 1 args) 1 (py_upper name)) (\<lambda>q.
       (case (case find_keyword ''theta'' kws of
                Some e \<Rightarrow> Some e
              | None \<Rightarrow> if length args \<ge> 2 then Some (args ! 1) else None) of
          None \<Rightarrow> Inl (source_error (py_upper name @ '' requires theta''))
        | Some theta_expr \<Rightarrow>
            rbind (resolve_theta_expr fo params theta_expr) (\<lambda>theta.
              Inr ((plain_op (py_upper name) q)\<lparr>lo_theta := Some theta\<rparr>))))"

definition lower_plain :: "float_ops \<Rightarrow> nat \<Rightarrow> string \<Rightarrow> node list \<Rightarrow> (cexn, lowered) result" where
  "lower_plain fo arity opname args =
     rbind (extract_qubits fo (take arity args) arity opname) (\<lambda>q. Inr (plain_op opname q))"

text \<open>The elements of a list or tuple display.\<close>

fun display_elts :: "node \<Rightarrow> node list option" where
  "display_elts (ListExpr es ctx) = Some es"
| "display_elts (TupleExpr es ctx) = Some es"
| "display_elts _ = None"

definition measure_c :: "float_ops \<Rightarrow> node list \<Rightarrow> int list \<Rightarrow> (cexn, int list) result" where
  "measure_c fo kws q =
     (case find_keyword ''c'' kws of
        None \<Rightarrow> Inr (py_range (int (length q)))
      | Some c_expr \<Rightarrow>
          (case display_elts c_expr of
             None \<Rightarrow> Inl (source_error ''MEASURE c must be a literal list'')
           | Some elts \<Rightarrow> rmap (resolve_int_expr fo ''MEASURE classical index'') elts))"

definition measure_basis :: "float_ops \<Rightarrow> node list \<Rightarrow> (cexn, pyval option) result" where
  "measure_basis fo kws =
     (case find_keyword ''basis'' kws of
        None \<Rightarrow> Inr None
      | Some e \<Rightarrow>
          (case literal_scalar fo e of
             Some (PStr b) \<Rightarrow>
               (if b \<in> set AQO_MEASUREMENT_BASIS then Inr (Some (PStr b))
                else Inl (source_error ''unsupported measurement basis''))
           | _ \<Rightarrow> Inl (source_error ''unsupported measurement basis'')))"

definition lower_measure :: "float_ops \<Rightarrow> node list \<Rightarrow> node list \<Rightarrow> (cexn, lowered) result" where
  "lower_measure fo args kws =
     rbind (rmap (resolve_int_expr fo ''MEASURE qubit index'') args) (\<lambda>q.
       if q = [] then Inl (source_error ''MEASURE requires at least one qubit'')
       else rbind (measure_c fo kws q) (\<lambda>c.
            rbind (measure_basis fo kws) (\<lambda>basis.
              Inr ((plain_op ''MEASURE'' q)\<lparr>lo_c := Some c, lo_basis := basis\<rparr>))))"

text \<open>The lowering of one call; \<open>None\<close> for a call that is not an operation.\<close>

definition lower_call ::
  "float_ops \<Rightarrow> params \<Rightarrow> int \<Rightarrow> string \<Rightarrow> node list \<Rightarrow> node list \<Rightarrow> (cexn, lowered option) result" where
  "lower_call fo params qubit_count name args kws =
     (let opt = (\<lambda>m. rbind m (\<lambda>lo. Inr (Some lo))) in
      if name \<in> {''rx'', ''ry'', ''rz''} then opt (lower_rotation fo params name args kws)
      else if name \<in> {''x'', ''y'', ''z'', ''h'', ''s'', ''t'', ''reset''} then opt (lower_plain fo 1 (py_upper name) args)
      else if name \<in> {''cx'', ''cnot'', ''cz'', ''swap''}
      then opt (lower_plain fo 2 (if name = ''cnot'' then ''CX'' else py_upper name) args)
      else if name \<in> {''ccx'', ''ccz''} then opt (lower_plain fo 3 (py_upper name) args)
      else if name = ''measure'' then opt (lower_measure fo args kws)
      else if name = ''measure_all''
      then Inr (Some ((plain_op ''MEASURE'' (py_range qubit_count))\<lparr>lo_c := Some (py_range qubit_count)\<rparr>))
      else Inr None)"

text \<open>\<open>max(qubit_count, max(xs) + 1)\<close>, if there are indices at all.\<close>

definition grow :: "int \<Rightarrow> int list \<Rightarrow> int" where
  "grow qubit_count xs = (if xs = [] then qubit_count else max qubit_count (Max (set xs) + 1))"

text \<open>\<open>lowered.get("c")\<close> as a list, empty where there is none.\<close>

definition c_indices :: "lowered \<Rightarrow> int list" where
  "c_indices lo = (case lo_c lo of None \<Rightarrow> [] | Some c \<Rightarrow> c)"

text \<open>One iteration of the loop of \<open>_collect_operations\<close>.\<close>

fun collect_operation :: "float_ops \<Rightarrow> params \<Rightarrow> node \<Rightarrow> lowered list \<times> int \<Rightarrow> (cexn, lowered list \<times> int) result" where
  "collect_operation fo params (Call func args kws) (operations, qubit_count) =
     (case call_name func of
        None \<Rightarrow> Inr (operations, qubit_count)
      | Some name \<Rightarrow>
          rbind (lower_call fo params qubit_count name args kws) (\<lambda>r.
            (case r of
               None \<Rightarrow> Inr (operations, qubit_count)
             | Some lo \<Rightarrow>
                 Inr (operations @ [lo],
                   grow (grow qubit_count (lo_q lo)) (c_indices lo)))))"
| "collect_operation fo params _ st = Inr st"

definition collect_operations :: "float_ops \<Rightarrow> node \<Rightarrow> params \<Rightarrow> (cexn, lowered list \<times> int) result" where
  "collect_operations fo tree params = rfold (collect_operation fo params) (ast_walk tree) ([], 1)"

section \<open>What lowering guarantees\<close>

text \<open>The shape of a lowered operation: everything the AQO contract asks except the ranges.\<close>

definition lowered_shape :: "lowered \<Rightarrow> bool" where
  "lowered_shape lo \<longleftrightarrow>
     lo_op lo \<in> set AQO_ALLOWED_OPS \<and> lo_q lo \<noteq> []
     \<and> (if lo_op lo = ''MEASURE''
        then lo_c lo \<noteq> None \<and> lo_theta lo = None
          \<and> lo_basis lo \<in> {None, Some (PStr ''X''), Some (PStr ''Y''), Some (PStr ''Z'')}
        else lo_c lo = None \<and> lo_basis lo = None \<and> length (lo_q lo) = dget_or AQO_ARITY (lo_op lo) 0
          \<and> (if lo_op lo \<in> {''RX'', ''RY'', ''RZ''} then (\<exists>t. lo_theta lo = Some t \<and> scalar_value t)
             else lo_theta lo = None))"

definition below :: "int \<Rightarrow> lowered \<Rightarrow> bool" where
  "below n lo \<longleftrightarrow> (\<forall>i\<in>set (lo_q lo). i < n) \<and> (\<forall>c. lo_c lo = Some c \<longrightarrow> (\<forall>i\<in>set c. i < n))"

definition nonneg :: "lowered \<Rightarrow> bool" where
  "nonneg lo \<longleftrightarrow>
     (\<forall>i\<in>set (lo_q lo). 0 \<le> i)
     \<and> (\<forall>c. lo_c lo = Some c \<longrightarrow> length c = length (lo_q lo) \<and> (\<forall>i\<in>set c. 0 \<le> i))"

lemma upper_names [simp]:
  "py_upper ''rx'' = ''RX''" "py_upper ''ry'' = ''RY''" "py_upper ''rz'' = ''RZ''"
  "py_upper ''x'' = ''X''" "py_upper ''y'' = ''Y''" "py_upper ''z'' = ''Z''" "py_upper ''h'' = ''H''"
  "py_upper ''s'' = ''S''" "py_upper ''t'' = ''T''" "py_upper ''reset'' = ''RESET''"
  "py_upper ''cx'' = ''CX''" "py_upper ''cz'' = ''CZ''" "py_upper ''swap'' = ''SWAP''"
  "py_upper ''ccx'' = ''CCX''" "py_upper ''ccz'' = ''CCZ''"
  by code_simp+

lemma of_fres_finite: "of_fres r = Some (PFloat f) \<Longrightarrow> isfinite f"
  by (auto simp: of_fres_def split: option.splits fres.splits if_splits)

lemma of_fres_not: "of_fres r \<noteq> Some (PStr s)" "of_fres r \<noteq> Some (PInt i)"
  by (auto simp: of_fres_def split: option.splits fres.splits if_splits)

lemma int_binop_finite: "int_binop fo p a b = Some (PFloat f) \<Longrightarrow> isfinite f"
  by (auto simp: int_binop_def dest: of_fres_finite split: if_splits)

lemma scalar_binop_finite: "scalar_binop fo p l r = Some (PFloat f) \<Longrightarrow> isfinite f"
  by (auto simp: scalar_binop_def dest: of_fres_finite int_binop_finite split: pyval.splits)

text \<open>The literals the lowering accepts are finite.\<close>

lemma literal_scalar_finite: "literal_scalar fo e = Some (PFloat f) \<Longrightarrow> isfinite f"
  by (induction fo e rule: literal_scalar.induct)
    (auto split: const.splits option.splits pyval.splits if_splits simp: Let_def dest: scalar_binop_finite)

lemma resolve_theta_scalar: "resolve_theta_expr fo params e = Inr t \<Longrightarrow> scalar_value t"
  by (auto simp: resolve_theta_expr_def Let_def scalar_value_def dest: literal_scalar_finite
      split: option.splits pyval.splits)

lemma extract_qubits_length: "extract_qubits fo args k name = Inr q \<Longrightarrow> length q = k"
  by (auto simp: extract_qubits_def dest: rmap_length split: if_splits)

lemma lower_rotation_shape:
  assumes "lower_rotation fo params name args kws = Inr lo" "name \<in> {''rx'', ''ry'', ''rz''}"
  shows "lowered_shape lo"
proof -
  obtain q t where "lo = (plain_op (py_upper name) q)\<lparr>lo_theta := Some t\<rparr>"
      and q: "length q = 1" and t: "scalar_value t"
    using assms(1)
    by (auto simp: lower_rotation_def rbind_eq_Inr dest!: extract_qubits_length resolve_theta_scalar
        split: option.splits)
  with assms(2) show ?thesis
    by (auto simp: lowered_shape_def plain_op_def AQO_ALLOWED_OPS_def AQO_ARITY_def dget_or_def)
qed

lemma lower_plain_shape:
  assumes "lower_plain fo k name args = Inr lo" "name \<in> set AQO_ALLOWED_OPS"
    "name \<notin> {''MEASURE'', ''RX'', ''RY'', ''RZ''}" "dget_or AQO_ARITY name 0 = k" "0 < k"
  shows "lowered_shape lo"
proof -
  obtain q where "lo = plain_op name q" "length q = k"
    using assms(1) by (auto simp: lower_plain_def rbind_eq_Inr dest!: extract_qubits_length)
  with assms show ?thesis
    by (auto simp: lowered_shape_def plain_op_def)
qed

lemma measure_basis_ok:
  "measure_basis fo kws = Inr b \<Longrightarrow> b \<in> {None, Some (PStr ''X''), Some (PStr ''Y''), Some (PStr ''Z'')}"
  by (auto simp: measure_basis_def AQO_MEASUREMENT_BASIS_def split: option.splits pyval.splits if_splits)

lemma lower_measure_shape: "lower_measure fo args kws = Inr lo \<Longrightarrow> lowered_shape lo"
  by (auto simp: lower_measure_def rbind_eq_Inr lowered_shape_def plain_op_def AQO_ALLOWED_OPS_def
      dest: measure_basis_ok split: if_splits)

lemma lower_plain_name:
  assumes "name \<in> {''x'', ''y'', ''z'', ''h'', ''s'', ''t'', ''reset''} \<and> k = 1 \<and> opname = py_upper name
    \<or> name \<in> {''cx'', ''cnot'', ''cz'', ''swap''} \<and> k = 2 \<and> opname = (if name = ''cnot'' then ''CX'' else py_upper name)
    \<or> name \<in> {''ccx'', ''ccz''} \<and> k = 3 \<and> opname = py_upper name"
  shows "opname \<in> set AQO_ALLOWED_OPS \<and> opname \<notin> {''MEASURE'', ''RX'', ''RY'', ''RZ''}
    \<and> dget_or AQO_ARITY opname 0 = k \<and> 0 < (k :: nat)"
  using assms
  by (elim disjE conjE insertE emptyE) (simp_all add: AQO_ALLOWED_OPS_def AQO_ARITY_def dget_or_def)

lemma if_chain6:
  "(if a then A else if b then B else if c then C else if d then D else if e then E else if f then F else G) = v
   \<Longrightarrow> a \<and> A = v \<or> b \<and> B = v \<or> c \<and> C = v \<or> d \<and> D = v \<or> E = v \<or> F = v \<or> G = v"
  by (auto split: if_splits)

lemma opt_eq_Some: "rbind m (\<lambda>lo. Inr (Some lo)) = Inr (Some lo) \<longleftrightarrow> m = Inr lo"
  by (auto simp: rbind_eq_Inr)

lemma lower_call_shape:
  assumes "lower_call fo params n name args kws = Inr (Some lo)" "1 \<le> n"
  shows "lowered_shape lo"
  using assms(1) [unfolded lower_call_def Let_def, THEN if_chain6, unfolded opt_eq_Some]
proof (elim disjE conjE)
  assume "name \<in> {''rx'', ''ry'', ''rz''}" "lower_rotation fo params name args kws = Inr lo"
  then show ?thesis by (blast intro: lower_rotation_shape)
next
  assume a: "name \<in> {''x'', ''y'', ''z'', ''h'', ''s'', ''t'', ''reset''}"
    "lower_plain fo 1 (py_upper name) args = Inr lo"
  have "py_upper name \<in> set AQO_ALLOWED_OPS \<and> py_upper name \<notin> {''MEASURE'', ''RX'', ''RY'', ''RZ''}
      \<and> dget_or AQO_ARITY (py_upper name) 0 = 1 \<and> 0 < (1 :: nat)"
    by (rule lower_plain_name) (use a in blast)
  with a(2) show ?thesis by (blast intro: lower_plain_shape)
next
  let ?op = "if name = ''cnot'' then ''CX'' else py_upper name"
  assume a: "name \<in> {''cx'', ''cnot'', ''cz'', ''swap''}" "lower_plain fo 2 ?op args = Inr lo"
  have "?op \<in> set AQO_ALLOWED_OPS \<and> ?op \<notin> {''MEASURE'', ''RX'', ''RY'', ''RZ''}
      \<and> dget_or AQO_ARITY ?op 0 = 2 \<and> 0 < (2 :: nat)"
    by (rule lower_plain_name) (use a in blast)
  with a(2) show ?thesis by (blast intro: lower_plain_shape)
next
  assume a: "name \<in> {''ccx'', ''ccz''}" "lower_plain fo 3 (py_upper name) args = Inr lo"
  have "py_upper name \<in> set AQO_ALLOWED_OPS \<and> py_upper name \<notin> {''MEASURE'', ''RX'', ''RY'', ''RZ''}
      \<and> dget_or AQO_ARITY (py_upper name) 0 = 3 \<and> 0 < (3 :: nat)"
    by (rule lower_plain_name) (use a in blast)
  with a(2) show ?thesis by (blast intro: lower_plain_shape)
next
  assume "lower_measure fo args kws = Inr lo"
  then show ?thesis by (rule lower_measure_shape)
next
  assume "Inr (Some ((plain_op ''MEASURE'' (py_range n))\<lparr>lo_c := Some (py_range n)\<rparr>)) = Inr (Some lo)"
  moreover have "py_range n \<noteq> []" using assms(2) by (simp add: py_range_def)
  ultimately show ?thesis by (auto simp: lowered_shape_def plain_op_def AQO_ALLOWED_OPS_def)
qed simp

lemma grow_ge: "n \<le> grow n xs"
  by (simp add: grow_def)

lemma grow_bound: "i \<in> set xs \<Longrightarrow> i < grow n xs"
  by (auto simp: grow_def) (metis List.finite_set Max_ge add1_zle_eq less_add_one max.coboundedI2 order_le_less_trans)

lemma below_mono: "below n lo \<Longrightarrow> n \<le> m \<Longrightarrow> below m lo"
  by (fastforce simp: below_def)

definition lowering_inv :: "lowered list \<times> int \<Rightarrow> bool" where
  "lowering_inv st \<longleftrightarrow> 1 \<le> snd st \<and> (\<forall>lo\<in>set (fst st). lowered_shape lo \<and> below (snd st) lo)"

lemma collect_operation_inv:
  assumes "lowering_inv st" "collect_operation fo params n st = Inr st'"
  shows "lowering_inv st'"
proof (cases "\<exists>func args kws. n = Call func args kws")
  case True
  then obtain func args kws where n: "n = Call func args kws" by blast
  obtain ops qc where st: "st = (ops, qc)" by (cases st)
  show ?thesis
  proof (cases "st' = st")
    case True
    with assms show ?thesis by simp
  next
    case False
    then obtain name lo where lo: "lower_call fo params qc name args kws = Inr (Some lo)"
      and st': "st' = (ops @ [lo], grow (grow qc (lo_q lo)) (c_indices lo))"
      using assms(2) n st by (auto simp: rbind_eq_Inr split: option.splits)
    let ?m = "snd st'"
    have ge: "qc \<le> ?m" "grow qc (lo_q lo) \<le> ?m"
      using st' grow_ge [of qc "lo_q lo"] grow_ge [of "grow qc (lo_q lo)"] by (auto intro: order_trans)
    have "below ?m lo"
      using st' ge(2) grow_bound [of _ "lo_q lo" qc] grow_bound [of _ "c_indices lo" "grow qc (lo_q lo)"]
      by (fastforce simp: below_def c_indices_def)
    moreover have "lowered_shape lo"
      using lower_call_shape [OF lo] assms(1) st by (simp add: lowering_inv_def)
    ultimately show ?thesis
      using assms(1) st st' ge(1) below_mono by (auto simp: lowering_inv_def)
  qed
next
  case False
  then have "st' = st" using assms(2) by (cases n) auto
  with assms(1) show ?thesis by simp
qed

lemma collect_operations_inv: "collect_operations fo t params = Inr st \<Longrightarrow> lowering_inv st"
  unfolding collect_operations_def
  by (erule rfold_invariant) (auto simp: lowering_inv_def [of "([], 1)"] intro: collect_operation_inv)

text \<open>
  A lowered operation passes the AQO contract exactly when its indices are natural numbers and a
  measurement has as many classical indices as qubits.
\<close>

lemma indices_below_ints: "indices_below n (map PInt xs) \<longleftrightarrow> (\<forall>i\<in>set xs. 0 \<le> i \<and> i < n)"
  by (simp add: indices_below_def)

lemma op_payload_ok:
  assumes "lowered_shape lo" "below n lo"
  shows "aqo_op_ok n (op_payload lo) \<longleftrightarrow> nonneg lo"
proof -
  define op where "op = (case op_payload lo of PDict d \<Rightarrow> d | _ \<Rightarrow> [])"
  have pay: "op_payload lo = PDict op" by (simp add: op_def op_payload_def)
  have look: "vget op ''op'' = PStr (lo_op lo)" "vget op ''q'' = PList (map PInt (lo_q lo))"
    "vget op ''params'' = (case lo_theta lo of None \<Rightarrow> PNone | Some t \<Rightarrow> PDict [(''theta'', t)])"
    "vget op ''c'' = (case lo_c lo of None \<Rightarrow> PNone | Some c \<Rightarrow> PList (map PInt c))"
    "vget op ''basis'' = (case lo_basis lo of None \<Rightarrow> PNone | Some b \<Rightarrow> b)"
    by (cases "lo_theta lo"; cases "lo_c lo"; cases "lo_basis lo"; simp add: op_def op_payload_def ints_def)+
  have keys: "dhas op ''params'' \<longleftrightarrow> lo_theta lo \<noteq> None" "dhas op ''c'' \<longleftrightarrow> lo_c lo \<noteq> None"
    by (cases "lo_theta lo"; cases "lo_c lo"; cases "lo_basis lo"; simp add: op_def op_payload_def ints_def dhas_def)+
  have "aqo_op_ok n (op_payload lo) \<longleftrightarrow> (\<forall>i\<in>set (lo_q lo). 0 \<le> i \<and> i < n)
      \<and> (if lo_op lo = ''MEASURE'' then measure_ok n op (map PInt (lo_q lo))
         else gate_ok (lo_op lo) op (map PInt (lo_q lo)))"
    using assms(1) by (auto simp: aqo_op_ok_def pay look indices_below_ints lowered_shape_def)
  also have "\<dots> \<longleftrightarrow> nonneg lo"
  proof (cases "lo_op lo = ''MEASURE''")
    case True
    then obtain c where c: "lo_c lo = Some c" using assms(1) by (auto simp: lowered_shape_def)
    have "measure_ok n op (map PInt (lo_q lo)) \<longleftrightarrow> length c = length (lo_q lo) \<and> (\<forall>i\<in>set c. 0 \<le> i \<and> i < n)"
      using True c assms(1)
      by (auto simp: measure_ok_def look keys has_truthy_def lowered_shape_def indices_below_ints)
    with True c assms(2) show ?thesis by (auto simp: nonneg_def below_def)
  next
    case False
    then have "lo_c lo = None" using assms(1) by (simp add: lowered_shape_def)
    moreover have "gate_ok (lo_op lo) op (map PInt (lo_q lo))"
      using False assms(1)
      by (auto simp: gate_ok_def look keys has_truthy_def lowered_shape_def split: if_splits)
    ultimately show ?thesis using False assms(2) by (auto simp: nonneg_def below_def)
  qed
  finally show ?thesis .
qed

section \<open>The order of the operations\<close>

text \<open>The calls that lower to an operation.\<close>

definition op_names :: "string list" where
  "op_names = [''rx'', ''ry'', ''rz'', ''x'', ''y'', ''z'', ''h'', ''s'', ''t'', ''reset'', ''cx'', ''cnot'', ''cz'', ''swap'',
     ''ccx'', ''ccz'', ''measure'', ''measure_all'']"

fun op_call :: "node \<Rightarrow> bool" where
  "op_call (Call func args kws) = (\<exists>name\<in>set op_names. call_name func = Some name)"
| "op_call _ = False"

lemma collect_operation_other: "\<not> op_call n \<Longrightarrow> collect_operation fo params n st = Inr st"
proof (cases n)
  case (Call func args kws)
  assume no: "\<not> op_call n"
  obtain ops qc where st: "st = (ops, qc)" by (cases st)
  show ?thesis
  proof (cases "call_name func")
    case (Some name)
    then have "name \<notin> set op_names" using no Call by auto
    then have "lower_call fo params qc name args kws = Inr None"
      by (simp add: lower_call_def Let_def op_names_def)
    with Some Call st show ?thesis by simp
  qed (simp add: Call st)
qed simp_all

lemma rfold_filter:
  assumes "\<And>x s. \<not> P x \<Longrightarrow> f x s = Inr s"
  shows "rfold f xs s = rfold f (filter P xs) s"
proof (induction xs arbitrary: s)
  case (Cons x xs)
  then have "rfold f xs = rfold f (filter P xs)" by (intro ext)
  with assms [of x] show ?case by (cases "P x") auto
qed simp

text \<open>
  The lowering of the nodes in source order: what \<open>_collect_operations\<close> would compute over
  \<open>subnodes\<close>.
\<close>

definition source_order_operations :: "float_ops \<Rightarrow> node \<Rightarrow> params \<Rightarrow> (cexn, lowered list \<times> int) result" where
  "source_order_operations fo tree params = rfold (collect_operation fo params) (subnodes tree) ([], 1)"

lemma collect_operations_same_level:
  assumes "only_at op_call k t"
  shows "collect_operations fo t params = source_order_operations fo t params"
proof -
  have "collect_operations fo t params = rfold (collect_operation fo params) (filter op_call (ast_walk t)) ([], 1)"
    unfolding collect_operations_def by (rule rfold_filter) (rule collect_operation_other)
  also have "\<dots> = rfold (collect_operation fo params) (filter op_call (subnodes t)) ([], 1)"
    using walk_source_order [OF assms] by simp
  also have "\<dots> = source_order_operations fo t params"
    unfolding source_order_operations_def by (rule rfold_filter [symmetric]) (rule collect_operation_other)
  finally show ?thesis .
qed

end
