(* ===== verification/RequestContext.thy ===== *)
theory RequestContext
  imports Lowering
begin

text \<open>
  The inputs of a compilation (\<open>eigen_compiler/compiler.py\<close>): the request context with its redaction
  of credentials, the resolution of the source, and the options of a distributed compilation. The
  file system is a parameter: how a path resolves, and what reading a resolved path gives.
\<close>

section \<open>Redaction\<close>

text \<open>\<open>\w\<close> on the modelled range of code points.\<close>

definition is_word :: "char \<Rightarrow> bool" where
  "is_word c = (let n = ord c in
     (48 \<le> n \<and> n \<le> 57) \<or> (65 \<le> n \<and> n \<le> 90) \<or> n = 95 \<or> (97 \<le> n \<and> n \<le> 122)
     \<or> n \<in> {170, 178, 179, 181, 185, 186, 188, 189, 190}
     \<or> (192 \<le> n \<and> n \<noteq> 215 \<and> n \<noteq> 247))"

definition word_before :: "char option \<Rightarrow> bool" where
  "word_before prev = (case prev of None \<Rightarrow> False | Some c \<Rightarrow> is_word c)"

text \<open>
  \<open>\s*:\s*.+\<close>: the length of the match. The greedy white space gives characters back only when
  nothing else follows it, up to the last one that is not a newline.
\<close>

definition header_value_match :: "string \<Rightarrow> nat option" where
  "header_value_match r =
     (let w1 = takeWhile is_ws r; r1 = dropWhile is_ws r in
      case r1 of
        [] \<Rightarrow> None
      | c # r2 \<Rightarrow>
          (if c \<noteq> CHR '':'' then None
           else let w2 = takeWhile is_ws r2; t = dropWhile is_ws r2 in
             if t \<noteq> [] then
               Some (length w1 + 1 + length w2 + length (takeWhile (\<lambda>x. x \<noteq> CHR 0x0A) t))
             else let w3 = dropWhile (\<lambda>x. x = CHR 0x0A) (rev w2) in
               if w3 = [] then None else Some (length w1 + 1 + length w3)))"

definition sensitive_headers :: "string list" where
  "sensitive_headers =
     [''authorization'', ''proxy-authorization'', ''x-api-key'', ''x-auth-token'', ''x-access-token'', ''cookie'', ''set-cookie'']"

definition sensitive_header_match :: "char option \<Rightarrow> string \<Rightarrow> nat option" where
  "sensitive_header_match prev s =
     (if word_before prev then None
      else first_some (\<lambda>h.
        if py_lower (take (length h) s) = h
        then map_option (\<lambda>n. length h + n) (header_value_match (drop (length h) s)) else None) sensitive_headers)"

definition token_char :: "char \<Rightarrow> bool" where
  "token_char c = (let n = ord c in
     (48 \<le> n \<and> n \<le> 57) \<or> (65 \<le> n \<and> n \<le> 90) \<or> (97 \<le> n \<and> n \<le> 122)
     \<or> c \<in> {CHR ''.'', CHR ''_'', CHR ''~'', CHR ''+'', CHR ''/'', CHR ''='', CHR ''-''})"

text \<open>A word boundary after the first \<open>n\<close> characters of \<open>s\<close>, for \<open>n > 0\<close>.\<close>

definition boundary_at :: "string \<Rightarrow> nat \<Rightarrow> bool" where
  "boundary_at s n = (is_word (s ! (n - 1)) \<noteq> (n < length s \<and> is_word (s ! n)))"

definition bearer_match :: "char option \<Rightarrow> string \<Rightarrow> nat option" where
  "bearer_match prev s =
     (if word_before prev \<or> py_lower (take 6 s) \<noteq> ''bearer'' then None
      else
        (let r = drop 6 s; w = takeWhile is_ws r; t = dropWhile is_ws r;
             run = takeWhile token_char t;
             ends = filter (\<lambda>n. 8 \<le> n \<and> boundary_at t n) [0..<Suc (length run)]
         in if w = [] \<or> ends = [] then None else Some (6 + length w + last ends)))"

text \<open>\<open>re.sub\<close>: replace the matches from left to right. A match is never empty.\<close>

function re_sub :: "(char option \<Rightarrow> string \<Rightarrow> nat option) \<Rightarrow> string \<Rightarrow> char option \<Rightarrow> string \<Rightarrow> string" where
  "re_sub m repl prev [] = []"
| "re_sub m repl prev (c # s) =
     (case m prev (c # s) of
        None \<Rightarrow> c # re_sub m repl (Some c) s
      | Some n \<Rightarrow> repl @ re_sub m repl (Some (last (take (max 1 n) (c # s)))) (drop (max 1 n) (c # s)))"
  by pat_completeness auto
termination
  by (relation "measure (\<lambda>(_, _, _, s). length s)") auto

definition sanitize_security_context :: "string \<Rightarrow> string" where
  "sanitize_security_context value =
     (if value = [] then []
      else re_sub bearer_match ''[REDACTED]'' None (re_sub sensitive_header_match ''[REDACTED]'' None value))"

section \<open>Request context\<close>

record compile_context =
  cc_request_id :: string
  cc_trace_id :: string
  cc_traceparent :: string
  cc_deadline :: string
  cc_retry_policy :: string
  cc_security_context :: string
  cc_sandbox_profile :: string
  cc_tenant_id :: string
  cc_project_id :: string

definition ALLOWED_SANDBOX_PROFILES :: "string list" where
  "ALLOWED_SANDBOX_PROFILES = [''default'', ''restricted'', ''strict'']"

definition normalize_request_context :: "options option \<Rightarrow> (cexn, compile_context) result" where
  "normalize_request_context request_context =
     (let context = (case request_context of None \<Rightarrow> [] | Some d \<Rightarrow> d);
          get = (\<lambda>k. dget_or context k []);
          sandbox_profile = str_or (py_lower (py_strip (get ''sandbox_profile''))) ''strict''
      in if sandbox_profile \<notin> set ALLOWED_SANDBOX_PROFILES
         then Inl (ValidationError [violation ''request_context.sandbox_profile''
           (''sandbox profile must be one of '' @ py_join '', '' (sort ALLOWED_SANDBOX_PROFILES))])
         else Inr \<lparr>cc_request_id = get ''request_id'', cc_trace_id = get ''trace_id'',
           cc_traceparent = get ''traceparent'', cc_deadline = get ''deadline'',
           cc_retry_policy = get ''retry_policy'',
           cc_security_context = sanitize_security_context (get ''security_context''),
           cc_sandbox_profile = sandbox_profile, cc_tenant_id = get ''tenant_id'',
           cc_project_id = get ''project_id''\<rparr>)"

section \<open>Source resolution\<close>

datatype read_outcome = FileBytes string | NotFound | ReadFails pyexn

record file_system =
  fs_resolve :: "string \<Rightarrow> string list"
  fs_read :: "string list \<Rightarrow> read_outcome"

definition qfs_root :: "environ \<Rightarrow> file_system \<Rightarrow> string list" where
  "qfs_root env fs =
     fs_resolve fs (case env ''EIGEN_QFS_ROOT'' of None \<Rightarrow> ''/var/lib/eigen/circuit_fs'' | Some r \<Rightarrow> r)"

definition lstrip_slash :: "string \<Rightarrow> string" where
  "lstrip_slash s = dropWhile (\<lambda>c. c = CHR ''/'') s"

text \<open>\<open>(qfs_root / ref.lstrip("/")).resolve()\<close>.\<close>

definition ref_path :: "environ \<Rightarrow> file_system \<Rightarrow> string \<Rightarrow> string list" where
  "ref_path env fs ref =
     fs_resolve fs (''/'' @ py_join ''/'' (qfs_root env fs) @ ''/'' @ lstrip_slash (strip_scheme ref))"

text \<open>\<open>root == p or root in p.parents\<close>.\<close>

definition inside :: "string list \<Rightarrow> string list \<Rightarrow> bool" where
  "inside root p \<longleftrightarrow> take (length root) p = root"

definition resolve_source_bytes ::
  "environ \<Rightarrow> file_system \<Rightarrow> string \<Rightarrow> string option \<Rightarrow> (cexn, string \<times> string) result" where
  "resolve_source_bytes env fs source source_ref =
     (if source \<noteq> [] then Inr (source, ''source'')
      else case source_ref of
        None \<Rightarrow> Inl (ValidationError [violation ''source'' ''source or source_ref is required''])
      | Some ref \<Rightarrow>
          (if ref = [] then Inl (ValidationError [violation ''source'' ''source or source_ref is required''])
           else if \<not> inside (qfs_root env fs) (ref_path env fs ref)
           then Inl (ValidationError [violation ''source_ref'' ''source_ref escapes QFS root''])
           else case fs_read fs (ref_path env fs ref) of
             FileBytes b \<Rightarrow> Inr (b, ''source_ref'')
           | NotFound \<Rightarrow> Inl (ValidationError [violation ''source_ref'' (''source_ref not found: '' @ ref)])
           | ReadFails e \<Rightarrow> Inl (PyRaise e)))"

section \<open>Distributed compilation\<close>

record distributed_config =
  dc_enabled :: bool
  dc_target :: "string option"
  dc_partition_count :: "int option"
  dc_queue_provider :: "string option"
  dc_topology_hint :: "string option"

text \<open>\<open>opts.get(k) or None\<close>.\<close>

definition opt_or_none :: "options \<Rightarrow> string \<Rightarrow> string option" where
  "opt_or_none opts k = (case dget opts k of None \<Rightarrow> None | Some v \<Rightarrow> if v = [] then None else Some v)"

definition distributed_partition_count :: "options \<Rightarrow> (cexn, int option) result" where
  "distributed_partition_count opts =
     (case dget opts ''distributed.partition_count'' of
        None \<Rightarrow> Inr None
      | Some raw \<Rightarrow>
          (case py_int raw of
             None \<Rightarrow> Inl (ValidationError [violation ''options.distributed.partition_count''
               ''distributed.partition_count must be an integer''])
           | Some n \<Rightarrow>
               (if n < 1 then Inl (ValidationError [violation ''options.distributed.partition_count''
                  ''distributed.partition_count must be greater than zero''])
                else Inr (Some n))))"

definition distributed_compile_config :: "options option \<Rightarrow> (cexn, distributed_config) result" where
  "distributed_compile_config options =
     (let opts = normalize_options options in
      rbind (distributed_partition_count opts) (\<lambda>partition_count.
        Inr \<lparr>dc_enabled = (py_lower (dget_or opts ''distributed.enabled'' ''false'') = ''true''),
             dc_target = opt_or_none opts ''distributed.target'',
             dc_partition_count = partition_count,
             dc_queue_provider = opt_or_none opts ''distributed.queue_provider'',
             dc_topology_hint = opt_or_none opts ''distributed.topology_hint''\<rparr>))"

section \<open>What the redaction removes\<close>

lemma py_lower_length [simp]: "length (py_lower s) = length s"
  by (simp add: py_lower_def)

lemma py_lower_take: "py_lower (take n s) = take n (py_lower s)"
  by (simp add: py_lower_def take_map)

lemma py_lower_append: "py_lower (a @ b) = py_lower a @ py_lower b"
  by (simp add: py_lower_def)

lemma header_value_whole:
  assumes "v \<noteq> []" "\<not> is_ws (hd v)" "CHR 0x0A \<notin> set v" "list_all is_ws w"
  shows "header_value_match (CHR '':'' # w @ v) = Some (1 + length w + length v)"
proof -
  have ws: "\<not> is_ws (CHR '':'')" by code_simp
  have tw: "takeWhile is_ws (w @ v) = w" "dropWhile is_ws (w @ v) = v"
    using assms(1,2,4) by (cases v; auto simp: list_all_iff takeWhile_append dropWhile_append)+
  have nl: "takeWhile (\<lambda>x. x \<noteq> CHR 0x0A) v = v"
    using assms(3) by (auto simp: takeWhile_eq_all_conv)
  have "\<exists>x\<in>set w \<union> set v. \<not> is_ws x" using assms(1,2) by (cases v) auto
  with assms(1) show ?thesis unfolding header_value_match_def Let_def by (simp add: ws tw nl)
qed

lemma headers_prefix_free:
  assumes "h \<in> set sensitive_headers" "k \<in> set sensitive_headers" "take (length k) (h @ CHR '':'' # r) = k"
  shows "k = h"
proof -
  have free: "list_all (\<lambda>h. list_all (\<lambda>k. take (length k) h = k \<longrightarrow> k = h) sensitive_headers) sensitive_headers"
    and colon: "list_all (\<lambda>k. CHR '':'' \<notin> set k) sensitive_headers"
    by code_simp+
  have "length k \<le> length h"
  proof (rule ccontr)
    assume "\<not> length k \<le> length h"
    then have "CHR '':'' \<in> set (take (length k) (h @ CHR '':'' # r))"
      by (cases "length k - length h") auto
    with colon assms(2,3) show False by (auto simp: list_all_iff)
  qed
  then have "take (length k) h = k" using assms(3) by simp
  with free assms(1,2) show ?thesis by (auto simp: list_all_iff)
qed

lemma first_some_unique:
  assumes "x \<in> set xs" "f x = Some y" "\<And>z. z \<in> set xs \<Longrightarrow> z \<noteq> x \<Longrightarrow> f z = None"
  shows "first_some f xs = Some y"
  using assms
proof (induction xs)
  case (Cons a xs)
  then show ?case by (cases "a = x") auto
qed simp

lemma lower_colon [simp]: "lower_char (CHR '':'') = CHR '':''"
  by code_simp

lemma sensitive_header_whole:
  assumes "py_lower name \<in> set sensitive_headers" "v \<noteq> []" "\<not> is_ws (hd v)" "CHR 0x0A \<notin> set v" "list_all is_ws w"
  shows "sensitive_header_match None (name @ CHR '':'' # w @ v) = Some (length (name @ CHR '':'' # w @ v))"
proof -
  let ?s = "name @ CHR '':'' # w @ v"
  let ?f = "\<lambda>h. if py_lower (take (length h) ?s) = h
        then map_option (\<lambda>n. length h + n) (header_value_match (drop (length h) ?s)) else None"
  have low: "py_lower ?s = py_lower name @ CHR '':'' # py_lower (w @ v)"
    by (simp add: py_lower_def)
  have "?f (py_lower name) = Some (length ?s)"
    using header_value_whole [OF assms(2-5)] by simp
  moreover have "?f k = None" if "k \<in> set sensitive_headers" "k \<noteq> py_lower name" for k
  proof -
    have "py_lower (take (length k) ?s) \<noteq> k"
      using headers_prefix_free [OF assms(1) that(1)] that(2) unfolding py_lower_take low by blast
    then show ?thesis by simp
  qed
  ultimately have "first_some ?f sensitive_headers = Some (length ?s)"
    by (intro first_some_unique [OF assms(1)]) auto
  then show ?thesis by (simp add: sensitive_header_match_def word_before_def)
qed

lemma sanitize_header:
  assumes "py_lower name \<in> set sensitive_headers" "v \<noteq> []" "\<not> is_ws (hd v)" "CHR 0x0A \<notin> set v" "list_all is_ws w"
  shows "sanitize_security_context (name @ CHR '':'' # w @ v) = ''[REDACTED]''"
proof -
  obtain c s where s: "name @ CHR '':'' # w @ v = c # s" by (cases name) auto
  have "re_sub sensitive_header_match ''[REDACTED]'' None (c # s) = ''[REDACTED]''"
    using sensitive_header_whole [OF assms] unfolding s by simp
  moreover have "re_sub bearer_match ''[REDACTED]'' None ''[REDACTED]'' = ''[REDACTED]''"
    by code_simp
  ultimately show ?thesis by (simp only: sanitize_security_context_def s) simp
qed


lemma header_value_needs_colon: "CHR '':'' \<notin> set r \<Longrightarrow> header_value_match r = None"
proof -
  assume r: "CHR '':'' \<notin> set r"
  have "dropWhile is_ws r = c # t \<Longrightarrow> c \<in> set r" for c t
    by (metis list.set_intros(1) set_dropWhileD)
  with r show ?thesis by (auto simp: header_value_match_def Let_def split: list.splits)
qed

lemma first_some_None: "(\<And>x. x \<in> set xs \<Longrightarrow> f x = None) \<Longrightarrow> first_some f xs = None"
  by (induction xs) auto

lemma no_colon_no_header: "CHR '':'' \<notin> set s \<Longrightarrow> sensitive_header_match prev s = None"
  unfolding sensitive_header_match_def
  by (auto intro!: first_some_None header_value_needs_colon dest: in_set_dropD)

lemma re_sub_id: "(\<And>p t. set t \<subseteq> set s \<Longrightarrow> m p t = None) \<Longrightarrow> re_sub m repl prev s = s"
proof (induction s arbitrary: prev)
  case (Cons c s)
  have "re_sub m repl (Some c) s = s" using Cons(2) by (intro Cons(1)) auto
  moreover have "m prev (c # s) = None" by (rule Cons(2)) simp
  ultimately show ?case by simp
qed simp

lemma char_class_colon: "token_char c \<Longrightarrow> c \<noteq> CHR '':''" "is_ws c \<Longrightarrow> c \<noteq> CHR '':''"
  by (auto simp: token_char_def is_ws_def Let_def)

lemma lower_bearer_colon: "py_lower name = ''bearer'' \<Longrightarrow> CHR '':'' \<notin> set name"
proof
  assume "py_lower name = ''bearer''" "CHR '':'' \<in> set name"
  then have "lower_char (CHR '':'') \<in> set ''bearer''"
    unfolding py_lower_def by (metis image_eqI set_map)
  then show False by simp
qed

lemma is_word_token: "token_char c \<Longrightarrow> \<not> is_ws c"
  by (auto simp: token_char_def is_ws_def Let_def)

lemma bearer_whole:
  assumes "py_lower name = ''bearer''" "w \<noteq> []" "list_all is_ws w" "list_all token_char tok" "8 \<le> length tok" "is_word (last tok)"
  shows "bearer_match None (name @ w @ tok) = Some (length (name @ w @ tok))"
proof -
  have len: "length name = 6" using arg_cong [OF assms(1), of length] by simp
  have t6: "take 6 (name @ w @ tok) = name" "drop 6 (name @ w @ tok) = w @ tok" using len by simp_all
  obtain c t where tok: "tok = c # t" using assms(5) by (cases tok) auto
  have "\<not> is_ws c" using assms(4) tok is_word_token by simp
  then have tw: "takeWhile is_ws (w @ tok) = w" "dropWhile is_ws (w @ tok) = tok"
    using assms(3) tok by (auto simp: list_all_iff takeWhile_append dropWhile_append)
  have run: "takeWhile token_char tok = tok" using assms(4) by (auto simp: takeWhile_eq_all_conv list_all_iff)
  have "tok \<noteq> []" using tok by simp
  then have "boundary_at tok (length tok)"
    using assms(6) unfolding boundary_at_def by (simp add: last_conv_nth)
  then have "filter (\<lambda>n. 8 \<le> n \<and> boundary_at tok n) [0..<Suc (length tok)] \<noteq> []"
      "last (filter (\<lambda>n. 8 \<le> n \<and> boundary_at tok n) [0..<Suc (length tok)]) = length tok"
    using assms(5) by simp_all
  with assms(1,2) len show ?thesis
    unfolding bearer_match_def Let_def t6 tw run by (simp add: word_before_def)
qed

lemma sanitize_bearer:
  assumes "py_lower name = ''bearer''" "w \<noteq> []" "list_all is_ws w" "list_all token_char tok" "8 \<le> length tok" "is_word (last tok)"
  shows "sanitize_security_context (name @ w @ tok) = ''[REDACTED]''"
proof -
  have "CHR '':'' \<notin> set (name @ w @ tok)"
    using lower_bearer_colon [OF assms(1)] assms(3,4) char_class_colon by (auto simp: list_all_iff)
  then have id: "re_sub sensitive_header_match ''[REDACTED]'' None (name @ w @ tok) = name @ w @ tok"
    by (intro re_sub_id no_colon_no_header) auto
  obtain c s where s: "name @ w @ tok = c # s" using assms(2) by (cases name; cases w) auto
  have "re_sub bearer_match ''[REDACTED]'' None (name @ w @ tok) = ''[REDACTED]''"
    using bearer_whole [OF assms] unfolding s by simp
  with id show ?thesis by (simp only: sanitize_security_context_def s) simp
qed

end
