(* ===== verification/Pipeline.thy ===== *)
theory Pipeline
  imports RequestContext
begin

text \<open>
  The compilation itself (\<open>eigen_compiler/compiler.py\<close>): the AQO payload, the pass pipeline and
  \<open>compile_eigen_lang\<close> with its stages. The Python parser, SHA-256 and float arithmetic are
  parameters (a record \<open>platform\<close>), as are the environment and the file system. A stage reports to
  the observer, so a compilation returns its trace of (stage, outcome) events with its result; the
  elapsed times are left out.
\<close>

record platform =
  pl_parse :: "string \<Rightarrow> node option"
  pl_sha256 :: "string \<Rightarrow> string"
  pl_floats :: float_ops
  pl_env :: environ
  pl_fs :: file_system

section \<open>Stages\<close>

type_synonym trace = "(string \<times> string) list"
type_synonym 'a staged = "trace \<times> (cexn, 'a) result"

definition run_stage :: "string \<Rightarrow> (cexn, 'a) result \<Rightarrow> 'a staged" where
  "run_stage stage r = (case r of
       Inl e \<Rightarrow> ([(stage, ''failure'')], Inl e)
     | Inr x \<Rightarrow> ([(stage, ''success'')], Inr x))"

text \<open>Code between stages reports nothing.\<close>

definition unstaged :: "(cexn, 'a) result \<Rightarrow> 'a staged" where
  "unstaged r = ([], r)"

definition sbind :: "'a staged \<Rightarrow> ('a \<Rightarrow> 'b staged) \<Rightarrow> 'b staged" where
  "sbind m f = (case snd m of
       Inl e \<Rightarrow> (fst m, Inl e)
     | Inr x \<Rightarrow> (fst m @ fst (f x), snd (f x)))"

text \<open>\<open>except CompilerValidationError as exc: raise \<dots>(_relabel_violations(exc.violations, \<dots>))\<close>.\<close>

definition relabel :: "string \<Rightarrow> string \<Rightarrow> string \<Rightarrow> (cexn, 'a) result \<Rightarrow> (cexn, 'a) result" where
  "relabel stage rule pass_name r = (case r of
       Inl (ValidationError vs) \<Rightarrow> Inl (ValidationError (annotate_violations vs stage rule pass_name))
     | _ \<Rightarrow> r)"

definition lift_py :: "(pyexn, 'a) result \<Rightarrow> (cexn, 'a) result" where
  "lift_py r = (case r of Inl e \<Rightarrow> Inl (PyRaise e) | Inr x \<Rightarrow> Inr x)"

lemma lift_py_Inr [simp]: "lift_py r = Inr x \<longleftrightarrow> r = Inr x"
  by (cases r) (auto simp: lift_py_def)

section \<open>JSON\<close>

definition canonical_json_bytes :: "pyval \<Rightarrow> (cexn, string) result" where
  "canonical_json_bytes payload = lift_py (json_dumps False payload)"

definition canonical_json_text :: "pyval \<Rightarrow> (cexn, string) result" where
  "canonical_json_text payload = canonical_json_bytes payload"

text \<open>\<open>json.loads(json.dumps(v, sort_keys=True, \<dots>, allow_nan=False))\<close>.\<close>

definition json_copy :: "pyval \<Rightarrow> (cexn, pyval) result" where
  "json_copy v =
     rbind (lift_py (json_dumps False v)) (\<lambda>t.
       (case json_loads t of None \<Rightarrow> Inl (PyRaise (ValueError ''JSONDecodeError'')) | Some w \<Rightarrow> Inr w))"

text \<open>\<open>_encode_aqo_payload\<close>; payloads are compared as dictionaries, by their canonical forms.\<close>

definition encode_aqo_payload :: "platform \<Rightarrow> (string, pyval) dict \<Rightarrow> (cexn, string) result" where
  "encode_aqo_payload pl aqo =
     rbind (lift_py (validate_aqo_payload (pl_floats pl) aqo)) (\<lambda>violations.
       if violations \<noteq> [] then Inl (ValidationError violations)
       else rbind (canonical_json_bytes (PDict aqo)) (\<lambda>aqo_bytes.
         (case json_loads aqo_bytes of
            None \<Rightarrow> Inl (PyRaise (ValueError ''JSONDecodeError''))
          | Some v \<Rightarrow>
              (if \<not> same_payload v (PDict aqo)
               then Inl (ValidationError [violation ''operations'' ''AQO canonical round-trip failed''])
               else Inr aqo_bytes))))"

section \<open>AQO payload\<close>

fun opcode_of :: "pyval \<Rightarrow> pyval" where
  "opcode_of (PDict d) = vget d ''op''"
| "opcode_of _ = PNone"

definition measure_everything :: "int \<Rightarrow> pyval" where
  "measure_everything qubits =
     PDict [(''op'', PStr ''MEASURE''), (''q'', ints (py_range qubits)), (''c'', ints (py_range qubits))]"

definition rewrite_terminal_measurement :: "pyval list \<Rightarrow> int \<Rightarrow> (cexn, pyval list) result" where
  "rewrite_terminal_measurement operations qubits =
     rbind (json_copy (PList operations)) (\<lambda>v.
       (let rewritten = list_items v in
        if rewritten = [] \<or> opcode_of (last rewritten) \<noteq> PStr ''MEASURE''
        then Inr (rewritten @ [measure_everything qubits])
        else Inr rewritten))"

definition aqo_parameters :: "params \<Rightarrow> (string, pyval) dict" where
  "aqo_parameters params =
     foldl (\<lambda>d (_, p). dset (pe_name p) (pe_default p) d) [] (sort_key (\<lambda>item. pe_name (snd item)) params)"

definition bindings_payload :: "bindings \<Rightarrow> pyval" where
  "bindings_payload bs = PDict (map (\<lambda>(k, terms). (k, PDict terms)) bs)"

definition aqo_annotations ::
  "bool \<Rightarrow> bool \<Rightarrow> bindings \<Rightarrow> (string, pyval) dict option \<Rightarrow> (string, pyval) dict" where
  "aqo_annotations has_expectation has_minimize observable_bindings expectation_annotation =
     (if observable_bindings \<noteq> [] then [(''observables'', bindings_payload observable_bindings)] else [])
     @ (if has_expectation
        then [(''expectation'', PDict (case expectation_annotation of
               None \<Rightarrow> [(''kind'', PStr ''ExpectationValue'')]
             | Some a \<Rightarrow> if a = [] then [(''kind'', PStr ''ExpectationValue'')] else a))] else [])
     @ (if has_minimize
        then [(''hybrid_plan_marker'', PDict [(''kind'', PStr ''minimize''), (''expanded_by'', PStr ''kernel'')])]
        else [])"

definition opt_str :: "string option \<Rightarrow> string \<Rightarrow> string" where
  "opt_str v dflt = (case v of None \<Rightarrow> dflt | Some s \<Rightarrow> str_or s dflt)"

text \<open>\<open>distributed.partition_count or 1\<close>.\<close>

definition partition_count_or_one :: "distributed_config \<Rightarrow> int" where
  "partition_count_or_one dc = (case dc_partition_count dc of None \<Rightarrow> 1 | Some n \<Rightarrow> if n = 0 then 1 else n)"

definition build_aqo_payload ::
  "int \<Rightarrow> pyval list \<Rightarrow> params \<Rightarrow> string \<Rightarrow> string \<Rightarrow> bool \<Rightarrow> bool \<Rightarrow> bindings
   \<Rightarrow> (string, pyval) dict option \<Rightarrow> distributed_config \<Rightarrow> (string, pyval) dict" where
  "build_aqo_payload qubits operations params source_digest request_digest has_expectation has_minimize
     observable_bindings expectation_annotation distributed =
     (let annotations = aqo_annotations has_expectation has_minimize observable_bindings expectation_annotation in
      [(''version'', PStr AQO_VERSION), (''qubits'', PInt qubits), (''operations'', PList operations)]
      @ (if params \<noteq> [] then [(''parameters'', PDict (aqo_parameters params))] else [])
      @ [(''metadata'', PDict
           [(''compiler'', PStr ''eigen-compiler''), (''compiler_contract_version'', PStr ''1.0.0''),
            (''eigen_lang_version'', PStr ''1.0''), (''source_sha256'', PStr source_digest),
            (''request_sha256'', PStr request_digest)]),
         (''checksums'', PDict
           [(''source_sha256'', PStr source_digest), (''request_sha256'', PStr request_digest)])]
      @ (if annotations \<noteq> [] then [(''annotations'', PDict annotations)] else [])
      @ (if dc_enabled distributed
         then [(''topology'', PDict
           [(''version'', PStr ''1.0.0''), (''enabled'', PBool True),
            (''target'', PStr (opt_str (dc_target distributed) ''cluster'')),
            (''partition_count'', PInt (partition_count_or_one distributed)),
            (''queue_provider'', PStr (opt_str (dc_queue_provider distributed) [])),
            (''topology_hint'', PStr (opt_str (dc_topology_hint distributed) ''data_parallel''))])]
         else []))"

definition validate_lowering_payload ::
  "platform \<Rightarrow> (string, pyval) dict \<Rightarrow> (cexn, (string, pyval) dict) result" where
  "validate_lowering_payload pl aqo =
     rbind (lift_py (validate_aqo_payload (pl_floats pl) aqo)) (\<lambda>violations. gate ValidationError violations aqo)"

section \<open>Pass pipeline\<close>

record pass_record =
  pr_name :: string
  pr_kind :: string
  pr_preconditions :: "string list"
  pr_postconditions :: "string list"
  pr_input :: "(string, pyval) dict"
  pr_output :: "(string, pyval) dict"

record pass_pipeline =
  pp_records :: "pass_record list"
  pp_aqo :: "(string, pyval) dict"

definition pass_records ::
  "string \<Rightarrow> string \<Rightarrow> (string, pyval) dict \<Rightarrow> (string, pyval) dict \<Rightarrow> (string, pyval) dict \<Rightarrow> nat \<Rightarrow> int \<Rightarrow> pass_record list" where
  "pass_records source_digest source_precedence lowered_ir rewritten_ir validated_aqo operation_count qubits =
     [\<lparr>pr_name = ''lower_to_ir'', pr_kind = ''lowering'',
       pr_preconditions = [''ast_validated'', ''single_entrypoint_validated''],
       pr_postconditions = [''ir_extracted''],
       pr_input = [(''source_sha256'', PStr source_digest), (''source_precedence'', PStr source_precedence)],
       pr_output = lowered_ir\<rparr>,
      \<lparr>pr_name = ''rewrite_ir'', pr_kind = ''rewrite'',
       pr_preconditions = [''ir_extracted''], pr_postconditions = [''terminal_measurement_normalized''],
       pr_input = lowered_ir, pr_output = rewritten_ir\<rparr>,
      \<lparr>pr_name = ''validate_lowering'', pr_kind = ''validation'',
       pr_preconditions = [''ir_rewritten''], pr_postconditions = [''aqo_contract_valid''],
       pr_input = rewritten_ir,
       pr_output = [(''status'', PStr ''valid''), (''aqo_version'', PStr AQO_VERSION)]\<rparr>,
      \<lparr>pr_name = ''canonicalize_aqo'', pr_kind = ''lowering'',
       pr_preconditions = [''aqo_contract_valid''], pr_postconditions = [''canonical_json_ready''],
       pr_input = validated_aqo,
       pr_output = [(''operation_count'', PInt (int operation_count)), (''qubit_count'', PInt qubits)]\<rparr>]"

definition build_compiler_pass_pipeline ::
  "platform \<Rightarrow> int \<Rightarrow> pyval list \<Rightarrow> params \<Rightarrow> string \<Rightarrow> string \<Rightarrow> string \<Rightarrow> bool \<Rightarrow> bool \<Rightarrow> bindings
   \<Rightarrow> (string, pyval) dict option \<Rightarrow> distributed_config \<Rightarrow> (cexn, pass_pipeline) result" where
  "build_compiler_pass_pipeline pl qubits operations params source_digest source_precedence request_digest
     has_expectation has_minimize observable_bindings expectation_annotation distributed =
     rbind (json_copy (PList operations)) (\<lambda>lowered_operations.
     rbind (rewrite_terminal_measurement (list_items lowered_operations) qubits) (\<lambda>rewritten_operations.
       (let lowered_ir = [(''qubits'', PInt qubits), (''operations'', lowered_operations)];
            rewritten_ir = [(''qubits'', PInt qubits), (''operations'', PList rewritten_operations)];
            aqo_payload = build_aqo_payload qubits rewritten_operations params source_digest request_digest
              has_expectation has_minimize observable_bindings expectation_annotation distributed
        in rbind (validate_lowering_payload pl aqo_payload) (\<lambda>validated_aqo.
             Inr \<lparr>pp_records = pass_records source_digest source_precedence lowered_ir rewritten_ir
                    validated_aqo (length rewritten_operations) qubits,
                  pp_aqo = validated_aqo\<rparr>))))"

definition pass_payload :: "pass_record \<Rightarrow> pyval" where
  "pass_payload r = PDict
     [(''name'', PStr (pr_name r)), (''kind'', PStr (pr_kind r)),
      (''preconditions'', str_list (pr_preconditions r)), (''postconditions'', str_list (pr_postconditions r)),
      (''input'', PDict (pr_input r)), (''output'', PDict (pr_output r))]"

end
