(* ===== verification/Compile.thy ===== *)
theory Compile
  imports Pipeline
begin

text \<open>
  \<open>compile_eigen_lang\<close> (\<open>eigen_compiler/compiler.py\<close>): the stages in the order the function runs
  them, the digests of the request, and the metadata it returns beside the AQO bytes.
\<close>

section \<open>The stage bodies\<close>

definition parse_stage :: "platform \<Rightarrow> string \<Rightarrow> (cexn, node) result" where
  "parse_stage pl source =
     relabel ''parse'' ''compiler.source.parse'' ''parse''
       (case pl_parse pl source of
          None \<Rightarrow> Inl (source_error ''source must be valid UTF-8 Python syntax'')
        | Some tree \<Rightarrow> Inr tree)"

definition validate_ast_stage :: "platform \<Rightarrow> node \<Rightarrow> (cexn, unit) result" where
  "validate_ast_stage pl tree =
     relabel ''validate_ast'' ''compiler.source.validate_ast'' ''validate_ast''
       (gate ValidationError (validate_tree (pl_env pl) tree) ())"

definition annotate_stage ::
  "platform \<Rightarrow> node \<Rightarrow> (cexn, params \<times> bindings \<times> (string, pyval) dict option) result" where
  "annotate_stage pl tree =
     relabel ''annotate'' ''compiler.source.annotate'' ''annotate''
       (let (params, param_violations) = collect_params (pl_floats pl) tree in
        if param_violations \<noteq> [] then Inl (ValidationError param_violations)
        else let (observable_bindings, observable_violations) = collect_observable_bindings (pl_floats pl) tree in
          if observable_violations \<noteq> [] then Inl (ValidationError observable_violations)
          else Inr (params, observable_bindings,
                 collect_expectation_annotation (pl_floats pl) tree observable_bindings))"

definition lower_to_ir_stage :: "platform \<Rightarrow> node \<Rightarrow> params \<Rightarrow> (cexn, pyval list \<times> int) result" where
  "lower_to_ir_stage pl tree params =
     relabel ''lower_to_ir'' ''compiler.source.lower_to_ir'' ''lower_to_ir''
       (rbind (collect_operations (pl_floats pl) tree params) (\<lambda>(operations, qubits).
          Inr (map op_payload operations, qubits)))"

text \<open>\<open>any(isinstance(node, ast.Call) and _call_name(node.func) == name for node in ast.walk(tree))\<close>.\<close>

fun calls :: "string \<Rightarrow> node \<Rightarrow> bool" where
  "calls name (Call func args kws) = (call_name func = Some name)"
| "calls name _ = False"

definition has_call :: "string \<Rightarrow> node \<Rightarrow> bool" where
  "has_call name tree = list_ex (calls name) (ast_walk tree)"

definition profile_stage ::
  "options \<Rightarrow> bool \<Rightarrow> bool \<Rightarrow> bool \<Rightarrow> (cexn, workload_profile) result" where
  "profile_stage normalized source_ref_present has_expectation has_minimize =
     relabel ''eigen_dpda'' ''compiler.profile.validation'' ''eigen_dpda''
       (rbind (lift_py (resolve_workload_profile (Some normalized) has_expectation has_minimize))
          (\<lambda>(profile, selection_violations).
             if selection_violations \<noteq> [] then Inl (ValidationError selection_violations)
             else gate ValidationError
               (validate_workload_profile profile (Some normalized) source_ref_present has_expectation has_minimize)
               profile))"

definition canonicalize_stage :: "(string, pyval) dict \<Rightarrow> (cexn, string) result" where
  "canonicalize_stage aqo =
     relabel ''canonicalize_aqo'' ''compiler.aqo.canonicalize'' ''canonicalize_aqo''
       (canonical_json_bytes (PDict aqo))"

section \<open>Request digests\<close>

definition str_dict :: "(string, string) dict \<Rightarrow> pyval" where
  "str_dict d = PDict (map (\<lambda>(k, v). (k, PStr v)) d)"

text \<open>\<open>asdict(normalized_request_context)\<close>.\<close>

definition context_payload :: "compile_context \<Rightarrow> pyval" where
  "context_payload cc = str_dict
     [(''request_id'', cc_request_id cc), (''trace_id'', cc_trace_id cc), (''traceparent'', cc_traceparent cc),
      (''deadline'', cc_deadline cc), (''retry_policy'', cc_retry_policy cc),
      (''security_context'', cc_security_context cc), (''sandbox_profile'', cc_sandbox_profile cc),
      (''tenant_id'', cc_tenant_id cc), (''project_id'', cc_project_id cc)]"

text \<open>What the function knows about the request once the profile is chosen.\<close>

record request_facts =
  rf_source :: string
  rf_source_ref :: "string option"
  rf_options :: options
  rf_context :: compile_context
  rf_precedence :: string
  rf_source_digest :: string
  rf_profile :: workload_profile

definition request_digest_payload :: "request_facts \<Rightarrow> pyval" where
  "request_digest_payload rf = PDict
     [(''options'', str_dict (rf_options rf)), (''request_context'', context_payload (rf_context rf)),
      (''source_sha256'', PStr (rf_source_digest rf))]"

definition request_payload :: "request_facts \<Rightarrow> string \<Rightarrow> pyval" where
  "request_payload rf workload_profile_json = PDict
     [(''options'', str_dict (rf_options rf)), (''request_context'', context_payload (rf_context rf)),
      (''source_precedence'', PStr (rf_precedence rf)), (''workload_profile'', PStr (wp_kind (rf_profile rf))),
      (''workload_profile_json'', PStr workload_profile_json),
      (''source_ref'', PStr (opt_str (rf_source_ref rf) [])), (''source_sha256'', PStr (rf_source_digest rf))]"

record request_texts =
  rt_profile_json :: string
  rt_backend_contract_json :: string
  rt_aqo_request_digest :: string
  rt_request_digest :: string
  rt_options_json :: string
  rt_context_json :: string

definition request_texts_of :: "platform \<Rightarrow> request_facts \<Rightarrow> (cexn, request_texts) result" where
  "request_texts_of pl rf =
     rbind (canonical_json_text (PDict (workload_profile_payload (rf_profile rf)))) (\<lambda>workload_profile_json.
     rbind (canonical_json_text (PDict (backend_contract_payload (rf_profile rf) (Some (rf_options rf)))))
       (\<lambda>backend_contract_json.
     rbind (canonical_json_bytes (request_digest_payload rf)) (\<lambda>digest_bytes.
     rbind (canonical_json_bytes (request_payload rf workload_profile_json)) (\<lambda>request_bytes.
     rbind (canonical_json_bytes (str_dict (rf_options rf))) (\<lambda>options_json.
     rbind (canonical_json_bytes (context_payload (rf_context rf))) (\<lambda>request_context_json.
       Inr \<lparr>rt_profile_json = workload_profile_json, rt_backend_contract_json = backend_contract_json,
            rt_aqo_request_digest = pl_sha256 pl digest_bytes, rt_request_digest = pl_sha256 pl request_bytes,
            rt_options_json = options_json, rt_context_json = request_context_json\<rparr>))))))"

section \<open>Diagnostics and metadata\<close>

definition compiler_stage_order :: "string list" where
  "compiler_stage_order =
     [''parse'', ''validate_ast'', ''annotate'', ''lower_to_ir'', ''eigen_dpda'', ''canonicalize_aqo'', ''emit'']"

definition handoff_stage_order :: "string list" where
  "handoff_stage_order =
     [''parse'', ''semantic_validation'', ''annotate'', ''lower_to_ir'', ''lowering_validation'', ''eigen_dpda'',
      ''canonicalize_aqo'', ''emit'']"

definition decision_lineage :: "request_facts \<Rightarrow> string \<Rightarrow> string \<Rightarrow> (string, pyval) dict" where
  "decision_lineage rf aqo_digest request_digest =
     [(''contract_version'', PStr ''1.0.0''), (''compiler_contract_version'', PStr ''1.0.0''),
      (''optimizer_contract_version'', PStr ''1.0.0''), (''source_precedence'', PStr (rf_precedence rf)),
      (''stage_order'', str_list handoff_stage_order), (''request_id'', PStr (cc_request_id (rf_context rf))),
      (''trace_id'', PStr (cc_trace_id (rf_context rf))), (''traceparent'', PStr (cc_traceparent (rf_context rf))),
      (''workload_profile'', PStr (wp_kind (rf_profile rf))), (''source_sha256'', PStr (rf_source_digest rf)),
      (''aqo_sha256'', PStr aqo_digest), (''request_sha256'', PStr request_digest)]"

definition observability :: "string \<Rightarrow> (string, pyval) dict" where
  "observability request_digest =
     [(''contract_version'', PStr ''1.0.0''),
      (''trace_fields'', str_list [''request_id'', ''trace_id'', ''traceparent'']),
      (''metric_fields'', str_list [''rpc'', ''stage'', ''outcome'', ''elapsed_ms'']),
      (''metric_bounds'', PDict
        [(''labels_bounded'', PBool True), (''request_ids_in_metrics'', PBool False),
         (''trace_ids_in_metrics'', PBool False), (''tenant_ids_in_metrics'', PBool False),
         (''project_ids_in_metrics'', PBool False)]),
      (''lineage_sha256'', PStr request_digest)]"

definition explainability :: "(string, pyval) dict \<Rightarrow> (string, pyval) dict" where
  "explainability lineage =
     [(''contract_version'', PStr ''1.0.0''), (''decision'', PStr ''compiler_to_optimizer_handoff''),
      (''trace_fields'', str_list [''request_id'', ''trace_id'', ''traceparent'']),
      (''lineage'', PDict lineage),
      (''bounded_fields'', str_list
        [''request_id'', ''trace_id'', ''traceparent'', ''source_sha256'', ''aqo_sha256'', ''request_sha256''])]"

definition compiler_diagnostics :: "request_facts \<Rightarrow> string \<Rightarrow> string \<Rightarrow> (string, pyval) dict" where
  "compiler_diagnostics rf aqo_digest request_digest =
     (let lineage = decision_lineage rf aqo_digest request_digest;
          own = dset ''stage_order'' (str_list compiler_stage_order) lineage
      in [(''contract_version'', PStr ''1.0.0''), (''stage_order'', str_list compiler_stage_order),
          (''workload_profile'', PStr (wp_kind (rf_profile rf))),
          (''backend_contract'', PDict (backend_contract_payload (rf_profile rf) (Some (rf_options rf)))),
          (''decision_lineage'', PDict own),
          (''observability'', PDict (observability request_digest)),
          (''explainability'', PDict (dset ''lineage'' (PDict own) (explainability lineage)))])"

record compilation_result =
  aqo_json :: string
  metadata :: "(string, string) dict"

text \<open>The entries of \<open>metadata\<close> that describe the request and the texts derived from it.\<close>

definition base_metadata ::
  "platform \<Rightarrow> request_facts \<Rightarrow> request_texts \<Rightarrow> string \<Rightarrow> string \<Rightarrow> string \<Rightarrow> (string, string) dict" where
  "base_metadata pl rf rt aqo_digest passes_json diagnostics_json =
     (let cc = rf_context rf in
      [(''compiler'', ''eigen-compiler''), (''compiler_contract_version'', ''1.0.0''),
       (''eigen_lang_version'', ''1.0''), (''aqo_version'', AQO_VERSION),
       (''input_bytes'', show_nat (length (rf_source rf))), (''source_sha256'', rf_source_digest rf),
       (''aqo_sha256'', aqo_digest), (''request_sha256'', rt_request_digest rt),
       (''source_precedence'', rf_precedence rf), (''options_json'', rt_options_json rt),
       (''options_sha256'', pl_sha256 pl (rt_options_json rt)), (''request_context_json'', rt_context_json rt),
       (''request_id'', cc_request_id cc), (''trace_id'', cc_trace_id cc), (''traceparent'', cc_traceparent cc),
       (''deadline'', cc_deadline cc), (''retry_policy'', cc_retry_policy cc),
       (''security_context'', cc_security_context cc), (''sandbox_profile'', cc_sandbox_profile cc),
       (''tenant_id'', cc_tenant_id cc), (''project_id'', cc_project_id cc),
       (''compiler_pass_pipeline_version'', ''1.0.0''), (''compiler_passes_json'', passes_json),
       (''workload_profile'', wp_kind (rf_profile rf)), (''workload_profile_json'', rt_profile_json rt),
       (''backend_contract_version'', ''1.0.0''), (''backend_contract_json'', rt_backend_contract_json rt),
       (''compiler_diagnostics_json'', diagnostics_json)])"

text \<open>The entries set after the dictionary display, in order.\<close>

definition late_metadata :: "bool \<Rightarrow> string option \<Rightarrow> distributed_config \<Rightarrow> (string \<times> string) list" where
  "late_metadata has_minimize source_ref distributed =
     add_if has_minimize (''hybrid_plan_marker'', ''minimize'')
     @ add_if (opt_str source_ref [] \<noteq> []) (''source_ref'', opt_str source_ref [])
     @ [(''distributed.execution_metadata_version'', ''1.0.0''),
        (''distributed.topology_hints_version'', ''1.0.0''),
        (''distributed.enabled'', if dc_enabled distributed then ''true'' else ''false'')]
     @ (if dc_enabled distributed
        then [(''distributed.target'', opt_str (dc_target distributed) ''cluster''),
              (''distributed.partition_count'', show_int (partition_count_or_one distributed)),
              (''distributed.topology_hint'', opt_str (dc_topology_hint distributed) ''data_parallel'')]
             @ add_if (opt_str (dc_queue_provider distributed) [] \<noteq> [])
                 (''distributed.queue_provider'', opt_str (dc_queue_provider distributed) [])
        else [])"

definition build_metadata ::
  "platform \<Rightarrow> request_facts \<Rightarrow> request_texts \<Rightarrow> pass_pipeline \<Rightarrow> string \<Rightarrow> bool \<Rightarrow> distributed_config
   \<Rightarrow> (cexn, (string, string) dict) result" where
  "build_metadata pl rf rt pipeline aqo_digest has_minimize distributed =
     (let lineage = decision_lineage rf aqo_digest (rt_request_digest rt) in
      rbind (canonical_json_text (PDict [(''version'', PStr ''1.0.0''),
        (''passes'', PList (map pass_payload (pp_records pipeline)))])) (\<lambda>passes_json.
      rbind (canonical_json_text (PDict (compiler_diagnostics rf aqo_digest (rt_request_digest rt)))) (\<lambda>diagnostics_json.
      rbind (canonical_json_text (PDict lineage)) (\<lambda>lineage_json.
      rbind (canonical_json_text (PDict (observability (rt_request_digest rt)))) (\<lambda>observability_json.
      rbind (canonical_json_text (PDict (explainability lineage))) (\<lambda>explainability_json.
        Inr (foldl (\<lambda>d (k, v). dset k v d)
               (base_metadata pl rf rt aqo_digest passes_json diagnostics_json)
               (late_metadata has_minimize (rf_source_ref rf) distributed
                @ [(''decision_lineage_json'', lineage_json), (''observability_json'', observability_json),
                   (''explainability_json'', explainability_json)]))))))))"

section \<open>The compilation\<close>

definition compile_eigen_lang ::
  "platform \<Rightarrow> string \<Rightarrow> string option \<Rightarrow> options option \<Rightarrow> options option \<Rightarrow> compilation_result staged" where
  "compile_eigen_lang pl source source_ref opts request_context =
     (let normalized_options = normalize_options opts in
      sbind (unstaged (normalize_request_context request_context)) (\<lambda>context.
      sbind (unstaged (resolve_source_bytes (pl_env pl) (pl_fs pl) source source_ref)) (\<lambda>(resolved_source, precedence).
      sbind (run_stage ''parse'' (parse_stage pl resolved_source)) (\<lambda>tree.
      sbind (run_stage ''validate_ast'' (validate_ast_stage pl tree)) (\<lambda>_.
      sbind (run_stage ''annotate'' (annotate_stage pl tree)) (\<lambda>(params, bindings, expectation).
      sbind (run_stage ''lower_to_ir'' (lower_to_ir_stage pl tree params)) (\<lambda>(operations, qubits).
      sbind (run_stage ''eigen_dpda'' (Inr (has_call ''minimize'' tree))) (\<lambda>has_minimize.
      sbind (run_stage ''eigen_dpda'' (Inr (has_call ''ExpectationValue'' tree))) (\<lambda>has_expectation.
      sbind (unstaged (distributed_compile_config opts)) (\<lambda>distributed.
      sbind (run_stage ''eigen_dpda'' (profile_stage normalized_options (source_ref \<noteq> None) has_expectation has_minimize))
        (\<lambda>profile.
      (let rf = \<lparr>rf_source = source, rf_source_ref = source_ref, rf_options = normalized_options,
                 rf_context = context, rf_precedence = precedence,
                 rf_source_digest = pl_sha256 pl resolved_source, rf_profile = profile\<rparr> in
      sbind (unstaged (request_texts_of pl rf)) (\<lambda>texts.
      sbind (run_stage ''eigen_dpda''
        (relabel ''eigen_dpda'' ''compiler.pass_pipeline.build'' ''canonicalize_aqo''
          (build_compiler_pass_pipeline pl qubits operations params (rf_source_digest rf) precedence
             (rt_aqo_request_digest texts) has_expectation has_minimize bindings expectation distributed))) (\<lambda>pipeline.
      sbind (run_stage ''canonicalize_aqo'' (canonicalize_stage (pp_aqo pipeline))) (\<lambda>aqo_bytes.
      sbind (unstaged (build_metadata pl rf texts pipeline (pl_sha256 pl aqo_bytes) has_minimize distributed)) (\<lambda>md.
        run_stage ''emit'' (Inr \<lparr>aqo_json = aqo_bytes, metadata = md\<rparr>)))))))))))))))))"

end
