(* ===== verification/Stages.thy ===== *)
theory Stages
  imports Compile
begin

text \<open>
  The stages of a compilation as the observer sees them: which sequences of (stage, outcome) events
  a compilation reports, and which labels the violations of a failing stage carry. Both are
  properties of the combinators \<open>run_stage\<close> and \<open>sbind\<close> first and of \<open>compile_eigen_lang\<close> by
  composition.
\<close>

section \<open>The order of the stages\<close>

definition succeeded :: "string list \<Rightarrow> trace" where
  "succeeded stages = map (\<lambda>s. (s, ''success'')) stages"

text \<open>A trace that stops early, between stages or in one that fails.\<close>

inductive stopped :: "string list \<Rightarrow> trace \<Rightarrow> bool" where
  between: "stopped stages []"
| failing: "stopped (s # stages) [(s, ''failure'')]"
| later: "stopped stages tr \<Longrightarrow> stopped (s # stages) ((s, ''success'') # tr)"

definition follows :: "string list \<Rightarrow> 'a staged \<Rightarrow> bool" where
  "follows stages m \<longleftrightarrow> (case snd m of Inr x \<Rightarrow> fst m = succeeded stages | Inl e \<Rightarrow> stopped stages (fst m))"

lemma follows_unstaged_bind:
  "(\<And>x. r = Inr x \<Longrightarrow> follows s (f x)) \<Longrightarrow> follows s (sbind (unstaged r) f)"
  by (cases r) (auto simp: follows_def sbind_def unstaged_def intro: stopped.intros)

lemma follows_stage_bind:
  "(\<And>x. r = Inr x \<Longrightarrow> follows ss (f x)) \<Longrightarrow> follows (s # ss) (sbind (run_stage s r) f)"
  by (cases r) (auto simp: follows_def sbind_def run_stage_def succeeded_def
      intro: stopped.intros split: sum.splits)

lemma follows_run_stage: "follows [s] (run_stage s r)"
  by (cases r) (auto simp: follows_def run_stage_def succeeded_def intro: stopped.intros)

definition stage_sequence :: "string list" where
  "stage_sequence = [''parse'', ''validate_ast'', ''annotate'', ''lower_to_ir'', ''eigen_dpda'', ''eigen_dpda'',
     ''eigen_dpda'', ''eigen_dpda'', ''canonicalize_aqo'', ''emit'']"

lemma compile_follows: "follows stage_sequence (compile_eigen_lang pl source source_ref opts ctx)"
  unfolding compile_eigen_lang_def stage_sequence_def Let_def
  by (auto intro!: follows_unstaged_bind follows_stage_bind follows_run_stage split: prod.splits)

section \<open>The labels of violations\<close>

definition labelled :: "'a staged \<Rightarrow> bool" where
  "labelled m \<longleftrightarrow> (\<forall>s vs. (s, ''failure'') \<in> set (fst m) \<and> snd m = Inl (ValidationError vs) \<longrightarrow>
     (\<forall>v\<in>set vs. fv_stage v = s \<and> fv_rule v \<noteq> [] \<and> fv_pass_name v \<noteq> []))"

definition body_labelled :: "string \<Rightarrow> (cexn, 'a) result \<Rightarrow> bool" where
  "body_labelled s r \<longleftrightarrow> (\<forall>vs. r = Inl (ValidationError vs) \<longrightarrow>
     (\<forall>v\<in>set vs. fv_stage v = s \<and> fv_rule v \<noteq> [] \<and> fv_pass_name v \<noteq> []))"

lemma labelled_unstaged_bind:
  "(\<And>x. r = Inr x \<Longrightarrow> labelled (f x)) \<Longrightarrow> labelled (sbind (unstaged r) f)"
  by (cases r) (auto simp: labelled_def sbind_def unstaged_def)

lemma labelled_stage_bind:
  "body_labelled s r \<Longrightarrow> (\<And>x. r = Inr x \<Longrightarrow> labelled (f x)) \<Longrightarrow> labelled (sbind (run_stage s r) f)"
  by (cases r) (auto simp: labelled_def body_labelled_def sbind_def run_stage_def split: sum.splits)

lemma labelled_run_stage: "body_labelled s r \<Longrightarrow> labelled (run_stage s r)"
  by (cases r) (auto simp: labelled_def body_labelled_def run_stage_def split: sum.splits)

definition stage_in :: "string \<Rightarrow> (cexn, 'a) result \<Rightarrow> bool" where
  "stage_in s r \<longleftrightarrow> (\<forall>vs. r = Inl (ValidationError vs) \<longrightarrow> (\<forall>v\<in>set vs. fv_stage v \<in> {[], s}))"

lemma body_labelled_relabel:
  "stage_in s r \<Longrightarrow> s \<noteq> [] \<Longrightarrow> rule \<noteq> [] \<Longrightarrow> p \<noteq> [] \<Longrightarrow> body_labelled s (relabel s rule p r)"
  by (auto simp: body_labelled_def relabel_def stage_in_def annotate_violations_def annotate1_def str_or_def
      split: sum.splits cexn.splits)

lemma body_labelled_Inr [simp]: "body_labelled s (Inr x)"
  by (simp add: body_labelled_def)


lemma stage_violation [simp]: "fv_stage (violation f d) = []"
  by (simp add: violation_def)

definition unlabelled :: "field_violation list \<Rightarrow> bool" where
  "unlabelled vs \<longleftrightarrow> (\<forall>v\<in>set vs. fv_stage v = [])"

lemma unlabelled_simps [simp]:
  "unlabelled []" "unlabelled (v # vs) \<longleftrightarrow> fv_stage v = [] \<and> unlabelled vs"
  "unlabelled (us @ vs) \<longleftrightarrow> unlabelled us \<and> unlabelled vs"
  "unlabelled (concat vss) \<longleftrightarrow> (\<forall>vs\<in>set vss. unlabelled vs)"
  "unlabelled (add_if c v) \<longleftrightarrow> (c \<longrightarrow> fv_stage v = [])"
  "unlabelled (map g xs) \<longleftrightarrow> (\<forall>x\<in>set xs. fv_stage (g x) = [])"
  by (auto simp: unlabelled_def)

lemma unlabelled_imports: "unlabelled (import_violations n)"
  by (cases n rule: import_violations.cases) (auto split: option.splits if_splits)

lemma unlabelled_calls: "unlabelled (call_violations n)"
  by (cases n rule: call_violations.cases) (auto simp: Let_def split: option.splits if_splits)

lemma unlabelled_limits: "unlabelled (limits_loop a b q c d)"
  by (induction a b q c d rule: limits_loop.induct) (auto simp: Let_def split: prod.splits)

lemma unlabelled_tree: "unlabelled (validate_tree env t)"
  by (auto simp: validate_tree_def enforce_resource_limits_def reject_forbidden_imports_def
      reject_forbidden_calls_def reject_dynamic_control_flow_def validate_single_entrypoint_def Let_def
      intro: unlabelled_limits unlabelled_imports unlabelled_calls split: if_splits)

lemma stage_in_gate: "stage_in s (gate ValidationError vs x) \<longleftrightarrow> (\<forall>v\<in>set vs. fv_stage v \<in> {[], s})"
  by (auto simp: stage_in_def)

lemma unlabelled_params: "unlabelled (snd (collect_params fo t))"
proof -
  have step: "unlabelled (snd st) \<Longrightarrow> unlabelled (snd (collect_param fo n st))" for n st
    by (cases "(fo, n, st)" rule: collect_param.cases)
      (auto split: option.splits list.splits node.splits const.splits)
  have "unlabelled (snd st) \<Longrightarrow> unlabelled (snd (fold (collect_param fo) ns st))" for ns st
    by (induction ns arbitrary: st) (simp_all add: step)
  then show ?thesis by (simp add: collect_params_def)
qed


definition plain_error :: "(cexn, 'a) result \<Rightarrow> bool" where
  "plain_error r \<longleftrightarrow> (\<forall>vs. r = Inl (ValidationError vs) \<longrightarrow> unlabelled vs)"

lemma plain_error_simps [simp]:
  "plain_error (Inr x)" "plain_error (Inl (PyRaise e))"
  "plain_error (Inl (ValidationError vs)) \<longleftrightarrow> unlabelled vs"
  "plain_error (gate ValidationError vs y) \<longleftrightarrow> unlabelled vs"
  "plain_error (lift_py m)"
  by (auto simp: plain_error_def gate_def lift_py_def split: sum.splits)

lemma plain_error_rbind: "plain_error m \<Longrightarrow> (\<And>x. m = Inr x \<Longrightarrow> plain_error (f x)) \<Longrightarrow> plain_error (rbind m f)"
  by (cases m) (auto simp: plain_error_def)

lemma plain_error_rmap: "(\<And>x. x \<in> set xs \<Longrightarrow> plain_error (f x)) \<Longrightarrow> plain_error (rmap f xs)"
  by (induction xs) (auto intro!: plain_error_rbind)

lemma plain_error_rfold: "(\<And>x s. plain_error (f x s)) \<Longrightarrow> plain_error (rfold f xs s)"
  by (induction xs arbitrary: s) (auto intro!: plain_error_rbind)

lemma stage_in_plain: "plain_error r \<Longrightarrow> stage_in s r"
  by (auto simp: plain_error_def stage_in_def unlabelled_def)

lemmas plain_error_intros = plain_error_rbind plain_error_rmap plain_error_rfold

lemma plain_int_expr [simp]: "plain_error (resolve_int_expr fo c e)"
  by (auto simp: resolve_int_expr_def split: option.splits pyval.splits)

lemma plain_theta [simp]: "plain_error (resolve_theta_expr fo ps e)"
  by (auto simp: resolve_theta_expr_def Let_def split: option.splits pyval.splits)

lemma plain_qubits [simp]: "plain_error (extract_qubits fo args k name)"
  by (auto simp: extract_qubits_def intro!: plain_error_intros)

lemma plain_measure [simp]: "plain_error (lower_measure fo args kws)"
  unfolding lower_measure_def measure_c_def measure_basis_def
  by (auto intro!: plain_error_intros split: option.splits pyval.splits)

lemma plain_rotation [simp]: "plain_error (lower_rotation fo ps name args kws)"
  unfolding lower_rotation_def by (auto intro!: plain_error_intros split: option.splits)

lemma plain_lower_plain [simp]: "plain_error (lower_plain fo k name args)"
  unfolding lower_plain_def by (auto intro!: plain_error_intros)

lemma plain_lower_call [simp]: "plain_error (lower_call fo ps n name args kws)"
proof -
  have opt: "plain_error m \<Longrightarrow> plain_error (rbind m (\<lambda>lo. Inr (Some lo)))" for m :: "(cexn, lowered) result"
    by (auto intro: plain_error_rbind)
  then show ?thesis by (simp add: lower_call_def Let_def)
qed

lemma plain_collect_operation [simp]: "plain_error (collect_operation fo ps n st)"
  by (cases "(fo, ps, n, st)" rule: collect_operation.cases)
    (auto intro!: plain_error_rbind split: option.splits)

lemma plain_collect_operations [simp]: "plain_error (collect_operations fo t ps)"
  unfolding collect_operations_def by (rule plain_error_rfold) simp

lemma plain_gate_violations: "unlabelled (gate_violations name idx op q)"
  by (auto simp: gate_violations_def rotation_violations_def Let_def split: pyval.splits)

lemma plain_operation: "operation_violations fo n idx v = Inr vs \<Longrightarrow> unlabelled vs"
  by (cases v) (auto simp: operation_violations_def measure_violations_def Let_def rbind_eq_Inr
      plain_gate_violations split: if_splits)

lemma plain_operations: "operations_violations fo n idx xs = Inr vs \<Longrightarrow> unlabelled vs"
  by (induction xs arbitrary: idx vs) (auto simp: rbind_eq_Inr dest: plain_operation)

lemma plain_objects: "unlabelled (validate_parameters_object v)" "unlabelled (validate_optional_object v f)"
  by (cases v; auto simp: validate_parameters_object_def validate_optional_object_def)+

lemma plain_aqo: "validate_aqo_payload fo aqo = Inr vs \<Longrightarrow> unlabelled vs"
  unfolding validate_aqo_payload_def Let_def rbind_eq_Inr
  by (elim exE conjE) (drule plain_operations, auto simp only: sum.inject unlabelled_simps stage_violation plain_objects)

lemma plain_json_copy [simp]: "plain_error (json_copy v)"
  by (auto simp: json_copy_def intro!: plain_error_rbind split: option.splits)

lemma plain_pipeline [simp]:
  "plain_error (build_compiler_pass_pipeline pl n ops ps sd sp rd he hm bs ea dc)"
  unfolding build_compiler_pass_pipeline_def rewrite_terminal_measurement_def validate_lowering_payload_def Let_def
  by (auto intro!: plain_error_rbind simp: plain_aqo)


lemma stage_dpda [simp]: "fv_stage (dpda r f d) = ''eigen_dpda''"
  by (simp add: dpda_def)

lemma unlabelled_profile_violation [simp]: "fv_stage (profile_violation r f d) = []"
  by (simp add: profile_violation_def)

definition in_dpda :: "field_violation list \<Rightarrow> bool" where
  "in_dpda vs \<longleftrightarrow> (\<forall>v\<in>set vs. fv_stage v = ''eigen_dpda'')"

lemma in_dpda_simps [simp]:
  "in_dpda []" "in_dpda (v # vs) \<longleftrightarrow> fv_stage v = ''eigen_dpda'' \<and> in_dpda vs"
  "in_dpda (us @ vs) \<longleftrightarrow> in_dpda us \<and> in_dpda vs"
  "in_dpda (add_if c v) \<longleftrightarrow> (c \<longrightarrow> fv_stage v = ''eigen_dpda'')"
  by (auto simp: in_dpda_def)

lemma in_dpda_profile: "in_dpda (validate_workload_profile p opts sr he hm)"
  by (simp add: validate_workload_profile_def Let_def quantum_violations_def hybrid_violations_def
      distributed_violations_def benchmark_violations_def pipeline_violations_def replay_violations_def
      distributed_target_violations_def unknown_target_def split: option.splits)

lemma resolve_profile_plain:
  "resolve_workload_profile opts he hm = Inr (p, vs) \<Longrightarrow> unlabelled vs"
  unfolding resolve_workload_profile_def Let_def by (auto simp: rbind_eq_Inr split: if_splits)

lemma stage_in_profile:
  "stage_in ''eigen_dpda'' (rbind (lift_py (resolve_workload_profile (Some normalized) he hm))
          (\<lambda>(profile, selection_violations).
             if selection_violations \<noteq> [] then Inl (ValidationError selection_violations)
             else gate ValidationError (validate_workload_profile profile (Some normalized) sr he hm) profile))"
  using in_dpda_profile [of _ "Some normalized" sr he hm]
  by (auto simp: stage_in_def rbind_eq_Inl lift_py_def in_dpda_def unlabelled_def
      dest: resolve_profile_plain split: sum.splits if_splits)

lemma compile_labelled: "labelled (compile_eigen_lang pl source source_ref opts ctx)"
proof -
  have [simp]: "body_labelled ''parse'' (parse_stage pl s)" for s
    by (auto simp: parse_stage_def intro!: body_labelled_relabel stage_in_plain split: option.splits)
  have [simp]: "body_labelled ''validate_ast'' (validate_ast_stage pl t)" for t
    by (auto simp: validate_ast_stage_def unlabelled_tree intro!: body_labelled_relabel stage_in_plain)
  have [simp]: "body_labelled ''annotate'' (annotate_stage pl t)" for t
    using unlabelled_params [of "pl_floats pl" t]
    by (auto simp: annotate_stage_def collect_observable_bindings_def Let_def
        intro!: body_labelled_relabel stage_in_plain split: prod.splits)
  have [simp]: "body_labelled ''lower_to_ir'' (lower_to_ir_stage pl t ps)" for t ps
    by (auto simp: lower_to_ir_stage_def intro!: body_labelled_relabel stage_in_plain plain_error_rbind)
  have [simp]: "body_labelled ''eigen_dpda'' (profile_stage o1 b1 b2 b3)" for o1 b1 b2 b3
    unfolding profile_stage_def by (rule body_labelled_relabel [OF stage_in_profile]) simp_all
  have [simp]: "body_labelled ''canonicalize_aqo'' (canonicalize_stage a)" for a
    by (auto simp: canonicalize_stage_def canonical_json_bytes_def intro!: body_labelled_relabel stage_in_plain)
  have [simp]: "body_labelled ''eigen_dpda'' (relabel ''eigen_dpda'' ''compiler.pass_pipeline.build''
      ''canonicalize_aqo'' (build_compiler_pass_pipeline pl n ops ps sd sp rd he hm bs ea dc))"
    for n ops ps sd sp rd he hm bs ea dc
    by (rule body_labelled_relabel [OF stage_in_plain]) simp_all
  show ?thesis
    unfolding compile_eigen_lang_def Let_def
    by (auto intro!: labelled_unstaged_bind labelled_stage_bind labelled_run_stage split: prod.splits)
qed

end
