(* ===== verification/Passes.thy ===== *)
theory Passes
  imports Compile
begin

text \<open>
  The pass pipeline on the operations of the lowering: the contract of an operation does not depend
  on the order of its fields, the validator returns on every lowered operation, and the pipeline
  accepts exactly the operations with natural-number indices. Its payload is that of the lowered
  operations with a terminal measurement.
\<close>

section \<open>The contract and key order\<close>

lemma canon_PDict_obtain:
  assumes "wf_dict d"
  obtains e where "canon (PDict d) = PDict e" "wf_dict e" "set (dkeys e) = set (dkeys d)"
    "\<And>k. vget e k = canon (vget d k)" "\<And>k. dhas e k = dhas d k"
proof -
  let ?e = "sort_key fst (map (\<lambda>(k, v). (k, canon v)) d)"
  have e: "canon (PDict d) = PDict ?e" by simp
  have wf: "wf_dict (map (\<lambda>(k, v). (k, canon v)) d)" using assms by (simp only: fst_canon_entries)
  then have "wf_dict ?e" by simp
  moreover have "set (dkeys ?e) = set (dkeys d)" by (force simp: image_iff)
  moreover have look: "map_of ?e k = map_option canon (map_of d k)" for k
    using canon_dict_lookup [OF assms e] .
  moreover have "vget ?e k = canon (vget d k)" for k
    unfolding vget_def dget_or_def look by (cases "map_of d k") auto
  moreover have "dhas ?e k = dhas d k" for k
    unfolding dhas_def look by simp
  ultimately show thesis using that e by blast
qed

lemma canon_atoms [simp]:
  "canon v = PNone \<longleftrightarrow> v = PNone" "canon v = PStr s \<longleftrightarrow> v = PStr s" "canon v = PInt i \<longleftrightarrow> v = PInt i"
  by (cases v; simp)+

lemma canon_tests [simp]:
  "is_int (canon v) = is_int v" "int_of (canon v) = int_of v" "truthy (canon v) = truthy v"
  "scalar_value (canon v) = scalar_value v" "is_dict (canon v) = is_dict v"
  by (cases v; simp add: scalar_value_def)+

lemma canon_eq_PList: "canon v = PList xs \<longleftrightarrow> (\<exists>ys. v = PList ys \<and> xs = map canon ys)"
  by (cases v) auto

lemma indices_below_canon [simp]: "indices_below n (map canon xs) = indices_below n xs"
  by (simp add: indices_below_def)

text \<open>The contract of an operation does not depend on the order of its fields.\<close>

lemma aqo_op_ok_canon:
  assumes "wf_val v"
  shows "aqo_op_ok n (canon v) \<longleftrightarrow> aqo_op_ok n v"
proof (cases v)
  case (PDict d)
  then have d: "wf_dict d" "\<And>k w. map_of d k = Some w \<Longrightarrow> wf_val w"
    using assms by (auto simp: list_all_iff dest!: map_of_SomeD)
  have sub: "wf_val (vget d k)" for k
    using d(2) by (auto simp: vget_def dget_or_def split: option.splits)
  obtain e where e: "canon (PDict d) = PDict e" "\<And>k. vget e k = canon (vget d k)" "\<And>k. dhas e k = dhas d k"
    using canon_PDict_obtain [OF d(1)] by metis
  have truthy: "has_truthy e k = has_truthy d k" for k by (simp add: has_truthy_def e)
  have gate: "gate_ok name e (map canon q) = gate_ok name d q" for name q
  proof -
    have "(\<exists>p. vget e ''params'' = PDict p \<and> set (dkeys p) = {''theta''} \<and> scalar_value (vget p ''theta''))
      \<longleftrightarrow> (\<exists>p. vget d ''params'' = PDict p \<and> set (dkeys p) = {''theta''} \<and> scalar_value (vget p ''theta''))"
    proof (cases "vget d ''params''")
      case (PDict p)
      then have "wf_dict p" using sub [of "''params''"] by simp
      then obtain p' where "canon (PDict p) = PDict p'" "set (dkeys p') = set (dkeys p)"
          "\<And>k. vget p' k = canon (vget p k)"
        using canon_PDict_obtain by metis
      with PDict e(2) show ?thesis by simp
    qed (simp_all add: e(2))
    then show ?thesis by (simp add: gate_ok_def truthy e(2))
  qed
  have meas: "measure_ok n e (map canon q) = measure_ok n d q" for q
    by (auto simp: measure_ok_def e(2) truthy canon_eq_PList)
  show ?thesis
  proof (cases "vget d ''q''")
    case (PList q)
    then have "vget e ''q'' = PList (map canon q)" by (simp add: e(2))
    with PList show ?thesis
      unfolding \<open>v = PDict d\<close> aqo_op_ok_def e(1) by (simp add: e(2) gate meas)
  qed (simp_all add: \<open>v = PDict d\<close> aqo_op_ok_def e canon_eq_PList del: canon.simps(2))
qed (simp_all add: aqo_op_ok_def)

section \<open>Copies through JSON\<close>

lemma wf_json_wf_val: "wf_json v \<Longrightarrow> wf_val v"
  by (induction v rule: wf_json.induct) (auto simp: list_all_iff)

text \<open>Values without non-finite floats.\<close>

fun finite_val :: "pyval \<Rightarrow> bool" where
  "finite_val (PFloat r) = isfinite r"
| "finite_val (PList xs) = list_all finite_val xs"
| "finite_val (PDict d) = list_all (\<lambda>(k, v). finite_val v) d"
| "finite_val v = True"

lemma finite_val_canon [simp]: "finite_val (canon v) = finite_val v"
proof (induction v rule: canon.induct)
  case (2 d)
  then have "(\<forall>x\<in>set d. finite_val (canon (snd x)) = finite_val (snd x))" by auto
  then show ?case by (fastforce simp: list_all_iff)
qed (auto simp: list_all_iff)

lemma json_error_finite: "wf_json v \<Longrightarrow> finite_val v \<Longrightarrow> json_error b v = None"
proof (induction v rule: wf_json.induct)
  case (3 xs)
  then show ?case by (simp only: json_error_list) (simp add: list_all_iff)
next
  case (4 d)
  then show ?case by (simp only: json_error_dict) (fastforce simp: list_all_iff)
qed auto

lemma json_dumps_finite: "wf_json v \<Longrightarrow> finite_val v \<Longrightarrow> json_dumps b v = Inr (canonical_text v)"
  by (simp add: json_dumps_def json_error_finite canonical_text_def)

lemma json_copy_canon: "wf_json v \<Longrightarrow> finite_val v \<Longrightarrow> json_copy v = Inr (canon v)"
  by (simp add: json_copy_def json_dumps_finite lift_py_def json.dec_enc)

definition op_json_ok :: "lowered \<Rightarrow> bool" where
  "op_json_ok lo \<longleftrightarrow> (\<forall>t. lo_theta lo = Some t \<longrightarrow> wf_json t)"

lemma op_payload_json:
  assumes "lowered_shape lo" "op_json_ok lo"
  shows "wf_json (op_payload lo)" "finite_val (op_payload lo)"
proof -
  have t: "lo_theta lo = Some t \<Longrightarrow> wf_json t \<and> finite_val t" for t
    using assms by (cases t) (auto simp: lowered_shape_def op_json_ok_def scalar_value_def split: if_splits)
  have b: "lo_basis lo = Some b \<Longrightarrow> wf_json b \<and> finite_val b" for b
    using assms(1) by (auto simp: lowered_shape_def split: if_splits)
  show "wf_json (op_payload lo)" "finite_val (op_payload lo)"
    using t b by (auto simp: op_payload_def ints_def list_all_iff split: option.splits)
qed

lemma opcode_canon: "opcode_of (canon (op_payload lo)) = PStr (lo_op lo)"
proof -
  have "wf_dict d" if "op_payload lo = PDict d" for d
    using that by (auto simp: op_payload_def split: option.splits)
  moreover obtain d where d: "op_payload lo = PDict d" "vget d ''op'' = PStr (lo_op lo)"
    by (simp add: op_payload_def)
  ultimately obtain e where "canon (PDict d) = PDict e" "\<And>k. vget e k = canon (vget d k)"
    using canon_PDict_obtain by metis
  with d show ?thesis by simp
qed

text \<open>What the rewrite makes of the lowered operations.\<close>

definition measured :: "lowered list \<Rightarrow> int \<Rightarrow> lowered list" where
  "measured los n = (if los = [] \<or> lo_op (last los) \<noteq> ''MEASURE''
     then los @ [(plain_op ''MEASURE'' (py_range n))\<lparr>lo_c := Some (py_range n)\<rparr>] else los)"

lemma measure_everything_payload:
  "measure_everything n = op_payload ((plain_op ''MEASURE'' (py_range n))\<lparr>lo_c := Some (py_range n)\<rparr>)"
  by (simp add: measure_everything_def op_payload_def plain_op_def)

section \<open>The validator returns\<close>

lemma in_str_set_hashable: "hashable v \<Longrightarrow> \<exists>b. in_str_set v names = Inr b"
  by (cases v) (auto simp: in_str_set_def)

text \<open>On operations of the shape the lowering produces the validator returns: it does not raise.\<close>

definition op_typed :: "pyval \<Rightarrow> bool" where
  "op_typed v \<longleftrightarrow> (\<exists>d q. v = PDict d \<and> is_str (vget d ''op'') \<and> vget d ''q'' = PList q \<and> list_all is_int q
     \<and> (vget d ''c'' = PNone \<or> (\<exists>c. vget d ''c'' = PList c \<and> list_all is_int c)) \<and> hashable (vget d ''basis''))"

lemma operation_violations_returns:
  assumes "op_typed v" "is_int n"
  shows "\<exists>vs. operation_violations fo n idx v = Inr vs"
proof -
  obtain d q where d: "v = PDict d" "is_str (vget d ''op'')" "vget d ''q'' = PList q" "list_all is_int q"
    "vget d ''c'' = PNone \<or> (\<exists>c. vget d ''c'' = PList c \<and> list_all is_int c)" "hashable (vget d ''basis'')"
    using assms(1) by (auto simp: op_typed_def)
  have "\<exists>items. iter_or_empty (vget d ''c'') = Inr items \<and> list_all is_int items"
    using d(5)
  proof (elim disjE exE conjE)
    fix c assume "vget d ''c'' = PList c" "list_all is_int c"
    then show ?thesis by (cases c) (auto simp: iter_or_empty_def)
  qed (simp add: iter_or_empty_def)
  then obtain items where "iter_or_empty (vget d ''c'') = Inr items" "list_all is_int items" by blast
  then have "\<exists>vs. measure_violations fo n idx d q = Inr vs"
    using in_str_set_hashable [OF d(6), of AQO_MEASUREMENT_BASIS] assms(2)
    by (auto simp: measure_violations_def Let_def any_ge_ints)
  moreover obtain b where "in_str_set (vget d ''op'') AQO_ALLOWED_OPS = Inr b"
    using d(2) in_str_set_hashable [of "vget d ''op''" AQO_ALLOWED_OPS] by (auto simp: is_str_iff)
  ultimately show ?thesis
    using d assms(2) by (auto simp: operation_violations_def Let_def any_ge_ints is_str_iff)
qed

lemma operations_violations_returns:
  "list_all op_typed vs \<Longrightarrow> is_int n \<Longrightarrow> \<exists>r. operations_violations fo n idx vs = Inr r"
proof (induction vs arbitrary: idx)
  case (Cons v vs)
  then obtain a b where "operation_violations fo n idx v = Inr a"
      "operations_violations fo n (Suc idx) vs = Inr b"
    using operation_violations_returns [of v n fo idx] by fastforce
  then show ?case by simp
qed simp

lemma op_typed_payload:
  assumes "lowered_shape lo"
  shows "op_typed (op_payload lo)" "op_typed (canon (op_payload lo))"
proof -
  obtain d where d: "op_payload lo = PDict d" by (simp add: op_payload_def)
  have wf: "wf_dict d" using d by (auto simp: op_payload_def split: option.splits)
  have look: "vget d ''op'' = PStr (lo_op lo)" "vget d ''q'' = PList (map PInt (lo_q lo))"
    "vget d ''c'' = (case lo_c lo of None \<Rightarrow> PNone | Some c \<Rightarrow> PList (map PInt c))"
    "vget d ''basis'' = (case lo_basis lo of None \<Rightarrow> PNone | Some b \<Rightarrow> b)"
    using d by (cases "lo_theta lo"; cases "lo_c lo"; cases "lo_basis lo"; force simp: op_payload_def ints_def)+
  have "lo_basis lo \<in> {None, Some (PStr ''X''), Some (PStr ''Y''), Some (PStr ''Z'')}"
    using assms by (auto simp: lowered_shape_def split: if_splits)
  then have b: "hashable (vget d ''basis'')" "canon (vget d ''basis'') = vget d ''basis''"
    by (auto simp: look)
  show "op_typed (op_payload lo)"
    using b by (auto simp: op_typed_def d look list_all_iff split: option.splits)
  obtain e where e: "canon (PDict d) = PDict e" "\<And>k. vget e k = canon (vget d k)"
    using canon_PDict_obtain [OF wf] by metis
  show "op_typed (canon (op_payload lo))"
    using b unfolding d e(1) by (auto simp: op_typed_def look e(2) list_all_iff split: option.splits)
qed

lemma measured_inv: "lowering_inv (los, n) \<Longrightarrow> lowering_inv (measured los n, n)"
proof -
  assume inv: "lowering_inv (los, n)"
  then have "py_range n \<noteq> []" by (simp add: lowering_inv_def py_range_def)
  with inv show ?thesis
    by (auto simp: lowering_inv_def measured_def lowered_shape_def plain_op_def AQO_ALLOWED_OPS_def below_def)
qed

lemma measured_nonneg: "(\<forall>lo\<in>set (measured los n). nonneg lo) \<longleftrightarrow> (\<forall>lo\<in>set los. nonneg lo)"
  by (auto simp: measured_def nonneg_def plain_op_def)

text \<open>The operations after the rewrite: the copies have their fields in key order.\<close>

definition rewritten_payloads :: "lowered list \<Rightarrow> int \<Rightarrow> pyval list" where
  "rewritten_payloads los n =
     map (\<lambda>lo. canon (op_payload lo)) los
     @ (if los = [] \<or> lo_op (last los) \<noteq> ''MEASURE'' then [measure_everything n] else [])"

lemma rewritten_canon: "map canon (rewritten_payloads los n) = map (\<lambda>lo. canon (op_payload lo)) (measured los n)"
  by (simp add: rewritten_payloads_def measured_def measure_everything_payload)

lemma rewritten_ok:
  assumes "lowering_inv (los, n)" "\<forall>lo\<in>set los. op_json_ok lo"
  shows "(\<forall>v\<in>set (rewritten_payloads los n). aqo_op_ok n v) \<longleftrightarrow> (\<forall>lo\<in>set los. nonneg lo)"
    and "list_all op_typed (rewritten_payloads los n)"
proof -
  have inv: "lowered_shape lo" "below n lo" if "lo \<in> set (measured los n)" for lo
    using measured_inv [OF assms(1)] that by (auto simp: lowering_inv_def)
  have js: "op_json_ok lo" if "lo \<in> set (measured los n)" for lo
    using assms(2) that by (auto simp: measured_def op_json_ok_def plain_op_def split: if_splits)
  have wf: "wf_val (op_payload lo)" if "lo \<in> set (measured los n)" for lo
    using op_payload_json(1) [OF inv(1) [OF that] js [OF that]] by (rule wf_json_wf_val)
  have mem: "set (rewritten_payloads los n) \<subseteq> (\<Union>lo\<in>set (measured los n). {op_payload lo, canon (op_payload lo)})"
    and cov: "\<forall>lo\<in>set (measured los n). op_payload lo \<in> set (rewritten_payloads los n)
        \<or> canon (op_payload lo) \<in> set (rewritten_payloads los n)"
    by (auto simp: rewritten_payloads_def measured_def measure_everything_payload)
  have ok: "aqo_op_ok n (op_payload lo) \<longleftrightarrow> nonneg lo" "aqo_op_ok n (canon (op_payload lo)) \<longleftrightarrow> nonneg lo"
    if "lo \<in> set (measured los n)" for lo
    using op_payload_ok [OF inv [OF that]] aqo_op_ok_canon [OF wf [OF that]] by simp_all
  have "(\<forall>v\<in>set (rewritten_payloads los n). aqo_op_ok n v) \<longleftrightarrow> (\<forall>lo\<in>set (measured los n). nonneg lo)"
    using mem cov ok by blast
  then show "(\<forall>v\<in>set (rewritten_payloads los n). aqo_op_ok n v) \<longleftrightarrow> (\<forall>lo\<in>set los. nonneg lo)"
    by (simp only: measured_nonneg)
  show "list_all op_typed (rewritten_payloads los n)"
    using mem op_typed_payload [OF inv(1)] by (auto simp: list_all_iff)
qed

lemma rewrite_payloads:
  assumes "lowering_inv (los, n)" "\<forall>lo\<in>set los. op_json_ok lo"
  shows "json_copy (PList (map op_payload los)) = Inr (PList (map (\<lambda>lo. canon (op_payload lo)) los))"
    and "rewrite_terminal_measurement (map (\<lambda>lo. canon (op_payload lo)) los) n = Inr (rewritten_payloads los n)"
proof -
  have json: "wf_json (op_payload lo)" "finite_val (op_payload lo)" if "lo \<in> set los" for lo
    using op_payload_json that assms by (auto simp: lowering_inv_def)
  then show "json_copy (PList (map op_payload los)) = Inr (PList (map (\<lambda>lo. canon (op_payload lo)) los))"
    by (subst json_copy_canon) (auto simp: list_all_iff)
  have "json_copy (PList (map (\<lambda>lo. canon (op_payload lo)) los)) = Inr (PList (map (\<lambda>lo. canon (op_payload lo)) los))"
    using json by (subst json_copy_canon) (auto simp: list_all_iff)
  then show "rewrite_terminal_measurement (map (\<lambda>lo. canon (op_payload lo)) los) n = Inr (rewritten_payloads los n)"
    by (simp add: rewrite_terminal_measurement_def rewritten_payloads_def last_map opcode_canon Let_def)
qed

section \<open>The result of the pipeline\<close>

lemma build_aqo_lookup:
  fixes n ops params sd rd he hm bs ea dc
  defines "aqo \<equiv> build_aqo_payload n ops params sd rd he hm bs ea dc"
  shows "vget aqo ''version'' = PStr AQO_VERSION" "vget aqo ''qubits'' = PInt n"
    "vget aqo ''operations'' = PList ops"
    "vget aqo ''parameters'' = (if params = [] then PNone else PDict (aqo_parameters params))"
    "optional_object (vget aqo ''metadata'')" "optional_object (vget aqo ''checksums'')"
    "optional_object (vget aqo ''topology'')" "optional_object (vget aqo ''annotations'')"
    "set (dkeys aqo) \<subseteq> set AQO_ALLOWED_TOP_LEVEL_FIELDS" "wf_dict aqo"
  by (auto simp: aqo_def build_aqo_payload_def Let_def optional_object_def AQO_ALLOWED_TOP_LEVEL_FIELDS_def)

definition params_ok :: "params \<Rightarrow> bool" where
  "params_ok params \<longleftrightarrow> parameters_ok (PDict (aqo_parameters params))"

lemma aqo_parameters_Nil [simp]: "aqo_parameters [] = []"
  by (simp add: aqo_parameters_def)

lemma build_aqo_ok_iff:
  assumes "1 \<le> n" "ops \<noteq> []"
  shows "aqo_ok (build_aqo_payload n ops params sd rd he hm bs ea dc) \<longleftrightarrow>
    (\<forall>v\<in>set ops. aqo_op_ok n v) \<and> params_ok params"
  unfolding aqo_ok_split header_ok_def using assms build_aqo_lookup(9) [of n ops params sd rd he hm bs ea dc]
  by (auto simp: build_aqo_lookup params_ok_def parameters_ok_def simp del: set_map)

lemma build_aqo_canon:
  "canon (PList ops) = canon (PList ops') \<Longrightarrow>
   canon (PDict (build_aqo_payload n ops params sd rd he hm bs ea dc)) =
   canon (PDict (build_aqo_payload n ops' params sd rd he hm bs ea dc))"
  by (simp add: build_aqo_payload_def Let_def)

lemma validate_returns:
  assumes "list_all op_typed ops"
  shows "\<exists>vs. validate_aqo_payload fo (build_aqo_payload n ops params sd rd he hm bs ea dc) = Inr vs"
  using operations_violations_returns [OF assms, of "PInt n" fo 0]
  by (auto simp: validate_aqo_payload_def Let_def build_aqo_lookup)

text \<open>
  The pass pipeline on lowered operations: it validates the payload with a terminal measurement.
\<close>

lemma pass_pipeline_result:
  fixes los n params sd sp rd he hm bs ea dc pl
  assumes "lowering_inv (los, n)" "\<forall>lo\<in>set los. op_json_ok lo"
  defines "aqo \<equiv> build_aqo_payload n (rewritten_payloads los n) params sd rd he hm bs ea dc"
  shows "(\<exists>pp. build_compiler_pass_pipeline pl n (map op_payload los) params sd sp rd he hm bs ea dc = Inr pp)
      \<longleftrightarrow> (\<forall>lo\<in>set los. nonneg lo) \<and> params_ok params"
    and "build_compiler_pass_pipeline pl n (map op_payload los) params sd sp rd he hm bs ea dc = Inr pp
      \<Longrightarrow> pp_aqo pp = aqo \<and> pp_records pp = pass_records sd sp
        [(''qubits'', PInt n), (''operations'', PList (map (\<lambda>lo. canon (op_payload lo)) los))]
        [(''qubits'', PInt n), (''operations'', PList (rewritten_payloads los n))] aqo
        (length (rewritten_payloads los n)) n"
    and "build_compiler_pass_pipeline pl n (map op_payload los) params sd sp rd he hm bs ea dc \<noteq> Inl (PyRaise ex)"
proof -
  have ne: "1 \<le> n" "rewritten_payloads los n \<noteq> []"
    using assms(1) by (auto simp: lowering_inv_def rewritten_payloads_def)
  have ok: "aqo_ok aqo \<longleftrightarrow> (\<forall>lo\<in>set los. nonneg lo) \<and> params_ok params"
    unfolding aqo_def build_aqo_ok_iff [OF ne] rewritten_ok(1) [OF assms(1,2)] ..
  obtain vs where vs: "validate_aqo_payload (pl_floats pl) aqo = Inr vs"
    using validate_returns [OF rewritten_ok(2) [OF assms(1,2)]] unfolding aqo_def by blast
  then have "vs = [] \<longleftrightarrow> aqo_ok aqo" using validate_aqo_payload_iff [of "pl_floats pl" aqo] by simp
  note eq = build_compiler_pass_pipeline_def rewrite_payloads [OF assms(1,2)] validate_lowering_payload_def
    vs [unfolded aqo_def] lift_py_def rbind_eq_Inr Let_def
  show "(\<exists>pp. build_compiler_pass_pipeline pl n (map op_payload los) params sd sp rd he hm bs ea dc = Inr pp)
      \<longleftrightarrow> (\<forall>lo\<in>set los. nonneg lo) \<and> params_ok params"
    using \<open>vs = [] \<longleftrightarrow> aqo_ok aqo\<close> unfolding ok by (auto simp: eq)
  show "build_compiler_pass_pipeline pl n (map op_payload los) params sd sp rd he hm bs ea dc = Inr pp
      \<Longrightarrow> pp_aqo pp = aqo \<and> pp_records pp = pass_records sd sp
        [(''qubits'', PInt n), (''operations'', PList (map (\<lambda>lo. canon (op_payload lo)) los))]
        [(''qubits'', PInt n), (''operations'', PList (rewritten_payloads los n))] aqo
        (length (rewritten_payloads los n)) n"
    by (auto simp: eq aqo_def)
  show "build_compiler_pass_pipeline pl n (map op_payload los) params sd sp rd he hm bs ea dc \<noteq> Inl (PyRaise ex)"
    by (auto simp: eq rbind_eq_Inl)
qed

text \<open>Whatever it is given, what the pipeline returns meets the contract and ends in a measurement.\<close>

lemma pass_pipeline_sound:
  assumes "build_compiler_pass_pipeline pl n ops params sd sp rd he hm bs ea dc = Inr pp"
  shows "aqo_ok (pp_aqo pp)"
    and "\<exists>rops. pp_aqo pp = build_aqo_payload n rops params sd rd he hm bs ea dc \<and> rops \<noteq> []
           \<and> opcode_of (last rops) = PStr ''MEASURE''"
  using assms
  by (auto simp: build_compiler_pass_pipeline_def rewrite_terminal_measurement_def validate_lowering_payload_def
      rbind_eq_Inr Let_def validate_aqo_payload_iff measure_everything_def split: if_splits)

end
