(* ===== verification/Reprs.thy ===== *)
theory Reprs
  imports Passes
begin

text \<open>
  The representation of floats through the compiler: where the parser and the float arithmetic give
  finite floats their JSON number as representation, every literal, parameter, observable and
  rotation angle the compiler extracts can be written as JSON and read back.
\<close>

section \<open>Literals\<close>

lemma subnodes_trans: "m \<in> set (subnodes n) \<Longrightarrow> set (subnodes m) \<subseteq> set (subnodes n)"
proof (induction n rule: subnodes.induct)
  case (1 n)
  show ?case
  proof (cases "m = n")
    case False
    then obtain c where c: "c \<in> set (child_nodes n)" "m \<in> set (subnodes c)"
      using 1(2) by (auto simp: subnodes.simps [of n])
    then have "set (subnodes m) \<subseteq> set (subnodes c)" by (rule 1(1))
    with child_subnode [OF c(1)] show ?thesis by blast
  qed simp
qed

definition reprs_ok :: "float_ops \<Rightarrow> bool" where
  "reprs_ok fo \<longleftrightarrow>
     (\<forall>p a b r. fo_binop fo p a b = Some (FRfloat r) \<and> isfinite r \<longrightarrow> wf_float r)
     \<and> (\<forall>r. wf_float r \<and> isfinite (fo_neg fo r) \<longrightarrow> wf_float (fo_neg fo r))"

definition floats_ok :: "node \<Rightarrow> bool" where
  "floats_ok t \<longleftrightarrow> (\<forall>r. Constant (CFloat r) \<in> set (subnodes t) \<and> isfinite r \<longrightarrow> wf_float r)"

lemma floats_ok_sub: "floats_ok t \<Longrightarrow> n \<in> set (subnodes t) \<Longrightarrow> floats_ok n"
  using subnodes_trans unfolding floats_ok_def by blast

lemma floats_ok_child: "floats_ok t \<Longrightarrow> n \<in> set (child_nodes t) \<Longrightarrow> floats_ok n"
  by (rule floats_ok_sub) (use child_subnode subnodes_self in blast)+

fun float_wf :: "pyval \<Rightarrow> bool" where
  "float_wf (PFloat r) = wf_json (PFloat r)"
| "float_wf (PList xs) = list_all float_wf xs"
| "float_wf (PDict d) = (wf_dict d \<and> list_all (\<lambda>(k, v). float_wf v) d)"
| "float_wf v = True"

lemma float_wf_json: "float_wf v \<Longrightarrow> json_error b v = None \<Longrightarrow> wf_json v"
proof (induction v rule: wf_json.induct)
  case (3 xs)
  then show ?case by (simp only: json_error_list) (simp add: list_all_iff)
next
  case (4 d)
  then show ?case by (simp only: json_error_dict) (fastforce simp: list_all_iff)
qed auto

lemma float_wf_canon: "float_wf (canon v) \<longleftrightarrow> float_wf v"
proof (induction v rule: canon.induct)
  case (2 d)
  let ?m = "map (\<lambda>(k, v). (k, canon v)) d"
  have "wf_dict ?m \<longleftrightarrow> wf_dict d" by (simp only: fst_canon_entries)
  moreover have "list_all (\<lambda>(k, v). float_wf v) ?m \<longleftrightarrow> list_all (\<lambda>(k, v). float_wf v) d"
    using 2 by (auto simp: list_all_iff)
  ultimately show ?case by (simp add: list_all_iff)
qed (auto simp: list_all_iff)

lemma canonical_bytes_wf:
  assumes "canonical_json_bytes v = Inr t" "float_wf v"
  shows "wf_json v \<and> t = canonical_text v"
proof -
  have "json_dumps False v = Inr t" using assms(1) by (simp add: canonical_json_bytes_def)
  then have "json_error False (canon v) = None" by (auto simp: json_dumps_def Let_def split: option.splits)
  then have "wf_json (canon v)" using assms(2) float_wf_json float_wf_canon by blast
  with \<open>json_dumps False v = Inr t\<close> show ?thesis by (simp add: json_dumps_Inr)
qed

lemma of_fres_wf:
  "reprs_ok fo \<Longrightarrow> of_fres (fo_binop fo p a b) = Some v \<Longrightarrow> float_wf v"
  unfolding of_fres_def reprs_ok_def by (fastforce split: option.splits fres.splits if_splits)

lemma scalar_binop_wf: "reprs_ok fo \<Longrightarrow> scalar_binop fo p l r = Some v \<Longrightarrow> float_wf v"
  by (auto simp: scalar_binop_def int_binop_def intro: of_fres_wf split: pyval.splits if_splits)

lemma literal_scalar_wf:
  "reprs_ok fo \<Longrightarrow> floats_ok e \<Longrightarrow> literal_scalar fo e = Some v \<Longrightarrow> float_wf v"
proof (induction fo e arbitrary: v rule: literal_scalar.induct)
  case (1 fo c)
  then show ?case by (auto simp: floats_ok_def subnodes.simps split: const.splits if_splits)
next
  case (2 fo p operand)
  have sub: "floats_ok operand" by (rule floats_ok_child [OF 2(3)]) simp
  from 2(4) show ?case
  proof (cases "literal_scalar fo operand")
    case (Some w)
    have fin: "w = PFloat f \<Longrightarrow> f \<noteq> ''nan'' \<and> f \<noteq> ''inf'' \<and> f \<noteq> ''-inf''" for f
      using literal_scalar_finite [of fo operand f] Some by (auto simp: isfinite_def)
    from Some 2(4) 2(1) [OF _ 2(2) sub Some] show ?thesis
      using fin 2(2)
      by (auto simp: Let_def reprs_ok_def split: pyval.splits if_splits)
  qed (simp split: if_splits)
next
  case (3 fo l p r)
  then show ?case by (auto intro: scalar_binop_wf split: option.splits if_splits)
qed auto

lemma all_some_mem: "all_some xs = Some ys \<Longrightarrow> y \<in> set ys \<Longrightarrow> Some y \<in> set xs"
  by (induction xs arbitrary: ys rule: all_some.induct) auto

lemma dict_display_wf:
  assumes "dict_display kvs acc = Some d" "float_wf (PDict acc)" "\<forall>v\<in>snd ` set kvs. \<forall>w. v = Some w \<longrightarrow> float_wf w"
  shows "float_wf (PDict d)"
  using assms
proof (induction kvs acc rule: dict_display.induct)
  case (2 k v kvs acc)
  then obtain key w where k: "k = Some (PStr key)" "v = Some w"
    by (auto split: option.splits pyval.splits)
  have "set (dset key w acc) \<subseteq> insert (key, w) (set acc)"
    by (induction acc) auto
  then have "float_wf (PDict (dset key w acc))"
    using 2(3,4) k by (auto simp: list_all_iff intro: wf_dict_dset)
  with 2 k show ?case by simp
qed simp


lemma somes_mem: "Some k \<in> set ks \<Longrightarrow> k \<in> set (somes ks)"
  by (force simp: somes_def)

lemma literal_jsonish_wf:
  "reprs_ok fo \<Longrightarrow> floats_ok e \<Longrightarrow> literal_jsonish fo e = Some v \<Longrightarrow> float_wf v"
proof (induction fo e arbitrary: v rule: literal_jsonish.induct)
  case (1 fo elts c)
  have "floats_ok e" if "e \<in> set elts" for e
    using floats_ok_child [OF 1(3)] that by simp
  with 1 show ?case by (fastforce simp: list_all_iff dest: all_some_mem)
next
  case (2 fo elts c)
  have "floats_ok e" if "e \<in> set elts" for e
    using floats_ok_child [OF 2(3)] that by simp
  with 2 show ?case by (fastforce simp: list_all_iff dest: all_some_mem)
next
  case (3 fo ks vs)
  have sub: "floats_ok e" if "e \<in> set vs" for e
    using floats_ok_child [OF 3(4)] that by simp
  have "\<forall>v\<in>set (map (literal_jsonish fo) vs). \<forall>w. v = Some w \<longrightarrow> float_wf w"
    using 3(2,3) sub by auto
  moreover have "snd ` set (zip xs ys) \<subseteq> set ys" for xs :: "pyval option list" and ys :: "pyval option list"
    by (auto dest: set_zip_rightD)
  ultimately have "\<forall>v\<in>snd ` set (zip (map (\<lambda>k. case k of None \<Rightarrow> None | Some kn \<Rightarrow> literal_jsonish fo kn) ks)
            (map (literal_jsonish fo) vs)). \<forall>w. v = Some w \<longrightarrow> float_wf w"
    by blast
  with 3(5) show ?case by (auto intro: dict_display_wf)
qed (auto simp del: literal_scalar.simps intro: literal_scalar_wf)

lemma float_wf_dset: "float_wf (PDict d) \<Longrightarrow> float_wf v \<Longrightarrow> float_wf (PDict (dset k v d))"
proof -
  have "set (dset k v d) \<subseteq> insert (k, v) (set d)" by (induction d) auto
  then show "float_wf (PDict d) \<Longrightarrow> float_wf v \<Longrightarrow> float_wf (PDict (dset k v d))"
    by (auto simp: list_all_iff intro: wf_dict_dset)
qed

lemma observable_terms_wf:
  "reprs_ok fo \<Longrightarrow> \<forall>kw\<in>set kws. floats_ok (kw_value kw) \<Longrightarrow> float_wf (PDict terms)
   \<Longrightarrow> observable_terms fo kws terms = Some d \<Longrightarrow> float_wf (PDict d)"
proof (induction fo kws terms rule: observable_terms.induct)
  case (2 fo kw kws terms)
  then obtain a v where a: "kw_arg kw = Some a" "literal_jsonish fo (kw_value kw) = Some v"
    by (auto split: option.splits)
  then have "float_wf v" using 2(2,3) by (auto intro: literal_jsonish_wf)
  with 2 a show ?case using float_wf_dset by simp
qed simp

lemma floats_ok_kw: "floats_ok (Call f args kws) \<Longrightarrow> kw \<in> set kws \<Longrightarrow> floats_ok (kw_value kw)"
  using floats_ok_child [of "Call f args kws" kw] floats_ok_child [of kw] by (cases kw) auto

lemma resolve_observable_wf:
  assumes "reprs_ok fo" "floats_ok e" "resolve_observable_terms fo e = Some d"
  shows "float_wf (PDict d)"
proof -
  obtain f args kws where "e = Call f args kws" "observable_terms fo kws [] = Some d"
    using assms(3) by (cases "(fo, e)" rule: resolve_observable_terms.cases)
      (auto split: if_splits option.splits)
  with assms floats_ok_kw show ?thesis by (intro observable_terms_wf [of fo kws "[]" d]) auto
qed

section \<open>Parameters, observables and operations\<close>

lemma find_keyword_mem: "find_keyword a kws = Some e \<Longrightarrow> \<exists>kw\<in>set kws. e = kw_value kw"
  by (auto simp: find_keyword_def find_Some_iff)

definition params_wf :: "params \<Rightarrow> bool" where
  "params_wf params \<longleftrightarrow> (\<forall>p\<in>snd ` set params. float_wf (pe_default p))"

lemma snd_dset: "snd ` set (dset k v d) \<subseteq> insert v (snd ` set d)"
  by (induction d) auto

lemma collect_params_wf:
  assumes "reprs_ok fo" "floats_ok t"
  shows "params_wf (fst (collect_params fo t))"
proof -
  have step: "params_wf (fst (collect_param fo n st))" if n: "floats_ok n" and st: "params_wf (fst st)" for n st
  proof (cases "(fo, n, st)" rule: collect_param.cases)
    case (1 fo' targets func args kws params violations)
    have lit: "float_wf v" if "literal_scalar fo e = Some v" "e \<in> set args" for e v
    proof -
      have "floats_ok (Call func args kws)" using floats_ok_child [OF n] 1 by simp
      then have "floats_ok e" using that by (auto elim: floats_ok_child)
      with assms(1) that show ?thesis by (blast intro: literal_scalar_wf)
    qed
    show ?thesis
      using 1 st lit snd_dset
      by (auto simp: params_wf_def split: option.splits list.splits node.splits const.splits; fastforce)
  qed (use st in auto)
  have "params_wf (fst (fold (collect_param fo) (ast_walk t) ([], [])))"
    by (rule fold_invariant [where Q = floats_ok])
      (auto simp: set_ast_walk params_wf_def [of "[]"] intro: floats_ok_sub [OF assms(2)] step)
  then show ?thesis by (simp add: collect_params_def)
qed

definition bindings_wf :: "bindings \<Rightarrow> bool" where
  "bindings_wf bs \<longleftrightarrow> wf_dict bs \<and> (\<forall>terms\<in>snd ` set bs. float_wf (PDict terms))"

lemma collect_bindings_wf:
  assumes "reprs_ok fo" "floats_ok t"
  shows "bindings_wf (fst (collect_observable_bindings fo t))"
proof -
  have step: "bindings_wf (collect_observable fo n bs)" if n: "floats_ok n" and bs: "bindings_wf bs" for n bs
  proof (cases "(fo, n, bs)" rule: collect_observable.cases)
    case (1 fo' targets e bs')
    have "floats_ok e" using floats_ok_child [OF n] 1 by simp
    then have "float_wf (PDict d)" if "resolve_observable_terms fo e = Some d" for d
      using resolve_observable_wf assms(1) that by blast
    then show ?thesis
      using 1 bs snd_dset unfolding bindings_wf_def
      by (auto intro!: wf_dict_dset split: option.splits; fastforce)
  qed (use bs in auto)
  show ?thesis
    unfolding collect_observable_bindings_def fst_conv
    by (rule fold_invariant [where Q = floats_ok])
      (auto simp: set_ast_walk bindings_wf_def [of "[]"] intro: floats_ok_sub [OF assms(2)] step)
qed

lemma first_some_mem: "first_some f xs = Some y \<Longrightarrow> \<exists>x\<in>set xs. f x = Some y"
  by (induction xs) (auto split: option.splits)

lemma expectation_wf:
  assumes "reprs_ok fo" "floats_ok t" "collect_expectation_annotation fo t bs = Some a"
  shows "float_wf (PDict a)"
proof -
  obtain n where n: "n \<in> set (subnodes t)" "expectation_of fo bs n = Some a"
    using assms(3) first_some_mem unfolding collect_expectation_annotation_def set_ast_walk [symmetric] by metis
  from n(2) obtain f args kws where c: "n = Call f args kws"
    by (cases n) auto
  have "floats_ok n" using floats_ok_sub assms(2) n(1) .
  then have "floats_ok e" if "find_keyword ''observable'' kws = Some e" for e
    using find_keyword_mem [OF that] floats_ok_kw c by blast
  then have "float_wf (PDict d)" if "find_keyword ''observable'' kws = Some e" "resolve_observable_terms fo e = Some d" for e d
    using resolve_observable_wf assms(1) that by blast
  then show ?thesis
    using n(2) c by (auto split: if_splits option.splits node.splits simp del: float_wf.simps(3)) (simp_all add: list_all_iff)
qed

lemma lower_theta_ok:
  assumes "reprs_ok fo" "floats_ok (Call f args kws)" "lower_call fo ps n name args kws = Inr (Some lo)"
  shows "op_json_ok lo"
proof -
  have theta: "wf_json t" if e: "floats_ok e" and r: "resolve_theta_expr fo ps e = Inr t" for e t
    using literal_scalar_wf [OF assms(1) e] resolve_theta_scalar [OF r] r
    by (auto simp: resolve_theta_expr_def Let_def split: option.splits pyval.splits)
  have arg: "floats_ok e" if "e \<in> set args" for e
    using floats_ok_child [OF assms(2)] that by simp
  have kw: "floats_ok e" if "find_keyword ''theta'' kws = Some e" for e
    using find_keyword_mem [OF that] floats_ok_kw [OF assms(2)] by blast
  have rot: "op_json_ok lo" if low: "lower_rotation fo ps name args kws = Inr lo"
  proof -
    have at: "2 \<le> length args \<Longrightarrow> floats_ok (args ! 1)" by (rule arg) simp
    obtain e where "floats_ok e" "resolve_theta_expr fo ps e = Inr (the (lo_theta lo))"
        "lo_theta lo = Some (the (lo_theta lo))"
      using low at kw by (auto simp: lower_rotation_def rbind_eq_Inr plain_op_def split: option.splits if_splits)
    with theta show ?thesis by (auto simp: op_json_ok_def)
  qed
  have plain: "op_json_ok lo" if "lower_plain fo k nm args = Inr lo" for k nm
    using that by (auto simp: lower_plain_def rbind_eq_Inr plain_op_def op_json_ok_def)
  have meas: "op_json_ok lo" if "lower_measure fo args kws = Inr lo"
    using that by (auto simp: lower_measure_def rbind_eq_Inr plain_op_def op_json_ok_def split: if_splits)
  have all: "op_json_ok lo" if "Inr (Some ((plain_op nm q)\<lparr>lo_c := c\<rparr>)) = Inr (Some lo)" for nm q c
    using that by (auto simp: op_json_ok_def plain_op_def)
  show ?thesis
    using assms(3) [unfolded lower_call_def Let_def, THEN if_chain6, unfolded opt_eq_Some]
    by (elim disjE conjE) (erule rot plain meas all | simp)+
qed

lemma collect_operations_json:
  assumes "reprs_ok fo" "floats_ok t" "collect_operations fo t ps = Inr (los, n)"
  shows "\<forall>lo\<in>set los. op_json_ok lo"
proof -
  have "\<forall>lo\<in>set (fst (los, n)). op_json_ok lo"
    using assms(3) unfolding collect_operations_def
  proof (rule rfold_invariant [where P = "\<lambda>st. \<forall>lo\<in>set (fst st). op_json_ok lo"])
    fix x s st assume x: "x \<in> set (ast_walk t)" and s: "\<forall>lo\<in>set (fst s). op_json_ok lo"
      and st: "collect_operation fo ps x s = Inr st"
    have "floats_ok x" using x floats_ok_sub [OF assms(2)] by (simp add: set_ast_walk)
    with s st lower_theta_ok [OF assms(1)] show "\<forall>lo\<in>set (fst st). op_json_ok lo"
      by (cases "(fo, ps, x, s)" rule: collect_operation.cases)
        (fastforce simp: rbind_eq_Inr split: option.splits)+
  qed simp
  then show ?thesis by simp
qed

end
