(* ===== verification/CompileCorrect.thy ===== *)
theory CompileCorrect
  imports Stages Reprs
begin

text \<open>
  What \<open>compile_eigen_lang\<close> computes: when it succeeds, what the emitted bytes decode to, and where
  an exception that is no validation error can come from.
\<close>

section \<open>A successful compilation, unfolded\<close>

lemma snd_sbind [simp]: "snd (sbind m f) = rbind (snd m) (\<lambda>x. snd (f x))"
  by (auto simp: sbind_def split: sum.splits)

lemma snd_run_stage [simp]: "snd (run_stage s r) = r"
  by (cases r) (auto simp: run_stage_def)

lemma snd_unstaged [simp]: "snd (unstaged r) = r"
  by (simp add: unstaged_def)

lemma relabel_Inr [simp]: "relabel s ru p r = Inr x \<longleftrightarrow> r = Inr x"
  by (auto simp: relabel_def split: sum.splits cexn.splits)

record compiled =
  cm_tree :: node
  cm_params :: params
  cm_operations :: "lowered list"
  cm_qubits :: int
  cm_rf :: request_facts
  cm_texts :: request_texts
  cm_pipeline :: pass_pipeline

definition compiles ::
  "platform \<Rightarrow> string \<Rightarrow> string option \<Rightarrow> options option \<Rightarrow> options option \<Rightarrow> compiled \<Rightarrow> compilation_result \<Rightarrow> bool" where
  "compiles pl source source_ref opts ctx cm r \<longleftrightarrow>
    (\<exists>cc0 resolved precedence bindings expectation distributed.
     normalize_request_context ctx = Inr cc0
     \<and> resolve_source_bytes (pl_env pl) (pl_fs pl) source source_ref = Inr (resolved, precedence)
     \<and> pl_parse pl resolved = Some (cm_tree cm)
     \<and> frontend_ok (pl_env pl) (cm_tree cm)
     \<and> annotate_stage pl (cm_tree cm) = Inr (cm_params cm, bindings, expectation)
     \<and> collect_operations (pl_floats pl) (cm_tree cm) (cm_params cm) = Inr (cm_operations cm, cm_qubits cm)
     \<and> distributed_compile_config opts = Inr distributed
     \<and> profile_stage (normalize_options opts) (source_ref \<noteq> None) (has_call ''ExpectationValue'' (cm_tree cm))
         (has_call ''minimize'' (cm_tree cm)) = Inr (rf_profile (cm_rf cm))
     \<and> cm_rf cm = \<lparr>rf_source = source, rf_source_ref = source_ref, rf_options = normalize_options opts,
                 rf_context = cc0, rf_precedence = precedence,
                 rf_source_digest = pl_sha256 pl resolved, rf_profile = rf_profile (cm_rf cm)\<rparr>
     \<and> request_texts_of pl (cm_rf cm) = Inr (cm_texts cm)
     \<and> build_compiler_pass_pipeline pl (cm_qubits cm) (map op_payload (cm_operations cm)) (cm_params cm)
         (pl_sha256 pl resolved) precedence (rt_aqo_request_digest (cm_texts cm))
         (has_call ''ExpectationValue'' (cm_tree cm)) (has_call ''minimize'' (cm_tree cm)) bindings expectation distributed
         = Inr (cm_pipeline cm)
     \<and> canonical_json_bytes (PDict (pp_aqo (cm_pipeline cm))) = Inr (aqo_json r)
     \<and> build_metadata pl (cm_rf cm) (cm_texts cm) (cm_pipeline cm) (pl_sha256 pl (aqo_json r))
         (has_call ''minimize'' (cm_tree cm)) distributed = Inr (metadata r))"

lemma compile_iff:
  "snd (compile_eigen_lang pl source source_ref opts ctx) = Inr r \<longleftrightarrow>
     (\<exists>cm. compiles pl source source_ref opts ctx cm r)"
proof
  assume "snd (compile_eigen_lang pl source source_ref opts ctx) = Inr r"
  then obtain cc0 resolved precedence tree params bindings expectation los qubits distributed profile texts
      pipeline bytes md where
    *: "normalize_request_context ctx = Inr cc0"
    "resolve_source_bytes (pl_env pl) (pl_fs pl) source source_ref = Inr (resolved, precedence)"
    "pl_parse pl resolved = Some tree"
    "validate_tree (pl_env pl) tree = []"
    "annotate_stage pl tree = Inr (params, bindings, expectation)"
    "collect_operations (pl_floats pl) tree params = Inr (los, qubits)"
    "distributed_compile_config opts = Inr distributed"
    "profile_stage (normalize_options opts) (source_ref \<noteq> None) (has_call ''ExpectationValue'' tree) (has_call ''minimize'' tree) = Inr profile"
    "request_texts_of pl \<lparr>rf_source = source, rf_source_ref = source_ref, rf_options = normalize_options opts,
                 rf_context = cc0, rf_precedence = precedence,
                 rf_source_digest = pl_sha256 pl resolved, rf_profile = profile\<rparr> = Inr texts"
    "build_compiler_pass_pipeline pl qubits (map op_payload los) params (pl_sha256 pl resolved) precedence
       (rt_aqo_request_digest texts) (has_call ''ExpectationValue'' tree) (has_call ''minimize'' tree) bindings expectation distributed
         = Inr pipeline"
    "canonical_json_bytes (PDict (pp_aqo pipeline)) = Inr bytes"
    "build_metadata pl \<lparr>rf_source = source, rf_source_ref = source_ref, rf_options = normalize_options opts,
                 rf_context = cc0, rf_precedence = precedence,
                 rf_source_digest = pl_sha256 pl resolved, rf_profile = profile\<rparr> texts pipeline (pl_sha256 pl bytes)
         (has_call ''minimize'' tree) distributed = Inr md" "r = \<lparr>aqo_json = bytes, metadata = md\<rparr>"
    by (auto simp: compile_eigen_lang_def Let_def rbind_eq_Inr parse_stage_def validate_ast_stage_def
        lower_to_ir_stage_def canonicalize_stage_def split: prod.splits option.splits)
  then show "\<exists>cm. compiles pl source source_ref opts ctx cm r"
    by (intro exI [of _ "\<lparr>cm_tree = tree, cm_params = params, cm_operations = los, cm_qubits = qubits,
      cm_rf = \<lparr>rf_source = source, rf_source_ref = source_ref, rf_options = normalize_options opts,
                 rf_context = cc0, rf_precedence = precedence,
                 rf_source_digest = pl_sha256 pl resolved, rf_profile = profile\<rparr>, cm_texts = texts, cm_pipeline = pipeline\<rparr>"])
      (auto simp: compiles_def validate_tree_iff)
next
  assume "\<exists>cm. compiles pl source source_ref opts ctx cm r"
  then show "snd (compile_eigen_lang pl source source_ref opts ctx) = Inr r"
    by (auto simp: compiles_def compile_eigen_lang_def Let_def rbind_eq_Inr parse_stage_def validate_ast_stage_def
        validate_tree_iff lower_to_ir_stage_def canonicalize_stage_def intro: compilation_result.equality)
qed

section \<open>JSON texts of the request and the metadata\<close>

definition json_ok :: "pyval \<Rightarrow> bool" where
  "json_ok v \<longleftrightarrow> wf_json v \<and> finite_val v"

lemma json_ok_simps [simp]:
  "json_ok (PStr s)" "json_ok (PInt i)" "json_ok (PBool b)" "json_ok PNone"
  "json_ok (PList xs) \<longleftrightarrow> (\<forall>v\<in>set xs. json_ok v)"
  "json_ok (PDict d) \<longleftrightarrow> wf_dict d \<and> (\<forall>(k, v)\<in>set d. json_ok v)"
  "json_ok (str_list ss)"
  by (auto simp: json_ok_def list_all_iff str_list_def)

lemma json_ok_str_dict [simp]: "json_ok (str_dict d) \<longleftrightarrow> wf_dict d"
proof -
  have "map fst (map (\<lambda>(k, v). (k, PStr v)) d) = map fst d" by (induction d) auto
  then have "wf_dict (map (\<lambda>(k, v). (k, PStr v)) d) \<longleftrightarrow> wf_dict d" by (simp only:)
  then show ?thesis unfolding str_dict_def json_ok_simps by auto
qed

lemma canonical_ok: "json_ok v \<Longrightarrow> canonical_json_bytes v = Inr (canonical_text v)"
  by (simp add: canonical_json_bytes_def json_dumps_finite json_ok_def lift_py_def)

lemma json_error_False_finite: "json_error False v = None \<Longrightarrow> finite_val v"
proof (induction v rule: finite_val.induct)
  case (2 xs)
  then show ?case by (simp only: json_error_list) (simp add: list_all_iff)
next
  case (3 d)
  then show ?case by (simp only: json_error_dict) (fastforce simp: list_all_iff)
qed (auto split: if_splits)

lemma canonical_ok_iff:
  assumes "float_wf v"
  shows "(\<exists>t. canonical_json_bytes v = Inr t) \<longleftrightarrow> json_ok v"
proof
  assume "\<exists>t. canonical_json_bytes v = Inr t"
  then obtain t where t: "canonical_json_bytes v = Inr t" by blast
  then have "json_error False (canon v) = None"
    by (auto simp: canonical_json_bytes_def json_dumps_def Let_def lift_py_def split: option.splits)
  then have "finite_val (canon v)" by (rule json_error_False_finite)
  with canonical_bytes_wf [OF t assms] show "json_ok v" by (simp add: json_ok_def)
qed (auto dest: canonical_ok)

lemma normalize_options_wf: "wf_dict (normalize_options opts)"
proof -
  have "wf_dict d \<Longrightarrow> wf_dict (foldl (\<lambda>d (k, v). dset k v d) d xs)" for d :: options and xs
    by (induction xs arbitrary: d) (auto intro: wf_dict_dset)
  then show ?thesis by (simp add: normalize_options_def)
qed

lemma context_payload_ok [simp]: "json_ok (context_payload cc)"
  by (simp add: context_payload_def)

lemma backend_contract_ok: "json_ok (PDict (backend_contract_payload p opts))"
  by (auto simp: backend_contract_payload_def Let_def split: prod.splits)

lemma profile_payload_ok: "json_ok (PDict (workload_profile_payload p))"
  by (simp add: workload_profile_payload_def)

lemma request_texts_return:
  assumes "wf_dict (rf_options rf)"
  shows "\<exists>rt. request_texts_of pl rf = Inr rt"
  using assms
  by (simp add: request_texts_of_def canonical_json_text_def canonical_ok [OF profile_payload_ok]
      canonical_ok [OF backend_contract_ok] canonical_ok request_digest_payload_def request_payload_def)

lemma lineage_ok: "json_ok (PDict (decision_lineage rf a r))"
  and observability_ok: "json_ok (PDict (observability r))"
  by (simp_all add: decision_lineage_def observability_def)

lemma explainability_ok: "json_ok (PDict l) \<Longrightarrow> json_ok (PDict (explainability l))"
  by (simp add: explainability_def del: json_ok_simps(6)) simp

lemma diagnostics_ok: "json_ok (PDict (compiler_diagnostics rf a r))"
  using backend_contract_ok [of "rf_profile rf" "Some (rf_options rf)"]
  by (simp add: compiler_diagnostics_def decision_lineage_def explainability_def observability_def Let_def
      del: json_ok_simps(6)) (simp)

lemma pass_records_ok:
  assumes "json_ok (PDict l)" "json_ok (PDict rw)" "json_ok (PDict a)"
  shows "json_ok (PDict [(''version'', PStr ''1.0.0''),
    (''passes'', PList (map pass_payload (pass_records sd sp l rw a k n)))])"
  using assms by (auto simp: pass_records_def pass_payload_def)

lemma build_metadata_returns:
  assumes "json_ok (PDict [(''version'', PStr ''1.0.0''), (''passes'', PList (map pass_payload (pp_records pp)))])"
  shows "\<exists>md. build_metadata pl rf rt pp d hm dc = Inr md"
  using assms
  by (simp add: build_metadata_def Let_def canonical_json_text_def canonical_ok canonical_ok [OF diagnostics_ok]
      canonical_ok [OF lineage_ok] canonical_ok [OF observability_ok] canonical_ok [OF explainability_ok [OF lineage_ok]]
      del: json_ok_simps)

section \<open>When a compilation succeeds\<close>

definition platform_ok :: "platform \<Rightarrow> bool" where
  "platform_ok pl \<longleftrightarrow> reprs_ok (pl_floats pl) \<and> (\<forall>src t. pl_parse pl src = Some t \<longrightarrow> floats_ok t)"

lemma foldl_dset_wf:
  "float_wf (PDict d) \<Longrightarrow> \<forall>x\<in>set xs. float_wf (pe_default (snd x)) \<Longrightarrow>
   float_wf (PDict (foldl (\<lambda>d (_, p). dset (pe_name p) (pe_default p) d) d xs))"
  by (induction xs arbitrary: d) (simp_all add: case_prod_unfold float_wf_dset del: float_wf.simps(3))

lemma aqo_parameters_wf: "params_wf params \<Longrightarrow> float_wf (PDict (aqo_parameters params))"
  unfolding aqo_parameters_def by (rule foldl_dset_wf) (auto simp: params_wf_def)

lemma bindings_payload_wf: "bindings_wf bs \<Longrightarrow> float_wf (bindings_payload bs)"
proof -
  assume "bindings_wf bs"
  moreover have "map fst (map (\<lambda>(k, terms). (k, PDict terms)) bs) = map fst bs" by (induction bs) auto
  ultimately show ?thesis
    unfolding bindings_payload_def float_wf.simps(3) by (simp only: bindings_wf_def) (fastforce simp: list_all_iff)
qed

lemma build_aqo_wf:
  assumes "\<forall>v\<in>set ops. float_wf v" "params_wf params" "bindings_wf bs" "\<And>a. ea = Some a \<Longrightarrow> float_wf (PDict a)"
  shows "float_wf (PDict (build_aqo_payload n ops params sd rd he hm bs ea dc))"
  using assms(1) aqo_parameters_wf [OF assms(2)] bindings_payload_wf [OF assms(3)] assms(4)
  by (auto simp: build_aqo_payload_def aqo_annotations_def Let_def list_all_iff split: option.splits if_splits)

lemma json_ok_float_wf: "json_ok v \<Longrightarrow> float_wf v"
proof -
  have "wf_json v \<Longrightarrow> float_wf v"
    by (induction v rule: wf_json.induct) (auto simp: list_all_iff)
  then show "json_ok v \<Longrightarrow> float_wf v" by (simp add: json_ok_def)
qed

lemma json_ok_canon [simp]: "json_ok (canon v) \<longleftrightarrow> json_ok v"
  by (simp add: json_ok_def)

lemma rewritten_json_ok:
  assumes "lowering_inv (los, n)" "\<forall>lo\<in>set los. op_json_ok lo"
  shows "\<forall>v\<in>set (rewritten_payloads los n). json_ok v"
  using assms op_payload_json
  by (auto simp: rewritten_payloads_def json_ok_def lowering_inv_def measure_everything_def ints_def list_all_iff
      split: if_splits)

lemma annotate_stage_Inr:
  "annotate_stage pl t = Inr (params, bs, ea) \<longleftrightarrow>
     collect_params (pl_floats pl) t = (params, []) \<and> bs = fst (collect_observable_bindings (pl_floats pl) t)
     \<and> ea = collect_expectation_annotation (pl_floats pl) t bs"
  by (auto simp: annotate_stage_def Let_def collect_observable_bindings_def split: prod.splits)

lemma annotations_wf:
  assumes "platform_ok pl" "pl_parse pl src = Some t" "annotate_stage pl t = Inr (params, bs, ea)"
  shows "params_wf params" "bindings_wf bs" "ea = Some a \<Longrightarrow> float_wf (PDict a)"
proof -
  have ok: "reprs_ok (pl_floats pl)" "floats_ok t" using assms by (auto simp: platform_ok_def)
  show "params_wf params" "bindings_wf bs" "ea = Some a \<Longrightarrow> float_wf (PDict a)"
    using assms(3) collect_params_wf [OF ok] collect_bindings_wf [OF ok] expectation_wf [OF ok]
    by (auto simp: annotate_stage_Inr)
qed

lemma parameters_ok_canon: "wf_val v \<Longrightarrow> parameters_ok (canon v) \<longleftrightarrow> parameters_ok v"
  by (cases v) (auto simp: parameters_ok_def)

lemma list_items_canon: "list_items (canon v) = map canon (list_items v)"
  by (cases v) auto

lemma aqo_ok_canon:
  assumes "wf_val (PDict aqo)" "canon (PDict aqo) = PDict e"
  shows "aqo_ok e \<longleftrightarrow> aqo_ok aqo"
proof -
  have "wf_dict aqo" using assms(1) by simp
  then obtain e' where "canon (PDict aqo) = PDict e'" "set (dkeys e') = set (dkeys aqo)" "\<And>k. vget e' k = canon (vget aqo k)"
    using canon_PDict_obtain by metis
  then have e: "set (dkeys e) = set (dkeys aqo)" "\<And>k. vget e k = canon (vget aqo k)"
    using assms(2) by simp_all
  have sub: "wf_val (vget aqo k)" for k
    using assms(1) by (auto simp: vget_def dget_or_def list_all_iff split: option.splits dest!: map_of_SomeD)
  have "\<forall>v\<in>set (list_items (vget aqo ''operations'')). wf_val v"
    using sub [of "''operations''"] by (cases "vget aqo ''operations''") (auto simp: list_all_iff)
  then have "(\<forall>v\<in>set (list_items (vget e ''operations'')). aqo_op_ok (int_of (vget e ''qubits'')) v)
     \<longleftrightarrow> (\<forall>v\<in>set (list_items (vget aqo ''operations'')). aqo_op_ok (int_of (vget aqo ''qubits'')) v)"
    by (simp add: e(2) list_items_canon aqo_op_ok_canon)
  moreover have "header_ok e \<longleftrightarrow> header_ok aqo"
    unfolding header_ok_def e optional_object_def by (simp add: parameters_ok_canon [OF sub] list_items_canon)
  ultimately show ?thesis by (simp add: aqo_ok_split)
qed


text \<open>The requests a compilation succeeds on.\<close>

definition annotations_serializable :: "platform \<Rightarrow> node \<Rightarrow> bool" where
  "annotations_serializable pl tree =
     (let bs = fst (collect_observable_bindings (pl_floats pl) tree) in
      json_error False (PDict (aqo_annotations (has_call ''ExpectationValue'' tree) (has_call ''minimize'' tree) bs
        (collect_expectation_annotation (pl_floats pl) tree bs))) = None)"

definition source_ok :: "platform \<Rightarrow> node \<Rightarrow> bool" where
  "source_ok pl tree \<longleftrightarrow> frontend_ok (pl_env pl) tree
     \<and> (\<exists>params los n. collect_params (pl_floats pl) tree = (params, []) \<and> params_ok params
        \<and> collect_operations (pl_floats pl) tree params = Inr (los, n) \<and> (\<forall>lo\<in>set los. nonneg lo))
     \<and> annotations_serializable pl tree"

definition request_ok :: "platform \<Rightarrow> string \<Rightarrow> string option \<Rightarrow> options option \<Rightarrow> options option \<Rightarrow> bool" where
  "request_ok pl source source_ref opts ctx \<longleftrightarrow>
     (\<exists>cc resolved precedence tree dc profile.
        normalize_request_context ctx = Inr cc
        \<and> resolve_source_bytes (pl_env pl) (pl_fs pl) source source_ref = Inr (resolved, precedence)
        \<and> pl_parse pl resolved = Some tree \<and> source_ok pl tree
        \<and> distributed_compile_config opts = Inr dc
        \<and> profile_stage (normalize_options opts) (source_ref \<noteq> None) (has_call ''ExpectationValue'' tree)
            (has_call ''minimize'' tree) = Inr profile)"

lemma json_ok_error: "json_ok v \<Longrightarrow> json_error False v = None"
  by (simp add: json_ok_def json_error_finite)

lemma annotations_json_ok:
  assumes "platform_ok pl" "pl_parse pl src = Some t" "annotate_stage pl t = Inr (params, bs, ea)"
  shows "json_ok (PDict (aqo_annotations (has_call ''ExpectationValue'' t) (has_call ''minimize'' t) bs ea))
    \<longleftrightarrow> annotations_serializable pl t"
proof -
  note wf = annotations_wf [OF assms]
  have "float_wf (PDict (aqo_annotations (has_call ''ExpectationValue'' t) (has_call ''minimize'' t) bs ea))"
    using wf bindings_payload_wf [OF wf(2)]
    by (auto simp: aqo_annotations_def list_all_iff split: option.splits if_splits)
  moreover have "bs = fst (collect_observable_bindings (pl_floats pl) t)"
      "ea = collect_expectation_annotation (pl_floats pl) t bs"
    using assms(3) by (simp_all add: annotate_stage_Inr)
  ultimately show ?thesis
    by (auto simp: annotations_serializable_def Let_def json_ok_def [of "PDict _"] simp del: json_error.simps
        finite_val.simps wf_json.simps json_ok_simps
        intro: json_error_finite float_wf_json json_error_False_finite)
qed

lemma build_aqo_json_ok:
  assumes "\<forall>v\<in>set ops. json_ok v" "params_wf params" "params_ok params"
  shows "json_ok (PDict (build_aqo_payload n ops params sd rd he hm bs ea dc))
    \<longleftrightarrow> json_ok (PDict (aqo_annotations he hm bs ea))"
proof -
  have "json_ok v" if "scalar_value v" "float_wf v" for v
    using that by (cases v) (auto simp: scalar_value_def json_ok_def)
  then have "json_ok (PDict (aqo_parameters params))"
    using aqo_parameters_wf [OF assms(2)] assms(3)
    unfolding params_ok_def parameters_ok_def json_ok_simps(6) float_wf.simps(3) by (fastforce simp: list_all_iff)
  with assms(1) show ?thesis
    by (auto simp: build_aqo_payload_def Let_def)
qed

lemma compiles_request_ok:
  assumes "platform_ok pl" "compiles pl source source_ref opts ctx cm r"
  shows "request_ok pl source source_ref opts ctx"
proof -
  from assms(2) obtain cc0 resolved precedence bindings expectation distributed where
    c: "normalize_request_context ctx = Inr cc0"
     "resolve_source_bytes (pl_env pl) (pl_fs pl) source source_ref = Inr (resolved, precedence)"
     "pl_parse pl resolved = Some (cm_tree cm)"
     "frontend_ok (pl_env pl) (cm_tree cm)"
     "annotate_stage pl (cm_tree cm) = Inr (cm_params cm, bindings, expectation)"
     "collect_operations (pl_floats pl) (cm_tree cm) (cm_params cm) = Inr (cm_operations cm, cm_qubits cm)"
     "distributed_compile_config opts = Inr distributed"
     "profile_stage (normalize_options opts) (source_ref \<noteq> None) (has_call ''ExpectationValue'' (cm_tree cm))
         (has_call ''minimize'' (cm_tree cm)) = Inr (rf_profile (cm_rf cm))"
     "build_compiler_pass_pipeline pl (cm_qubits cm) (map op_payload (cm_operations cm)) (cm_params cm)
         (pl_sha256 pl resolved) precedence (rt_aqo_request_digest (cm_texts cm))
         (has_call ''ExpectationValue'' (cm_tree cm)) (has_call ''minimize'' (cm_tree cm)) bindings expectation distributed
         = Inr (cm_pipeline cm)"
     "canonical_json_bytes (PDict (pp_aqo (cm_pipeline cm))) = Inr (aqo_json r)"
    unfolding compiles_def by blast
  note inv = collect_operations_inv [OF c(6)]
  have js: "\<forall>lo\<in>set (cm_operations cm). op_json_ok lo"
    using collect_operations_json [OF _ _ c(6)] assms(1) c(3) by (simp add: platform_ok_def)
  note wf = annotations_wf [OF assms(1) c(3) c(5)]
  have nn: "\<forall>lo\<in>set (cm_operations cm). nonneg lo" "params_ok (cm_params cm)"
    using pass_pipeline_result(1) [OF inv js] c(9) by blast+
  have rw: "\<forall>v\<in>set (rewritten_payloads (cm_operations cm) (cm_qubits cm)). json_ok v"
    using rewritten_json_ok [OF inv js] .
  have "float_wf (PDict (pp_aqo (cm_pipeline cm)))"
    unfolding pass_pipeline_result(2) [OF inv js c(9), THEN conjunct1]
    by (rule build_aqo_wf) (use rw wf in \<open>auto intro: json_ok_float_wf\<close>)
  then have "json_ok (PDict (pp_aqo (cm_pipeline cm)))" using c(10) canonical_ok_iff by blast
  then have "annotations_serializable pl (cm_tree cm)"
    unfolding pass_pipeline_result(2) [OF inv js c(9), THEN conjunct1]
      build_aqo_json_ok [OF rw wf(1) nn(2)] annotations_json_ok [OF assms(1) c(3) c(5)] .
  with c nn show ?thesis
    unfolding request_ok_def source_ok_def annotate_stage_Inr by blast
qed

lemma pipeline_json_ok:
  assumes "platform_ok pl" "pl_parse pl src = Some t" "annotate_stage pl t = Inr (params, bs, ea)"
    "collect_operations (pl_floats pl) t params = Inr (los, n)" "annotations_serializable pl t"
    "build_compiler_pass_pipeline pl n (map op_payload los) params sd sp rd (has_call ''ExpectationValue'' t)
       (has_call ''minimize'' t) bs ea dc = Inr pp"
  shows "json_ok (PDict (pp_aqo pp))"
    and "json_ok (PDict [(''version'', PStr ''1.0.0''), (''passes'', PList (map pass_payload (pp_records pp)))])"
proof -
  note inv = collect_operations_inv [OF assms(4)]
  have js: "\<forall>lo\<in>set los. op_json_ok lo"
    using collect_operations_json [OF _ _ assms(4)] assms(1,2) by (simp add: platform_ok_def)
  have rw: "\<forall>v\<in>set (rewritten_payloads los n). json_ok v" using rewritten_json_ok [OF inv js] .
  have "params_ok params" using pass_pipeline_result(1) [OF inv js] assms(6) by blast
  note pr = pass_pipeline_result(2) [OF inv js assms(6)]
  show aqo: "json_ok (PDict (pp_aqo pp))"
    unfolding pr [THEN conjunct1] build_aqo_json_ok [OF rw annotations_wf(1) [OF assms(1-3)] \<open>params_ok params\<close>]
      annotations_json_ok [OF assms(1-3)] by (rule assms(5))
  show "json_ok (PDict [(''version'', PStr ''1.0.0''), (''passes'', PList (map pass_payload (pp_records pp)))])"
    unfolding pr [THEN conjunct2]
    by (rule pass_records_ok)
      (use rw aqo pr op_payload_json js inv in \<open>auto simp: lowering_inv_def json_ok_def list_all_iff\<close>)
qed

lemma request_ok_compiles:
  assumes "platform_ok pl" "request_ok pl source source_ref opts ctx"
  shows "\<exists>r. snd (compile_eigen_lang pl source source_ref opts ctx) = Inr r"
proof -
  from assms(2) obtain cc resolved precedence tree dc profile params los n where
    c: "normalize_request_context ctx = Inr cc"
     "resolve_source_bytes (pl_env pl) (pl_fs pl) source source_ref = Inr (resolved, precedence)"
     "pl_parse pl resolved = Some tree" "frontend_ok (pl_env pl) tree"
     "collect_params (pl_floats pl) tree = (params, [])" "params_ok params"
     "collect_operations (pl_floats pl) tree params = Inr (los, n)" "\<forall>lo\<in>set los. nonneg lo"
     "annotations_serializable pl tree" "distributed_compile_config opts = Inr dc"
     "profile_stage (normalize_options opts) (source_ref \<noteq> None) (has_call ''ExpectationValue'' tree)
            (has_call ''minimize'' tree) = Inr profile"
    unfolding request_ok_def source_ok_def by blast
  obtain bs ea where an: "annotate_stage pl tree = Inr (params, bs, ea)" using c(5) by (simp add: annotate_stage_Inr)
  have js: "\<forall>lo\<in>set los. op_json_ok lo"
    using collect_operations_json [OF _ _ c(7)] assms(1) c(3) by (simp add: platform_ok_def)
  define rf where "rf = \<lparr>rf_source = source, rf_source_ref = source_ref, rf_options = normalize_options opts,
                 rf_context = cc, rf_precedence = precedence,
                 rf_source_digest = pl_sha256 pl resolved, rf_profile = profile\<rparr>"
  obtain rt where rt: "request_texts_of pl rf = Inr rt"
    using request_texts_return [of rf pl] normalize_options_wf by (auto simp: rf_def)
  let ?he = "has_call ''ExpectationValue'' tree" and ?hm = "has_call ''minimize'' tree"
  obtain pp where pp: "build_compiler_pass_pipeline pl n (map op_payload los) params (pl_sha256 pl resolved) precedence
      (rt_aqo_request_digest rt) ?he ?hm bs ea dc = Inr pp"
    using pass_pipeline_result(1) [OF collect_operations_inv [OF c(7)] js] c(6,8) by blast
  note ok = pipeline_json_ok [OF assms(1) c(3) an c(7) c(9) pp]
  obtain md where "build_metadata pl rf rt pp (pl_sha256 pl (canonical_text (PDict (pp_aqo pp)))) ?hm dc = Inr md"
    using build_metadata_returns [OF ok(2)] by blast
  then show ?thesis
    using c(1-4,7,10,11) an rt pp canonical_ok [OF ok(1)]
    by (auto simp: compile_eigen_lang_def Let_def rbind_eq_Inr parse_stage_def validate_ast_stage_def
        validate_tree_iff lower_to_ir_stage_def canonicalize_stage_def rf_def)
qed

lemma compile_succeeds_iff:
  "platform_ok pl \<Longrightarrow>
   (\<exists>r. snd (compile_eigen_lang pl source source_ref opts ctx) = Inr r) \<longleftrightarrow> request_ok pl source source_ref opts ctx"
  using compiles_request_ok request_ok_compiles compile_iff by metis

section \<open>What a compilation emits\<close>

text \<open>A payload without an expectation annotation: the compiled program does not call \<open>ExpectationValue\<close>.\<close>

definition no_expectation :: "pyval \<Rightarrow> bool" where
  "no_expectation v = (case v of PDict a \<Rightarrow> vget a ''expectation'' = PNone | _ \<Rightarrow> True)"

lemma build_aqo_no_expectation:
  "no_expectation (canon (vget (build_aqo_payload n ops params sd rd False hm bs ea dc) ''annotations''))"
proof -
  let ?a = "aqo_annotations False hm bs ea"
  have a: "wf_dict ?a" "vget ?a ''expectation'' = PNone"
    by (simp_all add: aqo_annotations_def)
  obtain e where "canon (PDict ?a) = PDict e" "\<And>k. vget e k = canon (vget ?a k)"
    using canon_PDict_obtain [OF a(1)] by metis
  then have "no_expectation (canon (PDict ?a))" using a(2) by (simp add: no_expectation_def)
  moreover have "vget (build_aqo_payload n ops params sd rd False hm bs ea dc) ''annotations'' \<in> {PNone, PDict ?a}"
    by (simp add: build_aqo_payload_def Let_def)
  ultimately show ?thesis by (auto simp: no_expectation_def)
qed

lemma compile_decodes:
  assumes "platform_ok pl" "snd (compile_eigen_lang pl source source_ref opts ctx) = Inr r"
  shows "\<exists>resolved precedence tree params los n aqo.
     resolve_source_bytes (pl_env pl) (pl_fs pl) source source_ref = Inr (resolved, precedence)
     \<and> pl_parse pl resolved = Some tree \<and> collect_params (pl_floats pl) tree = (params, [])
     \<and> collect_operations (pl_floats pl) tree params = Inr (los, n)
     \<and> json_loads (aqo_json r) = Some (PDict aqo) \<and> aqo_ok aqo \<and> vget aqo ''qubits'' = PInt n
     \<and> vget aqo ''operations'' = PList (map (\<lambda>lo. canon (op_payload lo)) (measured los n))
     \<and> (has_call ''ExpectationValue'' tree \<or> no_expectation (vget aqo ''annotations''))"
proof -
  from assms(2) obtain cm where "compiles pl source source_ref opts ctx cm r" using compile_iff by blast
  then obtain resolved precedence bindings expectation distributed where
    c: "resolve_source_bytes (pl_env pl) (pl_fs pl) source source_ref = Inr (resolved, precedence)"
     "pl_parse pl resolved = Some (cm_tree cm)"
     "annotate_stage pl (cm_tree cm) = Inr (cm_params cm, bindings, expectation)"
     "collect_operations (pl_floats pl) (cm_tree cm) (cm_params cm) = Inr (cm_operations cm, cm_qubits cm)"
     "build_compiler_pass_pipeline pl (cm_qubits cm) (map op_payload (cm_operations cm)) (cm_params cm)
         (pl_sha256 pl resolved) precedence (rt_aqo_request_digest (cm_texts cm))
         (has_call ''ExpectationValue'' (cm_tree cm)) (has_call ''minimize'' (cm_tree cm)) bindings expectation distributed
         = Inr (cm_pipeline cm)"
     "canonical_json_bytes (PDict (pp_aqo (cm_pipeline cm))) = Inr (aqo_json r)"
    unfolding compiles_def by blast
  note inv = collect_operations_inv [OF c(4)]
  have js: "\<forall>lo\<in>set (cm_operations cm). op_json_ok lo"
    using collect_operations_json [OF _ _ c(4)] assms(1) c(2) by (simp add: platform_ok_def)
  note pp = pass_pipeline_result(2) [OF inv js c(5), THEN conjunct1]
  have "float_wf (PDict (pp_aqo (cm_pipeline cm)))"
    unfolding pp using rewritten_json_ok [OF inv js] annotations_wf [OF assms(1) c(2,3)]
    by (intro build_aqo_wf) (auto intro: json_ok_float_wf)
  from canonical_bytes_wf [OF c(6) this]
  have wf: "wf_json (PDict (pp_aqo (cm_pipeline cm)))" and bytes: "aqo_json r = canonical_text (PDict (pp_aqo (cm_pipeline cm)))"
    by auto
  have val: "wf_val (PDict (pp_aqo (cm_pipeline cm)))" using wf by (rule wf_json_wf_val)
  then have "wf_dict (pp_aqo (cm_pipeline cm))" by simp
  then obtain e where e: "canon (PDict (pp_aqo (cm_pipeline cm))) = PDict e" "\<And>k. vget e k = canon (vget (pp_aqo (cm_pipeline cm)) k)"
    using canon_PDict_obtain by metis
  have "json_loads (aqo_json r) = Some (PDict e)" using json.dec_enc [OF wf] bytes e(1) by simp
  moreover have "aqo_ok e" using aqo_ok_canon [OF val e(1)] pass_pipeline_sound(1) [OF c(5)] by simp
  moreover have "vget e ''qubits'' = PInt (cm_qubits cm)"
      "vget e ''operations'' = PList (map (\<lambda>lo. canon (op_payload lo)) (measured (cm_operations cm) (cm_qubits cm)))"
    unfolding e(2) pp by (simp_all add: build_aqo_lookup rewritten_canon)
  moreover have "has_call ''ExpectationValue'' (cm_tree cm) \<or> no_expectation (vget e ''annotations'')"
    unfolding e(2) pp using build_aqo_no_expectation by (cases "has_call ''ExpectationValue'' (cm_tree cm)") simp_all
  ultimately show ?thesis using c(1-4) unfolding annotate_stage_Inr by blast
qed

definition no_raise :: "(cexn, 'a) result \<Rightarrow> bool" where
  "no_raise r \<longleftrightarrow> (\<forall>e. r \<noteq> Inl (PyRaise e))"

lemma no_raise_simps [simp]:
  "no_raise (Inr x)" "no_raise (Inl (ValidationError vs))" "no_raise (gate ValidationError vs y)"
  "no_raise (relabel s ru p m) \<longleftrightarrow> no_raise m"
  by (auto simp: no_raise_def relabel_def gate_def split: sum.splits cexn.splits)

lemma no_raise_rbind: "no_raise m \<Longrightarrow> (\<And>x. m = Inr x \<Longrightarrow> no_raise (f x)) \<Longrightarrow> no_raise (rbind m f)"
  by (cases m) (auto simp: no_raise_def)

lemma no_raise_rmap: "(\<And>x. x \<in> set xs \<Longrightarrow> no_raise (f x)) \<Longrightarrow> no_raise (rmap f xs)"
  by (induction xs) (auto intro!: no_raise_rbind)

lemma no_raise_rfold: "(\<And>x s. no_raise (f x s)) \<Longrightarrow> no_raise (rfold f xs s)"
  by (induction xs arbitrary: s) (auto intro!: no_raise_rbind)

lemmas no_raise_intros = no_raise_rbind no_raise_rmap no_raise_rfold

lemma no_raise_lower [simp]:
  "no_raise (resolve_int_expr fo c e)" "no_raise (resolve_theta_expr fo ps e)"
  by (auto simp: resolve_int_expr_def resolve_theta_expr_def Let_def split: option.splits pyval.splits)

lemma no_raise_ops [simp]:
  "no_raise (lower_rotation fo ps name args kws)" "no_raise (lower_plain fo k name args)"
  "no_raise (lower_measure fo args kws)"
  unfolding lower_rotation_def lower_plain_def lower_measure_def extract_qubits_def measure_c_def measure_basis_def
  by (auto intro!: no_raise_intros split: option.splits pyval.splits)

lemma no_raise_lower_call [simp]: "no_raise (lower_call fo ps n name args kws)"
proof -
  have opt: "no_raise m \<Longrightarrow> no_raise (rbind m (\<lambda>lo. Inr (Some lo)))" for m :: "(cexn, lowered) result"
    by (auto intro: no_raise_rbind)
  then show ?thesis by (simp add: lower_call_def Let_def)
qed

lemma no_raise_collect [simp]: "no_raise (collect_operations fo t ps)"
  unfolding collect_operations_def
proof (rule no_raise_rfold)
  show "no_raise (collect_operation fo ps x s)" for x s
    by (cases "(fo, ps, x, s)" rule: collect_operation.cases) (auto intro!: no_raise_rbind split: option.splits)
qed

lemma no_raise_profile [simp]: "no_raise (profile_stage nopts sr he hm)"
proof -
  obtain p vs where "resolve_workload_profile (Some nopts) he hm = Inr (p, vs)"
    using resolve_profile_total by blast
  then show ?thesis by (simp add: profile_stage_def lift_py_def)
qed


lemma no_raise_inputs [simp]:
  "no_raise (normalize_request_context ctx)" "no_raise (distributed_compile_config opts)"
  by (auto simp: normalize_request_context_def distributed_compile_config_def distributed_partition_count_def Let_def
      intro!: no_raise_rbind split: option.splits)

lemma no_raise_stages [simp]:
  "no_raise (parse_stage pl s)" "no_raise (validate_ast_stage pl t)" "no_raise (annotate_stage pl t)"
  "no_raise (lower_to_ir_stage pl t ps)"
  by (auto simp: parse_stage_def validate_ast_stage_def annotate_stage_def lower_to_ir_stage_def Let_def
      intro!: no_raise_rbind split: option.splits prod.splits)

text \<open>Where an exception other than a validation error can come from.\<close>

definition read_raises :: "platform \<Rightarrow> string \<Rightarrow> string option \<Rightarrow> bool" where
  "read_raises pl source source_ref \<longleftrightarrow>
     source = [] \<and> (\<exists>ref e. source_ref = Some ref \<and> inside (qfs_root (pl_env pl) (pl_fs pl)) (ref_path (pl_env pl) (pl_fs pl) ref)
       \<and> fs_read (pl_fs pl) (ref_path (pl_env pl) (pl_fs pl) ref) = ReadFails e)"

lemma resolve_source_raises:
  "resolve_source_bytes (pl_env pl) (pl_fs pl) source source_ref = Inl (PyRaise e) \<Longrightarrow> read_raises pl source source_ref"
  by (auto simp: resolve_source_bytes_def read_raises_def split: if_splits option.splits read_outcome.splits)

lemma rbind_raise:
  "rbind m f = Inl (PyRaise e) \<Longrightarrow> no_raise m \<Longrightarrow> \<exists>x. m = Inr x \<and> f x = Inl (PyRaise e)"
  by (cases m) (auto simp: no_raise_def)

lemma pipeline_no_raise:
  assumes "platform_ok pl" "pl_parse pl src = Some t" "collect_operations (pl_floats pl) t ps = Inr (los, n)"
  shows "no_raise (build_compiler_pass_pipeline pl n (map op_payload los) ps sd sp rd he hm bs ea dc)"
  using pass_pipeline_result(3) [OF collect_operations_inv [OF assms(3)]] collect_operations_json [OF _ _ assms(3)] assms
  by (auto simp: no_raise_def platform_ok_def)


lemma parse_stage_Inr [simp]: "parse_stage pl s = Inr t \<longleftrightarrow> pl_parse pl s = Some t"
  by (auto simp: parse_stage_def split: option.splits)

lemma compile_no_raise:
  assumes "platform_ok pl" "\<not> read_raises pl source source_ref"
    and ser: "\<And>src prec t. resolve_source_bytes (pl_env pl) (pl_fs pl) source source_ref = Inr (src, prec)
      \<Longrightarrow> pl_parse pl src = Some t \<Longrightarrow> annotations_serializable pl t"
  shows "no_raise (snd (compile_eigen_lang pl source source_ref opts ctx))"
proof -
  have src: "no_raise (resolve_source_bytes (pl_env pl) (pl_fs pl) source source_ref)"
    using resolve_source_raises assms(2) by (auto simp: no_raise_def)
  have texts: "no_raise (request_texts_of pl rf)" if "rf_options rf = normalize_options opts" for rf
    using request_texts_return [of rf pl] normalize_options_wf that by (auto simp: no_raise_def)
  have tail: "no_raise (build_compiler_pass_pipeline pl n ops params sd sp rd (has_call ''ExpectationValue'' t)
        (has_call ''minimize'' t) bs ea dc)"
    "build_compiler_pass_pipeline pl n ops params sd sp rd (has_call ''ExpectationValue'' t)
        (has_call ''minimize'' t) bs ea dc = Inr pp \<Longrightarrow> no_raise (canonicalize_stage (pp_aqo pp))
       \<and> no_raise (build_metadata pl rf rt pp d hm dc')"
    if st: "resolve_source_bytes (pl_env pl) (pl_fs pl) source source_ref = Inr (s, prec)" "pl_parse pl s = Some t" "annotate_stage pl t = Inr (params, bs, ea)" "lower_to_ir_stage pl t params = Inr (ops, n)"
    for n ops params sd sp rd t bs ea dc pp s prec rf rt d hm dc'
  proof -
    obtain los where los: "collect_operations (pl_floats pl) t params = Inr (los, n)" "ops = map op_payload los"
      using st(4) by (auto simp: lower_to_ir_stage_def rbind_eq_Inr)
    show "no_raise (build_compiler_pass_pipeline pl n ops params sd sp rd (has_call ''ExpectationValue'' t)
        (has_call ''minimize'' t) bs ea dc)"
      using pipeline_no_raise [OF assms(1) st(2) los(1)] los(2) by simp
    assume "build_compiler_pass_pipeline pl n ops params sd sp rd (has_call ''ExpectationValue'' t)
        (has_call ''minimize'' t) bs ea dc = Inr pp"
    note ok = pipeline_json_ok [OF assms(1) st(2,3) los(1) ser [OF st(1,2)] this [unfolded los(2)]]
    show "no_raise (canonicalize_stage (pp_aqo pp)) \<and> no_raise (build_metadata pl rf rt pp d hm dc')"
      using canonical_ok [OF ok(1)] build_metadata_returns [OF ok(2), of pl rf rt d hm dc'] by (auto simp: canonicalize_stage_def)
  qed
  show ?thesis
    unfolding compile_eigen_lang_def Let_def snd_sbind snd_unstaged snd_run_stage
    by (auto intro!: no_raise_rbind src texts split: prod.splits)
      (rule tail(1) tail(2) [THEN conjunct1] tail(2) [THEN conjunct2]; assumption)+
qed

end
