(* ===== verification/Demo.thy ===== *)
theory Demo
  imports CompileCorrect
begin

text \<open>
  A small platform on which the theorems about the compiler are applied: a parser that knows four
  programs, a file system with one file, and limits from the environment.
\<close>

definition load :: node where
  "load = Other ''Load'' []"

text \<open>The statement \<open>f(q, \<dots>)\<close>.\<close>

definition gate_call :: "string \<Rightarrow> int list \<Rightarrow> node" where
  "gate_call f qs = Other ''Expr'' [Call (Name f load) (map (\<lambda>q. Constant (CInt q)) qs) []]"

definition with_block :: "node list \<Rightarrow> node" where
  "with_block body = Other ''With'' (Other ''withitem'' [Call (Name ''region'' load) [] []] # body)"

text \<open>A module with an import and one decorated entrypoint.\<close>

definition demo_program :: "node list \<Rightarrow> node" where
  "demo_program body = Other ''Module''
     [ImportFrom (Some ''eigen_lang'') [Alias ''hybrid_program''],
      FunctionDef False ''main'' (Other ''arguments'' []) body [Name ''hybrid_program'' load] []]"

definition bell :: node where
  "bell = demo_program [gate_call ''h'' [0], gate_call ''cx'' [0, 1]]"

definition entangle :: node where
  "entangle = demo_program [gate_call ''cx'' [0, 1]]"

definition negative :: node where
  "negative = demo_program [gate_call ''h'' [- 1]]"

definition arity :: node where
  "arity = demo_program [gate_call ''h'' []]"

definition nested :: node where
  "nested = demo_program [with_block [gate_call ''h'' [0]], gate_call ''x'' [0]]"

definition demo_floats :: float_ops where
  "demo_floats = \<lparr>fo_binop = (\<lambda>p a b. None), fo_neg = (\<lambda>r. r), fo_ge = (\<lambda>a b. False)\<rparr>"

definition demo_fs :: file_system where
  "demo_fs =
     \<lparr>fs_resolve = path_parts,
      fs_read = (\<lambda>p. if p = [''qfs'', ''jobs'', ''bell.py''] then FileBytes ''bell'' else NotFound)\<rparr>"

definition demo_platform :: platform where
  "demo_platform =
     \<lparr>pl_parse = map_of [(''bell'', bell), (''entangle'', entangle), (''negative'', negative), (''arity'', arity), (''nested'', nested)],
      pl_sha256 = (\<lambda>s. show_nat (length s)),
      pl_floats = demo_floats,
      pl_env = map_of [(''EIGEN_QFS_ROOT'', ''/qfs''), (''EIGEN_COMPILER_MAX_AST_NODES'', ''99''),
        (''EIGEN_COMPILER_MAX_AST_DEPTH'', ''9'')],
      pl_fs = demo_fs\<rparr>"

lemma bell_frontend: "frontend_ok (pl_env demo_platform) bell"
  unfolding validate_tree_iff [symmetric] by code_simp

lemma bell_operations:
  "collect_params demo_floats bell = ([], [])"
  "collect_operations demo_floats bell [] = Inr ([plain_op ''H'' [0], plain_op ''CX'' [0, 1]], 2)"
  by code_simp+

lemma bell_annotations:
  "annotations_serializable demo_platform bell" "\<not> has_call ''ExpectationValue'' bell" "\<not> has_call ''minimize'' bell"
  by code_simp+

lemma default_request:
  "normalize_options None = []" "profile_stage [] False False False = Inr quantum_profile"
  "\<exists>cc. normalize_request_context None = Inr cc" "\<exists>dc. distributed_compile_config None = Inr dc"
  by (code_simp, code_simp, simp_all add: normalize_request_context_def ALLOWED_SANDBOX_PROFILES_def dget_or_def
      py_strip_def py_lower_def py_lstrip_def py_rstrip_def Let_def distributed_compile_config_def
      normalize_options_def distributed_partition_count_def)

lemma demo_platform_ok: "platform_ok demo_platform"
proof -
  have "floats_ok bell" "floats_ok entangle" "floats_ok negative" "floats_ok arity" "floats_ok nested"
    by (auto simp: bell_def entangle_def negative_def arity_def nested_def with_block_def floats_ok_def demo_program_def gate_call_def load_def
        subnodes.simps)
  then show ?thesis
    by (auto simp: platform_ok_def reprs_ok_def demo_platform_def demo_floats_def split: if_splits)
qed

lemma demo_parse: "pl_parse demo_platform ''bell'' = Some bell"
  "resolve_source_bytes (pl_env demo_platform) (pl_fs demo_platform) ''bell'' None = Inr (''bell'', ''source'')"
  by (simp_all add: demo_platform_def resolve_source_bytes_def)

lemma demo_request_ok:
  assumes "pl_parse demo_platform src = Some t" "src \<noteq> []" "frontend_ok (pl_env demo_platform) t"
    and "collect_params demo_floats t = ([], [])" "collect_operations demo_floats t [] = Inr (los, n)" "\<forall>lo\<in>set los. nonneg lo"
    and "annotations_serializable demo_platform t" "\<not> has_call ''ExpectationValue'' t" "\<not> has_call ''minimize'' t"
    and "\<exists>cc. normalize_request_context ctx = Inr cc"
  shows "request_ok demo_platform src None None ctx"
proof -
  have "params_ok []" by (simp add: params_ok_def parameters_ok_def)
  then have "source_ok demo_platform t"
    using assms(3-7) by (auto simp: source_ok_def demo_platform_def)
  moreover have "resolve_source_bytes (pl_env demo_platform) (pl_fs demo_platform) src None = Inr (src, ''source'')"
    using assms(2) by (simp add: resolve_source_bytes_def)
  ultimately show ?thesis
    using assms(1,8,9,10) default_request(1,2,4) unfolding request_ok_def by fastforce
qed

lemma nonneg_plain: "nonneg (plain_op name q) \<longleftrightarrow> (\<forall>i\<in>set q. 0 \<le> i)"
  by (auto simp: nonneg_def plain_op_def)

lemma bell_request_ok:
  assumes "\<exists>cc. normalize_request_context ctx = Inr cc"
  shows "request_ok demo_platform ''bell'' None None ctx"
  using demo_parse(1) bell_frontend bell_operations bell_annotations assms
  by (intro demo_request_ok [where los = "[plain_op ''H'' [0], plain_op ''CX'' [0, 1]]"]) (simp_all add: nonneg_plain)

lemma bell_compiles:
  assumes "\<exists>cc. normalize_request_context ctx = Inr cc"
  shows "\<exists>r. snd (compile_eigen_lang demo_platform ''bell'' None None ctx) = Inr r"
  by (rule request_ok_compiles [OF demo_platform_ok bell_request_ok [OF assms]])

end
