(* ===== verification/CompilerProperties.thy ===== *)
theory CompilerProperties
  imports Demo
begin

text \<open>
  The properties of the compiler service, stated over the model's own definitions. Each property
  with a hypothesis is followed by an application to the platform of \<open>Demo\<close>.
\<close>

section \<open>Shared facts\<close>

lemma normalize_options_same:
  assumes "wf_dict o1" "wf_dict o2" "map_of o1 = map_of o2"
  shows "normalize_options (Some o1) = normalize_options (Some o2)"
  using sorted_entries_unique [OF assms] by (simp add: normalize_options_def)

lemma foldl_dset_other:
  "k \<notin> fst ` set xs \<Longrightarrow> map_of (foldl (\<lambda>d (k, v). dset k v d) d xs) k = map_of d k"
  by (induction xs arbitrary: d) auto

lemma late_keys:
  "fst ` set (late_metadata hm sr dc) \<subseteq>
     {''hybrid_plan_marker'', ''source_ref'', ''distributed.execution_metadata_version'',
      ''distributed.topology_hints_version'', ''distributed.enabled'', ''distributed.target'',
      ''distributed.partition_count'', ''distributed.topology_hint'', ''distributed.queue_provider''}"
  by (auto simp: late_metadata_def)

lemma metadata_lookup:
  assumes "build_metadata pl rf rt pp d hm dc = Inr md"
    and "k \<in> {''aqo_sha256'', ''source_sha256'', ''source_precedence'', ''security_context'', ''sandbox_profile'',
       ''workload_profile'', ''request_sha256''}"
  shows "\<exists>p q. map_of md k = map_of (base_metadata pl rf rt d p q) k"
proof -
  obtain p q x y z where "md = foldl (\<lambda>d (k, v). dset k v d) (base_metadata pl rf rt d p q)
      (late_metadata hm (rf_source_ref rf) dc
       @ [(''decision_lineage_json'', x), (''observability_json'', y), (''explainability_json'', z)])"
    using assms(1) by (auto simp: build_metadata_def Let_def rbind_eq_Inr)
  moreover have "k \<notin> fst ` set (late_metadata hm (rf_source_ref rf) dc
       @ [(''decision_lineage_json'', x), (''observability_json'', y), (''explainability_json'', z)])"
    using late_keys [of hm "rf_source_ref rf" dc] assms(2) by auto
  ultimately show ?thesis using foldl_dset_other by metis
qed

lemma base_metadata_lookup:
  "map_of (base_metadata pl rf rt d p q) ''aqo_sha256'' = Some d"
  "map_of (base_metadata pl rf rt d p q) ''source_sha256'' = Some (rf_source_digest rf)"
  "map_of (base_metadata pl rf rt d p q) ''source_precedence'' = Some (rf_precedence rf)"
  "map_of (base_metadata pl rf rt d p q) ''security_context'' = Some (cc_security_context (rf_context rf))"
  "map_of (base_metadata pl rf rt d p q) ''sandbox_profile'' = Some (cc_sandbox_profile (rf_context rf))"
  by (simp_all add: base_metadata_def Let_def)

lemma build_metadata_lookup:
  assumes "build_metadata pl rf rt pp d hm dc = Inr md"
  shows "map_of md ''aqo_sha256'' = Some d" "map_of md ''source_sha256'' = Some (rf_source_digest rf)"
    "map_of md ''source_precedence'' = Some (rf_precedence rf)"
    "map_of md ''security_context'' = Some (cc_security_context (rf_context rf))"
    "map_of md ''sandbox_profile'' = Some (cc_sandbox_profile (rf_context rf))"
  using metadata_lookup [OF assms, of "''aqo_sha256''"] metadata_lookup [OF assms, of "''source_sha256''"]
    metadata_lookup [OF assms, of "''source_precedence''"] metadata_lookup [OF assms, of "''security_context''"]
    metadata_lookup [OF assms, of "''sandbox_profile''"]
  by (simp_all only: base_metadata_lookup insert_iff simp_thms)

section \<open>Compilation\<close>

text \<open>C1. The circuit that is emitted is the circuit of the source: the bytes of a successful
  compilation decode to an AQO payload that meets the AQO contract, whose operations are the lowered
  gate calls of the parsed source, in the order of the lowering and with a terminal measurement of
  every qubit when the source does not end with one, and whose qubit count is that of the lowering.\<close>

theorem compile_emits_lowered_circuit:
  assumes "platform_ok pl" "snd (compile_eigen_lang pl source source_ref opts ctx) = Inr r"
  shows "\<exists>resolved precedence tree params los n aqo.
     resolve_source_bytes (pl_env pl) (pl_fs pl) source source_ref = Inr (resolved, precedence)
     \<and> pl_parse pl resolved = Some tree \<and> collect_params (pl_floats pl) tree = (params, [])
     \<and> collect_operations (pl_floats pl) tree params = Inr (los, n)
     \<and> json_loads (aqo_json r) = Some (PDict aqo) \<and> aqo_ok aqo \<and> vget aqo ''qubits'' = PInt n
     \<and> vget aqo ''operations'' = PList (map (\<lambda>lo. canon (op_payload lo)) (measured los n))"
  using compile_decodes [OF assms] by blast

lemma bell_measured:
  "measured [plain_op ''H'' [0], plain_op ''CX'' [0, 1]] 2 =
     [plain_op ''H'' [0], plain_op ''CX'' [0, 1], (plain_op ''MEASURE'' [0, 1])\<lparr>lo_c := Some [0, 1]\<rparr>]"
  by code_simp

theorem compile_emits_lowered_circuit_witness:
  "\<exists>r aqo. snd (compile_eigen_lang demo_platform ''bell'' None None None) = Inr r
     \<and> json_loads (aqo_json r) = Some (PDict aqo) \<and> aqo_ok aqo \<and> vget aqo ''qubits'' = PInt 2
     \<and> vget aqo ''operations'' = PList (map (\<lambda>lo. canon (op_payload lo))
         [plain_op ''H'' [0], plain_op ''CX'' [0, 1], (plain_op ''MEASURE'' [0, 1])\<lparr>lo_c := Some [0, 1]\<rparr>])"
proof -
  obtain r where r: "snd (compile_eigen_lang demo_platform ''bell'' None None None) = Inr r"
    using bell_compiles [OF default_request(3)] by blast
  have fl: "pl_floats demo_platform = demo_floats" by (simp add: demo_platform_def)
  show ?thesis
    using compile_emits_lowered_circuit [OF demo_platform_ok r] r demo_parse bell_operations bell_measured
    unfolding fl by auto
qed




lemma negative_annotations: "annotations_serializable demo_platform negative"
  by code_simp


text \<open>The observer sees the stages in order: a successful compilation reports success for each
  stage of the published stage order, the four parts of \<open>eigen_dpda\<close> one after the other; a failing
  one reports a prefix of successes and then at most one failure, of the next stage.\<close>

theorem compile_stage_trace:
  "(case snd (compile_eigen_lang pl source source_ref opts ctx) of
      Inr r \<Rightarrow> fst (compile_eigen_lang pl source source_ref opts ctx) = succeeded stage_sequence
    | Inl e \<Rightarrow> stopped stage_sequence (fst (compile_eigen_lang pl source source_ref opts ctx)))
   \<and> remdups_adj stage_sequence = compiler_stage_order"
proof
  show "case snd (compile_eigen_lang pl source source_ref opts ctx) of
      Inr r \<Rightarrow> fst (compile_eigen_lang pl source source_ref opts ctx) = succeeded stage_sequence
    | Inl e \<Rightarrow> stopped stage_sequence (fst (compile_eigen_lang pl source source_ref opts ctx))"
    using compile_follows [of pl source source_ref opts ctx] unfolding follows_def .
  show "remdups_adj stage_sequence = compiler_stage_order"
    by (simp add: stage_sequence_def compiler_stage_order_def)
qed

text \<open>Every violation a failing stage raises is labelled with that stage, with a rule and with a
  pass: the relabelling of the outer stage never replaces the label an inner check set.\<close>

theorem compile_labels_violations:
  assumes "compile_eigen_lang pl source source_ref opts ctx = (tr, Inl (ValidationError vs))"
    and "(s, ''failure'') \<in> set tr" "v \<in> set vs"
  shows "fv_stage v = s \<and> fv_rule v \<noteq> [] \<and> fv_pass_name v \<noteq> []"
  using compile_labelled [of pl source source_ref opts ctx] assms unfolding labelled_def by simp

lemma arity_stages:
  "parse_stage demo_platform ''arity'' = Inr arity" "validate_ast_stage demo_platform arity = Inr ()"
  "annotate_stage demo_platform arity = Inr ([], [], None)"
  "lower_to_ir_stage demo_platform arity [] = Inl (ValidationError [\<lparr>fv_field = ''source'',
     fv_description = ''H expects 1 qubit argument(s)'', fv_stage = ''lower_to_ir'',
     fv_rule = ''compiler.source.lower_to_ir'', fv_pass_name = ''lower_to_ir''\<rparr>])"
  by code_simp+

lemma arity_compilation:
  "compile_eigen_lang demo_platform ''arity'' None None None =
     (succeeded [''parse'', ''validate_ast'', ''annotate''] @ [(''lower_to_ir'', ''failure'')],
      Inl (ValidationError [\<lparr>fv_field = ''source'', fv_description = ''H expects 1 qubit argument(s)'',
        fv_stage = ''lower_to_ir'', fv_rule = ''compiler.source.lower_to_ir'', fv_pass_name = ''lower_to_ir''\<rparr>]))"
  using default_request(3)
  by (auto simp: compile_eigen_lang_def Let_def sbind_def run_stage_def unstaged_def arity_stages
      resolve_source_bytes_def succeeded_def)

theorem compile_labels_violations_witness:
  "\<exists>tr vs v. compile_eigen_lang demo_platform ''arity'' None None None = (tr, Inl (ValidationError vs))
     \<and> v \<in> set vs \<and> fv_stage v = ''lower_to_ir'' \<and> fv_rule v \<noteq> [] \<and> fv_pass_name v \<noteq> []"
  using compile_labels_violations [OF arity_compilation, of "''lower_to_ir''"] arity_compilation by auto

text \<open>The metadata describes this compilation: the digests are those of the emitted bytes and of
  the source that was compiled, the security context is the redacted one, and the sandbox profile is
  one of the allowed profiles.\<close>

theorem compile_metadata_binds_result:
  assumes "snd (compile_eigen_lang pl source source_ref opts (Some ctx)) = Inr r"
  shows "\<exists>resolved precedence.
     resolve_source_bytes (pl_env pl) (pl_fs pl) source source_ref = Inr (resolved, precedence)
     \<and> dget (metadata r) ''aqo_sha256'' = Some (pl_sha256 pl (aqo_json r))
     \<and> dget (metadata r) ''source_sha256'' = Some (pl_sha256 pl resolved)
     \<and> dget (metadata r) ''source_precedence'' = Some precedence
     \<and> dget (metadata r) ''security_context'' = Some (sanitize_security_context (dget_or ctx ''security_context'' []))
     \<and> (\<exists>p\<in>set ALLOWED_SANDBOX_PROFILES. dget (metadata r) ''sandbox_profile'' = Some p)"
proof -
  obtain cm where "compiles pl source source_ref opts (Some ctx) cm r" using assms compile_iff by blast
  then obtain cc resolved precedence dc where
    c: "normalize_request_context (Some ctx) = Inr cc"
      "resolve_source_bytes (pl_env pl) (pl_fs pl) source source_ref = Inr (resolved, precedence)"
      "cm_rf cm = \<lparr>rf_source = source, rf_source_ref = source_ref, rf_options = normalize_options opts,
        rf_context = cc, rf_precedence = precedence, rf_source_digest = pl_sha256 pl resolved,
        rf_profile = rf_profile (cm_rf cm)\<rparr>"
      "build_metadata pl (cm_rf cm) (cm_texts cm) (cm_pipeline cm) (pl_sha256 pl (aqo_json r))
         (has_call ''minimize'' (cm_tree cm)) dc = Inr (metadata r)"
    unfolding compiles_def by blast
  have rf: "rf_context (cm_rf cm) = cc" "rf_source_digest (cm_rf cm) = pl_sha256 pl resolved"
    "rf_precedence (cm_rf cm) = precedence"
    by (subst c(3), simp)+
  have cc: "cc_security_context cc = sanitize_security_context (dget_or ctx ''security_context'' [])"
    "cc_sandbox_profile cc \<in> set ALLOWED_SANDBOX_PROFILES"
    using c(1) by (auto simp: normalize_request_context_def Let_def split: if_splits)
  show ?thesis
    using build_metadata_lookup [OF c(4)] c(2) cc by (simp add: rf)
qed

definition demo_context :: options where
  "demo_context = [(''security_context'', ''Authorization: Basic c2VjcmV0''), (''sandbox_profile'', ''Restricted '')]"

lemma demo_context_ok:
  "\<exists>cc. normalize_request_context (Some demo_context) = Inr cc"
  "sanitize_security_context (dget_or demo_context ''security_context'' []) = ''[REDACTED]''"
proof -
  have "case normalize_request_context (Some demo_context) of Inl e \<Rightarrow> False | Inr cc \<Rightarrow> True" by code_simp
  then show "\<exists>cc. normalize_request_context (Some demo_context) = Inr cc" by (auto split: sum.splits)
  show "sanitize_security_context (dget_or demo_context ''security_context'' []) = ''[REDACTED]''" by code_simp
qed

theorem compile_metadata_binds_result_witness:
  "\<exists>r. snd (compile_eigen_lang demo_platform ''bell'' None None (Some demo_context)) = Inr r
     \<and> dget (metadata r) ''source_precedence'' = Some ''source''
     \<and> dget (metadata r) ''security_context'' = Some ''[REDACTED]''"
proof -
  obtain r where r: "snd (compile_eigen_lang demo_platform ''bell'' None None (Some demo_context)) = Inr r"
    using bell_compiles [OF demo_context_ok(1)] by blast
  show ?thesis
    using compile_metadata_binds_result [OF r] r demo_parse(2) demo_context_ok(2) by auto
qed

text \<open>The order in which the options were inserted does not matter: two option dictionaries with
  the same entries give the same compilation, bytes, metadata and trace.\<close>

theorem compile_ignores_option_order:
  assumes "wf_dict o1" "wf_dict o2" "map_of o1 = map_of o2"
  shows "compile_eigen_lang pl source source_ref (Some o1) ctx = compile_eigen_lang pl source source_ref (Some o2) ctx"
  unfolding compile_eigen_lang_def distributed_compile_config_def Let_def normalize_options_same [OF assms] ..

theorem compile_ignores_option_order_witness:
  "compile_eigen_lang demo_platform ''bell'' None (Some [(''a'', ''1''), (''b'', ''2'')]) None =
   compile_eigen_lang demo_platform ''bell'' None (Some [(''b'', ''2''), (''a'', ''1'')]) None"
  by (rule compile_ignores_option_order) (auto simp: fun_eq_iff)

text \<open>C26. A compilation reads nothing outside the QFS root: file systems that resolve paths alike and
  agree on the files below the root give the same compilation, whatever the source reference is.\<close>

theorem compile_reads_only_qfs_root:
  assumes "fs_resolve fs = fs_resolve (pl_fs pl)"
    and "\<forall>p. inside (qfs_root (pl_env pl) (pl_fs pl)) p \<longrightarrow> fs_read fs p = fs_read (pl_fs pl) p"
  shows "compile_eigen_lang (pl\<lparr>pl_fs := fs\<rparr>) source source_ref opts ctx = compile_eigen_lang pl source source_ref opts ctx"
proof -
  have root: "qfs_root (pl_env pl) fs = qfs_root (pl_env pl) (pl_fs pl)"
    "ref_path (pl_env pl) fs = ref_path (pl_env pl) (pl_fs pl)"
    by (simp_all add: qfs_root_def ref_path_def assms(1) fun_eq_iff)
  have src: "resolve_source_bytes (pl_env pl) fs source source_ref
      = resolve_source_bytes (pl_env pl) (pl_fs pl) source source_ref"
    using assms(2) by (simp add: resolve_source_bytes_def root split: option.splits)
  have upd: "pl_parse (pl\<lparr>pl_fs := fs\<rparr>) = pl_parse pl" "pl_sha256 (pl\<lparr>pl_fs := fs\<rparr>) = pl_sha256 pl"
    "pl_floats (pl\<lparr>pl_fs := fs\<rparr>) = pl_floats pl" "pl_env (pl\<lparr>pl_fs := fs\<rparr>) = pl_env pl" "pl_fs (pl\<lparr>pl_fs := fs\<rparr>) = fs"
    by simp_all
  show ?thesis
    unfolding compile_eigen_lang_def parse_stage_def validate_ast_stage_def annotate_stage_def lower_to_ir_stage_def
      request_texts_of_def build_compiler_pass_pipeline_def validate_lowering_payload_def build_metadata_def base_metadata_def
    by (simp only: upd src)
qed

theorem compile_reads_only_qfs_root_witness:
  "compile_eigen_lang (demo_platform\<lparr>pl_fs := demo_fs\<lparr>fs_read := (\<lambda>p. if take 1 p = [''qfs'']
       then fs_read demo_fs p else FileBytes ''secret'')\<rparr>\<rparr>) [] (Some ''qfs://../etc/passwd'') None None =
   compile_eigen_lang demo_platform [] (Some ''qfs://../etc/passwd'') None None"
proof (rule compile_reads_only_qfs_root)
  have "qfs_root (pl_env demo_platform) (pl_fs demo_platform) = [''qfs'']" by code_simp
  then show "\<forall>p. inside (qfs_root (pl_env demo_platform) (pl_fs demo_platform)) p \<longrightarrow>
      fs_read (demo_fs\<lparr>fs_read := (\<lambda>p. if take 1 p = [''qfs''] then fs_read demo_fs p else FileBytes ''secret'')\<rparr>) p
      = fs_read (pl_fs demo_platform) p"
    by (auto simp: inside_def demo_platform_def)
qed (simp add: demo_platform_def)

section \<open>Validation and lowering\<close>



text \<open>The lowering produces operations of the contract's shape, with every index below the qubit
  count, which is at least one; the only thing left to reject later is a negative index or a
  measurement whose classical indices do not match its qubits.\<close>

theorem lowered_operations_valid_iff_nonneg:
  assumes "collect_operations fo tree params = Inr (los, n)" "lo \<in> set los"
  shows "1 \<le> n \<and> below n lo \<and> (aqo_op_ok n (op_payload lo) \<longleftrightarrow> nonneg lo)"
  using collect_operations_inv [OF assms(1)] assms(2) op_payload_ok by (auto simp: lowering_inv_def)

theorem lowered_operations_valid_iff_nonneg_witness:
  "(1::int) \<le> 2 \<and> below 2 (plain_op ''CX'' [0, 1])
     \<and> (aqo_op_ok 2 (op_payload (plain_op ''CX'' [0, 1])) \<longleftrightarrow> nonneg (plain_op ''CX'' [0, 1]))"
  using lowered_operations_valid_iff_nonneg [OF bell_operations(2), of "plain_op ''CX'' [0, 1]"] by simp



text \<open>Operations on different levels are not: in a program the front end accepts, a gate inside a
  \<open>with\<close> block is emitted after the gate that follows the block in the source.\<close>

theorem lowering_reorders_nested_block:
  "validate_tree (pl_env demo_platform) nested = []
   \<and> collect_operations demo_floats nested [] = Inr ([plain_op ''X'' [0], plain_op ''H'' [0]], 1)
   \<and> source_order_operations demo_floats nested [] = Inr ([plain_op ''H'' [0], plain_op ''X'' [0]], 1)"
proof (intro conjI)
  show "validate_tree (pl_env demo_platform) nested = []" by code_simp
  show "collect_operations demo_floats nested [] = Inr ([plain_op ''X'' [0], plain_op ''H'' [0]], 1)" by code_simp
  show "source_order_operations demo_floats nested [] = Inr ([plain_op ''H'' [0], plain_op ''X'' [0]], 1)" by code_simp
qed

text \<open>Whatever operations the pass pipeline is given, the payload it returns meets the contract and
  ends in a measurement.\<close>

theorem pass_pipeline_output_valid:
  assumes "build_compiler_pass_pipeline pl n ops params sd sp rd he hm bs ea dc = Inr pp"
  shows "aqo_ok (pp_aqo pp)
    \<and> (\<exists>rops. vget (pp_aqo pp) ''operations'' = PList rops \<and> rops \<noteq> [] \<and> opcode_of (last rops) = PStr ''MEASURE'')"
  using pass_pipeline_sound [OF assms] build_aqo_lookup(3) by metis

theorem pass_pipeline_output_valid_witness:
  "\<exists>pp. build_compiler_pass_pipeline demo_platform 2 [op_payload (plain_op ''H'' [0])] [] [] [] [] False False [] None
        \<lparr>dc_enabled = False, dc_target = None, dc_partition_count = None, dc_queue_provider = None, dc_topology_hint = None\<rparr>
      = Inr pp \<and> aqo_ok (pp_aqo pp)"
proof -
  let ?p = "build_compiler_pass_pipeline demo_platform 2 [op_payload (plain_op ''H'' [0])] [] [] [] [] False False [] None
        \<lparr>dc_enabled = False, dc_target = None, dc_partition_count = None, dc_queue_provider = None, dc_topology_hint = None\<rparr>"
  have inv: "lowering_inv ([plain_op ''H'' [0]], 2)" "\<forall>lo\<in>set [plain_op ''H'' [0]]. op_json_ok lo"
    "\<forall>lo\<in>set [plain_op ''H'' [0]]. nonneg lo" "params_ok []"
    by (auto simp: lowering_inv_def lowered_shape_def below_def plain_op_def AQO_ALLOWED_OPS_def AQO_ARITY_def dget_or_def
        op_json_ok_def nonneg_def params_ok_def parameters_ok_def)
  have "\<exists>pp. ?p = Inr pp"
    using pass_pipeline_result(1) [OF inv(1,2)] inv(3,4) by simp
  then obtain pp where pp: "?p = Inr pp" by blast
  with pass_pipeline_output_valid [OF pp] show ?thesis by blast
qed

text \<open>The round-trip check of the AQO encoder never fires: on a payload whose floats have their
  representation as JSON numbers the encoder returns the canonical text exactly when the payload
  meets the contract and can be written as JSON, and its failures are never the round trip.\<close>

theorem encode_aqo_roundtrip:
  assumes "float_wf (PDict aqo)"
  shows "encode_aqo_payload pl aqo = Inr bytes \<longleftrightarrow>
      aqo_ok aqo \<and> json_ok (PDict aqo) \<and> bytes = canonical_text (PDict aqo)"
proof (cases "aqo_ok aqo")
  case True
  then have v: "validate_aqo_payload (pl_floats pl) aqo = Inr []" by (simp add: validate_aqo_payload_iff)
  show ?thesis
  proof (cases "json_ok (PDict aqo)")
    case ok: True
    have "json_loads (canonical_text (PDict aqo)) = Some (canon (PDict aqo))"
      using ok json.dec_enc by (auto simp: json_ok_def simp del: json_ok_simps)
    moreover have "same_payload (canon (PDict aqo)) (PDict aqo)" unfolding same_payload_def by (rule canon_canon)
    ultimately show ?thesis
      using True ok by (auto simp: encode_aqo_payload_def lift_py_def v canonical_ok [OF ok] simp del: canon.simps json_ok_simps)
  next
    case False
    then have "canonical_json_bytes (PDict aqo) \<noteq> Inr t" for t using canonical_ok_iff [OF assms] by blast
    with False show ?thesis by (auto simp: encode_aqo_payload_def rbind_eq_Inr split: if_splits)
  qed
next
  case False
  then show ?thesis
    using validate_aqo_payload_iff [of "pl_floats pl" aqo] by (auto simp: encode_aqo_payload_def rbind_eq_Inr split: if_splits)
qed

definition demo_aqo :: "(string, pyval) dict" where
  "demo_aqo = [(''version'', PStr ''1.0.0''), (''qubits'', PInt 1), (''operations'', PList [op_payload (plain_op ''H'' [0])])]"

theorem encode_aqo_roundtrip_witness:
  "encode_aqo_payload demo_platform demo_aqo = Inr (canonical_text (PDict demo_aqo))"
proof -
  have wf: "float_wf (PDict demo_aqo)" "json_ok (PDict demo_aqo)"
    by (simp_all add: demo_aqo_def op_payload_def plain_op_def ints_def)
  have "validate_aqo_payload demo_floats demo_aqo = Inr []" by code_simp
  with wf encode_aqo_roundtrip [OF wf(1)] show ?thesis using validate_aqo_payload_iff by blast
qed

section \<open>Canonical JSON and digests\<close>

text \<open>Canonical JSON text identifies a payload: reading it back gives the payload with its keys in
  order, and two payloads have the same text exactly when they are equal up to the order of keys.\<close>

theorem canonical_text_identifies_payload:
  assumes "wf_json v" "wf_json w"
  shows "json_loads (canonical_text v) = Some (canon v) \<and> (canonical_text v = canonical_text w \<longleftrightarrow> same_payload v w)"
  using json.dec_enc [OF assms(1)] json.enc_eq_iff [OF assms] by (simp add: same_payload_def)

theorem canonical_text_identifies_payload_witness:
  "wf_json (PDict [(''b'', PInt 1), (''a'', PFloat ''0.5'')])
   \<and> json_loads (canonical_text (PDict [(''b'', PInt 1), (''a'', PFloat ''0.5'')])) = Some (PDict [(''a'', PFloat ''0.5''), (''b'', PInt 1)])
   \<and> canonical_text (PDict [(''b'', PInt 1), (''a'', PFloat ''0.5'')]) = canonical_text (PDict [(''a'', PFloat ''0.5''), (''b'', PInt 1)])"
proof -
  have wf: "wf_json (PDict [(''b'', PInt 1), (''a'', PFloat ''0.5'')])" "wf_json (PDict [(''a'', PFloat ''0.5''), (''b'', PInt 1)])"
    by code_simp+
  have "same_payload (PDict [(''b'', PInt 1), (''a'', PFloat ''0.5'')]) (PDict [(''a'', PFloat ''0.5''), (''b'', PInt 1)])"
    "canon (PDict [(''b'', PInt 1), (''a'', PFloat ''0.5'')]) = PDict [(''a'', PFloat ''0.5''), (''b'', PInt 1)]"
    by code_simp+
  with canonical_text_identifies_payload [OF wf] wf(1) show ?thesis by metis
qed

lemma str_dict_canon_iff:
  assumes "wf_dict d" "wf_dict e"
  shows "canon (str_dict d) = canon (str_dict e) \<longleftrightarrow> map_of d = map_of e"
proof
  have f: "map_of (map (\<lambda>(k, v). (k, PStr v)) d) k = map_option PStr (map_of d k)" for k and d :: options
    by (induction d) auto
  have wf: "wf_dict (map (\<lambda>(k, v). (k, PStr v)) d) = wf_dict d" for d :: options
  proof -
    have "map fst (map (\<lambda>(k, v). (k, PStr v)) d) = map fst d" by (induction d) auto
    then show ?thesis by (simp only:)
  qed
  show "map_of d = map_of e" if "canon (str_dict d) = canon (str_dict e)"
  proof
    fix k
    obtain c where c: "canon (str_dict d) = PDict c" by (simp add: str_dict_def)
    have "map_of c k = map_option canon (map_option PStr (map_of d k))"
      using canon_dict_lookup [of "map (\<lambda>(k, v). (k, PStr v)) d" c k] c assms(1) by (simp only: str_dict_def wf f)
    moreover have "map_of c k = map_option canon (map_option PStr (map_of e k))"
      using canon_dict_lookup [of "map (\<lambda>(k, v). (k, PStr v)) e" c k] c assms(2) that by (simp only: str_dict_def wf f)
    ultimately show "map_of d k = map_of e k" by (cases "map_of d k"; cases "map_of e k") auto
  qed
  show "canon (str_dict d) = canon (str_dict e)" if "map_of d = map_of e"
    using same_payload_dict [of "map (\<lambda>(k, v). (k, PStr v)) d" "map (\<lambda>(k, v). (k, PStr v)) e"] assms that
    unfolding same_payload_def str_dict_def wf f by (simp only:)
qed

lemma context_canon_iff: "canon (context_payload c1) = canon (context_payload c2) \<longleftrightarrow> c1 = c2"
proof
  assume "canon (context_payload c1) = canon (context_payload c2)"
  then have "map_of [(''request_id'', cc_request_id c1), (''trace_id'', cc_trace_id c1), (''traceparent'', cc_traceparent c1),
      (''deadline'', cc_deadline c1), (''retry_policy'', cc_retry_policy c1),
      (''security_context'', cc_security_context c1), (''sandbox_profile'', cc_sandbox_profile c1),
      (''tenant_id'', cc_tenant_id c1), (''project_id'', cc_project_id c1)]
    = map_of [(''request_id'', cc_request_id c2), (''trace_id'', cc_trace_id c2), (''traceparent'', cc_traceparent c2),
      (''deadline'', cc_deadline c2), (''retry_policy'', cc_retry_policy c2),
      (''security_context'', cc_security_context c2), (''sandbox_profile'', cc_sandbox_profile c2),
      (''tenant_id'', cc_tenant_id c2), (''project_id'', cc_project_id c2)]" (is "?m1 = ?m2")
    unfolding context_payload_def by (subst (asm) str_dict_canon_iff) simp_all
  then have "?m1 k = ?m2 k" for k by (rule fun_cong)
  from this [of "''request_id''"] this [of "''trace_id''"] this [of "''traceparent''"] this [of "''deadline''"]
    this [of "''retry_policy''"] this [of "''security_context''"] this [of "''sandbox_profile''"] this [of "''tenant_id''"]
    this [of "''project_id''"]
  show "c1 = c2" by (intro compile_context.equality) simp_all
qed simp

lemma digest_payload_iff:
  assumes "wf_dict (rf_options r1)" "wf_dict (rf_options r2)"
  shows "canon (request_digest_payload r1) = canon (request_digest_payload r2) \<longleftrightarrow>
    map_of (rf_options r1) = map_of (rf_options r2) \<and> rf_context r1 = rf_context r2
    \<and> rf_source_digest r1 = rf_source_digest r2"
  using str_dict_canon_iff [OF assms] context_canon_iff [of "rf_context r1" "rf_context r2"]
  by (simp add: request_digest_payload_def)

text \<open>The request digest identifies the request: unless SHA-256 collides on the two canonical
  texts, two requests have the same AQO request digest exactly when they have the same options, the
  same request context and the same source digest.\<close>

theorem request_digest_identifies_request:
  assumes "wf_dict (rf_options r1)" "wf_dict (rf_options r2)"
    and "request_texts_of pl r1 = Inr t1" "request_texts_of pl r2 = Inr t2"
    and "pl_sha256 pl (canonical_text (request_digest_payload r1)) = pl_sha256 pl (canonical_text (request_digest_payload r2))
      \<Longrightarrow> canonical_text (request_digest_payload r1) = canonical_text (request_digest_payload r2)"
  shows "rt_aqo_request_digest t1 = rt_aqo_request_digest t2 \<longleftrightarrow>
    map_of (rf_options r1) = map_of (rf_options r2) \<and> rf_context r1 = rf_context r2
    \<and> rf_source_digest r1 = rf_source_digest r2"
proof -
  have ok: "json_ok (request_digest_payload r1)" "json_ok (request_digest_payload r2)"
    using assms(1,2) by (simp_all add: request_digest_payload_def)
  have "rt_aqo_request_digest t1 = pl_sha256 pl (canonical_text (request_digest_payload r1))"
    "rt_aqo_request_digest t2 = pl_sha256 pl (canonical_text (request_digest_payload r2))"
    using assms(3,4) by (auto simp: request_texts_of_def rbind_eq_Inr canonical_ok [OF ok(1)] canonical_ok [OF ok(2)])
  moreover have "pl_sha256 pl (canonical_text (request_digest_payload r1)) = pl_sha256 pl (canonical_text (request_digest_payload r2))
      \<longleftrightarrow> canon (request_digest_payload r1) = canon (request_digest_payload r2)"
    using ok assms(5) by (intro json.digest_eq_iff) (simp_all add: json_ok_def)
  ultimately show ?thesis by (simp only: digest_payload_iff [OF assms(1,2)])
qed

definition demo_facts :: "options \<Rightarrow> request_facts" where
  "demo_facts opts = \<lparr>rf_source = ''bell'', rf_source_ref = None, rf_options = opts,
     rf_context = \<lparr>cc_request_id = ''r1'', cc_trace_id = [], cc_traceparent = [], cc_deadline = [], cc_retry_policy = [],
       cc_security_context = [], cc_sandbox_profile = ''strict'', cc_tenant_id = [], cc_project_id = []\<rparr>,
     rf_precedence = ''source'', rf_source_digest = ''d'', rf_profile = quantum_profile\<rparr>"

theorem request_digest_identifies_request_witness:
  "\<exists>t1 t2. request_texts_of (demo_platform\<lparr>pl_sha256 := (\<lambda>s. s)\<rparr>) (demo_facts [(''target'', ''sim:local'')]) = Inr t1
     \<and> request_texts_of (demo_platform\<lparr>pl_sha256 := (\<lambda>s. s)\<rparr>) (demo_facts [(''target'', ''ibm:qpu'')]) = Inr t2
     \<and> rt_aqo_request_digest t1 \<noteq> rt_aqo_request_digest t2"
proof -
  let ?pl = "demo_platform\<lparr>pl_sha256 := (\<lambda>s. s)\<rparr>"
  have wf: "wf_dict (rf_options (demo_facts [(''target'', ''sim:local'')]))" "wf_dict (rf_options (demo_facts [(''target'', ''ibm:qpu'')]))"
    by (simp_all add: demo_facts_def)
  obtain t1 t2 where t: "request_texts_of ?pl (demo_facts [(''target'', ''sim:local'')]) = Inr t1"
      "request_texts_of ?pl (demo_facts [(''target'', ''ibm:qpu'')]) = Inr t2"
    using request_texts_return [OF wf(1)] request_texts_return [OF wf(2)] by blast
  have "map_of (rf_options (demo_facts [(''target'', ''sim:local'')])) ''target''
      \<noteq> map_of (rf_options (demo_facts [(''target'', ''ibm:qpu'')])) ''target''"
    by (simp add: demo_facts_def)
  then have "rt_aqo_request_digest t1 \<noteq> rt_aqo_request_digest t2"
    using request_digest_identifies_request [OF wf t] by fastforce
  with t show ?thesis by blast
qed

section \<open>Requests and profiles\<close>

text \<open>Credentials are redacted. A header line is replaced whole, whatever the capitalisation of the header's
  name and the white space after the colon; a bearer token of eight or more token characters that ends in a
  word character disappears, whatever the capitalisation of \<open>Bearer\<close>.\<close>

theorem credentials_redacted:
  "(py_lower name \<in> set sensitive_headers \<and> v \<noteq> [] \<and> \<not> is_ws (hd v) \<and> CHR 0x0A \<notin> set v \<and> list_all is_ws w \<longrightarrow>
      sanitize_security_context (name @ CHR '':'' # w @ v) = ''[REDACTED]'')
   \<and> (py_lower name = ''bearer'' \<and> w \<noteq> [] \<and> list_all is_ws w \<and> list_all token_char tok \<and> 8 \<le> length tok \<and> is_word (last tok) \<longrightarrow>
      sanitize_security_context (name @ w @ tok) = ''[REDACTED]'')"
  using sanitize_header sanitize_bearer by blast

theorem credentials_redacted_witness:
  "sanitize_security_context (''X-Api-Key'' @ CHR '':'' # '' '' @ ''k3y'') = ''[REDACTED]''
   \<and> sanitize_security_context (''BEARER'' @ '' '' @ ''eyJh.bGci'') = ''[REDACTED]''"
proof
  have "py_lower ''X-Api-Key'' \<in> set sensitive_headers" "\<not> is_ws (hd ''k3y'')" "CHR 0x0A \<notin> set ''k3y''" "list_all is_ws '' ''"
    by code_simp+
  then show "sanitize_security_context (''X-Api-Key'' @ CHR '':'' # '' '' @ ''k3y'') = ''[REDACTED]''"
    using credentials_redacted [of "''X-Api-Key''" "''k3y''" "'' ''"] by blast
  have "py_lower ''BEARER'' = ''bearer''" "list_all is_ws '' ''" "list_all token_char ''eyJh.bGci''" "8 \<le> length ''eyJh.bGci''" "is_word (last ''eyJh.bGci'')"
    by code_simp+
  then show "sanitize_security_context (''BEARER'' @ '' '' @ ''eyJh.bGci'') = ''[REDACTED]''"
    using credentials_redacted [of "''BEARER''" "[]" "'' ''" "''eyJh.bGci''"] by blast
qed

text \<open>Profile resolution never fails: whatever the options and the source, a profile of the
  catalogue is chosen and its kind is a supported one.\<close>

theorem profile_resolution_total:
  "\<exists>p vs. resolve_workload_profile opts he hm = Inr (p, vs) \<and> wp_kind p \<in> set SUPPORTED_WORKLOAD_KINDS"
  by (rule resolve_profile_total)

text \<open>The rules of a profile accept exactly the options and sources that satisfy the profile's
  requirements: seeds, targets, handoff references, replay markers, distributed options and
  adaptive markers as the profile demands or forbids them.\<close>

theorem profile_validation_iff:
  "validate_workload_profile p opts sr he hm = [] \<longleftrightarrow> profile_ok (wp_kind p) (profile_facts_of opts sr he hm)"
  using profiles.check_iff [of "(p, opts, sr, he, hm)"] by simp

text \<open>A compile request is accepted exactly when its language is supported, a source or a
  reference without parent segments is given, the source is within the size limit, every metadata
  field is set, and the distributed options are consistent; the accepting gate returns the request.\<close>

theorem compile_request_accepted_iff:
  "(\<exists>y. gate ValidationError (validate_compile_circuit env req) req = Inr y) \<longleftrightarrow> circuit_request_ok env req"
  by (rule circuit_requests.gate_passes_iff)

definition yes_options :: options where
  "yes_options = [(''distributed.enabled'', ''yes''), (''distributed.target'', ''cluster:auto''), (''distributed.partition_count'', ''2'')]"

text \<open>The two readings of \<open>distributed.enabled\<close> differ: with the value \<open>yes\<close> the request check and the
  rules of the distributed profile accept the request as distributed, and the compilation then
  treats it as not distributed.\<close>

theorem distributed_yes_not_distributed:
  "validate_distributed_options yes_options = []
   \<and> resolve_workload_profile (Some yes_options) False False = Inr (distributed_profile, [])
   \<and> validate_workload_profile distributed_profile (Some yes_options) False False False = []
   \<and> distributed_compile_config (Some yes_options) = Inr \<lparr>dc_enabled = False, dc_target = Some ''cluster:auto'',
       dc_partition_count = Some 2, dc_queue_provider = None, dc_topology_hint = None\<rparr>"
proof (intro conjI)
  show "validate_distributed_options yes_options = []" by code_simp
  show "resolve_workload_profile (Some yes_options) False False = Inr (distributed_profile, [])" by code_simp
  show "validate_workload_profile distributed_profile (Some yes_options) False False False = []" by code_simp
  show "distributed_compile_config (Some yes_options) = Inr \<lparr>dc_enabled = False, dc_target = Some ''cluster:auto'',
       dc_partition_count = Some 2, dc_queue_provider = None, dc_topology_hint = None\<rparr>" by code_simp
qed

text \<open>The emission mode the backend contract selects need not be one it allows: for a benchmark on
  a provider backend the selected mode is not among the allowed modes of the profile.\<close>

theorem selected_mode_not_allowed:
  "validate_workload_profile benchmark_profile (Some [(''benchmark.seed'', ''7''), (''target'', ''ibm:qpu'')]) False False False = []
   \<and> vget (backend_contract_payload benchmark_profile (Some [(''benchmark.seed'', ''7''), (''target'', ''ibm:qpu'')]))
       ''selected_emission_mode'' = PStr ''aqo_json+driver_metadata''
   \<and> vget (backend_contract_payload benchmark_profile (Some [(''benchmark.seed'', ''7''), (''target'', ''ibm:qpu'')]))
       ''allowed_emission_modes'' = PList [PStr ''aqo_json'', PStr ''aqo_json+benchmark_metadata'']"
proof (intro conjI)
  show "validate_workload_profile benchmark_profile (Some [(''benchmark.seed'', ''7''), (''target'', ''ibm:qpu'')]) False False False = []" by code_simp
  show "vget (backend_contract_payload benchmark_profile (Some [(''benchmark.seed'', ''7''), (''target'', ''ibm:qpu'')]))
       ''selected_emission_mode'' = PStr ''aqo_json+driver_metadata''" by code_simp
  show "vget (backend_contract_payload benchmark_profile (Some [(''benchmark.seed'', ''7''), (''target'', ''ibm:qpu'')]))
       ''allowed_emission_modes'' = PList [PStr ''aqo_json'', PStr ''aqo_json+benchmark_metadata'']" by code_simp
qed

end
