(* ===== verification/DriverRegistry.thy ===== *)
theory DriverRegistry
  imports PyString
begin

text \<open>
  The driver registry of the driver manager (\<open>driver_manager/registry.py\<close>): drivers, the reverse
  index from devices to drivers, device profiles, sessions, and the policy that admits plugin
  drivers. A driver is an object; what it answers when it is asked is an argument of the operations
  that ask it. An operation returns the registry after it and its value or the message of the
  \<open>ValueError\<close> it raises.
\<close>

section \<open>Data\<close>

text \<open>The identity of a driver object.\<close>

type_synonym driver = nat

record driver_capabilities =
  driver_api_version :: string
  features :: "(string, string) dict"

record driver_health =
  ready :: bool
  reason :: string
  details :: "(string, string) dict"

text \<open>A device as a driver reports it; \<open>None\<close> stands for capabilities that are not a dictionary.\<close>

record device =
  device_id :: string
  device_name :: string
  backend_type :: string
  capabilities :: "(string, string) dict option"

record driver_answers =
  capability_handshake :: "driver \<Rightarrow> driver_capabilities"
  get_devices :: "driver \<Rightarrow> device list"
  healthcheck :: "driver \<Rightarrow> driver_health"

record registered_driver =
  rd_name :: string
  rd_driver :: driver
  rd_device_ids :: "string set"
  rd_capabilities :: driver_capabilities

record plugin_runtime_spec =
  artifact_type :: string
  runtime :: string
  rootless :: bool
  read_only_fs :: bool
  network_disabled :: bool
  dropped_capabilities :: bool
  cpu_limit :: string
  memory_limit :: string
  pid_limit :: int

record signature_envelope =
  sg_artifact_digest :: string
  sg_manifest_digest :: string
  signature_ref :: string
  signer_identity :: string
  trust_profile :: string

record matrix_entry =
  mx_provider :: string
  mx_driver :: string
  mx_driver_version :: string
  mx_artifact_digest :: string
  mx_manifest_digest :: string

record device_profile =
  profile_name :: string
  profile_version :: string
  dp_device_id :: string
  driver_name :: string
  dp_backend_type :: string
  capability_descriptors :: "(string, string) dict"

record session =
  se_state :: string
  se_driver :: string

record registry =
  sessions :: "(string \<times> string, session) dict"
  drivers :: "(string, registered_driver) dict"
  device_to_driver :: "(string, string) dict"
  device_profiles :: "(string, device_profile) dict"
  reject_counters :: "(string, int) dict"

definition empty_registry :: registry where
  "empty_registry =
     \<lparr>sessions = [], drivers = [], device_to_driver = [], device_profiles = [],
      reject_counters =
        [(''plugin_runtime_boundary_reject_total'', 0), (''plugin_in_process_reject_total'', 0),
         (''plugin_sandbox_policy_reject_total'', 0), (''driver_signature_reject_total'', 0),
         (''driver_matrix_mismatch_reject_total'', 0)]\<rparr>"

type_synonym 'a reg_result = "registry \<times> (string, 'a) result"

section \<open>Sessions\<close>

definition get_or_create_session :: "string \<Rightarrow> string \<Rightarrow> registry \<Rightarrow> registry \<times> session" where
  "get_or_create_session name key r =
     (case dget (sessions r) (name, key) of
        Some s \<Rightarrow> (r, s)
      | None \<Rightarrow>
          (let s = \<lparr>se_state = ''active'', se_driver = name\<rparr>
           in (r\<lparr>sessions := dset (name, key) s (sessions r)\<rparr>, s)))"

definition invalidate_session :: "string \<Rightarrow> string \<Rightarrow> registry \<Rightarrow> registry" where
  "invalidate_session name key r =
     (case dget (sessions r) (name, key) of
        None \<Rightarrow> r
      | Some s \<Rightarrow> r\<lparr>sessions := dset (name, key) (s\<lparr>se_state := ''invalidated''\<rparr>) (sessions r)\<rparr>)"

section \<open>Plugin policy\<close>

text \<open>\<open>self._policy_reject_counters[key] += 1\<close> followed by a \<open>raise\<close>.\<close>

definition reject :: "string \<Rightarrow> string \<Rightarrow> registry \<Rightarrow> unit reg_result" where
  "reject key msg r =
     (r\<lparr>reject_counters := dset key (dget_or (reject_counters r) key 0 + 1) (reject_counters r)\<rparr>, Inl msg)"

definition baseline_ok :: "plugin_runtime_spec \<Rightarrow> bool" where
  "baseline_ok spec \<longleftrightarrow> rootless spec \<and> read_only_fs spec \<and> network_disabled spec \<and> dropped_capabilities spec
     \<and> cpu_limit spec \<noteq> [] \<and> memory_limit spec \<noteq> [] \<and> pid_limit spec > 0"

definition enforce_plugin_runtime_policy :: "plugin_runtime_spec \<Rightarrow> registry \<Rightarrow> unit reg_result" where
  "enforce_plugin_runtime_policy spec r =
     (if runtime spec = ''in_process''
      then reject ''plugin_in_process_reject_total''
        ''PLUGIN_RUNTIME_IN_PROCESS_FORBIDDEN: in-process plugin runtime is not allowed'' r
      else if artifact_type spec \<noteq> ''oci'' \<or> runtime spec \<noteq> ''runsc''
      then reject ''plugin_runtime_boundary_reject_total''
        ''PLUGIN_RUNTIME_BOUNDARY_REQUIRED: only OCI artifacts under runsc are allowed'' r
      else if \<not> baseline_ok spec
      then reject ''plugin_sandbox_policy_reject_total''
        ''PLUGIN_SANDBOX_PROFILE_VIOLATION: plugin runtime spec violates baseline profile'' r
      else (r, Inr ()))"

definition enforce_signature_policy ::
  "string \<Rightarrow> signature_envelope \<Rightarrow> matrix_entry \<Rightarrow> registry \<Rightarrow> unit reg_result" where
  "enforce_signature_policy name sg entry r =
     (if blank (signature_ref sg) \<or> blank (signer_identity sg)
      then reject ''driver_signature_reject_total''
        (''DRIVER_SIGNATURE_REQUIRED: driver='' @ name @ '' has missing signature metadata'') r
      else if trust_profile sg \<noteq> ''sigstore-keyless-v1''
      then reject ''driver_signature_reject_total''
        (''DRIVER_SIGNATURE_TRUST_PROFILE_UNSUPPORTED: driver='' @ name @ '' trust_profile='' @ trust_profile sg) r
      else if sg_artifact_digest sg \<noteq> mx_artifact_digest entry
      then reject ''driver_matrix_mismatch_reject_total''
        (''DRIVER_MATRIX_METADATA_MISMATCH: driver='' @ name @ '' field=artifact_digest'') r
      else if sg_manifest_digest sg \<noteq> mx_manifest_digest entry
      then reject ''driver_matrix_mismatch_reject_total''
        (''DRIVER_MATRIX_METADATA_MISMATCH: driver='' @ name @ '' field=manifest_digest'') r
      else (r, Inr ()))"

section \<open>Drivers\<close>

text \<open>\<open>a or b\<close> on strings.\<close>

definition or_else :: "string \<Rightarrow> string \<Rightarrow> string" where
  "or_else a b = (if a \<noteq> [] then a else b)"

definition build_device_profile :: "string \<Rightarrow> driver_capabilities \<Rightarrow> device \<Rightarrow> device_profile" where
  "build_device_profile name caps dev =
     (let descriptors = (case capabilities dev of None \<Rightarrow> [] | Some d \<Rightarrow> d);
          get = (\<lambda>k. dget_or descriptors k []);
          pname = or_else (get ''provider'') (or_else (get ''profile'') (or_else (device_name dev) name))
      in \<lparr>profile_name = pname,
          profile_version = driver_api_version caps,
          dp_device_id = device_id dev,
          driver_name = name,
          dp_backend_type = or_else (backend_type dev) (or_else (get ''backend_type'') (or_else (get ''provider'') pname)),
          capability_descriptors = sort_key fst descriptors\<rparr>)"

text \<open>The loop over the devices of a new driver: it stops at the first device it cannot take.\<close>

fun collect_devices ::
  "string \<Rightarrow> (string, string) dict \<Rightarrow> device list \<Rightarrow> string list \<Rightarrow> (string, device) dict
   \<Rightarrow> (string, string list \<times> (string, device) dict) result" where
  "collect_devices name owners [] ids records = Inr (ids, records)"
| "collect_devices name owners (dev # devs) ids records =
     (if device_id dev = []
      then Inl (''driver '' @ name @ '' produced device with empty device_id'')
      else case dget owners (device_id dev) of
        Some existing \<Rightarrow> Inl (''device_id '' @ CHR 0x27 # device_id dev @ CHR 0x27 # '' already owned by driver ''
          @ CHR 0x27 # existing @ [CHR 0x27])
      | None \<Rightarrow> collect_devices name owners devs (ids @ [device_id dev]) (dset (device_id dev) dev records))"

definition add_driver :: "driver_answers \<Rightarrow> string \<Rightarrow> driver \<Rightarrow> registry \<Rightarrow> unit reg_result" where
  "add_driver w name drv r =
     (if name = [] then (r, Inl ''driver name is required'')
      else if dhas (drivers r) name then (r, Inl (''driver already registered: '' @ name))
      else
        (let caps = capability_handshake w drv in
         if driver_api_version caps = []
         then (r, Inl (''driver '' @ name @ '' capability handshake missing driver_api_version''))
         else case collect_devices name (device_to_driver r) (get_devices w drv) [] [] of
           Inl msg \<Rightarrow> (r, Inl msg)
         | Inr (ids, records) \<Rightarrow>
             (r\<lparr>device_to_driver := fold (\<lambda>i. dset i name) ids (device_to_driver r),
                device_profiles := fold (\<lambda>(i, dev). dset i (build_device_profile name caps dev)) records (device_profiles r),
                drivers := dset name \<lparr>rd_name = name, rd_driver = drv, rd_device_ids = set ids, rd_capabilities = caps\<rparr>
                  (drivers r)\<rparr>, Inr ())))"

definition add_plugin_driver ::
  "driver_answers \<Rightarrow> string \<Rightarrow> driver \<Rightarrow> plugin_runtime_spec \<Rightarrow> signature_envelope \<Rightarrow> matrix_entry \<Rightarrow> registry \<Rightarrow> unit reg_result" where
  "add_plugin_driver w name drv spec sg entry r =
     (case enforce_plugin_runtime_policy spec r of
        (r1, Inl msg) \<Rightarrow> (r1, Inl msg)
      | (r1, Inr _) \<Rightarrow>
          (case enforce_signature_policy name sg entry r1 of
             (r2, Inl msg) \<Rightarrow> (r2, Inl msg)
           | (r2, Inr _) \<Rightarrow> add_driver w name drv r2))"

text \<open>\<open>remove_driver\<close>: the ids are a set, and the order in which they are popped does not matter.\<close>

definition remove_driver :: "string \<Rightarrow> registry \<Rightarrow> registry \<times> bool" where
  "remove_driver name r =
     (case dget (drivers r) name of
        None \<Rightarrow> (r, False)
      | Some reg \<Rightarrow>
          (r\<lparr>drivers := dpop name (drivers r),
             device_to_driver := filter (\<lambda>(i, _). i \<notin> rd_device_ids reg) (device_to_driver r),
             device_profiles := filter (\<lambda>(i, _). i \<notin> rd_device_ids reg) (device_profiles r)\<rparr>, True))"

section \<open>Lookups\<close>

definition get_driver :: "registry \<Rightarrow> string \<Rightarrow> driver option" where
  "get_driver r name = map_option rd_driver (dget (drivers r) name)"

text \<open>\<open>self._drivers[driver_name]\<close> raises \<open>KeyError\<close> for an unknown name.\<close>

definition get_driver_for_device :: "registry \<Rightarrow> string \<Rightarrow> (string, driver option) result" where
  "get_driver_for_device r i =
     (case dget (device_to_driver r) i of
        None \<Rightarrow> Inr None
      | Some name \<Rightarrow>
          (case dget (drivers r) name of
             None \<Rightarrow> Inl (''KeyError: '' @ name)
           | Some reg \<Rightarrow> Inr (Some (rd_driver reg))))"

definition get_device_profile :: "registry \<Rightarrow> string \<Rightarrow> device_profile option" where
  "get_device_profile r i = dget (device_profiles r) i"

definition device_profile_snapshot :: "registry \<Rightarrow> device_profile list" where
  "device_profile_snapshot r = map snd (sort_key fst (device_profiles r))"

definition is_simulator :: "device_profile \<Rightarrow> bool" where
  "is_simulator p \<longleftrightarrow> profile_name p = ''simulator'' \<or> driver_name p = ''simulator'' \<or> dp_backend_type p = ''simulator''"

definition resolve_device_profile :: "registry \<Rightarrow> string \<Rightarrow> string option \<Rightarrow> (string, device_profile) result" where
  "resolve_device_profile r i requested_profile =
     (case dget (device_profiles r) i of
        None \<Rightarrow> Inl (''unknown device_id: '' @ i)
      | Some p \<Rightarrow>
          (let requested = py_strip (case requested_profile of None \<Rightarrow> [] | Some s \<Rightarrow> s) in
           if requested = [] then Inr p
           else if requested \<in> {profile_name p, driver_name p, dp_backend_type p, profile_version p, dp_device_id p} then Inr p
           else case List.find is_simulator (device_profile_snapshot r) of
             Some sim \<Rightarrow> Inr sim
           | None \<Rightarrow> Inl (''unsupported device profile '' @ CHR 0x27 # requested @ CHR 0x27 # '' for device_id ''
               @ CHR 0x27 # i @ [CHR 0x27])))"

definition negotiate_device_profile :: "registry \<Rightarrow> string \<Rightarrow> string option \<Rightarrow> (string, device_profile) result" where
  "negotiate_device_profile r i requested_profile = resolve_device_profile r i requested_profile"

definition list_devices :: "driver_answers \<Rightarrow> registry \<Rightarrow> device list" where
  "list_devices w r = sort_key device_id (concat (map (\<lambda>(_, reg). get_devices w (rd_driver reg)) (drivers r)))"

definition health_snapshot :: "driver_answers \<Rightarrow> registry \<Rightarrow> (string, driver_health) dict" where
  "health_snapshot w r = map (\<lambda>(name, reg). (name, healthcheck w (rd_driver reg))) (sort_key fst (drivers r))"

definition capability_snapshot :: "registry \<Rightarrow> (string, driver_capabilities) dict" where
  "capability_snapshot r = map (\<lambda>(name, reg). (name, rd_capabilities reg)) (sort_key fst (drivers r))"

definition policy_reject_snapshot :: "registry \<Rightarrow> (string, int) dict" where
  "policy_reject_snapshot r = reject_counters r"

section \<open>Invariant\<close>

definition owns :: "registry \<Rightarrow> string \<Rightarrow> string \<Rightarrow> bool" where
  "owns r i name \<longleftrightarrow> (\<exists>reg. dget (drivers r) name = Some reg \<and> i \<in> rd_device_ids reg)"

text \<open>The reverse index and the profiles are what the registered drivers say, and nothing else.\<close>

definition index_inv :: "registry \<Rightarrow> bool" where
  "index_inv r \<longleftrightarrow>
     wf_dict (drivers r) \<and> wf_dict (device_to_driver r) \<and> wf_dict (device_profiles r) \<and>
     (\<forall>i name. dget (device_to_driver r) i = Some name \<longleftrightarrow> owns r i name) \<and>
     (\<forall>i. dget (device_profiles r) i = None \<longleftrightarrow> dget (device_to_driver r) i = None) \<and>
     (\<forall>i p. dget (device_profiles r) i = Some p \<longrightarrow>
        dp_device_id p = i \<and> dget (device_to_driver r) i = Some (driver_name p)) \<and>
     (\<forall>name reg. dget (drivers r) name = Some reg \<longrightarrow> rd_name reg = name \<and> name \<noteq> [])"

definition sessions_inv :: "(string \<times> string, session) dict \<Rightarrow> bool" where
  "sessions_inv ss \<longleftrightarrow>
     (\<forall>name key s. dget ss (name, key) = Some s \<longrightarrow> se_driver s = name \<and> se_state s \<in> {''active'', ''invalidated''})"

definition registry_inv :: "registry \<Rightarrow> bool" where
  "registry_inv r \<longleftrightarrow> index_inv r \<and> sessions_inv (sessions r)"

lemma index_invI:
  assumes "wf_dict (drivers r)" "wf_dict (device_to_driver r)" "wf_dict (device_profiles r)"
    and "\<And>i name. dget (device_to_driver r) i = Some name \<longleftrightarrow> owns r i name"
    and "\<And>i. dget (device_profiles r) i = None \<longleftrightarrow> dget (device_to_driver r) i = None"
    and "\<And>i p. dget (device_profiles r) i = Some p \<Longrightarrow>
        dp_device_id p = i \<and> dget (device_to_driver r) i = Some (driver_name p)"
    and "\<And>name reg. dget (drivers r) name = Some reg \<Longrightarrow> rd_name reg = name \<and> name \<noteq> []"
  shows "index_inv r"
  unfolding index_inv_def using assms by blast

lemma index_invD:
  assumes "index_inv r"
  shows index_wf: "wf_dict (drivers r)" "wf_dict (device_to_driver r)" "wf_dict (device_profiles r)"
    and index_owner: "dget (device_to_driver r) i = Some name \<longleftrightarrow> owns r i name"
    and index_profile_dom: "dget (device_profiles r) i = None \<longleftrightarrow> dget (device_to_driver r) i = None"
    and index_profile: "dget (device_profiles r) i = Some p \<Longrightarrow>
      dp_device_id p = i \<and> dget (device_to_driver r) i = Some (driver_name p)"
    and index_names: "dget (drivers r) name = Some reg \<Longrightarrow> rd_name reg = name \<and> name \<noteq> []"
  using assms unfolding index_inv_def by blast+

lemma index_inv_cong:
  assumes "drivers r' = drivers r" "device_to_driver r' = device_to_driver r" "device_profiles r' = device_profiles r"
  shows "index_inv r' \<longleftrightarrow> index_inv r"
  unfolding index_inv_def owns_def assms ..

lemma empty_registry_inv: "registry_inv empty_registry"
  by (simp add: registry_inv_def index_inv_def sessions_inv_def owns_def empty_registry_def)

section \<open>Adding a driver\<close>

text \<open>What the loop over the devices has collected when it does not raise.\<close>

lemma collect_devices_Inr:
  "collect_devices name owners devs ids records = Inr (ids', records') \<Longrightarrow>
   ids' = ids @ map device_id devs \<and> records' = fold (\<lambda>dev. dset (device_id dev) dev) devs records
   \<and> (\<forall>dev\<in>set devs. device_id dev \<noteq> [] \<and> dget owners (device_id dev) = None)"
  by (induction devs arbitrary: ids records) (fastforce split: if_splits option.splits)+

lemma fold_dset_const: "dget (fold (\<lambda>i. dset i v) ids d) k = (if k \<in> set ids then Some v else dget d k)"
  by (induction ids arbitrary: d) auto

lemma wf_fold_dset:
  "wf_dict d \<Longrightarrow> wf_dict (fold (\<lambda>x. dset (f x) (g x)) xs d)"
  by (induction xs arbitrary: d) (auto intro: wf_dict_dset)

lemma records_lookup:
  "dget (fold (\<lambda>dev. dset (device_id dev) dev) devs d) i = Some dev \<Longrightarrow>
   (\<And>j e. dget d j = Some e \<Longrightarrow> device_id e = j) \<Longrightarrow> device_id dev = i \<and> (dev \<in> set devs \<or> dget d i = Some dev)"
proof (induction devs arbitrary: d)
  case (Cons x devs)
  have "device_id dev = i \<and> (dev \<in> set devs \<or> dget (dset (device_id x) x d) i = Some dev)"
  proof (rule Cons.IH)
    show "dget (fold (\<lambda>dev. dset (device_id dev) dev) devs (dset (device_id x) x d)) i = Some dev"
      using Cons.prems(1) by simp
    show "device_id e = j" if "dget (dset (device_id x) x d) j = Some e" for j e
      using that Cons.prems(2) by (simp split: if_splits)
  qed
  then show ?case by (auto split: if_splits)
qed simp

lemma records_keys:
  "dget (fold (\<lambda>dev. dset (device_id dev) dev) devs d) i = None \<longleftrightarrow> i \<notin> device_id ` set devs \<and> dget d i = None"
  by (induction devs arbitrary: d) auto

lemma profiles_lookup:
  assumes "wf_dict records"
  shows "dget (fold (\<lambda>(i, dev). dset i (f dev)) records d) i =
    (case dget records i of Some dev \<Rightarrow> Some (f dev) | None \<Rightarrow> dget d i)"
  using assms
proof (induction records arbitrary: d)
  case (Cons x records)
  obtain j dev where x: "x = (j, dev)" by fastforce
  with Cons have "dget (fold (\<lambda>(i, dev). dset i (f dev)) records (dset j (f dev) d)) i =
    (case dget records i of Some dev \<Rightarrow> Some (f dev) | None \<Rightarrow> dget (dset j (f dev) d) i)"
    by simp
  moreover have "dget records j = None"
    using Cons.prems x by (simp add: map_of_eq_None_iff)
  ultimately show ?case using x by (auto split: option.splits)
qed simp

text \<open>The outcome of \<open>add_driver\<close>, one field at a time.\<close>

definition device_ids_of :: "driver_answers \<Rightarrow> driver \<Rightarrow> string set" where
  "device_ids_of w drv = device_id ` set (get_devices w drv)"

definition addable :: "driver_answers \<Rightarrow> string \<Rightarrow> driver \<Rightarrow> registry \<Rightarrow> bool" where
  "addable w name drv r \<longleftrightarrow> name \<noteq> [] \<and> dget (drivers r) name = None
     \<and> driver_api_version (capability_handshake w drv) \<noteq> []
     \<and> (\<forall>i\<in>device_ids_of w drv. i \<noteq> [] \<and> dget (device_to_driver r) i = None)"

lemma collect_devices_total:
  "(\<forall>dev\<in>set devs. device_id dev \<noteq> [] \<and> dget owners (device_id dev) = None) \<Longrightarrow>
   \<exists>out. collect_devices name owners devs ids records = Inr out"
  by (induction devs arbitrary: ids records) auto

lemma add_driver_Inr_iff: "(\<exists>r'. add_driver w name drv r = (r', Inr ())) \<longleftrightarrow> addable w name drv r"
proof -
  have "(\<exists>out. collect_devices name (device_to_driver r) (get_devices w drv) [] [] = Inr out)
      \<longleftrightarrow> (\<forall>i\<in>device_ids_of w drv. i \<noteq> [] \<and> dget (device_to_driver r) i = None)"
    using collect_devices_total [of "get_devices w drv" "device_to_driver r" name "[]" "[]"]
    by (fastforce simp: device_ids_of_def dest: collect_devices_Inr)
  then show ?thesis
    by (auto simp: add_driver_def addable_def dhas_def Let_def split: sum.splits)
qed

lemma add_driver_Inl: "add_driver w name drv r = (r', Inl msg) \<Longrightarrow> r' = r"
  by (cases "collect_devices name (device_to_driver r) (get_devices w drv) [] []")
    (simp_all add: add_driver_def Let_def split: if_splits prod.splits)

lemma add_driver_obtain:
  assumes "add_driver w name drv r = (r', Inr ())"
  obtains ids recs where "collect_devices name (device_to_driver r) (get_devices w drv) [] [] = Inr (ids, recs)"
    "r' = r\<lparr>device_to_driver := fold (\<lambda>i. dset i name) ids (device_to_driver r),
      device_profiles := fold (\<lambda>(i, dev). dset i (build_device_profile name (capability_handshake w drv) dev)) recs (device_profiles r),
      drivers := dset name \<lparr>rd_name = name, rd_driver = drv, rd_device_ids = set ids,
        rd_capabilities = capability_handshake w drv\<rparr> (drivers r)\<rparr>"
  using assms by (auto simp: add_driver_def Let_def split: if_splits sum.splits prod.splits)

lemma collect_devices_ids:
  assumes "collect_devices name owners (get_devices w drv) [] [] = Inr (ids, recs)"
  shows "set ids = device_ids_of w drv" "set (dkeys recs) = device_ids_of w drv"
proof -
  have recs: "recs = fold (\<lambda>dev. dset (device_id dev) dev) (get_devices w drv) []" and "ids = map device_id (get_devices w drv)"
    using collect_devices_Inr [OF assms] by auto
  then show "set ids = device_ids_of w drv" by (simp add: device_ids_of_def)
  have "i \<in> set (dkeys recs) \<longleftrightarrow> i \<in> device_ids_of w drv" for i
    using records_keys [of "get_devices w drv" "[]" i] unfolding map_of_eq_None_iff by (simp add: recs device_ids_of_def)
  then show "set (dkeys recs) = device_ids_of w drv" by blast
qed

lemma add_driver_Inr:
  assumes "add_driver w name drv r = (r', Inr ())"
  shows add_driver_sessions: "sessions r' = sessions r"
    and add_driver_drivers: "dget (drivers r') name' =
      (if name' = name then Some \<lparr>rd_name = name, rd_driver = drv, rd_device_ids = device_ids_of w drv,
         rd_capabilities = capability_handshake w drv\<rparr> else dget (drivers r) name')"
    and add_driver_index_at: "dget (device_to_driver r') i =
      (if i \<in> device_ids_of w drv then Some name else dget (device_to_driver r) i)"
    and add_driver_profile_other: "i \<notin> device_ids_of w drv \<Longrightarrow> dget (device_profiles r') i = dget (device_profiles r) i"
    and add_driver_profile: "i \<in> device_ids_of w drv \<Longrightarrow>
      \<exists>dev\<in>set (get_devices w drv). device_id dev = i \<and>
        dget (device_profiles r') i = Some (build_device_profile name (capability_handshake w drv) dev)"
    and add_driver_wf: "wf_dict (drivers r) \<Longrightarrow> wf_dict (drivers r')"
      "wf_dict (device_to_driver r) \<Longrightarrow> wf_dict (device_to_driver r')"
      "wf_dict (device_profiles r) \<Longrightarrow> wf_dict (device_profiles r')"
proof -
  obtain ids recs where c: "collect_devices name (device_to_driver r) (get_devices w drv) [] [] = Inr (ids, recs)"
    and r': "r' = r\<lparr>device_to_driver := fold (\<lambda>i. dset i name) ids (device_to_driver r),
      device_profiles := fold (\<lambda>(i, dev). dset i (build_device_profile name (capability_handshake w drv) dev)) recs (device_profiles r),
      drivers := dset name \<lparr>rd_name = name, rd_driver = drv, rd_device_ids = set ids,
        rd_capabilities = capability_handshake w drv\<rparr> (drivers r)\<rparr>"
    using assms by (rule add_driver_obtain)
  have ids: "set ids = device_ids_of w drv"
    and recs: "recs = fold (\<lambda>dev. dset (device_id dev) dev) (get_devices w drv) []"
    using collect_devices_Inr [OF c] by (auto simp: device_ids_of_def)
  have wf: "wf_dict recs" unfolding recs by (rule wf_fold_dset) simp
  show "sessions r' = sessions r" by (simp add: r')
  show "dget (drivers r') name' = (if name' = name then Some \<lparr>rd_name = name, rd_driver = drv,
      rd_device_ids = device_ids_of w drv, rd_capabilities = capability_handshake w drv\<rparr> else dget (drivers r) name')"
    by (simp add: r' ids)
  show "dget (device_to_driver r') i = (if i \<in> device_ids_of w drv then Some name else dget (device_to_driver r) i)"
    by (simp add: r' ids fold_dset_const)
  show "dget (device_profiles r') i = dget (device_profiles r) i" if "i \<notin> device_ids_of w drv"
  proof -
    have "dget recs i = None" using that by (simp add: recs records_keys device_ids_of_def)
    then show ?thesis by (simp add: r' profiles_lookup [OF wf])
  qed
  show "\<exists>dev\<in>set (get_devices w drv). device_id dev = i \<and>
      dget (device_profiles r') i = Some (build_device_profile name (capability_handshake w drv) dev)"
    if i: "i \<in> device_ids_of w drv"
  proof -
    from i obtain dev where dev: "dget recs i = Some dev"
      using records_keys [of "get_devices w drv" "[]" i] by (auto simp: recs device_ids_of_def)
    then have "device_id dev = i \<and> dev \<in> set (get_devices w drv)"
      using records_lookup [of "get_devices w drv" "[]" i dev] by (simp add: recs)
    with dev show ?thesis by (auto simp: r' profiles_lookup [OF wf])
  qed
  show "wf_dict (drivers r) \<Longrightarrow> wf_dict (drivers r')"
    by (simp add: r' distinct_update)
  show "wf_dict (device_to_driver r) \<Longrightarrow> wf_dict (device_to_driver r')"
    using wf_fold_dset [of "device_to_driver r" "\<lambda>i. i" "\<lambda>_. name" ids] by (simp add: r')
  show "wf_dict (device_profiles r) \<Longrightarrow> wf_dict (device_profiles r')"
    using wf_fold_dset [of "device_profiles r" fst "\<lambda>x. build_device_profile name (capability_handshake w drv) (snd x)" recs]
    by (simp add: r' case_prod_unfold)
qed

lemma build_profile_ids [simp]:
  "dp_device_id (build_device_profile name caps dev) = device_id dev"
  "driver_name (build_device_profile name caps dev) = name"
  by (simp_all add: build_device_profile_def Let_def)

lemma add_driver_index:
  assumes inv: "index_inv r" and add: "add_driver w name drv r = (r', Inr ())"
  shows "index_inv r'"
proof -
  note at = add_driver_drivers [OF add] add_driver_index_at [OF add]
  have ok: "addable w name drv r" using add add_driver_Inr_iff by blast
  have fresh: "\<not> owns r i name'" if "i \<in> device_ids_of w drv" for i name'
    using that ok index_owner [OF inv, of i name'] by (auto simp: addable_def)
  have new: "dget (drivers r) name = None" "name \<noteq> []" using ok by (simp_all add: addable_def)
  show ?thesis
  proof (rule index_invI)
    show "wf_dict (drivers r')" "wf_dict (device_to_driver r')" "wf_dict (device_profiles r')"
      using add_driver_wf [OF add] index_wf [OF inv] by blast+
    fix i name'
    have "owns r' i name' \<longleftrightarrow> (if name' = name then i \<in> device_ids_of w drv else owns r i name')"
      by (simp add: owns_def at)
    moreover have "\<not> owns r i name" using new by (simp add: owns_def)
    ultimately show "dget (device_to_driver r') i = Some name' \<longleftrightarrow> owns r' i name'"
      using fresh [of i name'] index_owner [OF inv, of i name'] by (auto simp: at)
    show "dget (device_profiles r') i = None \<longleftrightarrow> dget (device_to_driver r') i = None"
      using add_driver_profile [OF add, of i] add_driver_profile_other [OF add, of i] index_profile_dom [OF inv, of i]
      by (cases "i \<in> device_ids_of w drv") (auto simp: at)
  next
    fix i p assume p: "dget (device_profiles r') i = Some p"
    show "dp_device_id p = i \<and> dget (device_to_driver r') i = Some (driver_name p)"
    proof (cases "i \<in> device_ids_of w drv")
      case True
      then obtain dev where "device_id dev = i" "p = build_device_profile name (capability_handshake w drv) dev"
        using add_driver_profile [OF add True] p by auto
      with True show ?thesis by (simp add: at)
    next
      case False
      then show ?thesis
        using p add_driver_profile_other [OF add False] index_profile [OF inv, of i p] by (simp add: at)
    qed
  next
    fix name' reg assume "dget (drivers r') name' = Some reg"
    then show "rd_name reg = name' \<and> name' \<noteq> []"
      using new index_names [OF inv, of name' reg] by (auto simp: at split: if_splits)
  qed
qed

section \<open>Removing a driver\<close>

lemma filter_key_lookup: "dget (filter (\<lambda>(i, _). P i) d) i = (if P i then dget d i else None)"
  by (induction d) auto

lemma wf_dict_filter: "wf_dict d \<Longrightarrow> wf_dict (filter (\<lambda>(i, _). P i) d)"
  by (induction d) auto

lemma remove_driver_True:
  assumes "remove_driver name r = (r', True)"
  obtains reg where "dget (drivers r) name = Some reg" "sessions r' = sessions r"
    "reject_counters r' = reject_counters r" "drivers r' = dpop name (drivers r)"
    "device_to_driver r' = filter (\<lambda>(i, _). i \<notin> rd_device_ids reg) (device_to_driver r)"
    "device_profiles r' = filter (\<lambda>(i, _). i \<notin> rd_device_ids reg) (device_profiles r)"
  using assms by (auto simp: remove_driver_def split: option.splits)

lemma remove_driver_index:
  assumes inv: "index_inv r" and rem: "remove_driver name r = (r', True)"
  shows "index_inv r'"
proof -
  from rem obtain reg where reg: "dget (drivers r) name = Some reg"
    and fields: "drivers r' = dpop name (drivers r)"
      "device_to_driver r' = filter (\<lambda>(i, _). i \<notin> rd_device_ids reg) (device_to_driver r)"
      "device_profiles r' = filter (\<lambda>(i, _). i \<notin> rd_device_ids reg) (device_profiles r)"
    by (rule remove_driver_True)
  have mine: "i \<in> rd_device_ids reg \<longleftrightarrow> dget (device_to_driver r) i = Some name" for i
    using index_owner [OF inv, of i name] reg by (simp add: owns_def)
  show ?thesis
  proof (rule index_invI)
    show "wf_dict (drivers r')" "wf_dict (device_to_driver r')" "wf_dict (device_profiles r')"
      using index_wf [OF inv] by (simp_all add: fields wf_dict_filter distinct_delete)
    fix i name'
    have "owns r' i name' \<longleftrightarrow> name' \<noteq> name \<and> owns r i name'"
      by (simp add: owns_def fields)
    then show "dget (device_to_driver r') i = Some name' \<longleftrightarrow> owns r' i name'"
      using index_owner [OF inv, of i name'] by (auto simp: fields filter_key_lookup mine)
    show "dget (device_profiles r') i = None \<longleftrightarrow> dget (device_to_driver r') i = None"
      using index_profile_dom [OF inv, of i] by (simp add: fields filter_key_lookup)
  next
    fix i p assume "dget (device_profiles r') i = Some p"
    then have "i \<notin> rd_device_ids reg" "dget (device_profiles r) i = Some p"
      by (simp_all add: fields filter_key_lookup split: if_splits)
    then show "dp_device_id p = i \<and> dget (device_to_driver r') i = Some (driver_name p)"
      using index_profile [OF inv, of i p] by (simp add: fields filter_key_lookup)
  next
    fix name' reg' assume "dget (drivers r') name' = Some reg'"
    then show "rd_name reg' = name' \<and> name' \<noteq> []"
      using index_names [OF inv, of name' reg'] by (simp add: fields split: if_splits)
  qed
qed

section \<open>Every operation keeps the invariant\<close>

definition same_drivers :: "registry \<Rightarrow> registry \<Rightarrow> bool" where
  "same_drivers r' r \<longleftrightarrow> sessions r' = sessions r \<and> drivers r' = drivers r
     \<and> device_to_driver r' = device_to_driver r \<and> device_profiles r' = device_profiles r"

lemma same_drivers_inv: "same_drivers r' r \<Longrightarrow> registry_inv r' \<longleftrightarrow> registry_inv r"
  using index_inv_cong [of r' r] by (simp add: registry_inv_def same_drivers_def)

lemma reject_same: "same_drivers (fst (reject key msg r)) r"
  by (simp add: reject_def same_drivers_def)

lemma runtime_policy_same: "same_drivers (fst (enforce_plugin_runtime_policy spec r)) r"
  using reject_same by (simp add: enforce_plugin_runtime_policy_def same_drivers_def)

lemma signature_policy_same: "same_drivers (fst (enforce_signature_policy name sg entry r)) r"
  using reject_same by (simp add: enforce_signature_policy_def same_drivers_def)

lemma runtime_policy_Inr:
  "enforce_plugin_runtime_policy spec r = (r', Inr u) \<longleftrightarrow>
   r' = r \<and> artifact_type spec = ''oci'' \<and> runtime spec = ''runsc'' \<and> baseline_ok spec"
  by (auto simp: enforce_plugin_runtime_policy_def reject_def)

lemma signature_policy_Inr:
  "enforce_signature_policy name sg entry r = (r', Inr u) \<longleftrightarrow>
   r' = r \<and> \<not> blank (signature_ref sg) \<and> \<not> blank (signer_identity sg) \<and> trust_profile sg = ''sigstore-keyless-v1''
   \<and> sg_artifact_digest sg = mx_artifact_digest entry \<and> sg_manifest_digest sg = mx_manifest_digest entry"
  by (auto simp: enforce_signature_policy_def reject_def)

lemma add_driver_inv:
  assumes "registry_inv r" shows "registry_inv (fst (add_driver w name drv r))"
proof (cases "add_driver w name drv r")
  case (Pair r' out)
  show ?thesis
  proof (cases out)
    case (Inl msg)
    then show ?thesis using Pair add_driver_Inl [of w name drv r r' msg] assms by simp
  next
    case (Inr u)
    then have add: "add_driver w name drv r = (r', Inr ())" using Pair by simp
    show ?thesis
      using add_driver_index [OF _ add] add_driver_sessions [OF add] assms by (simp add: registry_inv_def add)
  qed
qed

lemma remove_driver_inv:
  assumes "registry_inv r" shows "registry_inv (fst (remove_driver name r))"
proof (cases "remove_driver name r")
  case (Pair r' found)
  show ?thesis
  proof (cases found)
    case False
    then have "r' = r" using Pair by (simp add: remove_driver_def split: option.splits)
    then show ?thesis using Pair assms by simp
  next
    case True
    then have rem: "remove_driver name r = (r', True)" using Pair by simp
    then have "sessions r' = sessions r" by (rule remove_driver_True)
    then show ?thesis
      using remove_driver_index [OF _ rem] assms by (simp add: registry_inv_def rem)
  qed
qed

text \<open>A plugin is added like any other driver once both policies let it through.\<close>

lemma add_plugin_driver_cases:
  obtains (rejected) r' msg where "add_plugin_driver w name drv spec sg entry r = (r', Inl msg)" "same_drivers r' r"
  | (admitted) "enforce_plugin_runtime_policy spec r = (r, Inr ())" "enforce_signature_policy name sg entry r = (r, Inr ())"
      "add_plugin_driver w name drv spec sg entry r = add_driver w name drv r"
proof -
  obtain r1 o1 where p1: "enforce_plugin_runtime_policy spec r = (r1, o1)" by fastforce
  obtain r2 o2 where p2: "enforce_signature_policy name sg entry r1 = (r2, o2)" by fastforce
  have s1: "same_drivers r1 r" using runtime_policy_same [of spec r] p1 by simp
  have s2: "same_drivers r2 r1" using signature_policy_same [of name sg entry r1] p2 by simp
  show ?thesis
  proof (cases o1)
    case (Inl msg)
    then show ?thesis using p1 s1 by (intro rejected [of r1 msg]) (simp_all add: add_plugin_driver_def)
  next
    case o1: (Inr u)
    then have r1: "r1 = r" using p1 runtime_policy_Inr [of spec r r1 u] by simp
    show ?thesis
    proof (cases o2)
      case (Inl msg)
      then show ?thesis using p1 p2 o1 s1 s2 r1
        by (intro rejected [of r2 msg]) (simp_all add: add_plugin_driver_def same_drivers_def)
    next
      case (Inr v)
      then have "r2 = r" using p2 r1 signature_policy_Inr [of name sg entry r r2 v] by simp
      then show ?thesis using p1 p2 o1 Inr r1 by (intro admitted) (simp_all add: add_plugin_driver_def)
    qed
  qed
qed

lemma add_plugin_driver_inv:
  assumes "registry_inv r" shows "registry_inv (fst (add_plugin_driver w name drv spec sg entry r))"
proof (cases w name drv spec sg entry r rule: add_plugin_driver_cases)
  case (rejected r' msg)
  then show ?thesis using same_drivers_inv assms by simp
next
  case admitted
  then show ?thesis using add_driver_inv [OF assms] by simp
qed

lemma get_or_create_session_inv:
  "registry_inv r \<Longrightarrow> registry_inv (fst (get_or_create_session name key r))"
  using index_inv_cong [of "fst (get_or_create_session name key r)" r]
  by (auto simp: registry_inv_def sessions_inv_def get_or_create_session_def Let_def split: option.splits)

lemma invalidate_session_inv:
  "registry_inv r \<Longrightarrow> registry_inv (invalidate_session name key r)"
  using index_inv_cong [of "invalidate_session name key r" r]
  by (auto simp: registry_inv_def sessions_inv_def invalidate_session_def split: option.splits)

section \<open>The registry as a state machine\<close>

inductive registry_step :: "registry \<Rightarrow> registry \<Rightarrow> bool" where
  create_session: "registry_step r (fst (get_or_create_session name key r))"
| invalidate: "registry_step r (invalidate_session name key r)"
| add: "registry_step r (fst (add_driver w name drv r))"
| add_plugin: "registry_step r (fst (add_plugin_driver w name drv spec sg entry r))"
| remove: "registry_step r (fst (remove_driver name r))"

lemma registry_step_inv: "registry_inv r \<Longrightarrow> registry_step r r' \<Longrightarrow> registry_inv r'"
  by (erule registry_step.cases)
    (auto intro: get_or_create_session_inv invalidate_session_inv add_driver_inv add_plugin_driver_inv remove_driver_inv)

interpretation registry: invariant_system "\<lambda>r. r = empty_registry" registry_step registry_inv
  using empty_registry_inv registry_step_inv by unfold_locales auto

end
