(* ===== verification/Simulator.thy ===== *)
theory Simulator
  imports Complex_Main AqoSchema DriverRegistry
begin

text \<open>
  The simulator driver of the driver manager (\<open>driver_manager/simulator_driver.py\<close>): parsing of an AQO
  payload, the state-vector loops, symbolic angles, sampling, expectation values and sessions.
  Amplitudes and angles are exact (\<^typ>\<open>complex\<close> and \<^typ>\<open>real\<close>) where Python has binary floats; an infinite
  angle and NaN are kept apart (\<open>py_float\<close>). UTF-8 decoding, the conversion of numbers and texts to
  floats, number formatting, \<open>str\<close> on containers and the pseudo-random choice are parameters (record
  \<open>sim_platform\<close>). The elapsed time is left out.
\<close>

section \<open>Errors and parameters\<close>

datatype grpc_code =
    INVALID_ARGUMENT | UNIMPLEMENTED | UNAVAILABLE | RESOURCE_EXHAUSTED | FAILED_PRECONDITION
  | UNAUTHENTICATED | PERMISSION_DENIED | DEADLINE_EXCEEDED | INTERNAL | OTHER_CODE nat

text \<open>\<open>DriverExecutionError\<close>, and the Python exceptions the driver lets through.\<close>

datatype dexn = DriverError grpc_code string | DriverPy pyexn

type_synonym 'a dres = "(dexn, 'a) result"

abbreviation invalid :: "string \<Rightarrow> 'a dres" where
  "invalid msg \<equiv> Inl (DriverError INVALID_ARGUMENT msg)"

text \<open>A Python float as the driver uses it: exact where it is finite.\<close>

datatype py_float = Finite real | Infinite | NotANumber

text \<open>
  \<open>sp_number\<close> is \<open>float(v)\<close> on integers and floats, \<open>None\<close> where it overflows; \<open>sp_parse_float\<close> is \<open>float(text)\<close>,
  \<open>None\<close> where it raises; \<open>sp_choice seed weights k\<close> is the k-th draw of the generator seeded with \<open>seed\<close>.
\<close>

record sim_platform =
  sp_decode :: "string \<Rightarrow> string option"
  sp_json_msg :: "string \<Rightarrow> string"
  sp_str :: "pyval \<Rightarrow> string"
  sp_number :: "pyval \<Rightarrow> py_float option"
  sp_parse_float :: "string \<Rightarrow> py_float option"
  sp_choice :: "int \<Rightarrow> real list \<Rightarrow> nat \<Rightarrow> nat"
  sp_fmt6 :: "real \<Rightarrow> string"
  sp_sha256 :: "string \<Rightarrow> string"

definition SUPPORTED_OPS :: "string list" where
  "SUPPORTED_OPS = [''RX'', ''RY'', ''RZ'', ''CX'', ''MEASURE'']"

definition MAX_QUBITS :: int where
  "MAX_QUBITS = 16"

section \<open>Payload\<close>

definition op_index :: "nat \<Rightarrow> string" where
  "op_index idx = ''operation['' @ show_nat idx @ '']''"

text \<open>\<open>str(raw_op.get("op", "")).upper()\<close>.\<close>

definition op_text :: "sim_platform \<Rightarrow> (string, pyval) dict \<Rightarrow> string" where
  "op_text sp op = py_upper (case dget op ''op'' of None \<Rightarrow> [] | Some (PStr s) \<Rightarrow> s | Some v \<Rightarrow> sp_str sp v)"

fun validate_supported_ops :: "sim_platform \<Rightarrow> nat \<Rightarrow> pyval list \<Rightarrow> unit dres" where
  "validate_supported_ops sp idx [] = Inr ()"
| "validate_supported_ops sp idx (v # vs) =
     (case v of
        PDict op \<Rightarrow>
          (if op_text sp op \<notin> set SUPPORTED_OPS
           then Inl (DriverError UNIMPLEMENTED (''Unsupported Op: '' @ op_text sp op @ '' at '' @ op_index idx))
           else validate_supported_ops sp (Suc idx) vs)
      | _ \<Rightarrow> invalid (op_index idx @ '' must be object''))"

definition parse_payload :: "sim_platform \<Rightarrow> string \<Rightarrow> ((string, pyval) dict) dres" where
  "parse_payload sp circuit =
     (if circuit = [] then invalid ''payload.data is required''
      else case sp_decode sp circuit of
        None \<Rightarrow> invalid ''payload.data must be utf-8''
      | Some text \<Rightarrow>
          (case json_loads text of
             None \<Rightarrow> invalid (''invalid AQO JSON: '' @ sp_json_msg sp text)
           | Some v \<Rightarrow>
               (case v of
                  PDict payload \<Rightarrow>
                    (if \<not> (case vget payload ''version'' of PStr s \<Rightarrow> \<not> blank s | _ \<Rightarrow> False)
                     then invalid ''aqo.version is required''
                     else case vget payload ''operations'' of
                       PList operations \<Rightarrow>
                         rbind (validate_supported_ops sp 0 operations) (\<lambda>_. Inr payload)
                     | _ \<Rightarrow> invalid ''aqo.operations must be a list'')
                | _ \<Rightarrow> invalid ''aqo payload must be an object'')))"

definition parse_qubits :: "(string, pyval) dict \<Rightarrow> int dres" where
  "parse_qubits payload =
     (let qubits = vget payload ''qubits'' in
      if \<not> is_int qubits \<or> int_of qubits \<le> 0 then invalid ''aqo.qubits must be a positive int''
      else if int_of qubits > MAX_QUBITS
      then Inl (DriverError RESOURCE_EXHAUSTED (''Simulator Out of Memory: requested '' @ show_int (int_of qubits)
        @ '' qubits exceeds limit '' @ show_int MAX_QUBITS))
      else Inr (int_of qubits))"

section \<open>Gates\<close>

text \<open>\<open>range(0, n, step)\<close>.\<close>

definition range_step :: "nat \<Rightarrow> nat \<Rightarrow> nat list" where
  "range_step n step = map (\<lambda>k. k * step) [0..<(n + step - 1) div step]"

definition rotation_matrix :: "string \<Rightarrow> real \<Rightarrow> (complex \<times> complex \<times> complex \<times> complex) option" where
  "rotation_matrix op theta =
     (let c = complex_of_real (cos (theta / 2)); s = complex_of_real (sin (theta / 2)) in
      if op = ''RX'' then Some (c, - \<i> * s, - \<i> * s, c)
      else if op = ''RY'' then Some (c, - s, s, c)
      else if op = ''RZ'' then Some (cis (- theta / 2), 0, 0, cis (theta / 2))
      else None)"

text \<open>One iteration of the inner loop, on the pair of amplitudes \<open>i0\<close> and \<open>i0 + step\<close>.\<close>

definition rotate_pair :: "complex \<times> complex \<times> complex \<times> complex \<Rightarrow> nat \<Rightarrow> nat \<Rightarrow> complex list \<Rightarrow> complex list" where
  "rotate_pair m step i0 state =
     (let (m00, m01, m10, m11) = m; i1 = i0 + step; a0 = state ! i0; a1 = state ! i1
      in state[i0 := m00 * a0 + m01 * a1, i1 := m10 * a0 + m11 * a1])"

text \<open>The two loops, for a matrix.\<close>

definition rotate_loops :: "complex \<times> complex \<times> complex \<times> complex \<Rightarrow> nat \<Rightarrow> complex list \<Rightarrow> complex list" where
  "rotate_loops m target state =
     (let step = 2 ^ target; span = 2 * step
      in fold (\<lambda>base. fold (\<lambda>offset. rotate_pair m step (base + offset)) [0..<step])
           (range_step (length state) span) state)"

text \<open>
  A state is \<open>None\<close> once a rotation by NaN has made every amplitude NaN. The cosine of an infinite
  angle raises.
\<close>

definition apply_single_qubit_rotation ::
  "complex list option \<Rightarrow> nat \<Rightarrow> string \<Rightarrow> py_float \<Rightarrow> complex list option dres" where
  "apply_single_qubit_rotation state target op theta =
     (case theta of
        Infinite \<Rightarrow> Inl (DriverPy (ValueError ''math domain error''))
      | NotANumber \<Rightarrow> if rotation_matrix op 0 = None then invalid (''unsupported rotation: '' @ op) else Inr None
      | Finite x \<Rightarrow>
          (case rotation_matrix op x of
             None \<Rightarrow> invalid (''unsupported rotation: '' @ op)
           | Some m \<Rightarrow> Inr (map_option (rotate_loops m target) state)))"

text \<open>One iteration of the loop of \<open>_apply_cx\<close>.\<close>

definition cx_step :: "nat \<Rightarrow> nat \<Rightarrow> nat \<Rightarrow> 'a list \<Rightarrow> 'a list" where
  "cx_step control target idx state =
     (if bit idx control \<and> \<not> bit idx target
      then state[idx := state ! set_bit target idx, set_bit target idx := state ! idx]
      else state)"

definition cx_loop :: "nat \<Rightarrow> nat \<Rightarrow> 'a list \<Rightarrow> 'a list" where
  "cx_loop control target state = fold (cx_step control target) [0..<length state] state"

definition apply_cx :: "complex list option \<Rightarrow> nat \<Rightarrow> nat \<Rightarrow> complex list option dres" where
  "apply_cx state control target =
     (if control = target then invalid ''CX control and target must differ''
      else Inr (map_option (cx_loop control target) state))"

section \<open>Angles\<close>

text \<open>The options under which a symbol is looked up, in order.\<close>

definition theta_keys :: "string \<Rightarrow> string list" where
  "theta_keys text = [text, ''param.'' @ text, ''param:'' @ text, ''parameters.'' @ text, ''parameters:'' @ text]"

text \<open>What a symbol is bound to: a parameter of the payload first, then an option.\<close>

definition theta_binding :: "(string, pyval) dict \<Rightarrow> (string, string) dict \<Rightarrow> string \<Rightarrow> pyval option" where
  "theta_binding payload options text =
     (case (case vget payload ''parameters'' of PDict ps \<Rightarrow> dget ps text | _ \<Rightarrow> None) of
        Some v \<Rightarrow> Some v
      | None \<Rightarrow> map_option (\<lambda>k. PStr (the (dget options k))) (List.find (dhas options) (theta_keys text)))"

text \<open>
  The symbols that are bound at all: the keys of the parameters and of the options, and the options'
  keys without their prefix.
\<close>

definition bound_symbols :: "(string, pyval) dict \<Rightarrow> (string, string) dict \<Rightarrow> string set" where
  "bound_symbols payload options =
     (case vget payload ''parameters'' of PDict ps \<Rightarrow> set (dkeys ps) | _ \<Rightarrow> {})
     \<union> set (dkeys options) \<union> (drop 6 ` set (dkeys options)) \<union> (drop 11 ` set (dkeys options))"

lemma bound_symbols_finite: "finite (bound_symbols payload options)"
  by (auto simp: bound_symbols_def split: pyval.splits)

lemma theta_binding_bound:
  assumes "theta_binding payload options text = Some v"
  shows "text \<in> bound_symbols payload options"
proof (cases "\<exists>ps. vget payload ''parameters'' = PDict ps \<and> dget ps text \<noteq> None")
  case True
  then show ?thesis by (auto simp: bound_symbols_def intro: domI simp flip: dom_map_of_conv_image_fst)
next
  case False
  then have "(case vget payload ''parameters'' of PDict ps \<Rightarrow> dget ps text | _ \<Rightarrow> None) = None"
    by (auto split: pyval.splits)
  with assms obtain k where k: "List.find (dhas options) (theta_keys text) = Some k"
    by (auto simp: theta_binding_def)
  then have k_in: "k \<in> set (theta_keys text)" "k \<in> set (dkeys options)"
    by (auto simp: find_Some_iff dhas_iff)
  then consider "k = text" | "drop 6 k = text" | "drop 11 k = text"
    by (auto simp: theta_keys_def)
  then show ?thesis
    using k_in(2) unfolding bound_symbols_def by cases (blast intro: image_eqI)+
qed

text \<open>
  \<open>_resolve_theta_value\<close>: symbols are followed through parameters and options; a symbol that comes up
  again is an error, so the chain ends.
\<close>

function resolve_theta_value ::
  "sim_platform \<Rightarrow> (string, pyval) dict \<Rightarrow> (string, string) dict \<Rightarrow> nat \<Rightarrow> string list \<Rightarrow> pyval \<Rightarrow> py_float dres" where
  "resolve_theta_value sp payload options idx seen v =
     (case v of
        PStr s \<Rightarrow>
          (let text = py_strip s in
           if text = [] then invalid (op_index idx @ '' theta must be numeric'')
           else case sp_parse_float sp text of
             Some x \<Rightarrow> Inr x
           | None \<Rightarrow>
               (if text \<in> set seen then invalid (op_index idx @ '' theta binding is circular: '' @ text)
                else case theta_binding payload options text of
                  Some w \<Rightarrow> resolve_theta_value sp payload options idx (text # seen) w
                | None \<Rightarrow> invalid (op_index idx @ '' theta must be numeric (unresolved symbol: '' @ text @ '')'')))
      | _ \<Rightarrow>
          (if is_int v \<or> is_float v
           then (case sp_number sp v of Some x \<Rightarrow> Inr x | None \<Rightarrow> Inl (DriverPy OverflowError))
           else invalid (op_index idx @ '' theta must be numeric'')))"
  by pat_completeness auto
termination
proof (relation "measure (\<lambda>(sp, payload, options, idx, seen, v). card (bound_symbols payload options - set seen))")
  fix sp payload options idx seen v s sym w
  assume new: "sym \<notin> set seen" and b: "theta_binding payload options sym = Some w"
  have "bound_symbols payload options - set (sym # seen) \<subset> bound_symbols payload options - set seen"
    using theta_binding_bound [OF b] new by auto
  then have "card (bound_symbols payload options - set (sym # seen)) < card (bound_symbols payload options - set seen)"
    by (intro psubset_card_mono) (auto simp: bound_symbols_finite)
  then show "((sp, payload, options, idx, sym # seen, w), sp, payload, options, idx, seen, v)
      \<in> measure (\<lambda>(sp, payload, options, idx, seen, v). card (bound_symbols payload options - set seen))"
    by simp
qed simp

declare resolve_theta_value.simps [simp del]

definition get_theta ::
  "sim_platform \<Rightarrow> (string, pyval) dict \<Rightarrow> (string, string) dict \<Rightarrow> nat \<Rightarrow> (string, pyval) dict \<Rightarrow> py_float dres" where
  "get_theta sp payload options idx op =
     (case vget op ''params'' of
        PDict ps \<Rightarrow>
          (case dget ps ''theta'' of
             None \<Rightarrow> invalid (op_index idx @ '' missing theta'')
           | Some v \<Rightarrow> resolve_theta_value sp payload options idx [] v)
      | _ \<Rightarrow> invalid (op_index idx @ '' missing theta''))"

section \<open>Operations\<close>

type_synonym measure_map = "(nat \<times> nat) list"

text \<open>The classical indices of a measurement, checked one by one as they are appended.\<close>

fun append_measures :: "pyval list \<Rightarrow> pyval list \<Rightarrow> measure_map \<Rightarrow> measure_map dres" where
  "append_measures (q # qs) (c # cs) ms =
     (if int_of c < 0 then invalid ''classical index must be >= 0''
      else append_measures qs cs (ms @ [(nat (int_of q), nat (int_of c))]))"
| "append_measures _ _ ms = Inr ms"

definition run_measure :: "(string, pyval) dict \<Rightarrow> pyval list \<Rightarrow> measure_map \<Rightarrow> measure_map dres" where
  "run_measure op q ms =
     (case vget op ''c'' of
        PList c \<Rightarrow>
          (if length c \<noteq> length q \<or> \<not> list_all is_int c then invalid ''MEASURE requires c[] with same length as q[]''
           else if \<not> distinct (map int_of c) then invalid ''MEASURE c[] must be unique''
           else append_measures q c ms)
      | _ \<Rightarrow> invalid ''MEASURE requires c[] with same length as q[]'')"

type_synonym sim_state = "complex list option \<times> measure_map"

definition run_operation ::
  "sim_platform \<Rightarrow> int \<Rightarrow> (string, pyval) dict \<Rightarrow> (string, string) dict \<Rightarrow> nat \<Rightarrow> pyval \<Rightarrow> sim_state \<Rightarrow> sim_state dres" where
  "run_operation sp qubits payload options idx v st =
     (case v of
        PDict raw \<Rightarrow>
          (let op = op_text sp raw in
           if op \<notin> set SUPPORTED_OPS
           then Inl (DriverError UNIMPLEMENTED (''Unsupported Op: '' @ op @ '' at '' @ op_index idx))
           else case vget raw ''q'' of
             PList q \<Rightarrow>
               (if \<not> list_all is_int q then invalid (op_index idx @ ''.q must be int[]'')
                else if list_ex (\<lambda>i. int_of i < 0 \<or> int_of i \<ge> qubits) q
                then invalid (op_index idx @ '' qubit out of range'')
                else if op \<in> {''RX'', ''RY'', ''RZ''} then
                  (if length q \<noteq> 1 then invalid (op @ '' requires exactly one qubit'')
                   else rbind (get_theta sp payload options idx raw) (\<lambda>theta.
                     rbind (apply_single_qubit_rotation (fst st) (nat (int_of (q ! 0))) op theta) (\<lambda>state.
                       Inr (state, snd st))))
                else if op = ''CX'' then
                  (if length q \<noteq> 2 then invalid ''CX requires exactly two qubits''
                   else rbind (apply_cx (fst st) (nat (int_of (q ! 0))) (nat (int_of (q ! 1)))) (\<lambda>state.
                     Inr (state, snd st)))
                else rbind (run_measure raw q (snd st)) (\<lambda>ms. Inr (fst st, ms)))
           | _ \<Rightarrow> invalid (op_index idx @ ''.q must be int[]''))
      | _ \<Rightarrow> invalid (op_index idx @ '' must be object''))"

fun run_ops ::
  "sim_platform \<Rightarrow> int \<Rightarrow> (string, pyval) dict \<Rightarrow> (string, string) dict \<Rightarrow> nat \<Rightarrow> pyval list \<Rightarrow> sim_state \<Rightarrow> sim_state dres" where
  "run_ops sp qubits payload options idx [] st = Inr st"
| "run_ops sp qubits payload options idx (v # vs) st =
     rbind (run_operation sp qubits payload options idx v st) (run_ops sp qubits payload options (Suc idx) vs)"

definition run_operations ::
  "sim_platform \<Rightarrow> complex list \<Rightarrow> int \<Rightarrow> (string, pyval) dict \<Rightarrow> pyval list \<Rightarrow> (string, string) dict \<Rightarrow> sim_state dres" where
  "run_operations sp state qubits payload operations options =
     rbind (run_ops sp qubits payload options 0 operations (Some state, [])) (\<lambda>(state', measures).
       Inr (state', if measures = [] then map (\<lambda>i. (i, i)) [0..<nat qubits] else measures))"

section \<open>Sampling\<close>

definition cwidth :: "measure_map \<Rightarrow> nat" where
  "cwidth ms = max (foldr (\<lambda>(_, c). max (Suc c)) ms 0) 1"

definition isclose_one :: "real \<Rightarrow> bool" where
  "isclose_one x \<longleftrightarrow> \<bar>x - 1\<bar> \<le> max (1 / 10 ^ 9 * max \<bar>x\<bar> 1) (1 / 10 ^ 9)"

text \<open>\<open>None\<close> where the total is zero and the division raises.\<close>

definition probabilities :: "complex list \<Rightarrow> real list option" where
  "probabilities state =
     (let ps = map (\<lambda>a. (cmod a)\<^sup>2) state; total = sum_list ps
      in if isclose_one total then Some ps
         else if total = 0 then None
         else Some (map (\<lambda>p. p / total) ps))"

text \<open>The classical register after one shot, and its text, most significant bit first.\<close>

definition classical_register :: "nat \<Rightarrow> measure_map \<Rightarrow> nat \<Rightarrow> bool list" where
  "classical_register w ms basis = fold (\<lambda>(q, c) reg. reg[c := bit basis q]) ms (replicate w False)"

definition bitstring :: "bool list \<Rightarrow> string" where
  "bitstring reg = map (\<lambda>b. if b then CHR ''1'' else CHR ''0'') (rev reg)"

text \<open>One shot: the bit string of the drawn basis state is counted.\<close>

definition count_shot :: "(nat \<Rightarrow> nat) \<Rightarrow> measure_map \<Rightarrow> nat \<Rightarrow> (string, int) dict \<Rightarrow> (string, int) dict" where
  "count_shot draw ms k counts =
     (let b = bitstring (classical_register (cwidth ms) ms (draw k))
      in dset b (dget_or counts b 0 + 1) counts)"

definition sample_counts ::
  "sim_platform \<Rightarrow> complex list option \<Rightarrow> int \<Rightarrow> measure_map \<Rightarrow> (string, string) dict \<Rightarrow> ((string, int) dict) dres" where
  "sample_counts sp state shots ms options =
     (if shots \<le> 0 then invalid ''shots must be > 0''
      else case map_option probabilities state of
        Some None \<Rightarrow> Inl (DriverPy ZeroDivisionError)
      | probs \<Rightarrow>
          (case py_int (dget_or options ''seed'' ''0'') of
             None \<Rightarrow> Inl (DriverPy (ValueError ''invalid literal for int()''))
           | Some seed \<Rightarrow>
               (case probs of
                  Some (Some ps) \<Rightarrow> Inr (fold (count_shot (sp_choice sp seed ps) ms) [0..<nat shots] [])
                | _ \<Rightarrow> Inl (DriverPy (ValueError ''Total of weights must be finite'')))))"

section \<open>Expectation values\<close>

definition scalar_term :: "pyval \<Rightarrow> bool" where
  "scalar_term v \<longleftrightarrow> is_int v \<or> is_float v \<or> is_str v"

text \<open>The terms of one observable: \<open>None\<close> where the loop breaks.\<close>

fun normalized_terms :: "(string, pyval) dict \<Rightarrow> (string, pyval) dict \<Rightarrow> (string, pyval) dict option" where
  "normalized_terms [] acc = Some acc"
| "normalized_terms ((k, v) # rest) acc =
     (if scalar_term v \<or> (case v of PList xs \<Rightarrow> list_all is_int xs | _ \<Rightarrow> False)
      then normalized_terms rest (dset (py_upper k) v acc) else None)"

definition observable_terms_from_payload :: "(string, pyval) dict \<Rightarrow> (string, (string, pyval) dict) dict" where
  "observable_terms_from_payload payload =
     (case vget payload ''annotations'' of
        PDict annotations \<Rightarrow>
          (case vget annotations ''observables'' of
             PDict observables \<Rightarrow>
               fold (\<lambda>(name, raw) acc. case raw of
                   PDict terms \<Rightarrow>
                     (case normalized_terms terms [] of
                        Some ts \<Rightarrow> if ts = [] then acc else dset name ts acc
                      | None \<Rightarrow> acc)
                 | _ \<Rightarrow> acc) observables []
           | _ \<Rightarrow> [])
      | _ \<Rightarrow> [])"

text \<open>The target index and the phase of one basis state, over the qubits of the term.\<close>

definition pauli_step :: "string \<Rightarrow> nat \<Rightarrow> nat \<Rightarrow> nat \<times> complex \<Rightarrow> nat \<times> complex" where
  "pauli_step operator basis qubit st =
     (let (target, phase) = st;
          b = bit basis qubit;
          target' = (if operator \<in> {''X'', ''Y''} then flip_bit qubit target else target);
          phase1 = (if operator \<in> {''Z'', ''Y''} \<and> b then - phase else phase);
          phase2 = (if operator = ''Y'' then phase1 * (if \<not> b then \<i> else - \<i>) else phase1)
      in (target', phase2))"

text \<open>One iteration of the loop over the basis states; \<open>state[target]\<close> may be out of range.\<close>

definition pauli_term :: "complex list \<Rightarrow> string \<Rightarrow> nat list \<Rightarrow> nat \<Rightarrow> complex dres" where
  "pauli_term state operator qubits basis =
     (let (target, phase) = fold (pauli_step operator basis) qubits (basis, 1)
      in if target < length state then Inr (cnj (state ! basis) * phase * state ! target) else Inl (DriverPy IndexError))"

text \<open>A negative qubit is a negative shift count, which raises for the first basis state already.\<close>

definition statevector_expectation :: "complex list \<Rightarrow> int list \<Rightarrow> string \<Rightarrow> real dres" where
  "statevector_expectation state qubits operator0 =
     (let operator = py_upper operator0 in
      if qubits = [] \<or> operator \<notin> {''X'', ''Y'', ''Z''} then Inr 0
      else if state \<noteq> [] \<and> list_ex (\<lambda>q. q < 0) qubits then Inl (DriverPy (ValueError ''negative shift count''))
      else rbind (rmap (pauli_term state operator (map nat qubits)) [0..<length state]) (\<lambda>terms.
        Inr (Re (sum_list terms))))"

definition qubit_indices :: "pyval \<Rightarrow> int list option" where
  "qubit_indices v =
     (if is_int v then Some [int_of v]
      else case v of PList xs \<Rightarrow> if list_all is_int xs then Some (map int_of xs) else None | _ \<Rightarrow> None)"

definition add_term :: "complex list \<Rightarrow> string \<times> pyval \<Rightarrow> real \<Rightarrow> real dres" where
  "add_term state entry e =
     (case qubit_indices (snd entry) of
        None \<Rightarrow> Inr e
      | Some qs \<Rightarrow> rbind (statevector_expectation state qs (fst entry)) (\<lambda>x. Inr (e + x)))"

definition energy :: "complex list \<Rightarrow> (string, pyval) dict \<Rightarrow> real dres" where
  "energy state terms = rfold (add_term state) terms 0"

definition expectation_terms :: "(string, pyval) dict \<Rightarrow> (string, pyval) dict option" where
  "expectation_terms payload =
     (case vget payload ''annotations'' of
        PDict annotations \<Rightarrow>
          (case vget annotations ''expectation'' of
             PDict info \<Rightarrow>
               (case vget info ''observable_terms'' of
                  PDict terms \<Rightarrow> Some terms
                | _ \<Rightarrow>
                    (case vget info ''observable_name'' of
                       PStr name \<Rightarrow> dget (observable_terms_from_payload payload) name
                     | _ \<Rightarrow> None))
           | _ \<Rightarrow> None)
      | _ \<Rightarrow> None)"

section \<open>Execution\<close>

definition validate_provider_profile :: "(string, string) dict \<Rightarrow> unit dres" where
  "validate_provider_profile options =
     (let profile = py_lower (py_strip (dget_or options ''provider_profile'' ''simulator'')) in
      if profile \<noteq> ''simulator''
      then Inl (DriverError UNIMPLEMENTED (''Unsupported provider_profile: '' @ profile)) else Inr ())"

definition simulate_error :: "(string, string) dict \<Rightarrow> unit dres" where
  "simulate_error options =
     (let signal = py_upper (dget_or options ''simulate_error'' []) in
      if signal = ''UNAVAILABLE'' then Inl (DriverError UNAVAILABLE ''simulated backend unavailable'')
      else if signal = ''RESOURCE_EXHAUSTED''
      then Inl (DriverError RESOURCE_EXHAUSTED ''simulated backend resource exhausted'')
      else Inr ())"

definition initial_state :: "int \<Rightarrow> complex list" where
  "initial_state qubits = (replicate (2 ^ nat qubits) 0)[0 := 1]"

definition energy_metadata ::
  "sim_platform \<Rightarrow> complex list \<Rightarrow> (string, pyval) dict \<Rightarrow> ((string, string) dict) dres" where
  "energy_metadata sp state payload =
     (case expectation_terms payload of
        None \<Rightarrow> Inr []
      | Some terms \<Rightarrow> rbind (energy state terms) (\<lambda>e. Inr [(''energy'', sp_fmt6 sp e)]))"

text \<open>Sampling raises on a state of NaNs, so the state is there when the energy is computed.\<close>

definition execute_circuit ::
  "sim_platform \<Rightarrow> string \<Rightarrow> int \<Rightarrow> (string, string) dict \<Rightarrow> ((string, int) dict \<times> (string, string) dict) dres" where
  "execute_circuit sp circuit shots options =
     rbind (validate_provider_profile options) (\<lambda>_.
     rbind (simulate_error options) (\<lambda>_.
     rbind (parse_payload sp circuit) (\<lambda>payload.
     rbind (parse_qubits payload) (\<lambda>qubits.
       (case vget payload ''operations'' of
          PList operations \<Rightarrow>
            rbind (run_operations sp (initial_state qubits) qubits payload operations options) (\<lambda>(state, ms).
            rbind (sample_counts sp state shots ms options) (\<lambda>counts.
            rbind (energy_metadata sp (the state) payload) (\<lambda>energy_entry.
              Inr (counts,
                [(''provider_profile'', dget_or options ''provider_profile'' ''simulator''), (''driver'', ''simulator''),
                 (''aqo_version'', case vget payload ''version'' of PStr s \<Rightarrow> s | v \<Rightarrow> sp_str sp v),
                 (''qubits'', show_int qubits), (''shots'', show_int shots),
                 (''bitstring_order'', ''msb_first_by_classical_index'')] @ energy_entry))))
        | _ \<Rightarrow> invalid ''aqo.operations must be a list'')))))"

section \<open>Sessions\<close>

definition session_key :: "sim_platform \<Rightarrow> string \<Rightarrow> (string, string) dict \<Rightarrow> (string, string) dict \<Rightarrow> (string, string) dict \<times> string" where
  "session_key sp device options sess =
     (let payload = PDict [(''device_id'', PStr device), (''options'', PDict (map (\<lambda>(k, v). (k, PStr v)) options))];
          key = ''session://simulator/'' @ take 24 (sp_sha256 sp (canonical_text payload))
      in (if dhas sess key then sess else dset key ''created'' sess, key))"

definition refresh_session :: "string \<Rightarrow> (string, string) dict \<Rightarrow> ((string, string) dict) dres" where
  "refresh_session key sess =
     (if \<not> dhas sess key then Inl (DriverError FAILED_PRECONDITION (''unknown session: '' @ key))
      else Inr (dset key ''active'' sess))"

definition close_session :: "string \<Rightarrow> (string, string) dict \<Rightarrow> (string, string) dict" where
  "close_session key sess = (if dhas sess key then dset key ''closed'' sess else sess)"

section \<open>What the driver says of itself\<close>

definition simulator_handshake :: driver_capabilities where
  "simulator_handshake =
     \<lparr>driver_api_version = ''1.0'', features = [(''execution'', ''aqo_json''), (''backend_type'', ''simulator'')]\<rparr>"

definition simulator_healthcheck :: driver_health where
  "simulator_healthcheck = \<lparr>ready = True, reason = [], details = [(''driver'', ''simulator'')]\<rparr>"

definition simulator_device :: "string \<Rightarrow> string \<Rightarrow> device" where
  "simulator_device i name =
     \<lparr>device_id = i, device_name = name, backend_type = ''simulator'',
      capabilities = Some [(''formats'', ''AQO_JSON''), (''ops'', ''RX,RY,RZ,CX,MEASURE''),
        (''bitstring_order'', ''msb_first_by_classical_index'')]\<rparr>"

definition simulator_devices :: "device list" where
  "simulator_devices =
     [simulator_device ''cluster:auto'' ''Auto-dispatched distributed simulator'',
      simulator_device ''sim:local'' ''Local AQO simulator'',
      simulator_device ''runtime:deterministic'' ''Deterministic replay runtime'']"

definition calibrate_device :: "string \<Rightarrow> string" where
  "calibrate_device i = ''calib://simulator/'' @ i"

end
