(* ===== verification/StateVector.thy ===== *)
theory StateVector
  imports Simulator
begin

text \<open>
  What the loops of the simulator compute: the gates as linear maps on the amplitudes, the norm of the
  state, the outcome of a run, and the counts.
\<close>

section \<open>Bits of basis states\<close>

lemma add_exp_flip: "\<not> bit i t \<Longrightarrow> i + 2 ^ t = flip_bit t i" for i :: nat
  by (simp add: flip_bit_eq_if set_bit_eq)

lemma flip_flip [simp]: "flip_bit t (flip_bit t i) = i" for i :: nat
  by (rule bit_eqI) (auto simp: bit_simps)

lemma bit_flip [simp]: "bit (flip_bit t i) k \<longleftrightarrow> (if k = t then \<not> bit i k else bit i k)" for i :: nat
  by (auto simp: bit_simps)

lemma flip_less: "i < 2 ^ n \<Longrightarrow> t < n \<Longrightarrow> flip_bit t i < 2 ^ n" for i :: nat
  by (metis linorder_not_le take_bit_flip_bit_eq take_bit_nat_eq_self_iff)

lemma flip_eq_iff: "flip_bit t i = j \<longleftrightarrow> i = flip_bit t j" for i j :: nat
  by auto

section \<open>Rotations\<close>

text \<open>The indices the two loops visit are those of the basis states whose target bit is 0, each once.\<close>

definition loop_indices :: "nat \<Rightarrow> nat \<Rightarrow> nat list" where
  "loop_indices n t = concat (map (\<lambda>base. map ((+) base) [0..<2 ^ t]) (range_step n (2 * 2 ^ t)))"

lemma rotate_loops_fold: "rotate_loops m t state = fold (rotate_pair m (2 ^ t)) (loop_indices (length state) t) state"
proof -
  have "fold (rotate_pair m (2 ^ t)) (concat (map (\<lambda>base. map ((+) base) [0..<2 ^ t]) bs)) s
      = fold (\<lambda>base. fold (\<lambda>offset. rotate_pair m (2 ^ t) (base + offset)) [0..<2 ^ t]) bs s" for bs s
    by (induction bs arbitrary: s) (simp_all add: fold_map comp_def)
  then show ?thesis by (simp add: rotate_loops_def loop_indices_def Let_def)
qed

lemma exp_split: "t < n \<Longrightarrow> (2::nat) ^ n = 2 ^ (n - Suc t) * (2 * 2 ^ t)"
  using power_add [of "2::nat" "n - Suc t" "Suc t"] by simp

lemma ceil_div: "0 < s \<Longrightarrow> (k * s + s - 1) div s = k" for k s :: nat
proof -
  assume "0 < s"
  then have "k * s + s - 1 = s - 1 + k * s" by simp
  moreover have "(s - 1 + k * s) div s = k" using \<open>0 < s\<close> by (subst div_mult_self1) auto
  ultimately show ?thesis by (simp only:)
qed

lemma range_step_exp:
  assumes "t < n"
  shows "range_step (2 ^ n) (2 * 2 ^ t) = map (\<lambda>k. k * (2 * 2 ^ t)) [0..<2 ^ (n - Suc t)]"
proof -
  have "(2 ^ n + 2 * 2 ^ t - 1) div (2 * 2 ^ t) = (2 ^ (n - Suc t) :: nat)"
    unfolding exp_split [OF assms] by (rule ceil_div) simp
  then show ?thesis by (simp add: range_step_def)
qed

lemma loop_indices_product:
  assumes "t < n"
  shows "loop_indices (2 ^ n) t = map (\<lambda>(k, j). k * (2 * 2 ^ t) + j) (List.product [0..<2 ^ (n - Suc t)] [0..<2 ^ t])"
proof -
  have "concat (map (\<lambda>base. map ((+) base) ys) (map (\<lambda>k. k * s) xs)) = map (\<lambda>(k, j). k * s + j) (List.product xs ys)"
    for s :: nat and xs ys
    by (induction xs) (simp_all add: comp_def)
  then show ?thesis using range_step_exp [OF assms] by (simp add: loop_indices_def)
qed

lemma distinct_loop_indices: "t < n \<Longrightarrow> distinct (loop_indices (2 ^ n) t)"
proof -
  have "inj_on (\<lambda>(k, j). k * (2 * 2 ^ t) + j) (A \<times> {0..<2 ^ t})" for A :: "nat set"
  proof (rule inj_onI, clarify)
    fix k j k' j' :: nat assume "j \<in> {0..<2 ^ t}" "j' \<in> {0..<2 ^ t}" and eq: "k * (2 * 2 ^ t) + j = k' * (2 * 2 ^ t) + j'"
    moreover have "(a * (2 * 2 ^ t) + b) div (2 * 2 ^ t) = a" if "b \<in> {0..<2 ^ t}" for a b :: nat
      using that by (intro div_nat_eqI) auto
    ultimately have "k = k'" by metis
    then show "k = k' \<and> j = j'" using eq by simp
  qed
  then show "t < n \<Longrightarrow> distinct (loop_indices (2 ^ n) t)"
    by (simp add: loop_indices_product distinct_map distinct_product)
qed

lemma set_loop_indices:
  assumes "t < n"
  shows "set (loop_indices (2 ^ n) t) = {i. i < 2 ^ n \<and> \<not> bit i t}"
proof -
  note split = exp_split [OF assms]
  have "i \<in> (\<lambda>(k, j). k * (2 * 2 ^ t) + j) ` ({0..<2 ^ (n - Suc t)} \<times> {0..<2 ^ t}) \<longleftrightarrow> i < 2 ^ n \<and> \<not> bit i t" (is "?L \<longleftrightarrow> ?R") for i :: nat
  proof
    assume ?L
    then obtain k j where kj: "k < 2 ^ (n - Suc t)" "j < 2 ^ t" "i = k * (2 * 2 ^ t) + j" by auto
    then have "i div 2 ^ t = 2 * k" by (auto intro!: div_nat_eqI)
    moreover have "i < Suc k * (2 * 2 ^ t)" using kj by simp
    moreover have "Suc k * (2 * 2 ^ t) \<le> 2 ^ n" unfolding split using kj(1) by (intro mult_right_mono) auto
    ultimately show ?R by (simp add: bit_iff_odd)
  next
    assume R: ?R
    then obtain k where k: "i div 2 ^ t = 2 * k" by (auto simp: bit_iff_odd)
    then have "i = k * (2 * 2 ^ t) + i mod 2 ^ t" by (metis div_mult_mod_eq mult.assoc mult.commute)
    moreover have "k < 2 ^ (n - Suc t)"
      using R calculation unfolding split by (metis add_lessD1 mult_less_cancel2)
    ultimately show ?L by (intro image_eqI [of _ _ "(k, i mod 2 ^ t)"]) auto
  qed
  then show ?thesis by (simp add: loop_indices_product [OF assms] set_eq_iff del: image_iff)
qed

text \<open>The pairs do not overlap, so each amplitude is written once and from the amplitudes before the gate.\<close>

lemma length_rotate_pairs [simp]: "length (fold (rotate_pair m s) is state) = length state"
  by (induction "is" arbitrary: state) (auto simp: rotate_pair_def Let_def split: prod.splits)

lemma rotate_pairs_nth:
  assumes "distinct is" "\<forall>i\<in>set is. i + s < length state" "\<forall>i\<in>set is. \<forall>j\<in>set is. i \<noteq> j + s" "0 < s" "k < length state"
  shows "fold (rotate_pair (m00, m01, m10, m11) s) is state ! k =
    (if k \<in> set is then m00 * state ! k + m01 * state ! (k + s)
     else if s \<le> k \<and> k - s \<in> set is then m10 * state ! (k - s) + m11 * state ! k
     else state ! k)"
  using assms
proof (induction "is" arbitrary: state)
  case (Cons i "is")
  let ?st = "rotate_pair (m00, m01, m10, m11) s i state"
  have at: "?st ! j = (if j = i then m00 * state ! i + m01 * state ! (i + s)
      else if j = i + s then m10 * state ! i + m11 * state ! (i + s) else state ! j)" for j
    using Cons.prems by (auto simp: rotate_pair_def Let_def nth_list_update)
  have len: "length ?st = length state" by (simp add: rotate_pair_def Let_def)
  have IH: "fold (rotate_pair (m00, m01, m10, m11) s) is ?st ! k =
    (if k \<in> set is then m00 * ?st ! k + m01 * ?st ! (k + s)
     else if s \<le> k \<and> k - s \<in> set is then m10 * ?st ! (k - s) + m11 * ?st ! k
     else ?st ! k)"
    using Cons.prems by (intro Cons.IH) (auto simp: len)
  have off: "j \<noteq> i" "j \<noteq> i + s" "j + s \<noteq> i" if "j \<in> set is" for j
    using that Cons.prems by fastforce+
  have ii: "i \<noteq> i + s" "i + s \<notin> set is" using off \<open>0 < s\<close> by auto
  show ?case
  proof (cases "k \<in> set is")
    case True
    then show ?thesis using IH off [OF True] by (simp add: at)
  next
    case False
    then show ?thesis
      using IH off [of "k - s"] ii Cons.prems by (auto simp: at)
  qed
qed simp

text \<open>The gate as a linear map: each amplitude becomes a combination of itself and of its partner.\<close>

lemma rotate_loops_nth:
  assumes "length state = 2 ^ n" "t < n" "i < 2 ^ n"
  shows "rotate_loops (m00, m01, m10, m11) t state ! i =
    (if bit i t then m10 * state ! flip_bit t i + m11 * state ! i
     else m00 * state ! i + m01 * state ! flip_bit t i)"
proof -
  let ?is = "loop_indices (2 ^ n) t"
  have mem: "j \<in> set ?is \<longleftrightarrow> j < 2 ^ n \<and> \<not> bit j t" for j using set_loop_indices [OF assms(2)] by auto
  have sum: "j + 2 ^ t = flip_bit t j" if "j \<in> set ?is" for j
    using that by (simp add: mem add_exp_flip)
  have "rotate_loops (m00, m01, m10, m11) t state ! i =
    (if i \<in> set ?is then m00 * state ! i + m01 * state ! (i + 2 ^ t)
     else if 2 ^ t \<le> i \<and> i - 2 ^ t \<in> set ?is then m10 * state ! (i - 2 ^ t) + m11 * state ! i
     else state ! i)"
    unfolding rotate_loops_fold assms(1)
  proof (rule rotate_pairs_nth)
    show "distinct ?is" by (rule distinct_loop_indices [OF assms(2)])
    show "\<forall>i\<in>set ?is. i + 2 ^ t < length state"
      using flip_less [OF _ assms(2)] sum by (simp add: mem assms(1))
    show "\<forall>i\<in>set ?is. \<forall>j\<in>set ?is. i \<noteq> j + 2 ^ t" using sum by (auto simp: mem)
  qed (use assms in auto)
  moreover have "2 ^ t \<le> i \<and> i - 2 ^ t \<in> set ?is \<and> i - 2 ^ t = flip_bit t i" if "bit i t"
  proof -
    have "flip_bit t i \<in> set ?is" using that flip_less [OF assms(3,2)] by (simp add: mem)
    then have "flip_bit t i + 2 ^ t = i" using sum by fastforce
    then show ?thesis using \<open>flip_bit t i \<in> set ?is\<close> by (metis add_diff_cancel_right' le_add2)
  qed
  ultimately show ?thesis using assms(3) add_exp_flip by (auto simp: mem)
qed

lemma length_rotate_loops [simp]: "length (rotate_loops m t state) = length state"
  by (simp add: rotate_loops_fold)

section \<open>The norm of a state\<close>

definition norm2 :: "complex list \<Rightarrow> real" where
  "norm2 state = sum_list (map (\<lambda>a. (cmod a)\<^sup>2) state)"

lemma sum_list_update: "k < length xs \<Longrightarrow> sum_list (xs[k := x]) = sum_list xs + x - xs ! k" for xs :: "real list"
  by (induction xs arbitrary: k) (auto split: nat.splits)

definition unitary :: "complex \<times> complex \<times> complex \<times> complex \<Rightarrow> bool" where
  "unitary m = (case m of (m00, m01, m10, m11) \<Rightarrow>
     \<forall>a b. (cmod (m00 * a + m01 * b))\<^sup>2 + (cmod (m10 * a + m11 * b))\<^sup>2 = (cmod a)\<^sup>2 + (cmod b)\<^sup>2)"

lemma norm2_rotate_pair:
  assumes "unitary m" "i + s < length state" "0 < s"
  shows "norm2 (rotate_pair m s i state) = norm2 state"
proof -
  obtain m00 m01 m10 m11 where m: "m = (m00, m01, m10, m11)" by (cases m)
  have "(cmod (m00 * state ! i + m01 * state ! (i + s)))\<^sup>2 + (cmod (m10 * state ! i + m11 * state ! (i + s)))\<^sup>2
      = (cmod (state ! i))\<^sup>2 + (cmod (state ! (i + s)))\<^sup>2"
    using assms(1) by (simp add: unitary_def m)
  then show ?thesis
    using assms(2,3) by (simp add: m norm2_def rotate_pair_def Let_def map_update sum_list_update)
qed

lemma norm2_rotate_loops:
  assumes "unitary m" "length state = 2 ^ n" "t < n"
  shows "norm2 (rotate_loops m t state) = norm2 state"
proof -
  have "norm2 (fold (rotate_pair m (2 ^ t)) is s) = norm2 s"
    if "\<forall>i\<in>set is. i + 2 ^ t < length s" for "is" s
    using that
  proof (induction "is" arbitrary: s)
    case (Cons i "is")
    have "length (rotate_pair m (2 ^ t) i s) = length s"
      using length_rotate_pairs [of m "2 ^ t" "[i]" s] by simp
    then show ?case using Cons norm2_rotate_pair [OF assms(1), of i "2 ^ t" s] by simp
  qed simp
  moreover have "\<forall>i\<in>set (loop_indices (length state) t). i + 2 ^ t < length state"
    using flip_less [OF _ assms(3)] by (auto simp: set_loop_indices [OF assms(3)] assms(2) add_exp_flip)
  ultimately show ?thesis by (simp add: rotate_loops_fold)
qed

lemma rotation_unitary:
  assumes "rotation_matrix op x = Some m" shows "unitary m"
proof -
  have sc: "(sin (x / 2))\<^sup>2 = 1 - (cos (x / 2))\<^sup>2" by (simp add: sin_squared_eq)
  consider "m = (complex_of_real (cos (x / 2)), - \<i> * complex_of_real (sin (x / 2)), - \<i> * complex_of_real (sin (x / 2)), complex_of_real (cos (x / 2)))"
    | "m = (complex_of_real (cos (x / 2)), - complex_of_real (sin (x / 2)), complex_of_real (sin (x / 2)), complex_of_real (cos (x / 2)))"
    | "m = (cis (- x / 2), 0, 0, cis (x / 2))"
    using assms by (auto simp: rotation_matrix_def Let_def split: if_splits)
  then show ?thesis
  proof cases
    case 1
    show ?thesis by (simp add: 1 unitary_def cmod_power2) (intro allI, insert sc, algebra)
  next
    case 2
    show ?thesis by (simp add: 2 unitary_def cmod_power2) (intro allI, insert sc, algebra)
  next
    case 3
    then show ?thesis by (simp add: unitary_def norm_mult)
  qed
qed

section \<open>Controlled not\<close>

lemma cx_step_length [simp]: "length (cx_step c t i state) = length state"
  by (simp add: cx_step_def)

lemma length_cx_fold [simp]: "length (fold (cx_step c t) is state) = length state"
  by (induction "is" arbitrary: state) auto

lemma length_cx_loop [simp]: "length (cx_loop c t state) = length state"
  by (simp add: cx_loop_def)

lemma unset_less_iff: "bit i t \<Longrightarrow> flip_bit t i < i" for i :: nat
  using add_exp_flip [of "flip_bit t i" t] by (metis bit_flip flip_flip less_add_same_cancel1 zero_less_numeral zero_less_power)

text \<open>After k iterations exactly the pairs whose lower index is below k are swapped.\<close>

lemma cx_prefix_nth:
  assumes "length state = 2 ^ n" "t < n" "c \<noteq> t" "k \<le> 2 ^ n" "i < 2 ^ n"
  shows "fold (cx_step c t) [0..<k] state ! i =
    (if bit i c \<and> (if bit i t then flip_bit t i else i) < k then state ! flip_bit t i else state ! i)"
  using assms(4,5)
proof (induction k arbitrary: i)
  case (Suc k)
  let ?st = "fold (cx_step c t) [0..<k] state"
  have IH: "?st ! j = (if bit j c \<and> (if bit j t then flip_bit t j else j) < k then state ! flip_bit t j else state ! j)"
    if "j < 2 ^ n" for j using Suc.IH that Suc.prems by simp
  have set: "set_bit t k = flip_bit t k" if "\<not> bit k t" using that by (simp add: flip_bit_eq_if)
  have kn: "k < 2 ^ n" using Suc.prems by simp
  have fk: "flip_bit t k < 2 ^ n" using flip_less [OF kn assms(2)] .
  have up: "\<not> bit j t \<Longrightarrow> j < flip_bit t j" for j :: nat
    using unset_less_iff [of "flip_bit t j" t] by simp
  show ?case
  proof (cases "bit k c \<and> \<not> bit k t")
    case True
    have "fold (cx_step c t) [0..<Suc k] state ! i =
      (if i = flip_bit t k then ?st ! k else if i = k then ?st ! flip_bit t k else ?st ! i)"
      using True Suc.prems kn fk assms(1) up [of k] by (auto simp: cx_step_def set nth_list_update)
    moreover have "?st ! k = state ! k" "?st ! flip_bit t k = state ! flip_bit t k"
      using IH [OF kn] IH [OF fk] True assms(3) by auto
    moreover have "i = flip_bit t k \<Longrightarrow> bit i t \<and> bit i c \<and> flip_bit t i = k" using True assms(3) by auto
    moreover have "(if bit i t then flip_bit t i else i) < Suc k \<longleftrightarrow> (if bit i t then flip_bit t i else i) < k"
      if "i \<noteq> k" "i \<noteq> flip_bit t k" using that by (auto simp: less_Suc_eq)
    ultimately show ?thesis using IH [OF Suc.prems(2)] True by (cases "i = k"; cases "i = flip_bit t k") auto
  next
    case False
    then have "fold (cx_step c t) [0..<Suc k] state ! i = ?st ! i" by (auto simp: cx_step_def)
    moreover have "bit i c \<Longrightarrow> (if bit i t then flip_bit t i else i) \<noteq> k" using False assms(3) by auto
    ultimately show ?thesis using IH [OF Suc.prems(2)] by (auto simp: less_Suc_eq)
  qed
qed simp

lemma cx_loop_nth:
  assumes "length state = 2 ^ n" "t < n" "c \<noteq> t" "i < 2 ^ n"
  shows "cx_loop c t state ! i = (if bit i c then state ! flip_bit t i else state ! i)"
  using cx_prefix_nth [OF assms(1-3), of "2 ^ n" i] assms(4) flip_less [OF assms(4,2)]
  by (simp add: cx_loop_def assms(1))

lemma cx_loop_involution:
  assumes "length state = 2 ^ n" "t < n" "c \<noteq> t"
  shows "cx_loop c t (cx_loop c t state) = state"
proof (rule nth_equalityI)
  fix i assume i: "i < length (cx_loop c t (cx_loop c t state))"
  then show "cx_loop c t (cx_loop c t state) ! i = state ! i"
    using assms flip_less [of i n t] by (simp add: cx_loop_nth [of _ n])
qed simp

lemma mset_cx_fold:
  "length state = 2 ^ n \<Longrightarrow> t < n \<Longrightarrow> \<forall>i\<in>set is. i < 2 ^ n \<Longrightarrow> mset (fold (cx_step c t) is state) = mset state"
proof (induction "is" arbitrary: state)
  case (Cons i "is")
  have "mset (cx_step c t i state) = mset state"
    using Cons.prems flip_less [of i n t] mset_swap [of "flip_bit t i" state i]
    by (auto simp: cx_step_def flip_bit_eq_if)
  then show ?case using Cons by simp
qed simp

lemma norm2_cx_loop:
  assumes "length state = 2 ^ n" "t < n"
  shows "norm2 (cx_loop c t state) = norm2 state"
proof -
  have "mset (cx_loop c t state) = mset state" using assms by (simp add: cx_loop_def mset_cx_fold)
  then have "mset (map (\<lambda>a. (cmod a)\<^sup>2) (cx_loop c t state)) = mset (map (\<lambda>a. (cmod a)\<^sup>2) state)" by simp
  then show ?thesis unfolding norm2_def by (metis sum_mset_sum_list)
qed

end
