(* ===== verification/SimulatorRuns.thy ===== *)
theory SimulatorRuns
  imports StateVector
begin

text \<open>
  Runs of the simulator: what every operation keeps of the state, when a run returns, the angle a
  symbol stands for, and the histogram the sampling builds.
\<close>

section \<open>Runs keep the norm\<close>

definition normalized :: "nat \<Rightarrow> complex list option \<Rightarrow> bool" where
  "normalized n st \<longleftrightarrow> (\<forall>s. st = Some s \<longrightarrow> length s = 2 ^ n \<and> norm2 s = 1)"

definition measures_below :: "nat \<Rightarrow> measure_map \<Rightarrow> bool" where
  "measures_below n ms \<longleftrightarrow> (\<forall>(q, c)\<in>set ms. q < n)"

lemma rotation_normalized:
  "normalized n st \<Longrightarrow> t < n \<Longrightarrow> apply_single_qubit_rotation st t op theta = Inr st' \<Longrightarrow> normalized n st'"
  using rotation_unitary norm2_rotate_loops
  by (cases theta; cases st) (auto simp: normalized_def apply_single_qubit_rotation_def split: option.splits if_splits)

lemma cx_normalized:
  "normalized n st \<Longrightarrow> t < n \<Longrightarrow> apply_cx st c t = Inr st' \<Longrightarrow> normalized n st'"
  using norm2_cx_loop by (cases st) (auto simp: normalized_def apply_cx_def split: if_splits)

lemma append_measures_below:
  "append_measures q c ms = Inr ms' \<Longrightarrow> measures_below n ms \<Longrightarrow> \<forall>i\<in>set q. 0 \<le> int_of i \<and> int_of i < int n
   \<Longrightarrow> measures_below n ms'"
  by (induction q c ms rule: append_measures.induct) (auto simp: measures_below_def split: if_splits)

text \<open>The guards every operation shares, and then one case per kind of operation.\<close>

definition operand_ok :: "int \<Rightarrow> pyval list \<Rightarrow> bool" where
  "operand_ok qubits q \<longleftrightarrow> list_all is_int q \<and> (\<forall>i\<in>set q. 0 \<le> int_of i \<and> int_of i < qubits)"

lemma run_operation_cases:
  assumes "run_operation sp qubits payload options idx v st = Inr st'"
  obtains (rotation) raw q theta where "v = PDict raw" "op_text sp raw \<in> {''RX'', ''RY'', ''RZ''}" "vget raw ''q'' = PList [q]"
      "operand_ok qubits [q]" "get_theta sp payload options idx raw = Inr theta"
      "apply_single_qubit_rotation (fst st) (nat (int_of q)) (op_text sp raw) theta = Inr (fst st')" "snd st' = snd st"
  | (cx) raw c t where "v = PDict raw" "op_text sp raw = ''CX''" "vget raw ''q'' = PList [c, t]" "operand_ok qubits [c, t]"
      "apply_cx (fst st) (nat (int_of c)) (nat (int_of t)) = Inr (fst st')" "snd st' = snd st"
  | (measurement) raw q where "v = PDict raw" "op_text sp raw = ''MEASURE''" "vget raw ''q'' = PList q" "operand_ok qubits q"
      "run_measure raw q (snd st) = Inr (snd st')" "fst st' = fst st"
proof -
  obtain raw where raw: "v = PDict raw" using assms by (cases v) (auto simp: run_operation_def)
  have op: "op_text sp raw \<in> set SUPPORTED_OPS"
    by (rule ccontr) (use assms raw in \<open>simp add: run_operation_def Let_def\<close>)
  obtain q where q: "vget raw ''q'' = PList q"
    by (cases "vget raw ''q''") (use assms raw op in \<open>auto simp: run_operation_def Let_def\<close>)
  note run = assms [unfolded run_operation_def raw pyval.case Let_def q, simplified op]
  have ok1: "list_all is_int q" using run by (metis sum.distinct(1))
  have ok2: "\<not> list_ex (\<lambda>i. int_of i < 0 \<or> qubits \<le> int_of i) q"
    using run ok1 by (metis sum.distinct(1))
  note ok = ok1 ok2
  have "operand_ok qubits q" using ok by (auto simp: operand_ok_def list_ex_iff)
  note v = raw q this
  consider "op_text sp raw \<in> {''RX'', ''RY'', ''RZ''}" | "op_text sp raw = ''CX''" | "op_text sp raw = ''MEASURE''"
    using op by (auto simp: SUPPORTED_OPS_def)
  then show ?thesis
  proof cases
    case 1
    then have "length q = 1" using run op ok by (auto split: if_splits)
    then obtain i where "q = [i]" by (auto simp: length_Suc_conv)
    moreover from this obtain theta where "get_theta sp payload options idx raw = Inr theta"
      "apply_single_qubit_rotation (fst st) (nat (int_of i)) (op_text sp raw) theta = Inr (fst st')" "snd st' = snd st"
      using 1 run op ok by (auto simp: rbind_eq_Inr)
    ultimately show ?thesis using 1 v by (intro rotation) auto
  next
    case 2
    then have "length q = 2" using run op ok by (auto split: if_splits)
    then obtain i j where "q = [i, j]" by (auto simp: length_Suc_conv numeral_2_eq_2)
    then show ?thesis using 2 run op ok v by (intro cx) (auto simp: rbind_eq_Inr)
  next
    case 3
    then show ?thesis using run op ok v by (intro measurement) (auto simp: rbind_eq_Inr)
  qed
qed

definition run_inv :: "nat \<Rightarrow> sim_state \<Rightarrow> bool" where
  "run_inv n st \<longleftrightarrow> normalized n (fst st) \<and> measures_below n (snd st)"

lemma run_operation_inv:
  assumes "run_inv (nat qubits) st" "run_operation sp qubits payload options idx v st = Inr st'"
  shows "run_inv (nat qubits) st'"
  using assms(2)
proof (cases rule: run_operation_cases)
  case (rotation raw q theta)
  then have "nat (int_of q) < nat qubits" by (auto simp: operand_ok_def)
  then show ?thesis using rotation assms(1) rotation_normalized [OF _ _ rotation(6)] by (simp add: run_inv_def)
next
  case (cx raw c t)
  then have "nat (int_of t) < nat qubits" by (auto simp: operand_ok_def)
  then show ?thesis using cx assms(1) cx_normalized [OF _ _ cx(5)] by (simp add: run_inv_def)
next
  case (measurement raw q)
  then obtain c where "append_measures q c (snd st) = Inr (snd st')"
    by (auto simp: run_measure_def split: pyval.splits if_splits)
  then show ?thesis using measurement assms(1) append_measures_below
    by (fastforce simp: run_inv_def operand_ok_def)
qed

lemma run_ops_inv:
  "run_ops sp qubits payload options idx vs st = Inr st' \<Longrightarrow> run_inv (nat qubits) st \<Longrightarrow> run_inv (nat qubits) st'"
proof (induction vs arbitrary: idx st)
  case (Cons v vs)
  then obtain mid where "run_operation sp qubits payload options idx v st = Inr mid"
    "run_ops sp qubits payload options (Suc idx) vs mid = Inr st'"
    by (auto simp: rbind_eq_Inr simp del: split_paired_Ex split_paired_All)
  with Cons show ?case by (blast intro: run_operation_inv)
qed simp

lemma norm2_initial: "length (initial_state qubits) = 2 ^ nat qubits" "norm2 (initial_state qubits) = 1"
  by (simp_all add: initial_state_def norm2_def map_update sum_list_update sum_list_replicate)

lemma run_operations_inv:
  assumes "run_operations sp (initial_state qubits) qubits payload operations options = Inr (st, ms)"
  shows "run_inv (nat qubits) (st, ms)"
proof -
  obtain ms0 where run: "run_ops sp qubits payload options 0 operations (Some (initial_state qubits), []) = Inr (st, ms0)"
    and ms: "ms = (if ms0 = [] then map (\<lambda>i. (i, i)) [0..<nat qubits] else ms0)"
    using assms by (auto simp: run_operations_def rbind_eq_Inr)
  have "run_inv (nat qubits) (Some (initial_state qubits), [])"
    by (simp add: run_inv_def normalized_def measures_below_def norm2_initial)
  with run_ops_inv [OF run] show ?thesis by (auto simp: ms run_inv_def measures_below_def)
qed

lemma isclose_one_one [simp]: "isclose_one 1" by (simp add: isclose_one_def)

lemma probabilities_normalized: "norm2 s = 1 \<Longrightarrow> probabilities s = Some (map (\<lambda>a. (cmod a)\<^sup>2) s)"
  by (simp add: probabilities_def norm2_def Let_def)

section \<open>Counts\<close>

lemma fold_upt_Suc: "fold f [0..<Suc k] s = f k (fold f [0..<k] s)"
  by simp

definition shot_text :: "(nat \<Rightarrow> nat) \<Rightarrow> measure_map \<Rightarrow> nat \<Rightarrow> string" where
  "shot_text draw ms k = bitstring (classical_register (cwidth ms) ms (draw k))"

text \<open>The dictionary is the histogram of the bit strings drawn.\<close>

lemma count_shots_histogram:
  "dget_or (fold (count_shot draw ms) [0..<k] []) b 0 = int (length (filter (\<lambda>j. shot_text draw ms j = b) [0..<k]))"
  by (induction k) (auto simp: count_shot_def shot_text_def dget_or_def Let_def)

lemma sum_dset:
  "wf_dict d \<Longrightarrow> sum_list (dvalues (dset k (dget_or d k 0 + 1) d)) = sum_list (dvalues d) + (1::int)"
proof (induction d)
  case (Cons x d)
  obtain k' v where x: "x = (k', v)" by fastforce
  with Cons show ?case by (cases "k = k'") (auto simp: dget_or_def)
qed (simp add: dget_or_def)

lemma count_shots_total:
  "wf_dict (fold (count_shot draw ms) [0..<k] []) \<and> sum_list (dvalues (fold (count_shot draw ms) [0..<k] [])) = int k"
  by (induction k) (auto simp: count_shot_def Let_def sum_dset distinct_update)

lemma length_register_fold: "length (fold (\<lambda>(q, c) reg. reg[c := bit basis q]) ms reg) = length reg"
  by (induction ms arbitrary: reg) auto

lemma shot_text_shape:
  "length (shot_text draw ms k) = cwidth ms" "set (shot_text draw ms k) \<subseteq> {CHR ''0'', CHR ''1''}"
  by (auto simp: shot_text_def bitstring_def classical_register_def length_register_fold)

lemma count_shots_keys: "b \<in> set (dkeys (fold (count_shot draw ms) [0..<k] [])) \<Longrightarrow> \<exists>j<k. b = shot_text draw ms j"
proof (induction k)
  case (Suc k)
  then show ?case by (auto simp: count_shot_def shot_text_def Let_def dom_update image_iff less_Suc_eq)
qed simp

lemma cwidth_bound: "(q, c) \<in> set ms \<Longrightarrow> c < cwidth ms"
proof -
  have "(q, c) \<in> set ms \<Longrightarrow> c < foldr (\<lambda>(_, c). max (Suc c)) ms 0"
    by (induction ms) auto
  then show "(q, c) \<in> set ms \<Longrightarrow> c < cwidth ms" by (simp add: cwidth_def less_max_iff_disj)
qed

lemma register_other: "c \<notin> snd ` set ms \<Longrightarrow> fold (\<lambda>(q, c) reg. reg[c := bit basis q]) ms reg ! c = reg ! c"
  by (induction ms arbitrary: reg) (auto simp: split: prod.splits)

lemma register_nth:
  "distinct (map snd ms) \<Longrightarrow> (q, c) \<in> set ms \<Longrightarrow> c < length reg \<Longrightarrow>
   fold (\<lambda>(q, c) reg. reg[c := bit basis q]) ms reg ! c = bit basis q"
proof (induction ms arbitrary: reg)
  case (Cons m ms)
  obtain q' c' where m: "m = (q', c')" by fastforce
  show ?case
  proof (cases "(q, c) \<in> set ms")
    case True
    then show ?thesis using Cons by (simp add: m)
  next
    case False
    then have "q = q'" "c = c'" "c \<notin> snd ` set ms" using Cons.prems by (auto simp: m)
    then show ?thesis using Cons.prems register_other [of c ms basis "reg[c := bit basis q]"] by (simp add: m)
  qed
qed simp

text \<open>Measured bits appear most significant first, by classical index.\<close>

lemma shot_text_nth:
  assumes "distinct (map snd ms)" "(q, c) \<in> set ms"
  shows "shot_text draw ms k ! (cwidth ms - Suc c) = (if bit (draw k) q then CHR ''1'' else CHR ''0'')"
proof -
  have "c < cwidth ms" using assms(2) by (rule cwidth_bound)
  then show ?thesis
    using register_nth [OF assms, of "replicate (cwidth ms) False" "draw k"]
    by (simp add: shot_text_def bitstring_def classical_register_def length_register_fold rev_nth)
qed

section \<open>Expectation values\<close>

lemma rmap_all_Inr: "(\<And>x. x \<in> set xs \<Longrightarrow> f x = Inr (g x)) \<Longrightarrow> rmap f xs = Inr (map g xs)"
  by (induction xs) auto

lemma pauli_term_single:
  assumes "length state = 2 ^ n" "q < n" "basis < 2 ^ n"
  shows "pauli_term state ''Y'' [q] basis = Inr (cnj (state ! basis) * \<i> * state ! flip_bit q basis)"
    and "pauli_term state ''X'' [q] basis = Inr (cnj (state ! basis) * state ! flip_bit q basis)"
    and "pauli_term state ''Z'' [q] basis = Inr ((if bit basis q then - 1 else 1) * (cmod (state ! basis))\<^sup>2)"
  using assms flip_less [of basis n q]
  by (auto simp: pauli_term_def pauli_step_def Let_def complex_mult_cnj cmod_power2 mult.commute)

lemma sum_flip:
  assumes "q < n" shows "(\<Sum>b<2 ^ n. f (flip_bit q b)) = (\<Sum>b<(2::nat) ^ n. f b)"
  using flip_less [OF _ assms] by (intro sum.reindex_bij_witness [of _ "flip_bit q" "flip_bit q"]) auto

lemma overlap_real:
  fixes a :: "nat \<Rightarrow> complex"
  assumes "q < n"
  shows "Im (\<Sum>b<2 ^ n. cnj (a b) * a (flip_bit q b)) = (0::real)"
proof -
  let ?S = "\<Sum>b<2 ^ n. cnj (a b) * a (flip_bit q b)"
  have "cnj ?S = (\<Sum>b<2 ^ n. cnj (a (flip_bit q b)) * a (flip_bit q (flip_bit q b)))"
    by (simp add: mult.commute)
  also have "\<dots> = ?S" by (rule sum_flip [OF assms])
  finally have "cnj ?S = ?S" .
  then have "Im ?S = - Im ?S" by (metis cnj.simps(2))
  then show ?thesis by linarith
qed

lemma sum_list_upt: "sum_list (map f [0..<k]) = (\<Sum>b<k. f b)"
  by (simp add: interv_sum_list_conv_sum_set_nat atLeast0LessThan)

lemma expectation_single:
  assumes "length state = 2 ^ n" "q < n" "op \<in> {''X'', ''Y'', ''Z''}"
    and "\<And>b. b < 2 ^ n \<Longrightarrow> pauli_term state op [q] b = Inr (g b)"
  shows "statevector_expectation state [int q] op = Inr (Re (\<Sum>b<2 ^ n. g b))"
proof -
  have "py_upper op = op" using assms(3) by (auto simp: py_upper_def upper_char_def)
  moreover have "rmap (pauli_term state op [q]) [0..<2 ^ n] = Inr (map g [0..<2 ^ n])"
    using assms(4) by (intro rmap_all_Inr) simp
  moreover have "op = ''X'' \<or> op = ''Y'' \<or> op = ''Z''" using assms(3) by simp
  ultimately show ?thesis
    by (elim disjE) (simp_all add: statevector_expectation_def sum_list_upt assms(1))
qed

lemma expectation_Y_zero:
  assumes "length state = 2 ^ n" "q < n"
  shows "statevector_expectation state [int q] ''Y'' = Inr 0"
proof -
  have "statevector_expectation state [int q] ''Y'' = Inr (Re (\<Sum>b<2 ^ n. cnj (state ! b) * \<i> * state ! flip_bit q b))"
    by (rule expectation_single [OF assms]) (simp_all add: pauli_term_single(1) [OF assms])
  also have "(\<Sum>b<2 ^ n. cnj (state ! b) * \<i> * state ! flip_bit q b) = \<i> * (\<Sum>b<2 ^ n. cnj (state ! b) * state ! flip_bit q b)"
    by (simp add: sum_distrib_left mult_ac)
  finally show ?thesis using overlap_real [OF assms(2), of "(!) state"] by simp
qed

section \<open>Angles\<close>

text \<open>
  The declarative reading of a symbolic angle: a symbol that is no number stands for what it is bound
  to, and an angle is the number at the end of the chain of bindings.
\<close>

definition theta_symbol :: "sim_platform \<Rightarrow> pyval \<Rightarrow> string option" where
  "theta_symbol sp v = (case v of
       PStr s \<Rightarrow> if py_strip s \<noteq> [] \<and> sp_parse_float sp (py_strip s) = None then Some (py_strip s) else None
     | _ \<Rightarrow> None)"

definition theta_number :: "sim_platform \<Rightarrow> pyval \<Rightarrow> py_float option" where
  "theta_number sp v = (case v of
       PStr s \<Rightarrow> if py_strip s = [] then None else sp_parse_float sp (py_strip s)
     | _ \<Rightarrow> if is_int v \<or> is_float v then sp_number sp v else None)"

definition theta_step :: "sim_platform \<Rightarrow> (string, pyval) dict \<Rightarrow> (string, string) dict \<Rightarrow> pyval \<Rightarrow> pyval \<Rightarrow> bool" where
  "theta_step sp payload options v w \<longleftrightarrow> (\<exists>nm. theta_symbol sp v = Some nm \<and> theta_binding payload options nm = Some w)"

lemma theta_number_no_symbol: "theta_number sp v = Some x \<Longrightarrow> theta_symbol sp v = None"
  by (auto simp: theta_number_def theta_symbol_def split: pyval.splits if_splits)

lemma theta_step_det: "theta_step sp payload options v w \<Longrightarrow> theta_step sp payload options v w' \<Longrightarrow> w = w'"
  by (auto simp: theta_step_def)

lemma theta_step_symbol: "theta_symbol sp u = theta_symbol sp v \<Longrightarrow> theta_step sp payload options u w = theta_step sp payload options v w"
  by (simp add: theta_step_def)

text \<open>One unfolding of the resolution, by what the value is.\<close>

lemma resolve_number: "theta_number sp v = Some x \<Longrightarrow> resolve_theta_value sp payload options idx seen v = Inr x"
  by (subst resolve_theta_value.simps) (auto simp: theta_number_def Let_def split: pyval.splits if_splits)

lemma resolve_symbol:
  "theta_symbol sp v = Some nm \<Longrightarrow> resolve_theta_value sp payload options idx seen v =
    (if nm \<in> set seen then invalid (op_index idx @ '' theta binding is circular: '' @ nm)
     else case theta_binding payload options nm of
       Some w \<Rightarrow> resolve_theta_value sp payload options idx (nm # seen) w
     | None \<Rightarrow> invalid (op_index idx @ '' theta must be numeric (unresolved symbol: '' @ nm @ '')''))"
  by (subst resolve_theta_value.simps) (auto simp: theta_symbol_def Let_def split: pyval.splits if_splits)

lemma resolve_neither:
  "theta_symbol sp v = None \<Longrightarrow> theta_number sp v = None \<Longrightarrow> resolve_theta_value sp payload options idx seen v \<noteq> Inr x"
  by (subst resolve_theta_value.simps)
    (auto simp: theta_symbol_def theta_number_def Let_def split: pyval.splits if_splits option.splits)

lemma resolve_sound:
  "resolve_theta_value sp payload options idx seen v = Inr x \<Longrightarrow>
   \<exists>w. (theta_step sp payload options)\<^sup>*\<^sup>* v w \<and> theta_number sp w = Some x"
proof (induction "card (bound_symbols payload options - set seen)" arbitrary: seen v rule: less_induct)
  case less
  show ?case
  proof (cases "theta_symbol sp v")
    case None
    then have "theta_number sp v \<noteq> None" using less.prems resolve_neither by blast
    then have "theta_number sp v = Some x" using less.prems resolve_number by fastforce
    then show ?thesis by blast
  next
    case (Some nm)
    then obtain w where w: "nm \<notin> set seen" "theta_binding payload options nm = Some w"
      "resolve_theta_value sp payload options idx (nm # seen) w = Inr x"
      using less.prems by (auto simp: resolve_symbol split: if_splits option.splits)
    have "bound_symbols payload options - set (nm # seen) \<subset> bound_symbols payload options - set seen"
      using theta_binding_bound [OF w(2)] w(1) by auto
    then have "card (bound_symbols payload options - set (nm # seen)) < card (bound_symbols payload options - set seen)"
      by (intro psubset_card_mono) (auto simp: bound_symbols_finite)
    then obtain u where "(theta_step sp payload options)\<^sup>*\<^sup>* w u" "theta_number sp u = Some x"
      using less.hyps w(3) by blast
    moreover have "theta_step sp payload options v w" using Some w(2) by (auto simp: theta_step_def)
    ultimately show ?thesis by (blast intro: converse_rtranclp_into_rtranclp)
  qed
qed

text \<open>A chain that ends in a number never comes back to a symbol, since a symbol has one successor.\<close>

lemma det_end_same_length:
  assumes "\<And>a b c. R a b \<Longrightarrow> R a c \<Longrightarrow> b = c" "\<And>b. \<not> R w b"
  shows "(R ^^ k) v w \<Longrightarrow> (R ^^ m) v w \<Longrightarrow> k = m"
proof (induction k arbitrary: v m)
  case 0
  show ?case
  proof (cases m)
    case (Suc m')
    then obtain b where "R v b" using 0 relpowp_Suc_D2 by metis
    then show ?thesis using 0 assms(2) by simp
  qed simp
next
  case (Suc k)
  obtain b where b: "R v b" "(R ^^ k) b w" using Suc.prems(1) relpowp_Suc_D2 by metis
  show ?case
  proof (cases m)
    case 0
    then show ?thesis using Suc.prems(2) b(1) assms(2) by simp
  next
    case (Suc m')
    then obtain c where "R v c" "(R ^^ m') c w" using Suc.prems(2) relpowp_Suc_D2 by metis
    then show ?thesis using Suc.IH [OF b(2)] b(1) assms(1) Suc by metis
  qed
qed

lemma det_end_no_cycle:
  assumes "\<And>a b c. R a b \<Longrightarrow> R a c \<Longrightarrow> b = c" "\<And>b. \<not> R w b" "R\<^sup>*\<^sup>* v w"
  shows "\<not> R\<^sup>+\<^sup>+ v v"
proof
  assume "R\<^sup>+\<^sup>+ v v"
  then obtain j where "0 < j" "(R ^^ j) v v" by (auto simp: tranclp_power)
  moreover obtain k where "(R ^^ k) v w" using assms(3) by (auto simp: rtranclp_power)
  ultimately have "(R ^^ (j + k)) v w" by (auto simp: relpowp_add)
  then show False using det_end_same_length [OF assms(1,2) \<open>(R ^^ k) v w\<close>] \<open>0 < j\<close> by fastforce
qed

lemma resolve_complete:
  assumes "(theta_step sp payload options)\<^sup>*\<^sup>* v w" "theta_number sp w = Some x"
    and "\<And>u nm. (theta_step sp payload options)\<^sup>*\<^sup>* v u \<Longrightarrow> theta_symbol sp u = Some nm \<Longrightarrow> nm \<notin> set seen"
  shows "resolve_theta_value sp payload options idx seen v = Inr x"
  using assms
proof (induction arbitrary: seen rule: converse_rtranclp_induct)
  case base
  then show ?case by (simp add: resolve_number)
next
  case (step v v')
  let ?R = "theta_step sp payload options"
  from step.hyps(1) obtain nm where nm: "theta_symbol sp v = Some nm" "theta_binding payload options nm = Some v'"
    by (auto simp: theta_step_def)
  have "\<not> ?R w b" for b using step.prems(1) by (auto simp: theta_step_def dest: theta_number_no_symbol)
  then have acyclic: "\<not> ?R\<^sup>+\<^sup>+ v' v'"
    using theta_step_det step.hyps(2) by (intro det_end_no_cycle [of ?R w v']) blast+
  have "resolve_theta_value sp payload options idx (nm # seen) v' = Inr x"
  proof (rule step.IH)
    fix u s assume u: "?R\<^sup>*\<^sup>* v' u" "theta_symbol sp u = Some s"
    have "s \<noteq> nm"
    proof
      assume "s = nm"
      then have "?R u v'" using u(2) nm by (simp add: theta_step_def)
      then show False using u(1) acyclic by (meson rtranclp_into_tranclp1)
    qed
    moreover have "s \<notin> set seen"
      using step.prems(2) u step.hyps(1) by (meson converse_rtranclp_into_rtranclp)
    ultimately show "s \<notin> set (nm # seen)" by simp
  qed (rule step.prems(1))
  moreover have "nm \<notin> set seen" using step.prems(2) nm(1) by blast
  ultimately show ?case using nm by (simp add: resolve_symbol)
qed

lemma resolve_iff:
  "resolve_theta_value sp payload options idx [] v = Inr x \<longleftrightarrow>
   (\<exists>w. (theta_step sp payload options)\<^sup>*\<^sup>* v w \<and> theta_number sp w = Some x)"
  using resolve_sound resolve_complete [of sp payload options v _ x "[]"] by fastforce

section \<open>When a run returns\<close>

text \<open>What an operation needs, in the order of the checks but without the state.\<close>

definition measure_operands :: "(string, pyval) dict \<Rightarrow> pyval list \<Rightarrow> bool" where
  "measure_operands raw q \<longleftrightarrow> (\<exists>c. vget raw ''c'' = PList c \<and> length c = length q \<and> list_all is_int c
     \<and> distinct (map int_of c) \<and> (\<forall>i\<in>set c. 0 \<le> int_of i))"

definition rotation_angle :: "sim_platform \<Rightarrow> (string, pyval) dict \<Rightarrow> (string, string) dict \<Rightarrow> (string, pyval) dict \<Rightarrow> bool" where
  "rotation_angle sp payload options raw \<longleftrightarrow> (\<exists>ps v w x. vget raw ''params'' = PDict ps \<and> dget ps ''theta'' = Some v
     \<and> (theta_step sp payload options)\<^sup>*\<^sup>* v w \<and> theta_number sp w = Some x \<and> x \<noteq> Infinite)"

definition op_runnable ::
  "sim_platform \<Rightarrow> int \<Rightarrow> (string, pyval) dict \<Rightarrow> (string, string) dict \<Rightarrow> pyval \<Rightarrow> bool" where
  "op_runnable sp qubits payload options v \<longleftrightarrow> (\<exists>raw q. v = PDict raw \<and> vget raw ''q'' = PList q \<and> operand_ok qubits q
     \<and> (op_text sp raw \<in> {''RX'', ''RY'', ''RZ''} \<and> length q = 1 \<and> rotation_angle sp payload options raw
        \<or> op_text sp raw = ''CX'' \<and> length q = 2 \<and> int_of (q ! 0) \<noteq> int_of (q ! 1)
        \<or> op_text sp raw = ''MEASURE'' \<and> measure_operands raw q))"

lemma append_measures_Inr_iff:
  "length c = length q \<Longrightarrow> (\<exists>ms'. append_measures q c ms = Inr ms') \<longleftrightarrow> (\<forall>i\<in>set c. 0 \<le> int_of i)"
proof (induction q arbitrary: c ms)
  case (Cons x q)
  then obtain y c' where "c = y # c'" by (cases c) auto
  with Cons show ?case by (auto simp: not_less)
qed simp

lemma run_measure_Inr_iff: "(\<exists>ms'. run_measure raw q ms = Inr ms') \<longleftrightarrow> measure_operands raw q"
proof (cases "vget raw ''c''")
  case (PList c)
  then show ?thesis using append_measures_Inr_iff [of c q ms] by (auto simp: run_measure_def measure_operands_def)
qed (auto simp: run_measure_def measure_operands_def)

lemma get_theta_Inr_iff:
  "get_theta sp payload options idx raw = Inr x \<longleftrightarrow>
   (\<exists>ps v w. vget raw ''params'' = PDict ps \<and> dget ps ''theta'' = Some v
     \<and> (theta_step sp payload options)\<^sup>*\<^sup>* v w \<and> theta_number sp w = Some x)"
  by (auto simp: get_theta_def resolve_iff split: pyval.splits option.splits)

lemma rotation_Inr_iff:
  "op \<in> {''RX'', ''RY'', ''RZ''} \<Longrightarrow> (\<exists>st'. apply_single_qubit_rotation st t op x = Inr st') \<longleftrightarrow> x \<noteq> Infinite"
  by (cases x) (auto simp: apply_single_qubit_rotation_def rotation_matrix_def Let_def)

lemma run_operation_returns_iff:
  assumes "0 < qubits"
  shows "(\<exists>st'. run_operation sp qubits payload options idx v st = Inr st') \<longleftrightarrow> op_runnable sp qubits payload options v"
proof
  assume "\<exists>st'. run_operation sp qubits payload options idx v st = Inr st'"
  then obtain st' where "run_operation sp qubits payload options idx v st = Inr st'" ..
  then show "op_runnable sp qubits payload options v"
  proof (cases rule: run_operation_cases)
    case (rotation raw q theta)
    then have "rotation_angle sp payload options raw"
      using rotation_Inr_iff [OF rotation(2), of "fst st" "nat (int_of q)" theta]
      unfolding rotation_angle_def get_theta_Inr_iff by blast
    then show ?thesis using rotation by (auto simp: op_runnable_def)
  next
    case (cx raw c t)
    then show ?thesis by (auto simp: op_runnable_def apply_cx_def split: if_splits)
  next
    case (measurement raw q)
    then show ?thesis using run_measure_Inr_iff [of raw q "snd st"] by (auto simp: op_runnable_def)
  qed
next
  assume "op_runnable sp qubits payload options v"
  then obtain raw q where v: "v = PDict raw" "vget raw ''q'' = PList q" "list_all is_int q"
      "\<not> list_ex (\<lambda>i. int_of i < 0 \<or> int_of i \<ge> qubits) q" and ok: "\<forall>i\<in>set q. 0 \<le> int_of i"
    and kinds: "op_text sp raw \<in> {''RX'', ''RY'', ''RZ''} \<and> length q = 1 \<and> rotation_angle sp payload options raw
        \<or> op_text sp raw = ''CX'' \<and> length q = 2 \<and> int_of (q ! 0) \<noteq> int_of (q ! 1)
        \<or> op_text sp raw = ''MEASURE'' \<and> measure_operands raw q"
    by (fastforce simp: op_runnable_def operand_ok_def list_ex_iff)
  from kinds consider "op_text sp raw \<in> {''RX'', ''RY'', ''RZ''}" "length q = 1" "rotation_angle sp payload options raw"
    | "op_text sp raw = ''CX''" "length q = 2" "int_of (q ! 0) \<noteq> int_of (q ! 1)"
    | "op_text sp raw = ''MEASURE''" "measure_operands raw q" by blast
  then show "\<exists>st'. run_operation sp qubits payload options idx v st = Inr st'"
  proof cases
    case 1
    from 1(3) obtain x where x: "get_theta sp payload options idx raw = Inr x" "x \<noteq> Infinite"
      unfolding rotation_angle_def get_theta_Inr_iff by blast
    then obtain st' where "apply_single_qubit_rotation (fst st) (nat (int_of (q ! 0))) (op_text sp raw) x = Inr st'"
      using rotation_Inr_iff [OF 1(1)] by blast
    then show ?thesis using v 1 x by (auto simp: run_operation_def SUPPORTED_OPS_def Let_def)
  next
    case 2
    then have "nat (int_of (q ! 0)) \<noteq> nat (int_of (q ! 1))" using ok by (auto simp: eq_nat_nat_iff)
    then show ?thesis using v 2 by (auto simp: run_operation_def SUPPORTED_OPS_def Let_def apply_cx_def)
  next
    case 3
    then obtain ms where "run_measure raw q (snd st) = Inr ms" using run_measure_Inr_iff by blast
    then show ?thesis using v 3 by (auto simp: run_operation_def SUPPORTED_OPS_def Let_def)
  qed
qed

lemma run_ops_returns_iff:
  assumes "0 < qubits"
  shows "(\<exists>st'. run_ops sp qubits payload options idx vs st = Inr st') \<longleftrightarrow> (\<forall>v\<in>set vs. op_runnable sp qubits payload options v)"
proof (induction vs arbitrary: idx st)
  case (Cons v vs)
  have "(\<exists>st'. run_ops sp qubits payload options idx (v # vs) st = Inr st') \<longleftrightarrow>
      (\<exists>mid. run_operation sp qubits payload options idx v st = Inr mid \<and>
        (\<exists>st'. run_ops sp qubits payload options (Suc idx) vs mid = Inr st'))"
    unfolding run_ops.simps rbind_eq_Inr by blast
  also have "\<dots> \<longleftrightarrow> (\<exists>mid. run_operation sp qubits payload options idx v st = Inr mid)
      \<and> (\<forall>v\<in>set vs. op_runnable sp qubits payload options v)"
    unfolding Cons.IH by blast
  finally show ?case using run_operation_returns_iff [OF assms] by simp
qed simp

lemma run_operations_returns_iff:
  assumes "0 < qubits"
  shows "(\<exists>st ms. run_operations sp state qubits payload vs options = Inr (st, ms)) \<longleftrightarrow>
    (\<forall>v\<in>set vs. op_runnable sp qubits payload options v)"
  unfolding run_ops_returns_iff [OF assms, of sp payload options 0 vs "(Some state, [])", symmetric]
  by (auto simp: run_operations_def rbind_eq_Inr)

end
