(* ===== verification/DriverAccepts.thy ===== *)
theory DriverAccepts
  imports SimulatorRuns
begin

text \<open>
  Which payloads the simulator executes: for a payload that meets the AQO contract, what the driver
  asks beyond the contract.
\<close>

section \<open>Angles that are not numbers\<close>

text \<open>A rotation by NaN loses the state for good; nothing else does.\<close>

definition nan_angle :: "sim_platform \<Rightarrow> (string, pyval) dict \<Rightarrow> (string, string) dict \<Rightarrow> pyval \<Rightarrow> bool" where
  "nan_angle sp payload options v \<longleftrightarrow> (\<exists>raw. v = PDict raw \<and> op_text sp raw \<in> {''RX'', ''RY'', ''RZ''}
     \<and> (\<exists>ps t w. vget raw ''params'' = PDict ps \<and> dget ps ''theta'' = Some t
          \<and> (theta_step sp payload options)\<^sup>*\<^sup>* t w \<and> theta_number sp w = Some NotANumber))"

lemma rotation_keeps_state:
  "apply_single_qubit_rotation st t op theta = Inr st' \<Longrightarrow> st' = None \<longleftrightarrow> st = None \<or> theta = NotANumber"
  by (cases theta) (auto simp: apply_single_qubit_rotation_def split: option.splits if_splits)

lemma run_operation_keeps_state:
  assumes "run_operation sp qubits payload options idx v st = Inr st'"
  shows "fst st' = None \<longleftrightarrow> fst st = None \<or> nan_angle sp payload options v"
  using assms
proof (cases rule: run_operation_cases)
  case (rotation raw q theta)
  have "nan_angle sp payload options v \<longleftrightarrow> theta = NotANumber"
    using rotation(1,2,5) get_theta_Inr_iff [of sp payload options idx raw NotANumber]
    by (auto simp: nan_angle_def)
  then show ?thesis using rotation_keeps_state [OF rotation(6)] by simp
next
  case (cx raw c t)
  then show ?thesis by (auto simp: nan_angle_def apply_cx_def split: if_splits)
next
  case (measurement raw q)
  then show ?thesis by (auto simp: nan_angle_def)
qed

lemma run_ops_keeps_state:
  "run_ops sp qubits payload options idx vs st = Inr st' \<Longrightarrow>
   fst st' = None \<longleftrightarrow> fst st = None \<or> (\<exists>v\<in>set vs. nan_angle sp payload options v)"
proof (induction vs arbitrary: idx st)
  case (Cons v vs)
  then obtain mid where "run_operation sp qubits payload options idx v st = Inr mid"
    "run_ops sp qubits payload options (Suc idx) vs mid = Inr st'"
    by (auto simp: rbind_eq_Inr simp del: split_paired_Ex split_paired_All)
  then show ?case using Cons.IH run_operation_keeps_state by auto
qed simp

lemma run_operations_keeps_state:
  "run_operations sp s qubits payload vs options = Inr (st, ms) \<Longrightarrow>
   st = None \<longleftrightarrow> (\<exists>v\<in>set vs. nan_angle sp payload options v)"
  by (auto simp: run_operations_def rbind_eq_Inr dest!: run_ops_keeps_state)

section \<open>Executing a payload that meets the contract\<close>

text \<open>What the driver asks beyond the AQO contract.\<close>

definition driver_accepts ::
  "sim_platform \<Rightarrow> (string, pyval) dict \<Rightarrow> (string, string) dict \<Rightarrow> pyval \<Rightarrow> bool" where
  "driver_accepts sp payload options v \<longleftrightarrow> (\<exists>raw name. v = PDict raw \<and> vget raw ''op'' = PStr name \<and> name \<in> set SUPPORTED_OPS
     \<and> (name \<in> {''RX'', ''RY'', ''RZ''} \<longrightarrow> rotation_angle sp payload options raw)
     \<and> (name = ''CX'' \<longrightarrow> distinct (map int_of (list_items (vget raw ''q''))))
     \<and> (name = ''MEASURE'' \<longrightarrow> distinct (map int_of (list_items (vget raw ''c'')))))"

lemma upper_supported: "name \<in> set AQO_ALLOWED_OPS \<Longrightarrow> py_upper name = name"
  by (auto simp: AQO_ALLOWED_OPS_def py_upper_def upper_char_def)

lemma op_text_str: "vget raw ''op'' = PStr name \<Longrightarrow> name \<in> set AQO_ALLOWED_OPS \<Longrightarrow> op_text sp raw = name"
  by (auto simp: op_text_def vget_def dget_or_def upper_supported split: option.splits)

lemma op_runnable_iff_accepts:
  assumes "aqo_op_ok n v"
  shows "op_runnable sp n payload options v \<longleftrightarrow> driver_accepts sp payload options v"
proof -
  obtain raw name q where v: "v = PDict raw" "vget raw ''op'' = PStr name" "name \<in> set AQO_ALLOWED_OPS"
      "vget raw ''q'' = PList q" "indices_below n q"
    and shape: "if name = ''MEASURE'' then measure_ok n raw q else gate_ok name raw q"
    using assms by (auto simp: aqo_op_ok_def)
  have ok: "operand_ok n q" using v(5) by (auto simp: operand_ok_def indices_below_def list_all_iff)
  note otext = op_text_str [OF v(2,3), of sp]
  consider "name \<in> {''RX'', ''RY'', ''RZ''}" | "name = ''CX''" | "name = ''MEASURE''" | "name \<notin> set SUPPORTED_OPS"
    by (auto simp: SUPPORTED_OPS_def)
  then show ?thesis
  proof cases
    case 1
    then have "length q = 1" using shape by (auto simp: gate_ok_def AQO_ARITY_def dget_or_def)
    then show ?thesis using 1 v otext ok by (auto simp: op_runnable_def driver_accepts_def SUPPORTED_OPS_def)
  next
    case 2
    then have "length q = 2" using shape by (auto simp: gate_ok_def AQO_ARITY_def dget_or_def)
    then obtain a b where "q = [a, b]" by (auto simp: length_Suc_conv numeral_2_eq_2)
    then show ?thesis using 2 v otext ok by (auto simp: op_runnable_def driver_accepts_def SUPPORTED_OPS_def)
  next
    case 3
    then obtain c where "vget raw ''c'' = PList c" "length c = length q" "indices_below n c"
      using shape by (auto simp: measure_ok_def)
    then show ?thesis using 3 v otext ok
      by (auto simp: op_runnable_def driver_accepts_def measure_operands_def SUPPORTED_OPS_def indices_below_def list_all_iff)
  next
    case 4
    then show ?thesis using v otext by (auto simp: op_runnable_def driver_accepts_def SUPPORTED_OPS_def)
  qed
qed

lemma validate_supported_Inr_iff:
  "validate_supported_ops sp idx vs = Inr () \<longleftrightarrow> (\<forall>v\<in>set vs. \<exists>raw. v = PDict raw \<and> op_text sp raw \<in> set SUPPORTED_OPS)"
  by (induction vs arbitrary: idx) (auto split: pyval.splits)

lemma op_runnable_supported: "op_runnable sp n payload options v \<Longrightarrow> \<exists>raw. v = PDict raw \<and> op_text sp raw \<in> set SUPPORTED_OPS"
  by (auto simp: op_runnable_def SUPPORTED_OPS_def)

text \<open>The request around the payload: profile, error injection, shots and seed.\<close>

definition plain_request :: "int \<Rightarrow> (string, string) dict \<Rightarrow> bool" where
  "plain_request shots options \<longleftrightarrow> validate_provider_profile options = Inr () \<and> simulate_error options = Inr ()
     \<and> 0 < shots \<and> py_int (dget_or options ''seed'' ''0'') \<noteq> None"

lemma sample_counts_returns:
  assumes "plain_request shots options" "normalized n st"
  shows "(\<exists>counts. sample_counts sp st shots ms options = Inr counts) \<longleftrightarrow> st \<noteq> None"
proof (cases st)
  case None
  then show ?thesis using assms(1) by (auto simp: sample_counts_def plain_request_def split: option.splits)
next
  case (Some s)
  then have "probabilities s = Some (map (\<lambda>a. (cmod a)\<^sup>2) s)"
    using assms(2) probabilities_normalized by (simp add: normalized_def)
  then show ?thesis using assms(1) Some by (auto simp: sample_counts_def plain_request_def)
qed

definition decodes_to :: "sim_platform \<Rightarrow> string \<Rightarrow> (string, pyval) dict \<Rightarrow> bool" where
  "decodes_to sp circuit aqo \<longleftrightarrow> circuit \<noteq> [] \<and> (\<exists>t. sp_decode sp circuit = Some t \<and> json_loads t = Some (PDict aqo))"

lemma parse_payload_Inr:
  assumes "decodes_to sp circuit aqo" "vget aqo ''version'' = PStr AQO_VERSION" "vget aqo ''operations'' = PList ops"
  shows "parse_payload sp circuit = rbind (validate_supported_ops sp 0 ops) (\<lambda>_. Inr aqo)"
proof -
  have "\<not> blank AQO_VERSION" by code_simp
  then show ?thesis using assms by (auto simp: parse_payload_def decodes_to_def)
qed

lemma execute_returns_iff:
  assumes req: "plain_request shots options" and dec: "decodes_to sp circuit aqo" and ok: "aqo_ok aqo"
    and ops: "vget aqo ''operations'' = PList ops" and noexp: "expectation_terms aqo = None"
  shows "(\<exists>out. execute_circuit sp circuit shots options = Inr out) \<longleftrightarrow>
    int_of (vget aqo ''qubits'') \<le> MAX_QUBITS \<and>
    (\<forall>v\<in>set ops. driver_accepts sp aqo options v \<and> \<not> nan_angle sp aqo options v)"
proof -
  let ?n = "int_of (vget aqo ''qubits'')"
  have q: "is_int (vget aqo ''qubits'')" "1 \<le> ?n" "vget aqo ''version'' = PStr AQO_VERSION"
    and op_ok: "\<forall>v\<in>set ops. aqo_op_ok ?n v"
    using ok ops by (auto simp: aqo_ok_def)
  have parse: "parse_payload sp circuit = rbind (validate_supported_ops sp 0 ops) (\<lambda>_. Inr aqo)"
    by (rule parse_payload_Inr [OF dec q(3) ops])
  have qubits: "parse_qubits aqo = Inr n \<longleftrightarrow> n = ?n \<and> ?n \<le> MAX_QUBITS" for n
    using q by (auto simp: parse_qubits_def Let_def)
  have energy: "energy_metadata sp s aqo = Inr []" for s by (simp add: energy_metadata_def noexp)
  have "(\<exists>out. execute_circuit sp circuit shots options = Inr out) \<longleftrightarrow>
      validate_supported_ops sp 0 ops = Inr () \<and> ?n \<le> MAX_QUBITS \<and>
      (\<exists>st ms. run_operations sp (initial_state ?n) ?n aqo ops options = Inr (st, ms) \<and>
        (\<exists>counts. sample_counts sp st shots ms options = Inr counts))"
    using req by (auto simp: execute_circuit_def plain_request_def parse rbind_eq_Inr qubits ops energy)
  also have "\<dots> \<longleftrightarrow> validate_supported_ops sp 0 ops = Inr () \<and> ?n \<le> MAX_QUBITS \<and>
      (\<exists>st ms. run_operations sp (initial_state ?n) ?n aqo ops options = Inr (st, ms) \<and> st \<noteq> None)"
    using sample_counts_returns [OF req] run_operations_inv unfolding run_inv_def by (metis fst_conv)
  also have "\<dots> \<longleftrightarrow> validate_supported_ops sp 0 ops = Inr () \<and> ?n \<le> MAX_QUBITS \<and>
      (\<forall>v\<in>set ops. op_runnable sp ?n aqo options v) \<and> \<not> (\<exists>v\<in>set ops. nan_angle sp aqo options v)"
  proof -
    have "(\<exists>st ms. run_operations sp (initial_state ?n) ?n aqo ops options = Inr (st, ms) \<and> st \<noteq> None) \<longleftrightarrow>
        (\<exists>st ms. run_operations sp (initial_state ?n) ?n aqo ops options = Inr (st, ms)) \<and> \<not> (\<exists>v\<in>set ops. nan_angle sp aqo options v)"
      using run_operations_keeps_state [of sp "initial_state ?n" ?n aqo ops options] by blast
    then show ?thesis using run_operations_returns_iff [of ?n sp "initial_state ?n" aqo ops options] q(2) by simp
  qed
  also have "\<dots> \<longleftrightarrow> ?n \<le> MAX_QUBITS \<and> (\<forall>v\<in>set ops. driver_accepts sp aqo options v \<and> \<not> nan_angle sp aqo options v)"
    unfolding validate_supported_Inr_iff using op_runnable_iff_accepts op_ok op_runnable_supported by metis
  finally show ?thesis .
qed

end
