(* ===== verification/DriverProperties.thy ===== *)
theory DriverProperties
  imports DriverAccepts
begin

text \<open>
  The properties of the driver manager: the registry with its sessions and plugin policies, and the
  simulator driver.
\<close>

section \<open>A concrete registry\<close>

definition demo_answers :: driver_answers where
  "demo_answers = \<lparr>capability_handshake = (\<lambda>_. simulator_handshake), get_devices = (\<lambda>_. simulator_devices),
     healthcheck = (\<lambda>_. simulator_healthcheck)\<rparr>"

definition demo_registry :: registry where
  "demo_registry = fst (add_driver demo_answers ''simulator'' 0 empty_registry)"

lemma demo_reachable: "registry_step\<^sup>*\<^sup>* empty_registry demo_registry"
  unfolding demo_registry_def by (rule r_into_rtranclp) (rule registry_step.add)

lemma demo_addable: "addable demo_answers ''simulator'' 0 empty_registry"
  by (auto simp: addable_def device_ids_of_def demo_answers_def simulator_handshake_def simulator_devices_def
      simulator_device_def empty_registry_def)

lemma demo_added: "add_driver demo_answers ''simulator'' 0 empty_registry = (demo_registry, Inr ())"
  using demo_addable add_driver_Inr_iff [of demo_answers "''simulator''" 0 empty_registry]
  by (auto simp: demo_registry_def)

lemma demo_owner: "dget (device_to_driver demo_registry) ''sim:local'' = Some ''simulator''"
  using add_driver_index_at [OF demo_added, of "''sim:local''"]
  by (simp add: device_ids_of_def demo_answers_def simulator_devices_def simulator_device_def)

section \<open>Registry\<close>

text \<open>C4. Whatever sequence of operations is run on a fresh registry, the reverse index is exact: a device
  is indexed under a name exactly when the driver registered under that name owns it, it has a profile
  exactly when it is indexed, and its profile names it and its driver. Looking the driver of a device
  up therefore never meets a name without a driver.\<close>

theorem registry_index_exact:
  assumes "registry_step\<^sup>*\<^sup>* empty_registry r"
  shows "(dget (device_to_driver r) i = Some name \<longleftrightarrow> owns r i name)
    \<and> (get_device_profile r i = None \<longleftrightarrow> dget (device_to_driver r) i = None)
    \<and> (\<forall>p. get_device_profile r i = Some p \<longrightarrow> dp_device_id p = i \<and> owns r i (driver_name p))
    \<and> (\<exists>d. get_driver_for_device r i = Inr d \<and> (d = None \<longleftrightarrow> (\<nexists>n. owns r i n)))"
proof -
  have inv: "index_inv r" using registry.reach_inv [of empty_registry r] assms by (simp add: registry_inv_def)
  note owner = index_owner [OF inv, of i]
  have "\<exists>d. get_driver_for_device r i = Inr d \<and> (d = None \<longleftrightarrow> (\<nexists>n. owns r i n))"
  proof (cases "dget (device_to_driver r) i")
    case None
    then show ?thesis using owner by (auto simp: get_driver_for_device_def)
  next
    case (Some n)
    then obtain reg where "dget (drivers r) n = Some reg" using owner by (auto simp: owns_def)
    moreover have "owns r i n" using Some owner by simp
    ultimately show ?thesis using Some by (auto simp: get_driver_for_device_def)
  qed
  then show ?thesis
    using owner index_profile_dom [OF inv, of i] index_profile [OF inv, of i] by (simp add: get_device_profile_def)
qed

theorem registry_index_exact_witness:
  "owns demo_registry ''sim:local'' ''simulator'' \<and> get_device_profile demo_registry ''sim:local'' \<noteq> None"
  using registry_index_exact [OF demo_reachable, of "''sim:local''" "''simulator''"] demo_owner by simp

text \<open>A driver is added completely or not at all: it is added exactly when its name is new and not
  empty, its handshake names an API version, and every device it reports has an id that no driver
  owns. Then the registry has its record and every one of its devices, and the other devices keep
  their owners; otherwise the registry is as it was.\<close>

theorem add_driver_all_or_nothing:
  "(snd (add_driver w name drv r) = Inr () \<longleftrightarrow> addable w name drv r)
   \<and> (case add_driver w name drv r of
        (r', Inl msg) \<Rightarrow> r' = r
      | (r', Inr u) \<Rightarrow> get_driver r' name = Some drv
          \<and> (\<forall>i. dget (device_to_driver r') i = (if i \<in> device_ids_of w drv then Some name else dget (device_to_driver r) i)))"
proof (cases "add_driver w name drv r")
  case (Pair r' out)
  have iff: "out = Inr () \<longleftrightarrow> addable w name drv r"
    using add_driver_Inr_iff [of w name drv r] Pair by auto
  show ?thesis
  proof (cases out)
    case (Inl msg)
    then show ?thesis using Pair iff add_driver_Inl [of w name drv r r' msg] by simp
  next
    case (Inr u)
    then have add: "add_driver w name drv r = (r', Inr ())" using Pair by simp
    then show ?thesis
      using iff Inr add_driver_drivers [OF add, of name] add_driver_index_at [OF add] by (simp add: get_driver_def)
  qed
qed

text \<open>C29. A plugin driver is admitted exactly when it runs as an OCI artifact under runsc with the whole
  sandbox baseline, its signature is present, of the supported trust profile and matches the official
  digests, and the driver itself can be added. A refusal changes no driver, device, profile or session.\<close>

theorem plugin_admitted_iff:
  "(snd (add_plugin_driver w name drv spec sg entry r) = Inr () \<longleftrightarrow>
     artifact_type spec = ''oci'' \<and> runtime spec = ''runsc'' \<and> baseline_ok spec
     \<and> \<not> blank (signature_ref sg) \<and> \<not> blank (signer_identity sg) \<and> trust_profile sg = ''sigstore-keyless-v1''
     \<and> sg_artifact_digest sg = mx_artifact_digest entry \<and> sg_manifest_digest sg = mx_manifest_digest entry
     \<and> addable w name drv r)
   \<and> (case add_plugin_driver w name drv spec sg entry r of (r', Inl msg) \<Rightarrow> same_drivers r' r | (r', Inr u) \<Rightarrow> True)"
proof (cases w name drv spec sg entry r rule: add_plugin_driver_cases)
  case admitted
  have "snd (add_driver w name drv r) = Inr () \<longleftrightarrow> addable w name drv r"
    using add_driver_Inr_iff [of w name drv r] by (cases "add_driver w name drv r") auto
  moreover have "case add_driver w name drv r of (r', Inl msg) \<Rightarrow> same_drivers r' r | (r', Inr u) \<Rightarrow> True"
    using add_driver_Inl [of w name drv r] by (auto simp: same_drivers_def split: prod.splits sum.splits)
  ultimately show ?thesis using admitted by (simp add: runtime_policy_Inr signature_policy_Inr)
next
  case (rejected r' msg)
  then show ?thesis
    using runtime_policy_Inr [of spec r r "()"] signature_policy_Inr [of name sg entry r r "()"]
      add_driver_Inr_iff [of w name drv r]
    by (auto simp: add_plugin_driver_def)
qed

lemma filter_dset: "k \<in> S \<Longrightarrow> filter (\<lambda>(i, _). i \<notin> S) (dset k v d) = filter (\<lambda>(i, _). i \<notin> S) d"
  by (induction d) auto

lemma filter_fold_dset:
  assumes "f ` set xs \<subseteq> S" "set (dkeys d) \<inter> S = {}"
  shows "filter (\<lambda>(i, _). i \<notin> S) (fold (\<lambda>x. dset (f x) (g x)) xs d) = d"
proof -
  have "filter (\<lambda>(i, _). i \<notin> S) (fold (\<lambda>x. dset (f x) (g x)) xs e) = filter (\<lambda>(i, _). i \<notin> S) e" for e
    using assms(1) by (induction xs arbitrary: e) (auto simp: filter_dset)
  moreover have "filter (\<lambda>(i, _). i \<notin> S) d = d" using assms(2) by (intro filter_True) force
  ultimately show ?thesis by simp
qed

lemma dpop_dset_fresh: "dget d k = None \<Longrightarrow> dpop k (dset k v d) = d"
  by (induction d) (auto split: if_splits)

text \<open>Removing a driver undoes adding it: after a successful \<open>add_driver\<close>, \<open>remove_driver\<close> gives back the
  registry as it was, with the entries of every dictionary in their old order.\<close>

theorem remove_undoes_add:
  assumes "registry_step\<^sup>*\<^sup>* empty_registry r" "add_driver w name drv r = (r', Inr ())"
  shows "remove_driver name r' = (r, True)"
proof -
  have inv: "index_inv r" using registry.reach_inv [of empty_registry r] assms(1) by (simp add: registry_inv_def)
  have new: "dget (drivers r) name = None" and free: "\<And>i. i \<in> device_ids_of w drv \<Longrightarrow> dget (device_to_driver r) i = None"
    using assms(2) add_driver_Inr_iff [of w name drv r] by (auto simp: addable_def)
  obtain ids recs where c: "collect_devices name (device_to_driver r) (get_devices w drv) [] [] = Inr (ids, recs)"
    and r': "r' = r\<lparr>device_to_driver := fold (\<lambda>i. dset i name) ids (device_to_driver r),
      device_profiles := fold (\<lambda>(i, dev). dset i (build_device_profile name (capability_handshake w drv) dev)) recs (device_profiles r),
      drivers := dset name \<lparr>rd_name = name, rd_driver = drv, rd_device_ids = set ids,
        rd_capabilities = capability_handshake w drv\<rparr> (drivers r)\<rparr>"
    using assms(2) by (rule add_driver_obtain)
  have ids: "set ids = device_ids_of w drv" and recs: "set (dkeys recs) = device_ids_of w drv"
    using collect_devices_ids [OF c] by simp_all
  have "i \<notin> set (dkeys (device_to_driver r)) \<and> i \<notin> set (dkeys (device_profiles r))" if "i \<in> set ids" for i
    using that free [of i] index_profile_dom [OF inv, of i] unfolding ids map_of_eq_None_iff by simp
  then have "set (dkeys (device_to_driver r)) \<inter> set ids = {}" "set (dkeys (device_profiles r)) \<inter> set ids = {}"
    by blast+
  then show ?thesis
    using filter_fold_dset [of "\<lambda>i. i" ids "set ids" "device_to_driver r" "\<lambda>_. name"]
      filter_fold_dset [of fst recs "set ids" "device_profiles r"
        "\<lambda>x. build_device_profile name (capability_handshake w drv) (snd x)"] ids recs new
    by (simp add: remove_driver_def r' case_prod_unfold dpop_dset_fresh)
qed

theorem remove_undoes_add_witness: "remove_driver ''simulator'' demo_registry = (empty_registry, True)"
  using remove_undoes_add [OF _ demo_added] by simp

text \<open>The profile a request is answered with belongs to a registered device, and it is the profile of
  the device that was asked for or that of a simulator: a request is never answered with the profile
  of another hardware device. An unknown device is refused.\<close>

theorem resolved_profile_registered:
  assumes "registry_step\<^sup>*\<^sup>* empty_registry r" "negotiate_device_profile r i req = Inr p"
  shows "get_device_profile r (dp_device_id p) = Some p \<and> get_device_profile r i \<noteq> None
    \<and> (dp_device_id p = i \<or> is_simulator p)"
proof -
  have inv: "index_inv r" using registry.reach_inv [of empty_registry r] assms(1) by (simp add: registry_inv_def)
  obtain own where own: "dget (device_profiles r) i = Some own"
    using assms(2) by (auto simp: negotiate_device_profile_def resolve_device_profile_def split: option.splits)
  have "p = own \<or> (p \<in> set (device_profile_snapshot r) \<and> is_simulator p)"
    using assms(2) own
    by (auto simp: negotiate_device_profile_def resolve_device_profile_def Let_def find_Some_iff in_set_conv_nth
        split: option.splits if_splits)
  then show ?thesis
  proof
    assume "p = own"
    then show ?thesis using own index_profile [OF inv own] by (simp add: get_device_profile_def)
  next
    assume p: "p \<in> set (device_profile_snapshot r) \<and> is_simulator p"
    then obtain j where "(j, p) \<in> set (device_profiles r)" by (auto simp: device_profile_snapshot_def)
    then have j: "dget (device_profiles r) j = Some p" using index_wf(3) [OF inv] by simp
    then show ?thesis using own p index_profile [OF inv j] by (simp add: get_device_profile_def)
  qed
qed

theorem resolved_profile_registered_witness:
  "\<exists>p. negotiate_device_profile demo_registry ''sim:local'' (Some ''unheard of'') = Inr p
     \<and> get_device_profile demo_registry (dp_device_id p) = Some p \<and> is_simulator p"
proof -
  have "case negotiate_device_profile demo_registry ''sim:local'' (Some ''unheard of'') of
      Inl _ \<Rightarrow> False | Inr p \<Rightarrow> dp_device_id p = ''cluster:auto''"
    by code_simp
  then obtain p where "negotiate_device_profile demo_registry ''sim:local'' (Some ''unheard of'') = Inr p"
    "dp_device_id p = ''cluster:auto''" by (auto split: sum.splits)
  then show ?thesis using resolved_profile_registered [OF demo_reachable] by force
qed

definition session_invalidated :: "string \<Rightarrow> string \<Rightarrow> registry \<Rightarrow> bool" where
  "session_invalidated name key r \<longleftrightarrow> (\<exists>s. dget (sessions r) (name, key) = Some s \<and> se_state s = ''invalidated'')"

lemma add_driver_same_sessions: "sessions (fst (add_driver w name drv r)) = sessions r"
proof (cases "add_driver w name drv r")
  case (Pair r' out)
  then show ?thesis
    by (cases out) (auto dest: add_driver_Inl add_driver_sessions)
qed

lemma invalidated_step: "session_invalidated name key r \<Longrightarrow> registry_step r r' \<Longrightarrow> session_invalidated name key r'"
proof (erule registry_step.cases)
  fix q w n d spec sg entry
  assume "session_invalidated name key r" "r = q" "r' = fst (add_plugin_driver w n d spec sg entry q)"
  then show "session_invalidated name key r'"
    using add_driver_same_sessions [of w n d q]
    by (cases w n d spec sg entry q rule: add_plugin_driver_cases) (auto simp: session_invalidated_def same_drivers_def)
qed (auto simp: session_invalidated_def add_driver_same_sessions get_or_create_session_def invalidate_session_def
    remove_driver_def Let_def split: option.splits)

interpretation invalidated: invariant_system "session_invalidated name key" registry_step "session_invalidated name key"
  using invalidated_step by unfold_locales

text \<open>An invalidated session stays invalidated: no sequence of operations reactivates it, and asking
  for it again returns it as invalidated.\<close>

theorem invalidated_session_stays:
  assumes "session_invalidated name key r" "registry_step\<^sup>*\<^sup>* r r'"
  shows "se_state (snd (get_or_create_session name key r')) = ''invalidated''"
  using invalidated.reach_inv [OF assms] by (auto simp: session_invalidated_def get_or_create_session_def)

theorem invalidated_session_stays_witness:
  "se_state (snd (get_or_create_session ''simulator'' ''k''
     (fst (remove_driver ''simulator'' (invalidate_session ''simulator'' ''k'' (fst (get_or_create_session ''simulator'' ''k'' empty_registry)))))))
   = ''invalidated''"
proof (rule invalidated_session_stays [OF _ r_into_rtranclp])
  show "registry_step q (fst (remove_driver ''simulator'' q))" for q by (rule registry_step.remove)
  show "session_invalidated ''simulator'' ''k'' (invalidate_session ''simulator'' ''k'' (fst (get_or_create_session ''simulator'' ''k'' empty_registry)))"
    by (simp add: session_invalidated_def invalidate_session_def get_or_create_session_def empty_registry_def Let_def)
qed

section \<open>Simulator\<close>

lemma demo_bits: "bit (1::nat) 0" "flip_bit 0 (1::nat) = 0" "bit (3::nat) 0" "flip_bit 1 (3::nat) = 1"
  by code_simp+

text \<open>C23. A rotation acts as its matrix on the target qubit: the nested loops replace every amplitude by
  the combination of itself and of the amplitude whose target bit is flipped, from the amplitudes
  before the gate, and the norm of the state is kept.\<close>

theorem rotation_applies_matrix:
  assumes "rotation_matrix op x = Some (m00, m01, m10, m11)" "length state = 2 ^ n" "t < n" "i < 2 ^ n"
  shows "\<exists>state'. apply_single_qubit_rotation (Some state) t op (Finite x) = Inr (Some state')
    \<and> length state' = length state \<and> norm2 state' = norm2 state
    \<and> state' ! i = (if bit i t then m10 * state ! flip_bit t i + m11 * state ! i
                     else m00 * state ! i + m01 * state ! flip_bit t i)"
  using assms rotate_loops_nth [OF assms(2-4)] norm2_rotate_loops [OF rotation_unitary [OF assms(1)] assms(2,3)]
  by (simp add: apply_single_qubit_rotation_def)

theorem rotation_applies_matrix_witness:
  "\<exists>state'. apply_single_qubit_rotation (Some [1, 0]) 0 ''RY'' (Finite pi) = Inr (Some state') \<and> state' ! 1 = 1"
  using rotation_applies_matrix [of "''RY''" pi "complex_of_real (cos (pi / 2))" "- complex_of_real (sin (pi / 2))"
      "complex_of_real (sin (pi / 2))" "complex_of_real (cos (pi / 2))" "[1, 0]" 1 0 1]
  by (auto simp: rotation_matrix_def Let_def demo_bits [unfolded One_nat_def])

text \<open>C24. A controlled not exchanges the amplitudes of the basis states that differ in the target bit where
  the control bit is set and leaves the others; doing it twice gives the state back; and with equal
  control and target it is refused.\<close>

theorem controlled_not_flips_target:
  assumes "length state = 2 ^ n" "t < n" "c \<noteq> t" "i < 2 ^ n"
  shows "\<exists>state'. apply_cx (Some state) c t = Inr (Some state') \<and> apply_cx (Some state') c t = Inr (Some state)
    \<and> state' ! i = state ! (if bit i c then flip_bit t i else i)
    \<and> (\<exists>msg. apply_cx (Some state) t t = Inl (DriverError INVALID_ARGUMENT msg))"
  using cx_loop_nth [OF assms] cx_loop_involution [OF assms(1-3)] assms(3) by (simp add: apply_cx_def)

theorem controlled_not_flips_target_witness:
  "\<exists>state'. apply_cx (Some [0, 1, 0, 0]) 0 1 = Inr (Some state') \<and> state' ! 3 = 1"
  using controlled_not_flips_target [of "[0, 1, 0, 0]" 2 1 0 3] demo_bits by auto

text \<open>A platform for the examples: decimal points are not needed, and every draw is basis state 1.\<close>

definition demo_sim :: sim_platform where
  "demo_sim = \<lparr>sp_decode = Some, sp_json_msg = (\<lambda>_. []), sp_str = (\<lambda>_. []),
     sp_number = (\<lambda>v. Some (Finite (of_int (int_of v)))), sp_parse_float = (\<lambda>s. map_option (Finite \<circ> of_int) (py_int s)),
     sp_choice = (\<lambda>_ _ _. 1), sp_fmt6 = (\<lambda>_. []), sp_sha256 = (\<lambda>s. s)\<rparr>"

definition cx_operation :: pyval where
  "cx_operation = PDict [(''op'', PStr ''CX''), (''q'', PList [PInt 0, PInt 1])]"

lemma cx_operation_runnable: "op_runnable demo_sim 2 [] [] cx_operation" "\<not> nan_angle demo_sim [] [] cx_operation"
proof -
  have "op_text demo_sim [(''op'', PStr ''CX''), (''q'', PList [PInt 0, PInt 1])] = ''CX''"
    by (simp add: op_text_def py_upper_def upper_char_def)
  then show "op_runnable demo_sim 2 [] [] cx_operation" "\<not> nan_angle demo_sim [] [] cx_operation"
    by (simp_all add: op_runnable_def nan_angle_def cx_operation_def operand_ok_def)
qed



text \<open>The counts are the histogram of the shots: the count of a bit string is the number of shots that
  drew it, the counts add up to the number of shots, and every bit string has the width of the
  classical register, with the bit of a measured qubit at its classical index from the right.\<close>

theorem counts_are_histogram:
  assumes "sample_counts sp (Some state) shots ms options = Inr counts"
  shows "\<exists>seed ps. py_int (dget_or options ''seed'' ''0'') = Some seed \<and> probabilities state = Some ps
    \<and> sum_list (dvalues counts) = shots
    \<and> (\<forall>b. dget_or counts b 0 = int (length (filter (\<lambda>k. shot_text (sp_choice sp seed ps) ms k = b) [0..<nat shots])))
    \<and> (\<forall>b\<in>set (dkeys counts). length b = cwidth ms)"
proof -
  obtain seed ps where sp: "py_int (dget_or options ''seed'' ''0'') = Some seed" "probabilities state = Some ps" "0 < shots"
      "counts = fold (count_shot (sp_choice sp seed ps) ms) [0..<nat shots] []"
    using assms by (auto simp: sample_counts_def split: if_splits option.splits)
  then show ?thesis
    using count_shots_histogram [of "sp_choice sp seed ps" ms "nat shots"] count_shots_total [of "sp_choice sp seed ps" ms "nat shots"]
      count_shots_keys [of _ "sp_choice sp seed ps" ms "nat shots"] shot_text_shape(1)
    by fastforce
qed

theorem counts_are_histogram_witness:
  "\<exists>counts. sample_counts demo_sim (Some [0, 1]) 3 [(0, 0)] [] = Inr counts \<and> sum_list (dvalues counts) = 3"
proof -
  have "probabilities [0, 1] = Some [0, 1]" by (simp add: probabilities_def)
  moreover have "py_int ''0'' = Some 0" by code_simp
  ultimately obtain counts where "sample_counts demo_sim (Some [0, 1]) 3 [(0, 0)] [] = Inr counts"
    by (simp add: sample_counts_def dget_or_def)
  then show ?thesis using counts_are_histogram [of demo_sim "[0, 1]" 3 "[(0, 0)]" "[]" counts] by blast
qed

text \<open>A symbolic angle is the number at the end of its chain of bindings: the resolution returns a
  number exactly when following the parameters and the options from the value reaches one, however
  long the chain is; otherwise, on an unbound symbol or a circular chain, it ends with an error.\<close>

theorem angle_resolution_follows_bindings:
  "resolve_theta_value sp payload options idx [] v = Inr x \<longleftrightarrow>
   (\<exists>w. (theta_step sp payload options)\<^sup>*\<^sup>* v w \<and> theta_number sp w = Some x)"
  by (rule resolve_iff)

text \<open>The expectation value the driver reports for a Y observable on one qubit is zero in every state,
  also in the eigenstate of Y with eigenvalue one: the code multiplies the sign of Z into the phase of
  Y, so that the two contributions cancel.\<close>

theorem y_expectation_always_zero:
  assumes "length state = 2 ^ n" "q < n"
  shows "statevector_expectation state [int q] ''Y'' = Inr 0"
  using assms by (rule expectation_Y_zero)

theorem y_expectation_always_zero_witness:
  "statevector_expectation [complex_of_real (1 / sqrt 2), \<i> * complex_of_real (1 / sqrt 2)] [0] ''Y'' = Inr 0"
  using y_expectation_always_zero [of "[complex_of_real (1 / sqrt 2), \<i> * complex_of_real (1 / sqrt 2)]" 1 0] by simp

end
