(* ===== verification/BenchmarkRuns.thy ===== *)
theory BenchmarkRuns
  imports PyJson
begin

text \<open>
  The benchmark service's run lifecycle (\<open>benchmark_service/run_lifecycle.py\<close>) and the run API on top of
  it (\<open>run_api.py\<close>): run states and transitions, idempotent start and retry, snapshots, the records sent
  to the knowledge base. SHA-256, \<open>str\<close> on containers and floats, \<open>int\<close> on floats and the clock are
  parameters; the clock is an argument of the operations that read it.
\<close>

section \<open>Data\<close>

definition RUN_CONTRACT_VERSION :: string where "RUN_CONTRACT_VERSION = ''1.0.0''"
definition SNAPSHOT_VERSION :: string where "SNAPSHOT_VERSION = ''1.0.0''"
definition BENCHMARK_PROFILE_KIND :: string where "BENCHMARK_PROFILE_KIND = ''BenchmarkJob''"
definition BENCHMARK_TELEMETRY_SCOPE :: string where "BENCHMARK_TELEMETRY_SCOPE = ''benchmark''"
definition BENCHMARK_ARTIFACT_PREFIX :: string where "BENCHMARK_ARTIFACT_PREFIX = ''qfs://benchmarks''"

datatype run_state = PENDING | PREPARING | RUNNING | SUCCEEDED | FAILED | CANCELLED

fun run_state_value :: "run_state \<Rightarrow> string" where
  "run_state_value PENDING = ''PENDING''"
| "run_state_value PREPARING = ''PREPARING''"
| "run_state_value RUNNING = ''RUNNING''"
| "run_state_value SUCCEEDED = ''SUCCEEDED''"
| "run_state_value FAILED = ''FAILED''"
| "run_state_value CANCELLED = ''CANCELLED''"

text \<open>How a state appears in a formatted string.\<close>

definition show_state :: "run_state \<Rightarrow> string" where
  "show_state st = ''RunState.'' @ run_state_value st"

fun ALLOWED_TRANSITIONS :: "run_state \<Rightarrow> run_state list" where
  "ALLOWED_TRANSITIONS PENDING = [PREPARING, CANCELLED]"
| "ALLOWED_TRANSITIONS PREPARING = [RUNNING, FAILED, CANCELLED]"
| "ALLOWED_TRANSITIONS RUNNING = [SUCCEEDED, FAILED, CANCELLED]"
| "ALLOWED_TRANSITIONS SUCCEEDED = []"
| "ALLOWED_TRANSITIONS FAILED = []"
| "ALLOWED_TRANSITIONS CANCELLED = []"

record run_snapshot =
  sn_contract_version :: string
  sn_snapshot_version :: string
  sn_run_id :: string
  sn_request_hash :: string
  sn_measurement_digest :: string
  sn_created_at :: string
  sn_payload :: string
  sn_execution_context :: "(string, pyval) dict"
  sn_artifacts :: "(string, pyval) dict"

record benchmark_run =
  br_run_id :: string
  br_parent :: "string option"
  br_state :: run_state
  br_contract_version :: string
  br_idempotency_key :: string
  br_snapshot :: run_snapshot

text \<open>\<open>kb_log\<close> holds what was sent to the knowledge base, oldest first, if there is a sink.\<close>

record run_service =
  rs_runs :: "(string, benchmark_run) dict"
  rs_start_index :: "(string, string) dict"
  rs_retry_index :: "(string \<times> string, string) dict"
  rs_has_sink :: bool
  rs_kb_log :: "pyval list"

definition new_service :: "bool \<Rightarrow> run_service" where
  "new_service sink = \<lparr>rs_runs = [], rs_start_index = [], rs_retry_index = [], rs_has_sink = sink, rs_kb_log = []\<rparr>"

record bench_platform =
  bp_str :: "pyval \<Rightarrow> string"
  bp_int_of_float :: "string \<Rightarrow> int option"
  bp_sha256 :: "string \<Rightarrow> string"

datatype run_error = RunTransitionError string | RunPy pyexn

type_synonym 'a rres = "(run_error, 'a) result"

section \<open>Snapshots\<close>

text \<open>\<open>str(v)\<close> and \<open>int(v)\<close>.\<close>

definition to_str :: "bench_platform \<Rightarrow> pyval \<Rightarrow> string" where
  "to_str bp v = (case v of PStr s \<Rightarrow> s | PInt i \<Rightarrow> show_int i | _ \<Rightarrow> bp_str bp v)"

definition to_int :: "bench_platform \<Rightarrow> pyval \<Rightarrow> int rres" where
  "to_int bp v = (case v of
       PInt i \<Rightarrow> Inr i
     | PBool b \<Rightarrow> Inr (if b then 1 else 0)
     | PFloat f \<Rightarrow> (case bp_int_of_float bp f of Some i \<Rightarrow> Inr i | None \<Rightarrow> Inl (RunPy (if f = ''nan'' then ValueError ''cannot convert float NaN to integer'' else OverflowError)))
     | PStr s \<Rightarrow> (case py_int s of Some i \<Rightarrow> Inr i | None \<Rightarrow> Inl (RunPy (ValueError ''invalid literal for int()'')))
     | _ \<Rightarrow> Inl (RunPy TypeError))"

text \<open>\<open>str(config.get("target") or config.get("backend") or "")\<close>.\<close>

definition config_target :: "bench_platform \<Rightarrow> (string, pyval) dict \<Rightarrow> string" where
  "config_target bp config =
     (let t = vget config ''target''; b = vget config ''backend'' in
      if truthy t then to_str bp t else if truthy b then to_str bp b else [])"

definition config_str :: "bench_platform \<Rightarrow> (string, pyval) dict \<Rightarrow> string \<Rightarrow> string" where
  "config_str bp config k = to_str bp (dget_or config k (PStr []))"

definition execution_context :: "bench_platform \<Rightarrow> (string, pyval) dict \<Rightarrow> int \<Rightarrow> (string, pyval) dict" where
  "execution_context bp config seed =
     (let target = config_target bp config; backend = config_str bp config ''backend'' in
      [(''profile_kind'', PStr BENCHMARK_PROFILE_KIND), (''profile_version'', PStr RUN_CONTRACT_VERSION),
       (''dataset'', PStr (config_str bp config ''dataset'')),
       (''dataset_version'', PStr (config_str bp config ''dataset_version'')),
       (''backend'', PStr backend), (''target'', PStr target), (''seed'', PInt seed),
       (''selection_policy'', PStr (if target = backend then ''backend_locked'' else ''explicit_target'')),
       (''trace_scope'', PStr BENCHMARK_TELEMETRY_SCOPE), (''telemetry_scope'', PStr BENCHMARK_TELEMETRY_SCOPE)])"

text \<open>The entries of the execution context that identify the request.\<close>

definition request_entries :: "(string, pyval) dict \<Rightarrow> (string, pyval) dict" where
  "request_entries ec = map (\<lambda>k. (k, vget ec k)) [''dataset'', ''dataset_version'', ''backend'', ''target'', ''seed'']"

definition create_run ::
  "bench_platform \<Rightarrow> string \<Rightarrow> string \<Rightarrow> string option \<Rightarrow> string \<Rightarrow> (string, pyval) dict \<Rightarrow> benchmark_run rres" where
  "create_run bp now run_id parent key config =
     rbind (to_int bp (dget_or config ''seed'' (PInt 0))) (\<lambda>seed.
       (let ec = execution_context bp config seed;
            payload = canonical_text (PDict (request_entries ec));
            request_hash = bp_sha256 bp payload;
            digest = bp_sha256 bp (canonical_text (PDict ec));
            prefix = BENCHMARK_ARTIFACT_PREFIX @ ''/'' @ run_id;
            artifacts =
              [(''metrics_artifact_ref'', PStr (prefix @ ''/metrics/summary.json'')),
               (''metrics_artifact_digest'', PStr digest),
               (''lineage_ref'', PStr (prefix @ ''/lineage.json'')),
               (''telemetry_ref'', PStr (prefix @ ''/telemetry/isolated.jsonl'')),
               (''normalized_metrics'', PDict (request_entries ec @ [(''request_hash'', PStr request_hash)]))]
        in Inr \<lparr>br_run_id = run_id, br_parent = parent, br_state = PENDING,
                br_contract_version = RUN_CONTRACT_VERSION, br_idempotency_key = key,
                br_snapshot =
                  \<lparr>sn_contract_version = RUN_CONTRACT_VERSION, sn_snapshot_version = SNAPSHOT_VERSION,
                   sn_run_id = run_id, sn_request_hash = request_hash, sn_measurement_digest = digest,
                   sn_created_at = now, sn_payload = payload, sn_execution_context = ec, sn_artifacts = artifacts\<rparr>\<rparr>))"

definition stable_run_id :: "bench_platform \<Rightarrow> string \<Rightarrow> string \<Rightarrow> (string, pyval) dict \<Rightarrow> string rres" where
  "stable_run_id bp scope key payload =
     (case json_dumps True (PDict payload) of
        Inl e \<Rightarrow> Inl (RunPy e)
      | Inr normalized \<Rightarrow> Inr (''run_'' @ take 16 (bp_sha256 bp (scope @ '':'' @ key @ '':'' @ normalized))))"

section \<open>Knowledge base records\<close>

definition opt_val :: "string option \<Rightarrow> pyval" where
  "opt_val v = (case v of None \<Rightarrow> PNone | Some s \<Rightarrow> PStr s)"

definition opt_text :: "string option \<Rightarrow> string" where
  "opt_text v = (case v of None \<Rightarrow> [] | Some s \<Rightarrow> s)"

text \<open>\<open>run.parent_run_id or source_run_id\<close>.\<close>

definition parent_or_source :: "string option \<Rightarrow> string option \<Rightarrow> string option" where
  "parent_or_source parent source = (if opt_text parent \<noteq> [] then parent else source)"

definition kb_record :: "(string, benchmark_run) dict \<Rightarrow> benchmark_run \<Rightarrow> string \<Rightarrow> string option \<Rightarrow> string option \<Rightarrow> pyval" where
  "kb_record runs run kind source_run_id retry_key =
     (let sn = br_snapshot run;
          source_digest = (case source_run_id of
              None \<Rightarrow> sn_measurement_digest sn
            | Some s \<Rightarrow> (case dget runs s of None \<Rightarrow> sn_measurement_digest sn
                         | Some src \<Rightarrow> sn_measurement_digest (br_snapshot src)));
          st = PStr (run_state_value (br_state run));
          prefix = BENCHMARK_ARTIFACT_PREFIX @ ''/'' @ br_run_id run
      in PDict
        [(''contract_version'', PStr RUN_CONTRACT_VERSION), (''record_id'', PStr (''benchmark:'' @ br_run_id run)),
         (''run_id'', PStr (br_run_id run)), (''job_id'', PStr (br_run_id run)),
         (''parent_run_id'', opt_val (parent_or_source (br_parent run) source_run_id)),
         (''idempotency_key'', PStr (br_idempotency_key run)), (''state'', st),
         (''request_hash'', PStr (sn_request_hash sn)), (''measurement_digest'', PStr source_digest),
         (''created_at'', PStr (sn_created_at sn)), (''trace_id'', PStr (''trace_'' @ take 8 (br_run_id run))),
         (''trace_scope'', PStr BENCHMARK_TELEMETRY_SCOPE), (''tenant_id'', PStr ''tenant-default''),
         (''project_id'', PStr ''project-default''), (''replay_bundle_ref'', PStr (prefix @ ''/replay_bundle.json'')),
         (''attributes'', PDict
           [(''kind'', PStr kind), (''scope'', PStr BENCHMARK_TELEMETRY_SCOPE),
            (''source_run_id'', PStr (opt_text source_run_id)), (''retry_key'', PStr (opt_text retry_key)),
            (''request_hash'', PStr (sn_request_hash sn)), (''measurement_digest'', PStr (sn_measurement_digest sn)),
            (''state'', st), (''workload_kind'', PStr BENCHMARK_PROFILE_KIND)]),
         (''provenance'', PDict
           [(''runtime_ref'', PStr (prefix @ ''/runtime.json'')), (''checkpoint_ref'', PStr (prefix @ ''/checkpoint.json'')),
            (''compiler_ref'', PStr []), (''optimizer_ref'', PStr [])]),
         (''lineage'', PDict
           [(''model_version'', PStr RUN_CONTRACT_VERSION), (''training_set_hash'', PStr (sn_request_hash sn)),
            (''evaluation_bundle_hash'', PStr source_digest), (''promotion_policy_version'', PStr RUN_CONTRACT_VERSION),
            (''promotion_outcome'', st)]),
         (''execution_context'', PDict (sn_execution_context sn)), (''artifacts'', PDict (sn_artifacts sn))])"

definition emit_kb_record ::
  "benchmark_run \<Rightarrow> string \<Rightarrow> string option \<Rightarrow> string option \<Rightarrow> run_service \<Rightarrow> run_service" where
  "emit_kb_record run kind source_run_id retry_key s =
     (if \<not> rs_has_sink s then s
      else s\<lparr>rs_kb_log := rs_kb_log s @ [kb_record (rs_runs s) run kind source_run_id retry_key]\<rparr>)"

section \<open>Operations\<close>

definition run_at :: "run_service \<Rightarrow> string \<Rightarrow> benchmark_run rres" where
  "run_at s i = (case dget (rs_runs s) i of None \<Rightarrow> Inl (RunPy (KeyError i)) | Some run \<Rightarrow> Inr run)"

text \<open>An operation returns the service after it and the run or the error.\<close>

definition fail_run :: "run_service \<Rightarrow> run_error \<Rightarrow> run_service \<times> benchmark_run rres" where
  "fail_run s e = (s, Inl e)"

definition start_run ::
  "bench_platform \<Rightarrow> string \<Rightarrow> string \<Rightarrow> (string, pyval) dict \<Rightarrow> run_service \<Rightarrow> run_service \<times> benchmark_run rres" where
  "start_run bp now key config s =
     (case dget (rs_start_index s) key of
        Some existing \<Rightarrow> (s, run_at s existing)
      | None \<Rightarrow>
          (case rbind (stable_run_id bp ''start'' key config) (\<lambda>run_id.
                  create_run bp now run_id None key config) of
             Inl e \<Rightarrow> fail_run s e
           | Inr run \<Rightarrow>
               (emit_kb_record run ''start'' None None
                  (s\<lparr>rs_runs := dset (br_run_id run) run (rs_runs s),
                     rs_start_index := dset key (br_run_id run) (rs_start_index s)\<rparr>), Inr run)))"

definition retry_run ::
  "bench_platform \<Rightarrow> string \<Rightarrow> string \<Rightarrow> string \<Rightarrow> run_service \<Rightarrow> run_service \<times> benchmark_run rres" where
  "retry_run bp now run_id retry_key s =
     (case dget (rs_runs s) run_id of
        None \<Rightarrow> fail_run s (RunPy (KeyError run_id))
      | Some source_run \<Rightarrow>
          (if br_state source_run \<notin> {FAILED, CANCELLED}
           then fail_run s (RunTransitionError (''retry is allowed only from FAILED/CANCELLED, got '' @ show_state (br_state source_run)))
           else case dget (rs_retry_index s) (run_id, retry_key) of
             Some existing \<Rightarrow> (s, run_at s existing)
           | None \<Rightarrow>
               (let retry_config = request_entries (sn_execution_context (br_snapshot source_run)) in
                case rbind (stable_run_id bp ''retry'' retry_key retry_config) (\<lambda>retry_run_id.
                       create_run bp now retry_run_id (Some run_id) retry_key retry_config) of
                  Inl e \<Rightarrow> fail_run s e
                | Inr run \<Rightarrow>
                    (emit_kb_record run ''retry'' (Some run_id) (Some retry_key)
                       (s\<lparr>rs_runs := dset (br_run_id run) run (rs_runs s),
                          rs_retry_index := dset (run_id, retry_key) (br_run_id run) (rs_retry_index s)\<rparr>), Inr run))))"

definition transition :: "string \<Rightarrow> run_state \<Rightarrow> run_service \<Rightarrow> run_service \<times> benchmark_run rres" where
  "transition run_id new_state s =
     (case dget (rs_runs s) run_id of
        None \<Rightarrow> fail_run s (RunPy (KeyError run_id))
      | Some run \<Rightarrow>
          (if new_state \<notin> set (ALLOWED_TRANSITIONS (br_state run))
           then fail_run s (RunTransitionError (''transition '' @ show_state (br_state run) @ '' -> ''
             @ show_state new_state @ '' is forbidden in '' @ RUN_CONTRACT_VERSION))
           else
             (let run' = run\<lparr>br_state := new_state\<rparr>
              in (emit_kb_record run' ''transition'' (Some run_id) None (s\<lparr>rs_runs := dset run_id run' (rs_runs s)\<rparr>), Inr run'))))"

definition get_run :: "string \<Rightarrow> run_service \<Rightarrow> benchmark_run rres" where
  "get_run run_id s = run_at s run_id"

definition list_runs :: "run_service \<Rightarrow> benchmark_run list" where
  "list_runs s = dvalues (rs_runs s)"

section \<open>The run API\<close>

record api_error =
  ae_code :: string
  ae_field :: string
  ae_message :: string

definition nonblank_str :: "pyval \<Rightarrow> bool" where
  "nonblank_str v = (case v of PStr s \<Rightarrow> \<not> blank s | _ \<Rightarrow> False)"

definition required :: "string \<Rightarrow> string \<Rightarrow> api_error" where
  "required field msg = \<lparr>ae_code = ''field_required'', ae_field = field, ae_message = msg\<rparr>"

definition config_field_errors :: "(string, pyval) dict \<Rightarrow> string \<Rightarrow> api_error list" where
  "config_field_errors config field =
     (let value = vget config field; name = ''config.'' @ field in
      if field = ''seed''
      then (case value of PInt _ \<Rightarrow> [] | _ \<Rightarrow> [required name ''config.seed is required and must be an integer seed''])
      else if nonblank_str value then []
      else [required name (name @ '' is required and must be a non-empty string'')])"

definition target_errors :: "(string, pyval) dict \<Rightarrow> api_error list" where
  "target_errors config =
     (let target = vget config ''target'' in
      (if target \<noteq> PNone \<and> \<not> nonblank_str target
       then [\<lparr>ae_code = ''invalid_value'', ae_field = ''config.target'',
              ae_message = ''config.target must be a non-empty string when provided''\<rparr>] else [])
      @ (case (target, vget config ''backend'') of
           (PStr t, PStr b) \<Rightarrow>
             (if py_strip t \<noteq> py_strip b
              then [\<lparr>ae_code = ''failed_precondition'', ae_field = ''config.target'',
                     ae_message = ''config.target must match config.backend when explicitly set''\<rparr>] else [])
         | _ \<Rightarrow> []))"

definition validate_run_request :: "(string, pyval) dict \<Rightarrow> api_error list" where
  "validate_run_request request =
     (if nonblank_str (vget request ''idempotency_key'') then []
      else [required ''idempotency_key'' ''idempotency_key is required and must be a non-empty string''])
     @ (case vget request ''config'' of
          PDict config \<Rightarrow>
            (if config = [] then [required ''config'' ''config is required and must be a non-empty object'']
             else concat (map (config_field_errors config) [''dataset'', ''dataset_version'', ''backend'', ''seed''])
               @ target_errors config)
        | _ \<Rightarrow> [required ''config'' ''config is required and must be a non-empty object''])"

definition run_response :: "benchmark_run \<Rightarrow> pyval" where
  "run_response run =
     (let sn = br_snapshot run in PDict
       [(''api_version'', PStr ''1.0.0''),
        (''run'', PDict
          [(''run_id'', PStr (br_run_id run)), (''workload_kind'', PStr BENCHMARK_PROFILE_KIND),
           (''state'', PStr (run_state_value (br_state run))), (''state_contract_version'', PStr (br_contract_version run)),
           (''parent_run_id'', opt_val (br_parent run)), (''idempotency_key'', PStr (br_idempotency_key run))]),
        (''snapshot'', PDict
          [(''contract_version'', PStr (sn_contract_version sn)), (''snapshot_version'', PStr (sn_snapshot_version sn)),
           (''history_entry_version'', PStr ''1.0.0''), (''run_id'', PStr (sn_run_id sn)),
           (''request_hash'', PStr (sn_request_hash sn)), (''created_at'', PStr (sn_created_at sn)),
           (''payload'', PStr (sn_payload sn)), (''measurement_digest'', PStr (sn_measurement_digest sn)),
           (''execution_context'', PDict (sn_execution_context sn)), (''artifacts'', PDict (sn_artifacts sn))]),
        (''execution_context'', PDict (sn_execution_context sn)), (''artifacts'', PDict (sn_artifacts sn))])"

text \<open>\<open>BenchmarkRunApi.run\<close>: the errors of an invalid request, or what \<open>start_run\<close> does.\<close>

datatype api_failure = RequestInvalid "api_error list" | ServiceError run_error

definition run_benchmark ::
  "bench_platform \<Rightarrow> string \<Rightarrow> (string, pyval) dict \<Rightarrow> run_service \<Rightarrow> run_service \<times> (api_failure, pyval) result" where
  "run_benchmark bp now request s =
     (let errors = validate_run_request request in
      if errors \<noteq> [] then (s, Inl (RequestInvalid errors))
      else case (vget request ''idempotency_key'', vget request ''config'') of
        (PStr key, PDict config) \<Rightarrow>
          (case start_run bp now key config s of
             (s', Inl e) \<Rightarrow> (s', Inl (ServiceError e))
           | (s', Inr run) \<Rightarrow> (s', Inr (run_response run)))
      | _ \<Rightarrow> (s, Inl (ServiceError (RunPy TypeError))))"

definition run_error_envelope :: "api_error list \<Rightarrow> pyval" where
  "run_error_envelope errors = PDict [(''error'', PDict
     [(''code'', PStr ''INVALID_ARGUMENT''), (''message'', PStr ''benchmark run request validation failed''),
      (''details'', PList (map (\<lambda>e. PDict [(''code'', PStr (ae_code e)), (''field'', PStr (ae_field e)),
         (''message'', PStr (ae_message e))]) errors))])]"

section \<open>Invariant\<close>

text \<open>A snapshot is what \<open>create_run\<close> makes of a configuration: the payload and the digests fit the context.\<close>

definition snapshot_ok :: "bench_platform \<Rightarrow> run_snapshot \<Rightarrow> bool" where
  "snapshot_ok bp sn \<longleftrightarrow>
     sn_payload sn = canonical_text (PDict (request_entries (sn_execution_context sn)))
     \<and> sn_request_hash sn = bp_sha256 bp (sn_payload sn)
     \<and> sn_measurement_digest sn = bp_sha256 bp (canonical_text (PDict (sn_execution_context sn)))
     \<and> (\<exists>config seed. sn_execution_context sn = execution_context bp config seed)"

definition run_ok :: "bench_platform \<Rightarrow> (string, benchmark_run) dict \<Rightarrow> string \<Rightarrow> benchmark_run \<Rightarrow> bool" where
  "run_ok bp runs i run \<longleftrightarrow> br_run_id run = i \<and> sn_run_id (br_snapshot run) = i \<and> snapshot_ok bp (br_snapshot run)
     \<and> (\<forall>p. br_parent run = Some p \<longrightarrow> dhas runs p)"

definition service_inv :: "bench_platform \<Rightarrow> run_service \<Rightarrow> bool" where
  "service_inv bp s \<longleftrightarrow> wf_dict (rs_runs s)
     \<and> (\<forall>i run. dget (rs_runs s) i = Some run \<longrightarrow> run_ok bp (rs_runs s) i run)
     \<and> (\<forall>k i. dget (rs_start_index s) k = Some i \<longrightarrow> dhas (rs_runs s) i)
     \<and> (\<forall>k i. dget (rs_retry_index s) k = Some i \<longrightarrow> dhas (rs_runs s) i)"

lemma create_run_ok:
  assumes "create_run bp now i parent key config = Inr run"
  shows "br_run_id run = i" "br_parent run = parent" "br_state run = PENDING" "br_idempotency_key run = key"
    "sn_run_id (br_snapshot run) = i" "snapshot_ok bp (br_snapshot run)"
    "\<exists>seed. to_int bp (dget_or config ''seed'' (PInt 0)) = Inr seed \<and> sn_execution_context (br_snapshot run) = execution_context bp config seed"
proof -
  obtain seed where seed: "to_int bp (dget_or config ''seed'' (PInt 0)) = Inr seed"
    using assms by (auto simp: create_run_def rbind_eq_Inr)
  show "br_run_id run = i" "br_parent run = parent" "br_state run = PENDING" "br_idempotency_key run = key"
    "sn_run_id (br_snapshot run) = i"
    "\<exists>seed. to_int bp (dget_or config ''seed'' (PInt 0)) = Inr seed \<and> sn_execution_context (br_snapshot run) = execution_context bp config seed"
    using assms seed by (auto simp: create_run_def Let_def)
  have "sn_execution_context (br_snapshot run) = execution_context bp config seed"
    using assms seed by (auto simp: create_run_def Let_def)
  then show "snapshot_ok bp (br_snapshot run)"
    using assms seed unfolding snapshot_ok_def by (auto simp: create_run_def Let_def)
qed

lemma emit_same [simp]:
  "rs_runs (emit_kb_record run kind src rk s) = rs_runs s" "rs_start_index (emit_kb_record run kind src rk s) = rs_start_index s"
  "rs_retry_index (emit_kb_record run kind src rk s) = rs_retry_index s"
  by (simp_all add: emit_kb_record_def)

lemma new_service_inv: "service_inv bp (new_service sink)"
  by (simp add: service_inv_def new_service_def)

text \<open>Storing a run keeps the invariant when the run is well formed.\<close>

lemma store_run_inv:
  assumes "service_inv bp s" "run_ok bp (dset i run (rs_runs s)) i run"
    and "rs_runs s' = dset i run (rs_runs s)"
    and "\<And>k j. dget (rs_start_index s') k = Some j \<Longrightarrow> j = i \<or> dhas (rs_runs s) j"
    and "\<And>k j. dget (rs_retry_index s') k = Some j \<Longrightarrow> j = i \<or> dhas (rs_runs s) j"
  shows "service_inv bp s'"
  unfolding service_inv_def
proof (intro conjI allI impI)
  show "wf_dict (rs_runs s')" using assms(1,3) by (simp add: service_inv_def distinct_update)
  show "run_ok bp (rs_runs s') j r" if "dget (rs_runs s') j = Some r" for j r
    using that assms(1,2,3) by (auto simp: service_inv_def run_ok_def split: if_splits)
  show "dhas (rs_runs s') j" if "dget (rs_start_index s') k = Some j" for k j
    using assms(3,4) that by auto
  show "dhas (rs_runs s') j" if "dget (rs_retry_index s') k = Some j" for k j
    using assms(3,5) that by auto
qed

lemma start_run_new:
  assumes "dget (rs_start_index s) key = None" "start_run bp now key config s = (s', Inr run)"
  shows "\<exists>i. stable_run_id bp ''start'' key config = Inr i \<and> create_run bp now i None key config = Inr run
    \<and> rs_runs s' = dset i run (rs_runs s) \<and> rs_start_index s' = dset key i (rs_start_index s) \<and> rs_retry_index s' = rs_retry_index s"
  using assms by (auto simp: start_run_def fail_run_def rbind_eq_Inr create_run_ok(1) split: sum.splits)

lemma start_run_fails: "start_run bp now key config s = (s', Inl e) \<Longrightarrow> s' = s"
  by (auto simp: start_run_def fail_run_def split: option.splits sum.splits)

lemma start_run_inv:
  assumes "service_inv bp s" shows "service_inv bp (fst (start_run bp now key config s))"
proof (cases "start_run bp now key config s")
  case (Pair s' out)
  show ?thesis
  proof (cases "dget (rs_start_index s) key")
    case (Some i)
    then show ?thesis using assms by (simp add: start_run_def)
  next
    case None
    show ?thesis
    proof (cases out)
      case (Inl e)
      then show ?thesis using Pair start_run_fails assms by fastforce
    next
      case (Inr run)
      then obtain i where i: "create_run bp now i None key config = Inr run" "rs_runs s' = dset i run (rs_runs s)"
          "rs_start_index s' = dset key i (rs_start_index s)" "rs_retry_index s' = rs_retry_index s"
        using start_run_new [OF None] Pair by blast
      have "service_inv bp s'"
        using assms i create_run_ok [OF i(1)]
        by (intro store_run_inv [OF assms, of i run]) (auto simp: run_ok_def service_inv_def split: if_splits)
      then show ?thesis using Pair by simp
    qed
  qed
qed

lemma retry_run_new:
  assumes "dget (rs_retry_index s) (i, k) = None" "retry_run bp now i k s = (s', Inr run)"
  shows "\<exists>src j. dget (rs_runs s) i = Some src \<and> br_state src \<in> {FAILED, CANCELLED}
    \<and> stable_run_id bp ''retry'' k (request_entries (sn_execution_context (br_snapshot src))) = Inr j
    \<and> create_run bp now j (Some i) k (request_entries (sn_execution_context (br_snapshot src))) = Inr run
    \<and> rs_runs s' = dset j run (rs_runs s) \<and> rs_start_index s' = rs_start_index s
    \<and> rs_retry_index s' = dset (i, k) j (rs_retry_index s)"
  using assms by (auto simp: retry_run_def fail_run_def Let_def rbind_eq_Inr create_run_ok(1) split: sum.splits option.splits if_splits)

lemma retry_run_fails: "retry_run bp now i k s = (s', Inl e) \<Longrightarrow> s' = s"
  by (auto simp: retry_run_def fail_run_def Let_def split: option.splits sum.splits if_splits)

lemma retry_run_inv:
  assumes "service_inv bp s" shows "service_inv bp (fst (retry_run bp now i k s))"
proof (cases "retry_run bp now i k s")
  case (Pair s' out)
  show ?thesis
  proof (cases out)
    case (Inl e)
    then show ?thesis using Pair retry_run_fails assms by fastforce
  next
    case (Inr run)
    show ?thesis
    proof (cases "dget (rs_retry_index s) (i, k)")
      case (Some j)
      then have "s' = s" using Pair by (auto simp: retry_run_def fail_run_def split: option.splits if_splits)
      then show ?thesis using Pair assms by simp
    next
      case None
      then obtain src j where j: "dget (rs_runs s) i = Some src"
          "create_run bp now j (Some i) k (request_entries (sn_execution_context (br_snapshot src))) = Inr run"
          "rs_runs s' = dset j run (rs_runs s)" "rs_start_index s' = rs_start_index s"
          "rs_retry_index s' = dset (i, k) j (rs_retry_index s)"
        using retry_run_new [OF None] Pair Inr by blast
      have "service_inv bp s'"
        using assms j create_run_ok [OF j(2)]
        by (intro store_run_inv [OF assms, of j run]) (auto simp: run_ok_def service_inv_def dhas_def split: if_splits)
      then show ?thesis using Pair by simp
    qed
  qed
qed

lemma transition_Inr:
  assumes "transition i st s = (s', Inr run')"
  shows "\<exists>run. dget (rs_runs s) i = Some run \<and> st \<in> set (ALLOWED_TRANSITIONS (br_state run)) \<and> run' = run\<lparr>br_state := st\<rparr>
    \<and> rs_runs s' = dset i run' (rs_runs s) \<and> rs_start_index s' = rs_start_index s \<and> rs_retry_index s' = rs_retry_index s"
  using assms by (auto simp: transition_def fail_run_def Let_def split: option.splits if_splits)

lemma transition_fails: "transition i st s = (s', Inl e) \<Longrightarrow> s' = s"
  by (auto simp: transition_def fail_run_def Let_def split: option.splits if_splits)

lemma transition_inv:
  assumes "service_inv bp s" shows "service_inv bp (fst (transition i st s))"
proof (cases "transition i st s")
  case (Pair s' out)
  show ?thesis
  proof (cases out)
    case (Inl e)
    then show ?thesis using Pair transition_fails assms by fastforce
  next
    case (Inr run')
    then obtain run where "dget (rs_runs s) i = Some run" "run' = run\<lparr>br_state := st\<rparr>" "rs_runs s' = dset i run' (rs_runs s)"
        "rs_start_index s' = rs_start_index s" "rs_retry_index s' = rs_retry_index s"
      using transition_Inr Pair by blast
    then have "service_inv bp s'"
      using assms by (intro store_run_inv [OF assms, of i run']) (auto simp: run_ok_def service_inv_def)
    then show ?thesis using Pair by simp
  qed
qed

inductive service_step :: "bench_platform \<Rightarrow> run_service \<Rightarrow> run_service \<Rightarrow> bool" for bp where
  start: "service_step bp s (fst (start_run bp now key config s))"
| retry: "service_step bp s (fst (retry_run bp now i k s))"
| transit: "service_step bp s (fst (transition i st s))"

lemma service_step_inv: "service_inv bp s \<Longrightarrow> service_step bp s s' \<Longrightarrow> service_inv bp s'"
  by (erule service_step.cases) (auto intro: start_run_inv retry_run_inv transition_inv)

interpretation benchmark_runs: invariant_system "\<lambda>s. \<exists>sink. s = new_service sink" "service_step bp" "service_inv bp" for bp
  using new_service_inv service_step_inv by unfold_locales auto

text \<open>An entry of the start index is never changed, whatever happens to the runs.\<close>

lemma start_index_step:
  assumes "service_step bp s s'" "dget (rs_start_index s) key = Some i"
  shows "dget (rs_start_index s') key = Some i"
  using assms
proof (cases rule: service_step.cases)
  case (start now key' config)
  show ?thesis
  proof (cases "dget (rs_start_index s) key'")
    case (Some j)
    then show ?thesis using start assms(2) by (simp add: start_run_def)
  next
    case None
    then show ?thesis using start assms(2) start_run_new [OF None, of bp now config s'] start_run_fails [of bp now key' config s s']
      by (cases "start_run bp now key' config s"; cases "snd (start_run bp now key' config s)") auto
  qed
next
  case (retry now i' k)
  then show ?thesis using assms(2)
    by (auto simp: retry_run_def fail_run_def Let_def split: option.splits if_splits sum.splits)
next
  case (transit i' st)
  then show ?thesis using assms(2)
    by (auto simp: transition_def fail_run_def Let_def split: option.splits if_splits)
qed

lemma start_index_reach:
  "(service_step bp)\<^sup>*\<^sup>* s s' \<Longrightarrow> dget (rs_start_index s) key = Some i \<Longrightarrow> dget (rs_start_index s') key = Some i"
  by (induction rule: rtranclp_induct) (auto intro: start_index_step)

section \<open>The five fields of a request\<close>

lemma request_entries_vget [simp]:
  "vget (request_entries ec) ''dataset'' = vget ec ''dataset''" "vget (request_entries ec) ''dataset_version'' = vget ec ''dataset_version''"
  "vget (request_entries ec) ''backend'' = vget ec ''backend''" "vget (request_entries ec) ''target'' = vget ec ''target''"
  "vget (request_entries ec) ''seed'' = vget ec ''seed''"
  by (simp_all add: request_entries_def)

lemma request_entries_ec:
  "request_entries (execution_context bp config seed) =
     [(''dataset'', PStr (config_str bp config ''dataset'')), (''dataset_version'', PStr (config_str bp config ''dataset_version'')),
      (''backend'', PStr (config_str bp config ''backend'')), (''target'', PStr (config_target bp config)), (''seed'', PInt seed)]"
  by (simp add: request_entries_def execution_context_def Let_def)

lemma request_entries_wf: "wf_json (PDict (request_entries (execution_context bp config seed)))"
  by (simp add: request_entries_ec)

lemma retry_seed: "to_int bp (dget_or (request_entries (execution_context bp config seed)) ''seed'' (PInt 0)) = Inr seed"
  by (simp add: request_entries_ec dget_or_def to_int_def)

text \<open>A retry asks for what its source asked for.\<close>

lemma retry_same_entries:
  assumes "config_target bp config \<noteq> []"
  shows "request_entries (execution_context bp (request_entries (execution_context bp config seed)) seed) =
    request_entries (execution_context bp config seed)"
proof -
  let ?e = "request_entries (execution_context bp config seed)"
  have "config_str bp ?e ''dataset'' = config_str bp config ''dataset''"
      "config_str bp ?e ''dataset_version'' = config_str bp config ''dataset_version''"
      "config_str bp ?e ''backend'' = config_str bp config ''backend''"
    by (simp_all add: request_entries_ec config_str_def dget_or_def to_str_def)
  moreover have "config_target bp ?e = config_target bp config"
    unfolding config_target_def [of bp ?e] using assms by (simp add: request_entries_ec to_str_def)
  ultimately show ?thesis by (simp only: request_entries_ec)
qed

lemma canon_entries:
  "canon (PDict (request_entries (execution_context bp config seed))) =
     PDict [(''backend'', PStr (config_str bp config ''backend'')), (''dataset'', PStr (config_str bp config ''dataset'')),
            (''dataset_version'', PStr (config_str bp config ''dataset_version'')), (''seed'', PInt seed), (''target'', PStr (config_target bp config))]"
proof -
  have "sort_key fst (map (\<lambda>(k, v). (k, canon v))
      [(''dataset'', PStr a), (''dataset_version'', PStr b), (''backend'', PStr c), (''target'', PStr d), (''seed'', PInt e)]) =
    [(''backend'', PStr c), (''dataset'', PStr a), (''dataset_version'', PStr b), (''seed'', PInt e), (''target'', PStr d)]" for a b c d e
    by code_simp
  then show ?thesis unfolding request_entries_ec canon.simps by metis
qed

text \<open>The payload of a snapshot reads back as the five fields.\<close>

lemma snapshot_payload_loads:
  assumes "snapshot_ok bp sn"
  shows "json_loads (sn_payload sn) = Some (canon (PDict (request_entries (sn_execution_context sn))))"
  using assms json.dec_enc [OF request_entries_wf] by (auto simp: snapshot_ok_def)

end
