(* ===== verification/PyBase64.thy ===== *)
theory PyBase64
  imports Prelude
begin

text \<open>
  \<open>base64.urlsafe_b64encode\<close> and \<open>base64.urlsafe_b64decode\<close>, the latter as the state machine of
  \<open>binascii.a2b_base64\<close> in its non-strict mode: characters outside the alphabet are skipped, a complete
  padding ends the input, and an incomplete quadruple is an error. A byte string is a \<open>string\<close>.
\<close>

definition b64_char :: "nat \<Rightarrow> char" where
  "b64_char n = (if n < 26 then char_of (65 + n) else if n < 52 then char_of (71 + n)
     else if n < 62 then char_of (n - 4) else if n = 62 then CHR ''-'' else CHR ''_'')"

text \<open>The decoder first translates the two characters of the safe alphabet, and so accepts both alphabets.\<close>

definition b64_val :: "char \<Rightarrow> nat option" where
  "b64_val c = (let n = of_char c :: nat in
     if 65 \<le> n \<and> n \<le> 90 then Some (n - 65)
     else if 97 \<le> n \<and> n \<le> 122 then Some (n - 71)
     else if 48 \<le> n \<and> n \<le> 57 then Some (n + 4)
     else if c = CHR ''-'' \<or> c = CHR ''+'' then Some 62
     else if c = CHR ''_'' \<or> c = CHR ''/'' then Some 63 else None)"

fun b64_encode :: "string \<Rightarrow> string" where
  "b64_encode [] = []"
| "b64_encode [a] = (let a = of_char a in [b64_char (a div 4), b64_char (a mod 4 * 16), CHR ''='', CHR ''=''])"
| "b64_encode [a, b] = (let a = of_char a; b = of_char b in
     [b64_char (a div 4), b64_char (a mod 4 * 16 + b div 16), b64_char (b mod 16 * 4), CHR ''=''])"
| "b64_encode (a # b # c # s) = (let a = of_char a; b = of_char b; c = of_char c in
     [b64_char (a div 4), b64_char (a mod 4 * 16 + b div 16), b64_char (b mod 16 * 4 + c div 64), b64_char (c mod 64)]
     @ b64_encode s)"

text \<open>\<open>q\<close> is the position in the quadruple, \<open>left\<close> the bits not yet written, \<open>pads\<close> the padding seen.\<close>

fun a2b :: "nat \<Rightarrow> nat \<Rightarrow> nat \<Rightarrow> string \<Rightarrow> string option" where
  "a2b q left pads [] = (if q = 0 then Some [] else None)"
| "a2b q left pads (c # cs) =
     (if c = CHR ''='' then
        (if 2 \<le> q \<and> 4 \<le> q + Suc pads then Some []
         else a2b q left (if 2 \<le> q then Suc pads else pads) cs)
      else case b64_val c of
        None \<Rightarrow> a2b q left pads cs
      | Some v \<Rightarrow>
          (if q = 0 then a2b 1 v 0 cs
           else if q = 1 then map_option (Cons (char_of (left * 4 + v div 16))) (a2b 2 (v mod 16) 0 cs)
           else if q = 2 then map_option (Cons (char_of (left * 16 + v div 4))) (a2b 3 (v mod 4) 0 cs)
           else map_option (Cons (char_of (left * 64 + v))) (a2b 0 0 0 cs)))"

definition b64_decode :: "string \<Rightarrow> string option" where
  "b64_decode s = a2b 0 0 0 s"

lemma b64_val_char: "n < 64 \<Longrightarrow> b64_val (b64_char n) = Some n"
  by (auto simp: b64_val_def b64_char_def Let_def)

lemma b64_char_ne: "n < 64 \<Longrightarrow> b64_char n \<noteq> CHR ''=''"
  using b64_val_char [of n] by (auto simp: b64_val_def)

lemma a2b_char:
  assumes "v < 64"
  shows "a2b q left pads (b64_char v # cs) =
     (if q = 0 then a2b 1 v 0 cs
      else if q = 1 then map_option (Cons (char_of (left * 4 + v div 16))) (a2b 2 (v mod 16) 0 cs)
      else if q = 2 then map_option (Cons (char_of (left * 16 + v div 4))) (a2b 3 (v mod 4) 0 cs)
      else map_option (Cons (char_of (left * 64 + v))) (a2b 0 0 0 cs))"
  using b64_char_ne [OF assms] b64_val_char [OF assms] by simp

lemma a2b_pad3: "a2b 0 0 0 ''==='' = Some []"
  by code_simp

lemma a2b_pads: "a2b 2 v 0 (CHR ''='' # CHR ''='' # cs) = Some []" "a2b 3 v 0 (CHR ''='' # cs) = Some []"
  by simp_all

declare a2b.simps(2) [simp del]

text \<open>Decoding what the encoder writes for three, two and one bytes.\<close>

lemma a2b_quad:
  assumes "u < 64" "v < 64" "w < 64" "x < 64"
  shows "a2b 0 0 0 (b64_char u # b64_char v # b64_char w # b64_char x # cs) =
      map_option (\<lambda>s. char_of (u * 4 + v div 16) # char_of (v mod 16 * 16 + w div 4) # char_of (w mod 4 * 64 + x) # s) (a2b 0 0 0 cs)"
    and "a2b 0 0 0 (b64_char u # b64_char v # b64_char w # CHR ''='' # cs) =
      Some [char_of (u * 4 + v div 16), char_of (v mod 16 * 16 + w div 4)]"
    and "a2b 0 0 0 (b64_char u # b64_char v # CHR ''='' # CHR ''='' # cs) = Some [char_of (u * 4 + v div 16)]"
  using assms by (simp_all add: a2b_char a2b_pads option.map_comp comp_def)

lemma byte_bound: "(of_char (c::char) :: nat) < 256"
  by (rule nat_of_char_less_256)

text \<open>The bits of the bytes are put together again.\<close>

lemma pack: "x < n \<Longrightarrow> (y * n + x) div n = y" "x < n \<Longrightarrow> (y * n + x) mod n = x" for x y n :: nat
proof -
  assume x: "x < n"
  then have n: "n \<noteq> 0" by simp
  show "(y * n + x) div n = y" unfolding div_mult_self3 [OF n] using x by simp
  show "(y * n + x) mod n = x" unfolding mod_mult_self3 using x by simp
qed

lemma rejoin1:
  fixes a :: nat
  assumes "a < 256"
  shows "a div 4 < 64" "a mod 4 * 16 < 64" "a mod 16 * 4 < 64" "a div 4 * 4 + a mod 4 * 16 div 16 = a"
proof -
  show "a div 4 < 64" using assms by (simp add: div_less_iff_less_mult)
  have "a mod 4 < 4" "a mod 16 < 16" by simp_all
  then show "a mod 4 * 16 < 64" "a mod 16 * 4 < 64" by linarith+
  show "a div 4 * 4 + a mod 4 * 16 div 16 = a" by simp
qed

lemma rejoin2:
  fixes a b :: nat
  assumes "b < 256"
  shows "a mod 4 * 16 + b div 16 < 64" "a mod 16 * 4 + b div 64 < 64" "a div 4 * 4 + (a mod 4 * 16 + b div 16) div 16 = a"
    "(a mod 4 * 16 + b div 16) mod 16 * 16 + b mod 16 * 4 div 4 = b" "(a mod 16 * 4 + b div 64) mod 4 * 64 + b mod 64 = b"
    "(a mod 4 * 16 + b div 16) mod 16 = b div 16" "(a mod 16 * 4 + b div 64) div 4 = a mod 16"
proof -
  have b: "b div 16 < 16" "b div 64 < 4" "a mod 4 < 4" "a mod 16 < 16" using assms by (simp_all add: div_less_iff_less_mult)
  then show "a mod 4 * 16 + b div 16 < 64" "a mod 16 * 4 + b div 64 < 64" by linarith+
  show "a div 4 * 4 + (a mod 4 * 16 + b div 16) div 16 = a" unfolding pack(1) [OF b(1)] by simp
  show "(a mod 4 * 16 + b div 16) mod 16 * 16 + b mod 16 * 4 div 4 = b" unfolding pack(2) [OF b(1)] by simp
  show "(a mod 16 * 4 + b div 64) mod 4 * 64 + b mod 64 = b" unfolding pack(2) [OF b(2)] by simp
  show "(a mod 4 * 16 + b div 16) mod 16 = b div 16" by (rule pack(2) [OF b(1)])
  show "(a mod 16 * 4 + b div 64) div 4 = a mod 16" by (rule pack(1) [OF b(2)])
qed

lemma b64_roundtrip: "b64_decode (b64_encode s @ ''==='') = Some s"
proof (induction s rule: b64_encode.induct)
  case 1
  show ?case by code_simp
next
  case (2 a)
  note r = rejoin1 [OF byte_bound [of a]]
  show ?case using a2b_quad(3) [OF r(1,2), of 0 0] r(4) by (simp add: b64_decode_def Let_def)
next
  case (3 a b)
  note r = rejoin1 [OF byte_bound [of a]] and r' = rejoin1 [OF byte_bound [of b]] and r2 = rejoin2 [OF byte_bound [of b], of "of_char a"]
  show ?case using a2b_quad(2) [OF r(1) r2(1) r'(3), of 0] r2(3,4) by (simp only: b64_decode_def b64_encode.simps Let_def append.simps) simp
next
  case (4 a b c s)
  note r = rejoin1 [OF byte_bound [of a]] and r2 = rejoin2 [OF byte_bound [of b], of "of_char a"] and r3 = rejoin2 [OF byte_bound [of c], of "of_char b"]
  have c: "(of_char c :: nat) mod 64 < 64" by simp
  have "b64_decode (b64_encode (a # b # c # s) @ ''==='') =
      map_option (\<lambda>s. a # b # c # s) (a2b 0 0 0 (b64_encode s @ ''===''))"
    unfolding b64_decode_def b64_encode.simps Let_def append.simps a2b_quad(1) [OF r(1) r2(1) r3(2) c] r2(3,6) r3(5,7)
    by (simp only: div_mult_mod_eq) simp
  then show ?case using 4 by (simp add: b64_decode_def)
qed

end
