(* ===== verification/BenchmarkHistory.thy ===== *)
theory BenchmarkHistory
  imports BenchmarkRuns PyBase64 "HOL-Library.Product_Lexorder"
begin

text \<open>
  The benchmark history API (\<open>benchmark_service/history_api.py\<close>): validation, selection and ordering of runs,
  cursor pagination, trends. \<open>datetime\<close> is a parameter: \<open>hp_fromiso\<close> is \<open>datetime.fromisoformat\<close> followed by
  the conversion to UTC and gives microseconds since the epoch or raises, \<open>hp_timestamp\<close> is \<open>timestamp()\<close>, a
  double in units of the least positive double (so an integer), \<open>hp_isoformat\<close> and \<open>hp_day\<close> print the time and
  its date; so are UTF-8 decoding and the division of floats.
\<close>

record history_platform =
  hp_fromiso :: "string \<Rightarrow> (pyexn, int) result"
  hp_timestamp :: "int \<Rightarrow> int"
  hp_isoformat :: "int \<Rightarrow> string"
  hp_day :: "int \<Rightarrow> string"
  hp_utf8 :: "string \<Rightarrow> string option"
  hp_div :: "int \<Rightarrow> int \<Rightarrow> string"

definition BENCHMARK_HISTORY_API_VERSION :: string where "BENCHMARK_HISTORY_API_VERSION = ''1.0.0''"
definition BENCHMARK_HISTORY_QUERY_VERSION :: string where "BENCHMARK_HISTORY_QUERY_VERSION = ''1.0.0''"
definition ORDERING_GUARANTEE :: string where "ORDERING_GUARANTEE = ''created_at_desc_run_id_asc''"

text \<open>The states in sorted order.\<close>

definition ALLOWED_STATES :: "string list" where
  "ALLOWED_STATES = map run_state_value [CANCELLED, FAILED, PENDING, PREPARING, RUNNING, SUCCEEDED]"

type_synonym 'a hres = "(pyexn, 'a) result"

definition is_value_error :: "pyexn \<Rightarrow> bool" where
  "is_value_error e = (case e of ValueError _ \<Rightarrow> True | _ \<Rightarrow> False)"

definition parse_iso8601 :: "history_platform \<Rightarrow> string \<Rightarrow> int hres" where
  "parse_iso8601 hp value = hp_fromiso hp (concat (map (\<lambda>c. if c = CHR ''Z'' then ''+00:00'' else [c]) value))"

section \<open>Cursors\<close>

definition encode_cursor :: "string \<Rightarrow> string \<Rightarrow> string" where
  "encode_cursor created_at run_id =
     b64_encode (canonical_text (PDict [(''created_at'', PStr created_at), (''run_id'', PStr run_id)]))"

definition bad_token :: "'a hres" where
  "bad_token = Inl (ValueError ''invalid page token'')"

definition decode_cursor :: "history_platform \<Rightarrow> string \<Rightarrow> (string \<times> string) hres" where
  "decode_cursor hp page_token =
     (case Option.bind (b64_decode (page_token @ ''==='')) (\<lambda>raw. Option.bind (hp_utf8 hp raw) json_loads) of
        Some (PDict payload) \<Rightarrow>
          (case (vget payload ''created_at'', vget payload ''run_id'') of
             (PStr created_at, PStr run_id) \<Rightarrow>
               rbind (parse_iso8601 hp created_at) (\<lambda>_. Inr (created_at, run_id))
           | _ \<Rightarrow> bad_token)
      | _ \<Rightarrow> bad_token)"

section \<open>Validation\<close>

text \<open>A time of the range: its errors, and the time if it is one. Only \<open>ValueError\<close> is caught.\<close>

definition check_time :: "history_platform \<Rightarrow> string \<Rightarrow> pyval \<Rightarrow> (api_error list \<times> int option) hres" where
  "check_time hp name raw =
     (case raw of
        PStr s \<Rightarrow>
          (case parse_iso8601 hp s of
             Inr t \<Rightarrow> Inr ([], Some t)
           | Inl e \<Rightarrow>
               (if is_value_error e
                then Inr ([\<lparr>ae_code = ''invalid_value'', ae_field = name,
                            ae_message = name @ '' must be a valid ISO-8601 datetime''\<rparr>], None)
                else Inl e))
      | _ \<Rightarrow> Inr ([required name (name @ '' is required and must be an ISO-8601 string'')], None))"

fun str_of :: "pyval \<Rightarrow> string" where
  "str_of (PStr s) = s"
| "str_of _ = []"

definition check_states :: "pyval \<Rightarrow> api_error list" where
  "check_states states =
     (case states of
        PNone \<Rightarrow> []
      | PList items \<Rightarrow>
          (if \<not> list_all is_str items
           then [\<lparr>ae_code = ''invalid_type'', ae_field = ''filters.states'',
                  ae_message = ''filters.states must be an array of state strings''\<rparr>]
           else
             (let invalid = sort (remdups (filter (\<lambda>s. s \<notin> set ALLOWED_STATES) (map str_of items)))
              in if invalid = [] then []
                 else [\<lparr>ae_code = ''invalid_value'', ae_field = ''filters.states'',
                        ae_message = ''unsupported states: '' @ py_join '','' invalid\<rparr>]))
      | _ \<Rightarrow> [\<lparr>ae_code = ''invalid_type'', ae_field = ''filters.states'',
              ae_message = ''filters.states must be an array of state strings''\<rparr>])"

definition check_page_token :: "history_platform \<Rightarrow> pyval \<Rightarrow> api_error list hres" where
  "check_page_token hp page_token =
     (case page_token of
        PNone \<Rightarrow> Inr []
      | PStr token \<Rightarrow>
          (if blank token
           then Inr [\<lparr>ae_code = ''invalid_value'', ae_field = ''page_token'',
                      ae_message = ''page_token must be a non-empty string when provided''\<rparr>]
           else case decode_cursor hp token of
             Inr _ \<Rightarrow> Inr []
           | Inl e \<Rightarrow>
               (if is_value_error e
                then Inr [\<lparr>ae_code = ''invalid_value'', ae_field = ''page_token'', ae_message = ''page_token is malformed''\<rparr>]
                else Inl e))
      | _ \<Rightarrow> Inr [\<lparr>ae_code = ''invalid_value'', ae_field = ''page_token'',
                  ae_message = ''page_token must be a non-empty string when provided''\<rparr>])"

definition check_filters :: "pyval \<Rightarrow> api_error list" where
  "check_filters filters =
     (let d = (case filters of PDict d \<Rightarrow> Some d | PNone \<Rightarrow> None | _ \<Rightarrow> Some []);
          states = (case d of Some d \<Rightarrow> dget_or d ''states'' (PList []) | None \<Rightarrow> PList []);
          dataset = (case d of Some d \<Rightarrow> vget d ''dataset'' | None \<Rightarrow> PNone)
      in (if filters \<noteq> PNone \<and> \<not> is_dict filters
          then [\<lparr>ae_code = ''invalid_type'', ae_field = ''filters'', ae_message = ''filters must be an object when provided''\<rparr>] else [])
         @ check_states states
         @ (if dataset \<noteq> PNone \<and> \<not> nonblank_str dataset
            then [\<lparr>ae_code = ''invalid_value'', ae_field = ''filters.dataset'',
                   ae_message = ''filters.dataset must be a non-empty string when provided''\<rparr>] else []))"

definition check_page_size :: "pyval \<Rightarrow> api_error list" where
  "check_page_size page_size =
     (if \<not> is_int page_size \<or> \<not> (1 \<le> int_of page_size \<and> int_of page_size \<le> 100)
      then [\<lparr>ae_code = ''invalid_value'', ae_field = ''page_size'', ae_message = ''page_size must be an integer in [1, 100]''\<rparr>] else [])"

definition validate_history_request :: "history_platform \<Rightarrow> (string, pyval) dict \<Rightarrow> api_error list hres" where
  "validate_history_request hp request =
     (case vget request ''time_range'' of
        PDict tr \<Rightarrow>
          rbind (check_time hp ''time_range.start_at'' (vget tr ''start_at'')) (\<lambda>(es, start_at).
          rbind (check_time hp ''time_range.end_at'' (vget tr ''end_at'')) (\<lambda>(ee, end_at).
          rbind (check_page_token hp (vget request ''page_token'')) (\<lambda>et.
            Inr (es @ ee
              @ (case (start_at, end_at) of
                   (Some a, Some b) \<Rightarrow>
                     (if a > b then [\<lparr>ae_code = ''invalid_value'', ae_field = ''time_range'',
                                     ae_message = ''time_range.start_at must be <= time_range.end_at''\<rparr>] else [])
                 | _ \<Rightarrow> [])
              @ check_filters (dget_or request ''filters'' (PDict []))
              @ check_page_size (dget_or request ''page_size'' (PInt 50))
              @ et))))
      | _ \<Rightarrow> Inr [required ''time_range'' ''time_range is required and must be an object''])"

section \<open>Selection and order\<close>

text \<open>\<open>json.loads(run.snapshot.payload).get("dataset")\<close>.\<close>

definition payload_dataset :: "benchmark_run \<Rightarrow> pyval hres" where
  "payload_dataset run =
     (case json_loads (sn_payload (br_snapshot run)) of
        None \<Rightarrow> Inl (ValueError ''JSONDecodeError'')
      | Some (PDict payload) \<Rightarrow> Inr (vget payload ''dataset'')
      | Some _ \<Rightarrow> Inl AttributeError)"

text \<open>The body of the selection loop: the runs selected so far, with the parsed time for the sort.\<close>

definition select_run ::
  "history_platform \<Rightarrow> int \<Rightarrow> int \<Rightarrow> string list \<Rightarrow> pyval \<Rightarrow> benchmark_run \<Rightarrow> (int \<times> benchmark_run) list \<Rightarrow> (int \<times> benchmark_run) list hres" where
  "select_run hp start_at end_at states dataset_filter run selected =
     rbind (parse_iso8601 hp (sn_created_at (br_snapshot run))) (\<lambda>created.
       if created < start_at \<or> created > end_at then Inr selected
       else if states \<noteq> [] \<and> run_state_value (br_state run) \<notin> set states then Inr selected
       else rbind (payload_dataset run) (\<lambda>dataset.
         if dataset_filter \<noteq> PNone \<and> dataset \<noteq> dataset_filter then Inr selected
         else Inr (selected @ [(created, run)])))"

definition sort_runs :: "history_platform \<Rightarrow> (int \<times> benchmark_run) list \<Rightarrow> benchmark_run list" where
  "sort_runs hp selected = map snd (sort_key (\<lambda>(created, run). (- hp_timestamp hp created, br_run_id run)) selected)"

text \<open>\<open>set(filters.get("states", []))\<close> and \<open>filters.get("dataset")\<close> raise on filters or states that are \<open>None\<close>,
  which validation lets through. Validation admits no states other than strings.\<close>

definition filter_states :: "pyval \<Rightarrow> string list hres" where
  "filter_states filters =
     (case filters of
        PDict d \<Rightarrow>
          (case dget_or d ''states'' (PList []) of
             PList items \<Rightarrow> rmap (\<lambda>v. case v of PStr s \<Rightarrow> Inr s | _ \<Rightarrow> Inl TypeError) items
           | _ \<Rightarrow> Inl TypeError)
      | _ \<Rightarrow> Inl AttributeError)"

definition filter_dataset :: "pyval \<Rightarrow> pyval" where
  "filter_dataset filters = (case filters of PDict d \<Rightarrow> vget d ''dataset'' | _ \<Rightarrow> PNone)"

definition sorted_runs :: "history_platform \<Rightarrow> int \<Rightarrow> int \<Rightarrow> pyval \<Rightarrow> run_service \<Rightarrow> benchmark_run list hres" where
  "sorted_runs hp start_at end_at filters s =
     rbind (filter_states filters) (\<lambda>states.
     rbind (rfold (select_run hp start_at end_at states (filter_dataset filters)) (list_runs s) []) (\<lambda>selected.
       Inr (sort_runs hp selected)))"

section \<open>Pages\<close>

text \<open>The index after the run the cursor names, 0 if there is no such run.\<close>

fun cursor_index :: "string \<times> string \<Rightarrow> nat \<Rightarrow> benchmark_run list \<Rightarrow> nat" where
  "cursor_index cur i [] = 0"
| "cursor_index cur i (run # runs) =
     (if sn_created_at (br_snapshot run) = fst cur \<and> br_run_id run = snd cur then Suc i else cursor_index cur (Suc i) runs)"

definition slice_with_cursor ::
  "history_platform \<Rightarrow> benchmark_run list \<Rightarrow> nat \<Rightarrow> string option \<Rightarrow> (benchmark_run list \<times> string option) hres" where
  "slice_with_cursor hp runs page_size page_token =
     rbind (case page_token of
              None \<Rightarrow> Inr 0
            | Some [] \<Rightarrow> Inr 0
            | Some token \<Rightarrow> rbind (decode_cursor hp token) (\<lambda>cur. Inr (cursor_index cur 0 runs)))
       (\<lambda>start. let page = take page_size (drop start runs) in
          if start + page_size \<ge> length runs then Inr (page, None)
          else Inr (page, Some (encode_cursor (sn_created_at (br_snapshot (last page))) (br_run_id (last page)))))"

section \<open>Trends\<close>

record day_bucket =
  db_run_count :: int
  db_success_count :: int
  db_failure_count :: int
  db_cancelled_count :: int

definition empty_bucket :: day_bucket where
  "empty_bucket = \<lparr>db_run_count = 0, db_success_count = 0, db_failure_count = 0, db_cancelled_count = 0\<rparr>"

definition bump_bucket :: "string \<Rightarrow> day_bucket \<Rightarrow> day_bucket" where
  "bump_bucket state_name b =
     (let b = b\<lparr>db_run_count := db_run_count b + 1\<rparr> in
      if state_name = run_state_value SUCCEEDED then b\<lparr>db_success_count := db_success_count b + 1\<rparr>
      else if state_name = run_state_value FAILED then b\<lparr>db_failure_count := db_failure_count b + 1\<rparr>
      else if state_name = run_state_value CANCELLED then b\<lparr>db_cancelled_count := db_cancelled_count b + 1\<rparr>
      else b)"

definition trend_step ::
  "history_platform \<Rightarrow> benchmark_run \<Rightarrow> (string, int) dict \<times> (string, day_bucket) dict
     \<Rightarrow> ((string, int) dict \<times> (string, day_bucket) dict) hres" where
  "trend_step hp run acc =
     (let state_name = run_state_value (br_state run) in
      rbind (case dget (fst acc) state_name of None \<Rightarrow> Inl (KeyError state_name) | Some n \<Rightarrow> Inr n) (\<lambda>n.
      rbind (parse_iso8601 hp (sn_created_at (br_snapshot run))) (\<lambda>created.
        let day = hp_day hp created
        in Inr (dset state_name (n + 1) (fst acc),
                dset day (bump_bucket state_name (dget_or (snd acc) day empty_bucket)) (snd acc)))))"

record trend =
  tr_total :: int
  tr_terminal :: int
  tr_success_rate :: pyval
  tr_state_counts :: "(string, int) dict"
  tr_daily :: "(string, day_bucket) dict"

definition build_trend :: "history_platform \<Rightarrow> benchmark_run list \<Rightarrow> trend hres" where
  "build_trend hp runs =
     rbind (rfold (trend_step hp) runs (map (\<lambda>state. (state, 0)) ALLOWED_STATES, [])) (\<lambda>(state_counts, by_day).
       let count = (\<lambda>st. dget_or state_counts (run_state_value st) 0);
           terminal = count SUCCEEDED + count FAILED + count CANCELLED
       in Inr \<lparr>tr_total = int (length runs), tr_terminal = terminal,
               tr_success_rate = (if terminal > 0 then PFloat (hp_div hp (count SUCCEEDED) terminal) else PNone),
               tr_state_counts = state_counts, tr_daily = sort_key fst by_day\<rparr>)"

definition bucket_payload :: "string \<times> day_bucket \<Rightarrow> pyval" where
  "bucket_payload db = PDict
     [(''date'', PStr (fst db)), (''run_count'', PInt (db_run_count (snd db))),
      (''success_count'', PInt (db_success_count (snd db))), (''failure_count'', PInt (db_failure_count (snd db))),
      (''cancelled_count'', PInt (db_cancelled_count (snd db)))]"

definition trend_payload :: "trend \<Rightarrow> pyval" where
  "trend_payload t = PDict
     [(''total_runs'', PInt (tr_total t)), (''terminal_runs'', PInt (tr_terminal t)), (''success_rate'', tr_success_rate t),
      (''state_counts'', PDict (map (\<lambda>(k, n). (k, PInt n)) (tr_state_counts t))),
      (''daily'', PList (map bucket_payload (tr_daily t)))]"

section \<open>The response\<close>

definition to_history_entry :: "benchmark_run \<Rightarrow> pyval hres" where
  "to_history_entry run =
     rbind (payload_dataset run) (\<lambda>dataset.
       let sn = br_snapshot run in Inr (PDict
         [(''history_entry_version'', PStr (sn_snapshot_version sn)), (''run_id'', PStr (br_run_id run)),
          (''parent_run_id'', opt_val (br_parent run)), (''state'', PStr (run_state_value (br_state run))),
          (''state_contract_version'', PStr (br_contract_version run)), (''idempotency_key'', PStr (br_idempotency_key run)),
          (''created_at'', PStr (sn_created_at sn)), (''request_hash'', PStr (sn_request_hash sn)),
          (''measurement_digest'', PStr (sn_measurement_digest sn)), (''dataset'', dataset),
          (''execution_context'', PDict (sn_execution_context sn)), (''artifacts'', PDict (sn_artifacts sn)),
          (''workload_kind'', vget (sn_execution_context sn) ''profile_kind'')]))"

definition history_response ::
  "history_platform \<Rightarrow> int \<Rightarrow> int \<Rightarrow> pyval \<Rightarrow> string list \<Rightarrow> nat \<Rightarrow> string option \<Rightarrow> trend \<Rightarrow> pyval list \<Rightarrow> pyval" where
  "history_response hp start_at end_at filters states page_size next_token trend entries = PDict
     [(''api_version'', PStr BENCHMARK_HISTORY_API_VERSION), (''query_version'', PStr BENCHMARK_HISTORY_QUERY_VERSION),
      (''query'', PDict
        [(''time_range'', PDict [(''start_at'', PStr (hp_isoformat hp start_at)), (''end_at'', PStr (hp_isoformat hp end_at))]),
         (''filters'', PDict [(''states'', PList (map PStr (sort states))), (''dataset'', filter_dataset filters)])]),
      (''pagination'', PDict
        [(''page_size'', PInt (int page_size)), (''ordering'', PStr ORDERING_GUARANTEE),
         (''next_page_token'', opt_val next_token), (''has_more'', PBool (next_token \<noteq> None))]),
      (''trend'', trend_payload trend), (''entries'', PList entries)]"

datatype history_failure = HistoryInvalid "api_error list" | HistoryPy pyexn

definition lift_history :: "'a hres \<Rightarrow> (history_failure, 'a) result" where
  "lift_history r = map_sum HistoryPy id r"

definition range_time :: "history_platform \<Rightarrow> (string, pyval) dict \<Rightarrow> string \<Rightarrow> int hres" where
  "range_time hp request k =
     (case vget request ''time_range'' of
        PDict tr \<Rightarrow> (case vget tr k of PStr s \<Rightarrow> parse_iso8601 hp s | _ \<Rightarrow> Inl TypeError)
      | _ \<Rightarrow> Inl TypeError)"

definition page_token_of :: "(string, pyval) dict \<Rightarrow> string option" where
  "page_token_of request = (case vget request ''page_token'' of PStr t \<Rightarrow> Some t | _ \<Rightarrow> None)"

definition history :: "history_platform \<Rightarrow> (string, pyval) dict \<Rightarrow> run_service \<Rightarrow> (history_failure, pyval) result" where
  "history hp request s =
     rbind (lift_history (validate_history_request hp request)) (\<lambda>errors.
     rbind (gate HistoryInvalid errors ()) (\<lambda>_.
     lift_history (
       rbind (range_time hp request ''start_at'') (\<lambda>start_at.
       rbind (range_time hp request ''end_at'') (\<lambda>end_at.
       let filters = dget_or request ''filters'' (PDict []);
           page_size = nat (int_of (dget_or request ''page_size'' (PInt 50)))
       in
       rbind (sorted_runs hp start_at end_at filters s) (\<lambda>runs.
       rbind (slice_with_cursor hp runs page_size (page_token_of request)) (\<lambda>(page, next_token).
       rbind (filter_states filters) (\<lambda>states.
       rbind (build_trend hp runs) (\<lambda>trend.
       rbind (rmap to_history_entry page) (\<lambda>entries.
         Inr (history_response hp start_at end_at filters states page_size next_token trend entries)))))))))))"

definition history_error_envelope :: "api_error list \<Rightarrow> pyval" where
  "history_error_envelope errors = PDict [(''error'', PDict
     [(''code'', PStr ''INVALID_ARGUMENT''), (''message'', PStr ''benchmark history request validation failed''),
      (''details'', PList (map (\<lambda>e. PDict [(''code'', PStr (ae_code e)), (''field'', PStr (ae_field e)),
         (''message'', PStr (ae_message e))]) errors))])]"

section \<open>Cursors round trip\<close>

text \<open>UTF-8 decodes ASCII bytes to themselves.\<close>

definition utf8_ok :: "history_platform \<Rightarrow> bool" where
  "utf8_ok hp \<longleftrightarrow> (\<forall>s. is_ascii s \<longrightarrow> hp_utf8 hp s = Some s)"

abbreviation cursor_payload :: "string \<Rightarrow> string \<Rightarrow> pyval" where
  "cursor_payload c r \<equiv> PDict [(''created_at'', PStr c), (''run_id'', PStr r)]"

lemma cursor_canon: "canon (cursor_payload c r) = cursor_payload c r"
proof -
  have "sort_key fst (map (\<lambda>(k, v). (k, canon v)) [(''created_at'', PStr c), (''run_id'', PStr r)]) =
      [(''created_at'', PStr c), (''run_id'', PStr r)]" by code_simp
  then show ?thesis by simp
qed

lemma cursor_text_ascii: "is_ascii (canonical_text (cursor_payload c r))"
  unfolding canonical_text_def cursor_canon using json_str_ascii by simp

text \<open>A cursor decodes to what was encoded, as long as the time in it can be read.\<close>

lemma decode_encode_cursor:
  assumes "utf8_ok hp"
  shows "decode_cursor hp (encode_cursor c r) = rbind (parse_iso8601 hp c) (\<lambda>_. Inr (c, r))"
proof -
  have "json_loads (canonical_text (cursor_payload c r)) = Some (cursor_payload c r)"
    using json.dec_enc [of "cursor_payload c r"] by (simp add: cursor_canon)
  moreover have "hp_utf8 hp (canonical_text (cursor_payload c r)) = Some (canonical_text (cursor_payload c r))"
    using assms cursor_text_ascii by (simp add: utf8_ok_def)
  ultimately show ?thesis by (simp add: decode_cursor_def encode_cursor_def b64_roundtrip)
qed

lemma encode_cursor_nonempty: "encode_cursor c r \<noteq> []"
proof -
  have "canonical_text (cursor_payload c r) \<noteq> []" by (simp add: canonical_text_def cursor_canon)
  then show ?thesis unfolding encode_cursor_def by (cases "canonical_text (cursor_payload c r)" rule: b64_encode.cases) (auto simp: Let_def)
qed

section \<open>Following the pages\<close>

definition run_key :: "benchmark_run \<Rightarrow> string \<times> string" where
  "run_key run = (sn_created_at (br_snapshot run), br_run_id run)"

lemma cursor_index_nth:
  "distinct (map run_key runs) \<Longrightarrow> k < length runs \<Longrightarrow> cursor_index (run_key (runs ! k)) i runs = Suc (i + k)"
proof (induction runs arbitrary: i k)
  case (Cons run runs)
  show ?case
  proof (cases k)
    case 0
    then show ?thesis by (simp add: run_key_def)
  next
    case (Suc m)
    then have "run_key (runs ! m) \<noteq> run_key run" using Cons.prems by (metis Suc_less_eq distinct.simps(2) image_eqI length_Cons list.set_map list.simps(9) nth_mem)
    then show ?thesis using Suc Cons by (auto simp: run_key_def)
  qed
qed simp

lemma cursor_index_absent: "cur \<notin> run_key ` set runs \<Longrightarrow> cursor_index cur i runs = 0"
  by (induction runs arbitrary: i) (auto simp: run_key_def)

text \<open>The token for the page that starts at position \<open>k\<close>.\<close>

definition token_at :: "benchmark_run list \<Rightarrow> nat \<Rightarrow> string option" where
  "token_at runs k = (if k = 0 then None else Some (encode_cursor (fst (run_key (runs ! (k - 1)))) (snd (run_key (runs ! (k - 1))))))"

definition times_parse :: "history_platform \<Rightarrow> benchmark_run list \<Rightarrow> bool" where
  "times_parse hp runs \<longleftrightarrow> (\<forall>run\<in>set runs. \<exists>t. parse_iso8601 hp (sn_created_at (br_snapshot run)) = Inr t)"

lemma slice_at:
  assumes "utf8_ok hp" "distinct (map run_key runs)" "times_parse hp runs" "k \<le> length runs" "0 < n"
  shows "slice_with_cursor hp runs n (token_at runs k) =
    Inr (take n (drop k runs), if k + n \<ge> length runs then None else token_at runs (k + n))"
proof -
  let ?start = "case token_at runs k of None \<Rightarrow> Inr 0 | Some [] \<Rightarrow> Inr 0
      | Some token \<Rightarrow> rbind (decode_cursor hp token) (\<lambda>cur. Inr (cursor_index cur 0 runs))"
  have "?start = Inr k"
  proof (cases k)
    case (Suc m)
    then have "runs ! m \<in> set runs" using assms(4) by simp
    then obtain t where "parse_iso8601 hp (fst (run_key (runs ! m))) = Inr t"
      using assms(3) by (auto simp: times_parse_def run_key_def)
    then have "decode_cursor hp (encode_cursor (fst (run_key (runs ! m))) (snd (run_key (runs ! m)))) = Inr (run_key (runs ! m))"
      using decode_encode_cursor [OF assms(1)] by simp
    moreover have "cursor_index (run_key (runs ! m)) 0 runs = k"
      using cursor_index_nth [OF assms(2)] assms(4) Suc by simp
    moreover obtain a as where "encode_cursor (fst (run_key (runs ! m))) (snd (run_key (runs ! m))) = a # as"
      using encode_cursor_nonempty by (meson list.exhaust)
    ultimately show ?thesis using Suc by (simp add: token_at_def)
  qed (simp add: token_at_def)
  moreover have "last (take n (drop k runs)) = runs ! (k + n - 1)" if "\<not> k + n \<ge> length runs"
    using that assms(5) by (simp add: last_conv_nth)
  ultimately show ?thesis
    unfolding slice_with_cursor_def using assms(5) by (auto simp: Let_def token_at_def run_key_def)
qed

text \<open>A client that asks for the next page as long as it gets a token.\<close>

primrec follow_pages :: "nat \<Rightarrow> history_platform \<Rightarrow> benchmark_run list \<Rightarrow> nat \<Rightarrow> string option \<Rightarrow> benchmark_run list list option" where
  "follow_pages 0 hp runs n token = None"
| "follow_pages (Suc fuel) hp runs n token =
     (case slice_with_cursor hp runs n token of
        Inr (page, None) \<Rightarrow> Some [page]
      | Inr (page, Some t) \<Rightarrow> map_option (Cons page) (follow_pages fuel hp runs n (Some t))
      | Inl _ \<Rightarrow> None)"

lemma follow_pages_from:
  assumes "utf8_ok hp" "distinct (map run_key runs)" "times_parse hp runs" "0 < n"
  shows "k \<le> length runs \<Longrightarrow> length runs - k < fuel \<Longrightarrow>
    \<exists>pages. follow_pages fuel hp runs n (token_at runs k) = Some pages \<and> concat pages = drop k runs
      \<and> (\<forall>page\<in>set (butlast pages). length page = n) \<and> pages \<noteq> [] \<and> length (last pages) \<le> n"
proof (induction fuel arbitrary: k)
  case (Suc fuel)
  note slice = slice_at [OF assms(1-3) Suc.prems(1) assms(4)]
  show ?case
  proof (cases "k + n \<ge> length runs")
    case True
    then show ?thesis using slice by simp
  next
    case False
    then have "length runs - (k + n) < fuel" "k + n \<le> length runs" using Suc.prems assms(4) by linarith+
    then obtain pages where "follow_pages fuel hp runs n (token_at runs (k + n)) = Some pages" "concat pages = drop (k + n) runs"
        "\<forall>page\<in>set (butlast pages). length page = n" "pages \<noteq> []" "length (last pages) \<le> n"
      using Suc.IH [of "k + n"] by blast
    moreover obtain t where "token_at runs (k + n) = Some t" using assms(4) by (simp add: token_at_def)
    moreover have "take n (drop k runs) @ drop (k + n) runs = drop k runs"
      by (metis add.commute append_take_drop_id drop_drop)
    ultimately show ?thesis using slice False by auto
  qed
qed simp

section \<open>What is selected\<close>

definition created_us :: "history_platform \<Rightarrow> benchmark_run \<Rightarrow> int" where
  "created_us hp run = (case parse_iso8601 hp (sn_created_at (br_snapshot run)) of Inr t \<Rightarrow> t | Inl _ \<Rightarrow> 0)"

definition selected_by :: "history_platform \<Rightarrow> int \<Rightarrow> int \<Rightarrow> string list \<Rightarrow> pyval \<Rightarrow> benchmark_run \<Rightarrow> bool" where
  "selected_by hp start_at end_at states dataset run \<longleftrightarrow> start_at \<le> created_us hp run \<and> created_us hp run \<le> end_at
     \<and> (states = [] \<or> run_state_value (br_state run) \<in> set states)
     \<and> (dataset = PNone \<or> vget (sn_execution_context (br_snapshot run)) ''dataset'' = dataset)"

definition sort_pair :: "history_platform \<Rightarrow> benchmark_run \<Rightarrow> int \<times> string" where
  "sort_pair hp run = (- hp_timestamp hp (created_us hp run), br_run_id run)"

lemma payload_dataset_ok:
  assumes "snapshot_ok bp (br_snapshot run)"
  shows "payload_dataset run = Inr (vget (sn_execution_context (br_snapshot run)) ''dataset'')"
proof -
  obtain config seed where ec: "sn_execution_context (br_snapshot run) = execution_context bp config seed"
    using assms by (auto simp: snapshot_ok_def)
  have "vget (execution_context bp config seed) ''dataset'' = PStr (config_str bp config ''dataset'')"
    by (simp add: execution_context_def Let_def)
  then show ?thesis unfolding payload_dataset_def snapshot_payload_loads [OF assms] ec canon_entries by simp
qed

lemma times_parse_Cons: "times_parse hp (run # runs) \<longleftrightarrow>
    (\<exists>t. parse_iso8601 hp (sn_created_at (br_snapshot run)) = Inr t) \<and> times_parse hp runs"
  by (simp add: times_parse_def)

lemma select_run_ok:
  assumes "snapshot_ok bp (br_snapshot run)" "parse_iso8601 hp (sn_created_at (br_snapshot run)) = Inr t"
  shows "select_run hp a b states ds run sel =
    Inr (if selected_by hp a b states ds run then sel @ [(created_us hp run, run)] else sel)"
  using assms payload_dataset_ok [OF assms(1)]
  by (auto simp: select_run_def selected_by_def created_us_def)

lemma select_fold:
  assumes "\<forall>run\<in>set runs. snapshot_ok bp (br_snapshot run)"
  shows "times_parse hp runs \<Longrightarrow> rfold (select_run hp a b states ds) runs sel =
      Inr (sel @ map (\<lambda>run. (created_us hp run, run)) (filter (selected_by hp a b states ds) runs))"
    and "\<not> times_parse hp runs \<Longrightarrow> \<exists>e. rfold (select_run hp a b states ds) runs sel = Inl e"
  using assms
proof (induction runs arbitrary: sel)
  case (Cons run runs)
  {
    case 1
    then obtain t where "parse_iso8601 hp (sn_created_at (br_snapshot run)) = Inr t" by (auto simp: times_parse_Cons)
    moreover have "snapshot_ok bp (br_snapshot run)" using 1(2) by simp
    ultimately have "select_run hp a b states ds run sel =
        Inr (if selected_by hp a b states ds run then sel @ [(created_us hp run, run)] else sel)" for sel
      by (rule select_run_ok [rotated])
    with 1 Cons.IH(1) show ?case by (simp add: times_parse_Cons)
  next
    case 2
    show ?case
    proof (cases "parse_iso8601 hp (sn_created_at (br_snapshot run))")
      case (Inl e)
      then show ?thesis by (simp add: select_run_def)
    next
      case (Inr t)
      then have "\<not> times_parse hp runs" using 2(1) by (simp add: times_parse_Cons)
      moreover have "select_run hp a b states ds run sel =
          Inr (if selected_by hp a b states ds run then sel @ [(created_us hp run, run)] else sel)"
        using 2(2) by (intro select_run_ok [OF _ Inr, of bp]) simp
      ultimately show ?thesis using Cons.IH(2) 2(2) by simp
    qed
  }
qed (simp_all add: times_parse_def)

lemma sort_runs_map:
  "sort_runs hp (map (\<lambda>run. (created_us hp run, run)) runs) = sort_key (sort_pair hp) runs"
  by (simp add: sort_runs_def sort_key_map sort_pair_def [abs_def] comp_def)

text \<open>The runs of a consistent service: what the selection returns, and when.\<close>

lemma sorted_runs_eq:
  assumes "service_inv bp s"
  shows "filter_states filters = Inr states \<Longrightarrow> times_parse hp (list_runs s) \<Longrightarrow>
      sorted_runs hp a b filters s = Inr (sort_key (sort_pair hp) (filter (selected_by hp a b states (filter_dataset filters)) (list_runs s)))"
    and "sorted_runs hp a b filters s = Inr runs \<Longrightarrow> \<exists>states. filter_states filters = Inr states \<and> times_parse hp (list_runs s)"
proof -
  have "\<forall>run\<in>set (list_runs s). snapshot_ok bp (br_snapshot run)"
  proof
    fix run assume "run \<in> set (list_runs s)"
    then obtain i where "(i, run) \<in> set (rs_runs s)" by (auto simp: list_runs_def)
    then have "dget (rs_runs s) i = Some run" using assms by (simp add: service_inv_def)
    then show "snapshot_ok bp (br_snapshot run)" using assms by (auto simp: service_inv_def run_ok_def)
  qed
  note fold = select_fold [OF this, of hp a b _ "filter_dataset filters" "[]"]
  show "filter_states filters = Inr states \<Longrightarrow> times_parse hp (list_runs s) \<Longrightarrow>
      sorted_runs hp a b filters s = Inr (sort_key (sort_pair hp) (filter (selected_by hp a b states (filter_dataset filters)) (list_runs s)))"
    using fold(1) [of states] by (simp add: sorted_runs_def sort_runs_map)
  show "sorted_runs hp a b filters s = Inr runs \<Longrightarrow> \<exists>states. filter_states filters = Inr states \<and> times_parse hp (list_runs s)"
    using fold(2) unfolding sorted_runs_def rbind_eq_Inr by (metis sum.distinct(1))
qed

lemma list_runs_ids:
  assumes "service_inv bp s"
  shows "map br_run_id (list_runs s) = dkeys (rs_runs s)"
proof -
  have "br_run_id run = i" if "(i, run) \<in> set (rs_runs s)" for i run
  proof -
    have "dget (rs_runs s) i = Some run" using that assms by (simp add: service_inv_def)
    then show ?thesis using assms by (auto simp: service_inv_def run_ok_def)
  qed
  then show ?thesis by (auto simp: list_runs_def)
qed

lemma list_runs_distinct: "service_inv bp s \<Longrightarrow> distinct (map br_run_id (list_runs s))"
  using list_runs_ids [of bp s] by (simp add: service_inv_def)

section \<open>What is counted\<close>

definition state_count :: "run_state \<Rightarrow> benchmark_run list \<Rightarrow> int" where
  "state_count st runs = int (length (filter (\<lambda>run. br_state run = st) runs))"

definition on_day :: "history_platform \<Rightarrow> string \<Rightarrow> benchmark_run list \<Rightarrow> benchmark_run list" where
  "on_day hp day runs = filter (\<lambda>run. hp_day hp (created_us hp run) = day) runs"

definition bucket_of :: "benchmark_run list \<Rightarrow> day_bucket" where
  "bucket_of runs = \<lparr>db_run_count = int (length runs), db_success_count = state_count SUCCEEDED runs,
     db_failure_count = state_count FAILED runs, db_cancelled_count = state_count CANCELLED runs\<rparr>"

lemma run_state_value_inject [simp]: "run_state_value a = run_state_value b \<longleftrightarrow> a = b"
  by (cases a; cases b) auto

lemma state_count_append: "state_count st (xs @ ys) = state_count st xs + state_count st ys"
  by (simp add: state_count_def)

lemma bump_bucket_of: "bump_bucket (run_state_value (br_state run)) (bucket_of runs) = bucket_of (runs @ [run])"
  unfolding bump_bucket_def Let_def run_state_value_inject
  by (cases "br_state run") (simp_all add: bucket_of_def state_count_def)

text \<open>The state of the counting loop after the runs \<open>done\<close>.\<close>

definition counted :: "history_platform \<Rightarrow> benchmark_run list \<Rightarrow> (string, int) dict \<times> (string, day_bucket) dict \<Rightarrow> bool" where
  "counted hp runs acc \<longleftrightarrow> dkeys (fst acc) = ALLOWED_STATES
     \<and> (\<forall>st. dget (fst acc) (run_state_value st) = Some (state_count st runs))
     \<and> wf_dict (snd acc)
     \<and> (\<forall>day. dget (snd acc) day = (if on_day hp day runs = [] then None else Some (bucket_of (on_day hp day runs))))"

lemma dkeys_dset: "dhas d k \<Longrightarrow> dkeys (dset k v d) = dkeys d"
  by (induction d) (auto simp: dhas_def split: if_splits)

lemma trend_step_counted:
  assumes "counted hp runs acc" "parse_iso8601 hp (sn_created_at (br_snapshot run)) = Inr t"
  shows "\<exists>acc'. trend_step hp run acc = Inr acc' \<and> counted hp (runs @ [run]) acc'"
proof -
  have t: "created_us hp run = t" using assms(2) by (simp add: created_us_def)
  have n: "dget (fst acc) (run_state_value st) = Some (state_count st runs)" for st
    using assms(1) by (simp add: counted_def)
  have b: "dget_or (snd acc) (hp_day hp t) empty_bucket = bucket_of (on_day hp (hp_day hp t) runs)"
    using assms(1) by (auto simp: counted_def dget_or_def bucket_of_def empty_bucket_def state_count_def)
  define acc' where "acc' = (dset (run_state_value (br_state run)) (state_count (br_state run) runs + 1) (fst acc),
    dset (hp_day hp t) (bump_bucket (run_state_value (br_state run)) (bucket_of (on_day hp (hp_day hp t) runs))) (snd acc))"
  have "trend_step hp run acc = Inr acc'"
    using assms(2) n b by (simp add: trend_step_def Let_def acc'_def)
  moreover have "counted hp (runs @ [run]) acc'"
    unfolding counted_def
  proof (intro conjI allI)
    show "dkeys (fst acc') = ALLOWED_STATES"
      using assms(1) n by (simp add: acc'_def counted_def dkeys_dset dhas_def)
    show "dget (fst acc') (run_state_value st) = Some (state_count st (runs @ [run]))" for st
      using n by (simp add: acc'_def state_count_def)
    show "wf_dict (snd acc')" using assms(1) by (simp add: acc'_def counted_def distinct_update)
    show "dget (snd acc') day = (if on_day hp day (runs @ [run]) = [] then None else Some (bucket_of (on_day hp day (runs @ [run]))))" for day
      using assms(1) t by (simp add: acc'_def counted_def on_day_def bump_bucket_of)
  qed
  ultimately show ?thesis by blast
qed

lemma trend_fold_counted:
  "counted hp before acc \<Longrightarrow> times_parse hp runs \<Longrightarrow>
     \<exists>acc'. rfold (trend_step hp) runs acc = Inr acc' \<and> counted hp (before @ runs) acc'"
proof (induction runs arbitrary: before acc)
  case (Cons run runs)
  obtain t where "parse_iso8601 hp (sn_created_at (br_snapshot run)) = Inr t" "times_parse hp runs"
    using Cons.prems(2) by (auto simp: times_parse_Cons)
  with trend_step_counted [OF Cons.prems(1)] obtain acc1 where "trend_step hp run acc = Inr acc1" "counted hp (before @ [run]) acc1"
    by blast
  with Cons.IH [of "before @ [run]" acc1] \<open>times_parse hp runs\<close> show ?case by simp
qed simp

lemma counted_init: "counted hp [] (map (\<lambda>state. (state, 0)) ALLOWED_STATES, [])"
proof -
  have "dget (map (\<lambda>state. (state, 0::int)) ALLOWED_STATES) (run_state_value st) = Some 0" for st
    by (cases st) (simp_all add: ALLOWED_STATES_def)
  then show ?thesis by (simp add: counted_def state_count_def on_day_def comp_def)
qed

end
