(* ===== verification/BenchmarkProperties.thy ===== *)
theory BenchmarkProperties
  imports BenchmarkHistory "HOL-Library.Sublist"
begin

text \<open>
  What the benchmark service guarantees: consistency of its tables, idempotent starts, the lifecycle of a run,
  which requests are answered, what a snapshot identifies, and that the history selects, orders, pages and
  counts the runs as its contract says.
\<close>

section \<open>Runs\<close>

abbreviation service_reachable :: "bench_platform \<Rightarrow> run_service \<Rightarrow> bool" where
  "service_reachable bp s \<equiv> (\<exists>sink. (service_step bp)\<^sup>*\<^sup>* (new_service sink) s)"

lemma reachable_inv: "service_reachable bp s \<Longrightarrow> service_inv bp s"
  using benchmark_runs.reach_inv by blast

text \<open>A small service for the witnesses: one run that has failed and its retry.\<close>

definition demo_bench :: bench_platform where
  "demo_bench = \<lparr>bp_str = (\<lambda>_. ''None''), bp_int_of_float = (\<lambda>_. None), bp_sha256 = (\<lambda>s. s)\<rparr>"

definition demo_config :: "(string, pyval) dict" where
  "demo_config = [(''dataset'', PStr ''d''), (''dataset_version'', PStr ''1''), (''backend'', PStr ''sim''), (''seed'', PInt 7)]"

definition demo_id :: string where
  "demo_id = ''run_start:a:{'' @ [CHR 0x22] @ ''backen''"

definition demo_started :: run_service where
  "demo_started = fst (start_run demo_bench ''1'' ''a'' demo_config (new_service False))"

definition demo_failed :: run_service where
  "demo_failed = fst (transition demo_id FAILED (fst (transition demo_id PREPARING demo_started)))"

definition demo_hp :: history_platform where
  "demo_hp = \<lparr>hp_fromiso = (\<lambda>s. case py_int s of Some t \<Rightarrow> Inr t | None \<Rightarrow> Inl (ValueError s)), hp_timestamp = id,
     hp_isoformat = show_int, hp_day = show_int, hp_utf8 = Some, hp_div = (\<lambda>a b. show_int (a div b) @ ''.0'')\<rparr>"

lemma demo_steps: "(service_step demo_bench)\<^sup>*\<^sup>* demo_started demo_failed"
proof -
  have "service_step demo_bench demo_started (fst (transition demo_id PREPARING demo_started))" by (rule service_step.transit)
  moreover have "service_step demo_bench (fst (transition demo_id PREPARING demo_started)) demo_failed"
    unfolding demo_failed_def by (rule service_step.transit)
  ultimately show ?thesis by (meson r_into_rtranclp rtranclp_trans)
qed

lemma demo_reach: "(service_step demo_bench)\<^sup>*\<^sup>* (new_service False) demo_failed"
proof -
  have "service_step demo_bench (new_service False) demo_started" unfolding demo_started_def by (rule service_step.start)
  then show ?thesis using demo_steps by (rule converse_rtranclp_into_rtranclp)
qed

lemma demo_service_reachable: "service_reachable demo_bench demo_failed"
  using demo_reach by blast

text \<open>C30. Whatever sequence of starts, retries and transitions is run on a fresh service, its tables fit
  together: a run is stored under its own id, its parent is a stored run, the two idempotency tables
  point to stored runs, and every snapshot is intact: its payload is the canonical text of the
  five fields of its execution context, and the two digests are those of the payload and of the context.\<close>

theorem service_stays_consistent:
  assumes "(service_step bp)\<^sup>*\<^sup>* (new_service sink) s"
  shows "(\<forall>i run. dget (rs_runs s) i = Some run \<longrightarrow>
        br_run_id run = i \<and> sn_run_id (br_snapshot run) = i
        \<and> sn_payload (br_snapshot run) = canonical_text (PDict (request_entries (sn_execution_context (br_snapshot run))))
        \<and> sn_request_hash (br_snapshot run) = bp_sha256 bp (sn_payload (br_snapshot run))
        \<and> sn_measurement_digest (br_snapshot run) = bp_sha256 bp (canonical_text (PDict (sn_execution_context (br_snapshot run))))
        \<and> (\<forall>p. br_parent run = Some p \<longrightarrow> dhas (rs_runs s) p))
    \<and> (\<forall>key i. dget (rs_start_index s) key = Some i \<longrightarrow> dhas (rs_runs s) i)
    \<and> (\<forall>key i. dget (rs_retry_index s) key = Some i \<longrightarrow> dhas (rs_runs s) i)"
proof -
  have inv: "service_inv bp s" using reachable_inv assms by blast
  show ?thesis using inv unfolding service_inv_def run_ok_def snapshot_ok_def by blast
qed

theorem service_stays_consistent_witness:
  "case dget (rs_runs demo_failed) demo_id of None \<Rightarrow> False
   | Some run \<Rightarrow> br_run_id run = demo_id \<and> sn_request_hash (br_snapshot run) = bp_sha256 demo_bench (sn_payload (br_snapshot run))"
proof -
  have "dget (rs_runs demo_failed) demo_id \<noteq> None" by code_simp
  then show ?thesis using service_stays_consistent [OF demo_reach] by auto
qed

lemma start_run_indexed:
  assumes "service_inv bp s" "start_run bp now key config s = (s', Inr run)"
  shows "dget (rs_start_index s') key = Some (br_run_id run)" "dget (rs_runs s') (br_run_id run) = Some run"
proof -
  have "dget (rs_start_index s') key = Some (br_run_id run) \<and> dget (rs_runs s') (br_run_id run) = Some run"
  proof (cases "dget (rs_start_index s) key")
    case (Some i)
    then show ?thesis using assms by (auto simp: start_run_def run_at_def service_inv_def run_ok_def split: option.splits)
  next
    case None
    then show ?thesis using start_run_new [OF None assms(2)] create_run_ok(1) by fastforce
  qed
  then show "dget (rs_start_index s') key = Some (br_run_id run)" "dget (rs_runs s') (br_run_id run) = Some run" by auto
qed



section \<open>Lifecycle\<close>

text \<open>The lifecycle: a run moves along a line of states; it may be cancelled before its end, and may fail once
  it has left \<open>PENDING\<close> (ADR 0008 lists failure after \<open>RUNNING\<close> only).\<close>

fun main_line :: "run_state \<Rightarrow> run_state list" where
  "main_line PENDING = [PREPARING, RUNNING, SUCCEEDED]"
| "main_line PREPARING = [RUNNING, SUCCEEDED]"
| "main_line RUNNING = [SUCCEEDED]"
| "main_line _ = []"

definition life_path :: "run_state \<Rightarrow> run_state list \<Rightarrow> bool" where
  "life_path st sts \<longleftrightarrow> prefix sts (main_line st)
     \<or> (\<exists>p. sts = p @ [CANCELLED] \<and> strict_prefix p (main_line st))
     \<or> (\<exists>p. sts = p @ [FAILED] \<and> strict_prefix p (main_line st) \<and> (p \<noteq> [] \<or> st \<noteq> PENDING))"

lemma life_path_Nil [simp]: "life_path st []"
  by (simp add: life_path_def)

lemma life_path_Cons: "life_path st (x # xs) \<longleftrightarrow> x \<in> set (ALLOWED_TRANSITIONS st) \<and> life_path x xs"
  by (cases st; cases x) (auto simp: life_path_def Cons_eq_append_conv prefix_Cons strict_prefix_def)

lemma life_path_short: "life_path st sts \<Longrightarrow> length sts \<le> 3"
  by (cases st) (auto simp: life_path_def dest!: prefix_length_le prefix_length_less)

text \<open>A sequence of transitions of one run.\<close>

primrec transit_all :: "string \<Rightarrow> run_state list \<Rightarrow> run_service \<Rightarrow> run_service option" where
  "transit_all i [] s = Some s"
| "transit_all i (st # sts) s = (case transition i st s of (s', Inr _) \<Rightarrow> transit_all i sts s' | _ \<Rightarrow> None)"

lemma transition_total:
  assumes "dget (rs_runs s) i = Some run"
  shows "if st \<in> set (ALLOWED_TRANSITIONS (br_state run))
    then \<exists>s'. transition i st s = (s', Inr (run\<lparr>br_state := st\<rparr>)) \<and> rs_runs s' = dset i (run\<lparr>br_state := st\<rparr>) (rs_runs s)
    else \<exists>msg. transition i st s = (s, Inl (RunTransitionError msg))"
  using assms by (simp add: transition_def Let_def fail_run_def)

lemma transit_all_path:
  assumes "dget (rs_runs s) i = Some run"
  shows "(case transit_all i sts s of
       Some s' \<Rightarrow> life_path (br_state run) sts
         \<and> dget (rs_runs s') = (dget (rs_runs s))(i \<mapsto> run\<lparr>br_state := last (br_state run # sts)\<rparr>)
     | None \<Rightarrow> \<not> life_path (br_state run) sts)"
  using assms
proof (induction sts arbitrary: s run)
  case Nil
  then show ?case by (auto simp: fun_upd_idem)
next
  case (Cons st sts)
  show ?case
  proof (cases "st \<in> set (ALLOWED_TRANSITIONS (br_state run))")
    case True
    then obtain s' where s': "transition i st s = (s', Inr (run\<lparr>br_state := st\<rparr>))" "rs_runs s' = dset i (run\<lparr>br_state := st\<rparr>) (rs_runs s)"
      using transition_total [OF Cons.prems, of st] by auto
    have "dget (rs_runs s') i = Some (run\<lparr>br_state := st\<rparr>)" using s'(2) by simp
    from Cons.IH [OF this] True show ?thesis
      using s' by (auto simp: life_path_Cons fun_eq_iff split: option.splits)
  next
    case False
    then show ?thesis using transition_total [OF Cons.prems, of st] by (auto simp: life_path_Cons)
  qed
qed

text \<open>A run follows the lifecycle: a sequence of transitions of a run succeeds exactly when it
  is a path of the lifecycle from the state of the run, and such a path has at most three steps; then the run
  is in the last of the states, unchanged otherwise, and no other run has changed.\<close>

theorem transitions_follow_lifecycle:
  assumes "dget (rs_runs s) i = Some run"
  shows "((\<exists>s'. transit_all i sts s = Some s') \<longleftrightarrow> life_path (br_state run) sts)
    \<and> (\<forall>s'. transit_all i sts s = Some s' \<longrightarrow> length sts \<le> 3
         \<and> dget (rs_runs s') = (dget (rs_runs s))(i \<mapsto> run\<lparr>br_state := last (br_state run # sts)\<rparr>))"
  using transit_all_path [OF assms, of sts] life_path_short by (auto split: option.splits)

theorem transitions_follow_lifecycle_witness:
  "(\<exists>s'. transit_all demo_id [PREPARING, RUNNING, SUCCEEDED] demo_started = Some s') \<and> transit_all demo_id [RUNNING] demo_started = None"
proof -
  have "case dget (rs_runs demo_started) demo_id of None \<Rightarrow> False | Some run \<Rightarrow> br_state run = PENDING" by code_simp
  then obtain run where run: "dget (rs_runs demo_started) demo_id = Some run" "br_state run = PENDING" by (auto split: option.splits)
  have path: "life_path PENDING [PREPARING, RUNNING, SUCCEEDED]" "\<not> life_path PENDING [RUNNING]" by (simp_all add: life_path_Cons)
  show ?thesis
    using transitions_follow_lifecycle [OF run(1), of "[PREPARING, RUNNING, SUCCEEDED]"]
      transitions_follow_lifecycle [OF run(1), of "[RUNNING]"] path
    unfolding run(2) not_Some_eq [symmetric] by (simp del: transit_all.simps)
qed

section \<open>Retries\<close>

lemma retry_fresh:
  assumes "dget (rs_runs s) i = Some src" "br_state src \<in> {FAILED, CANCELLED}" "dget (rs_retry_index s) (i, k) = None"
    and "sn_execution_context (br_snapshot src) = execution_context bp config seed"
  defines "e \<equiv> request_entries (execution_context bp config seed)"
  defines "j \<equiv> ''run_'' @ take 16 (bp_sha256 bp (''retry'' @ '':'' @ k @ '':'' @ canonical_text (PDict e)))"
  shows "\<exists>s' run. retry_run bp now i k s = (s', Inr run) \<and> br_run_id run = j \<and> br_parent run = Some i \<and> br_state run = PENDING
    \<and> sn_execution_context (br_snapshot run) = execution_context bp e seed \<and> rs_runs s' = dset j run (rs_runs s)"
proof -
  have id: "stable_run_id bp ''retry'' k e = Inr j"
    unfolding stable_run_id_def j_def e_def json_dumps_wf [OF request_entries_wf] by simp
  have seed: "to_int bp (dget_or e ''seed'' (PInt 0)) = Inr seed" unfolding e_def by (rule retry_seed)
  then obtain run where run: "create_run bp now j (Some i) k e = Inr run"
    by (simp add: create_run_def Let_def)
  have out: "snd (retry_run bp now i k s) = Inr run"
    using assms(1-4) id run by (simp add: retry_run_def e_def Let_def)
  obtain s' where s': "retry_run bp now i k s = (s', Inr run)" using out by (metis prod.collapse)
  have "rs_runs s' = dset j run (rs_runs s)"
    using retry_run_new [OF assms(3) s'] create_run_ok(1) [OF run] create_run_ok(1) by fastforce
  moreover have "sn_execution_context (br_snapshot run) = execution_context bp e seed"
    using create_run_ok(7) [OF run] seed by auto
  ultimately show ?thesis using s' create_run_ok [OF run] by blast
qed

text \<open>A retry that fails cannot be retried with its own retry key without losing it: the id of a retry is
  computed from the retry key and the configuration and not from the run it retries, so the second
  retry takes the id of the first, replaces the failed run by a pending one and makes it its own
  parent.\<close>

theorem retry_of_retry_overwrites:
  assumes "service_reachable bp s" "dget (rs_runs s) i = Some src" "vget (sn_execution_context (br_snapshot src)) ''target'' \<noteq> PStr []"
    and "dget (rs_retry_index s) (i, k) = None" "retry_run bp now i k s = (s1, Inr run)"
    and "dget (rs_retry_index s1) (br_run_id run, k) = None" "transit_all (br_run_id run) [PREPARING, FAILED] s1 = Some s2"
  shows "\<exists>s3 run2. retry_run bp now' (br_run_id run) k s2 = (s3, Inr run2) \<and> br_run_id run2 = br_run_id run
    \<and> br_parent run2 = Some (br_run_id run) \<and> br_state run2 = PENDING
    \<and> dget (rs_runs s2) (br_run_id run) = Some (run\<lparr>br_state := FAILED\<rparr>) \<and> dget (rs_runs s3) (br_run_id run) = Some run2"
proof -
  obtain config seed where ec: "sn_execution_context (br_snapshot src) = execution_context bp config seed"
    using reachable_inv [OF assms(1)] assms(2) unfolding service_inv_def run_ok_def snapshot_ok_def by blast
  then have target: "config_target bp config \<noteq> []" using assms(3) by (auto simp: execution_context_def Let_def)
  have st: "br_state src \<in> {FAILED, CANCELLED}" using retry_run_new [OF assms(4,5)] assms(2) by auto
  define e where "e = request_entries (execution_context bp config seed)"
  define j where "j = ''run_'' @ take 16 (bp_sha256 bp (''retry'' @ '':'' @ k @ '':'' @ canonical_text (PDict e)))"
  have run: "br_run_id run = j" "sn_execution_context (br_snapshot run) = execution_context bp e seed" "rs_runs s1 = dset j run (rs_runs s)"
      "br_state run = PENDING"
    using retry_fresh [OF assms(2) st assms(4) ec, of now] assms(5) by (auto simp: e_def j_def)
  have entries: "request_entries (execution_context bp e seed) = e"
    unfolding e_def by (rule retry_same_entries [OF target])
  have "dget (rs_runs s1) j = Some run" using run(3) by simp
  with assms(7) have s2: "dget (rs_runs s2) j = Some (run\<lparr>br_state := FAILED\<rparr>)"
    using transit_all_path [of s1 j run "[PREPARING, FAILED]"] run(1) by simp
  have "dget (rs_retry_index s2) (j, k) = None"
    using assms(6,7) run(1) by (auto split: prod.splits sum.splits dest!: transition_Inr)
  from retry_fresh [OF s2 _ this, of bp e seed now'] show ?thesis
    using run(1,2) s2 entries by (auto simp: j_def)
qed

text \<open>The demonstration service, with its failed run retried: the retry and the retry of the retry.\<close>

definition demo_retry_id :: string where
  "demo_retry_id = ''run_retry:b:{'' @ [CHR 0x22] @ ''backen''"

definition demo_retried :: run_service where
  "demo_retried = fst (retry_run demo_bench ''2'' demo_id ''b'' demo_failed)"

theorem retry_of_retry_overwrites_witness:
  "\<exists>s2 s3 run2. transit_all demo_retry_id [PREPARING, FAILED] demo_retried = Some s2 \<and>
     retry_run demo_bench ''3'' demo_retry_id ''b'' s2 = (s3, Inr run2) \<and> br_run_id run2 = demo_retry_id
     \<and> br_parent run2 = Some demo_retry_id \<and> br_state run2 = PENDING"
proof -
  have "case retry_run demo_bench ''2'' demo_id ''b'' demo_failed of (_, Inl _) \<Rightarrow> False | (_, Inr run) \<Rightarrow> br_run_id run = demo_retry_id"
    by code_simp
  then obtain run where run: "retry_run demo_bench ''2'' demo_id ''b'' demo_failed = (demo_retried, Inr run)" "br_run_id run = demo_retry_id"
    unfolding demo_retried_def by (cases "retry_run demo_bench ''2'' demo_id ''b'' demo_failed") (auto split: sum.splits)
  have "case dget (rs_runs demo_failed) demo_id of None \<Rightarrow> False
      | Some src \<Rightarrow> vget (sn_execution_context (br_snapshot src)) ''target'' \<noteq> PStr []" by code_simp
  then obtain src where src: "dget (rs_runs demo_failed) demo_id = Some src"
      "vget (sn_execution_context (br_snapshot src)) ''target'' \<noteq> PStr []" by (auto split: option.splits)
  have new: "dget (rs_retry_index demo_failed) (demo_id, ''b'') = None" "dget (rs_retry_index demo_retried) (demo_retry_id, ''b'') = None"
      "transit_all demo_retry_id [PREPARING, FAILED] demo_retried \<noteq> None" by code_simp+
  then obtain s2 where "transit_all demo_retry_id [PREPARING, FAILED] demo_retried = Some s2" by blast
  with retry_of_retry_overwrites [OF demo_service_reachable src new(1) run(1), of s2 "''3''"] new(2)
  show ?thesis unfolding run(2) by blast
qed

section \<open>The run API\<close>

text \<open>What the API asks of a request.\<close>

definition run_request_ok :: "(string, pyval) dict \<Rightarrow> string \<Rightarrow> (string, pyval) dict \<Rightarrow> bool" where
  "run_request_ok request key config \<longleftrightarrow>
     vget request ''idempotency_key'' = PStr key \<and> \<not> blank key \<and> vget request ''config'' = PDict config
     \<and> nonblank_str (vget config ''dataset'') \<and> nonblank_str (vget config ''dataset_version'')
     \<and> (\<exists>seed. vget config ''seed'' = PInt seed)
     \<and> (\<exists>backend. vget config ''backend'' = PStr backend \<and> \<not> blank backend
          \<and> (vget config ''target'' = PNone \<or> (\<exists>t. vget config ''target'' = PStr t \<and> py_strip t = py_strip backend)))"

lemma nonblank_str_iff: "nonblank_str v \<longleftrightarrow> (\<exists>s. v = PStr s \<and> \<not> blank s)"
  by (cases v) (auto simp: nonblank_str_def)

lemma blank_strip: "blank s \<longleftrightarrow> py_strip s = []"
  by (simp add: blank_def)

lemma config_field_errors_iff: "config_field_errors config k = [] \<longleftrightarrow>
    (if k = ''seed'' then \<exists>i. vget config k = PInt i else nonblank_str (vget config k))"
  by (cases "vget config k") (auto simp: config_field_errors_def Let_def)

lemma target_errors_iff:
  assumes "vget config ''backend'' = PStr b" "\<not> blank b"
  shows "target_errors config = [] \<longleftrightarrow> vget config ''target'' = PNone \<or> (\<exists>t. vget config ''target'' = PStr t \<and> py_strip t = py_strip b)"
  using assms by (cases "vget config ''target''") (auto simp: target_errors_def Let_def nonblank_str_def blank_strip)

lemma validate_run_request_iff:
  "validate_run_request request = [] \<longleftrightarrow> (\<exists>key config. run_request_ok request key config)"
proof (cases "\<exists>config. vget request ''config'' = PDict config \<and> config \<noteq> []")
  case True
  then obtain config where config: "vget request ''config'' = PDict config" "config \<noteq> []" by blast
  have "validate_run_request request = [] \<longleftrightarrow> nonblank_str (vget request ''idempotency_key'')
      \<and> nonblank_str (vget config ''dataset'') \<and> nonblank_str (vget config ''dataset_version'') \<and> nonblank_str (vget config ''backend'')
      \<and> (\<exists>i. vget config ''seed'' = PInt i) \<and> target_errors config = []"
    using config by (auto simp: validate_run_request_def config_field_errors_iff)
  also have "\<dots> \<longleftrightarrow> (\<exists>key config. run_request_ok request key config)"
    unfolding nonblank_str_iff run_request_ok_def using target_errors_iff config by auto
  finally show ?thesis .
next
  case False
  then have "validate_run_request request \<noteq> []"
    by (auto simp: validate_run_request_def split: pyval.splits)
  moreover have "\<not> run_request_ok request key config" for key config
    using False by (auto simp: run_request_ok_def)
  ultimately show ?thesis by blast
qed

lemma create_run_seed:
  assumes "vget config ''seed'' = PInt seed"
  shows "\<exists>run. create_run bp now i parent key config = Inr run"
proof -
  have "dget_or config ''seed'' (PInt 0) = PInt seed"
    using assms by (auto simp: vget_def dget_or_def split: option.splits)
  then show ?thesis by (simp add: create_run_def to_int_def Let_def)
qed

lemma start_run_returns_iff:
  assumes "service_inv bp s" "vget config ''seed'' = PInt seed"
  shows "(\<exists>run. snd (start_run bp now key config s) = Inr run) \<longleftrightarrow>
    dhas (rs_start_index s) key \<or> (\<exists>text. json_dumps True (PDict config) = Inr text)"
proof (cases "dget (rs_start_index s) key")
  case (Some i)
  then have "dhas (rs_runs s) i" using assms(1) unfolding service_inv_def by blast
  then show ?thesis using Some by (auto simp: start_run_def run_at_def dhas_def)
next
  case None
  then show ?thesis
    using create_run_seed [OF assms(2)]
    by (auto simp: start_run_def dhas_def stable_run_id_def fail_run_def rbind_def split: sum.splits)
      (metis sum.distinct(1))
qed

lemma run_benchmark_ok:
  assumes "run_request_ok request key config"
  shows "run_benchmark bp now request s = map_prod id (map_sum ServiceError run_response) (start_run bp now key config s)"
proof -
  have "validate_run_request request = []" using assms validate_run_request_iff by blast
  then show ?thesis using assms
    by (simp add: run_benchmark_def run_request_ok_def split: prod.split sum.split)
qed

lemma map_sum_Inr_iff: "(\<exists>y. map_sum f g x = Inr y) \<longleftrightarrow> (\<exists>z. x = Inr z)"
  by (cases x) auto

text \<open>A benchmark request is answered with a run exactly when it has an idempotency key, a dataset, a
  version, a backend and an integer seed, the target (if there is one) names the backend, and the run is
  known already or the configuration can be written as JSON. A request that misses one of the conditions
  on its fields is refused with a list of errors and changes nothing.\<close>

theorem run_request_answered_iff:
  assumes "service_reachable bp s"
  shows "((\<exists>response. snd (run_benchmark bp now request s) = Inr response) \<longleftrightarrow>
      (\<exists>key config. run_request_ok request key config
         \<and> (dhas (rs_start_index s) key \<or> (\<exists>text. json_dumps True (PDict config) = Inr text))))
    \<and> ((\<nexists>key config. run_request_ok request key config) \<longrightarrow>
        (\<exists>errors. errors \<noteq> [] \<and> run_benchmark bp now request s = (s, Inl (RequestInvalid errors))))"
proof (cases "\<exists>key config. run_request_ok request key config")
  case True
  then obtain key config where ok: "run_request_ok request key config" by blast
  then obtain seed where seed: "vget config ''seed'' = PInt seed" by (auto simp: run_request_ok_def)
  have same: "key' = key \<and> config' = config" if "run_request_ok request key' config'" for key' config'
    using that ok by (auto simp: run_request_ok_def)
  have "(\<exists>response. snd (run_benchmark bp now request s) = Inr response) \<longleftrightarrow>
      dhas (rs_start_index s) key \<or> (\<exists>text. json_dumps True (PDict config) = Inr text)"
    unfolding run_benchmark_ok [OF ok] snd_map_prod map_sum_Inr_iff by (rule start_run_returns_iff [OF reachable_inv [OF assms] seed])
  then show ?thesis using ok same by blast
next
  case False
  then have "validate_run_request request \<noteq> []" using validate_run_request_iff by blast
  then show ?thesis using False by (auto simp: run_benchmark_def)
qed

theorem run_request_answered_iff_witness:
  "\<exists>response. snd (run_benchmark demo_bench ''4'' [(''idempotency_key'', PStr ''c''), (''config'', PDict demo_config)] demo_failed) = Inr response"
proof -
  have "run_request_ok [(''idempotency_key'', PStr ''c''), (''config'', PDict demo_config)] ''c'' demo_config"
    by (simp add: run_request_ok_def demo_config_def nonblank_str_def blank_iff is_ws_def)
  moreover have "wf_json (PDict demo_config)" by (simp add: demo_config_def)
  ultimately show ?thesis using run_request_answered_iff [OF demo_service_reachable] json_dumps_wf by blast
qed

text \<open>The payload of a snapshot identifies the request: it parses back to the five fields of the request,
  so two runs have the same payload exactly when they agree on dataset, version, backend, target and
  seed; the request hash identifies them as far as the hash has no collision.\<close>

theorem snapshot_payload_identifies_request:
  assumes "create_run bp now i parent key config = Inr run" "create_run bp now' i' parent' key' config' = Inr run'"
  shows "json_loads (sn_payload (br_snapshot run)) = Some (canon (PDict (request_entries (sn_execution_context (br_snapshot run)))))
    \<and> (sn_payload (br_snapshot run) = sn_payload (br_snapshot run') \<longleftrightarrow>
        request_entries (sn_execution_context (br_snapshot run)) = request_entries (sn_execution_context (br_snapshot run')))"
proof -
  obtain seed seed' where ec: "sn_execution_context (br_snapshot run) = execution_context bp config seed"
      "sn_execution_context (br_snapshot run') = execution_context bp config' seed'"
    using create_run_ok(7) assms by metis
  have pay: "sn_payload (br_snapshot run) = canonical_text (PDict (request_entries (execution_context bp config seed)))"
      "sn_payload (br_snapshot run') = canonical_text (PDict (request_entries (execution_context bp config' seed')))"
    using create_run_ok(6) [OF assms(1)] create_run_ok(6) [OF assms(2)] ec by (simp_all add: snapshot_ok_def)
  show ?thesis
    unfolding pay ec json.enc_eq_iff [OF request_entries_wf request_entries_wf] json.dec_enc [OF request_entries_wf] canon_entries
    by (simp add: request_entries_ec) blast
qed

theorem snapshot_payload_identifies_request_witness:
  "case (create_run demo_bench ''1'' ''r'' None ''k'' demo_config, create_run demo_bench ''2'' ''s'' None ''l'' (dset ''seed'' (PInt 8) demo_config)) of
     (Inr run, Inr run') \<Rightarrow> sn_payload (br_snapshot run) \<noteq> sn_payload (br_snapshot run') | _ \<Rightarrow> False"
proof -
  obtain run run' where runs: "create_run demo_bench ''1'' ''r'' None ''k'' demo_config = Inr run"
      "create_run demo_bench ''2'' ''s'' None ''l'' (dset ''seed'' (PInt 8) demo_config) = Inr run'"
    using create_run_seed [of demo_config 7] create_run_seed [of "dset ''seed'' (PInt 8) demo_config" 8]
    by (simp add: demo_config_def) metis
  then have "request_entries (sn_execution_context (br_snapshot run)) \<noteq> request_entries (sn_execution_context (br_snapshot run'))"
    using create_run_ok(7) [OF runs(1)] create_run_ok(7) [OF runs(2)]
    by (auto simp: request_entries_ec demo_config_def dget_or_def to_int_def)
  then show ?thesis using snapshot_payload_identifies_request [OF runs] runs by simp
qed

section \<open>History\<close>

lemma demo_times: "times_parse demo_hp (list_runs demo_failed)"
proof -
  have "list_all (\<lambda>run. case parse_iso8601 demo_hp (sn_created_at (br_snapshot run)) of Inr _ \<Rightarrow> True | Inl _ \<Rightarrow> False) (list_runs demo_failed)"
    by code_simp
  then show ?thesis by (auto simp: times_parse_def list_all_iff split: sum.splits) (metis sum.exhaust)
qed

text \<open>The history selects and orders as promised: it returns exactly when the filters can be read and every
  stored time parses, and then it returns each stored run of the time range with one of the states and the
  dataset asked for exactly once, newest first and by run id among those of the same time.\<close>

theorem history_selects_and_orders:
  assumes "service_reachable bp s"
  shows "((\<exists>runs. sorted_runs hp start_at end_at filters s = Inr runs) \<longleftrightarrow>
      (\<exists>states. filter_states filters = Inr states) \<and> times_parse hp (list_runs s))
    \<and> (\<forall>runs states. sorted_runs hp start_at end_at filters s = Inr runs \<longrightarrow> filter_states filters = Inr states \<longrightarrow>
         distinct runs \<and> set runs = {run \<in> set (list_runs s). selected_by hp start_at end_at states (filter_dataset filters) run}
         \<and> sorted (map (\<lambda>run. (- hp_timestamp hp (created_us hp run), br_run_id run)) runs))"
proof -
  note inv = reachable_inv [OF assms]
  note eq = sorted_runs_eq [OF inv, where filters = filters and hp = hp and a = start_at and b = end_at]
  have "distinct (list_runs s)" using list_runs_distinct [OF inv] by (simp add: distinct_map)
  moreover have "sorted (map (sort_pair hp) (sort_key (sort_pair hp) rs))" for rs by (rule sorted_sort_key)
  ultimately show ?thesis using eq unfolding sort_pair_def [abs_def] by (fastforce simp: distinct_sort)
qed

theorem history_selects_and_orders_witness:
  "\<exists>runs. sorted_runs demo_hp 0 5 (PDict [(''states'', PList [PStr ''FAILED''])]) demo_failed = Inr runs"
proof -
  have "filter_states (PDict [(''states'', PList [PStr ''FAILED''])]) = Inr [''FAILED'']" by code_simp
  then show ?thesis using history_selects_and_orders [OF demo_service_reachable] demo_times by blast
qed

text \<open>C3. Pagination neither loses nor repeats a run: a client that asks for pages of any size and follows the
  tokens it is given gets to the last page, and the pages together are the selected runs in their order;
  all pages but the last are full.\<close>

theorem pages_enumerate_history:
  assumes "utf8_ok hp" "service_reachable bp s" "sorted_runs hp start_at end_at filters s = Inr runs" "0 < page_size"
  shows "\<exists>pages. follow_pages (Suc (length runs)) hp runs page_size None = Some pages \<and> concat pages = runs
    \<and> (\<forall>page\<in>set (butlast pages). length page = page_size) \<and> length (last pages) \<le> page_size"
proof -
  note inv = reachable_inv [OF assms(2)]
  obtain states where st: "filter_states filters = Inr states" "times_parse hp (list_runs s)"
    using sorted_runs_eq(2) [OF inv assms(3)] by blast
  then have runs: "runs = sort_key (sort_pair hp) (filter (selected_by hp start_at end_at states (filter_dataset filters)) (list_runs s))"
    using sorted_runs_eq(1) [OF inv st] assms(3) by simp
  have "distinct (map br_run_id runs)"
    unfolding runs distinct_map using list_runs_distinct [OF inv] by (auto simp: distinct_map distinct_sort inj_on_def)
  then have "distinct (map run_key runs)" by (auto simp: distinct_map run_key_def inj_on_def)
  moreover have "times_parse hp runs" using st(2) by (simp add: runs times_parse_def)
  ultimately show ?thesis
    using follow_pages_from [OF assms(1) _ _ assms(4), of runs 0 "Suc (length runs)"] by (auto simp: token_at_def)
qed

theorem pages_enumerate_history_witness:
  "case sorted_runs demo_hp 0 5 (PDict []) demo_failed of Inl _ \<Rightarrow> False
   | Inr runs \<Rightarrow> \<exists>pages. follow_pages (Suc (length runs)) demo_hp runs 1 None = Some pages \<and> concat pages = runs"
proof -
  have "case sorted_runs demo_hp 0 5 (PDict []) demo_failed of Inl _ \<Rightarrow> False | Inr runs \<Rightarrow> True" by code_simp
  then obtain runs where runs: "sorted_runs demo_hp 0 5 (PDict []) demo_failed = Inr runs" by (auto split: sum.splits)
  have "utf8_ok demo_hp" by (simp add: utf8_ok_def demo_hp_def)
  from pages_enumerate_history [OF this demo_service_reachable runs, of 1] show ?thesis using runs by auto
qed

text \<open>The trend counts each run once: the total, the count of every state and the terminal runs are those of
  the runs, every day with a run and no other has a bucket with its counts, the days are in order, and the
  success rate is the share of the terminal runs that succeeded, none if there is no terminal run.\<close>

theorem trend_counts_runs:
  assumes "times_parse hp runs"
  shows "\<exists>t. build_trend hp runs = Inr t \<and> tr_total t = int (length runs)
    \<and> tr_terminal t = state_count SUCCEEDED runs + state_count FAILED runs + state_count CANCELLED runs
    \<and> tr_success_rate t = (if tr_terminal t > 0 then PFloat (hp_div hp (state_count SUCCEEDED runs) (tr_terminal t)) else PNone)
    \<and> dkeys (tr_state_counts t) = ALLOWED_STATES \<and> (\<forall>st. dget (tr_state_counts t) (run_state_value st) = Some (state_count st runs))
    \<and> sorted (dkeys (tr_daily t)) \<and> distinct (dkeys (tr_daily t))
    \<and> (\<forall>day. dget (tr_daily t) day = (if on_day hp day runs = [] then None else Some (bucket_of (on_day hp day runs))))"
proof -
  obtain counts days where acc: "rfold (trend_step hp) runs (map (\<lambda>state. (state, 0)) ALLOWED_STATES, []) = Inr (counts, days)"
      "counted hp runs (counts, days)"
    using trend_fold_counted [OF counted_init assms] by auto
  then have "dget_or counts (run_state_value st) 0 = state_count st runs" for st
    by (simp add: counted_def dget_or_def)
  then show ?thesis using acc by (simp add: build_trend_def Let_def counted_def del: run_state_value.simps)
qed

theorem trend_counts_runs_witness:
  "case build_trend demo_hp (list_runs demo_failed) of Inl _ \<Rightarrow> False | Inr t \<Rightarrow> tr_total t = int (length (list_runs demo_failed))"
  using trend_counts_runs [OF demo_times] by auto

text \<open>A cursor whose run is no longer among the selected ones (its state has changed, say) is not an error: the
  listing silently starts again with the first page.\<close>

theorem stale_cursor_restarts:
  assumes "utf8_ok hp" "parse_iso8601 hp created_at = Inr t" "(created_at, run_id) \<notin> run_key ` set runs"
  shows "slice_with_cursor hp runs page_size (Some (encode_cursor created_at run_id)) = slice_with_cursor hp runs page_size None"
proof -
  obtain a as where cur: "encode_cursor created_at run_id = a # as" using encode_cursor_nonempty by (meson list.exhaust)
  have "decode_cursor hp (a # as) = Inr (created_at, run_id)"
    using decode_encode_cursor [OF assms(1), of created_at run_id] assms(2) cur by simp
  then show ?thesis using cursor_index_absent [OF assms(3)] by (simp add: slice_with_cursor_def cur)
qed

text \<open>A request whose filters are null passes the validation and then fails with \<open>AttributeError\<close>, which is not the
  validation error the API promises.\<close>

theorem null_filters_crash:
  assumes "validate_history_request hp request = Inr []" "dget request ''filters'' = Some PNone"
  shows "history hp request s = Inl (HistoryPy AttributeError)"
proof -
  obtain tr a b x y where tr: "vget request ''time_range'' = PDict tr" "vget tr ''start_at'' = PStr a" "vget tr ''end_at'' = PStr b"
      "parse_iso8601 hp a = Inr x" "parse_iso8601 hp b = Inr y"
    using assms(1) by (auto simp: validate_history_request_def rbind_eq_Inr check_time_def split: pyval.splits sum.splits if_splits)
  then show ?thesis
    using assms by (simp add: history_def lift_history_def range_time_def sorted_runs_def filter_states_def dget_or_def Let_def gate_def)
qed

end
