(* ===== verification/QfsCatalog.thy ===== *)
theory QfsCatalog
  imports PyString "HOL-Library.Product_Lexorder"
begin

text \<open>
  The in-memory parts of the QFS store of the system API (\<open>system_api/qfs_store.py\<close>): the checkpoint catalogue with
  its quota and retention, the restore cache, and the index of artifact metadata. Each operation runs under the
  lock of its object, so it is one step.
\<close>

datatype qfs_exn =
    QfsValueError string
  | QuotaExceeded string string
  | OsError string
  | QfsKeyError string
  | QfsAssertionError

type_synonym 'a qres = "(qfs_exn, 'a) result"

section \<open>Checkpoint catalogue\<close>

record checkpoint_artifact =
  ca_checkpoint_id :: string
  ca_qfs_ref :: string
  ca_payload :: string
  ca_created_at :: int
  ca_retention_until :: int

record quota_policy =
  qp_max_artifacts :: int
  qp_max_total_bytes :: int

record checkpoint_catalog =
  cat_quota :: quota_policy
  cat_items :: "(string, checkpoint_artifact) dict"

definition new_catalog :: "quota_policy \<Rightarrow> checkpoint_catalog" where
  "new_catalog quota = \<lparr>cat_quota = quota, cat_items = []\<rparr>"

definition total_bytes :: "(string, checkpoint_artifact) dict \<Rightarrow> int" where
  "total_bytes items = sum_list (map (\<lambda>(_, item). int (length (ca_payload item))) items)"

definition catalog_upsert :: "checkpoint_artifact \<Rightarrow> checkpoint_catalog \<Rightarrow> checkpoint_catalog \<times> unit qres" where
  "catalog_upsert artifact cat =
     (if ca_retention_until artifact < ca_created_at artifact
      then (cat, Inl (QfsValueError ''RETENTION_WINDOW_EXPIRED:retention_until must be >= created_at''))
      else
        (let items = cat_items cat; quota = cat_quota cat;
             existing = dget items (ca_checkpoint_id artifact);
             current_count = int (length items) - (if existing \<noteq> None then 1 else 0)
         in if current_count + 1 > qp_max_artifacts quota
            then (cat, Inl (QuotaExceeded ''QUOTA_ARTIFACTS_EXCEEDED'' (''max_artifacts='' @ show_int (qp_max_artifacts quota))))
            else
              (let current_bytes = total_bytes items - (case existing of None \<Rightarrow> 0 | Some e \<Rightarrow> int (length (ca_payload e)));
                   projected_bytes = current_bytes + int (length (ca_payload artifact))
               in if projected_bytes > qp_max_total_bytes quota
                  then (cat, Inl (QuotaExceeded ''QUOTA_BYTES_EXCEEDED''
                         (''max_total_bytes='' @ show_int (qp_max_total_bytes quota) @ '';projected_bytes='' @ show_int projected_bytes)))
                  else (cat\<lparr>cat_items := dset (ca_checkpoint_id artifact) artifact items\<rparr>, Inr ()))))"

definition catalog_get :: "string \<Rightarrow> int \<Rightarrow> checkpoint_catalog \<Rightarrow> checkpoint_catalog \<times> checkpoint_artifact option" where
  "catalog_get checkpoint_id now_ms cat =
     (case dget (cat_items cat) checkpoint_id of
        None \<Rightarrow> (cat, None)
      | Some artifact \<Rightarrow>
          (if now_ms \<ge> ca_retention_until artifact
           then (cat\<lparr>cat_items := dpop checkpoint_id (cat_items cat)\<rparr>, None)
           else (cat, Some artifact)))"

section \<open>Restore cache\<close>

record cache_event =
  ce_checkpoint_id :: string
  ce_reason_code :: string

record restore_cache =
  rc_capacity :: int
  rc_cache :: "(string, string) dict"
  rc_last_access :: "(string, int) dict"
  rc_clock :: int
  rc_events :: "cache_event list"

definition new_cache :: "int \<Rightarrow> restore_cache qres" where
  "new_cache capacity =
     (if capacity < 1 then Inl (QfsValueError ''capacity must be >= 1'')
      else Inr \<lparr>rc_capacity = capacity, rc_cache = [], rc_last_access = [], rc_clock = 0, rc_events = []\<rparr>)"

definition add_event :: "string \<Rightarrow> string \<Rightarrow> restore_cache \<Rightarrow> restore_cache" where
  "add_event k reason c = c\<lparr>rc_events := rc_events c @ [\<lparr>ce_checkpoint_id = k, ce_reason_code = reason\<rparr>]\<rparr>"

text \<open>\<open>min(self._last_access_ns, key=lambda key: (self._last_access_ns[key], key))\<close>.\<close>

definition oldest :: "(string, int) dict \<Rightarrow> string" where
  "oldest last_access = arg_min_list (\<lambda>k. (dget_or last_access k 0, k)) (dkeys last_access)"

text \<open>The eviction loop of \<open>put\<close>. \<open>min\<close> of no keys and \<open>del\<close> of a missing key would raise.\<close>

function evict :: "restore_cache \<Rightarrow> restore_cache \<times> unit qres" where
  "evict c =
     (if int (length (rc_cache c)) \<le> rc_capacity c then (c, Inr ())
      else if rc_last_access c = [] then (c, Inl (QfsValueError ''min() iterable argument is empty''))
      else
        (let evicted = oldest (rc_last_access c) in
         if \<not> dhas (rc_cache c) evicted then (c, Inl (QfsKeyError evicted))
         else evict (add_event evicted ''CACHE_EVICTED_LRU''
           (c\<lparr>rc_cache := dpop evicted (rc_cache c), rc_last_access := dpop evicted (rc_last_access c)\<rparr>))))"
  by pat_completeness auto
termination
proof (relation "measure (\<lambda>c. length (rc_cache c))")
  fix c :: restore_cache and k
  assume "\<not> \<not> dhas (rc_cache c) k"
  then have "length (dpop k (rc_cache c)) < length (rc_cache c)" by (simp add: length_dpop_less)
  then show "(add_event k ''CACHE_EVICTED_LRU'' (c\<lparr>rc_cache := dpop k (rc_cache c), rc_last_access := dpop k (rc_last_access c)\<rparr>), c)
      \<in> measure (\<lambda>c. length (rc_cache c))" by (simp add: add_event_def)
qed simp

declare evict.simps [simp del]

definition cache_put :: "string \<Rightarrow> string \<Rightarrow> restore_cache \<Rightarrow> restore_cache \<times> unit qres" where
  "cache_put checkpoint_id payload c =
     (let clock = rc_clock c + 1 in
      evict (c\<lparr>rc_clock := clock, rc_cache := dset checkpoint_id payload (rc_cache c),
               rc_last_access := dset checkpoint_id clock (rc_last_access c)\<rparr>))"

definition cache_get :: "string \<Rightarrow> restore_cache \<Rightarrow> restore_cache \<times> string option" where
  "cache_get checkpoint_id c =
     (case dget (rc_cache c) checkpoint_id of
        None \<Rightarrow> (add_event checkpoint_id ''CACHE_MISS'' c, None)
      | Some payload \<Rightarrow>
          (let clock = rc_clock c + 1 in
           (add_event checkpoint_id ''CACHE_HIT''
              (c\<lparr>rc_clock := clock, rc_last_access := dset checkpoint_id clock (rc_last_access c)\<rparr>), Some payload)))"

definition consume_events :: "restore_cache \<Rightarrow> restore_cache \<times> cache_event list" where
  "consume_events c = (c\<lparr>rc_events := []\<rparr>, rc_events c)"

section \<open>Metadata index\<close>

record artifact_metadata =
  am_qfs_ref :: string
  am_job_id :: string
  am_trace_id :: string
  am_stage :: string
  am_artifact_type :: string
  am_created_at :: int
  am_retention_until :: int

definition validate_metadata :: "artifact_metadata \<Rightarrow> string list" where
  "validate_metadata meta = sort
     ((if \<not> py_startswith (am_qfs_ref meta) (''qfs://jobs/'' @ am_job_id meta @ ''/'')
       then [''INVALID_REF_SCOPE:qfs_ref must be under job scope''] else [])
      @ (if blank (am_trace_id meta) then [''INVALID_TRACE_ID:trace_id is required''] else [])
      @ (if blank (am_stage meta) then [''INVALID_STAGE:stage is required''] else [])
      @ (if blank (am_artifact_type meta) then [''INVALID_ARTIFACT_TYPE:artifact_type is required''] else [])
      @ (if am_retention_until meta < am_created_at meta
         then [''INVALID_RETENTION_WINDOW:retention_until must be >= created_at''] else []))"

type_synonym metadata_index = "artifact_metadata list"

definition index_key :: "artifact_metadata \<Rightarrow> string \<times> string \<times> string \<times> string" where
  "index_key item = (am_job_id item, am_trace_id item, am_stage item, am_qfs_ref item)"

definition index_upsert :: "artifact_metadata \<Rightarrow> metadata_index \<Rightarrow> metadata_index qres" where
  "index_upsert meta items =
     (let violations = validate_metadata meta in
      if violations \<noteq> [] then Inl (QfsValueError (''INVALID_METADATA:'' @ py_join ''|'' violations))
      else Inr (sort_key index_key (filter (\<lambda>item. am_qfs_ref item \<noteq> am_qfs_ref meta) items @ [meta])))"

definition find_by_trace :: "string \<Rightarrow> metadata_index \<Rightarrow> artifact_metadata list" where
  "find_by_trace trace_id items = filter (\<lambda>item. am_trace_id item = trace_id) items"

definition find_by_job :: "string \<Rightarrow> metadata_index \<Rightarrow> artifact_metadata list" where
  "find_by_job job_id items = filter (\<lambda>item. am_job_id item = job_id) items"

section \<open>Quota\<close>

lemma total_bytes_dset:
  "wf_dict items \<Longrightarrow> total_bytes (dset k a items) =
     total_bytes items - (case dget items k of None \<Rightarrow> 0 | Some e \<Rightarrow> int (length (ca_payload e))) + int (length (ca_payload a))"
proof (induction items)
  case (Cons e items)
  then show ?case by (cases e) (auto simp: total_bytes_def map_of_eq_None_iff dest: map_of_SomeD split: option.splits)
qed (simp add: total_bytes_def)

lemma total_bytes_dpop_le: "total_bytes (dpop k items) \<le> total_bytes items"
  by (induction items) (auto simp: total_bytes_def)

text \<open>What the quota allows.\<close>

definition within_quota :: "quota_policy \<Rightarrow> (string, checkpoint_artifact) dict \<Rightarrow> bool" where
  "within_quota quota items \<longleftrightarrow> int (length items) \<le> qp_max_artifacts quota \<and> total_bytes items \<le> qp_max_total_bytes quota"

definition catalog_inv :: "checkpoint_catalog \<Rightarrow> bool" where
  "catalog_inv cat \<longleftrightarrow> wf_dict (cat_items cat) \<and> (cat_items cat = [] \<or> within_quota (cat_quota cat) (cat_items cat))
     \<and> (\<forall>i a. dget (cat_items cat) i = Some a \<longrightarrow> ca_checkpoint_id a = i \<and> ca_created_at a \<le> ca_retention_until a)"

lemma upsert_iff:
  assumes "wf_dict (cat_items cat)"
  shows "catalog_upsert a cat =
    (if ca_created_at a \<le> ca_retention_until a \<and> within_quota (cat_quota cat) (dset (ca_checkpoint_id a) a (cat_items cat))
     then (cat\<lparr>cat_items := dset (ca_checkpoint_id a) a (cat_items cat)\<rparr>, Inr ()) else (cat, snd (catalog_upsert a cat)))"
    and "snd (catalog_upsert a cat) = Inr () \<longleftrightarrow>
      ca_created_at a \<le> ca_retention_until a \<and> within_quota (cat_quota cat) (dset (ca_checkpoint_id a) a (cat_items cat))"
  using assms
  by (auto simp: catalog_upsert_def Let_def within_quota_def length_dset total_bytes_dset dhas_def split: option.splits)

lemma catalog_upsert_inv: "catalog_inv cat \<Longrightarrow> catalog_inv (fst (catalog_upsert a cat))"
  by (subst upsert_iff(1)) (auto simp: catalog_inv_def distinct_update simp del: map_of_eq_Some_iff split: if_splits)

lemma catalog_get_inv: "catalog_inv cat \<Longrightarrow> catalog_inv (fst (catalog_get i now cat))"
proof (cases "dget (cat_items cat) i")
  case (Some a)
  assume inv: "catalog_inv cat"
  have "dpop i (cat_items cat) = [] \<or> within_quota (cat_quota cat) (dpop i (cat_items cat))"
    using inv Some length_dpop_less [of "cat_items cat" i] total_bytes_dpop_le [of i "cat_items cat"]
    by (fastforce simp: catalog_inv_def within_quota_def dhas_def)
  then show ?thesis using inv Some by (auto simp: catalog_get_def catalog_inv_def distinct_delete simp del: map_of_eq_Some_iff split: if_splits)
qed (simp add: catalog_get_def)

inductive catalog_step :: "checkpoint_catalog \<Rightarrow> checkpoint_catalog \<Rightarrow> bool" where
  upsert: "catalog_step cat (fst (catalog_upsert a cat))"
| lookup: "catalog_step cat (fst (catalog_get i now cat))"

lemma catalog_step_inv: "catalog_inv cat \<Longrightarrow> catalog_step cat cat' \<Longrightarrow> catalog_inv cat'"
  by (erule catalog_step.cases) (auto intro: catalog_upsert_inv catalog_get_inv)

interpretation catalog: invariant_system "\<lambda>cat. \<exists>quota. cat = new_catalog quota" catalog_step catalog_inv
proof unfold_locales
  show "catalog_inv cat" if "\<exists>quota. cat = new_catalog quota" for cat
    using that by (auto simp: catalog_inv_def new_catalog_def)
  show "catalog_inv cat'" if "catalog_inv cat" "catalog_step cat cat'" for cat cat'
    using that by (rule catalog_step_inv)
qed

section \<open>The cache as a least-recently-used list\<close>

text \<open>The specification: the entries, the most recently used one first.\<close>

type_synonym lru = "(string, string) dict"

definition lru_put :: "nat \<Rightarrow> string \<Rightarrow> string \<Rightarrow> lru \<Rightarrow> lru" where
  "lru_put n k v l = take n ((k, v) # dpop k l)"

definition lru_get :: "string \<Rightarrow> lru \<Rightarrow> lru \<times> string option" where
  "lru_get k l = (case dget l k of None \<Rightarrow> (l, None) | Some v \<Rightarrow> ((k, v) # dpop k l, Some v))"

text \<open>The cache holds the entries of the list, and the times of access go down along the list.\<close>

definition access :: "restore_cache \<Rightarrow> string \<Rightarrow> int" where
  "access c k = dget_or (rc_last_access c) k 0"

definition cache_holds :: "restore_cache \<Rightarrow> lru \<Rightarrow> bool" where
  "cache_holds c l \<longleftrightarrow> wf_dict (rc_cache c) \<and> wf_dict (rc_last_access c) \<and> wf_dict l \<and> dget (rc_cache c) = dget l
     \<and> set (dkeys (rc_last_access c)) = set (dkeys l)
     \<and> sorted_wrt (\<lambda>x y. access c (fst x) > access c (fst y)) l \<and> (\<forall>k\<in>set (dkeys l). access c k \<le> rc_clock c)"

lemma cache_holds_length: "cache_holds c l \<Longrightarrow> length (rc_cache c) = length l"
proof -
  assume h: "cache_holds c l"
  then have "set (dkeys (rc_cache c)) = set (dkeys l)" by (metis cache_holds_def dom_map_of_conv_image_fst list.set_map)
  then show ?thesis using h by (metis cache_holds_def distinct_card length_map)
qed

lemma sorted_wrt_dpop: "sorted_wrt P l \<Longrightarrow> sorted_wrt P (dpop k l)"
  unfolding dpop_filter by (rule sorted_wrt_filter)

lemma set_dpop: "set (dkeys (dpop k l)) = set (dkeys l) - {k}"
  unfolding dpop_filter by auto

text \<open>Using an entry now moves it to the front.\<close>

lemma cache_holds_touch:
  assumes "cache_holds c l" "dget (rc_cache c') = (dget (rc_cache c))(k \<mapsto> v)" "wf_dict (rc_cache c')"
    and "rc_clock c' = rc_clock c + 1" "rc_last_access c' = dset k (rc_clock c + 1) (rc_last_access c)"
  shows "cache_holds c' ((k, v) # dpop k l)"
proof -
  have acc: "access c' j = (if j = k then rc_clock c + 1 else access c j)" for j
    using assms(5) by (simp add: access_def dget_or_def)
  have old: "sorted_wrt (\<lambda>x y. access c (fst x) > access c (fst y)) (dpop k l)" "\<forall>j\<in>set (dkeys (dpop k l)). j \<noteq> k \<and> access c j \<le> rc_clock c"
    using assms(1) set_dpop [of k l] by (auto simp: cache_holds_def intro: sorted_wrt_dpop)
  have "sorted_wrt (\<lambda>x y. access c' (fst x) > access c' (fst y)) (dpop k l)"
    using old by (intro sorted_wrt_mono_rel [OF _ old(1)]) (auto simp: acc)
  then have "sorted_wrt (\<lambda>x y. access c' (fst x) > access c' (fst y)) ((k, v) # dpop k l)"
    using old(2) by (auto simp: acc)
  moreover have "dget (rc_cache c') = dget ((k, v) # dpop k l)"
    using assms(1,2) by (auto simp: cache_holds_def fun_eq_iff)
  moreover have "set (dkeys (rc_last_access c')) = set (dkeys ((k, v) # dpop k l))" "wf_dict (rc_last_access c')" "wf_dict ((k, v) # dpop k l)"
    using assms(1,5) set_dpop [of k l] by (auto simp: cache_holds_def dom_update distinct_update distinct_delete)
  ultimately show ?thesis using assms(3,4) old(2) by (auto simp: cache_holds_def acc)
qed

lemma oldest_last:
  assumes "cache_holds c l" "l \<noteq> []"
  shows "oldest (rc_last_access c) = fst (last l)"
proof (rule ccontr)
  let ?f = "\<lambda>k. (dget_or (rc_last_access c) k 0, k)" and ?ks = "dkeys (rc_last_access c)"
  let ?k = "oldest (rc_last_access c)"
  assume ne: "?k \<noteq> fst (last l)"
  have keys: "set ?ks = set (dkeys l)" using assms(1) by (simp add: cache_holds_def)
  then have "?ks \<noteq> []" using assms(2) by fastforce
  then have min: "?k \<in> set ?ks" "?f ?k = Min (?f ` set ?ks)"
    unfolding oldest_def by (rule arg_min_list_in, rule f_arg_min_list_f)
  have "fst (last l) \<in> set ?ks" unfolding keys using assms(2) by simp
  then have "?f ?k \<le> ?f (fst (last l))" unfolding min(2) by (intro Min_le) auto
  then have le: "access c ?k \<le> access c (fst (last l))" by (auto simp: access_def)
  have l: "l = butlast l @ [last l]" using assms(2) by simp
  obtain v where v: "(?k, v) \<in> set l" using min(1) keys by auto
  moreover have "(?k, v) \<noteq> last l" using ne by (metis fst_conv)
  ultimately have "(?k, v) \<in> set (butlast l)" by (metis in_set_butlastD l set_ConsD set_append Un_iff list.set_intros(1) rotate1.simps(2) set_rotate1)
  moreover have "sorted_wrt (\<lambda>x y. access c (fst x) > access c (fst y)) (butlast l @ [last l])"
    using assms(1) l by (simp add: cache_holds_def)
  ultimately have "access c ?k > access c (fst (last l))" by (fastforce simp: sorted_wrt_append)
  then show False using le by simp
qed

lemma wf_dict_butlast:
  assumes "wf_dict l" "l \<noteq> []"
  shows "dpop (fst (last l)) l = butlast l"
proof -
  have "distinct (map fst (butlast l @ [last l]))" using assms by simp
  then have "fst e \<noteq> fst (last l)" if "e \<in> set (butlast l)" for e using that by (auto simp: image_iff)
  then have "filter (\<lambda>e. fst e \<noteq> fst (last l)) (butlast l @ [last l]) = butlast l" by (simp add: filter_id_conv)
  then show ?thesis using assms(2) by (simp add: dpop_filter)
qed

lemma cache_holds_drop:
  assumes "cache_holds c l" "rc_cache c' = dpop k (rc_cache c)" "rc_last_access c' = dpop k (rc_last_access c)" "rc_clock c' = rc_clock c"
  shows "cache_holds c' (dpop k l)"
proof -
  have acc: "access c' j = access c j" if "j \<noteq> k" for j using assms(3) that by (simp add: access_def dget_or_def)
  have "sorted_wrt (\<lambda>x y. access c (fst x) > access c (fst y)) (dpop k l)"
    using assms(1) by (auto simp: cache_holds_def intro: sorted_wrt_dpop)
  then have "sorted_wrt (\<lambda>x y. access c' (fst x) > access c' (fst y)) (dpop k l)"
    by (rule sorted_wrt_mono_rel [rotated]) (auto simp: acc dpop_filter)
  moreover have "\<forall>j\<in>set (dkeys (dpop k l)). access c' j \<le> rc_clock c'"
    using assms(1,4) acc set_dpop [of k l] by (auto simp: cache_holds_def)
  moreover have "dget (rc_cache c') = dget (dpop k l)" using assms(1,2) by (auto simp: cache_holds_def fun_eq_iff)
  moreover have "set (dkeys (rc_last_access c')) = set (dkeys (dpop k l))"
    using assms(1,3) set_dpop [of k l] set_dpop [of k "rc_last_access c"] by (simp add: cache_holds_def)
  ultimately show ?thesis using assms by (auto simp: cache_holds_def distinct_delete)
qed

text \<open>Eviction drops the least recently used entries and never raises.\<close>

lemma evict_take:
  assumes "cache_holds c l" "0 \<le> rc_capacity c"
  shows "snd (evict c) = Inr () \<and> cache_holds (fst (evict c)) (take (nat (rc_capacity c)) l)
    \<and> rc_capacity (fst (evict c)) = rc_capacity c"
  using assms
proof (induction c arbitrary: l rule: evict.induct)
  case (1 c)
  have len: "length (rc_cache c) = length l" by (rule cache_holds_length [OF "1.prems"(1)])
  show ?case
  proof (cases "int (length (rc_cache c)) \<le> rc_capacity c")
    case True
    then show ?thesis using 1 len by (simp add: evict.simps [of c])
  next
    case False
    let ?k = "oldest (rc_last_access c)"
    let ?c = "add_event ?k ''CACHE_EVICTED_LRU'' (c\<lparr>rc_cache := dpop ?k (rc_cache c), rc_last_access := dpop ?k (rc_last_access c)\<rparr>)"
    have l: "l \<noteq> []" using False len "1.prems"(2) by auto
    then have k: "?k = fst (last l)" by (rule oldest_last [OF "1.prems"(1)])
    have ne: "rc_last_access c \<noteq> []" using l "1.prems"(1) by (fastforce simp: cache_holds_def)
    have "dhas l ?k" using l k by (simp add: dhas_iff)
    then have has: "dhas (rc_cache c) ?k" using "1.prems"(1) by (simp add: cache_holds_def dhas_def)
    have "cache_holds ?c (dpop ?k l)" by (rule cache_holds_drop [OF "1.prems"(1)]) (simp_all add: add_event_def)
    moreover have "dpop ?k l = butlast l" using k l "1.prems"(1) by (simp add: wf_dict_butlast cache_holds_def)
    ultimately have "snd (evict ?c) = Inr () \<and> cache_holds (fst (evict ?c)) (take (nat (rc_capacity ?c)) (butlast l))
        \<and> rc_capacity (fst (evict ?c)) = rc_capacity ?c"
      using "1.IH" [OF False ne refl, of "butlast l"] has "1.prems"(2) by (simp add: add_event_def)
    moreover have "take (nat (rc_capacity c)) (butlast l) = take (nat (rc_capacity c)) l"
      using False len by (simp add: butlast_conv_take min_def)
    moreover have "evict c = evict ?c" using False ne has by (simp add: evict.simps [of c] Let_def)
    ultimately show ?thesis by (simp add: add_event_def)
  qed
qed

section \<open>Refinement\<close>

datatype cache_op = CachePut string string | CacheGet string | CacheEvents

text \<open>What a client sees of an operation: whether it raised, and the payload. The events are diagnostics.\<close>

fun cache_do :: "cache_op \<Rightarrow> restore_cache \<Rightarrow> restore_cache \<times> string option qres" where
  "cache_do (CachePut k v) c = (let (c', r) = cache_put k v c in (c', map_sum id (\<lambda>_. None) r))"
| "cache_do (CacheGet k) c = (let (c', v) = cache_get k c in (c', Inr v))"
| "cache_do CacheEvents c = (fst (consume_events c), Inr None)"

fun lru_do :: "nat \<Rightarrow> cache_op \<Rightarrow> lru \<Rightarrow> lru \<times> string option qres" where
  "lru_do n (CachePut k v) l = (lru_put n k v l, Inr None)"
| "lru_do n (CacheGet k) l = (let (l', v) = lru_get k l in (l', Inr v))"
| "lru_do n CacheEvents l = (l, Inr None)"

definition cache_related :: "nat \<Rightarrow> restore_cache \<Rightarrow> lru \<Rightarrow> bool" where
  "cache_related n c l \<longleftrightarrow> cache_holds c l \<and> rc_capacity c = int n \<and> length l \<le> n"

lemma cache_do_related:
  assumes "cache_related n c l"
  shows "cache_related n (fst (cache_do op c)) (fst (lru_do n op l)) \<and> snd (cache_do op c) = snd (lru_do n op l)"
proof (cases op)
  case (CachePut k v)
  define c1 where "c1 = c\<lparr>rc_clock := rc_clock c + 1, rc_cache := dset k v (rc_cache c), rc_last_access := dset k (rc_clock c + 1) (rc_last_access c)\<rparr>"
  have "cache_holds c1 ((k, v) # dpop k l)"
    using assms by (intro cache_holds_touch [of c l]) (auto simp: c1_def cache_related_def cache_holds_def distinct_update fun_eq_iff)
  from evict_take [OF this] have "snd (evict c1) = Inr ()" "cache_holds (fst (evict c1)) (lru_put n k v l)" "rc_capacity (fst (evict c1)) = int n"
    using assms by (simp_all add: c1_def cache_related_def lru_put_def)
  then show ?thesis
    by (simp add: CachePut cache_put_def Let_def c1_def [symmetric] case_prod_unfold cache_related_def lru_put_def)
next
  case (CacheGet k)
  have same: "dget (rc_cache c) = dget l" using assms by (simp add: cache_related_def cache_holds_def)
  show ?thesis
  proof (cases "dget l k")
    case None
    then show ?thesis using assms same
      by (simp add: CacheGet cache_get_def lru_get_def cache_related_def cache_holds_def add_event_def access_def)
  next
    case (Some v)
    define c1 where "c1 = add_event k ''CACHE_HIT'' (c\<lparr>rc_clock := rc_clock c + 1, rc_last_access := dset k (rc_clock c + 1) (rc_last_access c)\<rparr>)"
    have "cache_holds c1 ((k, v) # dpop k l)"
      using assms Some same by (intro cache_holds_touch [of c l]) (auto simp: c1_def add_event_def cache_related_def cache_holds_def fun_upd_idem)
    moreover have "length ((k, v) # dpop k l) = length l"
      using assms Some length_dpop [of l k] by (simp add: cache_related_def cache_holds_def dhas_def)
    ultimately show ?thesis using assms Some same
      by (simp add: CacheGet cache_get_def lru_get_def cache_related_def Let_def c1_def) (simp add: add_event_def)
  qed
next
  case CacheEvents
  then show ?thesis using assms by (simp add: consume_events_def cache_related_def cache_holds_def access_def)
qed

interpretation restore_cache: simulation cache_do "lru_do n" "cache_related n" for n
  using cache_do_related by unfold_locales auto

lemma new_cache_related: "new_cache capacity = Inr c \<Longrightarrow> cache_related (nat capacity) c []"
  by (auto simp: new_cache_def cache_related_def cache_holds_def split: if_splits)

section \<open>The index as a map\<close>

definition metadata_ok :: "artifact_metadata \<Rightarrow> bool" where
  "metadata_ok m \<longleftrightarrow> py_startswith (am_qfs_ref m) (''qfs://jobs/'' @ am_job_id m @ ''/'') \<and> \<not> blank (am_trace_id m)
     \<and> \<not> blank (am_stage m) \<and> \<not> blank (am_artifact_type m) \<and> am_created_at m \<le> am_retention_until m"

lemma validate_metadata_iff: "validate_metadata m = [] \<longleftrightarrow> metadata_ok m"
  unfolding validate_metadata_def sort_key_eq_nil by (auto simp: metadata_ok_def not_less)

interpretation metadata: decides validate_metadata metadata_ok
  by unfold_locales (rule validate_metadata_iff)

definition index_map :: "metadata_index \<Rightarrow> string \<Rightarrow> artifact_metadata option" where
  "index_map items = map_of (map (\<lambda>m. (am_qfs_ref m, m)) items)"

definition metadata_index_inv :: "metadata_index \<Rightarrow> bool" where
  "metadata_index_inv items \<longleftrightarrow> distinct (map am_qfs_ref items) \<and> sorted (map index_key items) \<and> (\<forall>m\<in>set items. metadata_ok m)"

lemma index_map_Some:
  assumes "distinct (map am_qfs_ref items)"
  shows "index_map items r = Some m \<longleftrightarrow> m \<in> set items \<and> am_qfs_ref m = r"
proof -
  have "distinct (map fst (map (\<lambda>m. (am_qfs_ref m, m)) items))" using assms by (simp add: comp_def)
  then show ?thesis unfolding index_map_def by (auto simp: map_of_eq_Some_iff)
qed

lemma index_upsert_ok:
  assumes "metadata_index_inv items" "index_upsert m items = Inr items'"
  shows "metadata_index_inv items'" "set items' = {i \<in> set items. am_qfs_ref i \<noteq> am_qfs_ref m} \<union> {m}" "metadata_ok m"
proof -
  let ?kept = "filter (\<lambda>i. am_qfs_ref i \<noteq> am_qfs_ref m) items @ [m]"
  have ok: "metadata_ok m" and items': "items' = sort_key index_key ?kept"
    using assms(2) validate_metadata_iff by (auto simp: index_upsert_def Let_def split: if_splits)
  show "metadata_ok m" by (rule ok)
  show "set items' = {i \<in> set items. am_qfs_ref i \<noteq> am_qfs_ref m} \<union> {m}" unfolding items' by auto
  have "distinct (map am_qfs_ref ?kept)" using assms(1) by (auto simp: metadata_index_inv_def distinct_map inj_on_def)
  moreover have "mset (map am_qfs_ref items') = mset (map am_qfs_ref ?kept)" unfolding items' by simp
  ultimately have "distinct (map am_qfs_ref items')" by (metis mset_eq_imp_distinct_iff)
  then show "metadata_index_inv items'" using assms(1) ok unfolding metadata_index_inv_def by (auto simp: items')
qed

lemma index_map_upsert:
  assumes "metadata_index_inv items" "index_upsert m items = Inr items'"
  shows "index_map items' = (index_map items)(am_qfs_ref m \<mapsto> m)"
proof
  fix r
  have d: "distinct (map am_qfs_ref items)" "distinct (map am_qfs_ref items')"
    using assms(1) index_upsert_ok(1) [OF assms] by (simp_all add: metadata_index_inv_def)
  have "index_map items' r = Some i \<longleftrightarrow> ((index_map items)(am_qfs_ref m \<mapsto> m)) r = Some i" for i
    unfolding index_map_Some [OF d(2)] index_upsert_ok(2) [OF assms] by (auto simp: index_map_Some [OF d(1)])
  then show "index_map items' r = ((index_map items)(am_qfs_ref m \<mapsto> m)) r" by (metis option.exhaust)
qed

end
