(* ===== verification/QfsStore.thy ===== *)
theory QfsStore
  imports QfsCatalog
begin

text \<open>
  The QFS store of the system API (\<open>system_api/qfs_store.py\<close>): the local backend over a file system, the retrying
  facade over a list of backends, the layout validator and the retention executor. The file system has files and
  directories, no symbolic links, limits or other writers; a path is the list of its parts from the root
  directory. Each backend operation runs under the backend's lock, so it is one step. The S3 backend calls a
  library and is not modelled.
\<close>

section \<open>Files\<close>

type_synonym path = "string list"

record local_fs =
  lf_files :: "(path, string) dict"
  lf_dirs :: "path set"

text \<open>\<open>lb_ident\<close> is the thread's identifier and \<open>lb_ticks\<close> the monotonic clock; both go into the names of
  temporary files.\<close>

record local_backend =
  lb_root :: path
  lb_fs :: local_fs
  lb_ident :: string
  lb_ticks :: nat

text \<open>\<open>Path.resolve\<close> without symbolic links.\<close>

fun resolve_parts :: "path \<Rightarrow> string list \<Rightarrow> path" where
  "resolve_parts p [] = p"
| "resolve_parts p (part # parts) =
     (if part = [] \<or> part = ''.'' then resolve_parts p parts
      else if part = ''..'' then resolve_parts (butlast p) parts
      else resolve_parts (p @ [part]) parts)"

definition qfs_rel :: "string \<Rightarrow> string" where
  "qfs_rel ref = (if py_startswith ref ''qfs://'' then drop 6 ref else ref)"

definition under :: "path \<Rightarrow> path \<Rightarrow> bool" where
  "under root p \<longleftrightarrow> take (length root) p = root"

definition local_ref_path :: "path \<Rightarrow> string \<Rightarrow> path qres" where
  "local_ref_path root ref =
     (let rel = qfs_rel ref;
          p = resolve_parts (if py_startswith rel ''/'' then [] else root) (py_split (CHR ''/'') rel)
      in if CHR 0x00 \<in> set rel then Inl (QfsValueError ''embedded null byte'')
         else if \<not> under root p then Inl (QfsValueError (''invalid qfs ref: '' @ ref))
         else Inr p)"

section \<open>Local backend\<close>

text \<open>\<open>path.mkdir(parents=True, exist_ok=True)\<close>: fails, without making a directory, if the path or a parent of it is
  a file.\<close>

definition mkdirs :: "path \<Rightarrow> local_fs \<Rightarrow> local_fs qres" where
  "mkdirs p fs =
     (let parents = map (\<lambda>n. take n p) [0..<Suc (length p)] in
      if dhas (lf_files fs) p then Inl (OsError ''FileExistsError'')
      else if list_ex (dhas (lf_files fs)) parents then Inl (OsError ''NotADirectoryError'')
      else Inr (fs\<lparr>lf_dirs := set parents \<union> lf_dirs fs\<rparr>))"

definition tmp_path :: "path \<Rightarrow> string \<Rightarrow> nat \<Rightarrow> path" where
  "tmp_path p ident ticks = butlast p @ [last p @ ''.tmp-'' @ ident @ ''-'' @ show_nat ticks]"

text \<open>Writing the temporary file and replacing the target by it. A target that is a directory cannot be replaced, and
  the temporary file stays.\<close>

definition write_replace :: "path \<Rightarrow> path \<Rightarrow> string \<Rightarrow> local_fs \<Rightarrow> local_fs \<times> unit qres" where
  "write_replace tmp p payload fs =
     (if tmp \<in> lf_dirs fs then (fs, Inl (OsError ''IsADirectoryError''))
      else if p \<in> lf_dirs fs then (fs\<lparr>lf_files := dset tmp payload (lf_files fs)\<rparr>, Inl (OsError ''IsADirectoryError''))
      else (fs\<lparr>lf_files := dset p payload (dpop tmp (lf_files fs))\<rparr>, Inr ()))"

definition upload_bytes :: "string \<Rightarrow> string \<Rightarrow> local_backend \<Rightarrow> local_backend \<times> unit qres" where
  "upload_bytes ref payload b =
     (case local_ref_path (lb_root b) ref of
        Inl e \<Rightarrow> (b, Inl e)
      | Inr p \<Rightarrow>
          (case mkdirs (butlast p) (lb_fs b) of
             Inl e \<Rightarrow> (b, Inl e)
           | Inr fs \<Rightarrow>
               (if p = [] then (b\<lparr>lb_fs := fs\<rparr>, Inl (QfsValueError ''has an empty name''))
                else
                  (let (fs', r) = write_replace (tmp_path p (lb_ident b) (lb_ticks b)) p payload fs
                   in (b\<lparr>lb_fs := fs', lb_ticks := Suc (lb_ticks b)\<rparr>, r)))))"

definition atomic_write :: "string \<Rightarrow> string \<Rightarrow> local_backend \<Rightarrow> local_backend \<times> unit qres" where
  "atomic_write ref payload b = upload_bytes ref payload b"

definition download_bytes :: "string \<Rightarrow> local_backend \<Rightarrow> local_backend \<times> (string option) qres" where
  "download_bytes ref b =
     (b, rbind (local_ref_path (lb_root b) ref) (\<lambda>p.
           case dget (lf_files (lb_fs b)) p of
             Some payload \<Rightarrow> Inr (Some payload)
           | None \<Rightarrow> if p \<in> lf_dirs (lb_fs b) then Inl (OsError ''IsADirectoryError'') else Inr None))"

definition file_ref :: "path \<Rightarrow> path \<Rightarrow> string" where
  "file_ref root p = ''qfs://'' @ py_join ''/'' (drop (length root) p)"

definition refs_under :: "path \<Rightarrow> string \<Rightarrow> local_fs \<Rightarrow> string list" where
  "refs_under root prefix fs =
     sort (filter (\<lambda>ref. py_startswith ref prefix)
       (map (file_ref root) (filter (\<lambda>p. under root p \<and> p \<noteq> root) (dkeys (lf_files fs)))))"

definition list_refs :: "string \<Rightarrow> local_backend \<Rightarrow> local_backend \<times> (string list) qres" where
  "list_refs prefix b =
     (b, Inr (if lb_root b \<in> lf_dirs (lb_fs b) then refs_under (lb_root b) prefix (lb_fs b) else []))"

definition delete_ref :: "string \<Rightarrow> local_backend \<Rightarrow> local_backend \<times> unit qres" where
  "delete_ref ref b =
     (case local_ref_path (lb_root b) ref of
        Inl e \<Rightarrow> (b, Inl e)
      | Inr p \<Rightarrow>
          (if dhas (lf_files (lb_fs b)) p
           then (b\<lparr>lb_fs := (lb_fs b)\<lparr>lf_files := dpop p (lf_files (lb_fs b))\<rparr>\<rparr>, Inr ())
           else if p \<in> lf_dirs (lb_fs b) then (b, Inl (OsError ''IsADirectoryError''))
           else (b, Inr ())))"

fun delete_refs :: "string list \<Rightarrow> local_backend \<Rightarrow> local_backend \<times> unit qres" where
  "delete_refs [] b = (b, Inr ())"
| "delete_refs (ref # refs) b =
     (case delete_ref ref b of (b', Inl e) \<Rightarrow> (b', Inl e) | (b', Inr _) \<Rightarrow> delete_refs refs b')"

definition delete_prefix :: "string \<Rightarrow> local_backend \<Rightarrow> local_backend \<times> unit qres" where
  "delete_prefix prefix b =
     (case list_refs prefix b of (b', Inl e) \<Rightarrow> (b', Inl e) | (b', Inr refs) \<Rightarrow> delete_refs refs b')"

text \<open>One entry of \<open>clear\<close>: a file is unlinked, a directory removed if it is empty.\<close>

definition clear_entry :: "path \<Rightarrow> local_fs \<Rightarrow> local_fs" where
  "clear_entry p fs =
     (if dhas (lf_files fs) p then fs\<lparr>lf_files := dpop p (lf_files fs)\<rparr>
      else if p \<in> lf_dirs fs \<and> (\<forall>q\<in>set (dkeys (lf_files fs)) \<union> lf_dirs fs. \<not> (under p q \<and> q \<noteq> p))
      then fs\<lparr>lf_dirs := lf_dirs fs - {p}\<rparr>
      else fs)"

definition clear :: "local_backend \<Rightarrow> local_backend \<times> unit qres" where
  "clear b =
     (let fs = lb_fs b;
          entries = rev (sorted_list_of_set (Set.filter (\<lambda>p. under (lb_root b) p \<and> p \<noteq> lb_root b) (set (dkeys (lf_files fs)) \<union> lf_dirs fs)))
      in (b\<lparr>lb_fs := fold clear_entry entries fs\<rparr>, Inr ()))"

section \<open>The retrying facade\<close>

record retry_config =
  rt_max_attempts :: int
  rt_backoff_ms :: int

text \<open>One attempt: the backends in order until one succeeds. \<open>last\<close> is the last exception so far.\<close>

fun try_backends :: "('b \<Rightarrow> 'b \<times> 'a qres) \<Rightarrow> 'b list \<Rightarrow> qfs_exn option \<Rightarrow> 'b list \<times> (qfs_exn option, 'a) result" where
  "try_backends op [] last_exc = ([], Inl last_exc)"
| "try_backends op (b # bs) last_exc =
     (case op b of
        (b', Inr v) \<Rightarrow> (b' # bs, Inr v)
      | (b', Inl e) \<Rightarrow> (let (bs', r) = try_backends op bs (Some e) in (b' # bs', r)))"

primrec run_attempts :: "('b \<Rightarrow> 'b \<times> 'a qres) \<Rightarrow> nat \<Rightarrow> 'b list \<Rightarrow> qfs_exn option \<Rightarrow> 'b list \<times> 'a qres" where
  "run_attempts op 0 bs last_exc = (bs, Inl (case last_exc of None \<Rightarrow> QfsAssertionError | Some e \<Rightarrow> e))"
| "run_attempts op (Suc n) bs last_exc =
     (case try_backends op bs last_exc of
        (bs', Inr v) \<Rightarrow> (bs', Inr v)
      | (bs', Inl last_exc') \<Rightarrow> run_attempts op n bs' last_exc')"

definition new_store :: "'b list \<Rightarrow> ('b list) qres" where
  "new_store backends = (if backends = [] then Inl (QfsValueError ''QFSStore requires at least one backend'') else Inr backends)"

definition store_run :: "retry_config \<Rightarrow> ('b \<Rightarrow> 'b \<times> 'a qres) \<Rightarrow> 'b list \<Rightarrow> 'b list \<times> 'a qres" where
  "store_run cfg op backends = run_attempts op (nat (rt_max_attempts cfg)) backends None"

definition put_bytes :: "retry_config \<Rightarrow> string \<Rightarrow> string \<Rightarrow> local_backend list \<Rightarrow> local_backend list \<times> unit qres" where
  "put_bytes cfg ref payload = store_run cfg (upload_bytes ref payload)"

definition atomic_write_bytes :: "retry_config \<Rightarrow> string \<Rightarrow> string \<Rightarrow> local_backend list \<Rightarrow> local_backend list \<times> unit qres" where
  "atomic_write_bytes cfg ref payload = store_run cfg (atomic_write ref payload)"

definition get_bytes :: "retry_config \<Rightarrow> string \<Rightarrow> local_backend list \<Rightarrow> local_backend list \<times> (string option) qres" where
  "get_bytes cfg ref = store_run cfg (download_bytes ref)"

definition store_list_refs :: "retry_config \<Rightarrow> string \<Rightarrow> local_backend list \<Rightarrow> local_backend list \<times> (string list) qres" where
  "store_list_refs cfg prefix = store_run cfg (list_refs prefix)"

definition delete_bytes :: "retry_config \<Rightarrow> string \<Rightarrow> local_backend list \<Rightarrow> local_backend list \<times> unit qres" where
  "delete_bytes cfg ref = store_run cfg (delete_ref ref)"

definition store_delete_prefix :: "retry_config \<Rightarrow> string \<Rightarrow> local_backend list \<Rightarrow> local_backend list \<times> unit qres" where
  "store_delete_prefix cfg prefix = store_run cfg (delete_prefix prefix)"

definition store_clear :: "retry_config \<Rightarrow> local_backend list \<Rightarrow> local_backend list \<times> unit qres" where
  "store_clear cfg = store_run cfg clear"

section \<open>Layout and retention\<close>

definition JOB_LAYOUT_REQUIRED_REFS :: "string list" where
  "JOB_LAYOUT_REQUIRED_REFS = [''input/job.yaml'', ''input/program.eigen.py'', ''compiled/circuit.aqo.json'']"

record layout_result =
  lr_ok :: bool
  lr_diagnostics :: "string list"
  lr_missing_required :: "string list"

definition layout_of :: "string \<Rightarrow> bool \<Rightarrow> string list \<Rightarrow> layout_result" where
  "layout_of job_id require_results refs =
     (let base = ''qfs://jobs/'' @ job_id @ ''/'';
          wanted = map (\<lambda>suffix. base @ suffix) JOB_LAYOUT_REQUIRED_REFS
            @ (if require_results then [base @ ''results.parquet''] else []);
          missing = sort (filter (\<lambda>ref. ref \<notin> set refs) wanted)
      in \<lparr>lr_ok = (missing = []), lr_diagnostics = map (\<lambda>ref. ''MISSING_REQUIRED:'' @ ref) missing, lr_missing_required = missing\<rparr>)"

definition validate_job_layout ::
  "retry_config \<Rightarrow> string \<Rightarrow> bool \<Rightarrow> local_backend list \<Rightarrow> local_backend list \<times> layout_result qres" where
  "validate_job_layout cfg job_id require_results bs =
     (case store_list_refs cfg (''qfs://jobs/'' @ job_id @ ''/'') bs of
        (bs', Inl e) \<Rightarrow> (bs', Inl e)
      | (bs', Inr refs) \<Rightarrow> (bs', Inr (layout_of job_id require_results refs)))"

record cleanup_event =
  ev_qfs_ref :: string
  ev_reason_code :: string

definition cleanup_reason :: "(string, artifact_metadata) dict \<Rightarrow> int \<Rightarrow> string \<Rightarrow> string option" where
  "cleanup_reason indexed now_ms ref =
     (case dget indexed ref of
        None \<Rightarrow> Some ''ORPHAN_NOT_INDEXED''
      | Some meta \<Rightarrow> if now_ms \<ge> am_retention_until meta then Some ''RETENTION_EXPIRED'' else None)"

fun retention_loop ::
  "retry_config \<Rightarrow> (string, artifact_metadata) dict \<Rightarrow> int \<Rightarrow> string list \<Rightarrow> local_backend list \<Rightarrow> cleanup_event list
     \<Rightarrow> local_backend list \<times> (cleanup_event list) qres" where
  "retention_loop cfg indexed now_ms [] bs events = (bs, Inr events)"
| "retention_loop cfg indexed now_ms (ref # refs) bs events =
     (case cleanup_reason indexed now_ms ref of
        None \<Rightarrow> retention_loop cfg indexed now_ms refs bs events
      | Some reason \<Rightarrow>
          (case delete_bytes cfg ref bs of
             (bs', Inl e) \<Rightarrow> (bs', Inl e)
           | (bs', Inr _) \<Rightarrow> retention_loop cfg indexed now_ms refs bs' (events @ [\<lparr>ev_qfs_ref = ref, ev_reason_code = reason\<rparr>])))"

definition retention_run ::
  "retry_config \<Rightarrow> metadata_index \<Rightarrow> int \<Rightarrow> local_backend list \<Rightarrow> local_backend list \<times> (cleanup_event list) qres" where
  "retention_run cfg items now_ms bs =
     (let indexed = foldl (\<lambda>d item. dset (am_qfs_ref item) item d) [] items in
      case store_list_refs cfg ''qfs://jobs/'' bs of
        (bs', Inl e) \<Rightarrow> (bs', Inl e)
      | (bs', Inr refs) \<Rightarrow> retention_loop cfg indexed now_ms (sort refs) bs' [])"

section \<open>Paths and references\<close>

text \<open>The parts of a resolved path.\<close>

definition clean_part :: "string \<Rightarrow> bool" where
  "clean_part s \<longleftrightarrow> s \<noteq> [] \<and> s \<noteq> ''.'' \<and> s \<noteq> ''..'' \<and> CHR ''/'' \<notin> set s \<and> CHR 0x00 \<notin> set s"

abbreviation clean :: "path \<Rightarrow> bool" where
  "clean p \<equiv> list_all clean_part p"

lemma resolve_clean: "clean ps \<Longrightarrow> resolve_parts p ps = p @ ps"
  by (induction ps arbitrary: p) (auto simp: clean_part_def)

lemma clean_butlast: "clean p \<Longrightarrow> clean (butlast p)"
  by (induction p) auto

lemma resolve_is_clean:
  "clean p \<Longrightarrow> \<forall>part\<in>set parts. CHR ''/'' \<notin> set part \<and> CHR 0x00 \<notin> set part \<Longrightarrow> clean (resolve_parts p parts)"
proof (induction parts arbitrary: p)
  case (Cons part parts)
  have "clean (butlast p)" by (rule clean_butlast [OF Cons.prems(1)])
  moreover have "clean_part part" if "part \<noteq> []" "part \<noteq> ''.''" "part \<noteq> ''..''"
    using Cons.prems(2) that by (simp add: clean_part_def)
  ultimately show ?case using Cons by simp
qed simp

lemma py_split_parts: "part \<in> set (py_split c s) \<Longrightarrow> c \<notin> set part \<and> set part \<subseteq> set s"
proof (induction s arbitrary: part)
  case (Cons x xs)
  obtain a as where a: "py_split c xs = a # as" by (cases "py_split c xs") auto
  have "c \<notin> set a \<and> set a \<subseteq> set xs" "\<forall>p\<in>set as. c \<notin> set p \<and> set p \<subseteq> set xs" using Cons.IH a by auto
  then show ?case using Cons.prems a by (auto split: if_splits)
qed simp

lemma py_split_of_join: "xs \<noteq> [] \<Longrightarrow> \<forall>x\<in>set xs. c \<notin> set x \<Longrightarrow> py_split c (py_join [c] xs) = xs"
proof (induction xs rule: induct_list012)
  case (3 x y zs)
  then show ?case by (simp add: py_split_append)
qed (simp_all add: py_split_absent)

lemma set_py_join: "set (py_join sep xs) \<subseteq> set sep \<union> \<Union> (set ` set xs)"
  by (induction sep xs rule: py_join.induct) auto

lemma local_ref_path_clean:
  assumes "clean root" "local_ref_path root ref = Inr p"
  shows "clean p" "under root p"
proof -
  let ?rel = "qfs_rel ref"
  have p: "p = resolve_parts (if py_startswith ?rel ''/'' then [] else root) (py_split (CHR ''/'') ?rel)"
      "CHR 0x00 \<notin> set ?rel" "under root p"
    using assms(2) by (auto simp: local_ref_path_def Let_def split: if_splits)
  show "clean p" unfolding p(1) using assms(1) p(2) py_split_parts by (intro resolve_is_clean) fastforce+
  show "under root p" by (rule p(3))
qed

text \<open>The reference of a file leads back to the file.\<close>

lemma local_ref_path_file:
  assumes "clean p" "under root p" "p \<noteq> root"
  shows "local_ref_path root (file_ref root p) = Inr p"
proof -
  let ?d = "drop (length root) p"
  have p: "p = root @ ?d" using assms(2) by (metis append_take_drop_id under_def)
  then have d: "?d \<noteq> []" "clean ?d" using assms(1,3) by (metis append_Nil2, metis list_all_append)
  obtain x xs where x: "?d = x # xs" using d(1) by (cases ?d) auto
  have "\<not> py_startswith (py_join ''/'' ?d) ''/''"
  proof -
    obtain c cs where "x = c # cs" "c \<noteq> CHR ''/''" using d(2) x by (cases x) (auto simp: clean_part_def)
    then show ?thesis by (cases xs) (simp_all add: x)
  qed
  moreover have "CHR 0x00 \<notin> set (py_join ''/'' ?d)"
    using d(2) set_py_join [of "''/''" ?d] by (fastforce simp: list_all_iff clean_part_def)
  moreover have "py_split (CHR ''/'') (py_join ''/'' ?d) = ?d"
    using d by (intro py_split_of_join) (auto simp: list_all_iff clean_part_def)
  moreover have "qfs_rel (file_ref root p) = py_join ''/'' ?d" by (simp add: qfs_rel_def file_ref_def)
  ultimately show ?thesis using assms(2) p d(2) by (simp add: local_ref_path_def Let_def resolve_clean)
qed

section \<open>Well-formed backends\<close>

definition fs_ok :: "local_fs \<Rightarrow> bool" where
  "fs_ok fs \<longleftrightarrow> wf_dict (lf_files fs) \<and> [] \<in> lf_dirs fs \<and> (\<forall>d\<in>lf_dirs fs. clean d \<and> butlast d \<in> lf_dirs fs)
     \<and> (\<forall>p. dhas (lf_files fs) p \<longrightarrow> clean p \<and> p \<notin> lf_dirs fs \<and> butlast p \<in> lf_dirs fs)"

definition backend_ok :: "local_backend \<Rightarrow> bool" where
  "backend_ok b \<longleftrightarrow> fs_ok (lb_fs b) \<and> clean (lb_root b) \<and> lb_root b \<in> lf_dirs (lb_fs b) \<and> CHR ''/'' \<notin> set (lb_ident b) \<and> CHR 0x00 \<notin> set (lb_ident b)"

lemma prefix_dirs: "fs_ok fs \<Longrightarrow> d \<in> lf_dirs fs \<Longrightarrow> take n d \<in> lf_dirs fs"
proof (induction "length d - n" arbitrary: d)
  case (Suc k)
  then have "take n (butlast d) \<in> lf_dirs fs" by (intro Suc.hyps(1)) (auto simp: fs_ok_def)
  moreover have "take n (butlast d) = take n d" using Suc.hyps(2) by (simp add: take_butlast)
  ultimately show ?case by simp
qed simp

lemma mkdirs_ok:
  assumes "fs_ok fs" "clean p" "mkdirs p fs = Inr fs'"
  shows "fs_ok fs'" "lf_files fs' = lf_files fs" "p \<in> lf_dirs fs'" "lf_dirs fs \<subseteq> lf_dirs fs'"
    "\<And>d. d \<in> lf_dirs fs' \<Longrightarrow> d \<in> lf_dirs fs \<or> (\<exists>n. d = take n p)"
proof -
  have fs': "fs' = fs\<lparr>lf_dirs := set (map (\<lambda>n. take n p) [0..<Suc (length p)]) \<union> lf_dirs fs\<rparr>"
    and none: "\<not> list_ex (dhas (lf_files fs)) (map (\<lambda>n. take n p) [0..<Suc (length p)])"
    using assms(3) by (auto simp: mkdirs_def Let_def split: if_splits)
  have dirs: "d \<in> lf_dirs fs' \<longleftrightarrow> d \<in> lf_dirs fs \<or> (\<exists>n\<le>length p. d = take n p)" for d
    unfolding fs' by (auto simp del: upt_Suc simp: less_Suc_eq_le)
  have not_file: "\<not> dhas (lf_files fs) (take n p)" if "n \<le> length p" for n
    using none that by (auto simp: list_ex_iff simp del: upt_Suc)
  show "lf_files fs' = lf_files fs" by (simp add: fs')
  show "p \<in> lf_dirs fs'" using dirs [of p] by auto
  show "lf_dirs fs \<subseteq> lf_dirs fs'" by (auto simp: fs')
  show "d \<in> lf_dirs fs' \<Longrightarrow> d \<in> lf_dirs fs \<or> (\<exists>n. d = take n p)" for d using dirs by blast
  have "clean (take n p)" "butlast (take n p) \<in> lf_dirs fs'" if "n \<le> length p" for n
    using assms(2) that dirs [of "butlast (take n p)"]
    by (auto simp: list_all_iff butlast_take dest: in_set_takeD intro: exI [of _ "n - 1"])
  then have new: "clean d \<and> butlast d \<in> lf_dirs fs'" if "d \<in> lf_dirs fs'" for d
    using that assms(1) dirs by (auto simp: fs_ok_def)
  have "p' \<notin> lf_dirs fs'" if "dhas (lf_files fs) p'" for p'
    using that assms(1) not_file dirs by (auto simp: fs_ok_def)
  then show "fs_ok fs'" using assms(1) new dirs \<open>lf_files fs' = lf_files fs\<close> by (auto simp: fs_ok_def)
qed

section \<open>Writing\<close>

abbreviation files_of :: "local_backend \<Rightarrow> path \<Rightarrow> string option" where
  "files_of b \<equiv> dget (lf_files (lb_fs b))"

abbreviation upload_tmp :: "local_backend \<Rightarrow> path \<Rightarrow> path" where
  "upload_tmp b p \<equiv> tmp_path p (lb_ident b) (lb_ticks b)"

lemma digit_not_sep: "is_digit c \<Longrightarrow> c \<noteq> CHR ''/'' \<and> c \<noteq> CHR 0x00"
  by (auto simp: is_digit_def)

lemma tmp_clean:
  assumes "clean p" "p \<noteq> []" "CHR ''/'' \<notin> set ident" "CHR 0x00 \<notin> set ident"
  shows "clean (tmp_path p ident ticks)" "tmp_path p ident ticks \<noteq> p" "butlast (tmp_path p ident ticks) = butlast p"
    "length (tmp_path p ident ticks) = length p"
proof -
  have "clean_part (last p)" using assms(1,2) by (simp add: list_all_iff)
  moreover have "CHR ''/'' \<notin> set (show_nat ticks)" "CHR 0x00 \<notin> set (show_nat ticks)"
    using show_nat_digits [of ticks] digit_not_sep by (auto simp: list_all_iff)
  ultimately have "clean_part (last p @ ''.tmp-'' @ ident @ ''-'' @ show_nat ticks)"
    using assms(3,4) by (auto simp: clean_part_def append_eq_Cons_conv)
  then show "clean (tmp_path p ident ticks)" using clean_butlast [OF assms(1)] by (simp add: tmp_path_def)
  show "tmp_path p ident ticks \<noteq> p"
  proof
    assume "tmp_path p ident ticks = p"
    then have "last (tmp_path p ident ticks) = last p" by simp
    then show False by (simp add: tmp_path_def)
  qed
  show "butlast (tmp_path p ident ticks) = butlast p" "length (tmp_path p ident ticks) = length p"
    using assms(2) by (simp_all add: tmp_path_def)
qed

lemma fs_ok_store:
  assumes "fs_ok fs" "clean p" "p \<notin> lf_dirs fs" "butlast p \<in> lf_dirs fs"
  shows "fs_ok (fs\<lparr>lf_files := dset p v (lf_files fs)\<rparr>)"
  using assms by (auto simp: fs_ok_def distinct_update)

lemma fs_ok_remove: "fs_ok fs \<Longrightarrow> fs_ok (fs\<lparr>lf_files := dpop p (lf_files fs)\<rparr>)"
  by (auto simp: fs_ok_def distinct_delete)

text \<open>What an upload can write to.\<close>

definition writable :: "local_backend \<Rightarrow> path \<Rightarrow> bool" where
  "writable b p \<longleftrightarrow> p \<noteq> [] \<and> p \<notin> lf_dirs (lb_fs b) \<and> upload_tmp b p \<notin> lf_dirs (lb_fs b)
     \<and> (\<forall>n<length p. \<not> dhas (lf_files (lb_fs b)) (take n p))"

lemma mkdirs_Inr_iff: "(\<exists>fs'. mkdirs (butlast p) fs = Inr fs') \<longleftrightarrow> (p = [] \<and> \<not> dhas (lf_files fs) []) \<or> (p \<noteq> [] \<and> (\<forall>n<length p. \<not> dhas (lf_files fs) (take n p)))"
proof (cases p rule: rev_cases)
  case Nil
  then show ?thesis by (simp add: mkdirs_def Let_def)
next
  case (snoc q x)
  have "(\<exists>fs'. mkdirs q fs = Inr fs') \<longleftrightarrow> (\<forall>n\<le>length q. \<not> dhas (lf_files fs) (take n q))"
  proof -
    have "dhas (lf_files fs) q \<Longrightarrow> \<exists>n\<le>length q. dhas (lf_files fs) (take n q)" by (rule exI [of _ "length q"]) simp
    then show ?thesis unfolding mkdirs_def Let_def by (auto simp: list_ex_iff less_Suc_eq_le simp del: upt_Suc)
  qed
  then show ?thesis using snoc by (auto simp: less_Suc_eq_le)
qed

lemma upload_cases:
  assumes "backend_ok b"
  shows "(\<exists>e. upload_bytes ref payload b = (b, Inl e) \<and> (\<forall>p. local_ref_path (lb_root b) ref = Inr p \<longrightarrow> \<not> writable b p))
    \<or> (\<exists>p fs. local_ref_path (lb_root b) ref = Inr p \<and> p \<noteq> [] \<and> mkdirs (butlast p) (lb_fs b) = Inr fs
         \<and> (\<forall>n<length p. \<not> dhas (lf_files (lb_fs b)) (take n p))
         \<and> upload_bytes ref payload b = (let (fs', r) = write_replace (upload_tmp b p) p payload fs
              in (b\<lparr>lb_fs := fs', lb_ticks := Suc (lb_ticks b)\<rparr>, r)))"
proof (cases "local_ref_path (lb_root b) ref")
  case (Inl e)
  then show ?thesis by (simp add: upload_bytes_def)
next
  case (Inr p)
  show ?thesis
  proof (cases "mkdirs (butlast p) (lb_fs b)")
    case (Inl e)
    then have "\<not> writable b p" using mkdirs_Inr_iff [of p "lb_fs b"] by (auto simp: writable_def)
    then show ?thesis using Inl Inr by (simp add: upload_bytes_def)
  next
    case (Inr fs)
    show ?thesis
    proof (cases "p = []")
      case True
      then have "lf_dirs fs = lf_dirs (lb_fs b)" "lf_files fs = lf_files (lb_fs b)"
        using Inr assms by (auto simp: mkdirs_def Let_def backend_ok_def fs_ok_def split: if_splits)
      then have "fs = lb_fs b" by (cases fs; cases "lb_fs b") simp
      then show ?thesis using True Inr \<open>local_ref_path (lb_root b) ref = Inr p\<close> by (simp add: upload_bytes_def writable_def)
    next
      case False
      then show ?thesis using Inr \<open>local_ref_path (lb_root b) ref = Inr p\<close> mkdirs_Inr_iff [of p "lb_fs b"]
        by (auto simp: upload_bytes_def)
    qed
  qed
qed

lemma upload_ok:
  assumes "backend_ok b" "upload_bytes ref payload b = (b', r)"
  shows "r = Inr () \<longleftrightarrow> (\<exists>p. local_ref_path (lb_root b) ref = Inr p \<and> writable b p)"
    and "\<And>p. local_ref_path (lb_root b) ref = Inr p \<Longrightarrow> r = Inr () \<Longrightarrow> files_of b' = (files_of b)(upload_tmp b p := None, p \<mapsto> payload)"
    and "\<And>p q. local_ref_path (lb_root b) ref = Inr p \<Longrightarrow> r \<noteq> Inr () \<Longrightarrow> q \<noteq> upload_tmp b p \<Longrightarrow> files_of b' q = files_of b q"
    and "backend_ok b'" "lb_root b' = lb_root b"
proof -
  consider (none) e where "b' = b" "r = Inl e" "\<forall>p. local_ref_path (lb_root b) ref = Inr p \<longrightarrow> \<not> writable b p"
    | (some) p fs where "local_ref_path (lb_root b) ref = Inr p" "p \<noteq> []" "mkdirs (butlast p) (lb_fs b) = Inr fs"
        "\<forall>n<length p. \<not> dhas (lf_files (lb_fs b)) (take n p)"
        "(b', r) = (let (fs', r) = write_replace (upload_tmp b p) p payload fs in (b\<lparr>lb_fs := fs', lb_ticks := Suc (lb_ticks b)\<rparr>, r))"
    using upload_cases [OF assms(1), of ref payload] assms(2) by (elim disjE exE) auto
  then have "(r = Inr () \<longleftrightarrow> (\<exists>p. local_ref_path (lb_root b) ref = Inr p \<and> writable b p))
    \<and> (\<forall>p. local_ref_path (lb_root b) ref = Inr p \<longrightarrow> r = Inr () \<longrightarrow> files_of b' = (files_of b)(upload_tmp b p := None, p \<mapsto> payload))
    \<and> (\<forall>p q. local_ref_path (lb_root b) ref = Inr p \<longrightarrow> r \<noteq> Inr () \<longrightarrow> q \<noteq> upload_tmp b p \<longrightarrow> files_of b' q = files_of b q)
    \<and> backend_ok b' \<and> lb_root b' = lb_root b"
  proof cases
    case none
    then show ?thesis using assms(1) by auto
  next
    case (some p fs)
    have ok: "fs_ok (lb_fs b)" "clean (lb_root b)" "lb_root b \<in> lf_dirs (lb_fs b)" "CHR ''/'' \<notin> set (lb_ident b)" "CHR 0x00 \<notin> set (lb_ident b)"
      using assms(1) by (simp_all add: backend_ok_def)
    have p: "clean p" by (rule local_ref_path_clean(1) [OF ok(2) some(1)])
    note mk = mkdirs_ok [OF ok(1) clean_butlast [OF p] some(3)]
    note tmp = tmp_clean [OF p some(2) ok(4,5), of "lb_ticks b"]
    have long: "q \<in> lf_dirs fs \<longleftrightarrow> q \<in> lf_dirs (lb_fs b)" if "length q = length p" for q
    proof -
      have "length (take n (butlast p)) < length p" for n using some(2) by (cases p) auto
      then show ?thesis using mk(4,5) that by (metis nat_neq_iff subset_iff)
    qed
    have "r = Inr () \<longleftrightarrow> writable b p"
      using some(2,4,5) long [OF tmp(4)] long [of p] by (auto simp: write_replace_def writable_def)
    moreover have "files_of b' = (files_of b)(upload_tmp b p := None, p \<mapsto> payload)" if "r = Inr ()"
      using some(5) that mk(2) by (auto simp: write_replace_def fun_eq_iff split: if_splits)
    moreover have "files_of b' q = files_of b q" if "r \<noteq> Inr ()" "q \<noteq> upload_tmp b p" for q
      using some(5) that mk(2) by (auto simp: write_replace_def split: if_splits)
    moreover have "backend_ok b' \<and> lb_root b' = lb_root b"
    proof -
      have "fs_ok (lb_fs b')"
        using some(5) mk(1,3) p tmp fs_ok_store [OF mk(1) tmp(1)] fs_ok_store [OF fs_ok_remove [OF mk(1)] p]
        by (auto simp: write_replace_def split: if_splits)
      moreover have "lf_dirs (lb_fs b') = lf_dirs fs" "lb_root b' = lb_root b" "lb_ident b' = lb_ident b"
        using some(5) by (auto simp: write_replace_def split: if_splits)
      ultimately show ?thesis using ok mk(4) by (auto simp: backend_ok_def)
    qed
    ultimately show ?thesis using some(1) by auto
  qed
  then show "r = Inr () \<longleftrightarrow> (\<exists>p. local_ref_path (lb_root b) ref = Inr p \<and> writable b p)"
    and "\<And>p. local_ref_path (lb_root b) ref = Inr p \<Longrightarrow> r = Inr () \<Longrightarrow> files_of b' = (files_of b)(upload_tmp b p := None, p \<mapsto> payload)"
    and "\<And>p q. local_ref_path (lb_root b) ref = Inr p \<Longrightarrow> r \<noteq> Inr () \<Longrightarrow> q \<noteq> upload_tmp b p \<Longrightarrow> files_of b' q = files_of b q"
    and "backend_ok b'" "lb_root b' = lb_root b" by blast+
qed

section \<open>Listing and deleting\<close>

text \<open>The files the references of a prefix stand for, in the order of the references.\<close>

definition listed_paths :: "path \<Rightarrow> string \<Rightarrow> local_fs \<Rightarrow> path list" where
  "listed_paths root prefix fs = sort_key (file_ref root)
     (filter (\<lambda>p. under root p \<and> p \<noteq> root \<and> py_startswith (file_ref root p) prefix) (dkeys (lf_files fs)))"

lemma refs_under_paths: "refs_under root prefix fs = map (file_ref root) (listed_paths root prefix fs)"
  unfolding refs_under_def listed_paths_def filter_map sort_key_map by (simp add: comp_def conj_comms conj_assoc)

lemma listed_paths_set:
  "p \<in> set (listed_paths root prefix fs) \<longleftrightarrow> dhas (lf_files fs) p \<and> under root p \<and> p \<noteq> root \<and> py_startswith (file_ref root p) prefix"
  by (auto simp: listed_paths_def dhas_iff)

lemma listed_paths_distinct: "fs_ok fs \<Longrightarrow> distinct (listed_paths root prefix fs)"
  by (simp add: listed_paths_def fs_ok_def distinct_sort)

lemma delete_file:
  assumes "clean p" "under (lb_root b) p" "p \<noteq> lb_root b" "dhas (lf_files (lb_fs b)) p"
  shows "delete_ref (file_ref (lb_root b) p) b = (b\<lparr>lb_fs := (lb_fs b)\<lparr>lf_files := dpop p (lf_files (lb_fs b))\<rparr>\<rparr>, Inr ())"
  using assms local_ref_path_file [OF assms(1-3)] by (simp add: delete_ref_def)

text \<open>A backend without some of its files.\<close>

definition without :: "(path \<Rightarrow> bool) \<Rightarrow> local_backend \<Rightarrow> local_backend" where
  "without P b = b\<lparr>lb_fs := (lb_fs b)\<lparr>lf_files := filter (\<lambda>e. \<not> P (fst e)) (lf_files (lb_fs b))\<rparr>\<rparr>"

lemma without_none [simp]: "without (\<lambda>_. False) b = b"
  by (simp add: without_def)

lemma without_lookup: "files_of (without P b) p = (if P p then None else files_of b p)"
proof -
  have "map_of (filter (\<lambda>e. \<not> P (fst e)) d) p = (if P p then None else map_of d p)" for d :: "(path, string) dict"
    by (induction d) auto
  then show ?thesis by (simp add: without_def)
qed

lemma without_pop:
  "without P (b\<lparr>lb_fs := (lb_fs b)\<lparr>lf_files := dpop p (lf_files (lb_fs b))\<rparr>\<rparr>) = without (\<lambda>q. q = p \<or> P q) b"
  unfolding without_def dpop_filter by (simp add: conj_commute)

lemma without_same [simp]: "lb_root (without P b) = lb_root b" "lf_dirs (lb_fs (without P b)) = lf_dirs (lb_fs b)"
  by (simp_all add: without_def)

lemma delete_refs_files:
  assumes "clean (lb_root b)"
  shows "distinct ps \<Longrightarrow> \<forall>p\<in>set ps. clean p \<and> under (lb_root b) p \<and> p \<noteq> lb_root b \<and> dhas (lf_files (lb_fs b)) p \<Longrightarrow>
    delete_refs (map (file_ref (lb_root b)) ps) b = (without (\<lambda>p. p \<in> set ps) b, Inr ())"
proof (induction ps arbitrary: b)
  case (Cons p ps)
  let ?b = "b\<lparr>lb_fs := (lb_fs b)\<lparr>lf_files := dpop p (lf_files (lb_fs b))\<rparr>\<rparr>"
  have "delete_ref (file_ref (lb_root b) p) b = (?b, Inr ())" using Cons.prems(2) by (intro delete_file) auto
  moreover have "delete_refs (map (file_ref (lb_root ?b)) ps) ?b = (without (\<lambda>p. p \<in> set ps) ?b, Inr ())"
    using Cons.prems by (intro Cons.IH) auto
  ultimately show ?case by (simp add: without_pop)
qed simp

text \<open>Deleting a prefix removes exactly the files whose reference has it.\<close>

lemma delete_prefix_exact:
  assumes "backend_ok b"
  shows "delete_prefix prefix b =
    (without (\<lambda>p. dhas (lf_files (lb_fs b)) p \<and> under (lb_root b) p \<and> p \<noteq> lb_root b \<and> py_startswith (file_ref (lb_root b) p) prefix) b, Inr ())"
proof -
  let ?ps = "listed_paths (lb_root b) prefix (lb_fs b)"
  have "delete_refs (map (file_ref (lb_root b)) ?ps) b = (without (\<lambda>p. p \<in> set ?ps) b, Inr ())"
    using assms listed_paths_distinct
    by (intro delete_refs_files) (auto simp: backend_ok_def listed_paths_set fs_ok_def)
  moreover have "list_refs prefix b = (b, Inr (map (file_ref (lb_root b)) ?ps))"
    using assms by (simp add: list_refs_def backend_ok_def refs_under_paths)
  ultimately show ?thesis unfolding listed_paths_set by (simp add: delete_prefix_def)
qed

section \<open>The facade\<close>

lemma store_run_single:
  assumes "0 < rt_max_attempts cfg" "op b = (b', Inr v)"
  shows "store_run cfg op [b] = ([b'], Inr v)"
proof -
  obtain n where "nat (rt_max_attempts cfg) = Suc n" using assms(1) by (metis not0_implies_Suc zero_less_nat_eq nat_neq_iff)
  then show ?thesis using assms(2) by (simp add: store_run_def)
qed

lemma try_backends_first:
  assumes "\<forall>b\<in>set pre. \<exists>e. snd (op b) = Inl e" "op b = (b', Inr v)"
  shows "try_backends op (pre @ b # post) last_exc = (map (\<lambda>b. fst (op b)) pre @ b' # post, Inr v)"
  using assms
proof (induction pre arbitrary: last_exc)
  case (Cons c pre)
  obtain c' e where "op c = (c', Inl e)" using Cons.prems(1) by (metis list.set_intros(1) prod.collapse)
  then show ?case using Cons by simp
qed simp

lemma try_backends_all_fail:
  assumes "\<forall>b\<in>set bs. \<exists>e. snd (op b) = Inl e" "bs \<noteq> []"
  shows "try_backends op bs last_exc = (map (\<lambda>b. fst (op b)) bs, Inl (case snd (op (last bs)) of Inl e \<Rightarrow> Some e | _ \<Rightarrow> None))"
  using assms
proof (induction bs arbitrary: last_exc)
  case (Cons b bs)
  obtain b' e where "op b = (b', Inl e)" using Cons.prems(1) by (metis list.set_intros(1) prod.collapse)
  then show ?case using Cons by (cases "bs = []") simp_all
qed simp

lemma run_attempts_fail:
  assumes "\<And>b. \<exists>e. snd (op b) = Inl e" "bs \<noteq> []"
  shows "run_attempts op (Suc n) bs last_exc =
    (map ((\<lambda>b. fst (op b)) ^^ Suc n) bs, Inl (case snd (op (((\<lambda>b. fst (op b)) ^^ n) (last bs))) of Inl e \<Rightarrow> e | _ \<Rightarrow> QfsAssertionError))"
  using assms(2)
proof (induction n arbitrary: bs last_exc)
  case 0
  then show ?case using assms(1) by (simp add: try_backends_all_fail split: sum.split)
next
  case (Suc n)
  let ?f = "\<lambda>b. fst (op b)"
  have step: "run_attempts op (Suc (Suc n)) bs last_exc = run_attempts op (Suc n) (map ?f bs) (case snd (op (last bs)) of Inl e \<Rightarrow> Some e | _ \<Rightarrow> None)"
    by (subst run_attempts.simps(2), subst try_backends_all_fail) (use assms(1) Suc.prems in auto)
  have swap: "(?f ^^ n) (fst (op b)) = fst (op ((?f ^^ n) b))" for b using funpow_swap1 [of ?f n b] by simp
  show ?case unfolding step using Suc.IH [of "map ?f bs"] Suc.prems
    by (simp add: last_map comp_def swap del: run_attempts.simps)
qed

section \<open>Retention\<close>

lemma indexed_lookup:
  assumes "distinct (map am_qfs_ref items)"
  shows "dget (foldl (\<lambda>d item. dset (am_qfs_ref item) item d) [] items) = index_map items"
proof -
  have "dget (foldl (\<lambda>d item. dset (am_qfs_ref item) item d) d items) r = (case index_map items r of None \<Rightarrow> dget d r | Some m \<Rightarrow> Some m)" for d r
    using assms
  proof (induction items arbitrary: d)
    case (Cons m items)
    have "index_map items (am_qfs_ref m) = None" using Cons.prems by (auto simp: index_map_def map_of_eq_None_iff image_iff)
    then show ?case using Cons by (auto simp: index_map_def split: option.splits)
  qed (simp add: index_map_def)
  then show ?thesis by (auto simp: fun_eq_iff split: option.split)
qed

definition event_of :: "string \<Rightarrow> string \<Rightarrow> cleanup_event" where
  "event_of ref reason = \<lparr>ev_qfs_ref = ref, ev_reason_code = reason\<rparr>"

definition cleanup_events :: "(string \<Rightarrow> string option) \<Rightarrow> string list \<Rightarrow> cleanup_event list" where
  "cleanup_events reason refs = concat (map (\<lambda>ref. case reason ref of None \<Rightarrow> [] | Some r \<Rightarrow> [event_of ref r]) refs)"

lemma cleanup_events_refs: "map ev_qfs_ref (cleanup_events f refs) = filter (\<lambda>ref. f ref \<noteq> None) refs"
  by (induction refs) (auto simp: cleanup_events_def event_of_def split: option.splits)

lemma cleanup_events_mem: "event_of ref reason \<in> set (cleanup_events f refs) \<longleftrightarrow> ref \<in> set refs \<and> f ref = Some reason"
  by (induction refs) (auto simp: cleanup_events_def event_of_def split: option.splits)

lemma retention_loop_files:
  assumes "clean (lb_root b)" "0 < rt_max_attempts cfg"
  shows "distinct ps \<Longrightarrow> \<forall>p\<in>set ps. clean p \<and> under (lb_root b) p \<and> p \<noteq> lb_root b \<and> dhas (lf_files (lb_fs b)) p \<Longrightarrow>
    retention_loop cfg indexed now (map (file_ref (lb_root b)) ps) [b] events =
      ([without (\<lambda>p. p \<in> set ps \<and> cleanup_reason indexed now (file_ref (lb_root b) p) \<noteq> None) b],
       Inr (events @ cleanup_events (cleanup_reason indexed now) (map (file_ref (lb_root b)) ps)))"
proof (induction ps arbitrary: b events)
  case (Cons p ps)
  let ?b = "b\<lparr>lb_fs := (lb_fs b)\<lparr>lf_files := dpop p (lf_files (lb_fs b))\<rparr>\<rparr>" and ?reason = "cleanup_reason indexed now"
  show ?case
  proof (cases "?reason (file_ref (lb_root b) p)")
    case None
    have "without (\<lambda>q. q \<in> set (p # ps) \<and> ?reason (file_ref (lb_root b) q) \<noteq> None) b
        = without (\<lambda>q. q \<in> set ps \<and> ?reason (file_ref (lb_root b) q) \<noteq> None) b"
      using None by (intro arg_cong [where f = "\<lambda>P. without P b"]) auto
    then show ?thesis using Cons None by (simp add: cleanup_events_def)
  next
    case (Some r)
    have "delete_ref (file_ref (lb_root b) p) b = (?b, Inr ())" using Cons.prems(2) by (intro delete_file) auto
    then have "delete_bytes cfg (file_ref (lb_root b) p) [b] = ([?b], Inr ())"
      unfolding delete_bytes_def by (rule store_run_single [OF assms(2)])
    moreover have "retention_loop cfg indexed now (map (file_ref (lb_root ?b)) ps) [?b] (events @ [event_of (file_ref (lb_root b) p) r]) =
      ([without (\<lambda>q. q \<in> set ps \<and> ?reason (file_ref (lb_root ?b) q) \<noteq> None) ?b],
       Inr ((events @ [event_of (file_ref (lb_root b) p) r]) @ cleanup_events ?reason (map (file_ref (lb_root ?b)) ps)))"
      using Cons.prems by (intro Cons.IH) auto
    moreover have "without (\<lambda>q. q \<in> set (p # ps) \<and> ?reason (file_ref (lb_root b) q) \<noteq> None) b
        = without (\<lambda>q. q = p \<or> (q \<in> set ps \<and> ?reason (file_ref (lb_root b) q) \<noteq> None)) b"
      using Some by (intro arg_cong [where f = "\<lambda>P. without P b"]) auto
    ultimately show ?thesis using Some by (simp add: without_pop cleanup_events_def event_of_def)
  qed
qed (simp add: cleanup_events_def)

lemma retention_exact:
  fixes now :: int
  assumes "backend_ok b" "0 < rt_max_attempts cfg" "metadata_index_inv items"
  defines "reason \<equiv> (\<lambda>ref. case index_map items ref of None \<Rightarrow> Some ''ORPHAN_NOT_INDEXED''
      | Some m \<Rightarrow> if now \<ge> am_retention_until m then Some ''RETENTION_EXPIRED'' else None)"
  shows "retention_run cfg items now [b] =
    ([without (\<lambda>p. p \<in> set (listed_paths (lb_root b) ''qfs://jobs/'' (lb_fs b)) \<and> reason (file_ref (lb_root b) p) \<noteq> None) b],
     Inr (cleanup_events reason (map (file_ref (lb_root b)) (listed_paths (lb_root b) ''qfs://jobs/'' (lb_fs b)))))"
proof -
  let ?ps = "listed_paths (lb_root b) ''qfs://jobs/'' (lb_fs b)" and ?idx = "foldl (\<lambda>d item. dset (am_qfs_ref item) item d) [] items"
  have r: "cleanup_reason ?idx now = reason"
    using indexed_lookup [of items] assms(3) by (auto simp: fun_eq_iff cleanup_reason_def reason_def metadata_index_inv_def)
  have "list_refs ''qfs://jobs/'' b = (b, Inr (map (file_ref (lb_root b)) ?ps))"
    using assms(1) by (simp add: list_refs_def backend_ok_def refs_under_paths)
  then have list: "store_list_refs cfg ''qfs://jobs/'' [b] = ([b], Inr (map (file_ref (lb_root b)) ?ps))"
    unfolding store_list_refs_def by (rule store_run_single [OF assms(2)])
  have sorted: "sort (map (file_ref (lb_root b)) ?ps) = map (file_ref (lb_root b)) ?ps"
    unfolding refs_under_paths [symmetric] refs_under_def by (simp add: sort_key_id_if_sorted)
  have "retention_loop cfg ?idx now (map (file_ref (lb_root b)) ?ps) [b] [] =
      ([without (\<lambda>p. p \<in> set ?ps \<and> cleanup_reason ?idx now (file_ref (lb_root b) p) \<noteq> None) b],
       Inr ([] @ cleanup_events (cleanup_reason ?idx now) (map (file_ref (lb_root b)) ?ps)))"
    using assms(1) listed_paths_distinct
    by (intro retention_loop_files [OF _ assms(2)]) (auto simp: backend_ok_def listed_paths_set fs_ok_def)
  then show ?thesis unfolding retention_run_def Let_def list sorted r by (simp add: sorted)
qed

end
