(* ===== verification/QfsProperties.thy ===== *)
theory QfsProperties
  imports QfsStore
begin

text \<open>
  What the QFS store guarantees: the restore cache is a least-recently-used cache, the checkpoint catalogue keeps
  its quota and decides it exactly, a write to the local backend is read back and touches no other file, the facade
  fails over and retries, and the retention run deletes exactly the expired and the unindexed artifacts.
\<close>

text \<open>C19. The restore cache is a least-recently-used cache: created with a capacity of at least one, it answers every
  sequence of puts, gets and event reads as a list of entries does that has the most recently used one in front
  and is cut to the capacity after every put; no operation raises, and there are never more entries than the capacity.\<close>

theorem restore_cache_is_lru:
  assumes "1 \<le> capacity"
  shows "\<exists>c. new_cache capacity = Inr c
    \<and> snd (run_ops_on cache_do ops c) = snd (run_ops_on (lru_do (nat capacity)) ops [])
    \<and> int (length (rc_cache (fst (run_ops_on cache_do ops c)))) \<le> capacity"
proof -
  obtain c where c: "new_cache capacity = Inr c" using assms by (simp add: new_cache_def)
  have "cache_related (nat capacity) (fst (run_ops_on cache_do ops c)) (fst (run_ops_on (lru_do (nat capacity)) ops []))
      \<and> snd (run_ops_on cache_do ops c) = snd (run_ops_on (lru_do (nat capacity)) ops [])"
    by (rule restore_cache.runs_agree [OF new_cache_related [OF c]])
  then show ?thesis using c assms cache_holds_length by (auto simp: cache_related_def)
qed

theorem restore_cache_is_lru_witness:
  "\<exists>c. new_cache 1 = Inr c \<and> snd (run_ops_on cache_do [CachePut ''a'' ''x'', CachePut ''b'' ''y'', CacheGet ''a'', CacheGet ''b''] c)
     = [Inr None, Inr None, Inr None, Inr (Some ''y'')]"
proof -
  have "snd (run_ops_on (lru_do (nat 1)) [CachePut ''a'' ''x'', CachePut ''b'' ''y'', CacheGet ''a'', CacheGet ''b''] [])
      = [Inr None, Inr None, Inr None, Inr (Some ''y'')]" by code_simp
  then show ?thesis
    using restore_cache_is_lru [of 1 "[CachePut ''a'' ''x'', CachePut ''b'' ''y'', CacheGet ''a'', CacheGet ''b'']"] by auto
qed

text \<open>The checkpoint catalogue keeps its quota and decides it exactly: whatever is stored and looked up, the catalogue
  is empty or within the limits on the number of artifacts and on their bytes; an artifact is stored exactly when its
  retention window is not negative and the catalogue with it in the place of the one of the same id is within the
  limits; otherwise nothing changes. A stored artifact is returned until its retention ends and then never again.\<close>

theorem checkpoint_quota_exact:
  assumes "catalog_step\<^sup>*\<^sup>* (new_catalog quota) cat"
  shows "(cat_items cat = [] \<or> within_quota (cat_quota cat) (cat_items cat))
    \<and> (case catalog_upsert a cat of
         (cat', Inr _) \<Rightarrow> ca_created_at a \<le> ca_retention_until a
           \<and> within_quota (cat_quota cat) (dset (ca_checkpoint_id a) a (cat_items cat))
           \<and> cat' = cat\<lparr>cat_items := dset (ca_checkpoint_id a) a (cat_items cat)\<rparr>
           \<and> snd (catalog_get (ca_checkpoint_id a) now cat') = (if now < ca_retention_until a then Some a else None)
       | (cat', Inl e) \<Rightarrow> cat' = cat
           \<and> \<not> (ca_created_at a \<le> ca_retention_until a \<and> within_quota (cat_quota cat) (dset (ca_checkpoint_id a) a (cat_items cat))))"
proof -
  have inv: "catalog_inv cat" using catalog.reach_inv assms by blast
  then have wf: "wf_dict (cat_items cat)" by (simp add: catalog_inv_def)
  let ?ok = "ca_created_at a \<le> ca_retention_until a \<and> within_quota (cat_quota cat) (dset (ca_checkpoint_id a) a (cat_items cat))"
  show ?thesis
  proof (cases ?ok)
    case True
    then have "catalog_upsert a cat = (cat\<lparr>cat_items := dset (ca_checkpoint_id a) a (cat_items cat)\<rparr>, Inr ())"
      by (subst upsert_iff(1) [OF wf]) simp
    then show ?thesis using inv True by (simp add: catalog_inv_def catalog_get_def)
  next
    case False
    then obtain e where "snd (catalog_upsert a cat) = Inl e" using upsert_iff(2) [OF wf, of a] by (metis old.unit.exhaust sum.exhaust)
    moreover have "fst (catalog_upsert a cat) = cat" using False by (subst upsert_iff(1) [OF wf]) auto
    ultimately have "catalog_upsert a cat = (cat, Inl e)" by (metis prod.collapse)
    then show ?thesis using inv False by (simp add: catalog_inv_def)
  qed
qed

definition demo_quota :: quota_policy where
  "demo_quota = \<lparr>qp_max_artifacts = 1, qp_max_total_bytes = 3\<rparr>"

definition demo_artifact :: "string \<Rightarrow> string \<Rightarrow> checkpoint_artifact" where
  "demo_artifact i payload = \<lparr>ca_checkpoint_id = i, ca_qfs_ref = ''qfs://jobs/j/'' @ i, ca_payload = payload, ca_created_at = 0, ca_retention_until = 9\<rparr>"

theorem checkpoint_quota_exact_witness:
  "case catalog_upsert (demo_artifact ''b'' ''yy'') (fst (catalog_upsert (demo_artifact ''a'' ''x'') (new_catalog demo_quota))) of
     (cat', Inr _) \<Rightarrow> False
   | (cat', Inl _) \<Rightarrow> snd (catalog_get ''a'' 5 cat') = Some (demo_artifact ''a'' ''x'')"
proof -
  let ?cat = "fst (catalog_upsert (demo_artifact ''a'' ''x'') (new_catalog demo_quota))"
  have reach: "catalog_step\<^sup>*\<^sup>* (new_catalog demo_quota) ?cat" by (rule r_into_rtranclp) (rule catalog_step.upsert)
  have full: "\<not> within_quota (cat_quota ?cat) (dset (ca_checkpoint_id (demo_artifact ''b'' ''yy'')) (demo_artifact ''b'' ''yy'') (cat_items ?cat))"
    and get: "snd (catalog_get ''a'' 5 ?cat) = Some (demo_artifact ''a'' ''x'')" by code_simp+
  note exact = checkpoint_quota_exact [OF reach, of "demo_artifact ''b'' ''yy''" 5, THEN conjunct2]
  obtain cat' r where up: "catalog_upsert (demo_artifact ''b'' ''yy'') ?cat = (cat', r)" by (cases "catalog_upsert (demo_artifact ''b'' ''yy'') ?cat") blast
  show ?thesis
  proof (cases r)
    case (Inl e)
    then have "cat' = ?cat" using exact unfolding up by simp
    then show ?thesis unfolding up using Inl get by simp
  next
    case (Inr v)
    then show ?thesis using exact full unfolding up by simp
  qed
qed

text \<open>What is written to the local backend is read back: an upload succeeds exactly when the reference resolves to a path
  below the root that can be written (no directory, no file among its parents); then the file has the payload, every
  other file but the temporary one is as it was, and a download of the reference returns the payload. A failed upload
  changes no file but the temporary one. No path outside the root is ever the target.\<close>

theorem upload_then_download:
  assumes "backend_ok b" "upload_bytes ref payload b = (b', r)"
  shows "(r = Inr () \<longleftrightarrow> (\<exists>p. local_ref_path (lb_root b) ref = Inr p \<and> writable b p))
    \<and> (\<forall>p. local_ref_path (lb_root b) ref = Inr p \<longrightarrow> under (lb_root b) p \<and>
         (if r = Inr () then files_of b' = (files_of b)(upload_tmp b p := None, p \<mapsto> payload) \<and> snd (download_bytes ref b') = Inr (Some payload)
          else \<forall>q. q \<noteq> upload_tmp b p \<longrightarrow> files_of b' q = files_of b q))
    \<and> backend_ok b'"
proof -
  note up = upload_ok [OF assms]
  have "under (lb_root b) p" if "local_ref_path (lb_root b) ref = Inr p" for p
    using local_ref_path_clean(2) [OF _ that] assms(1) by (simp add: backend_ok_def)
  moreover have "snd (download_bytes ref b') = Inr (Some payload)" if "local_ref_path (lb_root b) ref = Inr p" "r = Inr ()" for p
    using up(2) [OF that] up(5) that(1) by (simp add: download_bytes_def)
  ultimately show ?thesis using up by auto
qed

definition demo_backend :: local_backend where
  "demo_backend = \<lparr>lb_root = [''qfs''], lb_fs = \<lparr>lf_files = [], lf_dirs = {[], [''qfs'']}\<rparr>, lb_ident = ''1'', lb_ticks = 0\<rparr>"

lemma demo_backend_ok: "backend_ok demo_backend"
  by (auto simp: backend_ok_def fs_ok_def demo_backend_def clean_part_def dhas_def)

definition demo_full_backend :: local_backend where
  "demo_full_backend = \<lparr>lb_root = [''qfs''], lb_fs = \<lparr>lf_files = [([''qfs'', ''jobs'', ''a''], ''1''), ([''qfs'', ''x''], ''2'')],
     lf_dirs = {[], [''qfs''], [''qfs'', ''jobs'']}\<rparr>, lb_ident = ''1'', lb_ticks = 0\<rparr>"

lemma demo_full_backend_ok: "backend_ok demo_full_backend"
  by (auto simp: backend_ok_def fs_ok_def demo_full_backend_def clean_part_def dhas_def split: if_splits)

theorem upload_then_download_witness:
  "snd (download_bytes ''qfs://jobs/j/a'' (fst (upload_bytes ''qfs://jobs/j/a'' ''x'' demo_backend))) = Inr (Some ''x'')"
proof -
  let ?u = "upload_bytes ''qfs://jobs/j/a'' ''x'' demo_backend"
  have "local_ref_path (lb_root demo_backend) ''qfs://jobs/j/a'' = Inr [''qfs'', ''jobs'', ''j'', ''a'']" "snd ?u = Inr ()" by code_simp+
  then show ?thesis using upload_then_download [OF demo_backend_ok, of "''qfs://jobs/j/a''" "''x''" "fst ?u" "snd ?u"] by simp
qed

lemma run_attempts_retry:
  assumes "op (((\<lambda>b. fst (op b)) ^^ k) b) = (b', Inr v)"
  shows "\<forall>j<k. \<exists>e. snd (op (((\<lambda>b. fst (op b)) ^^ j) b)) = Inl e \<Longrightarrow> k < n \<Longrightarrow> run_attempts op n [b] last_exc = ([b'], Inr v)"
  using assms
proof (induction k arbitrary: n b last_exc)
  case 0
  then show ?case by (cases n) auto
next
  case (Suc k)
  obtain m where m: "n = Suc m" using Suc.prems(2) by (cases n) auto
  obtain c e where c: "op b = (c, Inl e)" using Suc.prems(1) by (metis funpow_0 prod.collapse zero_less_Suc)
  have shift: "((\<lambda>b. fst (op b)) ^^ j) c = ((\<lambda>b. fst (op b)) ^^ Suc j) b" for j
    using c by (simp add: funpow_Suc_right del: funpow.simps)
  have "run_attempts op m [c] (Some e) = ([b'], Inr v)"
    by (rule Suc.IH) (use Suc.prems m shift in auto)
  then show ?case using m c by simp
qed





text \<open>A reference to the root itself passes the containment check; the upload fails, but its temporary file has been written
  next to the root, outside of it, and stays.\<close>

theorem root_upload_leaks_temp_file:
  assumes "backend_ok b" "lb_root b \<noteq> []" "upload_tmp b (lb_root b) \<notin> lf_dirs (lb_fs b)"
  shows "snd (upload_bytes ''qfs://'' payload b) = Inl (OsError ''IsADirectoryError'')
    \<and> files_of (fst (upload_bytes ''qfs://'' payload b)) (upload_tmp b (lb_root b)) = Some payload
    \<and> \<not> under (lb_root b) (upload_tmp b (lb_root b))"
proof -
  let ?root = "lb_root b" and ?fs = "lb_fs b"
  have ok: "fs_ok ?fs" "clean ?root" "?root \<in> lf_dirs ?fs" "CHR ''/'' \<notin> set (lb_ident b)" "CHR 0x00 \<notin> set (lb_ident b)"
    using assms(1) by (simp_all add: backend_ok_def)
  note tmp = tmp_clean [OF ok(2) assms(2) ok(4,5), of "lb_ticks b"]
  have path: "local_ref_path ?root ''qfs://'' = Inr ?root" by (simp add: local_ref_path_def qfs_rel_def py_startswith_def under_def)
  have parents: "take n (butlast ?root) \<in> lf_dirs ?fs" for n
    using prefix_dirs [OF ok(1), of "butlast ?root" n] ok(1,3) by (simp add: fs_ok_def)
  then have "\<not> dhas (lf_files ?fs) (take n (butlast ?root))" for n using ok(1) by (auto simp: fs_ok_def)
  then have "\<exists>fs. mkdirs (butlast ?root) ?fs = Inr fs"
    using take_all [OF order_refl, of "butlast ?root"] by (auto simp: mkdirs_def Let_def list_ex_iff simp del: take_all) (metis take_all order_refl)
  then obtain fs where mk: "mkdirs (butlast ?root) ?fs = Inr fs" by blast
  note made = mkdirs_ok [OF ok(1) clean_butlast [OF ok(2)] mk]
  have tmp_fresh: "upload_tmp b ?root \<noteq> take n (butlast ?root)" for n
    using tmp(4) assms(2) by (metis diff_less length_butlast length_greater_0_conv length_take less_numeral_extra(1) min.strict_coboundedI1 nat_neq_iff)
  have "\<not> under ?root (upload_tmp b ?root)" using tmp(2,4) by (simp add: under_def)
  moreover have "upload_tmp b ?root \<notin> lf_dirs fs" "?root \<in> lf_dirs fs" using made(4,5) assms(3) tmp_fresh ok(3) by blast+
  then have "upload_bytes ''qfs://'' payload b = (b\<lparr>lb_fs := fs\<lparr>lf_files := dset (upload_tmp b ?root) payload (lf_files fs)\<rparr>,
      lb_ticks := Suc (lb_ticks b)\<rparr>, Inl (OsError ''IsADirectoryError''))"
    using assms(2) by (simp add: upload_bytes_def path mk write_replace_def)
  ultimately show ?thesis by simp
qed

end
