(* ===== verification/PublicErrors.thy ===== *)
theory PublicErrors
  imports PyJson
begin

text \<open>
  The public error contract of the system API (\<open>system_api/errors.py\<close>), its security audit sink and trace
  identifiers (\<open>system_api/observability.py\<close>). An aborted call is the left value of a result, the canonical
  error specification; \<open>build_public_status\<close> is the status message built from it.
\<close>

section \<open>Status codes and details\<close>

datatype status_code =
    INVALID_ARGUMENT | DEADLINE_EXCEEDED | NOT_FOUND | ALREADY_EXISTS | PERMISSION_DENIED | RESOURCE_EXHAUSTED
  | FAILED_PRECONDITION | ABORTED | UNIMPLEMENTED | INTERNAL | UNAVAILABLE | UNAUTHENTICATED

fun grpc_code_int :: "status_code \<Rightarrow> int" where
  "grpc_code_int INVALID_ARGUMENT = 3"
| "grpc_code_int DEADLINE_EXCEEDED = 4"
| "grpc_code_int NOT_FOUND = 5"
| "grpc_code_int ALREADY_EXISTS = 6"
| "grpc_code_int PERMISSION_DENIED = 7"
| "grpc_code_int RESOURCE_EXHAUSTED = 8"
| "grpc_code_int FAILED_PRECONDITION = 9"
| "grpc_code_int ABORTED = 10"
| "grpc_code_int UNIMPLEMENTED = 12"
| "grpc_code_int INTERNAL = 13"
| "grpc_code_int UNAVAILABLE = 14"
| "grpc_code_int UNAUTHENTICATED = 16"

record api_violation =
  av_field :: string
  av_description :: string

record public_error_spec =
  pe_grpc_code :: status_code
  pe_message :: string
  pe_reason :: string
  pe_retryable :: bool
  pe_domain :: string
  pe_metadata :: "(string, string) dict"
  pe_violations :: "api_violation list"
  pe_retry_delay_seconds :: "int option"
  pe_resource_type :: string
  pe_resource_name :: string
  pe_precondition_type :: string
  pe_precondition_subject :: string
  pe_quota_subject :: string
  pe_request_id :: string
  pe_detail :: string

text \<open>A specification with the defaults of the data class.\<close>

definition public_error :: "status_code \<Rightarrow> string \<Rightarrow> string \<Rightarrow> bool \<Rightarrow> public_error_spec" where
  "public_error code message reason retryable =
     \<lparr>pe_grpc_code = code, pe_message = message, pe_reason = reason, pe_retryable = retryable, pe_domain = ''eigen.api.v1'',
      pe_metadata = [], pe_violations = [], pe_retry_delay_seconds = None, pe_resource_type = [], pe_resource_name = [],
      pe_precondition_type = [], pe_precondition_subject = [], pe_quota_subject = [], pe_request_id = [], pe_detail = []\<rparr>"

text \<open>The detail messages of \<open>google.rpc\<close> the code packs into a status.\<close>

datatype status_detail =
    ErrorInfo string string "(string, string) dict"
  | BadRequest "api_violation list"
  | RetryInfo int
  | ResourceInfo string string string
  | PreconditionFailure string string string
  | QuotaFailure string string
  | RequestInfo string

record rpc_status =
  st_code :: int
  st_message :: string
  st_details :: "status_detail list"

definition str_else :: "string \<Rightarrow> string \<Rightarrow> string" where
  "str_else s t = (if s = [] then t else s)"

definition build_public_status :: "public_error_spec \<Rightarrow> rpc_status" where
  "build_public_status spec =
     (let metadata = dset ''retryable'' (if pe_retryable spec then ''true'' else ''false'') (pe_metadata spec) in
      \<lparr>st_code = grpc_code_int (pe_grpc_code spec), st_message = pe_message spec,
       st_details =
         [ErrorInfo (pe_reason spec) (pe_domain spec) (sort_key fst metadata)]
         @ (if pe_violations spec \<noteq> [] then [BadRequest (pe_violations spec)] else [])
         @ (case pe_retry_delay_seconds spec of None \<Rightarrow> [] | Some s \<Rightarrow> [RetryInfo s])
         @ (if pe_resource_type spec \<noteq> [] \<or> pe_resource_name spec \<noteq> []
            then [ResourceInfo (pe_resource_type spec) (pe_resource_name spec) (pe_detail spec)] else [])
         @ (if pe_precondition_type spec \<noteq> [] \<or> pe_precondition_subject spec \<noteq> []
            then [PreconditionFailure (str_else (pe_precondition_type spec) (pe_reason spec)) (pe_precondition_subject spec)
                    (str_else (pe_detail spec) (pe_message spec))] else [])
         @ (if pe_quota_subject spec \<noteq> [] then [QuotaFailure (pe_quota_subject spec) (str_else (pe_detail spec) (pe_message spec))] else [])
         @ (if pe_request_id spec \<noteq> [] then [RequestInfo (pe_request_id spec)] else [])\<rparr>)"

section \<open>Helpers that abort a call\<close>

type_synonym 'a rpc = "(public_error_spec, 'a) result"

definition abort_public :: "public_error_spec \<Rightarrow> 'a rpc" where
  "abort_public spec = Inl spec"

definition abort_validation :: "string \<Rightarrow> api_violation list \<Rightarrow> 'a rpc" where
  "abort_validation message violations =
     abort_public ((public_error INVALID_ARGUMENT message ''EIGEN_PUBLIC_VALIDATION_FAILED'' False)
       \<lparr>pe_metadata := [(''error_class'', ''validation'')], pe_violations := violations\<rparr>)"

definition abort_payload_limit :: "string \<Rightarrow> api_violation list \<Rightarrow> 'a rpc" where
  "abort_payload_limit message violations =
     abort_public ((public_error RESOURCE_EXHAUSTED message ''EIGEN_PUBLIC_PAYLOAD_LIMIT_EXCEEDED'' False)
       \<lparr>pe_metadata := [(''limit_class'', ''payload'')], pe_violations := violations, pe_quota_subject := ''request.payload'',
        pe_detail := ''Reduce request payload size and retry with a smaller request.''\<rparr>)"

definition abort_invalid_argument :: "string \<Rightarrow> api_violation list \<Rightarrow> 'a rpc" where
  "abort_invalid_argument message violations = abort_validation message violations"

definition retryable_code :: "status_code \<Rightarrow> bool" where
  "retryable_code code \<longleftrightarrow> code \<in> {UNAVAILABLE, RESOURCE_EXHAUSTED, ABORTED}"

definition abort_with_error_info :: "status_code \<Rightarrow> string \<Rightarrow> string \<Rightarrow> string \<Rightarrow> (string, string) dict \<Rightarrow> 'a rpc" where
  "abort_with_error_info code message reason domain metadata =
     abort_public ((public_error code message reason (retryable_code code))
       \<lparr>pe_domain := domain, pe_metadata := metadata, pe_retry_delay_seconds := (if retryable_code code then Some 1 else None)\<rparr>)"

definition api_violation_of :: "string \<Rightarrow> string \<Rightarrow> api_violation" where
  "api_violation_of f d = \<lparr>av_field = f, av_description = d\<rparr>"

definition required_string :: "string \<Rightarrow> string \<Rightarrow> api_violation list" where
  "required_string value f = (if value = [] then [api_violation_of f ''field is required''] else [])"

definition positive_int :: "int \<Rightarrow> string \<Rightarrow> api_violation list" where
  "positive_int value f = (if value \<le> 0 then [api_violation_of f ''must be > 0''] else [])"

section \<open>Audit sink and counters\<close>

text \<open>
  \<open>os_lines\<close> are the lines of the audit file, \<open>os_writable\<close> says whether it can be opened and written;
  \<open>os_denied\<close> are the warnings of \<open>log_authz_denied\<close>.
\<close>

record authz_warning =
  aw_method :: string
  aw_subject :: string
  aw_permission :: string
  aw_trace_id :: "string option"
  aw_traceparent :: string

record obs_state =
  os_writable :: bool
  os_lines :: "string list"
  os_write_failures :: nat
  os_authz_denied_total :: nat
  os_denied :: "authz_warning list"

definition record_security_audit_write_failure :: "obs_state \<Rightarrow> obs_state" where
  "record_security_audit_write_failure s = s\<lparr>os_write_failures := os_write_failures s + 1\<rparr>"

definition append_security_audit_event :: "(string, string) dict \<Rightarrow> obs_state \<Rightarrow> obs_state \<times> bool" where
  "append_security_audit_event event s =
     (if os_writable s
      then (s\<lparr>os_lines := os_lines s @ [canonical_text (PDict (map (\<lambda>(k, v). (k, PStr v)) event))]\<rparr>, True)
      else (record_security_audit_write_failure s, False))"

definition log_authz_denied :: "authz_warning \<Rightarrow> obs_state \<Rightarrow> obs_state" where
  "log_authz_denied w s = s\<lparr>os_authz_denied_total := os_authz_denied_total s + 1, os_denied := os_denied s @ [w]\<rparr>"

definition sanitized_security_metadata ::
  "string \<Rightarrow> string list \<Rightarrow> string \<Rightarrow> string \<Rightarrow> string option \<Rightarrow> string option \<Rightarrow> string option \<Rightarrow> (string, string) dict" where
  "sanitized_security_metadata subject roles auth_mode policy_version service_identity sandbox_profile replay_marker =
     [(''subject'', subject), (''roles'', py_join '','' roles), (''auth_mode'', auth_mode), (''policy_version'', policy_version),
      (''service_identity'', case service_identity of None \<Rightarrow> [] | Some s \<Rightarrow> s),
      (''sandbox_profile'', case sandbox_profile of None \<Rightarrow> [] | Some s \<Rightarrow> s),
      (''replay_marker'', case replay_marker of None \<Rightarrow> [] | Some s \<Rightarrow> s)]"

section \<open>Trace identifiers\<close>

definition lower_hex :: "char \<Rightarrow> bool" where
  "lower_hex c \<longleftrightarrow> c \<in> set ''0123456789abcdef''"

text \<open>The fields of the pattern \<open>_TRACEPARENT_RE\<close>: groups of \<open>n\<close> hexadecimal digits with dashes between them; its end matches
  before a final line feed, too.\<close>

fun hex_fields :: "nat list \<Rightarrow> string \<Rightarrow> string list option" where
  "hex_fields [] s = (if s = [] \<or> s = [CHR 0x0A] then Some [] else None)"
| "hex_fields [n] s =
     (if n \<le> length s \<and> list_all lower_hex (take n s) then map_option (Cons (take n s)) (hex_fields [] (drop n s)) else None)"
| "hex_fields (n # m # ns) s =
     (if n < length s \<and> list_all lower_hex (take n s) \<and> s ! n = CHR ''-''
      then map_option (Cons (take n s)) (hex_fields (m # ns) (drop (Suc n) s)) else None)"

definition trace_id_from_traceparent :: "string option \<Rightarrow> string option" where
  "trace_id_from_traceparent traceparent =
     (case traceparent of
        None \<Rightarrow> None
      | Some s \<Rightarrow> if s = [] then None else map_option (\<lambda>fs. fs ! 1) (hex_fields [2, 32, 16, 2] s))"

section \<open>What the status says\<close>

text \<open>The retryable flag is always in the error information, whatever metadata the caller gives.\<close>

lemma status_error_info:
  assumes "wf_dict (pe_metadata spec)"
  shows "\<exists>md rest. st_details (build_public_status spec) = ErrorInfo (pe_reason spec) (pe_domain spec) md # rest
    \<and> sorted (dkeys md) \<and> distinct (dkeys md)
    \<and> dget md = (dget (pe_metadata spec))(''retryable'' \<mapsto> if pe_retryable spec then ''true'' else ''false'')
    \<and> (\<forall>d\<in>set rest. \<not> (\<exists>r dom md'. d = ErrorInfo r dom md'))"
proof -
  let ?md = "dset ''retryable'' (if pe_retryable spec then ''true'' else ''false'') (pe_metadata spec)"
  have "wf_dict ?md" by (rule wf_dict_dset [OF assms])
  then have "sorted (dkeys (sort_key fst ?md))" "distinct (dkeys (sort_key fst ?md))"
    "dget (sort_key fst ?md) = (dget (pe_metadata spec))(''retryable'' \<mapsto> if pe_retryable spec then ''true'' else ''false'')"
    by (simp_all add: update_conv')
  then show ?thesis unfolding build_public_status_def Let_def
    by (intro exI [of _ "sort_key fst ?md"] exI conjI) (auto split: option.splits if_splits)
qed

end
