(* ===== verification/Security.thy ===== *)
theory Security
  imports PublicErrors PyBase64
begin

text \<open>
  Authentication and authorisation at the public API (\<open>system_api/security.py\<close>): the configuration read from the
  environment, policy snapshots, HS256 tokens, the security context of a call, the authorisation decision with its
  audit records, sandbox profiles and the gateway for model recommendations. HMAC, UTF-8 decoding, \<open>str\<close> on
  containers, \<open>int\<close> on floats, the clock and the files are parameters; so is the order in which Python
  enumerates a set of strings.
\<close>

section \<open>Configuration\<close>

text \<open>Reading a file: its text, that it is missing, or another error.\<close>

datatype file_read = FileText string | FileMissing | FileError pyexn

record sec_platform =
  se_env :: "string \<Rightarrow> string option"
  se_read :: "string \<Rightarrow> file_read"
  se_hmac :: "string \<Rightarrow> string \<Rightarrow> string"
  se_decode :: "string \<Rightarrow> string option"
  se_str :: "pyval \<Rightarrow> string"
  se_int_of_float :: "string \<Rightarrow> int option"
  se_set_order :: "string list \<Rightarrow> string list"

definition AUTH_ALLOW_ALL :: string where "AUTH_ALLOW_ALL = ''allow_all''"
definition AUTH_STATIC_TOKEN :: string where "AUTH_STATIC_TOKEN = ''static_token''"
definition AUTH_JWT_OAUTH2 :: string where "AUTH_JWT_OAUTH2 = ''jwt_oauth2''"

definition VALID_AUTH_MODES :: "string list" where
  "VALID_AUTH_MODES = [AUTH_ALLOW_ALL, AUTH_STATIC_TOKEN, AUTH_JWT_OAUTH2]"

definition ROLE_PERMISSIONS :: "(string, string list) dict" where
  "ROLE_PERMISSIONS =
     [(''admin'', [''*'']), (''user'', [''jobs:*'', ''devices:list'', ''devices:status'']), (''readonly'', [''jobs:read'', ''devices:list''])]"

definition FORBIDDEN_SECURITY_INTENTS :: "string list" where
  "FORBIDDEN_SECURITY_INTENTS = [''grant access'', ''revoke access'', ''bypass policy'', ''modify quotas'', ''approve privileged actions'']"

record policy_snapshot =
  ps_version :: string
  ps_issuer :: string
  ps_audience :: string
  ps_role_permissions :: "(pyval, string list) dict"
  ps_service_permissions :: "(pyval, string list) dict"
  ps_sandbox_profiles :: "string list"

record security_context =
  sx_subject :: string
  sx_roles :: "string list"
  sx_tenant :: string
  sx_auth_mode :: string
  sx_policy_version :: string
  sx_service_identity :: "string option"
  sx_service_role :: "string option"
  sx_sandbox_profile :: "string option"
  sx_claims :: "(string, string) dict"
  sx_decision_authority :: string
  sx_model_output_mode :: string

record security_config =
  cf_auth_mode :: string
  cf_static_token :: string
  cf_static_token_subject :: string
  cf_static_token_roles :: "string list"
  cf_static_token_tenant :: string
  cf_max_program_source_bytes :: int
  cf_max_jobspec_yaml_bytes :: int
  cf_max_submit_metadata_entries :: int
  cf_max_submit_metadata_key_bytes :: int
  cf_max_submit_metadata_value_bytes :: int
  cf_max_submit_dependencies :: int
  cf_jwt_secret :: string
  cf_jwt_issuer :: string
  cf_jwt_audience :: string
  cf_policy_snapshot_path :: string
  cf_policy_snapshot_json :: string
  cf_service_identity :: string
  cf_service_role :: string
  cf_sandbox_profile :: string

definition getenv :: "sec_platform \<Rightarrow> string \<Rightarrow> string \<Rightarrow> string" where
  "getenv sp name dflt = (case se_env sp name of None \<Rightarrow> dflt | Some v \<Rightarrow> v)"

definition int_env :: "sec_platform \<Rightarrow> string \<Rightarrow> int \<Rightarrow> int" where
  "int_env sp name dflt =
     (case py_int (getenv sp name (show_int dflt)) of None \<Rightarrow> dflt | Some value \<Rightarrow> max 1 value)"

text \<open>\<open>part.strip().lower() for part in s.split(",") if part.strip()\<close>\<close>

definition comma_items :: "string \<Rightarrow> string list" where
  "comma_items s = map (\<lambda>part. py_lower (py_strip part)) (filter (\<lambda>part. \<not> blank part) (py_split (CHR '','') s))"

definition load_security_config :: "sec_platform \<Rightarrow> security_config" where
  "load_security_config sp =
     (let mode = py_lower (py_strip (getenv sp ''SYSTEM_API_AUTH_MODE'' AUTH_ALLOW_ALL)) in
      \<lparr>cf_auth_mode = (if mode \<in> set VALID_AUTH_MODES then mode else AUTH_ALLOW_ALL),
       cf_static_token = getenv sp ''SYSTEM_API_AUTH_TOKEN'' ''dev-token'',
       cf_static_token_subject = getenv sp ''SYSTEM_API_AUTH_SUBJECT'' ''static-token-user'',
       cf_static_token_roles = comma_items (getenv sp ''SYSTEM_API_AUTH_ROLES'' []),
       cf_static_token_tenant = getenv sp ''SYSTEM_API_AUTH_TENANT'' [],
       cf_max_program_source_bytes = int_env sp ''SYSTEM_API_MAX_PROGRAM_SOURCE_BYTES'' 262144,
       cf_max_jobspec_yaml_bytes = int_env sp ''SYSTEM_API_MAX_JOBSPEC_YAML_BYTES'' 65536,
       cf_max_submit_metadata_entries = int_env sp ''SYSTEM_API_MAX_SUBMIT_METADATA_ENTRIES'' 64,
       cf_max_submit_metadata_key_bytes = int_env sp ''SYSTEM_API_MAX_SUBMIT_METADATA_KEY_BYTES'' 128,
       cf_max_submit_metadata_value_bytes = int_env sp ''SYSTEM_API_MAX_SUBMIT_METADATA_VALUE_BYTES'' 4096,
       cf_max_submit_dependencies = int_env sp ''SYSTEM_API_MAX_SUBMIT_DEPENDENCIES'' 64,
       cf_jwt_secret = getenv sp ''SYSTEM_API_AUTH_JWT_SECRET'' ''dev-jwt-secret'',
       cf_jwt_issuer = getenv sp ''SYSTEM_API_AUTH_ISSUER'' ''eigen-auth'',
       cf_jwt_audience = getenv sp ''SYSTEM_API_AUTH_AUDIENCE'' ''eigen-api'',
       cf_policy_snapshot_path = getenv sp ''SYSTEM_API_POLICY_SNAPSHOT_PATH'' [],
       cf_policy_snapshot_json = getenv sp ''SYSTEM_API_POLICY_SNAPSHOT_JSON'' [],
       cf_service_identity = getenv sp ''SYSTEM_API_SERVICE_IDENTITY'' ''system-api'',
       cf_service_role = getenv sp ''SYSTEM_API_SERVICE_ROLE'' ''public-ingress'',
       cf_sandbox_profile = getenv sp ''SYSTEM_API_SANDBOX_PROFILE'' ''default''\<rparr>)"

section \<open>Python conversions\<close>

fun py_str :: "sec_platform \<Rightarrow> pyval \<Rightarrow> string" where
  "py_str sp (PStr s) = s"
| "py_str sp (PInt i) = show_int i"
| "py_str sp (PBool b) = (if b then ''True'' else ''False'')"
| "py_str sp PNone = ''None''"
| "py_str sp (PFloat r) = r"
| "py_str sp v = se_str sp v"

text \<open>Iterating a value: a list gives its items, a string its characters, a dictionary its keys.\<close>

fun py_iter :: "pyval \<Rightarrow> (pyexn, pyval list) result" where
  "py_iter (PList xs) = Inr xs"
| "py_iter (PStr s) = Inr (map (\<lambda>c. PStr [c]) s)"
| "py_iter (PDict d) = Inr (map (\<lambda>(k, _). PStr k) d)"
| "py_iter _ = Inl TypeError"

text \<open>\<open>dict(v)\<close>: a dictionary, or an iterable of pairs. Keys are compared as values of the model, which keeps the
  numbers 1, 1.0 and \<open>True\<close> apart.\<close>

definition pair_entry :: "pyval \<Rightarrow> (pyval, pyval) dict \<Rightarrow> (pyexn, (pyval, pyval) dict) result" where
  "pair_entry v d =
     rbind (py_iter v) (\<lambda>items.
       case items of
         [k, x] \<Rightarrow> if hashable k then Inr (dset k x d) else Inl TypeError
       | _ \<Rightarrow> Inl (ValueError ''dictionary update sequence element has wrong length''))"

definition py_dict :: "pyval \<Rightarrow> (pyexn, (pyval, pyval) dict) result" where
  "py_dict v =
     (case v of
        PDict d \<Rightarrow> Inr (map (\<lambda>(k, x). (PStr k, x)) d)
      | _ \<Rightarrow> rbind (py_iter v) (\<lambda>items. rfold pair_entry items []))"

definition to_int_val :: "sec_platform \<Rightarrow> pyval \<Rightarrow> (pyexn, int) result" where
  "to_int_val sp v =
     (case v of
        PInt i \<Rightarrow> Inr i
      | PBool b \<Rightarrow> Inr (if b then 1 else 0)
      | PFloat r \<Rightarrow> (case se_int_of_float sp r of None \<Rightarrow> Inl OverflowError | Some i \<Rightarrow> Inr i)
      | PStr s \<Rightarrow> (case py_int s of None \<Rightarrow> Inl (ValueError ''invalid literal for int()'') | Some i \<Rightarrow> Inr i)
      | _ \<Rightarrow> Inl TypeError)"

section \<open>Policy snapshots\<close>

definition permission_set :: "sec_platform \<Rightarrow> pyval \<Rightarrow> (pyexn, string list) result" where
  "permission_set sp value = rbind (py_iter value) (\<lambda>items. Inr (remdups (map (\<lambda>item. py_lower (py_strip (py_str sp item))) items)))"

definition permission_table :: "sec_platform \<Rightarrow> pyval \<Rightarrow> (pyexn, (pyval, string list) dict) result" where
  "permission_table sp v =
     rbind (py_dict v) (\<lambda>d. rmap (\<lambda>(k, value). rbind (permission_set sp value) (\<lambda>ps. Inr (k, ps))) d)"

definition strs :: "string list \<Rightarrow> pyval" where
  "strs xs = PList (map PStr xs)"

definition default_policy :: "security_config \<Rightarrow> (string, pyval) dict" where
  "default_policy cfg =
     [(''version'', PStr ''1.0.0''), (''issuer'', PStr (cf_jwt_issuer cfg)), (''audience'', PStr (cf_jwt_audience cfg)),
      (''role_permissions'', PDict [(''admin'', strs [''*'']), (''user'', strs [''jobs:*'', ''devices:list'', ''devices:status'']),
         (''readonly'', strs [''jobs:read'', ''devices:list''])]),
      (''service_permissions'', PDict [(''system-api'', strs [''jobs:*'', ''devices:*'']),
         (''eigen-kernel'', strs [''jobs:*'', ''qfs:*'', ''policy:*''])]),
      (''sandbox_profiles'', strs [''default'', ''restricted'', ''strict''])]"

definition snapshot_of :: "sec_platform \<Rightarrow> security_config \<Rightarrow> pyval \<Rightarrow> (pyexn, policy_snapshot) result" where
  "snapshot_of sp cfg payload =
     (case payload of
        PDict d \<Rightarrow>
          rbind (permission_table sp (dget_or d ''role_permissions'' (PDict []))) (\<lambda>roles.
          rbind (permission_table sp (dget_or d ''service_permissions'' (PDict []))) (\<lambda>services.
          rbind (permission_set sp (dget_or d ''sandbox_profiles'' (strs [''default'']))) (\<lambda>profiles.
            Inr \<lparr>ps_version = py_str sp (dget_or d ''version'' (PStr ''1.0.0'')),
                 ps_issuer = py_str sp (dget_or d ''issuer'' (PStr (cf_jwt_issuer cfg))),
                 ps_audience = py_str sp (dget_or d ''audience'' (PStr (cf_jwt_audience cfg))),
                 ps_role_permissions = roles, ps_service_permissions = services, ps_sandbox_profiles = profiles\<rparr>)))
      | _ \<Rightarrow> Inl AttributeError)"

definition empty_snapshot :: "security_config \<Rightarrow> policy_snapshot" where
  "empty_snapshot cfg =
     \<lparr>ps_version = [], ps_issuer = cf_jwt_issuer cfg, ps_audience = cf_jwt_audience cfg, ps_role_permissions = [],
      ps_service_permissions = [], ps_sandbox_profiles = []\<rparr>"

definition load_policy_snapshot_cfg :: "sec_platform \<Rightarrow> security_config \<Rightarrow> (pyexn, policy_snapshot) result" where
  "load_policy_snapshot_cfg sp cfg =
     (if \<not> blank (cf_policy_snapshot_json cfg) then
        (case json_loads (cf_policy_snapshot_json cfg) of
           None \<Rightarrow> Inl (ValueError ''JSONDecodeError'')
         | Some payload \<Rightarrow> snapshot_of sp cfg payload)
      else if \<not> blank (cf_policy_snapshot_path cfg) then
        (case se_read sp (cf_policy_snapshot_path cfg) of
           FileMissing \<Rightarrow> Inr (empty_snapshot cfg)
         | FileError e \<Rightarrow> Inl e
         | FileText s \<Rightarrow>
             (case json_loads s of
                None \<Rightarrow> Inr (empty_snapshot cfg)
              | Some payload \<Rightarrow> snapshot_of sp cfg payload))
      else snapshot_of sp cfg (PDict (default_policy cfg)))"

definition load_policy_snapshot :: "sec_platform \<Rightarrow> (pyexn, policy_snapshot) result" where
  "load_policy_snapshot sp = load_policy_snapshot_cfg sp (load_security_config sp)"

section \<open>Calls and tokens\<close>

record grpc_call =
  gc_metadata :: "(string \<times> string) list"
  gc_method :: string

definition call_metadata :: "grpc_call \<Rightarrow> (string, string) dict" where
  "call_metadata call = foldl (\<lambda>d (k, v). dset (py_lower k) v d) [] (gc_metadata call)"

definition b64url_decode :: "string \<Rightarrow> string option" where
  "b64url_decode raw =
     (if is_ascii raw then b64_decode (raw @ replicate ((4 - length raw mod 4) mod 4) (CHR ''='')) else None)"

text \<open>The parts of a token. \<open>None\<close> stands for any exception: the only caller treats them alike.\<close>

record jwt_parts =
  jw_header :: pyval
  jw_claims :: pyval
  jw_signature :: string
  jw_signing_input :: string

definition jwt_json :: "sec_platform \<Rightarrow> string \<Rightarrow> pyval option" where
  "jwt_json sp part = Option.bind (b64url_decode part) (\<lambda>raw. Option.bind (se_decode sp raw) json_loads)"

text \<open>\<open>header.get("alg") == "HS256"\<close>; a header that is no dictionary raises.\<close>

fun hs256_header :: "pyval \<Rightarrow> bool" where
  "hs256_header (PDict d) = (vget d ''alg'' = PStr ''HS256'')"
| "hs256_header _ = False"

definition jwt_claims :: "sec_platform \<Rightarrow> string \<Rightarrow> jwt_parts option" where
  "jwt_claims sp token =
     (case py_split (CHR ''.'') token of
        [h, p, g] \<Rightarrow>
          Option.bind (jwt_json sp h) (\<lambda>header.
            if hs256_header header then
              Option.bind (jwt_json sp p) (\<lambda>claims.
              Option.bind (b64url_decode g) (\<lambda>signature.
                Some \<lparr>jw_header = header, jw_claims = claims, jw_signature = signature, jw_signing_input = h @ ''.'' @ p\<rparr>))
            else None)
      | _ \<Rightarrow> None)"

definition verify_hs256 :: "sec_platform \<Rightarrow> string \<Rightarrow> string \<Rightarrow> (pyval, pyval) dict option" where
  "verify_hs256 sp token secret =
     Option.bind (jwt_claims sp token) (\<lambda>parsed.
       if se_hmac sp secret (jw_signing_input parsed) \<noteq> jw_signature parsed then None
       else case py_dict (jw_claims parsed) of Inl _ \<Rightarrow> None | Inr d \<Rightarrow> Some d)"

definition claims_valid :: "sec_platform \<Rightarrow> security_config \<Rightarrow> int \<Rightarrow> (pyval, pyval) dict \<Rightarrow> bool" where
  "claims_valid sp cfg now claims =
     (case to_int_val sp (dget_or claims (PStr ''exp'') (PInt 0)) of
        Inl _ \<Rightarrow> False
      | Inr e \<Rightarrow> \<not> (e \<le> now \<or> dget_or claims (PStr ''iss'') PNone \<noteq> PStr (cf_jwt_issuer cfg)
           \<or> \<not> py_contains (py_str sp (dget_or claims (PStr ''aud'') (PStr []))) (cf_jwt_audience cfg)))"

section \<open>Authentication\<close>

datatype sec_failure = Aborted public_error_spec | SecPy pyexn | AuditWriteFailed

definition unauthenticated :: "security_config \<Rightarrow> string \<Rightarrow> string \<Rightarrow> (sec_failure, 'a) result" where
  "unauthenticated cfg method_name detail =
     Inl (Aborted ((public_error UNAUTHENTICATED (''authentication required for '' @ method_name) ''EIGEN_PUBLIC_UNAUTHENTICATED'' True)
       \<lparr>pe_metadata := [(''auth_mode'', cf_auth_mode cfg)], pe_detail := detail\<rparr>))"

definition enforce_authn :: "sec_platform \<Rightarrow> int \<Rightarrow> grpc_call \<Rightarrow> string \<Rightarrow> (sec_failure, unit) result" where
  "enforce_authn sp now call method_name =
     (let cfg = load_security_config sp in
      if cf_auth_mode cfg = AUTH_ALLOW_ALL then Inr ()
      else
        (let authorization = dget_or (call_metadata call) ''authorization'' [];
             expected = ''Bearer '' @ cf_static_token cfg in
         if cf_auth_mode cfg = AUTH_STATIC_TOKEN then
           (if authorization \<noteq> expected
            then unauthenticated cfg method_name ''Authenticate with a valid bearer token before retrying.''
            else Inr ())
         else if cf_auth_mode cfg = AUTH_JWT_OAUTH2 then
           (if \<not> py_startswith authorization ''Bearer ''
            then unauthenticated cfg method_name ''Provide a valid OAuth2/JWT bearer token.''
            else
              (case verify_hs256 sp (py_strip (drop 7 authorization)) (cf_jwt_secret cfg) of
                 None \<Rightarrow> unauthenticated cfg method_name ''JWT validation failed.''
               | Some claims \<Rightarrow>
                   (if claims_valid sp cfg now claims then Inr ()
                    else unauthenticated cfg method_name ''JWT validation failed.'')))
         else Inr ()))"

section \<open>Security context\<close>

definition auth_context :: "sec_platform \<Rightarrow> grpc_call \<Rightarrow> string \<times> string list \<times> string" where
  "auth_context sp call =
     (let cfg = load_security_config sp; md = call_metadata call in
      if cf_auth_mode cfg = AUTH_STATIC_TOKEN then
        (let tenant = str_else (py_strip (dget_or md ''x-eigen-tenant'' [])) (cf_static_token_tenant cfg);
             roles = comma_items (dget_or md ''x-eigen-roles'' [])
         in (cf_static_token_subject cfg, if roles = [] then cf_static_token_roles cfg else roles, tenant))
      else
        (let roles = comma_items (dget_or md ''x-eigen-roles'' ''admin'')
         in (dget_or md ''x-eigen-sub'' ''anonymous'', if roles = [] then [''admin''] else roles, dget_or md ''x-eigen-tenant'' [])))"

definition service_context :: "(string, string) dict \<Rightarrow> security_config \<Rightarrow> string option \<times> string option" where
  "service_context md cfg =
     (let identity = str_else (py_strip (dget_or md ''x-eigen-service'' (cf_service_identity cfg))) (cf_service_identity cfg);
          role = str_else (py_strip (dget_or md ''x-eigen-service-role'' (cf_service_role cfg))) (cf_service_role cfg)
      in (Some identity, if role = [] then None else Some (py_lower role)))"

definition replay_marker_of :: "(string, string) dict \<Rightarrow> string" where
  "replay_marker_of md = py_strip (str_else (dget_or md ''x-eigen-replay-marker'' []) (dget_or md ''replay-marker'' []))"

definition security_context_of :: "sec_platform \<Rightarrow> grpc_call \<Rightarrow> string \<Rightarrow> (sec_failure, security_context) result" where
  "security_context_of sp call method_name =
     (let cfg = load_security_config sp; md = call_metadata call;
          (subject, roles, tenant) = auth_context sp call;
          (identity, role) = service_context md cfg in
      case load_policy_snapshot_cfg sp cfg of
        Inl e \<Rightarrow> Inl (SecPy e)
      | Inr snapshot \<Rightarrow>
          Inr \<lparr>sx_subject = subject, sx_roles = roles, sx_tenant = tenant, sx_auth_mode = cf_auth_mode cfg,
               sx_policy_version = ps_version snapshot, sx_service_identity = identity, sx_service_role = role,
               sx_sandbox_profile = Some (str_else (py_strip (dget_or md ''x-eigen-sandbox-profile'' (cf_sandbox_profile cfg))) (cf_sandbox_profile cfg)),
               sx_claims = [(''method'', method_name), (''replay_marker'', replay_marker_of md), (''policy_snapshot'', ps_version snapshot)],
               sx_decision_authority = ''policy_engine'', sx_model_output_mode = ''recommendation_only''\<rparr>)"

definition security_audit ::
  "string \<Rightarrow> string \<Rightarrow> security_context \<Rightarrow> string \<Rightarrow> string option \<Rightarrow> string \<Rightarrow> obs_state \<Rightarrow> obs_state \<times> bool" where
  "security_audit method_name decision ctx reason trace_id traceparent s =
     append_security_audit_event
       ([(''method'', method_name), (''decision'', decision), (''reason'', reason),
         (''trace_id'', case trace_id of None \<Rightarrow> [] | Some t \<Rightarrow> t), (''traceparent'', traceparent)]
        @ sanitized_security_metadata (sx_subject ctx) (sx_roles ctx) (sx_auth_mode ctx) (sx_policy_version ctx)
            (sx_service_identity ctx) (sx_sandbox_profile ctx) (dget (sx_claims ctx) ''replay_marker'')) s"

section \<open>Recommendation gateway\<close>

record gateway_envelope =
  ge_classification_label :: string
  ge_recommendation :: string
  ge_validated :: bool
  ge_policy_engine_target :: string
  ge_executable :: bool

definition validate_recommendation_gateway :: "sec_platform \<Rightarrow> string \<Rightarrow> string \<Rightarrow> (pyexn, gateway_envelope) result" where
  "validate_recommendation_gateway sp label recommendation =
     (let text1 = py_strip recommendation in
      if py_strip label \<noteq> ''Recommendation''
      then Inl (ValueError ''model output must be classified as Recommendation before policy validation'')
      else if text1 = [] then Inl (ValueError ''recommendation text is required'')
      else
        (case find (py_contains (py_lower text1)) (se_set_order sp FORBIDDEN_SECURITY_INTENTS) of
           Some forbidden \<Rightarrow> Inl (ValueError (''security-relevant model intent rejected: '' @ forbidden))
         | None \<Rightarrow>
             Inr \<lparr>ge_classification_label = py_strip label, ge_recommendation = text1, ge_validated = True,
                  ge_policy_engine_target = ''policy_engine'', ge_executable = False\<rparr>))"

section \<open>Authorisation\<close>

fun has_permission :: "string list \<Rightarrow> string \<Rightarrow> bool" where
  "has_permission [] permission = False"
| "has_permission (role # roles) permission =
     (let perms = dget_or ROLE_PERMISSIONS role [] in
      if ''*'' \<in> set perms \<or> permission \<in> set perms then True
      else if split_head (CHR '':'') permission @ '':*'' \<in> set perms then True
      else has_permission roles permission)"

text \<open>\<open>set.update\<close> on the list of a set's elements.\<close>

definition set_update :: "string list \<Rightarrow> string list \<Rightarrow> string list" where
  "set_update xs s = s @ filter (\<lambda>x. x \<notin> set s) (remdups xs)"

definition granted_permissions :: "policy_snapshot \<Rightarrow> string \<Rightarrow> string list \<Rightarrow> string list" where
  "granted_permissions snapshot raw_permissions roles =
     foldl (\<lambda>g role. set_update (dget_or (ps_role_permissions snapshot) (PStr role) []) g)
       (set_update roles (remdups (comma_items raw_permissions))) roles"

definition authz_context :: "security_config \<Rightarrow> policy_snapshot \<Rightarrow> string \<Rightarrow> string \<Rightarrow> string \<Rightarrow> string list \<Rightarrow> security_context" where
  "authz_context cfg snapshot subject tenant replay_marker roles =
     \<lparr>sx_subject = subject, sx_roles = roles, sx_tenant = tenant, sx_auth_mode = cf_auth_mode cfg, sx_policy_version = ps_version snapshot,
      sx_service_identity = Some (cf_service_identity cfg), sx_service_role = Some (cf_service_role cfg),
      sx_sandbox_profile = Some (cf_sandbox_profile cfg), sx_claims = [(''replay_marker'', replay_marker)],
      sx_decision_authority = ''policy_engine'', sx_model_output_mode = ''recommendation_only''\<rparr>"

definition denied :: "string \<Rightarrow> string \<Rightarrow> (string, string) dict \<Rightarrow> string \<Rightarrow> sec_failure" where
  "denied message reason metadata detail =
     Aborted ((public_error PERMISSION_DENIED message reason False)\<lparr>pe_metadata := metadata, pe_detail := detail\<rparr>)"

definition audited :: "obs_state \<times> bool \<Rightarrow> (obs_state \<Rightarrow> obs_state \<times> (sec_failure, 'a) result) \<Rightarrow> obs_state \<times> (sec_failure, 'a) result" where
  "audited p f = (case p of (s, True) \<Rightarrow> f s | (s, False) \<Rightarrow> (s, Inl AuditWriteFailed))"

text \<open>The decision once the policy is loaded.\<close>

definition decide_authz ::
  "sec_platform \<Rightarrow> grpc_call \<Rightarrow> string \<Rightarrow> security_config \<Rightarrow> policy_snapshot \<Rightarrow> obs_state \<Rightarrow> obs_state \<times> (sec_failure, unit) result" where
  "decide_authz sp call required_permission cfg snapshot s =
     (let md = call_metadata call;
          trace_id = (if dget_or md ''trace_id'' [] \<noteq> [] then dget md ''trace_id'' else trace_id_from_traceparent (dget md ''traceparent''));
          traceparent = dget_or md ''traceparent'' [];
          (subject, roles, tenant) = auth_context sp call;
          granted = granted_permissions snapshot (dget_or md ''x-eigen-permissions'' []) roles;
          need = py_lower (py_strip required_permission);
          ctx = authz_context cfg snapshot subject tenant (replay_marker_of md);
          marker = ''POLICY_DENY_PERMISSION_REQUIRED:'' @ need in
      if blank subject \<or> blank tenant then
        audited (security_audit ''authz'' ''deny'' (ctx (sort granted)) ''POLICY_DENY_MISSING_AUTH_CONTEXT'' trace_id [] s) (\<lambda>s.
          (log_authz_denied \<lparr>aw_method = gc_method call, aw_subject = str_else subject ''unknown'',
              aw_permission = ''POLICY_DENY_MISSING_AUTH_CONTEXT'', aw_trace_id = trace_id, aw_traceparent = traceparent\<rparr> s,
           Inl (denied ''subject and tenant are required'' ''EIGEN_PUBLIC_PERMISSION_DENIED''
             [(''policy'', ''POLICY_DENY_MISSING_AUTH_CONTEXT'')] ''Provide authenticated subject and tenant context.'')))
      else if blank (ps_version snapshot) then
        (s, Inl (denied ''policy backend unavailable'' ''EIGEN_PUBLIC_POLICY_BACKEND_UNAVAILABLE''
           [(''policy'', ''POLICY_BACKEND_UNAVAILABLE'')] ''Security policy snapshot could not be loaded; fail closed.''))
      else if need \<in> set granted \<or> split_head (CHR '':'') need @ '':*'' \<in> set granted \<or> ''*'' \<in> set granted then
        audited (security_audit ''authz'' ''allow'' (ctx (sort granted)) need trace_id traceparent s) (\<lambda>s. (s, Inr ()))
      else
        audited (security_audit ''authz'' ''deny'' (ctx (se_set_order sp granted)) marker trace_id traceparent
            (log_authz_denied \<lparr>aw_method = gc_method call, aw_subject = subject, aw_permission = marker, aw_trace_id = trace_id,
               aw_traceparent = traceparent\<rparr> s)) (\<lambda>s.
          (s, Inl (denied (''requires '' @ required_permission) ''EIGEN_PUBLIC_PERMISSION_DENIED''
             [(''policy'', ''POLICY_DENY_PERMISSION_REQUIRED''), (''permission'', required_permission)]
             ''Caller lacks the required permission for this public API method.''))))"

definition enforce_authz :: "sec_platform \<Rightarrow> grpc_call \<Rightarrow> string \<Rightarrow> obs_state \<Rightarrow> obs_state \<times> (sec_failure, unit) result" where
  "enforce_authz sp call required_permission s =
     (let cfg = load_security_config sp in
      if cf_auth_mode cfg = AUTH_ALLOW_ALL then (s, Inr ())
      else
        (case load_policy_snapshot_cfg sp cfg of
           Inl e \<Rightarrow> (s, Inl (SecPy e))
         | Inr snapshot \<Rightarrow> decide_authz sp call required_permission cfg snapshot s))"

definition enforce_sandbox_policy :: "sec_platform \<Rightarrow> string \<Rightarrow> (sec_failure, unit) result" where
  "enforce_sandbox_policy sp sandbox_profile =
     (let cfg = load_security_config sp in
      case load_policy_snapshot_cfg sp cfg of
        Inl e \<Rightarrow> Inl (SecPy e)
      | Inr snapshot \<Rightarrow>
          (let requested = str_else (py_lower (py_strip (str_else sandbox_profile (cf_sandbox_profile cfg)))) (cf_sandbox_profile cfg) in
           if requested \<notin> set (ps_sandbox_profiles snapshot)
           then Inl (denied ''sandbox profile denied'' ''EIGEN_PUBLIC_SANDBOX_PROFILE_DENIED''
                  [(''sandbox_profile'', requested), (''policy'', ps_version snapshot)]
                  ''Requested sandbox profile is not allowed by the active policy snapshot.'')
           else Inr ()))"

end
