(* ===== verification/SecurityTokens.thy ===== *)
theory SecurityTokens
  imports Security
begin

text \<open>
  Tokens and authentication: what a valid token is, exactly which calls are authenticated, and that issued tokens
  are accepted, with the round trip of unpadded base64.
\<close>

section \<open>Tokens\<close>

text \<open>What a token has to be, without the steps of the code.\<close>

definition valid_jwt :: "sec_platform \<Rightarrow> security_config \<Rightarrow> int \<Rightarrow> string \<Rightarrow> bool" where
  "valid_jwt sp cfg now token \<longleftrightarrow>
     (\<exists>h p g header c claims.
        py_split (CHR ''.'') token = [h, p, g]
        \<and> jwt_json sp h = Some header \<and> hs256_header header
        \<and> b64url_decode g = Some (se_hmac sp (cf_jwt_secret cfg) (h @ ''.'' @ p))
        \<and> jwt_json sp p = Some c \<and> py_dict c = Inr claims
        \<and> (\<exists>e. to_int_val sp (dget_or claims (PStr ''exp'') (PInt 0)) = Inr e \<and> now < e)
        \<and> dget claims (PStr ''iss'') = Some (PStr (cf_jwt_issuer cfg))
        \<and> py_contains (py_str sp (dget_or claims (PStr ''aud'') (PStr []))) (cf_jwt_audience cfg))"

lemma jwt_claims_Some:
  "jwt_claims sp token = Some j \<longleftrightarrow>
     (\<exists>h p g header c sig. py_split (CHR ''.'') token = [h, p, g]
        \<and> jwt_json sp h = Some header \<and> hs256_header header
        \<and> jwt_json sp p = Some c \<and> b64url_decode g = Some sig
        \<and> j = \<lparr>jw_header = header, jw_claims = c, jw_signature = sig, jw_signing_input = h @ ''.'' @ p\<rparr>)"
  unfolding jwt_claims_def by (auto simp: bind_eq_Some_conv split: list.splits if_splits)

lemma verify_hs256_Some:
  "verify_hs256 sp token secret = Some claims \<longleftrightarrow>
     (\<exists>j. jwt_claims sp token = Some j \<and> se_hmac sp secret (jw_signing_input j) = jw_signature j \<and> py_dict (jw_claims j) = Inr claims)"
  unfolding verify_hs256_def bind_eq_Some_conv by (intro ex_cong1 conj_cong refl) (auto split: sum.split)

lemma startswith_rest: "(\<exists>r. s = p @ r \<and> P r) \<longleftrightarrow> py_startswith s p \<and> P (drop (length p) s)"
  unfolding py_startswith_def by (metis append_eq_conv_conj append_take_drop_id)

lemma auth_mode_valid: "cf_auth_mode (load_security_config sp) \<in> set VALID_AUTH_MODES"
  by (simp add: load_security_config_def VALID_AUTH_MODES_def Let_def)

lemma dget_or_None: "dget_or d k PNone = PStr s \<longleftrightarrow> dget d k = Some (PStr s)"
  by (auto simp: dget_or_def split: option.splits)

lemma claims_valid_iff:
  "claims_valid sp cfg now claims \<longleftrightarrow>
     (\<exists>e. to_int_val sp (dget_or claims (PStr ''exp'') (PInt 0)) = Inr e \<and> now < e)
     \<and> dget claims (PStr ''iss'') = Some (PStr (cf_jwt_issuer cfg))
     \<and> py_contains (py_str sp (dget_or claims (PStr ''aud'') (PStr []))) (cf_jwt_audience cfg)"
  unfolding claims_valid_def dget_or_None [symmetric] by (auto split: sum.splits)

lemma valid_jwt_iff: "valid_jwt sp cfg now token \<longleftrightarrow> (\<exists>claims. verify_hs256 sp token (cf_jwt_secret cfg) = Some claims \<and> claims_valid sp cfg now claims)"
proof
  assume "valid_jwt sp cfg now token"
  then obtain h p g header c claims where
    p: "py_split (CHR ''.'') token = [h, p, g]" "jwt_json sp h = Some header" "hs256_header header"
       "b64url_decode g = Some (se_hmac sp (cf_jwt_secret cfg) (h @ ''.'' @ p))" "jwt_json sp p = Some c"
    and c: "py_dict c = Inr claims" and ok: "claims_valid sp cfg now claims"
    unfolding valid_jwt_def claims_valid_iff by blast
  have "jwt_claims sp token = Some \<lparr>jw_header = header, jw_claims = c, jw_signature = se_hmac sp (cf_jwt_secret cfg) (h @ ''.'' @ p), jw_signing_input = h @ ''.'' @ p\<rparr>"
    unfolding jwt_claims_Some using p by blast
  then show "\<exists>claims. verify_hs256 sp token (cf_jwt_secret cfg) = Some claims \<and> claims_valid sp cfg now claims"
    unfolding verify_hs256_Some using c ok by force
next
  assume "\<exists>claims. verify_hs256 sp token (cf_jwt_secret cfg) = Some claims \<and> claims_valid sp cfg now claims"
  then obtain claims j where j: "jwt_claims sp token = Some j" "se_hmac sp (cf_jwt_secret cfg) (jw_signing_input j) = jw_signature j"
    "py_dict (jw_claims j) = Inr claims" and ok: "claims_valid sp cfg now claims"
    unfolding verify_hs256_Some by blast
  from j(1) obtain h p g header c sig where "py_split (CHR ''.'') token = [h, p, g]"
    "jwt_json sp h = Some header" "hs256_header header"
    "jwt_json sp p = Some c" "b64url_decode g = Some sig"
    "j = \<lparr>jw_header = header, jw_claims = c, jw_signature = sig, jw_signing_input = h @ ''.'' @ p\<rparr>"
    unfolding jwt_claims_Some by blast
  then show "valid_jwt sp cfg now token" unfolding valid_jwt_def using j(2,3) ok [unfolded claims_valid_iff] by auto
qed

lemmas auth_mode_defs = AUTH_ALLOW_ALL_def AUTH_STATIC_TOKEN_def AUTH_JWT_OAUTH2_def

lemma enforce_authn_jwt:
  assumes "cf_auth_mode (load_security_config sp) = AUTH_JWT_OAUTH2"
  shows "enforce_authn sp now call method_name =
    (let cfg = load_security_config sp; authorization = dget_or (call_metadata call) ''authorization'' [] in
     if \<not> py_startswith authorization ''Bearer '' then unauthenticated cfg method_name ''Provide a valid OAuth2/JWT bearer token.''
     else if valid_jwt sp cfg now (py_strip (drop 7 authorization)) then Inr ()
     else unauthenticated cfg method_name ''JWT validation failed.'')"
  using assms unfolding valid_jwt_iff by (simp add: enforce_authn_def auth_mode_defs Let_def split: option.split)


section \<open>Issued tokens are accepted\<close>

text \<open>Base64 without padding, as tokens have it.\<close>

definition b64url_encode :: "string \<Rightarrow> string" where
  "b64url_encode s = takeWhile (\<lambda>c. c \<noteq> CHR ''='') (b64_encode s)"

lemma b64_chunk_bounds:
  "ord a div 4 < 64" "ord a mod 4 * 16 < 64" "ord a mod 4 * 16 + ord b div 16 < 64" "ord b mod 16 * 4 < 64"
  "ord b mod 16 * 4 + ord c div 64 < 64" "ord c mod 64 < 64"
  by (rule rejoin1(1,2,3) [OF byte_bound] rejoin2(1,2) [OF byte_bound] mod_less_divisor zero_less_numeral)+

lemmas b64_chunk_ne = b64_chunk_bounds [THEN b64_char_ne]

lemma b64url_encode_simps:
  "b64url_encode [] = []"
  "b64url_encode [a] = [b64_char (ord a div 4), b64_char (ord a mod 4 * 16)]"
  "b64url_encode [a, b] = [b64_char (ord a div 4), b64_char (ord a mod 4 * 16 + ord b div 16), b64_char (ord b mod 16 * 4)]"
  "b64url_encode (a # b # c # s) = b64_char (ord a div 4) # b64_char (ord a mod 4 * 16 + ord b div 16)
     # b64_char (ord b mod 16 * 4 + ord c div 64) # b64_char (ord c mod 64) # b64url_encode s"
  unfolding b64url_encode_def
  by (simp_all only: b64_encode.simps Let_def takeWhile.simps append.simps b64_chunk_ne simp_thms if_True if_False not_False_eq_True)

lemma b64url_encode_chars: "set (b64url_encode s) \<subseteq> b64_char ` {..<64}"
proof (induction s rule: b64_encode.induct)
  case (4 a b c s)
  then show ?case unfolding b64url_encode_simps list.set insert_subset
    by (intro conjI imageI) (simp_all only: b64_chunk_bounds lessThan_iff)
qed (simp_all only: b64url_encode_simps list.set insert_subset empty_subsetI imageI b64_chunk_bounds lessThan_iff simp_thms)

lemma b64_char_plain:
  assumes "n < 64"
  shows "b64_char n \<noteq> CHR ''.''" "\<not> is_ws (b64_char n)" "ord (b64_char n) < 128"
proof -
  have "\<forall>n\<in>set [0..<64]. b64_char n \<noteq> CHR ''.'' \<and> \<not> is_ws (b64_char n) \<and> ord (b64_char n) < 128" by code_simp
  then show "b64_char n \<noteq> CHR ''.''" "\<not> is_ws (b64_char n)" "ord (b64_char n) < 128" using assms by auto
qed

lemma b64url_roundtrip: "b64url_decode (b64url_encode s) = Some s"
proof -
  have ascii: "is_ascii (b64url_encode s)"
    using b64url_encode_chars [of s] b64_char_plain(3) unfolding is_ascii_def list_all_iff by blast
  have "b64_decode (b64url_encode s @ replicate ((4 - length (b64url_encode s) mod 4) mod 4) (CHR ''='')) = Some s"
  proof (induction s rule: b64_encode.induct)
    case 1
    show ?case by code_simp
  next
    case (2 a)
    note r = rejoin1 [OF byte_bound [of a]]
    have "(4 - length (b64url_encode [a]) mod 4) mod 4 = Suc (Suc 0)" by (simp add: b64url_encode_simps)
    then show ?case using a2b_quad(3) [OF r(1,2) zero_less_numeral zero_less_numeral, of "[]"]
      by (simp only: b64url_encode_simps b64_decode_def append.simps replicate.simps r(4)) simp
  next
    case (3 a b)
    note r = rejoin1 [OF byte_bound [of a]] and r' = rejoin1 [OF byte_bound [of b]] and r2 = rejoin2 [OF byte_bound [of b], of "ord a"]
    have "(4 - length (b64url_encode [a, b]) mod 4) mod 4 = Suc 0" by (simp add: b64url_encode_simps)
    then show ?case using a2b_quad(2) [OF r(1) r2(1) r'(3) zero_less_numeral, of "[]"]
      by (simp only: b64url_encode_simps b64_decode_def append.simps replicate.simps r2(3,4)) simp
  next
    case (4 a b c s)
    note r = rejoin1 [OF byte_bound [of a]] and r2 = rejoin2 [OF byte_bound [of b], of "ord a"] and r3 = rejoin2 [OF byte_bound [of c], of "ord b"]
    have c: "ord c mod 64 < 64" by simp
    have len: "(4 - length (b64url_encode (a # b # c # s)) mod 4) mod 4 = (4 - length (b64url_encode s) mod 4) mod 4"
      by (simp add: b64url_encode_simps)
    show ?case using 4
      unfolding len unfolding b64url_encode_simps append.simps b64_decode_def a2b_quad(1) [OF r(1) r2(1) r3(2) c] r2(3,6) r3(5,7)
      by (simp only: div_mult_mod_eq) simp
  qed
  then show ?thesis using ascii by (simp add: b64url_decode_def)
qed


text \<open>Printable ASCII, which is all the encoder writes.\<close>

definition printable :: "string \<Rightarrow> bool" where
  "printable s \<longleftrightarrow> list_all (\<lambda>c. 32 \<le> ord c \<and> ord c \<le> 126) s"

lemma printable_simps [simp]: "printable []" "printable (c # s) \<longleftrightarrow> 32 \<le> ord c \<and> ord c \<le> 126 \<and> printable s"
    "printable (s @ t) \<longleftrightarrow> printable s \<and> printable t"
  by (simp_all add: printable_def)

lemma printable_json_char: "printable (json_char c)"
proof -
  have "ord c div 16 < 16" "ord c mod 16 < 16" by (simp_all add: div_less_iff_less_mult)
  then show ?thesis by (auto simp: json_char_def Let_def hex_digit_def)
qed

lemma printable_json_str: "printable (json_str s)"
proof -
  have "printable (concat (map json_char s))" using printable_json_char by (induction s) auto
  then show ?thesis by (simp add: json_str_def)
qed

lemma printable_show_int: "printable (show_int i)"
proof -
  have "printable (show_nat n)" for n
    using show_nat_digits [of n] by (auto simp: printable_def list_all_iff is_digit_def)
  then show ?thesis by (simp add: show_int_def)
qed

text \<open>A token for a subject, as the issuer of the tests writes it.\<close>

definition token_claims :: "string \<Rightarrow> int \<Rightarrow> string \<Rightarrow> string \<Rightarrow> (string, pyval) dict" where
  "token_claims aud e iss sub = [(''aud'', PStr aud), (''exp'', PInt e), (''iss'', PStr iss), (''sub'', PStr sub)]"

definition issue_token :: "sec_platform \<Rightarrow> string \<Rightarrow> (string, pyval) dict \<Rightarrow> string" where
  "issue_token sp secret claims =
     (let h = b64url_encode (canonical_text (PDict [(''alg'', PStr ''HS256''), (''typ'', PStr ''JWT'')]));
          p = b64url_encode (canonical_text (PDict claims))
      in h @ ''.'' @ p @ ''.'' @ b64url_encode (se_hmac sp secret (h @ ''.'' @ p)))"

definition decodes_ascii :: "sec_platform \<Rightarrow> bool" where
  "decodes_ascii sp \<longleftrightarrow> (\<forall>s. printable s \<longrightarrow> se_decode sp s = Some s)"

lemma claims_canon: "canon (PDict (token_claims aud e iss sub)) = PDict (token_claims aud e iss sub)"
proof -
  have "sort_key fst (map (\<lambda>(k, v). (k, canon v)) (token_claims aud e iss sub)) = token_claims aud e iss sub" by code_simp
  then show ?thesis by simp
qed

lemma claims_text: "printable (canonical_text (PDict (token_claims aud e iss sub)))"
  unfolding canonical_text_def claims_canon using printable_json_str printable_show_int by (simp add: token_claims_def)

lemma jwt_json_issued:
  assumes "decodes_ascii sp" "wf_json v" "printable (canonical_text v)"
  shows "jwt_json sp (b64url_encode (canonical_text v)) = Some (canon v)"
  using assms json.dec_enc [of v] by (simp add: jwt_json_def b64url_roundtrip decodes_ascii_def)

lemma no_dot: "CHR ''.'' \<notin> set (b64url_encode s)"
proof
  assume "CHR ''.'' \<in> set (b64url_encode s)"
  then obtain n where "n < 64" "CHR ''.'' = b64_char n" using b64url_encode_chars [of s] by blast
  then show False using b64_char_plain(1) [of n] by simp
qed

lemma issued_split: "py_split (CHR ''.'') (b64url_encode h @ ''.'' @ b64url_encode p @ ''.'' @ b64url_encode g) = [b64url_encode h, b64url_encode p, b64url_encode g]"
  using no_dot by (simp add: py_split_append py_split_absent)

lemma strip_no_ws: "\<forall>c\<in>set s. \<not> is_ws c \<Longrightarrow> py_strip s = s"
proof -
  have *: "dropWhile is_ws t = t" if "\<forall>c\<in>set t. \<not> is_ws c" for t using that by (cases t) auto
  show "\<forall>c\<in>set s. \<not> is_ws c \<Longrightarrow> py_strip s = s" using * [of s] * [of "rev s"] by (simp add: py_strip_def py_lstrip_def py_rstrip_def)
qed

lemma issued_no_ws: "py_strip (issue_token sp secret claims) = issue_token sp secret claims"
proof (rule strip_no_ws)
  have "\<not> is_ws c" if "c \<in> set (b64url_encode s)" for c s
    using b64url_encode_chars [of s] b64_char_plain(2) that by auto
  then show "\<forall>c\<in>set (issue_token sp secret claims). \<not> is_ws c"
    by (auto simp: issue_token_def Let_def is_ws_def)
qed

lemma issued_valid:
  assumes "decodes_ascii sp" "now < e" "py_contains aud (cf_jwt_audience cfg)"
  shows "valid_jwt sp cfg now (issue_token sp (cf_jwt_secret cfg) (token_claims aud e (cf_jwt_issuer cfg) sub))"
proof -
  let ?hv = "PDict [(''alg'', PStr ''HS256''), (''typ'', PStr ''JWT'')]" and ?cv = "PDict (token_claims aud e (cf_jwt_issuer cfg) sub)"
  let ?h = "b64url_encode (canonical_text ?hv)" and ?p = "b64url_encode (canonical_text ?cv)"
  have hv: "canon ?hv = ?hv" "printable (canonical_text ?hv)" by code_simp+
  have "jwt_json sp ?h = Some ?hv" using jwt_json_issued [OF assms(1), of ?hv] hv by simp
  moreover have "jwt_json sp ?p = Some ?cv"
    using jwt_json_issued [OF assms(1), of ?cv] claims_canon claims_text by (simp add: token_claims_def)
  moreover have "hs256_header ?hv" by simp
  moreover have "py_dict ?cv = Inr (map (\<lambda>(k, x). (PStr k, x)) (token_claims aud e (cf_jwt_issuer cfg) sub))" by (simp add: py_dict_def)
  moreover have "py_split (CHR ''.'') (issue_token sp (cf_jwt_secret cfg) (token_claims aud e (cf_jwt_issuer cfg) sub))
      = [?h, ?p, b64url_encode (se_hmac sp (cf_jwt_secret cfg) (?h @ ''.'' @ ?p))]"
    unfolding issue_token_def Let_def by (rule issued_split)
  ultimately show ?thesis unfolding valid_jwt_def
    using assms(2,3) b64url_roundtrip
    by (intro exI conjI) (assumption | simp add: token_claims_def dget_or_def to_int_val_def)+
qed

text \<open>C32. A token issued with the configured secret, issuer and audience is accepted until it expires: base64, JSON and the
  signature are read back as they were written.\<close>

theorem issued_token_accepted:
  assumes "decodes_ascii sp" "cf_auth_mode (load_security_config sp) = AUTH_JWT_OAUTH2"
    and "now < e" "py_contains aud (cf_jwt_audience (load_security_config sp))"
    and "dget (call_metadata call) ''authorization'' =
      Some (''Bearer '' @ issue_token sp (cf_jwt_secret (load_security_config sp)) (token_claims aud e (cf_jwt_issuer (load_security_config sp)) sub))"
  shows "enforce_authn sp now call method_name = Inr ()"
  unfolding enforce_authn_jwt [OF assms(2)]
  using issued_valid [OF assms(1,3,4)] assms(5) issued_no_ws by (simp add: dget_or_def Let_def)

definition demo_sec :: "(string \<times> string) list \<Rightarrow> sec_platform" where
  "demo_sec env =
     \<lparr>se_env = map_of env, se_read = (\<lambda>_. FileMissing), se_hmac = (\<lambda>secret msg. secret @ ''|'' @ msg), se_decode = Some,
      se_str = json_text, se_int_of_float = (\<lambda>_. None), se_set_order = id\<rparr>"

lemma demo_sec_config:
  "cf_auth_mode (load_security_config (demo_sec [(''SYSTEM_API_AUTH_MODE'', ''jwt_oauth2'')])) = AUTH_JWT_OAUTH2"
  "cf_jwt_secret (load_security_config (demo_sec [(''SYSTEM_API_AUTH_MODE'', ''jwt_oauth2'')])) = ''dev-jwt-secret''"
  "cf_jwt_issuer (load_security_config (demo_sec [(''SYSTEM_API_AUTH_MODE'', ''jwt_oauth2'')])) = ''eigen-auth''"
  "cf_jwt_audience (load_security_config (demo_sec [(''SYSTEM_API_AUTH_MODE'', ''jwt_oauth2'')])) = ''eigen-api''"
proof -
  have "py_lower (py_strip ''jwt_oauth2'') = ''jwt_oauth2''" by code_simp
  then show "cf_auth_mode (load_security_config (demo_sec [(''SYSTEM_API_AUTH_MODE'', ''jwt_oauth2'')])) = AUTH_JWT_OAUTH2"
    by (simp add: load_security_config_def Let_def getenv_def demo_sec_def VALID_AUTH_MODES_def auth_mode_defs)
qed (simp_all add: load_security_config_def Let_def getenv_def demo_sec_def)

theorem issued_token_accepted_witness:
  "enforce_authn (demo_sec [(''SYSTEM_API_AUTH_MODE'', ''jwt_oauth2'')]) 1000
     \<lparr>gc_metadata = [(''Authorization'', ''Bearer '' @ issue_token (demo_sec [(''SYSTEM_API_AUTH_MODE'', ''jwt_oauth2'')])
        ''dev-jwt-secret'' (token_claims ''eigen-api'' 2000 ''eigen-auth'' ''alice''))], gc_method = ''/SubmitJob''\<rparr> ''SubmitJob'' = Inr ()"
proof -
  let ?sp = "demo_sec [(''SYSTEM_API_AUTH_MODE'', ''jwt_oauth2'')]"
  let ?call = "\<lparr>gc_metadata = [(''Authorization'', ''Bearer '' @ issue_token ?sp ''dev-jwt-secret'' (token_claims ''eigen-api'' 2000 ''eigen-auth'' ''alice''))], gc_method = ''/SubmitJob''\<rparr>"
  have ascii: "decodes_ascii ?sp" by (simp add: decodes_ascii_def demo_sec_def)
  have aud: "py_contains ''eigen-api'' (cf_jwt_audience (load_security_config ?sp))" unfolding demo_sec_config by code_simp
  have "py_lower ''Authorization'' = ''authorization''" by code_simp
  then have "dget (call_metadata ?call) ''authorization'' =
      Some (''Bearer '' @ issue_token ?sp (cf_jwt_secret (load_security_config ?sp)) (token_claims ''eigen-api'' 2000 (cf_jwt_issuer (load_security_config ?sp)) ''alice''))"
    unfolding demo_sec_config by (simp add: call_metadata_def)
  then show ?thesis by (intro issued_token_accepted [OF ascii demo_sec_config(1) _ aud]) simp_all
qed


end
