(* ===== verification/SecurityProperties.thy ===== *)
theory SecurityProperties
  imports SecurityTokens
begin

text \<open>
  Authorisation: exactly which calls are authorised, that every decision is audited and the policy fails closed, that the
  static role table agrees with the built-in policy, and what the recommendation gateway and the configuration guarantee.
\<close>

section \<open>Authorisation\<close>

lemma set_update_set: "set (set_update xs s) = set s \<union> set xs"
  by (auto simp: set_update_def)

text \<open>What a call may do: what it claims, its roles, and what the policy gives to its roles.\<close>

lemma granted_set:
  "set (granted_permissions snapshot raw roles) =
     set (comma_items raw) \<union> set roles \<union> (\<Union>r\<in>set roles. set (dget_or (ps_role_permissions snapshot) (PStr r) []))"
proof -
  have fold: "set (foldl (\<lambda>g role. set_update (f role) g) g rs) = set g \<union> (\<Union>r\<in>set rs. set (f r))" for f :: "string \<Rightarrow> string list" and g rs
    by (induction rs arbitrary: g) (auto simp: set_update_set)
  show ?thesis unfolding granted_permissions_def fold set_update_set by auto
qed

definition permits :: "policy_snapshot \<Rightarrow> string \<Rightarrow> string list \<Rightarrow> string \<Rightarrow> bool" where
  "permits snapshot raw roles need \<longleftrightarrow>
     (\<exists>p. p \<in> set (comma_items raw) \<union> set roles \<union> (\<Union>r\<in>set roles. set (dget_or (ps_role_permissions snapshot) (PStr r) []))
        \<and> p \<in> {need, split_head (CHR '':'') need @ '':*'', ''*''})"

lemma permits_granted:
  "permits snapshot raw roles need \<longleftrightarrow>
     need \<in> set (granted_permissions snapshot raw roles)
     \<or> split_head (CHR '':'') need @ '':*'' \<in> set (granted_permissions snapshot raw roles) \<or> ''*'' \<in> set (granted_permissions snapshot raw roles)"
  unfolding permits_def granted_set by blast

text \<open>The audit line of a decision, read back as JSON.\<close>

definition audit_says :: "string \<Rightarrow> string \<Rightarrow> string \<Rightarrow> bool" where
  "audit_says line k v \<longleftrightarrow> (\<exists>d. json_loads line = Some (PDict d) \<and> dget d k = Some (PStr v))"

lemma audit_line_says:
  assumes "wf_dict event" "dget event k = Some v"
  shows "audit_says (canonical_text (PDict (map (\<lambda>(k, v). (k, PStr v)) event))) k v"
proof -
  let ?d = "map (\<lambda>(k, v). (k, PStr v)) event"
  have keys: "dkeys ?d = dkeys event" by (induction event) auto
  have wf: "wf_dict ?d" unfolding keys by (rule assms(1))
  have same: "map (\<lambda>(k, v). (k, canon v)) ?d = ?d" by (induction event) auto
  have canon: "canon (PDict ?d) = PDict (sort_key fst ?d)" unfolding canon.simps same by (rule refl)
  have "list_all (\<lambda>(k, v). wf_json v) ?d" by (auto simp: list_all_iff)
  then have "json_loads (canonical_text (PDict ?d)) = Some (PDict (sort_key fst ?d))"
    using json.dec_enc [of "PDict ?d"] wf unfolding canon by simp
  moreover have "dget (sort_key fst ?d) k = Some (PStr v)"
    using assms(2) by (simp add: map_of_sort_key [OF wf] map_of_map)
  ultimately show ?thesis unfolding audit_says_def by blast
qed

lemma security_audit_line:
  assumes "security_audit m decision ctx reason t tp s = (s', True)"
  shows "\<exists>line. s' = s\<lparr>os_lines := os_lines s @ [line]\<rparr> \<and> audit_says line ''decision'' decision \<and> audit_says line ''subject'' (sx_subject ctx)"
proof -
  let ?event = "[(''method'', m), (''decision'', decision), (''reason'', reason), (''trace_id'', case t of None \<Rightarrow> [] | Some t \<Rightarrow> t), (''traceparent'', tp)]
      @ sanitized_security_metadata (sx_subject ctx) (sx_roles ctx) (sx_auth_mode ctx) (sx_policy_version ctx)
            (sx_service_identity ctx) (sx_sandbox_profile ctx) (dget (sx_claims ctx) ''replay_marker'')"
  have wf: "wf_dict ?event" by (simp add: sanitized_security_metadata_def)
  have "dget ?event ''decision'' = Some decision" "dget ?event ''subject'' = Some (sx_subject ctx)"
    by (simp_all add: sanitized_security_metadata_def)
  note says = this [THEN audit_line_says [OF wf]]
  have "s' = s\<lparr>os_lines := os_lines s @ [canonical_text (PDict (map (\<lambda>(k, v). (k, PStr v)) ?event))]\<rparr>"
    using assms by (auto simp: security_audit_def append_security_audit_event_def split: if_splits)
  then show ?thesis using says by blast
qed

lemma security_audit_cases:
  obtains s' where "os_writable s" "security_audit m decision ctx reason t tp s = (s', True)"
  | "\<not> os_writable s" "security_audit m decision ctx reason t tp s = (record_security_audit_write_failure s, False)"
  by (cases "os_writable s") (auto simp: security_audit_def append_security_audit_event_def)

lemma audited_line:
  assumes "audited (security_audit m decision ctx reason t tp s) f = (s', r)"
  obtains (failed) "\<not> os_writable s" "r = Inl AuditWriteFailed"
  | (written) line where "os_writable s" "f (s\<lparr>os_lines := os_lines s @ [line]\<rparr>) = (s', r)"
      "audit_says line ''decision'' decision" "audit_says line ''subject'' (sx_subject ctx)"
proof (cases rule: security_audit_cases [of s m decision ctx reason t tp])
  case (1 s1)
  obtain line where "s1 = s\<lparr>os_lines := os_lines s @ [line]\<rparr>" "audit_says line ''decision'' decision" "audit_says line ''subject'' (sx_subject ctx)"
    using security_audit_line [OF 1(2)] by blast
  then show ?thesis using 1 assms by (intro written [of line]) (simp_all add: audited_def)
next
  case 2
  then show ?thesis using assms by (intro failed) (simp_all add: audited_def)
qed

text \<open>The decision, branch by branch.\<close>

lemma decide_authz_cases:
  assumes "auth_context sp call = (subject, roles, tenant)" "decide_authz sp call required_permission cfg snapshot s = (s', r)"
  obtains (no_audit) "\<not> os_writable s" "r = Inl AuditWriteFailed"
  | (no_context) line spec where "blank subject \<or> blank tenant" "r = Inl (Aborted spec)" "pe_grpc_code spec = PERMISSION_DENIED"
      "os_lines s' = os_lines s @ [line]" "audit_says line ''decision'' ''deny''" "os_authz_denied_total s' = os_authz_denied_total s + 1"
  | (no_policy) spec where "blank (ps_version snapshot)" "r = Inl (Aborted spec)" "pe_grpc_code spec = PERMISSION_DENIED"
      "pe_reason spec = ''EIGEN_PUBLIC_POLICY_BACKEND_UNAVAILABLE''"
  | (allow) line where "\<not> blank subject" "\<not> blank tenant" "\<not> blank (ps_version snapshot)" "os_writable s" "r = Inr ()"
      "permits snapshot (dget_or (call_metadata call) ''x-eigen-permissions'' []) roles (py_lower (py_strip required_permission))"
      "s' = s\<lparr>os_lines := os_lines s @ [line]\<rparr>" "audit_says line ''decision'' ''allow''" "audit_says line ''subject'' subject"
  | (deny) line spec where "\<not> permits snapshot (dget_or (call_metadata call) ''x-eigen-permissions'' []) roles (py_lower (py_strip required_permission))"
      "r = Inl (Aborted spec)" "pe_grpc_code spec = PERMISSION_DENIED"
      "os_lines s' = os_lines s @ [line]" "audit_says line ''decision'' ''deny''" "os_authz_denied_total s' = os_authz_denied_total s + 1"
proof -
  let ?raw = "dget_or (call_metadata call) ''x-eigen-permissions'' []" and ?need = "py_lower (py_strip required_permission)"
  note decide = assms(2) [unfolded decide_authz_def Let_def assms(1) prod.case permits_granted [symmetric]]
  consider (ctx) "blank subject \<or> blank tenant" | (version) "\<not> (blank subject \<or> blank tenant)" "blank (ps_version snapshot)"
    | (ok) "\<not> (blank subject \<or> blank tenant)" "\<not> blank (ps_version snapshot)" "permits snapshot ?raw roles ?need"
    | (bad) "\<not> (blank subject \<or> blank tenant)" "\<not> blank (ps_version snapshot)" "\<not> permits snapshot ?raw roles ?need" by blast
  then show ?thesis
  proof cases
    case ctx
    show ?thesis
      by (rule audited_line [OF decide [unfolded if_P [OF ctx]]], rule no_audit; assumption?)
        (rule no_context [OF ctx], auto simp: denied_def public_error_def log_authz_denied_def)
  next
    case version
    then show ?thesis using decide by (intro no_policy) (auto simp: denied_def public_error_def)
  next
    case ok
    show ?thesis
      by (rule audited_line [OF decide [unfolded if_not_P [OF ok(1)] if_not_P [OF ok(2)] if_P [OF ok(3)]]], rule no_audit; assumption?)
        (rule allow, use ok in \<open>auto simp: authz_context_def\<close>)
  next
    case bad
    show ?thesis
      by (rule audited_line [OF decide [unfolded if_not_P [OF bad(1)] if_not_P [OF bad(2)] if_not_P [OF bad(3)]]], rule no_audit; (assumption | simp add: log_authz_denied_def)?)
        (rule deny [OF bad(3)], auto simp: denied_def public_error_def log_authz_denied_def)
  qed
qed

text \<open>C6. Authorisation, unless it is switched off, lets a call through exactly when the policy has been loaded, the call has a
  subject and a tenant, and it holds the needed permission, its wildcard or the universal one, by its own claims, its roles or
  the policy's grants to its roles. A call that is let through has left one more line in the audit file, which says allow and names the
  subject; if the line cannot be written, the call fails. A call that is refused for a missing permission leaves a line that says deny
  and is counted.\<close>

theorem authz_decides_and_audits:
  assumes "cf_auth_mode (load_security_config sp) \<noteq> AUTH_ALLOW_ALL"
    and "enforce_authz sp call required_permission s = (s', r)" "auth_context sp call = (subject, roles, tenant)"
  shows "(r = Inr () \<longleftrightarrow> (\<exists>snapshot. load_policy_snapshot sp = Inr snapshot \<and> \<not> blank (ps_version snapshot)
       \<and> \<not> blank subject \<and> \<not> blank tenant \<and> os_writable s
       \<and> permits snapshot (dget_or (call_metadata call) ''x-eigen-permissions'' []) roles (py_lower (py_strip required_permission))))
    \<and> (r = Inr () \<longrightarrow> (\<exists>line. s' = s\<lparr>os_lines := os_lines s @ [line]\<rparr> \<and> audit_says line ''decision'' ''allow'' \<and> audit_says line ''subject'' subject))
    \<and> (\<forall>spec. r = Inl (Aborted spec) \<longrightarrow> pe_grpc_code spec = PERMISSION_DENIED)
    \<and> (\<forall>spec. r = Inl (Aborted spec) \<and> pe_reason spec = ''EIGEN_PUBLIC_PERMISSION_DENIED'' \<longrightarrow>
         os_authz_denied_total s' = os_authz_denied_total s + 1
         \<and> (\<exists>line. os_lines s' = os_lines s @ [line] \<and> audit_says line ''decision'' ''deny''))"
proof (cases "load_policy_snapshot sp")
  case (Inl e)
  then have "enforce_authz sp call required_permission s = (s, Inl (SecPy e))"
    using assms(1) by (simp add: enforce_authz_def load_policy_snapshot_def)
  then show ?thesis using assms(2) Inl by simp
next
  case (Inr snapshot)
  then have "decide_authz sp call required_permission (load_security_config sp) snapshot s = (s', r)"
    using assms(1,2) by (simp add: enforce_authz_def load_policy_snapshot_def)
  then show ?thesis
    by (rule decide_authz_cases [OF assms(3)]) (use Inr in auto)
qed

definition demo_obs :: obs_state where
  "demo_obs = \<lparr>os_writable = True, os_lines = [], os_write_failures = 0, os_authz_denied_total = 0, os_denied = []\<rparr>"

text \<open>The policy without a snapshot configured.\<close>

definition builtin_snapshot :: "security_config \<Rightarrow> policy_snapshot" where
  "builtin_snapshot cfg =
     \<lparr>ps_version = ''1.0.0'', ps_issuer = cf_jwt_issuer cfg, ps_audience = cf_jwt_audience cfg,
      ps_role_permissions = [(PStr ''admin'', [''*'']), (PStr ''user'', [''jobs:*'', ''devices:list'', ''devices:status'']),
        (PStr ''readonly'', [''jobs:read'', ''devices:list''])],
      ps_service_permissions = [(PStr ''system-api'', [''jobs:*'', ''devices:*'']), (PStr ''eigen-kernel'', [''jobs:*'', ''qfs:*'', ''policy:*''])],
      ps_sandbox_profiles = [''default'', ''restricted'', ''strict'']\<rparr>"

lemma builtin_loaded:
  assumes "blank (cf_policy_snapshot_json cfg)" "blank (cf_policy_snapshot_path cfg)"
  shows "load_policy_snapshot_cfg sp cfg = Inr (builtin_snapshot cfg)"
proof -
  have "snapshot_of sp cfg (PDict (default_policy cfg)) = Inr (builtin_snapshot cfg)" by code_simp
  then show ?thesis using assms by (simp add: load_policy_snapshot_cfg_def)
qed

lemma demo_sec_policy:
  "load_policy_snapshot (demo_sec [(''SYSTEM_API_AUTH_MODE'', ''jwt_oauth2'')]) =
     Inr (builtin_snapshot (load_security_config (demo_sec [(''SYSTEM_API_AUTH_MODE'', ''jwt_oauth2'')])))"
  unfolding load_policy_snapshot_def
  by (rule builtin_loaded) (simp_all add: load_security_config_def Let_def getenv_def demo_sec_def)

theorem authz_decides_and_audits_witness:
  "\<exists>line. enforce_authz (demo_sec [(''SYSTEM_API_AUTH_MODE'', ''jwt_oauth2'')])
       \<lparr>gc_metadata = [(''x-eigen-tenant'', ''t''), (''x-eigen-sub'', ''alice''), (''x-eigen-roles'', ''user'')], gc_method = ''/SubmitJob''\<rparr> ''jobs:submit'' demo_obs
     = (demo_obs\<lparr>os_lines := [line]\<rparr>, Inr ()) \<and> audit_says line ''decision'' ''allow'' \<and> audit_says line ''subject'' ''alice''"
proof -
  let ?sp = "demo_sec [(''SYSTEM_API_AUTH_MODE'', ''jwt_oauth2'')]"
  let ?call = "\<lparr>gc_metadata = [(''x-eigen-tenant'', ''t''), (''x-eigen-sub'', ''alice''), (''x-eigen-roles'', ''user'')], gc_method = ''/SubmitJob''\<rparr>"
  have md: "call_metadata ?call = [(''x-eigen-tenant'', ''t''), (''x-eigen-sub'', ''alice''), (''x-eigen-roles'', ''user'')]" by code_simp
  have user: "comma_items ''user'' = [''user'']" by code_simp
  have mode: "cf_auth_mode (load_security_config ?sp) \<noteq> AUTH_ALLOW_ALL" unfolding demo_sec_config by code_simp
  have ctx: "auth_context ?sp ?call = (''alice'', [''user''], ''t'')"
    unfolding auth_context_def Let_def demo_sec_config md by (simp add: auth_mode_defs dget_or_def user)
  have "\<not> blank ''alice''" "\<not> blank ''t''" "\<not> blank (ps_version (builtin_snapshot (load_security_config ?sp)))"
    by (simp_all add: blank_iff is_ws_def builtin_snapshot_def)
  moreover have "split_head (CHR '':'') (py_lower (py_strip ''jobs:submit'')) @ '':*'' = ''jobs:*''" by code_simp
  then have "permits (builtin_snapshot (load_security_config ?sp)) (dget_or (call_metadata ?call) ''x-eigen-permissions'' []) [''user''] (py_lower (py_strip ''jobs:submit''))"
    unfolding permits_def by (intro exI [of _ "''jobs:*''"]) (simp add: builtin_snapshot_def dget_or_def)
  moreover obtain s' r where run: "enforce_authz ?sp ?call ''jobs:submit'' demo_obs = (s', r)" by force
  ultimately show ?thesis
    using authz_decides_and_audits [OF mode run ctx] demo_sec_policy by (auto simp: demo_obs_def)
qed

section \<open>Policy, gateway, configuration\<close>

text \<open>The policy fails closed: if a policy snapshot file is configured that is missing or no JSON, no call is authorised and no
  sandbox profile is allowed, whatever the call says, unless authorisation is switched off.\<close>

theorem policy_fails_closed:
  assumes "blank (cf_policy_snapshot_json (load_security_config sp))" "\<not> blank (cf_policy_snapshot_path (load_security_config sp))"
    and "case se_read sp (cf_policy_snapshot_path (load_security_config sp)) of
        FileText t \<Rightarrow> json_loads t = None | FileMissing \<Rightarrow> True | FileError _ \<Rightarrow> True"
  shows "(cf_auth_mode (load_security_config sp) \<noteq> AUTH_ALLOW_ALL \<longrightarrow> snd (enforce_authz sp call required_permission s) \<noteq> Inr ())
    \<and> enforce_sandbox_policy sp profile \<noteq> Inr ()"
proof -
  let ?cfg = "load_security_config sp"
  obtain e where load: "load_policy_snapshot_cfg sp ?cfg = Inr (empty_snapshot ?cfg) \<or> load_policy_snapshot_cfg sp ?cfg = Inl e"
    using assms unfolding load_policy_snapshot_cfg_def by (auto split: file_read.splits)
  obtain subject roles tenant where ctx: "auth_context sp call = (subject, roles, tenant)" by (cases "auth_context sp call") auto
  have "snd (decide_authz sp call required_permission ?cfg (empty_snapshot ?cfg) s) \<noteq> Inr ()"
  proof
    assume *: "snd (decide_authz sp call required_permission ?cfg (empty_snapshot ?cfg) s) = Inr ()"
    obtain s' where "decide_authz sp call required_permission ?cfg (empty_snapshot ?cfg) s = (s', Inr ())"
      using * by (metis prod.collapse)
    then show False by (rule decide_authz_cases [OF ctx]) (auto simp: empty_snapshot_def)
  qed
  then show ?thesis using load by (auto simp: enforce_authz_def enforce_sandbox_policy_def empty_snapshot_def Let_def)
qed

definition demo_policy_file :: sec_platform where
  "demo_policy_file = demo_sec [(''SYSTEM_API_AUTH_MODE'', ''jwt_oauth2''), (''SYSTEM_API_POLICY_SNAPSHOT_PATH'', ''/policy.json'')]"

theorem policy_fails_closed_witness:
  "snd (enforce_authz demo_policy_file \<lparr>gc_metadata = [(''x-eigen-tenant'', ''t'')], gc_method = ''/SubmitJob''\<rparr> ''jobs:submit'' demo_obs) \<noteq> Inr ()"
proof -
  let ?cfg = "load_security_config demo_policy_file"
  have json: "blank (cf_policy_snapshot_json ?cfg)" and path: "cf_policy_snapshot_path ?cfg = ''/policy.json''"
    by (simp_all add: load_security_config_def Let_def getenv_def demo_policy_file_def demo_sec_def)
  have "py_lower (py_strip ''jwt_oauth2'') = ''jwt_oauth2''" by code_simp
  then have mode: "cf_auth_mode ?cfg \<noteq> AUTH_ALLOW_ALL"
    by (simp add: load_security_config_def Let_def getenv_def demo_policy_file_def demo_sec_def VALID_AUTH_MODES_def auth_mode_defs)
  have "\<not> blank (cf_policy_snapshot_path ?cfg)" unfolding path by (simp add: blank_iff is_ws_def)
  moreover have "case se_read demo_policy_file (cf_policy_snapshot_path ?cfg) of FileText t \<Rightarrow> json_loads t = None | FileMissing \<Rightarrow> True | FileError _ \<Rightarrow> True"
    by (simp add: demo_policy_file_def demo_sec_def)
  ultimately show ?thesis using policy_fails_closed [OF json, of _ "''jobs:submit''" demo_obs] mode by blast
qed

text \<open>In the JWT mode the roles are those of the call's metadata and not of the token; a call that names none is an administrator:
  with the built-in policy it is authorised for everything, as any tenant it names.\<close>

theorem jwt_call_without_roles_is_admin:
  assumes "cf_auth_mode (load_security_config sp) = AUTH_JWT_OAUTH2" "os_writable s"
    and "blank (cf_policy_snapshot_json (load_security_config sp))" "blank (cf_policy_snapshot_path (load_security_config sp))"
    and "dget (call_metadata call) ''x-eigen-roles'' = None" "dget (call_metadata call) ''x-eigen-sub'' = None"
    and "dget (call_metadata call) ''x-eigen-tenant'' = Some tenant" "\<not> blank tenant"
  shows "snd (enforce_authz sp call required_permission s) = Inr ()"
proof -
  let ?cfg = "load_security_config sp"
  have admin: "comma_items ''admin'' = [''admin'']" by code_simp
  have ctx: "auth_context sp call = (''anonymous'', [''admin''], tenant)"
    using assms(1,5-7) by (simp add: auth_context_def auth_mode_defs dget_or_def Let_def admin)
  have load: "load_policy_snapshot_cfg sp ?cfg = Inr (builtin_snapshot ?cfg)" by (rule builtin_loaded [OF assms(3,4)])
  have ok: "permits (builtin_snapshot ?cfg) raw [''admin''] need" for raw need
    unfolding permits_def by (intro exI [of _ "''*''"]) (simp add: builtin_snapshot_def dget_or_def)
  have known: "\<not> blank ''anonymous''" "\<not> blank (ps_version (builtin_snapshot ?cfg))" by (simp_all add: blank_iff is_ws_def builtin_snapshot_def)
  obtain s' r where run: "decide_authz sp call required_permission ?cfg (builtin_snapshot ?cfg) s = (s', r)" by force
  from run have "r = Inr ()" by (rule decide_authz_cases [OF ctx]) (use ok known assms(2,8) in auto)
  then show ?thesis using load run assms(1) by (simp add: enforce_authz_def auth_mode_defs)
qed

text \<open>The audience is compared as a substring: a token for another audience whose name contains the configured one is accepted.\<close>

theorem audience_is_substring:
  assumes "decodes_ascii sp" "now < e"
  shows "valid_jwt sp cfg now (issue_token sp (cf_jwt_secret cfg) (token_claims (cf_jwt_audience cfg @ ''-staging'') e (cf_jwt_issuer cfg) sub))"
proof (rule issued_valid [OF assms])
  show "py_contains (cf_jwt_audience cfg @ ''-staging'') (cf_jwt_audience cfg)"
    by (subst py_contains.simps) simp
qed

text \<open>The static table of permissions agrees with the built-in policy: for the three roles it has, it grants what the policy grants.\<close>

theorem role_table_matches_policy:
  assumes "set roles \<subseteq> {''admin'', ''user'', ''readonly''}" "need \<notin> {''admin'', ''user'', ''readonly''}"
  shows "has_permission roles need \<longleftrightarrow> permits (builtin_snapshot cfg) [] roles need"
proof -
  have none: "comma_items [] = []" by code_simp
  have "has_permission roles need \<longleftrightarrow> (\<exists>r\<in>set roles. \<exists>p\<in>set (dget_or ROLE_PERMISSIONS r []). p \<in> {need, split_head (CHR '':'') need @ '':*'', ''*''})"
    by (induction roles) (auto simp: Let_def)
  moreover have "dget_or ROLE_PERMISSIONS r [] = dget_or (ps_role_permissions (builtin_snapshot cfg)) (PStr r) []" for r
    by (simp add: ROLE_PERMISSIONS_def builtin_snapshot_def dget_or_def)
  moreover have "r \<notin> {need, split_head (CHR '':'') need @ '':*'', ''*''}" if "r \<in> set roles" for r
  proof -
    have "CHR '':'' \<notin> set r" "r \<noteq> ''*''" "r \<noteq> need" using that assms by auto
    then show ?thesis by auto
  qed
  ultimately show ?thesis unfolding permits_def none by auto
qed

theorem role_table_matches_policy_witness:
  "has_permission [''readonly'', ''user''] ''devices:status'' \<longleftrightarrow> permits (builtin_snapshot (load_security_config (demo_sec []))) [] [''readonly'', ''user''] ''devices:status''"
  by (rule role_table_matches_policy) simp_all

text \<open>The recommendation gateway lets through exactly the non-blank texts that are labelled as recommendations and name none of the
  forbidden intents in any case; what it returns is validated, addressed to the policy engine and never executable.\<close>

theorem gateway_passes_iff:
  assumes "set (se_set_order sp FORBIDDEN_SECURITY_INTENTS) = set FORBIDDEN_SECURITY_INTENTS"
  shows "((\<exists>env. validate_recommendation_gateway sp label recommendation = Inr env) \<longleftrightarrow>
      py_strip label = ''Recommendation'' \<and> \<not> blank recommendation
      \<and> (\<forall>intent\<in>set FORBIDDEN_SECURITY_INTENTS. \<not> py_contains (py_lower (py_strip recommendation)) intent))
    \<and> (\<forall>env. validate_recommendation_gateway sp label recommendation = Inr env \<longrightarrow>
      ge_validated env \<and> \<not> ge_executable env \<and> ge_policy_engine_target env = ''policy_engine'' \<and> ge_recommendation env = py_strip recommendation)"
proof -
  let ?text = "py_strip recommendation"
  have "find (py_contains (py_lower ?text)) (se_set_order sp FORBIDDEN_SECURITY_INTENTS) = None \<longleftrightarrow>
      (\<forall>intent\<in>set FORBIDDEN_SECURITY_INTENTS. \<not> py_contains (py_lower ?text) intent)"
    unfolding find_None_iff assms by blast
  then show ?thesis
    by (cases "find (py_contains (py_lower ?text)) (se_set_order sp FORBIDDEN_SECURITY_INTENTS)")
      (auto simp: validate_recommendation_gateway_def Let_def blank_def)
qed

theorem gateway_passes_iff_witness:
  "\<not> (\<exists>env. validate_recommendation_gateway (demo_sec []) ''Recommendation'' '' Please BYPASS policy '' = Inr env)"
proof -
  have order: "set (se_set_order (demo_sec []) FORBIDDEN_SECURITY_INTENTS) = set FORBIDDEN_SECURITY_INTENTS" by (simp add: demo_sec_def)
  have "py_contains (py_lower (py_strip '' Please BYPASS policy '')) ''bypass policy''" by code_simp
  then show ?thesis
    using gateway_passes_iff [OF order, of "''Recommendation''" "'' Please BYPASS policy ''"] by (auto simp: FORBIDDEN_SECURITY_INTENTS_def)
qed

text \<open>The limits of the configuration are positive whatever the environment holds: a variable that is no integer gives the default,
  and one below one gives one; and the mode is one of the three.\<close>

theorem config_limits_positive:
  fixes sp :: sec_platform
  defines "cfg \<equiv> load_security_config sp"
  shows "cf_auth_mode cfg \<in> {''allow_all'', ''static_token'', ''jwt_oauth2''}
    \<and> 1 \<le> cf_max_program_source_bytes cfg \<and> 1 \<le> cf_max_jobspec_yaml_bytes cfg \<and> 1 \<le> cf_max_submit_metadata_entries cfg
    \<and> 1 \<le> cf_max_submit_metadata_key_bytes cfg \<and> 1 \<le> cf_max_submit_metadata_value_bytes cfg \<and> 1 \<le> cf_max_submit_dependencies cfg"
proof -
  have "1 \<le> int_env sp name d" if "1 \<le> d" for name d using that by (simp add: int_env_def split: option.split)
  moreover have "cf_auth_mode cfg \<in> {''allow_all'', ''static_token'', ''jwt_oauth2''}"
    using auth_mode_valid [of sp] by (simp add: cfg_def VALID_AUTH_MODES_def auth_mode_defs)
  ultimately show ?thesis by (simp add: cfg_def load_security_config_def Let_def)
qed

end
