(* ===== verification/JobSpec.thy ===== *)
theory JobSpec
  imports Security RequestContext
begin

text \<open>
  The JobSpec normaliser (\<open>system_api/jobspec_parser.py\<close>) and the checks of a submission (\<open>validation.py\<close>). The
  YAML loader is a parameter that gives a value, a syntax error or another exception; UTF-8 decoding, SHA-256, \<open>str\<close> on
  containers and \<open>int\<close> on floats, the file system and the JSON text of values outside JSON are parameters, too. Violations are
  collected in the order of the code.
\<close>

section \<open>YAML values\<close>

text \<open>What the safe loader builds. \<open>YOther\<close> is a value of another class (a date, bytes, a set), with its truth value and
  whether it can be hashed.\<close>

datatype yval =
    YNone
  | YBool bool
  | YInt int
  | YFloat string
  | YStr string
  | YList "yval list"
  | YDict "(yval \<times> yval) list"
  | YOther string bool bool

fun ytruthy :: "yval \<Rightarrow> bool" where
  "ytruthy YNone = False"
| "ytruthy (YBool b) = b"
| "ytruthy (YInt i) = (i \<noteq> 0)"
| "ytruthy (YFloat r) = (r \<notin> {''0.0'', ''-0.0''})"
| "ytruthy (YStr s) = (s \<noteq> [])"
| "ytruthy (YList xs) = (xs \<noteq> [])"
| "ytruthy (YDict d) = (d \<noteq> [])"
| "ytruthy (YOther _ t _) = t"

fun yhashable :: "yval \<Rightarrow> bool" where
  "yhashable (YList _) = False"
| "yhashable (YDict _) = False"
| "yhashable (YOther _ _ h) = h"
| "yhashable _ = True"

type_synonym ydict = "(yval \<times> yval) list"

text \<open>\<open>d.get(k, dflt)\<close>, \<open>d.get(k)\<close> and \<open>a or b\<close>.\<close>

definition yget_or :: "ydict \<Rightarrow> string \<Rightarrow> yval \<Rightarrow> yval" where
  "yget_or d k dflt = dget_or d (YStr k) dflt"

definition yget :: "ydict \<Rightarrow> string \<Rightarrow> yval" where
  "yget d k = yget_or d k YNone"

definition yor :: "yval \<Rightarrow> yval \<Rightarrow> yval" where
  "yor a b = (if ytruthy a then a else b)"

definition yaml_str_dict :: "(string, string) dict \<Rightarrow> yval" where
  "yaml_str_dict d = YDict (map (\<lambda>(k, v). (YStr k, YStr v)) d)"

datatype yaml_outcome = YamlValue yval | YamlSyntax | YamlRaises pyexn

record js_platform =
  jp_sec :: sec_platform
  jp_yaml :: "string \<Rightarrow> yaml_outcome"
  jp_utf8 :: "string \<Rightarrow> string option"
  jp_sha256 :: "string \<Rightarrow> string"
  jp_fs :: file_system
  jp_dumps :: "yval \<Rightarrow> (pyexn, string) result"
  jp_str :: "yval \<Rightarrow> string"
  jp_int_of_float :: "string \<Rightarrow> int option"

text \<open>\<open>s.encode("utf-8")\<close> on code points below 256.\<close>

definition utf8_encode :: "string \<Rightarrow> string" where
  "utf8_encode s = concat (map (\<lambda>c. if ord c < 128 then [c] else [char_of (192 + ord c div 64), char_of (128 + ord c mod 64)]) s)"

section \<open>Canonical JSON\<close>

text \<open>\<open>json.dumps\<close> with \<open>ensure_ascii=False\<close> on values of JSON; on others it is the platform's.\<close>

definition json_char_raw :: "char \<Rightarrow> string" where
  "json_char_raw c = (if ord c < 32 \<or> ord c = 34 \<or> ord c = 92 then json_char c else [c])"

definition json_str_raw :: "string \<Rightarrow> string" where
  "json_str_raw s = CHR 0x22 # concat (map json_char_raw s) @ [CHR 0x22]"

fun json_text_raw :: "pyval \<Rightarrow> string" where
  "json_text_raw (PStr s) = json_str_raw s"
| "json_text_raw (PList xs) = ''['' @ py_join '','' (map json_text_raw xs) @ '']''"
| "json_text_raw (PDict d) = ''{'' @ py_join '','' (map (\<lambda>(k, v). json_str_raw k @ '':'' @ json_text_raw v) d) @ ''}''"
| "json_text_raw v = json_text v"

fun plain :: "yval \<Rightarrow> pyval option" where
  "plain YNone = Some PNone"
| "plain (YBool b) = Some (PBool b)"
| "plain (YInt i) = Some (PInt i)"
| "plain (YFloat r) = Some (PFloat r)"
| "plain (YStr s) = Some (PStr s)"
| "plain (YList xs) = map_option PList (those (map plain xs))"
| "plain (YDict d) =
     map_option PDict (those (map (\<lambda>(k, v). case k of YStr s \<Rightarrow> map_option (Pair s) (plain v) | _ \<Rightarrow> None) d))"
| "plain (YOther _ _ _) = None"

definition canonical_json :: "js_platform \<Rightarrow> yval \<Rightarrow> (pyexn, string) result" where
  "canonical_json jp v = (case plain v of Some p \<Rightarrow> Inr (json_text_raw (canon p)) | None \<Rightarrow> jp_dumps jp v)"

section \<open>Checks\<close>

type_synonym 'a checked = "'a \<times> api_violation list"

abbreviation bad :: "string \<Rightarrow> string \<Rightarrow> api_violation list" where
  "bad f d \<equiv> [api_violation_of f d]"

definition JOBSPEC_VERSION :: string where "JOBSPEC_VERSION = ''1.0.0''"
definition JOBSPEC_API_VERSION :: string where "JOBSPEC_API_VERSION = ''eigen.os/v1''"
definition LEGACY_JOBSPEC_API_VERSION :: string where "LEGACY_JOBSPEC_API_VERSION = ''eigen.os/v0.1''"
definition JOBSPEC_KIND :: string where "JOBSPEC_KIND = ''QuantumJob''"

definition JOBSPEC_WORKLOAD_KINDS :: "string list" where
  "JOBSPEC_WORKLOAD_KINDS = [''QuantumJob'', ''HybridWorkflow'', ''DistributedJob'', ''BenchmarkJob'', ''PipelineJob'', ''ReplayJob'']"

definition JOBSPEC_WORKLOAD_KIND_DEFAULT :: string where "JOBSPEC_WORKLOAD_KIND_DEFAULT = ''QuantumJob''"

definition JOBSPEC_WORKLOAD_EXECUTION_PROFILES :: "(string, string) dict" where
  "JOBSPEC_WORKLOAD_EXECUTION_PROFILES =
     [(''QuantumJob'', ''quantum''), (''HybridWorkflow'', ''hybrid''), (''DistributedJob'', ''distributed''),
      (''BenchmarkJob'', ''benchmark''), (''PipelineJob'', ''pipeline''), (''ReplayJob'', ''replay'')]"

definition JOBSPEC_WORKLOAD_ENUM_NAMES :: "(string, string) dict" where
  "JOBSPEC_WORKLOAD_ENUM_NAMES =
     [(''QuantumJob'', ''WORKLOAD_FAMILY_KIND_QUANTUM_JOB''), (''HybridWorkflow'', ''WORKLOAD_FAMILY_KIND_HYBRID_WORKFLOW''),
      (''DistributedJob'', ''WORKLOAD_FAMILY_KIND_DISTRIBUTED_JOB''), (''BenchmarkJob'', ''WORKLOAD_FAMILY_KIND_BENCHMARK_JOB''),
      (''PipelineJob'', ''WORKLOAD_FAMILY_KIND_PIPELINE_JOB''), (''ReplayJob'', ''WORKLOAD_FAMILY_KIND_REPLAY_JOB'')]"

definition ACCEPTED_API_VERSIONS :: "string list" where
  "ACCEPTED_API_VERSIONS = [JOBSPEC_API_VERSION, LEGACY_JOBSPEC_API_VERSION]"

text \<open>The parts of a \<open>Path\<close>: empty parts and dots vanish.\<close>

definition posix_parts :: "string \<Rightarrow> string list" where
  "posix_parts s = filter (\<lambda>p. p \<noteq> [] \<and> p \<noteq> ''.'') (py_split (CHR ''/'') s)"

definition is_safe_relative_path :: "string \<Rightarrow> bool" where
  "is_safe_relative_path s \<longleftrightarrow> \<not> py_startswith s ''/'' \<and> ''..'' \<notin> set (posix_parts s)"

definition candidate_path :: "js_platform \<Rightarrow> string \<Rightarrow> string \<Rightarrow> string list" where
  "candidate_path jp dir ref = fs_resolve (jp_fs jp) (dir @ ''/'' @ ref)"

text \<open>The resolved path, a violation, or the \<open>ValueError\<close> of a null character.\<close>

definition resolve_safe_path :: "js_platform \<Rightarrow> string \<Rightarrow> string \<Rightarrow> string \<Rightarrow> (pyexn, (api_violation, string list) result) result" where
  "resolve_safe_path jp dir ref f =
     (if ref = [] then Inr (Inl (api_violation_of f ''field is required''))
      else if \<not> is_safe_relative_path ref then Inr (Inl (api_violation_of f ''path traversal is not allowed''))
      else if CHR 0x00 \<in> set ref then Inl (ValueError ''embedded null byte'')
      else if \<not> inside (fs_resolve (jp_fs jp) dir) (candidate_path jp dir ref)
      then Inr (Inl (api_violation_of f ''path traversal is not allowed''))
      else Inr (Inr (candidate_path jp dir ref)))"

definition require_dict :: "yval \<Rightarrow> string \<Rightarrow> ydict checked" where
  "require_dict v f = (case v of YDict d \<Rightarrow> (d, []) | _ \<Rightarrow> ([], bad f ''must be a mapping''))"

fun string_entries :: "ydict \<Rightarrow> (string, string) dict option" where
  "string_entries [] = Some []"
| "string_entries ((YStr k, YStr v) # d) = map_option (Cons (k, v)) (string_entries d)"
| "string_entries (_ # d) = None"

definition string_map :: "yval \<Rightarrow> string \<Rightarrow> (string, string) dict checked" where
  "string_map v f =
     (case v of
        YNone \<Rightarrow> ([], [])
      | YDict d \<Rightarrow> (case string_entries d of Some m \<Rightarrow> (m, []) | None \<Rightarrow> ([], bad f ''must be map<string,string>''))
      | _ \<Rightarrow> ([], bad f ''must be map<string,string>''))"

section \<open>Workload contract\<close>

record workload =
  wl_kind :: string
  wl_execution_profile :: string
  wl_replayable :: bool
  wl_artifact_lineage :: "(string, string) dict"
  wl_observability :: "(string, string) dict"
  wl_emit_metrics :: bool
  wl_security :: "(string, string) dict"
  wl_fail_closed :: bool
  wl_backend_target :: yval
  wl_seed :: "int option"
  wl_topology :: "ydict option"

definition workload_kind :: "bool \<Rightarrow> ydict \<Rightarrow> string checked" where
  "workload_kind declared raw =
     (case yor (yget raw ''kind'') (yget raw ''workload_kind'') of
        YNone \<Rightarrow> (JOBSPEC_WORKLOAD_KIND_DEFAULT, if declared then bad ''spec.workload.kind'' ''field is required'' else [])
      | YStr s \<Rightarrow>
          (if blank s then (JOBSPEC_WORKLOAD_KIND_DEFAULT, bad ''spec.workload.kind'' ''field is required'')
           else if s \<notin> set JOBSPEC_WORKLOAD_KINDS
           then (JOBSPEC_WORKLOAD_KIND_DEFAULT, bad ''spec.workload.kind'' (''must be one of '' @ py_join '', '' JOBSPEC_WORKLOAD_KINDS))
           else (s, []))
      | _ \<Rightarrow> (JOBSPEC_WORKLOAD_KIND_DEFAULT, bad ''spec.workload.kind'' ''field is required''))"

definition contract_profile :: "string \<Rightarrow> ydict \<Rightarrow> string checked" where
  "contract_profile kind raw =
     (case yor (yget raw ''execution_profile'') (yget raw ''executionProfile'') of
        YNone \<Rightarrow> (dget_or JOBSPEC_WORKLOAD_EXECUTION_PROFILES kind [], [])
      | YStr s \<Rightarrow> (s, [])
      | _ \<Rightarrow> (dget_or JOBSPEC_WORKLOAD_EXECUTION_PROFILES kind [], bad ''spec.workload.execution_profile'' ''must be string''))"

definition workload_replayable :: "string \<Rightarrow> ydict \<Rightarrow> bool checked" where
  "workload_replayable kind raw =
     (case yget raw ''replayable'' of
        YNone \<Rightarrow> (kind \<noteq> ''QuantumJob'', [])
      | YBool b \<Rightarrow> (b, [])
      | _ \<Rightarrow> (kind \<noteq> ''QuantumJob'', bad ''spec.workload.replayable'' ''must be boolean''))"

definition require_subdict :: "yval \<Rightarrow> string \<Rightarrow> ydict checked" where
  "require_subdict v f = (case v of YNone \<Rightarrow> ([], []) | YDict d \<Rightarrow> (d, []) | _ \<Rightarrow> ([], bad f ''must be a mapping''))"

definition require_str :: "ydict \<Rightarrow> string \<Rightarrow> string \<Rightarrow> string checked" where
  "require_str raw k f =
     (case yget_or raw k (YStr []) of
        YNone \<Rightarrow> ([], [])
      | YStr s \<Rightarrow> (py_strip s, [])
      | _ \<Rightarrow> ([], bad f ''must be string''))"

definition require_strs :: "ydict \<Rightarrow> string \<Rightarrow> string list \<Rightarrow> (string, string) dict checked" where
  "require_strs raw prefix ks =
     (map (\<lambda>k. (k, fst (require_str raw k (prefix @ k)))) ks, concat (map (\<lambda>k. snd (require_str raw k (prefix @ k))) ks))"

definition require_bool :: "ydict \<Rightarrow> string \<Rightarrow> string \<Rightarrow> bool \<Rightarrow> bool checked" where
  "require_bool raw k f dflt = (case yget_or raw k (YBool dflt) of YBool b \<Rightarrow> (b, []) | _ \<Rightarrow> (dflt, bad f ''must be boolean''))"

text \<open>The first of the keys that is present gives the topology; a value that is no mapping is dropped.\<close>

definition workload_topology :: "ydict \<Rightarrow> ydict option" where
  "workload_topology raw =
     (case find (\<lambda>k. dhas raw (YStr k)) [''topology'', ''execution_topology'', ''topology_hints''] of
        None \<Rightarrow> None
      | Some k \<Rightarrow> (case yget raw k of YDict d \<Rightarrow> Some d | _ \<Rightarrow> None))"

definition workload_backend_target :: "yval \<Rightarrow> ydict \<Rightarrow> yval checked" where
  "workload_backend_target target raw =
     (let v = yor (yor (yget raw ''backend_target'') (yget raw ''backendTarget'')) target;
          v' = (if v = YNone then YStr [] else v)
      in case v' of
           YStr s \<Rightarrow> (YStr (py_strip s), [])
         | _ \<Rightarrow> (case target of YStr s \<Rightarrow> YStr (py_strip s) | _ \<Rightarrow> target, bad ''spec.workload.backend_target'' ''must be string''))"

definition workload_seed :: "ydict \<Rightarrow> int option checked" where
  "workload_seed raw =
     (case yget raw ''seed'' of
        YNone \<Rightarrow> (None, [])
      | YInt i \<Rightarrow> (Some i, [])
      | YStr s \<Rightarrow> (case py_int (py_strip s) of Some i \<Rightarrow> (Some i, []) | None \<Rightarrow> (None, bad ''spec.workload.seed'' ''must be integer''))
      | _ \<Rightarrow> (None, bad ''spec.workload.seed'' ''must be integer''))"

definition lineage_keys :: "string list" where
  "lineage_keys = [''root_ref'', ''parent_ref'', ''policy_snapshot_ref'', ''execution_ref'']"

definition observability_keys :: "string list" where
  "observability_keys = [''traceparent'', ''trace_id'', ''trace_ref'']"

definition security_keys :: "string list" where
  "security_keys = [''tenant_id'', ''project_id'', ''service_identity'', ''policy_snapshot_ref'']"

definition normalize_workload_contract :: "yval \<Rightarrow> yval \<Rightarrow> workload checked" where
  "normalize_workload_contract workload_raw target =
     (let declared = (workload_raw \<noteq> YNone);
          (raw, v0) = (case workload_raw of YNone \<Rightarrow> ([], []) | YDict d \<Rightarrow> (d, []) | _ \<Rightarrow> ([], bad ''spec.workload'' ''must be a mapping''));
          (kind, v1) = workload_kind declared raw;
          (profile, v2) = contract_profile kind raw;
          (replayable, v3) = workload_replayable kind raw;
          (lineage_raw, v4) = require_subdict (yor (yget raw ''artifact_lineage'') (yget raw ''artifactLineage'')) ''spec.workload.artifact_lineage'';
          (obs_raw, v5) = require_subdict (yget raw ''observability'') ''spec.workload.observability'';
          (sec_raw, v6) = require_subdict (yget raw ''security'') ''spec.workload.security'';
          (lineage, v7) = require_strs lineage_raw ''spec.workload.artifact_lineage.'' lineage_keys;
          (obs, v8) = require_strs obs_raw ''spec.workload.observability.'' observability_keys;
          (emit, v9) = require_bool obs_raw ''emit_metrics'' ''spec.workload.observability.emit_metrics'' False;
          (sec, v10) = require_strs sec_raw ''spec.workload.security.'' security_keys;
          (fail_closed, v11) = require_bool sec_raw ''fail_closed'' ''spec.workload.security.fail_closed'' (kind = ''ReplayJob'');
          (backend, v12) = workload_backend_target target raw;
          (seed, v13) = workload_seed raw
      in (\<lparr>wl_kind = kind, wl_execution_profile = profile, wl_replayable = replayable, wl_artifact_lineage = lineage,
           wl_observability = obs, wl_emit_metrics = emit, wl_security = sec, wl_fail_closed = fail_closed,
           wl_backend_target = backend, wl_seed = seed, wl_topology = workload_topology raw\<rparr>,
          v0 @ v1 @ v2 @ v3 @ v4 @ v5 @ v6 @ v7 @ v8 @ v9 @ v10 @ v11 @ v12 @ v13))"

definition str_entries :: "(string, string) dict \<Rightarrow> ydict" where
  "str_entries d = map (\<lambda>(k, v). (YStr k, YStr v)) d"

text \<open>The dictionary of a workload.\<close>

definition workload_payload :: "workload \<Rightarrow> yval" where
  "workload_payload w =
     YDict ([(YStr ''kind'', YStr (wl_kind w)), (YStr ''execution_profile'', YStr (wl_execution_profile w)),
       (YStr ''replayable'', YBool (wl_replayable w)),
       (YStr ''artifact_lineage'', YDict (str_entries (wl_artifact_lineage w))),
       (YStr ''observability'', YDict (str_entries (wl_observability w) @ [(YStr ''emit_metrics'', YBool (wl_emit_metrics w))])),
       (YStr ''security'', YDict (str_entries (wl_security w) @ [(YStr ''fail_closed'', YBool (wl_fail_closed w))])),
       (YStr ''backend_target'', wl_backend_target w)]
      @ (case wl_seed w of None \<Rightarrow> [] | Some i \<Rightarrow> [(YStr ''seed'', YInt i)])
      @ (case wl_topology w of None \<Rightarrow> [] | Some t \<Rightarrow> [(YStr ''topology'', YDict t)]))"

section \<open>Program\<close>

text \<open>The inline source and the path, if any. A present value that is no string is a violation.\<close>

definition optional_str :: "yval \<Rightarrow> string \<Rightarrow> string option checked" where
  "optional_str v f = (case v of YNone \<Rightarrow> (None, []) | YStr s \<Rightarrow> (Some s, []) | _ \<Rightarrow> (None, bad f ''must be string''))"

definition extract_program :: "ydict \<Rightarrow> (string option \<times> string option) checked" where
  "extract_program spec =
     (let ((inline1, path1), v1) =
            (case yget spec ''program'' of
               YDict program \<Rightarrow>
                 (let (src, vs) = optional_str (yget program ''source'') ''spec.program.source'';
                      (path, vp) = optional_str (yget program ''path'') ''spec.program.path''
                  in ((src, path), vs @ vp))
             | YStr src \<Rightarrow> ((Some src, None), [])
             | YNone \<Rightarrow> ((None, None), [])
             | _ \<Rightarrow> ((None, None), bad ''spec.program'' ''must be mapping''));
          (path2, v2) =
            (case yget spec ''program_path'' of
               YNone \<Rightarrow> (path1, [])
             | YStr p \<Rightarrow> (Some p, if path1 \<noteq> None then bad ''spec.program_path'' ''cannot be set with spec.program.path'' else [])
             | _ \<Rightarrow> (path1, bad ''spec.program_path'' ''must be string''));
          v3 = (if inline1 \<noteq> None \<and> path2 \<noteq> None then bad ''spec.program'' ''cannot set both source and path'' else [])
      in ((inline1, path2), v1 @ v2 @ v3))"

record program_source =
  pg_bytes :: string
  pg_source :: "string option"
  pg_path :: "string option"

definition load_file :: "js_platform \<Rightarrow> string \<Rightarrow> string option \<Rightarrow> (pyexn, program_source checked) result" where
  "load_file jp dir program_path =
     (let ref = (case program_path of None \<Rightarrow> ''program.eigen.py'' | Some p \<Rightarrow> p);
          none = \<lparr>pg_bytes = [], pg_source = None, pg_path = None\<rparr> in
      rbind (resolve_safe_path jp dir ref ''spec.program.path'') (\<lambda>r.
        case r of
          Inl err \<Rightarrow> Inr (none, [err])
        | Inr resolved \<Rightarrow>
            (case fs_read (jp_fs jp) resolved of
               FileBytes bytes \<Rightarrow> Inr (none\<lparr>pg_bytes := bytes, pg_path := Some ref\<rparr>, [])
             | NotFound \<Rightarrow> Inr (none, bad ''spec.program.path'' ''file not found'')
             | ReadFails e \<Rightarrow> Inl e)))"

text \<open>The source of the program: inline, or the file the reference resolves to.\<close>

definition load_program :: "js_platform \<Rightarrow> string \<Rightarrow> string option \<Rightarrow> string option \<Rightarrow> (pyexn, program_source checked) result" where
  "load_program jp dir program_inline program_path =
     (case program_inline of
        Some src \<Rightarrow>
          (if \<not> blank src then Inr (\<lparr>pg_bytes = utf8_encode src, pg_source = Some src, pg_path = None\<rparr>, [])
           else load_file jp dir program_path)
      | None \<Rightarrow> load_file jp dir program_path)"

definition program_size_violations :: "security_config \<Rightarrow> string \<Rightarrow> api_violation list" where
  "program_size_violations cfg bytes =
     (if bytes \<noteq> [] \<and> int (length bytes) > cf_max_program_source_bytes cfg
      then bad ''eigen_lang.source'' (''source exceeds max allowed size ('' @ show_int (cf_max_program_source_bytes cfg) @ '' bytes)'') else [])
     @ (if bytes = [] then bad ''spec.program'' ''program source is required'' else [])"

section \<open>Normalisation\<close>

datatype jobspec_error = JobSpecValidationError "api_violation list" | JobSpecPy pyexn

record jobspec =
  js_input_api_version :: string
  js_name :: string
  js_labels :: "(string, string) dict"
  js_annotations :: "(string, string) dict"
  js_target :: string
  js_priority :: yval
  js_entrypoint :: string
  js_source :: "string option"
  js_path :: "string option"
  js_sha256 :: string
  js_compiler_options :: "(string, string) dict"
  js_metadata :: "(string, string) dict"
  js_dependencies :: "string list"
  js_workload :: workload
  js_scheduling :: yval
  js_security :: yval
  js_observability :: yval

definition size_violations :: "security_config \<Rightarrow> string \<Rightarrow> api_violation list" where
  "size_violations cfg raw =
     (if int (length raw) > cf_max_jobspec_yaml_bytes cfg
      then bad ''job.yaml'' (''jobspec yaml exceeds max allowed size ('' @ show_int (cf_max_jobspec_yaml_bytes cfg) @ '' bytes)'') else [])"

definition parse_yaml :: "js_platform \<Rightarrow> string \<Rightarrow> (pyexn, yval checked) result" where
  "parse_yaml jp raw =
     (case jp_utf8 jp raw of
        None \<Rightarrow> Inr (YNone, bad ''job.yaml'' ''must be valid UTF-8'')
      | Some txt \<Rightarrow>
          (case jp_yaml jp txt of
             YamlValue v \<Rightarrow> Inr (v, [])
           | YamlSyntax \<Rightarrow> Inr (YNone, bad ''job.yaml'' ''must be valid YAML'')
           | YamlRaises e \<Rightarrow> Inl e))"

definition api_version_violations :: "yval \<Rightarrow> (pyexn, api_violation list) result" where
  "api_version_violations v =
     (if \<not> yhashable v then Inl TypeError
      else Inr (if \<exists>s\<in>set ACCEPTED_API_VERSIONS. v = YStr s then [] else bad ''apiVersion'' ''must be eigen.os/v1''))"

definition nonblank_yaml :: "yval \<Rightarrow> bool" where
  "nonblank_yaml v = (case v of YStr s \<Rightarrow> \<not> blank s | _ \<Rightarrow> False)"

definition ystr :: "yval \<Rightarrow> string" where
  "ystr v = (case v of YStr s \<Rightarrow> s | _ \<Rightarrow> [])"

text \<open>\<open>isinstance(priority, int)\<close> holds of booleans, too.\<close>

definition check_priority :: "yval \<Rightarrow> yval checked" where
  "check_priority v =
     (case v of
        YInt i \<Rightarrow> (v, if i < 0 \<or> i > 100 then bad ''spec.priority'' ''must be in range [0,100]'' else [])
      | YBool _ \<Rightarrow> (v, [])
      | _ \<Rightarrow> (YInt 50, bad ''spec.priority'' ''must be int32''))"

definition check_entrypoint :: "yval \<Rightarrow> string checked" where
  "check_entrypoint v = (if nonblank_yaml v then (ystr v, []) else (''main'', bad ''spec.entrypoint'' ''must be non-empty string''))"

fun dependency_items :: "nat \<Rightarrow> yval list \<Rightarrow> string list checked" where
  "dependency_items n [] = ([], [])"
| "dependency_items n (v # vs) =
     (let (ds, es) = dependency_items (Suc n) vs in
      case v of
        YStr s \<Rightarrow> (s # ds, es)
      | _ \<Rightarrow> (ds, api_violation_of (''spec.dependencies['' @ show_nat n @ '']'') ''must be string'' # es))"

definition check_dependencies :: "yval \<Rightarrow> string list checked" where
  "check_dependencies v =
     (case v of
        YNone \<Rightarrow> ([], [])
      | YList items \<Rightarrow> dependency_items 0 items
      | _ \<Rightarrow> ([], bad ''spec.dependencies'' ''must be list<string>''))"

definition section_violations :: "ydict \<Rightarrow> string \<Rightarrow> api_violation list" where
  "section_violations root k = (case yget_or root k (YDict []) of YNone \<Rightarrow> [] | YDict _ \<Rightarrow> [] | _ \<Rightarrow> bad k ''must be a mapping'')"

text \<open>The checks of the parsed document, and the specification they build.\<close>

definition check_document :: "js_platform \<Rightarrow> security_config \<Rightarrow> string \<Rightarrow> ydict \<Rightarrow> (pyexn, jobspec checked) result" where
  "check_document jp cfg dir root =
     rbind (api_version_violations (yget_or root ''apiVersion'' (YStr []))) (\<lambda>va.
       let vk = (if yget_or root ''kind'' (YStr []) \<noteq> YStr JOBSPEC_KIND then bad ''kind'' ''must be QuantumJob'' else []);
           (metadata, vm) = require_dict (yget root ''metadata'') ''metadata'';
           name = yget_or metadata ''name'' (YStr []);
           vn = (if nonblank_yaml name then [] else bad ''metadata.name'' ''field is required'');
           (labels, vl) = string_map (yget metadata ''labels'') ''metadata.labels'';
           (annotations, van) = string_map (yget metadata ''annotations'') ''metadata.annotations'';
           (spec, vs) = require_dict (yget root ''spec'') ''spec'';
           target = yget_or spec ''target'' (YStr []);
           (workload, vw) = normalize_workload_contract (yget spec ''workload'') target;
           vt = (if nonblank_yaml target then [] else bad ''spec.target'' ''field is required'');
           (priority, vp) = check_priority (yget_or spec ''priority'' (YInt 50));
           (entrypoint, ve) = check_entrypoint (yget_or spec ''entrypoint'' (YStr ''main''));
           ((inline, path), vx) = extract_program spec
       in rbind (load_program jp dir inline path) (\<lambda>(pg, vf).
         let vz = program_size_violations cfg (pg_bytes pg);
             (options, vo) = string_map (yor (yget spec ''compiler_options'') (yget spec ''compiler'')) ''spec.compiler'';
             (submit_metadata, vsm) = string_map (yget spec ''metadata'') ''spec.metadata'';
             (deps, vd) = check_dependencies (yget_or spec ''dependencies'' (YList []));
             vsec = concat (map (section_violations root) [''scheduling'', ''security'', ''observability''])
         in Inr (\<lparr>js_input_api_version = ystr (yget_or root ''apiVersion'' (YStr [])), js_name = py_strip (ystr name), js_labels = labels,
                  js_annotations = annotations, js_target = py_strip (ystr target), js_priority = priority, js_entrypoint = py_strip entrypoint,
                  js_source = pg_source pg, js_path = pg_path pg,
                  js_sha256 = (if pg_bytes pg \<noteq> [] then jp_sha256 jp (pg_bytes pg) else []),
                  js_compiler_options = options, js_metadata = submit_metadata, js_dependencies = deps, js_workload = workload,
                  js_scheduling = yor (yget root ''scheduling'') (YDict []), js_security = yor (yget root ''security'') (YDict []),
                  js_observability = yor (yget root ''observability'') (YDict [])\<rparr>,
                 va @ vk @ vm @ vn @ vl @ van @ vs @ vw @ vt @ vp @ ve @ vx @ vf @ vz @ vo @ vsm @ vd @ vsec)))"

definition normalized_payload :: "jobspec \<Rightarrow> yval" where
  "normalized_payload j =
     (let e = (\<lambda>k v. (YStr k, v)) in
      YDict [e ''contract'' (YStr ''jobspec.normalized''), e ''version'' (YStr JOBSPEC_VERSION), e ''apiVersion'' (YStr JOBSPEC_API_VERSION),
        e ''kind'' (YStr JOBSPEC_KIND),
        e ''compatibility'' (YDict [e ''input_apiVersion'' (YStr (js_input_api_version j)),
           e ''migration'' (YStr (if js_input_api_version j = LEGACY_JOBSPEC_API_VERSION then ''v0.1-inline-and-program_path'' else ''none''))]),
        e ''metadata'' (YDict [e ''name'' (YStr (js_name j)), e ''labels'' (yaml_str_dict (js_labels j)), e ''annotations'' (yaml_str_dict (js_annotations j))]),
        e ''spec'' (YDict [e ''target'' (YStr (js_target j)), e ''priority'' (js_priority j),
           e ''program'' (YDict ([e ''entrypoint'' (YStr (js_entrypoint j))]
              @ (case js_source j of None \<Rightarrow> [] | Some s \<Rightarrow> [e ''source'' (YStr s)])
              @ (case js_path j of None \<Rightarrow> [] | Some p \<Rightarrow> [e ''path'' (YStr p)])
              @ [e ''sha256'' (YStr (js_sha256 j))])),
           e ''compiler_options'' (yaml_str_dict (js_compiler_options j)), e ''metadata'' (yaml_str_dict (js_metadata j)),
           e ''dependencies'' (YList (map YStr (js_dependencies j))), e ''workload'' (workload_payload (js_workload j))]),
        e ''scheduling'' (js_scheduling j), e ''security'' (js_security j), e ''observability'' (js_observability j)])"

text \<open>The normalised specification and its digest. The file is the directory of the specification and its path.\<close>

record job_file =
  jf_dir :: string
  jf_path :: "string list"

definition normalize_jobspec :: "js_platform \<Rightarrow> job_file \<Rightarrow> (jobspec_error, jobspec \<times> string) result" where
  "normalize_jobspec jp f =
     (let cfg = load_security_config (jp_sec jp) in
      case fs_read (jp_fs jp) (jf_path f) of
        NotFound \<Rightarrow> Inl (JobSpecPy (ValueError ''FileNotFoundError''))
      | ReadFails e \<Rightarrow> Inl (JobSpecPy e)
      | FileBytes raw \<Rightarrow>
          (case parse_yaml jp raw of
             Inl e \<Rightarrow> Inl (JobSpecPy e)
           | Inr (parsed, vy) \<Rightarrow>
               (let (root, vr) = require_dict parsed ''job.yaml'' in
                case check_document jp cfg (jf_dir f) root of
                  Inl e \<Rightarrow> Inl (JobSpecPy e)
                | Inr (j, vd) \<Rightarrow>
                    (let violations = size_violations cfg raw @ vy @ vr @ vd in
                     if violations \<noteq> [] then Inl (JobSpecValidationError violations)
                     else
                       (case canonical_json jp (normalized_payload j) of
                          Inl e \<Rightarrow> Inl (JobSpecPy e)
                        | Inr t \<Rightarrow> Inr (j, jp_sha256 jp (utf8_encode t)))))))"

definition package_payload :: "jobspec \<Rightarrow> string \<Rightarrow> yval" where
  "package_payload j digest =
     (case normalized_payload j of
        YDict d \<Rightarrow> YDict (d @ [(YStr ''digest'', YStr digest),
          (YStr ''package'', YDict [(YStr ''source_sha256'', YStr (js_sha256 j)), (YStr ''canonical_digest'', YStr digest),
             (YStr ''normalized_json_sha256'', YStr digest)])])
      | v \<Rightarrow> v)"

definition canonical_jobspec_json :: "js_platform \<Rightarrow> job_file \<Rightarrow> (jobspec_error, string) result" where
  "canonical_jobspec_json jp f =
     rbind (normalize_jobspec jp f) (\<lambda>(j, digest).
       case canonical_json jp (package_payload j digest) of Inl e \<Rightarrow> Inl (JobSpecPy e) | Inr t \<Rightarrow> Inr t)"

definition canonical_jobspec_digest :: "js_platform \<Rightarrow> job_file \<Rightarrow> (jobspec_error, string) result" where
  "canonical_jobspec_digest jp f = rbind (normalize_jobspec jp f) (\<lambda>(j, digest). Inr digest)"

section \<open>Submission request\<close>

text \<open>The read of a text file translates the line ends.\<close>

fun universal_newlines :: "string \<Rightarrow> string" where
  "universal_newlines [] = []"
| "universal_newlines [c] = [if c = CHR 0x0D then CHR 0x0A else c]"
| "universal_newlines (c # d # s) =
     (if c = CHR 0x0D then CHR 0x0A # universal_newlines (if d = CHR 0x0A then s else d # s)
      else c # universal_newlines (d # s))"

record topology_msg =
  tp_cluster_id :: string
  tp_partition_count :: int
  tp_partition_ids :: "string list"
  tp_preferred_workers :: "string list"

record submit_request =
  sr_name :: string
  sr_target :: string
  sr_priority :: int
  sr_compiler_options :: "(string, string) dict"
  sr_metadata :: "(string, string) dict"
  sr_dependencies :: "string list"
  sr_kind :: string
  sr_execution_profile :: string
  sr_replayable :: bool
  sr_topology :: "topology_msg option"
  sr_source :: string
  sr_entrypoint :: string
  sr_sha256 :: string

fun ystr_of :: "js_platform \<Rightarrow> yval \<Rightarrow> string" where
  "ystr_of jp (YStr s) = s"
| "ystr_of jp (YInt i) = show_int i"
| "ystr_of jp (YBool b) = (if b then ''True'' else ''False'')"
| "ystr_of jp YNone = ''None''"
| "ystr_of jp (YFloat r) = r"
| "ystr_of jp v = jp_str jp v"

definition yint_of :: "js_platform \<Rightarrow> yval \<Rightarrow> (pyexn, int) result" where
  "yint_of jp v =
     (case v of
        YInt i \<Rightarrow> Inr i
      | YBool b \<Rightarrow> Inr (if b then 1 else 0)
      | YFloat r \<Rightarrow> (case jp_int_of_float jp r of None \<Rightarrow> Inl OverflowError | Some i \<Rightarrow> Inr i)
      | YStr s \<Rightarrow> (case py_int s of None \<Rightarrow> Inl (ValueError ''invalid literal for int()'') | Some i \<Rightarrow> Inr i)
      | _ \<Rightarrow> Inl TypeError)"

fun yiter :: "yval \<Rightarrow> (pyexn, yval list) result" where
  "yiter (YList xs) = Inr xs"
| "yiter (YStr s) = Inr (map (\<lambda>c. YStr [c]) s)"
| "yiter (YDict d) = Inr (map fst d)"
| "yiter _ = Inl TypeError"

text \<open>The message's field is a 32-bit integer; another value is refused.\<close>

definition int32 :: "int \<Rightarrow> (pyexn, int) result" where
  "int32 i = (if - (2 ^ 31) \<le> i \<and> i < 2 ^ 31 then Inr i else Inl (ValueError ''Value out of range''))"

definition topology_msg_of :: "js_platform \<Rightarrow> ydict \<Rightarrow> (pyexn, topology_msg) result" where
  "topology_msg_of jp t =
     rbind (yint_of jp (yor (yget_or t ''partition_count'' (YInt 0)) (YInt 0))) (\<lambda>count.
     rbind (yiter (yget_or t ''partition_ids'' (YList []))) (\<lambda>ids.
     rbind (yiter (yget_or t ''preferred_workers'' (YList []))) (\<lambda>workers.
     rbind (int32 count) (\<lambda>count.
       Inr \<lparr>tp_cluster_id = ystr_of jp (yget_or t ''cluster_id'' (YStr [])), tp_partition_count = count,
            tp_partition_ids = map (ystr_of jp) ids, tp_preferred_workers = map (ystr_of jp) workers\<rparr>))))"

text \<open>The program's bytes, read again when the specification names a file.\<close>

definition request_source :: "js_platform \<Rightarrow> string \<Rightarrow> jobspec \<Rightarrow> (pyexn, string) result" where
  "request_source jp dir j =
     (let inline = utf8_encode (case js_source j of None \<Rightarrow> [] | Some s \<Rightarrow> s) in
      if inline \<noteq> [] then Inr inline
      else
        (case js_path j of
           None \<Rightarrow> Inr []
         | Some p \<Rightarrow>
             rbind (resolve_safe_path jp dir p ''spec.program.path'') (\<lambda>r.
               case r of
                 Inl _ \<Rightarrow> Inr []
               | Inr resolved \<Rightarrow>
                   (case fs_read (jp_fs jp) resolved of
                      FileBytes bytes \<Rightarrow> Inr bytes
                    | NotFound \<Rightarrow> Inl (ValueError ''FileNotFoundError'')
                    | ReadFails e \<Rightarrow> Inl e))))"

definition yaml_text :: "js_platform \<Rightarrow> job_file \<Rightarrow> (pyexn, string) result" where
  "yaml_text jp f =
     (case fs_read (jp_fs jp) (jf_path f) of
        FileBytes raw \<Rightarrow> (case jp_utf8 jp raw of None \<Rightarrow> Inl (ValueError ''UnicodeDecodeError'') | Some t \<Rightarrow> Inr (universal_newlines t))
      | NotFound \<Rightarrow> Inl (ValueError ''FileNotFoundError'')
      | ReadFails e \<Rightarrow> Inl e)"

definition public_metadata :: "js_platform \<Rightarrow> job_file \<Rightarrow> jobspec \<Rightarrow> string \<Rightarrow> (pyexn, (string, string) dict) result" where
  "public_metadata jp f j digest =
     rbind (yaml_text jp f) (\<lambda>yaml.
     rbind (canonical_json jp (js_scheduling j)) (\<lambda>scheduling.
     rbind (canonical_json jp (js_security j)) (\<lambda>security.
     rbind (canonical_json jp (js_observability j)) (\<lambda>observability.
     rbind (canonical_json jp (workload_payload (js_workload j))) (\<lambda>workload.
       let md = foldl (\<lambda>d (k, v). dset k v d) (js_metadata j)
             [(''jobspec_yaml'', yaml), (''jobspec_version'', JOBSPEC_VERSION), (''jobspec_digest'', digest), (''source_sha256'', js_sha256 j),
              (''jobspec_scheduling'', scheduling), (''jobspec_security'', security), (''jobspec_observability'', observability),
              (''jobspec_workload'', workload)]
       in Inr (case wl_seed (js_workload j) of
                 None \<Rightarrow> md
               | Some i \<Rightarrow> if dhas md ''seed'' then md else dset ''seed'' (show_int i) md))))))"

definition jobspec_lift :: "(pyexn, 'a) result \<Rightarrow> (jobspec_error, 'a) result" where
  "jobspec_lift r = (case r of Inl e \<Rightarrow> Inl (JobSpecPy e) | Inr v \<Rightarrow> Inr v)"

definition priority_int :: "yval \<Rightarrow> int" where
  "priority_int v = (case v of YInt i \<Rightarrow> i | YBool b \<Rightarrow> (if b then 1 else 0) | _ \<Rightarrow> 0)"

definition parse_jobspec_to_submit_request :: "js_platform \<Rightarrow> job_file \<Rightarrow> (jobspec_error, submit_request) result" where
  "parse_jobspec_to_submit_request jp f =
     rbind (normalize_jobspec jp f) (\<lambda>(j, digest).
     rbind (jobspec_lift (request_source jp (jf_dir f) j)) (\<lambda>source.
     rbind (jobspec_lift (public_metadata jp f j digest)) (\<lambda>md.
     rbind (jobspec_lift (case wl_topology (js_workload j) of None \<Rightarrow> Inr None | Some t \<Rightarrow> rbind (topology_msg_of jp t) (\<lambda>m. Inr (Some m)))) (\<lambda>topology.
       Inr \<lparr>sr_name = js_name j, sr_target = js_target j, sr_priority = priority_int (js_priority j), sr_compiler_options = js_compiler_options j,
            sr_metadata = md, sr_dependencies = js_dependencies j, sr_kind = dget_or JOBSPEC_WORKLOAD_ENUM_NAMES (wl_kind (js_workload j)) [],
            sr_execution_profile = wl_execution_profile (js_workload j), sr_replayable = wl_replayable (js_workload j), sr_topology = topology,
            sr_source = source, sr_entrypoint = js_entrypoint j, sr_sha256 = js_sha256 j\<rparr>))))"

section \<open>Checks of a submission\<close>

definition utf8_length :: "string \<Rightarrow> int" where
  "utf8_length s = int (length (utf8_encode s))"

definition limit_violation :: "string \<Rightarrow> string \<Rightarrow> int \<Rightarrow> string \<Rightarrow> api_violation" where
  "limit_violation f what n unit_name = api_violation_of f (what @ '' exceeds max allowed size ('' @ show_int n @ '' '' @ unit_name @ '')'')"

definition metadata_entry_violations :: "security_config \<Rightarrow> string \<times> string \<Rightarrow> api_violation list" where
  "metadata_entry_violations cfg e =
     (let (key, value) = e; f = ''metadata['' @ key @ '']'' in
      (if utf8_length key > cf_max_submit_metadata_key_bytes cfg
       then [limit_violation f ''metadata key'' (cf_max_submit_metadata_key_bytes cfg) ''bytes''] else [])
      @ (if utf8_length value > cf_max_submit_metadata_value_bytes cfg
         then [limit_violation f ''metadata value'' (cf_max_submit_metadata_value_bytes cfg) ''bytes''] else []))"

definition JOBSPEC_YAML_KEYS :: "string list" where
  "JOBSPEC_YAML_KEYS = [''jobspec_yaml'', ''job_yaml'', ''job.spec.yaml'']"

definition yaml_key_violations :: "sec_platform \<Rightarrow> security_config \<Rightarrow> (string, string) dict \<Rightarrow> api_violation list" where
  "yaml_key_violations sp cfg md =
     (case find (\<lambda>key. utf8_length (dget_or md key []) > cf_max_jobspec_yaml_bytes cfg) (se_set_order sp JOBSPEC_YAML_KEYS) of
        None \<Rightarrow> []
      | Some key \<Rightarrow> [limit_violation (''metadata['' @ key @ '']'') ''jobspec yaml'' (cf_max_jobspec_yaml_bytes cfg) ''bytes''])"

definition validate_submit_job :: "sec_platform \<Rightarrow> (string, string) dict \<Rightarrow> string list \<Rightarrow> api_violation list" where
  "validate_submit_job sp md dependencies =
     (let cfg = load_security_config sp in
      (if int (length md) > cf_max_submit_metadata_entries cfg
       then [limit_violation ''metadata'' ''metadata entry count'' (cf_max_submit_metadata_entries cfg) ''entries''] else [])
      @ concat (map (metadata_entry_violations cfg) md)
      @ (if int (length dependencies) > cf_max_submit_dependencies cfg
         then [limit_violation ''dependencies'' ''dependency count'' (cf_max_submit_dependencies cfg) ''entries''] else [])
      @ yaml_key_violations sp cfg md)"

definition validate_reserve_device :: "string \<Rightarrow> int \<Rightarrow> api_violation list" where
  "validate_reserve_device device_id ttl_seconds = required_string device_id ''device_id'' @ positive_int ttl_seconds ''ttl_seconds''"

end
