(* ===== verification/JobSpecChecks.thy ===== *)
theory JobSpecChecks
  imports JobSpec
begin

text \<open>
  What a job specification has to be, check by check, and that the normaliser reports nothing exactly then. Each check meets
  the contract of a check that reports a list of problems.
\<close>

section \<open>Single checks\<close>

definition none_or_str :: "yval \<Rightarrow> bool" where
  "none_or_str v \<longleftrightarrow> v = YNone \<or> (\<exists>s. v = YStr s)"

definition none_or_dict :: "yval \<Rightarrow> bool" where
  "none_or_dict v \<longleftrightarrow> v = YNone \<or> (\<exists>d. v = YDict d)"

definition string_map_ok :: "yval \<Rightarrow> bool" where
  "string_map_ok v \<longleftrightarrow> v = YNone \<or> (\<exists>m. v = yaml_str_dict m)"

lemma string_entries_iff: "string_entries d = Some m \<longleftrightarrow> d = map (\<lambda>(k, v). (YStr k, YStr v)) m"
proof (induction d arbitrary: m rule: string_entries.induct)
  case (2 k v d)
  then show ?case by (cases m) auto
qed (auto simp: Cons_eq_map_conv)

lemma string_map_ok_iff [simp]: "snd (string_map v f) = [] \<longleftrightarrow> string_map_ok v"
  by (auto simp: string_map_def string_map_ok_def yaml_str_dict_def string_entries_iff split: yval.splits option.splits)
    (metis not_None_eq string_entries_iff)

lemma require_dict_iff [simp]: "snd (require_dict v f) = [] \<longleftrightarrow> (\<exists>d. v = YDict d)"
  by (cases v) (simp_all add: require_dict_def)

lemma require_subdict_iff [simp]: "snd (require_subdict v f) = [] \<longleftrightarrow> none_or_dict v"
  by (cases v) (simp_all add: require_subdict_def none_or_dict_def)

lemma require_str_iff: "snd (require_str raw k f) = [] \<longleftrightarrow> none_or_str (yget_or raw k (YStr []))"
  by (cases "yget_or raw k (YStr [])") (simp_all add: require_str_def none_or_str_def)

lemma require_strs_iff [simp]: "snd (require_strs raw p ks) = [] \<longleftrightarrow> (\<forall>k\<in>set ks. none_or_str (yget_or raw k (YStr [])))"
  by (simp add: require_strs_def require_str_iff)

lemma require_bool_iff [simp]: "snd (require_bool raw k f b) = [] \<longleftrightarrow> (\<exists>c. yget_or raw k (YBool b) = YBool c)"
  by (cases "yget_or raw k (YBool b)") (simp_all add: require_bool_def)

lemma optional_str_iff [simp]: "snd (optional_str v f) = [] \<longleftrightarrow> none_or_str v"
  by (cases v) (simp_all add: optional_str_def none_or_str_def)

lemma priority_iff [simp]: "snd (check_priority v) = [] \<longleftrightarrow> (\<exists>b. v = YBool b) \<or> (\<exists>i. v = YInt i \<and> 0 \<le> i \<and> i \<le> 100)"
  by (cases v) (auto simp: check_priority_def)

lemma entrypoint_iff [simp]: "snd (check_entrypoint v) = [] \<longleftrightarrow> nonblank_yaml v"
  by (simp add: check_entrypoint_def)

lemma dependency_items_iff: "snd (dependency_items n vs) = [] \<longleftrightarrow> (\<exists>ds. vs = map YStr ds)"
proof (induction vs arbitrary: n)
  case (Cons v vs)
  show ?case
  proof (cases v)
    case (YStr s)
    then show ?thesis using Cons [of "Suc n"] by (auto simp: case_prod_unfold Let_def Cons_eq_map_conv)
  qed (auto simp: case_prod_unfold Let_def Cons_eq_map_conv)
qed simp

lemma dependencies_iff [simp]: "snd (check_dependencies v) = [] \<longleftrightarrow> v = YNone \<or> (\<exists>ds. v = YList (map YStr ds))"
  by (cases v) (auto simp: check_dependencies_def dependency_items_iff)

lemma section_iff [simp]: "section_violations root k = [] \<longleftrightarrow> none_or_dict (yget_or root k (YDict []))"
  by (cases "yget_or root k (YDict [])") (simp_all add: section_violations_def none_or_dict_def)

section \<open>Workload\<close>

definition workload_raw_ok :: "bool \<Rightarrow> ydict \<Rightarrow> yval \<Rightarrow> bool" where
  "workload_raw_ok declared raw target \<longleftrightarrow>
     (let kind = yor (yget raw ''kind'') (yget raw ''workload_kind'') in
      (kind = YNone \<and> \<not> declared \<or> (\<exists>k\<in>set JOBSPEC_WORKLOAD_KINDS. kind = YStr k)))
     \<and> none_or_str (yor (yget raw ''execution_profile'') (yget raw ''executionProfile''))
     \<and> (yget raw ''replayable'' = YNone \<or> (\<exists>b. yget raw ''replayable'' = YBool b))
     \<and> (let lineage = yor (yget raw ''artifact_lineage'') (yget raw ''artifactLineage'') in
        none_or_dict lineage \<and> (\<forall>d. lineage = YDict d \<longrightarrow> (\<forall>k\<in>set lineage_keys. none_or_str (yget_or d k (YStr [])))))
     \<and> (let obs = yget raw ''observability'' in
        none_or_dict obs \<and> (\<forall>d. obs = YDict d \<longrightarrow> (\<forall>k\<in>set observability_keys. none_or_str (yget_or d k (YStr [])))
          \<and> (\<exists>b. yget_or d ''emit_metrics'' (YBool False) = YBool b)))
     \<and> (let sec = yget raw ''security'' in
        none_or_dict sec \<and> (\<forall>d. sec = YDict d \<longrightarrow> (\<forall>k\<in>set security_keys. none_or_str (yget_or d k (YStr [])))
          \<and> (\<exists>b. yget_or d ''fail_closed'' (YBool True) = YBool b)))
     \<and> none_or_str (yor (yor (yget raw ''backend_target'') (yget raw ''backendTarget'')) target)
     \<and> (case yget raw ''seed'' of YNone \<Rightarrow> True | YInt _ \<Rightarrow> True | YStr s \<Rightarrow> py_int (py_strip s) \<noteq> None | _ \<Rightarrow> False)"

definition workload_ok :: "yval \<Rightarrow> yval \<Rightarrow> bool" where
  "workload_ok v target \<longleftrightarrow> v = YNone \<and> none_or_str target \<or> (\<exists>raw. v = YDict raw \<and> workload_raw_ok True raw target)"

lemma workload_kind_iff [simp]:
  "snd (workload_kind declared raw) = [] \<longleftrightarrow>
     (let kind = yor (yget raw ''kind'') (yget raw ''workload_kind'') in
      kind = YNone \<and> \<not> declared \<or> (\<exists>k\<in>set JOBSPEC_WORKLOAD_KINDS. kind = YStr k))"
proof -
  have "\<not> blank k" if "k \<in> set JOBSPEC_WORKLOAD_KINDS" for k
    using that by (auto simp: JOBSPEC_WORKLOAD_KINDS_def blank_iff is_ws_def)
  then show ?thesis unfolding workload_kind_def Let_def
    by (cases "yor (yget raw ''kind'') (yget raw ''workload_kind'')") auto
qed

lemma contract_profile_iff [simp]:
  "snd (contract_profile kind raw) = [] \<longleftrightarrow> none_or_str (yor (yget raw ''execution_profile'') (yget raw ''executionProfile''))"
  by (cases "yor (yget raw ''execution_profile'') (yget raw ''executionProfile'')") (simp_all add: contract_profile_def none_or_str_def)

lemma workload_replayable_iff [simp]:
  "snd (workload_replayable kind raw) = [] \<longleftrightarrow> yget raw ''replayable'' = YNone \<or> (\<exists>b. yget raw ''replayable'' = YBool b)"
  by (cases "yget raw ''replayable''") (simp_all add: workload_replayable_def)

lemma workload_backend_iff [simp]:
  "snd (workload_backend_target target raw) = [] \<longleftrightarrow> none_or_str (yor (yor (yget raw ''backend_target'') (yget raw ''backendTarget'')) target)"
  by (cases "yor (yor (yget raw ''backend_target'') (yget raw ''backendTarget'')) target")
    (simp_all add: workload_backend_target_def none_or_str_def Let_def)

lemma workload_seed_iff [simp]:
  "snd (workload_seed raw) = [] \<longleftrightarrow>
     (case yget raw ''seed'' of YNone \<Rightarrow> True | YInt _ \<Rightarrow> True | YStr s \<Rightarrow> py_int (py_strip s) \<noteq> None | _ \<Rightarrow> False)"
  by (cases "yget raw ''seed''") (auto simp: workload_seed_def split: option.splits)

lemma yget_Nil [simp]: "yget [] k = YNone" "yget_or [] k v = v"
  by (simp_all add: yget_def yget_or_def dget_or_def)

text \<open>The default of a boolean field plays no part in whether it is one.\<close>

lemma bool_field: "(\<exists>c. yget_or d k (YBool b) = YBool c) \<longleftrightarrow> (\<exists>c. yget_or d k (YBool b') = YBool c)"
  by (auto simp: yget_or_def dget_or_def split: option.splits)

lemma subdict_cases: "none_or_dict v \<Longrightarrow> fst (require_subdict v f) = (case v of YDict d \<Rightarrow> d | _ \<Rightarrow> [])"
  by (auto simp: none_or_dict_def require_subdict_def)

definition workload_raw :: "yval \<Rightarrow> ydict" where
  "workload_raw v = (case v of YDict d \<Rightarrow> d | _ \<Rightarrow> [])"

text \<open>A sub-mapping and a condition on it.\<close>

lemma subdict_cond:
  assumes "P []"
  shows "none_or_dict v \<and> P (fst (require_subdict v f)) \<longleftrightarrow> none_or_dict v \<and> (\<forall>d. v = YDict d \<longrightarrow> P d)"
  using assms by (cases v) (auto simp: none_or_dict_def require_subdict_def)

lemma raw_violations:
  assumes "none_or_dict v"
  shows "snd (normalize_workload_contract v target) = [] \<longleftrightarrow> workload_raw_ok (v \<noteq> YNone) (workload_raw v) target"
proof -
  let ?raw = "workload_raw v" and ?kind = "fst (workload_kind (v \<noteq> YNone) (workload_raw v))"
  let ?lin = "yor (yget ?raw ''artifact_lineage'') (yget ?raw ''artifactLineage'')" and ?obs = "yget ?raw ''observability''" and ?sec = "yget ?raw ''security''"
  have raw: "(case v of YNone \<Rightarrow> ([], []) | YDict d \<Rightarrow> (d, []) | _ \<Rightarrow> ([], bad ''spec.workload'' ''must be a mapping'')) = (?raw, [])"
    using assms by (auto simp: none_or_dict_def workload_raw_def)
  have lin: "none_or_dict ?lin \<and> (\<forall>k\<in>set lineage_keys. none_or_str (yget_or (fst (require_subdict ?lin f)) k (YStr [])))
      \<longleftrightarrow> none_or_dict ?lin \<and> (\<forall>d. ?lin = YDict d \<longrightarrow> (\<forall>k\<in>set lineage_keys. none_or_str (yget_or d k (YStr []))))" for f
    by (rule subdict_cond) (simp add: none_or_str_def)
  have obs: "none_or_dict ?obs \<and> (\<forall>k\<in>set observability_keys. none_or_str (yget_or (fst (require_subdict ?obs f)) k (YStr [])))
      \<and> (\<exists>b. yget_or (fst (require_subdict ?obs f)) ''emit_metrics'' (YBool False) = YBool b)
      \<longleftrightarrow> none_or_dict ?obs \<and> (\<forall>d. ?obs = YDict d \<longrightarrow> (\<forall>k\<in>set observability_keys. none_or_str (yget_or d k (YStr [])))
          \<and> (\<exists>b. yget_or d ''emit_metrics'' (YBool False) = YBool b))" for f
    by (rule subdict_cond) (auto simp: none_or_str_def)
  have sec: "none_or_dict ?sec \<and> (\<forall>k\<in>set security_keys. none_or_str (yget_or (fst (require_subdict ?sec f)) k (YStr [])))
      \<and> (\<exists>b. yget_or (fst (require_subdict ?sec f)) ''fail_closed'' (YBool True) = YBool b)
      \<longleftrightarrow> none_or_dict ?sec \<and> (\<forall>d. ?sec = YDict d \<longrightarrow> (\<forall>k\<in>set security_keys. none_or_str (yget_or d k (YStr [])))
          \<and> (\<exists>b. yget_or d ''fail_closed'' (YBool True) = YBool b))" for f
    by (rule subdict_cond) (auto simp: none_or_str_def)
  have "snd (normalize_workload_contract v target) = [] \<longleftrightarrow>
      snd (workload_kind (v \<noteq> YNone) ?raw) = [] \<and> snd (contract_profile ?kind ?raw) = [] \<and> snd (workload_replayable ?kind ?raw) = []
      \<and> (none_or_dict ?lin \<and> (\<forall>k\<in>set lineage_keys. none_or_str (yget_or (fst (require_subdict ?lin ''spec.workload.artifact_lineage'')) k (YStr []))))
      \<and> (none_or_dict ?obs \<and> (\<forall>k\<in>set observability_keys. none_or_str (yget_or (fst (require_subdict ?obs ''spec.workload.observability'')) k (YStr [])))
          \<and> (\<exists>b. yget_or (fst (require_subdict ?obs ''spec.workload.observability'')) ''emit_metrics'' (YBool False) = YBool b))
      \<and> (none_or_dict ?sec \<and> (\<forall>k\<in>set security_keys. none_or_str (yget_or (fst (require_subdict ?sec ''spec.workload.security'')) k (YStr [])))
          \<and> (\<exists>b. yget_or (fst (require_subdict ?sec ''spec.workload.security'')) ''fail_closed'' (YBool (?kind = ''ReplayJob'')) = YBool b))
      \<and> snd (workload_backend_target target ?raw) = [] \<and> snd (workload_seed ?raw) = []"
    unfolding normalize_workload_contract_def Let_def raw prod.case case_prod_unfold snd_conv fst_conv append_is_Nil_conv
      require_subdict_iff require_strs_iff require_bool_iff by blast
  then show ?thesis
    unfolding bool_field [where b = "?kind = ''ReplayJob''" and b' = True] lin obs sec workload_raw_ok_def Let_def
      workload_kind_iff contract_profile_iff workload_replayable_iff workload_backend_iff workload_seed_iff by blast
qed

lemma not_dict_violates: "\<not> none_or_dict v \<Longrightarrow> snd (normalize_workload_contract v target) \<noteq> []"
  by (cases v) (simp_all add: none_or_dict_def normalize_workload_contract_def Let_def case_prod_unfold)

lemma absent_ok: "workload_raw_ok False [] target \<longleftrightarrow> none_or_str target"
  by (simp add: workload_raw_ok_def yor_def none_or_str_def none_or_dict_def)

lemma workload_violations [simp]: "snd (normalize_workload_contract v target) = [] \<longleftrightarrow> workload_ok v target"
proof (cases "none_or_dict v")
  case True
  then consider "v = YNone" | d where "v = YDict d" by (auto simp: none_or_dict_def)
  then show ?thesis unfolding raw_violations [OF True] by cases (simp_all add: workload_ok_def workload_raw_def absent_ok)
next
  case False
  then show ?thesis using not_dict_violates by (auto simp: workload_ok_def none_or_dict_def)
qed

section \<open>Program and document\<close>

text \<open>What the program section may be.\<close>

definition program_ok :: "ydict \<Rightarrow> bool" where
  "program_ok spec \<longleftrightarrow>
     (let (src, path) = (case yget spec ''program'' of
          YDict program \<Rightarrow> (yget program ''source'', yget program ''path'') | YStr s \<Rightarrow> (YStr s, YNone) | _ \<Rightarrow> (YNone, YNone)) in
      (yget spec ''program'' = YNone \<or> (\<exists>s. yget spec ''program'' = YStr s) \<or> (\<exists>d. yget spec ''program'' = YDict d))
      \<and> none_or_str src \<and> none_or_str path \<and> none_or_str (yget spec ''program_path'')
      \<and> (path = YNone \<or> yget spec ''program_path'' = YNone)
      \<and> (src = YNone \<or> path = YNone \<and> yget spec ''program_path'' = YNone))"

lemma extract_program_iff [simp]: "snd (extract_program spec) = [] \<longleftrightarrow> program_ok spec"
proof -
  have fst_opt: "fst (optional_str v f) = (case v of YStr s \<Rightarrow> Some s | _ \<Rightarrow> None)" for v f by (cases v) (simp_all add: optional_str_def)
  have opt: "(case v of YStr s \<Rightarrow> Some s | _ \<Rightarrow> None) \<noteq> None \<longleftrightarrow> v \<noteq> YNone" if "none_or_str v" for v
    using that by (auto simp: none_or_str_def)
  show ?thesis
  proof (cases "yget spec ''program''")
    case (YDict d)
    then show ?thesis
      by (cases "yget spec ''program_path''"; cases "none_or_str (yget d ''source'') \<and> none_or_str (yget d ''path'')")
        (auto simp: extract_program_def program_ok_def Let_def case_prod_unfold fst_opt opt none_or_str_def)
  qed (cases "yget spec ''program_path''"; simp add: extract_program_def program_ok_def Let_def none_or_str_def)+
qed

text \<open>The bytes the program section gives: the inline source unless it is blank, or the file in the directory.\<close>

definition file_bytes :: "js_platform \<Rightarrow> string \<Rightarrow> string \<Rightarrow> string option" where
  "file_bytes jp dir ref =
     (if ref \<noteq> [] \<and> is_safe_relative_path ref \<and> CHR 0x00 \<notin> set ref \<and> inside (fs_resolve (jp_fs jp) dir) (candidate_path jp dir ref)
      then (case fs_read (jp_fs jp) (candidate_path jp dir ref) of FileBytes b \<Rightarrow> Some b | _ \<Rightarrow> None) else None)"

definition program_ref :: "string option \<Rightarrow> string" where
  "program_ref path = (case path of None \<Rightarrow> ''program.eigen.py'' | Some p \<Rightarrow> p)"

definition program_bytes :: "js_platform \<Rightarrow> string \<Rightarrow> ydict \<Rightarrow> string option" where
  "program_bytes jp dir spec =
     (let (inline, path) = fst (extract_program spec) in
      case inline of
        None \<Rightarrow> file_bytes jp dir (program_ref path)
      | Some src \<Rightarrow> if blank src then file_bytes jp dir (program_ref path) else Some (utf8_encode src))"

lemma load_file_Some:
  "load_file jp dir path = Inr (pg, []) \<longleftrightarrow>
     (\<exists>b. file_bytes jp dir (program_ref path) = Some b \<and> pg = \<lparr>pg_bytes = b, pg_source = None, pg_path = Some (program_ref path)\<rparr>)"
  by (auto simp: load_file_def resolve_safe_path_def file_bytes_def program_ref_def Let_def split: read_outcome.splits if_splits)

lemma load_program_Some:
  "load_program jp dir inline path = Inr (pg, []) \<longleftrightarrow>
     (case inline of
        Some src \<Rightarrow> if blank src then load_file jp dir path = Inr (pg, []) else pg = \<lparr>pg_bytes = utf8_encode src, pg_source = Some src, pg_path = None\<rparr>
      | None \<Rightarrow> load_file jp dir path = Inr (pg, []))"
  by (auto simp: load_program_def split: option.splits)

lemma load_program_bytes:
  "(\<exists>pg. load_program jp dir (fst (fst (extract_program spec))) (snd (fst (extract_program spec))) = Inr (pg, []) \<and> pg_bytes pg = b)
     \<longleftrightarrow> program_bytes jp dir spec = Some b"
  unfolding load_program_Some load_file_Some program_bytes_def case_prod_unfold Let_def
  by (auto split: option.splits)

lemma size_iff: "program_size_violations cfg b = [] \<longleftrightarrow> b \<noteq> [] \<and> int (length b) \<le> cf_max_program_source_bytes cfg"
  by (auto simp: program_size_violations_def)

definition document_ok :: "js_platform \<Rightarrow> security_config \<Rightarrow> string \<Rightarrow> ydict \<Rightarrow> bool" where
  "document_ok jp cfg dir root \<longleftrightarrow>
     (\<exists>v\<in>set ACCEPTED_API_VERSIONS. yget_or root ''apiVersion'' (YStr []) = YStr v)
     \<and> yget_or root ''kind'' (YStr []) = YStr JOBSPEC_KIND
     \<and> (\<exists>metadata. yget root ''metadata'' = YDict metadata \<and> nonblank_yaml (yget_or metadata ''name'' (YStr []))
          \<and> string_map_ok (yget metadata ''labels'') \<and> string_map_ok (yget metadata ''annotations''))
     \<and> (\<exists>spec. yget root ''spec'' = YDict spec
          \<and> nonblank_yaml (yget_or spec ''target'' (YStr [])) \<and> workload_ok (yget spec ''workload'') (yget_or spec ''target'' (YStr []))
          \<and> ((\<exists>b. yget_or spec ''priority'' (YInt 50) = YBool b) \<or> (\<exists>i. yget_or spec ''priority'' (YInt 50) = YInt i \<and> 0 \<le> i \<and> i \<le> 100))
          \<and> nonblank_yaml (yget_or spec ''entrypoint'' (YStr ''main''))
          \<and> program_ok spec \<and> (\<exists>b. program_bytes jp dir spec = Some b \<and> b \<noteq> [] \<and> int (length b) \<le> cf_max_program_source_bytes cfg)
          \<and> string_map_ok (yor (yget spec ''compiler_options'') (yget spec ''compiler'')) \<and> string_map_ok (yget spec ''metadata'')
          \<and> (let deps = yget_or spec ''dependencies'' (YList []) in deps = YNone \<or> (\<exists>ds. deps = YList (map YStr ds))))
     \<and> (\<forall>k\<in>{''scheduling'', ''security'', ''observability''}. none_or_dict (yget_or root k (YDict [])))"

lemma api_version_iff: "api_version_violations v = Inr [] \<longleftrightarrow> (\<exists>s\<in>set ACCEPTED_API_VERSIONS. v = YStr s)"
  by (auto simp: api_version_violations_def)

lemma fst_require_dict: "fst (require_dict (YDict d) f) = d"
  by (simp add: require_dict_def)

lemma check_document_iff: "(\<exists>j. check_document jp cfg dir root = Inr (j, [])) \<longleftrightarrow> document_ok jp cfg dir root"
proof -
  let ?md = "fst (require_dict (yget root ''metadata'') ''metadata'')" and ?spec = "fst (require_dict (yget root ''spec'') ''spec'')"
  let ?prog = "fst (extract_program ?spec)"
  have "(\<exists>j. check_document jp cfg dir root = Inr (j, [])) \<longleftrightarrow>
      api_version_violations (yget_or root ''apiVersion'' (YStr [])) = Inr []
      \<and> (\<exists>pg. load_program jp dir (fst ?prog) (snd ?prog) = Inr (pg, []) \<and> program_size_violations cfg (pg_bytes pg) = [])
      \<and> yget_or root ''kind'' (YStr []) = YStr JOBSPEC_KIND
      \<and> snd (require_dict (yget root ''metadata'') ''metadata'') = [] \<and> nonblank_yaml (yget_or ?md ''name'' (YStr []))
      \<and> snd (string_map (yget ?md ''labels'') ''metadata.labels'') = [] \<and> snd (string_map (yget ?md ''annotations'') ''metadata.annotations'') = []
      \<and> snd (require_dict (yget root ''spec'') ''spec'') = []
      \<and> snd (normalize_workload_contract (yget ?spec ''workload'') (yget_or ?spec ''target'' (YStr []))) = []
      \<and> nonblank_yaml (yget_or ?spec ''target'' (YStr [])) \<and> snd (check_priority (yget_or ?spec ''priority'' (YInt 50))) = []
      \<and> snd (check_entrypoint (yget_or ?spec ''entrypoint'' (YStr ''main''))) = [] \<and> snd (extract_program ?spec) = []
      \<and> snd (string_map (yor (yget ?spec ''compiler_options'') (yget ?spec ''compiler'')) ''spec.compiler'') = []
      \<and> snd (string_map (yget ?spec ''metadata'') ''spec.metadata'') = []
      \<and> snd (check_dependencies (yget_or ?spec ''dependencies'' (YList []))) = []
      \<and> (\<forall>k\<in>{''scheduling'', ''security'', ''observability''}. section_violations root k = [])"
  proof (cases "api_version_violations (yget_or root ''apiVersion'' (YStr []))")
    case (Inl e)
    then show ?thesis by (simp add: check_document_def)
  next
    case (Inr va)
    show ?thesis
    proof (cases "load_program jp dir (fst ?prog) (snd ?prog)")
      case (Inl e)
      then show ?thesis by (simp add: check_document_def Inr Let_def case_prod_unfold)
    next
      case load: (Inr p)
      have if_bad: "(if c then [] else bad f d) = [] \<longleftrightarrow> c" "(if c then bad f d else []) = [] \<longleftrightarrow> \<not> c" for c f d by simp_all
      show ?thesis
        unfolding check_document_def Inr rbind_Inr load Let_def case_prod_unfold sum.inject prod.inject append_is_Nil_conv if_bad
          concat.simps list.map sum.distinct by (cases p) auto
    qed
  qed
  then show ?thesis
    unfolding require_dict_iff string_map_ok_iff workload_violations priority_iff entrypoint_iff extract_program_iff dependencies_iff section_iff
      api_version_iff size_iff document_ok_def load_program_bytes [symmetric] Let_def
    by (cases "yget root ''metadata''"; cases "yget root ''spec''") (auto simp: fst_require_dict)
qed

end
