(* ===== verification/JobSpecProperties.thy ===== *)
theory JobSpecProperties
  imports JobSpecChecks SecurityTokens
begin

text \<open>
  What the JobSpec normaliser guarantees: exactly which specifications it accepts, that the request carries the source its
  digest names, that it reads nothing outside the directory, that the migrated forms mean the same, and that normalised
  workloads are fixed points.
\<close>

text \<open>The specification file: its bytes are within the limit, UTF-8 and YAML, and hold a mapping that is a correct document.\<close>

definition jobspec_ok :: "js_platform \<Rightarrow> job_file \<Rightarrow> bool" where
  "jobspec_ok jp f \<longleftrightarrow>
     (let cfg = load_security_config (jp_sec jp) in
      \<exists>raw txt root. fs_read (jp_fs jp) (jf_path f) = FileBytes raw \<and> int (length raw) \<le> cf_max_jobspec_yaml_bytes cfg
        \<and> jp_utf8 jp raw = Some txt \<and> jp_yaml jp txt = YamlValue (YDict root) \<and> document_ok jp cfg (jf_dir f) root)"

lemma normalize_steps:
  "normalize_jobspec jp f = Inr (j, digest) \<longleftrightarrow>
     (\<exists>raw txt root t. fs_read (jp_fs jp) (jf_path f) = FileBytes raw
        \<and> int (length raw) \<le> cf_max_jobspec_yaml_bytes (load_security_config (jp_sec jp))
        \<and> jp_utf8 jp raw = Some txt \<and> jp_yaml jp txt = YamlValue (YDict root)
        \<and> check_document jp (load_security_config (jp_sec jp)) (jf_dir f) root = Inr (j, [])
        \<and> canonical_json jp (normalized_payload j) = Inr t \<and> digest = jp_sha256 jp (utf8_encode t))"
  (is "_ \<longleftrightarrow> ?R")
proof
  assume n: "normalize_jobspec jp f = Inr (j, digest)"
  then show ?R
    by (auto simp: normalize_jobspec_def Let_def parse_yaml_def size_violations_def require_dict_def
        split: read_outcome.splits option.splits yaml_outcome.splits yval.splits sum.splits if_splits)
next
  assume ?R
  then show "normalize_jobspec jp f = Inr (j, digest)"
    by (auto simp: normalize_jobspec_def Let_def parse_yaml_def size_violations_def require_dict_def)
qed

lemma normalize_correct:
  assumes "jobspec_ok jp f"
  shows "\<exists>j. (\<exists>digest. normalize_jobspec jp f = Inr (j, digest))
     \<or> (\<exists>e. plain (normalized_payload j) = None \<and> normalize_jobspec jp f = Inl (JobSpecPy e))"
proof -
  obtain raw str root j where
    ok: "fs_read (jp_fs jp) (jf_path f) = FileBytes raw" "int (length raw) \<le> cf_max_jobspec_yaml_bytes (load_security_config (jp_sec jp))"
      "jp_utf8 jp raw = Some str" "jp_yaml jp str = YamlValue (YDict root)"
      "check_document jp (load_security_config (jp_sec jp)) (jf_dir f) root = Inr (j, [])"
    using assms unfolding jobspec_ok_def Let_def check_document_iff [symmetric] by blast
  show ?thesis
  proof (cases "canonical_json jp (normalized_payload j)")
    case (Inl e)
    then have "plain (normalized_payload j) = None" by (auto simp: canonical_json_def split: option.splits)
    moreover have "normalize_jobspec jp f = Inl (JobSpecPy e)"
      using ok Inl by (simp add: normalize_jobspec_def Let_def parse_yaml_def size_violations_def require_dict_def)
    ultimately show ?thesis by blast
  next
    case (Inr t)
    then show ?thesis using ok normalize_steps by blast
  qed
qed

lemma normalize_invalid: "normalize_jobspec jp f = Inl (JobSpecValidationError vs) \<Longrightarrow> vs \<noteq> []"
  by (auto simp: normalize_jobspec_def Let_def parse_yaml_def case_prod_unfold split: read_outcome.splits option.splits yaml_outcome.splits sum.splits if_splits)


section \<open>The program in the request\<close>

lemma jobspec_lift_Inr [simp]: "jobspec_lift r = Inr v \<longleftrightarrow> r = Inr v"
  by (simp add: jobspec_lift_def split: sum.split)

text \<open>What a checked document holds of the program.\<close>

lemma utf8_encode_empty [simp]: "utf8_encode s = [] \<longleftrightarrow> s = []"
  by (cases s) (auto simp: utf8_encode_def)

lemma check_document_program:
  assumes "check_document jp cfg dir root = Inr (j, [])"
  obtains pg inline path where "load_program jp dir inline path = Inr (pg, [])" "js_source j = pg_source pg" "js_path j = pg_path pg"
    "js_sha256 j = jp_sha256 jp (pg_bytes pg)" "pg_bytes pg \<noteq> []" "int (length (pg_bytes pg)) \<le> cf_max_program_source_bytes cfg"
proof -
  let ?spec = "fst (require_dict (yget root ''spec'') ''spec'')"
  obtain va pg vf where parts: "api_version_violations (yget_or root ''apiVersion'' (YStr [])) = Inr va"
    "load_program jp dir (fst (fst (extract_program ?spec))) (snd (fst (extract_program ?spec))) = Inr (pg, vf)"
    using assms unfolding check_document_def Let_def case_prod_unfold by (auto simp: rbind_eq_Inr)
  have vf: "vf = []" and size: "program_size_violations cfg (pg_bytes pg) = []" and j: "js_source j = pg_source pg" "js_path j = pg_path pg"
    "js_sha256 j = (if pg_bytes pg \<noteq> [] then jp_sha256 jp (pg_bytes pg) else [])"
    using assms unfolding check_document_def Let_def case_prod_unfold parts by (auto simp: parts)
  show ?thesis using size_iff [of cfg "pg_bytes pg"] size by (intro that [OF parts(2) [unfolded vf] j(1,2)]) (simp_all add: j(3))
qed

text \<open>Reading the program again gives the bytes that were hashed.\<close>

lemma request_source_loaded:
  assumes "load_program jp dir inline path = Inr (pg, [])" "js_source j = pg_source pg" "js_path j = pg_path pg" "pg_bytes pg \<noteq> []"
  shows "request_source jp dir j = Inr (pg_bytes pg)"
proof -
  consider (given) src where "inline = Some src" "\<not> blank src" "pg = \<lparr>pg_bytes = utf8_encode src, pg_source = Some src, pg_path = None\<rparr>"
    | (stored) b where "file_bytes jp dir (program_ref path) = Some b" "pg = \<lparr>pg_bytes = b, pg_source = None, pg_path = Some (program_ref path)\<rparr>"
    using assms(1) unfolding load_program_Some load_file_Some by (auto split: option.splits if_splits)
  then show ?thesis
  proof cases
    case given
    then show ?thesis using assms(2,4) by (auto simp: request_source_def Let_def)
  next
    case stored
    then show ?thesis using assms(2,3)
      by (auto simp: request_source_def Let_def file_bytes_def resolve_safe_path_def split: if_splits read_outcome.splits)
  qed
qed

text \<open>The request carries the program its digest names: the source of an accepted request is not empty and within the size limit, and
  its digest is the SHA-256 of exactly these bytes, whether the program was inline or in a file; the metadata repeats the digest.\<close>

theorem request_source_matches_digest:
  assumes "parse_jobspec_to_submit_request jp f = Inr r"
  shows "sr_sha256 r = jp_sha256 jp (sr_source r) \<and> sr_source r \<noteq> []
    \<and> int (length (sr_source r)) \<le> cf_max_program_source_bytes (load_security_config (jp_sec jp))
    \<and> dget (sr_metadata r) ''source_sha256'' = Some (jp_sha256 jp (sr_source r))"
proof -
  obtain j digest source md where n: "normalize_jobspec jp f = Inr (j, digest)" and src: "request_source jp (jf_dir f) j = Inr source"
    and md: "public_metadata jp f j digest = Inr md" and r: "sr_source r = source" "sr_sha256 r = js_sha256 j" "sr_metadata r = md"
    using assms unfolding parse_jobspec_to_submit_request_def by (auto simp: rbind_eq_Inr)
  obtain root where "check_document jp (load_security_config (jp_sec jp)) (jf_dir f) root = Inr (j, [])" using n unfolding normalize_steps by blast
  then obtain pg inline path where pg: "load_program jp (jf_dir f) inline path = Inr (pg, [])" "js_source j = pg_source pg" "js_path j = pg_path pg"
    "js_sha256 j = jp_sha256 jp (pg_bytes pg)" "pg_bytes pg \<noteq> []"
    "int (length (pg_bytes pg)) \<le> cf_max_program_source_bytes (load_security_config (jp_sec jp))" by (rule check_document_program)
  have "source = pg_bytes pg" using src request_source_loaded [OF pg(1,2,3,5)] by simp
  moreover have "dget md ''source_sha256'' = Some (js_sha256 j)"
    using md unfolding public_metadata_def by (auto simp: rbind_eq_Inr Let_def split: option.splits if_splits)
  ultimately show ?thesis using pg r by simp
qed


section \<open>What is read\<close>

lemma resolve_safe_inside: "resolve_safe_path jp dir ref f = Inr (Inr p) \<Longrightarrow> inside (fs_resolve (jp_fs jp) dir) p"
  by (auto simp: resolve_safe_path_def split: if_splits)

text \<open>The normaliser reads the specification and, of all other files, only those inside its directory: two file systems that agree
  there give the same request, whatever the specification names.\<close>

theorem jobspec_reads_only_its_directory:
  assumes "fs_resolve fs' = fs_resolve (jp_fs jp)" "fs_read fs' (jf_path f) = fs_read (jp_fs jp) (jf_path f)"
    and "\<forall>p. inside (fs_resolve (jp_fs jp) (jf_dir f)) p \<longrightarrow> fs_read fs' p = fs_read (jp_fs jp) p"
  shows "parse_jobspec_to_submit_request (jp\<lparr>jp_fs := fs'\<rparr>) f = parse_jobspec_to_submit_request jp f"
proof -
  let ?jp = "jp\<lparr>jp_fs := fs'\<rparr>"
  have same: "jp_sec ?jp = jp_sec jp" "jp_yaml ?jp = jp_yaml jp" "jp_utf8 ?jp = jp_utf8 jp" "jp_sha256 ?jp = jp_sha256 jp" "jp_fs ?jp = fs'"
    "jp_int_of_float ?jp = jp_int_of_float jp" by simp_all
  have resolve: "resolve_safe_path ?jp dir ref fl = resolve_safe_path jp dir ref fl" for dir ref fl
    by (simp add: resolve_safe_path_def candidate_path_def assms(1))
  have read: "fs_read fs' p = fs_read (jp_fs jp) p" if "resolve_safe_path jp (jf_dir f) ref fl = Inr (Inr p)" for ref fl p
    using resolve_safe_inside [OF that] assms(3) by blast
  have load: "load_file ?jp (jf_dir f) path = load_file jp (jf_dir f) path" for path
    unfolding load_file_def resolve Let_def rbind_def using read by (auto split: sum.split)
  have prog: "load_program ?jp (jf_dir f) i p = load_program jp (jf_dir f) i p" for i p
    by (simp add: load_program_def load split: option.split)
  have json: "canonical_json ?jp v = canonical_json jp v" for v by (simp add: canonical_json_def split: option.split)
  have check: "check_document ?jp cfg (jf_dir f) root = check_document jp cfg (jf_dir f) root" for cfg root
    unfolding check_document_def prog same by (rule refl)
  have norm: "normalize_jobspec ?jp f = normalize_jobspec jp f"
    unfolding normalize_jobspec_def check json parse_yaml_def same assms(2) by (rule refl)
  have src: "request_source ?jp (jf_dir f) j = request_source jp (jf_dir f) j" for j
    unfolding request_source_def resolve Let_def rbind_def using read by (auto split: sum.split option.split)
  have md: "public_metadata ?jp f j d = public_metadata jp f j d" for j d
    unfolding public_metadata_def json yaml_text_def same assms(2) by (rule refl)
  have str: "ystr_of ?jp = ystr_of jp" by (intro ext, rule ystr_of.induct) simp_all
  have topo: "topology_msg_of ?jp t = topology_msg_of jp t" for t
    unfolding topology_msg_of_def yint_of_def same str by (rule refl)
  show ?thesis unfolding parse_jobspec_to_submit_request_def norm src md topo ..
qed

section \<open>Migrated forms\<close>

definition yset :: "string \<Rightarrow> yval \<Rightarrow> ydict \<Rightarrow> ydict" where
  "yset k v d = dset (YStr k) v d"

lemma yget_or_yset [simp]: "yget_or (yset k v d) k' dflt = (if k' = k then v else yget_or d k' dflt)"
  by (simp add: yget_or_def yset_def dget_or_def)

lemma yget_yset [simp]: "yget (yset k v d) k' = (if k' = k then v else yget d k')"
  by (simp add: yget_def)

text \<open>A document depends on its specification through the extracted program and the other keys.\<close>

lemma check_document_cong:
  assumes "extract_program s1 = extract_program s2" "\<And>k dflt. k \<notin> {''program'', ''program_path''} \<Longrightarrow> yget_or s1 k dflt = yget_or s2 k dflt"
  shows "check_document jp cfg dir (yset ''spec'' (YDict s1) root) = check_document jp cfg dir (yset ''spec'' (YDict s2) root)"
proof -
  have get: "yget s1 k = yget s2 k" if "k \<notin> {''program'', ''program_path''}" for k using assms(2) [OF that] by (simp add: yget_def)
  have sec: "section_violations (yset ''spec'' v root) k = section_violations root k" if "k \<noteq> ''spec''" for v k
    using that by (simp add: section_violations_def)
  show ?thesis unfolding check_document_def by (simp add: require_dict_def assms(1) assms(2) get sec)
qed

text \<open>The forms of version 0.1 mean the same as those of version 1: a program given as a string is one given as a source, and
  a program path is a path of the program; the checks and the normalised document are the same.\<close>

theorem legacy_program_forms:
  "check_document jp cfg dir (yset ''spec'' (YDict (yset ''program'' (YStr src) spec)) root) =
     check_document jp cfg dir (yset ''spec'' (YDict (yset ''program'' (YDict [(YStr ''source'', YStr src)]) spec)) root)
   \<and> (yget spec ''program'' = YNone \<and> yget spec ''program_path'' = YNone \<longrightarrow>
     check_document jp cfg dir (yset ''spec'' (YDict (yset ''program_path'' (YStr path) spec)) root) =
     check_document jp cfg dir (yset ''spec'' (YDict (yset ''program'' (YDict [(YStr ''path'', YStr path)]) spec)) root))"
proof (intro conjI impI)
  have get: "yget [(YStr k, v)] k' = (if k' = k then v else YNone)" for k k' v by (simp add: yget_def yget_or_def dget_or_def)
  show "check_document jp cfg dir (yset ''spec'' (YDict (yset ''program'' (YStr src) spec)) root) =
     check_document jp cfg dir (yset ''spec'' (YDict (yset ''program'' (YDict [(YStr ''source'', YStr src)]) spec)) root)"
    by (rule check_document_cong) (simp_all add: extract_program_def optional_str_def get)
  assume "yget spec ''program'' = YNone \<and> yget spec ''program_path'' = YNone"
  then show "check_document jp cfg dir (yset ''spec'' (YDict (yset ''program_path'' (YStr path) spec)) root) =
     check_document jp cfg dir (yset ''spec'' (YDict (yset ''program'' (YDict [(YStr ''path'', YStr path)]) spec)) root)"
    by (intro check_document_cong) (simp_all add: extract_program_def optional_str_def get)
qed

text \<open>The documented inline form is not read: it counts as no program, so the default file is taken.\<close>

theorem inline_form_ignored:
  assumes "yget spec ''program_path'' = YNone"
  shows "extract_program (yset ''program'' (YDict [(YStr ''inline'', YStr src)]) spec) = ((None, None), [])"
  using assms by (simp add: extract_program_def optional_str_def yget_def yget_or_def dget_or_def yset_def Let_def)

text \<open>A version that is a list or a mapping raises a \<open>TypeError\<close> instead of a violation.\<close>

theorem unhashable_version_crashes:
  "check_document jp cfg dir (yset ''apiVersion'' (YList vs) root) = Inl TypeError"
  by (simp add: check_document_def api_version_violations_def)

section \<open>Normalised workloads\<close>

lemma strip_strip [simp]: "py_strip (py_strip s) = py_strip s"
proof -
  have hd: "\<not> is_ws (hd (dropWhile is_ws t))" if "dropWhile is_ws t \<noteq> []" for t using hd_dropWhile [OF that] .
  have l: "py_lstrip (py_strip s) = py_strip s"
  proof (cases "py_strip s")
    case (Cons c t)
    have "py_rstrip (py_lstrip s) = c # t" using Cons by (simp add: py_strip_def)
    then obtain u where "py_lstrip s = c # u" unfolding py_rstrip_def
      by (metis append_Cons dropWhile_eq_Nil_conv rev_append rev_rev_ident takeWhile_dropWhile_id)
    then have "\<not> is_ws c" using hd [of s] by (simp add: py_lstrip_def)
    then show ?thesis using Cons by (simp add: py_lstrip_def)
  qed (simp add: py_lstrip_def)
  have "py_rstrip (py_rstrip t) = py_rstrip t" for t by (simp add: py_rstrip_def)
  then show ?thesis using l by (simp add: py_strip_def [of "py_strip s"]) (simp add: py_strip_def)
qed

text \<open>The well-formed workloads: a known kind, the fields of the three groups in order with stripped values, a backend target that is
  a stripped string.\<close>

definition wf_workload :: "workload \<Rightarrow> bool" where
  "wf_workload w \<longleftrightarrow> wl_kind w \<in> set JOBSPEC_WORKLOAD_KINDS
     \<and> dkeys (wl_artifact_lineage w) = lineage_keys \<and> dkeys (wl_observability w) = observability_keys \<and> dkeys (wl_security w) = security_keys
     \<and> (\<forall>v\<in>set (dvalues (wl_artifact_lineage w)) \<union> set (dvalues (wl_observability w)) \<union> set (dvalues (wl_security w)). py_strip v = v)
     \<and> (\<exists>s. wl_backend_target w = YStr s \<and> py_strip s = s)"

lemma strip_Nil: "py_strip [] = []"
  by code_simp

lemma require_str_stripped: "py_strip (fst (require_str raw k f)) = fst (require_str raw k f)"
  by (cases "yget_or raw k (YStr [])") (simp_all add: require_str_def strip_Nil)

lemma require_strs_shape:
  "dkeys (fst (require_strs raw p ks)) = ks" "\<forall>v\<in>set (dvalues (fst (require_strs raw p ks))). py_strip v = v"
  by (auto simp: require_strs_def comp_def require_str_stripped)

lemma workload_kind_known: "fst (workload_kind declared raw) \<in> set JOBSPEC_WORKLOAD_KINDS"
  by (cases "yor (yget raw ''kind'') (yget raw ''workload_kind'')")
    (auto simp: workload_kind_def JOBSPEC_WORKLOAD_KIND_DEFAULT_def JOBSPEC_WORKLOAD_KINDS_def)

lemma normalized_wf:
  assumes "normalize_workload_contract v target = (w, [])"
  shows "wf_workload w"
proof -
  let ?raw = "workload_raw v"
  have "none_or_dict v" using assms not_dict_violates [of v target] by auto
  then have raw: "(case v of YNone \<Rightarrow> ([], []) | YDict d \<Rightarrow> (d, []) | _ \<Rightarrow> ([], bad ''spec.workload'' ''must be a mapping'')) = (?raw, [])"
    by (auto simp: none_or_dict_def workload_raw_def)
  note unfold = normalize_workload_contract_def Let_def raw prod.case case_prod_unfold
  have w: "w = fst (normalize_workload_contract v target)" and none: "snd (normalize_workload_contract v target) = []" using assms by simp_all
  have "\<exists>r p. wl_artifact_lineage w = fst (require_strs r p lineage_keys)" "\<exists>r p. wl_observability w = fst (require_strs r p observability_keys)"
      "\<exists>r p. wl_security w = fst (require_strs r p security_keys)"
    unfolding w unfold by (intro exI, simp)+
  moreover have "wl_kind w = fst (workload_kind (v \<noteq> YNone) ?raw)" unfolding w unfold by simp
  moreover have "\<exists>s. wl_backend_target w = YStr s \<and> py_strip s = s"
  proof -
    have "wl_backend_target w = fst (workload_backend_target target ?raw)" unfolding w unfold by simp
    moreover have "snd (workload_backend_target target ?raw) = []" using none unfolding unfold snd_conv fst_conv append_is_Nil_conv by blast
    ultimately show ?thesis unfolding workload_backend_iff none_or_str_def
      by (auto simp: workload_backend_target_def Let_def strip_Nil)
  qed
  ultimately show ?thesis using workload_kind_known require_strs_shape unfolding wf_workload_def by (metis UnE)
qed

text \<open>Reading back the entries of a group.\<close>

lemma yget_str_entries: "k \<in> set (dkeys d) \<Longrightarrow> yget_or (str_entries d @ rest) k dflt = YStr (the (dget d k))"
  by (induction d) (auto simp: str_entries_def yget_or_def dget_or_def)

lemma yget_absent: "k \<notin> set (dkeys d) \<Longrightarrow> yget_or (str_entries d @ rest) k dflt = yget_or rest k dflt"
  by (induction d) (auto simp: str_entries_def yget_or_def dget_or_def)

lemma require_strs_entries:
  assumes "dkeys d = ks" "distinct ks" "\<forall>v\<in>set (dvalues d). py_strip v = v"
  shows "require_strs (str_entries d @ rest) p ks = (d, [])"
proof -
  have get: "require_str (str_entries d @ rest) k f = (v, [])" if "(k, v) \<in> set d" for k v f
  proof -
    have "dget d k = Some v" using that assms(1,2) by simp
    moreover have "py_strip v = v" using assms(3) that by force
    ultimately show ?thesis using that yget_str_entries [of k d rest "YStr []"] by (force simp: require_str_def)
  qed
  have "map (\<lambda>k. (k, fst (require_str (str_entries d @ rest) k (p @ k)))) (map fst d) = d"
    unfolding map_map comp_def by (rule map_idI) (use get in force)
  moreover have "concat (map (\<lambda>k. snd (require_str (str_entries d @ rest) k (p @ k))) (map fst d)) = []" using get by force
  ultimately show ?thesis using assms(1) by (simp add: require_strs_def)
qed

text \<open>C33. Normalisation of a workload is idempotent: what it returns without a violation has a known kind, all its fields in order with stripped
  values, and is normalised to itself, for every target; provided the profile and the backend target are not empty.\<close>

theorem normalized_workload_is_fixpoint:
  assumes "normalize_workload_contract v target = (w, [])" "wl_execution_profile w \<noteq> []" "wl_backend_target w \<noteq> YStr []"
  shows "wf_workload w \<and> normalize_workload_contract (workload_payload w) target' = (w, [])"
proof -
  have wf: "wf_workload w" by (rule normalized_wf [OF assms(1)])
  then obtain s where s: "wl_backend_target w = YStr s" "py_strip s = s" "s \<noteq> []" using assms(3) by (auto simp: wf_workload_def)
  obtain raw where raw: "workload_payload w = YDict raw" by (simp add: workload_payload_def)
  have get: "yget raw ''kind'' = YStr (wl_kind w)" "yget raw ''execution_profile'' = YStr (wl_execution_profile w)" "yget raw ''replayable'' = YBool (wl_replayable w)"
    "yget raw ''artifact_lineage'' = YDict (str_entries (wl_artifact_lineage w))"
    "yget raw ''observability'' = YDict (str_entries (wl_observability w) @ [(YStr ''emit_metrics'', YBool (wl_emit_metrics w))])"
    "yget raw ''security'' = YDict (str_entries (wl_security w) @ [(YStr ''fail_closed'', YBool (wl_fail_closed w))])"
    "yget raw ''backend_target'' = wl_backend_target w" "yget raw ''seed'' = (case wl_seed w of None \<Rightarrow> YNone | Some i \<Rightarrow> YInt i)"
    using raw by (auto simp: workload_payload_def yget_def yget_or_def dget_or_def split: option.splits)
  have topo: "workload_topology raw = wl_topology w"
    using raw by (auto simp: workload_payload_def workload_topology_def yget_def yget_or_def dget_or_def dhas_def split: option.splits)
  have kind: "wl_kind w \<in> set JOBSPEC_WORKLOAD_KINDS" "wl_kind w \<noteq> []" "\<not> blank (wl_kind w)"
    using wf by (auto simp: wf_workload_def JOBSPEC_WORKLOAD_KINDS_def blank_iff is_ws_def)
  have bools: "yget_or (str_entries (wl_observability w) @ [(YStr ''emit_metrics'', YBool (wl_emit_metrics w))]) ''emit_metrics'' d = YBool (wl_emit_metrics w)"
    "yget_or (str_entries (wl_security w) @ [(YStr ''fail_closed'', YBool (wl_fail_closed w))]) ''fail_closed'' d = YBool (wl_fail_closed w)" for d
  proof -
    have abs: "''emit_metrics'' \<notin> set (dkeys (wl_observability w))" "''fail_closed'' \<notin> set (dkeys (wl_security w))"
      using wf unfolding wf_workload_def by (auto simp: observability_keys_def security_keys_def)
    show "yget_or (str_entries (wl_observability w) @ [(YStr ''emit_metrics'', YBool (wl_emit_metrics w))]) ''emit_metrics'' d = YBool (wl_emit_metrics w)"
      "yget_or (str_entries (wl_security w) @ [(YStr ''fail_closed'', YBool (wl_fail_closed w))]) ''fail_closed'' d = YBool (wl_fail_closed w)"
      unfolding yget_absent [OF abs(1)] yget_absent [OF abs(2)] by (simp_all add: yget_or_def dget_or_def)
  qed
  have groups: "require_strs (str_entries (wl_artifact_lineage w)) p lineage_keys = (wl_artifact_lineage w, [])"
    "require_strs (str_entries (wl_observability w) @ r) p observability_keys = (wl_observability w, [])"
    "require_strs (str_entries (wl_security w) @ r) p security_keys = (wl_security w, [])" for p r
    using wf require_strs_entries [of "wl_artifact_lineage w" lineage_keys "[]" p] require_strs_entries [of "wl_observability w" observability_keys r p]
      require_strs_entries [of "wl_security w" security_keys r p]
    by (auto simp: wf_workload_def lineage_keys_def observability_keys_def security_keys_def)
  have parts: "workload_kind True raw = (wl_kind w, [])" "contract_profile k raw = (wl_execution_profile w, [])" "workload_replayable k raw = (wl_replayable w, [])"
    "workload_backend_target target' raw = (wl_backend_target w, [])" "workload_seed raw = (wl_seed w, [])" for k
    using get kind assms(2) s by (auto simp: workload_kind_def contract_profile_def workload_replayable_def workload_backend_target_def workload_seed_def
        yor_def split: option.splits)
  have lineage: "str_entries (wl_artifact_lineage w) \<noteq> []" using wf by (auto simp: wf_workload_def str_entries_def lineage_keys_def)
  have "normalize_workload_contract (YDict raw) target' = (w, [])"
    using kind(2) lineage unfolding normalize_workload_contract_def Let_def yval.case prod.case simp_thms
    by (simp add: parts get yor_def require_subdict_def groups require_bool_def bools topo)
  then show ?thesis using wf raw by simp
qed

section \<open>Limits of a submission\<close>

text \<open>The checks of a submission report nothing exactly when the counts and sizes are within the configured limits; sizes are counted
  in bytes of UTF-8.\<close>

theorem submission_limits_exact:
  assumes "set (se_set_order sp JOBSPEC_YAML_KEYS) = set JOBSPEC_YAML_KEYS"
  shows "validate_submit_job sp md dependencies = [] \<longleftrightarrow>
    (let cfg = load_security_config sp in
     int (length md) \<le> cf_max_submit_metadata_entries cfg \<and> int (length dependencies) \<le> cf_max_submit_dependencies cfg
     \<and> (\<forall>(k, v)\<in>set md. utf8_length k \<le> cf_max_submit_metadata_key_bytes cfg \<and> utf8_length v \<le> cf_max_submit_metadata_value_bytes cfg)
     \<and> (\<forall>k\<in>{''jobspec_yaml'', ''job_yaml'', ''job.spec.yaml''}. utf8_length (dget_or md k []) \<le> cf_max_jobspec_yaml_bytes cfg))"
proof -
  have entry: "metadata_entry_violations cfg e = [] \<longleftrightarrow> (case e of (k, v) \<Rightarrow> utf8_length k \<le> cf_max_submit_metadata_key_bytes cfg
      \<and> utf8_length v \<le> cf_max_submit_metadata_value_bytes cfg)" for cfg e
    by (auto simp: metadata_entry_violations_def Let_def split: prod.splits if_splits)
  have yaml: "yaml_key_violations sp cfg md = [] \<longleftrightarrow> (\<forall>k\<in>set JOBSPEC_YAML_KEYS. utf8_length (dget_or md k []) \<le> cf_max_jobspec_yaml_bytes cfg)" for cfg
  proof -
    have "find (\<lambda>key. utf8_length (dget_or md key []) > cf_max_jobspec_yaml_bytes cfg) (se_set_order sp JOBSPEC_YAML_KEYS) = None
        \<longleftrightarrow> (\<forall>k\<in>set JOBSPEC_YAML_KEYS. utf8_length (dget_or md k []) \<le> cf_max_jobspec_yaml_bytes cfg)"
      unfolding find_None_iff assms by (auto simp: not_less)
    then show ?thesis by (auto simp: yaml_key_violations_def split: option.splits)
  qed
  show ?thesis unfolding validate_submit_job_def Let_def append_is_Nil_conv yaml
    by (auto simp: entry JOBSPEC_YAML_KEYS_def)
qed

text \<open>The parser puts the whole specification into the metadata, which has a smaller limit for its values: a specification that is within the
  parser's limit and over this one is parsed into a request that the submission checks refuse.\<close>

theorem large_jobspec_refused:
  assumes "parse_jobspec_to_submit_request jp f = Inr r" "yaml_text jp f = Inr t"
    and "utf8_length t > cf_max_submit_metadata_value_bytes (load_security_config (jp_sec jp))"
  shows "validate_submit_job (jp_sec jp) (sr_metadata r) (sr_dependencies r) \<noteq> []"
proof -
  obtain j digest md where md: "public_metadata jp f j digest = Inr md" and r: "sr_metadata r = md"
    using assms(1) unfolding parse_jobspec_to_submit_request_def by (auto simp: rbind_eq_Inr)
  have "dget md ''jobspec_yaml'' = Some t"
    using md assms(2) unfolding public_metadata_def by (auto simp: rbind_eq_Inr Let_def split: option.splits if_splits)
  then have "dget (sr_metadata r) ''jobspec_yaml'' = Some t" unfolding r .
  then have "(''jobspec_yaml'', t) \<in> set (sr_metadata r)" by (rule map_of_SomeD)
  moreover have "metadata_entry_violations (load_security_config (jp_sec jp)) (''jobspec_yaml'', t) \<noteq> []"
    using assms(3) by (simp add: metadata_entry_violations_def Let_def)
  ultimately show ?thesis unfolding validate_submit_job_def Let_def by auto
qed

section \<open>A specification\<close>

definition demo_root :: ydict where
  "demo_root =
     [(YStr ''apiVersion'', YStr ''eigen.os/v1''), (YStr ''kind'', YStr ''QuantumJob''), (YStr ''metadata'', YDict [(YStr ''name'', YStr ''bell'')]),
      (YStr ''spec'', YDict [(YStr ''target'', YStr ''sim''), (YStr ''program'', YStr ''x''),
         (YStr ''workload'', YDict [(YStr ''kind'', YStr ''ReplayJob''), (YStr ''seed'', YStr '' 7 '')])])]"

definition demo_js :: js_platform where
  "demo_js = \<lparr>jp_sec = demo_sec [], jp_yaml = (\<lambda>_. YamlValue (YDict demo_root)), jp_utf8 = Some, jp_sha256 = (\<lambda>s. ''#'' @ s),
     jp_fs = \<lparr>fs_resolve = py_split (CHR ''/''), fs_read = (\<lambda>p. if p = [''jobs'', ''job.yaml''] then FileBytes ''y'' else NotFound)\<rparr>,
     jp_dumps = (\<lambda>_. Inl TypeError), jp_str = (\<lambda>_. []), jp_int_of_float = (\<lambda>_. None)\<rparr>"

definition demo_job :: job_file where
  "demo_job = \<lparr>jf_dir = ''jobs'', jf_path = [''jobs'', ''job.yaml'']\<rparr>"

definition demo_cfg :: security_config where
  "demo_cfg = \<lparr>cf_auth_mode = ''allow_all'', cf_static_token = ''dev-token'', cf_static_token_subject = ''static-token-user'', cf_static_token_roles = [],
     cf_static_token_tenant = [], cf_max_program_source_bytes = 262144, cf_max_jobspec_yaml_bytes = 65536, cf_max_submit_metadata_entries = 64,
     cf_max_submit_metadata_key_bytes = 128, cf_max_submit_metadata_value_bytes = 4096, cf_max_submit_dependencies = 64,
     cf_jwt_secret = ''dev-jwt-secret'', cf_jwt_issuer = ''eigen-auth'', cf_jwt_audience = ''eigen-api'', cf_policy_snapshot_path = [],
     cf_policy_snapshot_json = [], cf_service_identity = ''system-api'', cf_service_role = ''public-ingress'', cf_sandbox_profile = ''default''\<rparr>"

lemma demo_cfg_loaded: "load_security_config (demo_sec []) = demo_cfg"
proof -
  have env: "getenv (demo_sec []) name d = d" for name d by (simp add: getenv_def demo_sec_def)
  have "length (show_nat 262144) \<le> 4300" "length (show_nat 65536) \<le> 4300" "length (show_nat 64) \<le> 4300" "length (show_nat 128) \<le> 4300"
    "length (show_nat 4096) \<le> 4300" by (simp_all add: show_nat.simps)
  note shown = this [THEN py_int_show_nat]
  have "py_int (show_int 262144) = Some 262144" "py_int (show_int 65536) = Some 65536" "py_int (show_int 64) = Some 64" "py_int (show_int 128) = Some 128"
    "py_int (show_int 4096) = Some 4096" using shown by (simp_all add: show_int_def)
  then have int: "int_env (demo_sec []) name 262144 = 262144" "int_env (demo_sec []) name 65536 = 65536" "int_env (demo_sec []) name 64 = 64"
    "int_env (demo_sec []) name 128 = 128" "int_env (demo_sec []) name 4096 = 4096" for name by (simp_all add: int_env_def env)
  have "py_lower (py_strip ''allow_all'') = ''allow_all''" "comma_items [] = []" by code_simp+
  then show ?thesis by (simp add: load_security_config_def env int demo_cfg_def AUTH_ALLOW_ALL_def VALID_AUTH_MODES_def)
qed

definition demo_spec :: jobspec where
  "demo_spec = (case check_document demo_js demo_cfg ''jobs'' demo_root of Inr (j, _) \<Rightarrow> j | Inl _ \<Rightarrow> undefined)"

lemma demo_document:
  "check_document demo_js demo_cfg ''jobs'' demo_root = Inr (demo_spec, [])"
proof -
  have "case check_document demo_js demo_cfg ''jobs'' demo_root of Inr (j, vs) \<Rightarrow> vs = [] | Inl _ \<Rightarrow> False" by code_simp
  then show ?thesis by (auto simp: demo_spec_def split: sum.splits)
qed

lemma demo_request:
  "\<exists>r. parse_jobspec_to_submit_request demo_js demo_job = Inr r"
proof -
  have "case canonical_json demo_js (normalized_payload demo_spec) of Inr _ \<Rightarrow> True | Inl _ \<Rightarrow> False" by code_simp
  then obtain t where t: "canonical_json demo_js (normalized_payload demo_spec) = Inr t" by (auto split: sum.splits)
  have read: "fs_read (jp_fs demo_js) (jf_path demo_job) = FileBytes ''y''" "jf_dir demo_job = ''jobs''" "jp_utf8 demo_js ''y'' = Some ''y''"
    "jp_yaml demo_js ''y'' = YamlValue (YDict demo_root)" "jp_sec demo_js = demo_sec []" by (simp_all add: demo_js_def demo_job_def)
  have n: "normalize_jobspec demo_js demo_job = Inr (demo_spec, jp_sha256 demo_js (utf8_encode t))"
    unfolding normalize_steps using t demo_document by (intro exI [of _ "''y''"] exI [of _ demo_root] exI [of _ t] conjI) (simp_all add: read demo_cfg_loaded, simp add: demo_cfg_def)
  have "case request_source demo_js ''jobs'' demo_spec of Inr _ \<Rightarrow> True | Inl _ \<Rightarrow> False" by code_simp
  moreover have "case public_metadata demo_js demo_job demo_spec d of Inr _ \<Rightarrow> True | Inl _ \<Rightarrow> False" for d by code_simp
  then have "\<exists>md. public_metadata demo_js demo_job demo_spec d = Inr md" for d by (metis sum.case(1) sum.exhaust)
  from this obtain md where "public_metadata demo_js demo_job demo_spec (jp_sha256 demo_js (utf8_encode t)) = Inr md" by blast
  moreover note this
  moreover have "wl_topology (js_workload demo_spec) = None" by code_simp
  ultimately show ?thesis unfolding parse_jobspec_to_submit_request_def n read by (auto simp: jobspec_lift_def split: sum.splits)
qed

theorem request_source_matches_digest_witness:
  "\<exists>r. parse_jobspec_to_submit_request demo_js demo_job = Inr r \<and> sr_sha256 r = jp_sha256 demo_js (sr_source r) \<and> sr_source r \<noteq> []"
  using demo_request request_source_matches_digest by blast

theorem jobspec_reads_only_its_directory_witness:
  "parse_jobspec_to_submit_request
     (demo_js\<lparr>jp_fs := \<lparr>fs_resolve = py_split (CHR ''/''), fs_read = (\<lambda>p. if p = [''jobs'', ''job.yaml''] then FileBytes ''y'' else if p = [''etc'', ''passwd''] then FileBytes ''s'' else NotFound)\<rparr>\<rparr>) demo_job
   = parse_jobspec_to_submit_request demo_js demo_job"
  by (rule jobspec_reads_only_its_directory) (auto simp: demo_js_def demo_job_def inside_def)

theorem legacy_program_forms_witness:
  "check_document demo_js demo_cfg ''jobs'' (yset ''spec'' (YDict (yset ''program_path'' (YStr ''p.py'') [(YStr ''target'', YStr ''sim'')])) demo_root) =
     check_document demo_js demo_cfg ''jobs'' (yset ''spec'' (YDict (yset ''program'' (YDict [(YStr ''path'', YStr ''p.py'')]) [(YStr ''target'', YStr ''sim'')])) demo_root)"
  using legacy_program_forms [of demo_js demo_cfg "''jobs''" _ "[(YStr ''target'', YStr ''sim'')]" demo_root "''p.py''"]
  by (simp add: yget_def yget_or_def dget_or_def)


theorem normalized_workload_is_fixpoint_witness:
  "\<exists>w. normalize_workload_contract (YDict [(YStr ''kind'', YStr ''ReplayJob''), (YStr ''seed'', YStr '' 7 '')]) (YStr '' sim '') = (w, [])
     \<and> normalize_workload_contract (workload_payload w) YNone = (w, [])"
proof -
  let ?n = "normalize_workload_contract (YDict [(YStr ''kind'', YStr ''ReplayJob''), (YStr ''seed'', YStr '' 7 '')]) (YStr '' sim '')"
  have "snd ?n = [] \<and> wl_execution_profile (fst ?n) \<noteq> [] \<and> wl_backend_target (fst ?n) \<noteq> YStr []" by code_simp
  then show ?thesis using normalized_workload_is_fixpoint [of "YDict [(YStr ''kind'', YStr ''ReplayJob''), (YStr ''seed'', YStr '' 7 '')]" "YStr '' sim ''" "fst ?n" YNone]
    by (metis prod.collapse)
qed

theorem submission_limits_exact_witness: "validate_submit_job (demo_sec []) [(''seed'', ''7'')] [''a''] = []"
proof -
  have "set (se_set_order (demo_sec []) JOBSPEC_YAML_KEYS) = set JOBSPEC_YAML_KEYS" by (simp add: demo_sec_def)
  from submission_limits_exact [OF this, of "[(''seed'', ''7'')]" "[''a'']"] show ?thesis
    by (simp add: demo_cfg_loaded demo_cfg_def utf8_length_def utf8_encode_def dget_or_def Let_def)
qed

end
