(* ===== verification/KbBase.thy ===== *)
theory KbBase
  imports SecurityTokens "HOL-Library.Product_Lexorder"
begin

text \<open>
  The state of the knowledge base (\<open>neuro_symbolic_service/knowledge_base.py\<close>) and what its operations share: the
  canonical text and digests, timestamps, pseudonyms, capability scopes, the counters and the audit sink of
  \<open>neuro_symbolic_service/observability.py\<close>, and the security context of a retrieval. Hashes, HMAC, ISO dates and the
  comparison of floats are parameters. A point in time is a number of microseconds.
\<close>

section \<open>Platform and data\<close>

record kb_platform =
  kp_sec :: sec_platform
  kp_sha256 :: "string \<Rightarrow> string"
  kp_hmac_hex :: "string \<Rightarrow> string \<Rightarrow> string"
  kp_iso :: "int \<Rightarrow> string"
  kp_parse_iso :: "string \<Rightarrow> int option"
  kp_float_less :: "string \<Rightarrow> string \<Rightarrow> bool"
  kp_round6 :: "string \<Rightarrow> string option"

type_synonym vdict = "(pyval, pyval) dict"

type_synonym json_dict = "(string, pyval) dict"

text \<open>\<open>google.protobuf.Timestamp\<close>: seconds and nanoseconds. A field that was not set reads as the default message,
  whose truth value is true.\<close>

type_synonym timestamp = "int \<times> int"

record record_provenance =
  rp_compiler_ref :: string
  rp_optimizer_ref :: string
  rp_runtime_ref :: string
  rp_checkpoint_ref :: string

record model_lineage =
  ml_model_version :: string
  ml_training_set_hash :: string
  ml_evaluation_bundle_hash :: string
  ml_promotion_policy_version :: string
  ml_promotion_outcome :: string

record knowledge_record =
  kr_record_id :: string
  kr_job_id :: string
  kr_circuit_id :: string
  kr_artifact_ref :: string
  kr_dataset_ref :: string
  kr_backend_profile :: string
  kr_optimizer_version :: string
  kr_qubit_count :: int
  kr_entanglement_score :: string
  kr_noise_profile_id :: string
  kr_backend_class :: string
  kr_created_at :: timestamp
  kr_provenance :: record_provenance
  kr_attributes :: "(string, string) dict"
  kr_lineage :: model_lineage

record decision_log =
  dl_decision_id :: string
  dl_trace_id :: string
  dl_model_version :: string
  dl_component :: string
  dl_policy_branch :: string
  dl_selected_action :: string
  dl_fallback_used :: bool
  dl_feature_snapshot :: "(string, string) dict"
  dl_decided_at :: timestamp

record stored_record =
  sr_record :: knowledge_record
  sr_tenant_id :: string
  sr_project_id :: string
  sr_capability_scope :: "string list"
  sr_created_at :: int
  sr_updated_at :: int
  sr_fingerprint :: string
  sr_sequence :: int

record stored_decision =
  sd_decision_log :: decision_log
  sd_tenant_id :: string
  sd_project_id :: string
  sd_capability_scope :: "string list"
  sd_decided_at :: int
  sd_fingerprint :: string
  sd_sequence :: int

record learning_evidence =
  le_evidence_id :: string
  le_tenant_id :: string
  le_project_id :: string
  le_capability_scope :: "string list"
  le_evidence_kind :: string
  le_evidence_hash :: string
  le_model_version :: string
  le_training_set_hash :: string
  le_evaluation_bundle_hash :: string
  le_promotion_policy_version :: string
  le_lifecycle_state :: string
  le_quarantine_state :: string
  le_source :: string
  le_command :: string
  le_decision :: string
  le_gate_results :: vdict
  le_metadata :: vdict
  le_payload :: json_dict
  le_created_at :: string
  le_queryable_ref :: string

record learning_model =
  lm_tenant_id :: string
  lm_project_id :: string
  lm_model_version :: string
  lm_training_set_hash :: string
  lm_evaluation_bundle_hash :: string
  lm_promotion_policy_version :: string
  lm_lifecycle_state :: string
  lm_gate_results :: vdict
  lm_updated_at :: string
  lm_queryable_ref :: string
  lm_evidence_ref :: pyval
  lm_quarantine_state :: string

datatype index_status = IndexReady | IndexRebuilding | IndexDegraded | IndexUnavailable

record index_state =
  ix_name :: string
  ix_status :: index_status
  ix_source_revision :: int
  ix_source_fingerprint :: string
  ix_scope_entries :: "(string, string list) dict"
  ix_scope_fingerprints :: "(string, string) dict"
  ix_scope_counts :: "(string, nat) dict"
  ix_built_at :: "int option"
  ix_backfilled_at :: "int option"
  ix_recovered_at :: "int option"
  ix_last_error :: string

text \<open>The counters and the audit sink of the process.\<close>

record kb_obs =
  ko_writable :: bool
  ko_lines :: "string list"
  ko_query_total :: "(string, nat) dict"
  ko_fallback_total :: "(string, nat) dict"
  ko_replay_failures :: nat
  ko_contract_total :: "(string \<times> string, nat) dict"

type_synonym scope3 = "string \<times> string \<times> string"

record kb_state =
  kb_storage_mode :: string
  kb_retention_seconds :: int
  kb_anon_salt :: string
  kb_anon_epoch :: string
  kb_records :: "(string, stored_record) dict"
  kb_decision_logs :: "stored_decision list"
  kb_learning_evidence :: "learning_evidence list"
  kb_learning_models :: "(scope3, learning_model) dict"
  kb_learning_datasets :: "(scope3, (string, json_dict) dict) dict"
  kb_sequence :: int
  kb_okb_indexes :: "(string, index_state) dict"
  kb_okb_restart_count :: nat
  kb_obs :: kb_obs

text \<open>\<open>KnowledgeBaseUnavailable\<close>, \<open>ValueError\<close>, \<open>PermissionError\<close>, another Python exception, an aborted call.\<close>

datatype kb_failure =
    KbUnavailable string
  | KbValueError string
  | KbPermissionError string
  | KbPy pyexn
  | KbSec sec_failure
  | KbAbort public_error_spec
  | KbSinkFailed
  | KbNameError

definition KB_CONTRACT_VERSION :: string where "KB_CONTRACT_VERSION = ''1.0.0''"

definition OKB_INDEX_MODES :: "string list" where "OKB_INDEX_MODES = [''structural'', ''vector'']"

definition SENSITIVE_KEYS :: "string list" where
  "SENSITIVE_KEYS =
     [''actor_id'', ''client_ip'', ''email'', ''project_id'', ''request_hash'', ''request_id'', ''subject'', ''tenant_id'', ''user_id'']"

section \<open>A fresh service\<close>

definition new_index_state :: "string \<Rightarrow> index_state" where
  "new_index_state name =
     \<lparr>ix_name = name, ix_status = IndexUnavailable, ix_source_revision = 0, ix_source_fingerprint = [], ix_scope_entries = [],
      ix_scope_fingerprints = [], ix_scope_counts = [], ix_built_at = None, ix_backfilled_at = None, ix_recovered_at = None,
      ix_last_error = []\<rparr>"

definition new_indexes :: "(string, index_state) dict" where
  "new_indexes = map (\<lambda>mode. (mode, new_index_state mode)) OKB_INDEX_MODES"

text \<open>The constructor; the explicit arguments win over the environment, and \<open>int\<close> of a malformed retention raises.\<close>

definition kb_init :: "kb_platform \<Rightarrow> string option \<Rightarrow> int option \<Rightarrow> kb_obs \<Rightarrow> (pyexn, kb_state) result" where
  "kb_init kp storage_mode retention_seconds obs =
     (let sp = kp_sec kp;
          mode = (case storage_mode of Some m \<Rightarrow> if m = [] then getenv sp ''SYSTEM_API_KB_STORAGE_MODE'' ''memory'' else m
                  | None \<Rightarrow> getenv sp ''SYSTEM_API_KB_STORAGE_MODE'' ''memory'');
          retention = (case retention_seconds of Some r \<Rightarrow> Some r
                       | None \<Rightarrow> py_int (getenv sp ''SYSTEM_API_KB_RETENTION_SECONDS'' (show_int 7776000))) in
      case retention of
        None \<Rightarrow> Inl (ValueError ''invalid literal for int()'')
      | Some r \<Rightarrow>
          Inr \<lparr>kb_storage_mode = py_lower (py_strip mode), kb_retention_seconds = max r 1,
               kb_anon_salt = getenv sp ''SYSTEM_API_KB_ANON_SALT'' ''eigen-kb-anon-salt'',
               kb_anon_epoch = str_else (py_strip (getenv sp ''SYSTEM_API_KB_ANON_SALT_EPOCH'' ''1'')) ''1'',
               kb_records = [], kb_decision_logs = [], kb_learning_evidence = [], kb_learning_models = [],
               kb_learning_datasets = [], kb_sequence = 0, kb_okb_indexes = new_indexes, kb_okb_restart_count = 0,
               kb_obs = obs\<rparr>)"

section \<open>Canonical text and digests\<close>

text \<open>\<open>json.dumps\<close> with \<open>ensure_ascii=False\<close>: only quotes, backslashes and control characters are escaped.\<close>

definition raw_char :: "char \<Rightarrow> string" where
  "raw_char c = (if 127 \<le> ord c then [c] else json_char c)"

definition raw_str :: "string \<Rightarrow> string" where
  "raw_str s = CHR 0x22 # concat (map raw_char s) @ [CHR 0x22]"

fun raw_text :: "pyval \<Rightarrow> string" where
  "raw_text (PStr s) = raw_str s"
| "raw_text (PList xs) = ''['' @ py_join '','' (map raw_text xs) @ '']''"
| "raw_text (PDict d) = ''{'' @ py_join '','' (map (\<lambda>(k, v). raw_str k @ '':'' @ raw_text v) d) @ ''}''"
| "raw_text v = json_text v"

definition stable_json :: "pyval \<Rightarrow> (pyexn, string) result" where
  "stable_json v = (case json_error True v of Some e \<Rightarrow> Inl e | None \<Rightarrow> Inr (raw_text (canon v)))"

definition stable_hash :: "kb_platform \<Rightarrow> pyval \<Rightarrow> (pyexn, string) result" where
  "stable_hash kp v = rbind (stable_json v) (\<lambda>t. Inr (''sha256:'' @ kp_sha256 kp t))"

text \<open>The dictionaries the code digests itself hold strings, numbers and lists of them, which always have a text.\<close>

definition stable_digest :: "kb_platform \<Rightarrow> pyval \<Rightarrow> string" where
  "stable_digest kp v = ''sha256:'' @ kp_sha256 kp (raw_text (canon v))"

text \<open>\<open>_normalize\<close> writes a dictionary with its keys as strings; later keys win.\<close>

definition vdict_json :: "kb_platform \<Rightarrow> vdict \<Rightarrow> pyval" where
  "vdict_json kp d = PDict (foldl (\<lambda>e (k, v). dset (py_str (kp_sec kp) k) v e) [] d)"

section \<open>Time\<close>

definition valid_timestamp :: "timestamp \<Rightarrow> bool" where
  "valid_timestamp ts \<longleftrightarrow> - 62135596800 \<le> fst ts \<and> fst ts \<le> 253402300799 \<and> 0 \<le> snd ts \<and> snd ts \<le> 999999999"

text \<open>\<open>ToDatetime\<close> drops what is below a microsecond and raises outside its range; the caller then takes the clock.\<close>

definition ts_to_dt :: "int \<Rightarrow> timestamp \<Rightarrow> int" where
  "ts_to_dt now ts = (if valid_timestamp ts then fst ts * 1000000 + snd ts div 1000 else now)"

definition ts_from_dt :: "int \<Rightarrow> timestamp" where
  "ts_from_dt dt = (dt div 1000000, (dt mod 1000000) * 1000)"

definition parse_iso_datetime :: "kb_platform \<Rightarrow> int \<Rightarrow> string \<Rightarrow> int" where
  "parse_iso_datetime kp now value = (case kp_parse_iso kp value of None \<Rightarrow> now | Some dt \<Rightarrow> dt)"

definition ts_signature :: "kb_platform \<Rightarrow> int \<Rightarrow> timestamp \<Rightarrow> string" where
  "ts_signature kp now ts = kp_iso kp (ts_to_dt now ts)"

section \<open>Pseudonyms\<close>

definition anon_token :: "kb_platform \<Rightarrow> string \<Rightarrow> string \<Rightarrow> string \<Rightarrow> string" where
  "anon_token kp salt epoch value = ''anon:'' @ epoch @ '':'' @ take 32 (kp_hmac_hex kp salt (epoch @ '':'' @ value))"

text \<open>The key is \<open>None\<close> where a dictionary was built from pairs and its key is no string: \<open>key.strip()\<close> raises then.\<close>

fun anonymize_value :: "kb_platform \<Rightarrow> string \<Rightarrow> string \<Rightarrow> string option \<Rightarrow> pyval \<Rightarrow> (pyexn, pyval) result" where
  "anonymize_value kp salt epoch key (PDict d) =
     rbind (rmap (\<lambda>(k, v). rbind (anonymize_value kp salt epoch (Some k) v) (\<lambda>w. Inr (k, w))) d) (\<lambda>e. Inr (PDict e))"
| "anonymize_value kp salt epoch key (PList xs) =
     rbind (rmap (anonymize_value kp salt epoch key) xs) (\<lambda>ys. Inr (PList ys))"
| "anonymize_value kp salt epoch key (PStr s) =
     (case key of
        None \<Rightarrow> Inl AttributeError
      | Some k \<Rightarrow> Inr (PStr (if py_lower (py_strip k) \<in> set SENSITIVE_KEYS then anon_token kp salt epoch s else s)))"
| "anonymize_value kp salt epoch key v = Inr v"

fun str_key :: "pyval \<Rightarrow> string option" where
  "str_key (PStr k) = Some k"
| "str_key _ = None"

definition anonymize_vdict :: "kb_platform \<Rightarrow> string \<Rightarrow> string \<Rightarrow> vdict \<Rightarrow> (pyexn, vdict) result" where
  "anonymize_vdict kp salt epoch d = rmap (\<lambda>(k, v). rbind (anonymize_value kp salt epoch (str_key k) v) (\<lambda>w. Inr (k, w))) d"

definition anonymize_json :: "kb_platform \<Rightarrow> string \<Rightarrow> string \<Rightarrow> json_dict \<Rightarrow> (pyexn, json_dict) result" where
  "anonymize_json kp salt epoch d = rmap (\<lambda>(k, v). rbind (anonymize_value kp salt epoch (Some k) v) (\<lambda>w. Inr (k, w))) d"

text \<open>The attributes of a protobuf record are strings.\<close>

definition anonymize_attributes :: "kb_platform \<Rightarrow> string \<Rightarrow> string \<Rightarrow> (string, string) dict \<Rightarrow> (string, string) dict" where
  "anonymize_attributes kp salt epoch d =
     map (\<lambda>(k, v). (k, if py_lower (py_strip k) \<in> set SENSITIVE_KEYS then anon_token kp salt epoch v else v)) d"

section \<open>Payload fields\<close>

text \<open>\<open>str(payload.get(key, dflt))\<close>, and the same stripped.\<close>

definition field_str :: "kb_platform \<Rightarrow> json_dict \<Rightarrow> string \<Rightarrow> string \<Rightarrow> string" where
  "field_str kp d k dflt = py_str (kp_sec kp) (dget_or d k (PStr dflt))"

definition field_text :: "kb_platform \<Rightarrow> json_dict \<Rightarrow> string \<Rightarrow> string" where
  "field_text kp d k = py_strip (field_str kp d k [])"

definition field_bool :: "json_dict \<Rightarrow> string \<Rightarrow> bool \<Rightarrow> bool" where
  "field_bool d k dflt = truthy (dget_or d k (PBool dflt))"

text \<open>\<open>v or dflt\<close>, \<open>int(payload.get(key, dflt) or dflt)\<close> and \<open>dict(payload.get(key) or {})\<close>.\<close>

definition val_or :: "pyval \<Rightarrow> pyval \<Rightarrow> pyval" where
  "val_or v dflt = (if truthy v then v else dflt)"

definition field_int :: "kb_platform \<Rightarrow> json_dict \<Rightarrow> string \<Rightarrow> int \<Rightarrow> (pyexn, int) result" where
  "field_int kp d k dflt = to_int_val (kp_sec kp) (val_or (dget_or d k (PInt dflt)) (PInt dflt))"

definition field_vdict :: "json_dict \<Rightarrow> string \<Rightarrow> (pyexn, vdict) result" where
  "field_vdict d k = py_dict (val_or (vget d k) (PDict []))"

record payload_envelope =
  pv_contract_version :: string
  pv_tenant_id :: string
  pv_project_id :: string
  pv_request_id :: string
  pv_trace_id :: string

definition payload_envelope_of :: "kb_platform \<Rightarrow> json_dict \<Rightarrow> payload_envelope" where
  "payload_envelope_of kp d =
     \<lparr>pv_contract_version = field_str kp d ''contract_version'' KB_CONTRACT_VERSION,
      pv_tenant_id = field_str kp d ''tenant_id'' ''tenant-default'',
      pv_project_id = field_str kp d ''project_id'' ''project-default'',
      pv_request_id = field_str kp d ''request_id'' [],
      pv_trace_id = field_str kp d ''trace_id'' []\<rparr>"

definition page_size_of :: "int \<Rightarrow> int" where
  "page_size_of requested = (if requested \<le> 0 then 50 else min requested 100)"

section \<open>Counters and the audit sink\<close>

definition bump :: "'k \<Rightarrow> ('k, nat) dict \<Rightarrow> ('k, nat) dict" where
  "bump k d = dset k (dget_or d k 0 + 1) d"

definition record_kb_query :: "string \<Rightarrow> bool \<Rightarrow> kb_obs \<Rightarrow> kb_obs" where
  "record_kb_query kind hit o1 =
     o1\<lparr>ko_query_total := bump (kind @ (if hit then '':hit'' else '':miss'')) (bump kind (ko_query_total o1))\<rparr>"

definition record_kb_fallback :: "string \<Rightarrow> kb_obs \<Rightarrow> kb_obs" where
  "record_kb_fallback reason o1 = o1\<lparr>ko_fallback_total := bump reason (ko_fallback_total o1)\<rparr>"

definition record_kb_replay_failure :: "kb_obs \<Rightarrow> kb_obs" where
  "record_kb_replay_failure o1 = o1\<lparr>ko_replay_failures := ko_replay_failures o1 + 1\<rparr>"

definition record_kb_contract_marker :: "string \<Rightarrow> string \<Rightarrow> kb_obs \<Rightarrow> kb_obs" where
  "record_kb_contract_marker version outcome o1 =
     o1\<lparr>ko_contract_total := bump (str_else version ''unsupported'', str_else outcome ''error'') (ko_contract_total o1)\<rparr>"

text \<open>One line per event; an unwritable sink raises.\<close>

definition kb_audit_event :: "json_dict \<Rightarrow> kb_obs \<Rightarrow> (kb_failure, kb_obs) result" where
  "kb_audit_event event o1 =
     (if ko_writable o1 then Inr (o1\<lparr>ko_lines := ko_lines o1 @ [raw_text (canon (PDict event))]\<rparr>) else Inl KbSinkFailed)"

text \<open>The pattern \<open>^\s*00-([0-9a-f]{32})-[0-9a-f]{16}-0[01]\s*$\<close>, ignoring case.\<close>

definition any_hex :: "char \<Rightarrow> bool" where
  "any_hex c \<longleftrightarrow> c \<in> set ''0123456789abcdefABCDEF''"

definition kb_trace_id :: "string \<Rightarrow> string option" where
  "kb_trace_id traceparent =
     (let s = py_strip traceparent in
      if length s = 55 \<and> take 3 s = ''00-'' \<and> list_all any_hex (take 32 (drop 3 s)) \<and> s ! 35 = CHR ''-''
         \<and> list_all any_hex (take 16 (drop 36 s)) \<and> s ! 52 = CHR ''-'' \<and> s ! 53 = CHR ''0'' \<and> s ! 54 \<in> {CHR ''0'', CHR ''1''}
      then Some (take 32 (drop 3 s)) else None)"

section \<open>Capability scopes\<close>

text \<open>The non-empty parts of \<open>re.split(r"[,\s]+", s)\<close>.\<close>

fun split_words :: "(char \<Rightarrow> bool) \<Rightarrow> string \<Rightarrow> string \<Rightarrow> string list" where
  "split_words sep acc [] = (if acc = [] then [] else [rev acc])"
| "split_words sep acc (c # cs) =
     (if sep c then (if acc = [] then [] else [rev acc]) @ split_words sep [] cs else split_words sep (c # acc) cs)"

definition scope_words :: "string \<Rightarrow> string list" where
  "scope_words s = split_words (\<lambda>c. c = CHR '','' \<or> is_ws c) [] s"

definition norm_text :: "kb_platform \<Rightarrow> pyval \<Rightarrow> string" where
  "norm_text kp v = py_lower (py_strip (py_str (kp_sec kp) v))"

text \<open>The tokens of one entry of a dictionary. A set is the list of what was added to it.\<close>

definition entry_tokens :: "kb_platform \<Rightarrow> string \<Rightarrow> pyval \<Rightarrow> (pyexn, string list) result" where
  "entry_tokens kp k item =
     (let key_text = py_lower (py_strip k) in
      if key_text = [] then Inr []
      else case item of
        PDict _ \<Rightarrow> rbind (stable_json item) (\<lambda>t.
          let nested = py_lower (py_strip t) in Inr [if nested = [] then key_text else key_text @ ''='' @ nested])
      | PList xs \<Rightarrow>
          (let nested_tokens = sort (remdups (filter (\<lambda>t. t \<noteq> []) (map (norm_text kp) xs))); nested = py_join '','' nested_tokens in
           Inr (if nested_tokens = [] then [key_text] else [key_text @ ''='' @ nested, nested]))
      | _ \<Rightarrow> (let item_text = norm_text kp item in
           Inr (if item_text = [] then [key_text] else [key_text @ ''='' @ item_text, item_text])))"

fun capability_tokens_from_value :: "kb_platform \<Rightarrow> pyval \<Rightarrow> (pyexn, string list) result" where
  "capability_tokens_from_value kp PNone = Inr []"
| "capability_tokens_from_value kp (PDict d) = rbind (rmap (\<lambda>(k, v). entry_tokens kp k v) d) (\<lambda>ts. Inr (concat ts))"
| "capability_tokens_from_value kp (PList xs) = rbind (rmap (capability_tokens_from_value kp) xs) (\<lambda>ts. Inr (concat ts))"
| "capability_tokens_from_value kp v = Inr (scope_words (norm_text kp v))"

definition CAPABILITY_KEYS :: "string list" where
  "CAPABILITY_KEYS = [''capability_scope'', ''capability_tags'', ''capabilities'']"

definition keyed_tokens :: "kb_platform \<Rightarrow> json_dict \<Rightarrow> (pyexn, string list) result" where
  "keyed_tokens kp d = rbind (rmap (\<lambda>k. capability_tokens_from_value kp (vget d k)) CAPABILITY_KEYS) (\<lambda>ts. Inr (concat ts))"

definition profile_tokens :: "kb_platform \<Rightarrow> json_dict \<Rightarrow> string list" where
  "profile_tokens kp d =
     (let a = py_lower (field_text kp d ''backend_profile_id''); b = py_lower (field_text kp d ''backend_profile'') in
      if a \<noteq> [] then [a, ''backend_profile='' @ a] else if b \<noteq> [] then [b, ''backend_profile='' @ b] else [])"

definition capability_scope_tokens :: "kb_platform \<Rightarrow> json_dict \<Rightarrow> (pyexn, string list) result" where
  "capability_scope_tokens kp payload =
     (if payload = [] then Inr []
      else
        rbind (keyed_tokens kp payload) (\<lambda>own.
        rbind (case vget payload ''metadata'' of PDict md \<Rightarrow> keyed_tokens kp md | _ \<Rightarrow> Inr []) (\<lambda>meta.
          Inr (sort (remdups (own @ meta @ profile_tokens kp payload))))))"

text \<open>The method of the same name keeps the order and looks at the first key only that has a value.\<close>

definition first_scope :: "json_dict \<Rightarrow> pyval" where
  "first_scope payload =
     (let unset = (\<lambda>v. v = PNone \<or> v = PStr []); a = vget payload ''capability_scope''; b = vget payload ''capability_tags'' in
      if \<not> unset a then a else if \<not> unset b then b else vget payload ''capabilities'')"

definition requested_scope_tokens :: "kb_platform \<Rightarrow> json_dict \<Rightarrow> string list" where
  "requested_scope_tokens kp payload =
     (if payload = [] then []
      else
        (let items = (case first_scope payload of PDict d \<Rightarrow> map PStr (dkeys d) | PStr s \<Rightarrow> [PStr s] | PList xs \<Rightarrow> xs | _ \<Rightarrow> []) in
         foldl (\<lambda>ts item. let t = norm_text kp item in if t \<noteq> [] \<and> t \<notin> set ts then ts @ [t] else ts) [] items))"

definition scope_equal :: "string list \<Rightarrow> string list \<Rightarrow> bool" where
  "scope_equal stored requested \<longleftrightarrow> requested = [] \<or> stored = requested"

definition scope_within :: "string list \<Rightarrow> string list \<Rightarrow> bool" where
  "scope_within stored requested \<longleftrightarrow> requested = [] \<or> (stored \<noteq> [] \<and> set stored \<subseteq> set requested)"

definition okb_filter_scope_tokens :: "string list \<Rightarrow> string \<Rightarrow> string list" where
  "okb_filter_scope_tokens scope backend_profile_id =
     (let profile = py_lower (py_strip backend_profile_id);
          routing = (if profile = [] then [] else [profile, ''backend_profile='' @ profile]);
          normalized = filter (\<lambda>t. t \<noteq> [] \<and> t \<notin> set routing) (map (\<lambda>t. py_lower (py_strip t)) scope)
      in sort (remdups normalized))"

section \<open>Security context of a retrieval\<close>

definition policy_snapshot_configured :: "kb_platform \<Rightarrow> bool" where
  "policy_snapshot_configured kp \<longleftrightarrow>
     \<not> blank (getenv (kp_sec kp) ''SYSTEM_API_POLICY_SNAPSHOT_JSON'' []) \<or> \<not> blank (getenv (kp_sec kp) ''SYSTEM_API_POLICY_SNAPSHOT_PATH'' [])"

definition fail_closed :: "grpc_call option \<Rightarrow> string \<Rightarrow> string \<Rightarrow> string \<Rightarrow> (kb_failure, 'a) result" where
  "fail_closed call operation reason detail =
     (case call of
        None \<Rightarrow> Inl (KbUnavailable detail)
      | Some _ \<Rightarrow> Inl (KbAbort ((public_error PERMISSION_DENIED ''access denied'' reason False)
          \<lparr>pe_metadata := [(''operation'', operation), (''reason'', reason)], pe_detail := detail\<rparr>)))"

definition snapshot_version :: "kb_platform \<Rightarrow> (kb_failure, string) result" where
  "snapshot_version kp =
     (case load_policy_snapshot (kp_sec kp) of
        Inl e \<Rightarrow> Inl (KbPy e)
      | Inr snapshot \<Rightarrow> Inr (py_strip (ps_version snapshot)))"

definition policy_snapshot_version :: "kb_platform \<Rightarrow> (kb_failure, string) result" where
  "policy_snapshot_version kp =
     rbind (snapshot_version kp) (\<lambda>v. if v = [] then Inl (KbUnavailable ''policy snapshot unavailable'') else Inr v)"

definition require_explicit_policy_snapshot :: "kb_platform \<Rightarrow> grpc_call option \<Rightarrow> string \<Rightarrow> (kb_failure, string) result" where
  "require_explicit_policy_snapshot kp call operation =
     (let fail = fail_closed call operation ''KB_POLICY_SNAPSHOT_REQUIRED'' ''security policy snapshot unavailable'' in
      if \<not> policy_snapshot_configured kp then fail
      else rbind (snapshot_version kp) (\<lambda>v. if v = [] then fail else Inr v))"

definition lift_sec :: "(sec_failure, 'a) result \<Rightarrow> (kb_failure, 'a) result" where
  "lift_sec r = (case r of Inl e \<Rightarrow> Inl (KbSec e) | Inr x \<Rightarrow> Inr x)"

definition retrieval_security_context ::
  "kb_platform \<Rightarrow> grpc_call option \<Rightarrow> string \<Rightarrow> (kb_failure, security_context \<times> string) result" where
  "retrieval_security_context kp call operation =
     (case call of
        None \<Rightarrow> fail_closed None operation ''KB_SECURITY_CONTEXT_REQUIRED'' ''security context unavailable''
      | Some c \<Rightarrow>
          rbind (lift_sec (security_context_of (kp_sec kp) c (''KnowledgeBaseService.'' @ operation))) (\<lambda>ctx.
          rbind (if \<not> blank (sx_policy_version ctx) then Inr (py_strip (sx_policy_version ctx)) else policy_snapshot_version kp) (\<lambda>version.
          rbind (if sx_auth_mode ctx \<noteq> AUTH_ALLOW_ALL
                 then lift_sec (enforce_sandbox_policy (kp_sec kp) (case sx_sandbox_profile ctx of None \<Rightarrow> [] | Some p \<Rightarrow> p))
                 else Inr ()) (\<lambda>_.
            Inr (ctx, version)))))"

text \<open>The audit line of a retrieval; \<open>roles\<close> and the other fields come from the security context.\<close>

definition retrieval_event ::
  "grpc_call option \<Rightarrow> security_context \<Rightarrow> string \<Rightarrow> string \<Rightarrow> string \<Rightarrow> string \<Rightarrow> nat option \<Rightarrow> bool \<Rightarrow> string \<Rightarrow> json_dict" where
  "retrieval_event call ctx policy_version operation decision reason result_count hit resource_name =
     (let md = (case call of None \<Rightarrow> [] | Some c \<Rightarrow> call_metadata c);
          traceparent = dget_or md ''traceparent'' [];
          trace_id = (if dget_or md ''trace_id'' [] \<noteq> [] then PStr (dget_or md ''trace_id'' [])
                      else if traceparent = [] then PNone else case kb_trace_id traceparent of None \<Rightarrow> PNone | Some t \<Rightarrow> PStr t) in
      [(''method'', PStr (''KnowledgeBaseService.'' @ operation)), (''decision'', PStr decision), (''reason'', PStr reason),
       (''trace_id'', trace_id), (''traceparent'', PStr traceparent), (''resource_type'', PStr ''eigen.api.v1.KnowledgeBase''),
       (''resource_name'', PStr resource_name), (''hit'', PBool hit)]
      @ (case result_count of None \<Rightarrow> [] | Some n \<Rightarrow> [(''result_count'', PInt (int n))])
      @ map (\<lambda>(k, v). (k, PStr v))
          (sanitized_security_metadata (sx_subject ctx) (sx_roles ctx) (str_else (sx_auth_mode ctx) ''allow_all'') policy_version
             (sx_service_identity ctx) (sx_sandbox_profile ctx) (dget (sx_claims ctx) ''replay_marker'')))"

definition audit_retrieval ::
  "grpc_call option \<Rightarrow> security_context \<Rightarrow> string \<Rightarrow> string \<Rightarrow> string \<Rightarrow> string \<Rightarrow> nat option \<Rightarrow> bool \<Rightarrow> string \<Rightarrow> kb_obs
   \<Rightarrow> (kb_failure, kb_obs) result" where
  "audit_retrieval call ctx policy_version operation decision reason result_count hit resource_name o1 =
     kb_audit_event (retrieval_event call ctx policy_version operation decision reason result_count hit resource_name) o1"

end
