(* ===== verification/KbIndexes.thy ===== *)
theory KbIndexes
  imports KbBase
begin

text \<open>
  The derived indexes of the knowledge base (\<open>knowledge_base.py\<close>, lines 2285 to 2639): the ordered snapshot of a
  tenant's sources, the synchronisation of the two shards with it, rebuilds, the health report, and the sources a query
  reads. A scope is a tenant and a project; the shards file it under the text \<open>tenant::project\<close>.
\<close>

section \<open>Scopes\<close>

definition okb_scope_key :: "string \<Rightarrow> string \<Rightarrow> string" where
  "okb_scope_key tenant_id project_id = tenant_id @ ''::'' @ project_id"

text \<open>\<open>scope_key.split("::", 1)\<close>; a key without the separator would not unpack, but keys always have one.\<close>

fun okb_scope_tuple :: "string \<Rightarrow> string \<times> string" where
  "okb_scope_tuple [] = ([], [])"
| "okb_scope_tuple (c # cs) =
     (if py_startswith (c # cs) ''::'' then ([], drop 1 cs) else (case okb_scope_tuple cs of (t, p) \<Rightarrow> (c # t, p)))"

section \<open>Snapshots\<close>

record snapshot_item =
  si_source_id :: string
  si_source_kind :: string
  si_primary_id :: string
  si_sequence :: int
  si_timestamp :: string
  si_fingerprint :: string
  si_order_hint :: nat

definition record_item :: "kb_platform \<Rightarrow> stored_record \<Rightarrow> snapshot_item" where
  "record_item kp e =
     \<lparr>si_source_id = ''record:'' @ kr_record_id (sr_record e), si_source_kind = ''record'', si_primary_id = kr_record_id (sr_record e),
      si_sequence = sr_sequence e, si_timestamp = kp_iso kp (sr_created_at e), si_fingerprint = sr_fingerprint e, si_order_hint = 0\<rparr>"

definition decision_item :: "kb_platform \<Rightarrow> stored_decision \<Rightarrow> snapshot_item" where
  "decision_item kp e =
     \<lparr>si_source_id = ''decision:'' @ dl_decision_id (sd_decision_log e), si_source_kind = ''decision_log'',
      si_primary_id = dl_decision_id (sd_decision_log e), si_sequence = sd_sequence e, si_timestamp = kp_iso kp (sd_decided_at e),
      si_fingerprint = sd_fingerprint e, si_order_hint = 1\<rparr>"

definition in_scope_record :: "string \<Rightarrow> string \<Rightarrow> stored_record \<Rightarrow> bool" where
  "in_scope_record t p e \<longleftrightarrow> sr_tenant_id e = t \<and> sr_project_id e = p"

definition in_scope_decision :: "string \<Rightarrow> string \<Rightarrow> stored_decision \<Rightarrow> bool" where
  "in_scope_decision t p e \<longleftrightarrow> sd_tenant_id e = t \<and> sd_project_id e = p"

definition okb_scope_snapshot :: "kb_platform \<Rightarrow> kb_state \<Rightarrow> string \<Rightarrow> string \<Rightarrow> snapshot_item list" where
  "okb_scope_snapshot kp s t p =
     sort_key (\<lambda>i. (si_order_hint i, si_timestamp i, si_primary_id i, si_sequence i))
       (map (record_item kp) (filter (in_scope_record t p) (dvalues (kb_records s)))
        @ map (decision_item kp) (filter (in_scope_decision t p) (kb_decision_logs s)))"

definition item_json :: "snapshot_item \<Rightarrow> pyval" where
  "item_json i =
     PDict [(''source_id'', PStr (si_source_id i)), (''source_kind'', PStr (si_source_kind i)), (''primary_id'', PStr (si_primary_id i)),
       (''sequence'', PInt (si_sequence i)), (''timestamp'', PStr (si_timestamp i)), (''fingerprint'', PStr (si_fingerprint i))]"

definition okb_scope_fingerprint :: "kb_platform \<Rightarrow> kb_state \<Rightarrow> string \<Rightarrow> string \<Rightarrow> string" where
  "okb_scope_fingerprint kp s t p =
     stable_digest kp (PDict [(''tenant_id'', PStr t), (''project_id'', PStr p),
       (''sources'', PList (map item_json (okb_scope_snapshot kp s t p)))])"

definition okb_order_scope_snapshot :: "snapshot_item list \<Rightarrow> string \<Rightarrow> snapshot_item list" where
  "okb_order_scope_snapshot snapshot mode =
     (if mode = ''vector'' then sort_key (\<lambda>i. (si_fingerprint i, si_source_id i)) snapshot
      else if mode = ''hybrid'' then sort_key (\<lambda>i. (si_order_hint i, si_fingerprint i, si_source_id i)) snapshot
      else snapshot)"

definition okb_expected_scope_entries :: "kb_platform \<Rightarrow> kb_state \<Rightarrow> string \<Rightarrow> string \<Rightarrow> string \<Rightarrow> string list" where
  "okb_expected_scope_entries kp s t p mode = map si_source_id (okb_order_scope_snapshot (okb_scope_snapshot kp s t p) mode)"

definition okb_index_catalog_fingerprint :: "kb_platform \<Rightarrow> index_state \<Rightarrow> string" where
  "okb_index_catalog_fingerprint kp shard =
     stable_digest kp (PDict [(''name'', PStr (ix_name shard)),
       (''scope_fingerprints'', PList (map (\<lambda>scope.
          PDict [(''scope'', PStr scope), (''fingerprint'', PStr (dget_or (ix_scope_fingerprints shard) scope [])),
            (''entry_count'', PInt (int (dget_or (ix_scope_counts shard) scope 0))),
            (''source_ids'', strs (dget_or (ix_scope_entries shard) scope []))]) (sort (dkeys (ix_scope_entries shard)))))])"

definition okb_target_scopes :: "kb_state \<Rightarrow> string option \<Rightarrow> string option \<Rightarrow> (string \<times> string) list" where
  "okb_target_scopes s tenant_id project_id =
     (case (tenant_id, project_id) of
        (Some t, Some p) \<Rightarrow> [okb_scope_tuple (okb_scope_key t p)]
      | _ \<Rightarrow> map okb_scope_tuple (sort (remdups
          (map (\<lambda>e. okb_scope_key (sr_tenant_id e) (sr_project_id e)) (dvalues (kb_records s))
           @ map (\<lambda>e. okb_scope_key (sd_tenant_id e) (sd_project_id e)) (kb_decision_logs s)))))"

section \<open>Synchronisation\<close>

text \<open>One shard brought up to date; the loop of the code runs over the two modes, which are the keys of the dictionary of shards.\<close>

definition stamp_shard :: "string \<Rightarrow> int \<Rightarrow> index_state \<Rightarrow> index_state" where
  "stamp_shard reason now shard =
     (if reason = ''recovery'' then shard\<lparr>ix_recovered_at := Some now\<rparr>
      else if reason = ''backfill'' then shard\<lparr>ix_backfilled_at := Some now\<rparr>
      else shard\<lparr>ix_built_at := Some now\<rparr>)"

definition sync_shard ::
  "kb_platform \<Rightarrow> int \<Rightarrow> int \<Rightarrow> string \<Rightarrow> string \<Rightarrow> snapshot_item list \<Rightarrow> string \<Rightarrow> string \<Rightarrow> index_state \<Rightarrow> index_state" where
  "sync_shard kp now sequence scope_key fingerprint snapshot reason mode shard =
     (let ordered = okb_order_scope_snapshot snapshot mode;
          filed = shard\<lparr>ix_scope_entries := dset scope_key (map si_source_id ordered) (ix_scope_entries shard),
                        ix_scope_fingerprints := dset scope_key fingerprint (ix_scope_fingerprints shard),
                        ix_scope_counts := dset scope_key (length ordered) (ix_scope_counts shard),
                        ix_source_revision := sequence\<rparr> in
      stamp_shard reason now
        (filed\<lparr>ix_source_fingerprint := okb_index_catalog_fingerprint kp filed, ix_last_error := [], ix_status := IndexReady\<rparr>))"

definition okb_sync_index_scope :: "kb_platform \<Rightarrow> int \<Rightarrow> string \<Rightarrow> string \<Rightarrow> string \<Rightarrow> kb_state \<Rightarrow> kb_state" where
  "okb_sync_index_scope kp now t p reason s =
     s\<lparr>kb_okb_indexes := map (\<lambda>(mode, shard).
         (mode, sync_shard kp now (kb_sequence s) (okb_scope_key t p) (okb_scope_fingerprint kp s t p) (okb_scope_snapshot kp s t p)
                  reason mode shard)) (kb_okb_indexes s)\<rparr>"

section \<open>Status and health\<close>

definition shards :: "kb_state \<Rightarrow> index_state list" where
  "shards s = dvalues (kb_okb_indexes s)"

definition shard_in_sync :: "kb_platform \<Rightarrow> kb_state \<Rightarrow> string \<Rightarrow> string \<Rightarrow> string \<Rightarrow> string \<times> index_state \<Rightarrow> bool" where
  "shard_in_sync kp s key t p e \<longleftrightarrow> dget_or (ix_scope_entries (snd e)) key [] = okb_expected_scope_entries kp s t p (fst e)"

fun scope_status :: "kb_platform \<Rightarrow> kb_state \<Rightarrow> string \<Rightarrow> string \<Rightarrow> (string \<times> index_state) list \<Rightarrow> index_status" where
  "scope_status kp s t p [] = IndexReady"
| "scope_status kp s t p (e # es) =
     (if \<not> dhas (ix_scope_entries (snd e)) (okb_scope_key t p) then IndexUnavailable
      else if \<not> shard_in_sync kp s (okb_scope_key t p) t p e then IndexDegraded
      else scope_status kp s t p es)"

definition filed_scopes :: "kb_state \<Rightarrow> string list" where
  "filed_scopes s = sort (remdups (concat (map (\<lambda>shard. dkeys (ix_scope_entries shard)) (shards s))))"

definition okb_overall_status :: "kb_platform \<Rightarrow> kb_state \<Rightarrow> string option \<Rightarrow> string option \<Rightarrow> index_status" where
  "okb_overall_status kp s tenant_id project_id =
     (if kb_storage_mode s = ''disabled'' then IndexUnavailable
      else if IndexDegraded \<in> set (map ix_status (shards s)) then IndexDegraded
      else if IndexRebuilding \<in> set (map ix_status (shards s)) then IndexRebuilding
      else if IndexUnavailable \<in> set (map ix_status (shards s)) then IndexUnavailable
      else case (tenant_id, project_id) of
        (Some t, Some p) \<Rightarrow> scope_status kp s t p (kb_okb_indexes s)
      | _ \<Rightarrow>
          (if list_all (\<lambda>key. case okb_scope_tuple key of (t, p) \<Rightarrow> list_all (shard_in_sync kp s key t p) (kb_okb_indexes s)) (filed_scopes s)
           then IndexReady else IndexDegraded))"

definition ready_shard :: "kb_platform \<Rightarrow> int \<Rightarrow> index_state \<Rightarrow> index_state" where
  "ready_shard kp sequence shard =
     shard\<lparr>ix_status := IndexReady, ix_source_revision := sequence, ix_source_fingerprint := okb_index_catalog_fingerprint kp shard\<rparr>"

text \<open>A rebuild of one scope, or of every scope that has a source; the second value is the reported status.\<close>

definition rebuild_indexes_locked ::
  "kb_platform \<Rightarrow> int \<Rightarrow> string option \<Rightarrow> string option \<Rightarrow> string \<Rightarrow> kb_state \<Rightarrow> kb_state \<times> index_status" where
  "rebuild_indexes_locked kp now tenant_id project_id reason s =
     (let scopes = okb_target_scopes s tenant_id project_id in
      if scopes = [] then
        (s\<lparr>kb_okb_indexes := map (\<lambda>(mode, shard). (mode, ready_shard kp (kb_sequence s) shard)) (kb_okb_indexes s)\<rparr>, IndexReady)
      else
        (let s' = foldl (\<lambda>u (t, p). okb_sync_index_scope kp now t p reason u) s scopes
         in (s', okb_overall_status kp s' tenant_id project_id)))"

definition reset_okb_index_runtime_state :: "kb_state \<Rightarrow> kb_state" where
  "reset_okb_index_runtime_state s = s\<lparr>kb_okb_indexes := new_indexes, kb_okb_restart_count := kb_okb_restart_count s + 1\<rparr>"

record shard_health =
  sh_status :: index_status
  sh_entry_count :: nat
  sh_source_fingerprint :: string
  sh_desynced :: bool
  sh_last_error :: string
  sh_last_built_at :: string
  sh_last_backfilled_at :: string
  sh_last_recovered_at :: string

record index_health =
  ih_overall_status :: index_status
  ih_scope_present :: bool
  ih_desynced :: bool
  ih_source_revision :: int
  ih_indices :: "(string, shard_health) dict"

definition iso_or_empty :: "kb_platform \<Rightarrow> int option \<Rightarrow> string" where
  "iso_or_empty kp t = (case t of None \<Rightarrow> [] | Some dt \<Rightarrow> kp_iso kp dt)"

definition scope_shard_health :: "kb_platform \<Rightarrow> kb_state \<Rightarrow> string \<Rightarrow> string \<Rightarrow> string \<times> index_state \<Rightarrow> string \<times> shard_health" where
  "scope_shard_health kp s t p e =
     (let key = okb_scope_key t p; shard = snd e in
      (fst e,
       \<lparr>sh_status = ix_status shard, sh_entry_count = length (dget_or (ix_scope_entries shard) key []),
        sh_source_fingerprint = dget_or (ix_scope_fingerprints shard) key [], sh_desynced = \<not> shard_in_sync kp s key t p e,
        sh_last_error = ix_last_error shard, sh_last_built_at = iso_or_empty kp (ix_built_at shard),
        sh_last_backfilled_at = iso_or_empty kp (ix_backfilled_at shard), sh_last_recovered_at = iso_or_empty kp (ix_recovered_at shard)\<rparr>))"

definition global_shard_health :: "kb_platform \<Rightarrow> string \<times> index_state \<Rightarrow> string \<times> shard_health" where
  "global_shard_health kp e =
     (let shard = snd e in
      (fst e,
       \<lparr>sh_status = ix_status shard, sh_entry_count = length (ix_scope_entries shard), sh_source_fingerprint = ix_source_fingerprint shard,
        sh_desynced = False, sh_last_error = ix_last_error shard, sh_last_built_at = iso_or_empty kp (ix_built_at shard),
        sh_last_backfilled_at = iso_or_empty kp (ix_backfilled_at shard), sh_last_recovered_at = iso_or_empty kp (ix_recovered_at shard)\<rparr>))"

text \<open>In the report without a scope \<open>sh_entry_count\<close> is the number of scopes, and it has no flag per shard.\<close>

definition describe_index_health :: "kb_platform \<Rightarrow> kb_state \<Rightarrow> string option \<Rightarrow> string option \<Rightarrow> index_health" where
  "describe_index_health kp s tenant_id project_id =
     (let overall = okb_overall_status kp s tenant_id project_id in
      case (tenant_id, project_id) of
        (Some t, Some p) \<Rightarrow>
          (let health = map (scope_shard_health kp s t p) (kb_okb_indexes s) in
           \<lparr>ih_overall_status = overall,
            ih_scope_present = list_ex (\<lambda>shard. dhas (ix_scope_entries shard) (okb_scope_key t p)) (shards s),
            ih_desynced = list_ex (\<lambda>(_, h). sh_desynced h) health, ih_source_revision = kb_sequence s, ih_indices = health\<rparr>)
      | _ \<Rightarrow>
          \<lparr>ih_overall_status = overall, ih_scope_present = False, ih_desynced = (overall = IndexDegraded),
           ih_source_revision = kb_sequence s, ih_indices = map (global_shard_health kp) (kb_okb_indexes s)\<rparr>)"

definition okb_ensure_indexes_ready :: "kb_platform \<Rightarrow> int \<Rightarrow> string \<Rightarrow> string \<Rightarrow> kb_state \<Rightarrow> kb_state \<times> index_health" where
  "okb_ensure_indexes_ready kp now t p s =
     (let health = describe_index_health kp s (Some t) (Some p) in
      if ih_overall_status health = IndexReady \<and> \<not> ih_desynced health then (s, health)
      else
        (let s' = fst (rebuild_indexes_locked kp now (Some t) (Some p) ''recovery'' s)
         in (s', describe_index_health kp s' (Some t) (Some p))))"

definition okb_index_sources_for_mode :: "kb_state \<Rightarrow> string \<Rightarrow> string \<Rightarrow> string list" where
  "okb_index_sources_for_mode s query_mode key =
     (let entries = (\<lambda>mode. case dget (kb_okb_indexes s) mode of None \<Rightarrow> [] | Some shard \<Rightarrow> dget_or (ix_scope_entries shard) key []);
          structural = entries ''structural''; vec = entries ''vector'' in
      if query_mode = ''vector'' then (if vec \<noteq> [] then vec else structural)
      else if query_mode = ''hybrid'' then foldl (\<lambda>m x. if x \<in> set m then m else m @ [x]) [] (structural @ vec)
      else (if structural \<noteq> [] then structural else vec))"

section \<open>The separator of a scope\<close>

text \<open>A tenant whose name holds no separator, also not together with the colons that follow it.\<close>

definition clean_tenant :: "string \<Rightarrow> bool" where
  "clean_tenant t \<longleftrightarrow> \<not> py_contains (t @ '':'') ''::''"

lemma py_contains_Cons: "py_contains (c # s) p \<longleftrightarrow> py_startswith (c # s) p \<or> py_contains s p"
  by (subst py_contains.simps) simp

lemma py_contains_Nil: "py_contains [] p \<longleftrightarrow> p = []"
  by (subst py_contains.simps) (cases p; simp)

lemma clean_tenant_simps:
  "clean_tenant []"
  "clean_tenant (c # t) \<longleftrightarrow> \<not> py_startswith (c # t @ '':'') ''::'' \<and> clean_tenant t"
  by (simp_all add: clean_tenant_def py_contains_Cons py_contains_Nil)

lemma startswith_two: "py_startswith (c # t @ '':'' @ s) ''::'' \<longleftrightarrow> py_startswith (c # t @ '':'') ''::''"
  by (cases t) auto

lemma scope_tuple_key: "okb_scope_tuple (okb_scope_key t p) = (t, p) \<longleftrightarrow> clean_tenant t"
proof (induction t)
  case (Cons c t)
  have "py_startswith (okb_scope_key (c # t) p) ''::'' \<longleftrightarrow> py_startswith (c # t @ '':'') ''::''"
    using startswith_two [of c t "CHR '':'' # p"] by (simp add: okb_scope_key_def)
  with Cons show ?case by (auto simp: okb_scope_key_def clean_tenant_simps split: prod.splits)
qed (simp add: okb_scope_key_def clean_tenant_simps)

lemma scope_key_tuple: "py_contains k ''::'' \<Longrightarrow> okb_scope_key (fst (okb_scope_tuple k)) (snd (okb_scope_tuple k)) = k"
proof (induction k)
  case (Cons c k)
  show ?case
  proof (cases "py_startswith (c # k) ''::''")
    case True
    then show ?thesis by (cases k) (auto simp: okb_scope_key_def)
  next
    case False
    then have "py_contains k ''::''" using Cons.prems by (auto simp: py_contains_Cons)
    with Cons.IH False show ?thesis by (auto simp: okb_scope_key_def split: prod.splits)
  qed
qed (simp add: py_contains_Nil)

section \<open>Synchronised shards\<close>

text \<open>The primary store: what the indexes are derived from.\<close>

definition same_store :: "kb_state \<Rightarrow> kb_state \<Rightarrow> bool" where
  "same_store s u \<longleftrightarrow> kb_records s = kb_records u \<and> kb_decision_logs s = kb_decision_logs u \<and> kb_storage_mode s = kb_storage_mode u
     \<and> kb_learning_evidence s = kb_learning_evidence u \<and> kb_learning_models s = kb_learning_models u
     \<and> kb_learning_datasets s = kb_learning_datasets u \<and> kb_sequence s = kb_sequence u \<and> kb_obs s = kb_obs u
     \<and> kb_retention_seconds s = kb_retention_seconds u \<and> kb_anon_salt s = kb_anon_salt u \<and> kb_anon_epoch s = kb_anon_epoch u"

lemma same_store_refl [simp]: "same_store s s"
  by (simp add: same_store_def)

lemma same_store_trans: "same_store s u \<Longrightarrow> same_store u v \<Longrightarrow> same_store s v"
  by (simp add: same_store_def)

lemma sync_same_store [simp]: "same_store s (okb_sync_index_scope kp now t p reason s)"
  by (simp add: same_store_def okb_sync_index_scope_def)

lemma sync_all_same_store: "same_store s (foldl (\<lambda>u (t, p). okb_sync_index_scope kp now t p reason u) s scopes)"
  by (induction scopes arbitrary: s) (auto intro: same_store_trans [OF sync_same_store])

lemma rebuild_same_store: "same_store s (fst (rebuild_indexes_locked kp now t p reason s))"
  using sync_all_same_store by (simp add: rebuild_indexes_locked_def Let_def same_store_def)

lemma expected_same_store: "same_store s u \<Longrightarrow> okb_expected_scope_entries kp u t p mode = okb_expected_scope_entries kp s t p mode"
  by (simp add: same_store_def okb_expected_scope_entries_def okb_scope_snapshot_def)

lemma stamp_shard_simps [simp]:
  "ix_scope_entries (stamp_shard reason now shard) = ix_scope_entries shard" "ix_status (stamp_shard reason now shard) = ix_status shard"
  by (simp_all add: stamp_shard_def)

lemma sync_shard_simps [simp]:
  "ix_scope_entries (sync_shard kp now n key f snap reason mode shard) =
     dset key (map si_source_id (okb_order_scope_snapshot snap mode)) (ix_scope_entries shard)"
  "ix_status (sync_shard kp now n key f snap reason mode shard) = IndexReady"
  by (simp_all add: sync_shard_def Let_def)

lemma dset_not_Nil [simp]: "dset k v d \<noteq> []"
  by (cases d) auto

lemma dhas_dset_self [simp]: "dhas (dset k v d) k"
  by simp

lemma scope_status_ready:
  "scope_status kp s t p es = IndexReady \<longleftrightarrow>
     (\<forall>e\<in>set es. dhas (ix_scope_entries (snd e)) (okb_scope_key t p) \<and> shard_in_sync kp s (okb_scope_key t p) t p e)"
  by (induction es) auto

lemma sync_statuses: "set (map ix_status (shards (okb_sync_index_scope kp now t p reason s))) \<subseteq> {IndexReady}"
  by (auto simp: shards_def okb_sync_index_scope_def)

text \<open>A synchronised scope is ready in every shard.\<close>

lemma sync_makes_ready:
  assumes "kb_storage_mode s \<noteq> ''disabled''"
  shows "okb_overall_status kp (okb_sync_index_scope kp now t p reason s) (Some t) (Some p) = IndexReady"
proof -
  let ?s = "okb_sync_index_scope kp now t p reason s"
  have "\<forall>e\<in>set (kb_okb_indexes ?s). dhas (ix_scope_entries (snd e)) (okb_scope_key t p) \<and> shard_in_sync kp ?s (okb_scope_key t p) t p e"
    by (auto simp: okb_sync_index_scope_def shard_in_sync_def dget_or_def okb_expected_scope_entries_def okb_scope_snapshot_def)
  then have "scope_status kp ?s t p (kb_okb_indexes ?s) = IndexReady" by (simp only: scope_status_ready)
  moreover have "kb_storage_mode ?s = kb_storage_mode s" by (simp add: okb_sync_index_scope_def)
  ultimately show ?thesis using assms sync_statuses [of kp now t p reason s] by (auto simp: okb_overall_status_def)
qed

lemma ready_not_desynced:
  "okb_overall_status kp s (Some t) (Some p) = IndexReady \<Longrightarrow> \<not> ih_desynced (describe_index_health kp s (Some t) (Some p))"
  by (auto simp: okb_overall_status_def describe_index_health_def scope_shard_health_def Let_def list_ex_iff scope_status_ready
      split: if_splits)

lemma health_status [simp]: "ih_overall_status (describe_index_health kp s t p) = okb_overall_status kp s t p"
  by (simp add: describe_index_health_def Let_def split: option.splits)

lemma ensure_same_store: "same_store s (fst (okb_ensure_indexes_ready kp now t p s))"
  by (simp add: okb_ensure_indexes_ready_def Let_def rebuild_same_store)

text \<open>A query always finds its scope ready, whatever state the indexes were in.\<close>

lemma ensure_ready:
  assumes "clean_tenant t" "kb_storage_mode s \<noteq> ''disabled''"
  shows "ih_overall_status (snd (okb_ensure_indexes_ready kp now t p s)) = IndexReady
    \<and> \<not> ih_desynced (snd (okb_ensure_indexes_ready kp now t p s))"
proof -
  have "fst (rebuild_indexes_locked kp now (Some t) (Some p) ''recovery'' s) = okb_sync_index_scope kp now t p ''recovery'' s"
    using scope_tuple_key [of t p] assms(1) by (simp add: rebuild_indexes_locked_def okb_target_scopes_def Let_def)
  then show ?thesis using sync_makes_ready [OF assms(2), of kp now t p "''recovery''"] ready_not_desynced
    by (simp add: okb_ensure_indexes_ready_def Let_def)
qed

text \<open>The entries a query reads are then those of its own scope, in the order of its mode.\<close>

lemma ready_entries:
  assumes "okb_overall_status kp s (Some t) (Some p) = IndexReady" "dget (kb_okb_indexes s) mode = Some shard"
  shows "dget_or (ix_scope_entries shard) (okb_scope_key t p) [] = okb_expected_scope_entries kp s t p mode"
  using assms map_of_SomeD [OF assms(2)]
  by (auto simp: okb_overall_status_def scope_status_ready shard_in_sync_def split: if_splits)

section \<open>Scopes that lost their sources\<close>

lemma expected_empty:
  assumes "kb_records s = []" "kb_decision_logs s = []"
  shows "okb_expected_scope_entries kp s t p mode = []"
  using assms by (simp add: okb_expected_scope_entries_def okb_scope_snapshot_def okb_order_scope_snapshot_def)

lemma rebuild_nothing:
  assumes "kb_records s = []" "kb_decision_logs s = []"
  shows "rebuild_indexes_locked kp now None None reason s =
    (s\<lparr>kb_okb_indexes := map (\<lambda>(mode, shard). (mode, ready_shard kp (kb_sequence s) shard)) (kb_okb_indexes s)\<rparr>, IndexReady)"
  using assms by (simp add: rebuild_indexes_locked_def okb_target_scopes_def)

lemma ready_shard_simps [simp]:
  "ix_scope_entries (ready_shard kp n shard) = ix_scope_entries shard" "ix_status (ready_shard kp n shard) = IndexReady"
  by (simp_all add: ready_shard_def)

lemma filed_scope_mem: "(mode, shard) \<in> set (kb_okb_indexes s) \<Longrightarrow> dhas (ix_scope_entries shard) key \<Longrightarrow> key \<in> set (filed_scopes s)"
  unfolding dhas_iff filed_scopes_def shards_def by (auto intro!: bexI [of _ "(mode, shard)"])

lemma stale_entries_degrade:
  assumes store: "kb_records s = []" "kb_decision_logs s = []" "kb_storage_mode s \<noteq> ''disabled''"
    and stale: "(mode, shard) \<in> set (kb_okb_indexes s)" "dget_or (ix_scope_entries shard) key [] \<noteq> []"
  shows "okb_overall_status kp (fst (rebuild_indexes_locked kp now None None reason s)) None None = IndexDegraded"
proof -
  let ?u = "fst (rebuild_indexes_locked kp now None None reason s)"
  have u: "kb_records ?u = []" "kb_decision_logs ?u = []" "kb_storage_mode ?u \<noteq> ''disabled''"
    "(mode, ready_shard kp (kb_sequence s) shard) \<in> set (kb_okb_indexes ?u)" "set (map ix_status (shards ?u)) \<subseteq> {IndexReady}"
    using store stale(1) by (auto simp: rebuild_nothing [OF store(1,2)] shards_def image_iff intro: bexI [of _ "(mode, shard)"])
  have "dhas (ix_scope_entries shard) key" using stale(2) by (auto simp: dhas_def dget_or_def split: option.splits)
  then have "key \<in> set (filed_scopes ?u)"
    using filed_scope_mem [OF u(4)] by simp
  moreover have "\<not> list_all (shard_in_sync kp ?u key t p) (kb_okb_indexes ?u)" for t p
    using u(4) stale(2) by (fastforce simp: list_all_iff shard_in_sync_def expected_empty [OF u(1,2)])
  ultimately have "\<not> list_all (\<lambda>key. case okb_scope_tuple key of (t, p) \<Rightarrow> list_all (shard_in_sync kp ?u key t p) (kb_okb_indexes ?u)) (filed_scopes ?u)"
    unfolding list_all_iff [of _ "filed_scopes ?u"] by (auto simp: case_prod_beta')
  then show ?thesis using u(3,5) by (auto simp: okb_overall_status_def)
qed

end
