(* ===== verification/KbLearning.thy ===== *)
theory KbLearning
  imports KbIndexes
begin

text \<open>
  The learning registry of the knowledge base (\<open>knowledge_base.py\<close>, lines 1101 to 1245, 1653 to 1866 and 3025 to 3289):
  retention, evidence with its quarantine flag, datasets assembled from it, and the lifecycle of models. An operation takes
  the time of the call and maps the state to the new state and a result; an operation that raises keeps what it had already
  written. Dictionaries the code builds with fixed keys are records; datasets stay dictionaries, since two operations file
  them with different keys.
\<close>

section \<open>Operations\<close>

type_synonym 'a kb_op = "kb_state \<Rightarrow> kb_state \<times> (kb_failure, 'a) result"

definition kb_then :: "kb_state \<times> (kb_failure, 'a) result \<Rightarrow> ('a \<Rightarrow> 'b kb_op) \<Rightarrow> kb_state \<times> (kb_failure, 'b) result" where
  "kb_then r f = (case r of (s, Inl e) \<Rightarrow> (s, Inl e) | (s, Inr x) \<Rightarrow> f x s)"

definition kb_py :: "(pyexn, 'a) result \<Rightarrow> (kb_failure, 'a) result" where
  "kb_py r = (case r of Inl e \<Rightarrow> Inl (KbPy e) | Inr x \<Rightarrow> Inr x)"

text \<open>\<open>except KnowledgeBaseUnavailable: raise; except Exception: raise KnowledgeBaseUnavailable("redaction failure")\<close>\<close>

fun redaction_failure :: "kb_failure \<Rightarrow> kb_failure" where
  "redaction_failure (KbUnavailable m) = KbUnavailable m"
| "redaction_failure _ = KbUnavailable ''redaction failure''"

definition kb_guarded :: "kb_state \<times> (kb_failure, 'a) result \<Rightarrow> kb_state \<times> (kb_failure, 'a) result" where
  "kb_guarded r = (case r of (s, Inl e) \<Rightarrow> (s, Inl (redaction_failure e)) | (s, Inr x) \<Rightarrow> (s, Inr x))"

definition kb_count :: "string \<Rightarrow> bool \<Rightarrow> kb_state \<Rightarrow> kb_state" where
  "kb_count kind hit s = s\<lparr>kb_obs := record_kb_query kind hit (kb_obs s)\<rparr>"

section \<open>Retention\<close>

text \<open>\<open>summary["updated_at"]\<close> raises \<open>KeyError\<close> on a dataset without that key.\<close>

definition dataset_time :: "kb_platform \<Rightarrow> int \<Rightarrow> json_dict \<Rightarrow> (pyexn, int) result" where
  "dataset_time kp now d =
     (case dget d ''updated_at'' of
        None \<Rightarrow> Inl (KeyError ''updated_at'')
      | Some (PStr v) \<Rightarrow> Inr (parse_iso_datetime kp now v)
      | Some _ \<Rightarrow> Inr now)"

definition dataset_gc ::
  "kb_platform \<Rightarrow> int \<Rightarrow> int \<Rightarrow> scope3 \<times> (string, json_dict) dict \<Rightarrow> (pyexn, (scope3 \<times> (string, json_dict) dict) list) result" where
  "dataset_gc kp now cutoff e =
     rbind (rmap (\<lambda>(v, d). rbind (dataset_time kp now d) (\<lambda>t. Inr ((v, d), cutoff \<le> t))) (snd e)) (\<lambda>vs.
       Inr (if list_ex snd vs then [(fst e, map fst (filter snd vs))] else []))"

definition gc_primary :: "kb_platform \<Rightarrow> int \<Rightarrow> int \<Rightarrow> kb_state \<Rightarrow> kb_state" where
  "gc_primary kp now cutoff s =
     s\<lparr>kb_records := filter (\<lambda>(_, e). cutoff \<le> sr_created_at e) (kb_records s),
       kb_decision_logs := filter (\<lambda>e. cutoff \<le> sd_decided_at e) (kb_decision_logs s),
       kb_learning_evidence := filter (\<lambda>e. cutoff \<le> parse_iso_datetime kp now (le_created_at e)) (kb_learning_evidence s),
       kb_learning_models := filter (\<lambda>(_, m). cutoff \<le> parse_iso_datetime kp now (lm_updated_at m)) (kb_learning_models s)\<rparr>"

text \<open>A cutoff before the year 1 cannot be represented.\<close>

definition gc_locked :: "kb_platform \<Rightarrow> int \<Rightarrow> unit kb_op" where
  "gc_locked kp now s =
     (let cutoff = now - kb_retention_seconds s * 1000000 in
      if cutoff < - 62135596800000000 then (s, Inl (KbPy OverflowError))
      else
        (let s1 = gc_primary kp now cutoff s in
         case rmap (dataset_gc kp now cutoff) (kb_learning_datasets s) of
           Inl e \<Rightarrow> (s1, Inl (KbPy e))
         | Inr ds \<Rightarrow>
             (let s2 = s1\<lparr>kb_learning_datasets := concat ds\<rparr> in
              (if length (kb_records s2) \<noteq> length (kb_records s) \<or> length (kb_decision_logs s2) \<noteq> length (kb_decision_logs s)
               then fst (rebuild_indexes_locked kp now None None ''gc'' s2) else s2, Inr ()))))"

text \<open>\<open>rebuild_indexes\<close>, \<open>recover_indexes\<close> and \<open>backfill_indexes\<close> differ in the reason they give.\<close>

definition scope_arg :: "kb_platform \<Rightarrow> json_dict \<Rightarrow> string \<Rightarrow> string option" where
  "scope_arg kp payload k = (let t = field_text kp payload k in if t = [] then None else Some t)"

definition rebuild_indexes_op :: "kb_platform \<Rightarrow> int \<Rightarrow> string \<Rightarrow> json_dict \<Rightarrow> index_status kb_op" where
  "rebuild_indexes_op kp now reason payload s =
     kb_then (gc_locked kp now s) (\<lambda>_ s.
       case rebuild_indexes_locked kp now (scope_arg kp payload ''tenant_id'') (scope_arg kp payload ''project_id'') reason s of
         (u, st) \<Rightarrow> (u, Inr st))"

definition rebuild_indexes :: "kb_platform \<Rightarrow> int \<Rightarrow> json_dict \<Rightarrow> index_status kb_op" where
  "rebuild_indexes kp now payload = rebuild_indexes_op kp now ''rebuild'' payload"

definition recover_indexes :: "kb_platform \<Rightarrow> int \<Rightarrow> json_dict \<Rightarrow> index_status kb_op" where
  "recover_indexes kp now payload = rebuild_indexes_op kp now ''recovery'' payload"

definition backfill_indexes :: "kb_platform \<Rightarrow> int \<Rightarrow> json_dict \<Rightarrow> index_status kb_op" where
  "backfill_indexes kp now payload = rebuild_indexes_op kp now ''backfill'' payload"

section \<open>Evidence\<close>

definition LEARNING_QUARANTINE_KEYS :: "string list" where
  "LEARNING_QUARANTINE_KEYS = [''user_id'', ''client_ip'', ''email'', ''subject'', ''raw_payload'', ''unredacted_payload'']"

definition quarantine_entry :: "string \<Rightarrow> pyval \<Rightarrow> bool" where
  "quarantine_entry k v \<longleftrightarrow> py_lower (py_strip k) \<in> set LEARNING_QUARANTINE_KEYS \<and> v \<notin> {PStr [], PNone, PDict [], PList []}"

fun contains_quarantine_fields :: "pyval \<Rightarrow> bool" where
  "contains_quarantine_fields (PDict d) = list_ex (\<lambda>(k, v). quarantine_entry k v \<or> contains_quarantine_fields v) d"
| "contains_quarantine_fields (PList xs) = list_ex (\<lambda>x. is_dict x \<and> contains_quarantine_fields x) xs"
| "contains_quarantine_fields _ = False"

text \<open>The arguments of \<open>_learning_store_evidence\<close>; its parameter \<open>capability_scope\<close> is overwritten before use.\<close>

record evidence_args =
  ea_source :: string
  ea_evidence_kind :: string
  ea_tenant_id :: string
  ea_project_id :: string
  ea_payload :: json_dict
  ea_model_version :: string
  ea_training_set_hash :: string
  ea_evaluation_bundle_hash :: string
  ea_promotion_policy_version :: string
  ea_lifecycle_state :: string
  ea_quarantine_state :: string
  ea_gate_results :: vdict
  ea_metadata :: vdict
  ea_command :: string
  ea_decision :: string

definition evidence_fields :: "kb_platform \<Rightarrow> evidence_args \<Rightarrow> string list \<Rightarrow> vdict \<Rightarrow> json_dict \<Rightarrow> string \<Rightarrow> json_dict" where
  "evidence_fields kp a scope md payload created_at =
     [(''tenant_id'', PStr (ea_tenant_id a)), (''project_id'', PStr (ea_project_id a)), (''capability_scope'', strs scope),
      (''source'', PStr (ea_source a)), (''evidence_kind'', PStr (str_else (py_lower (py_strip (ea_evidence_kind a))) ''learning'')),
      (''model_version'', PStr (ea_model_version a)), (''training_set_hash'', PStr (ea_training_set_hash a)),
      (''evaluation_bundle_hash'', PStr (ea_evaluation_bundle_hash a)),
      (''promotion_policy_version'', PStr (ea_promotion_policy_version a)),
      (''lifecycle_state'', PStr (if ea_lifecycle_state a = [] then ''DRAFT'' else py_upper (ea_lifecycle_state a))),
      (''quarantine_state'', PStr (ea_quarantine_state a)), (''gate_results'', vdict_json kp (ea_gate_results a)),
      (''metadata'', vdict_json kp md), (''command'', PStr (ea_command a)), (''decision'', PStr (ea_decision a)),
      (''payload'', PDict payload), (''created_at'', PStr created_at)]"

definition evidence_of ::
  "kb_platform \<Rightarrow> int \<Rightarrow> kb_state \<Rightarrow> evidence_args \<Rightarrow> string list \<Rightarrow> (pyexn, learning_evidence) result" where
  "evidence_of kp now s a scope =
     rbind (anonymize_vdict kp (kb_anon_salt s) (kb_anon_epoch s) (ea_metadata a)) (\<lambda>md.
     rbind (anonymize_json kp (kb_anon_salt s) (kb_anon_epoch s) (ea_payload a)) (\<lambda>payload.
       let fields = evidence_fields kp a scope md payload (kp_iso kp now) in
       rbind (stable_hash kp (PDict fields)) (\<lambda>hash1.
       rbind (stable_json (PDict (fields @ [(''evidence_hash'', PStr hash1)]))) (\<lambda>whole.
         let evidence_id = py_str (kp_sec kp) (val_or (vget (ea_payload a) ''evidence_id'') (PStr (''evid_'' @ take 24 (kp_sha256 kp whole)))) in
         Inr \<lparr>le_evidence_id = evidence_id, le_tenant_id = ea_tenant_id a, le_project_id = ea_project_id a, le_capability_scope = scope,
              le_evidence_kind = str_else (py_lower (py_strip (ea_evidence_kind a))) ''learning'', le_evidence_hash = hash1,
              le_model_version = ea_model_version a, le_training_set_hash = ea_training_set_hash a,
              le_evaluation_bundle_hash = ea_evaluation_bundle_hash a, le_promotion_policy_version = ea_promotion_policy_version a,
              le_lifecycle_state = (if ea_lifecycle_state a = [] then ''DRAFT'' else py_upper (ea_lifecycle_state a)),
              le_quarantine_state = ea_quarantine_state a, le_source = ea_source a, le_command = ea_command a, le_decision = ea_decision a,
              le_gate_results = ea_gate_results a, le_metadata = md, le_payload = payload, le_created_at = kp_iso kp now,
              le_queryable_ref = ''kb://learning/'' @ evidence_id\<rparr>))))"

definition model_of_evidence :: "learning_evidence \<Rightarrow> learning_model" where
  "model_of_evidence e =
     \<lparr>lm_tenant_id = le_tenant_id e, lm_project_id = le_project_id e, lm_model_version = le_model_version e,
      lm_training_set_hash = le_training_set_hash e, lm_evaluation_bundle_hash = le_evaluation_bundle_hash e,
      lm_promotion_policy_version = le_promotion_policy_version e, lm_lifecycle_state = le_lifecycle_state e,
      lm_gate_results = le_gate_results e, lm_updated_at = le_created_at e,
      lm_queryable_ref = ''kb://models/'' @ le_model_version e, lm_evidence_ref = PStr (le_queryable_ref e),
      lm_quarantine_state = le_quarantine_state e\<rparr>"

definition file_evidence :: "learning_evidence \<Rightarrow> kb_state \<Rightarrow> kb_state" where
  "file_evidence e s =
     (let s1 = s\<lparr>kb_learning_evidence := kb_learning_evidence s @ [e]\<rparr> in
      if le_model_version e = [] then s1
      else s1\<lparr>kb_learning_models := dset (le_tenant_id e, le_project_id e, le_model_version e) (model_of_evidence e) (kb_learning_models s)\<rparr>)"

definition learning_store_evidence :: "kb_platform \<Rightarrow> int \<Rightarrow> evidence_args \<Rightarrow> learning_evidence kb_op" where
  "learning_store_evidence kp now a s =
     (case capability_scope_tokens kp (ea_payload a) of
        Inl e \<Rightarrow> (s, Inl (KbPy e))
      | Inr scope \<Rightarrow>
          (case evidence_of kp now s a scope of
             Inl e \<Rightarrow> (s, Inl (KbUnavailable ''redaction failure''))
           | Inr e \<Rightarrow> (file_evidence e s, Inr e)))"

definition text_or :: "string \<Rightarrow> string \<Rightarrow> string" where
  "text_or t dflt = str_else (py_strip t) dflt"

definition learning_args :: "kb_platform \<Rightarrow> json_dict \<Rightarrow> (pyexn, evidence_args) result" where
  "learning_args kp payload =
     (let envelope = payload_envelope_of kp payload in
      rbind (field_vdict payload ''gate_results'') (\<lambda>gates.
      rbind (field_vdict payload ''metadata'') (\<lambda>md.
        Inr \<lparr>ea_source = text_or (field_str kp payload ''source'' ''manual'') ''manual'',
             ea_evidence_kind = text_or (field_str kp payload ''evidence_kind'' ''learning'') ''learning'',
             ea_tenant_id = pv_tenant_id envelope, ea_project_id = pv_project_id envelope, ea_payload = payload,
             ea_model_version = field_text kp payload ''model_version'', ea_training_set_hash = field_text kp payload ''training_set_hash'',
             ea_evaluation_bundle_hash = field_text kp payload ''evaluation_bundle_hash'',
             ea_promotion_policy_version = field_text kp payload ''promotion_policy_version'',
             ea_lifecycle_state = text_or (field_str kp payload ''lifecycle_state'' ''DRAFT'') ''DRAFT'',
             ea_quarantine_state = (if contains_quarantine_fields (PDict payload) then ''quarantine'' else ''none''),
             ea_gate_results = gates, ea_metadata = md, ea_command = field_text kp payload ''command'',
             ea_decision = field_text kp payload ''decision''\<rparr>)))"

definition storage_unavailable :: "kb_state \<Rightarrow> bool" where
  "storage_unavailable s \<longleftrightarrow> kb_storage_mode s = ''disabled''"

definition no_storage :: kb_failure where
  "no_storage = KbUnavailable ''knowledge base storage unavailable''"

definition ingest_learning_evidence :: "kb_platform \<Rightarrow> int \<Rightarrow> json_dict \<Rightarrow> string kb_op" where
  "ingest_learning_evidence kp now payload s =
     (if storage_unavailable s then (s, Inl no_storage)
      else
        kb_then (kb_guarded
            (kb_then (gc_locked kp now s) (\<lambda>_ s.
             kb_then (s, kb_py (learning_args kp payload)) (\<lambda>a s. learning_store_evidence kp now a s))))
          (\<lambda>e s. (kb_count ''learning_evidence'' True s, Inr (le_evidence_id e))))"

section \<open>Reading evidence\<close>

definition evidence_in_scope :: "payload_envelope \<Rightarrow> learning_evidence \<Rightarrow> bool" where
  "evidence_in_scope env e \<longleftrightarrow> le_tenant_id e = pv_tenant_id env \<and> le_project_id e = pv_project_id env"

definition evidence_matches :: "kb_platform \<Rightarrow> json_dict \<Rightarrow> learning_evidence \<Rightarrow> bool" where
  "evidence_matches kp payload e \<longleftrightarrow>
     (let kind = py_lower (field_text kp payload ''evidence_kind''); version = field_text kp payload ''model_version'';
          state = py_upper (field_text kp payload ''lifecycle_state'') in
      evidence_in_scope (payload_envelope_of kp payload) e
      \<and> (kind = [] \<or> le_evidence_kind e = kind) \<and> (version = [] \<or> le_model_version e = version)
      \<and> (state = [] \<or> le_lifecycle_state e = state)
      \<and> scope_within (le_capability_scope e) (requested_scope_tokens kp payload))"

definition evidence_listing :: "kb_platform \<Rightarrow> json_dict \<Rightarrow> kb_state \<Rightarrow> learning_evidence list" where
  "evidence_listing kp payload s =
     sort_key (\<lambda>e. (le_created_at e, le_evidence_id e)) (filter (evidence_matches kp payload) (kb_learning_evidence s))"

record evidence_view =
  vw_evidence_id :: string
  vw_tenant_id :: string
  vw_project_id :: string
  vw_evidence_kind :: string
  vw_evidence_hash :: string
  vw_model_version :: string
  vw_training_set_hash :: string
  vw_evaluation_bundle_hash :: string
  vw_promotion_policy_version :: string
  vw_lifecycle_state :: string
  vw_quarantine_state :: string
  vw_queryable_ref :: string
  vw_metadata :: vdict
  vw_created_at :: string

definition learning_public_view :: "learning_evidence \<Rightarrow> evidence_view" where
  "learning_public_view e =
     \<lparr>vw_evidence_id = le_evidence_id e, vw_tenant_id = le_tenant_id e, vw_project_id = le_project_id e,
      vw_evidence_kind = le_evidence_kind e, vw_evidence_hash = le_evidence_hash e, vw_model_version = le_model_version e,
      vw_training_set_hash = le_training_set_hash e, vw_evaluation_bundle_hash = le_evaluation_bundle_hash e,
      vw_promotion_policy_version = le_promotion_policy_version e, vw_lifecycle_state = le_lifecycle_state e,
      vw_quarantine_state = le_quarantine_state e, vw_queryable_ref = le_queryable_ref e, vw_metadata = le_metadata e,
      vw_created_at = le_created_at e\<rparr>"

record evidence_page =
  ep_evidence :: "evidence_view list"
  ep_next_page_token :: string
  ep_total_count :: nat

definition page_offset :: "string \<Rightarrow> int" where
  "page_offset token = (if token = [] then 0 else case py_int token of None \<Rightarrow> 0 | Some i \<Rightarrow> max i 0)"

definition page_window :: "int \<Rightarrow> int \<Rightarrow> 'a list \<Rightarrow> 'a list" where
  "page_window offset page_size xs = take (nat page_size) (drop (nat offset) xs)"

definition scope_resource :: "payload_envelope \<Rightarrow> string" where
  "scope_resource env = pv_tenant_id env @ ''/'' @ pv_project_id env"

definition kb_audit ::
  "grpc_call option \<Rightarrow> security_context \<Rightarrow> string \<Rightarrow> string \<Rightarrow> string \<Rightarrow> string \<Rightarrow> nat option \<Rightarrow> bool \<Rightarrow> string \<Rightarrow> unit kb_op" where
  "kb_audit call ctx version operation decision reason result_count hit resource s =
     (case audit_retrieval call ctx version operation decision reason result_count hit resource (kb_obs s) of
        Inl e \<Rightarrow> (s, Inl e)
      | Inr o1 \<Rightarrow> (s\<lparr>kb_obs := o1\<rparr>, Inr ()))"

definition query_learning_evidence :: "kb_platform \<Rightarrow> int \<Rightarrow> json_dict \<Rightarrow> grpc_call option \<Rightarrow> evidence_page kb_op" where
  "query_learning_evidence kp now payload call s =
     (if storage_unavailable s then (s, Inl no_storage)
      else
        kb_then (s, kb_py (capability_scope_tokens kp payload)) (\<lambda>_ s.
        kb_then (s, retrieval_security_context kp call ''query_learning_evidence'') (\<lambda>(ctx, version) s.
        kb_then (s, kb_py (field_int kp payload ''page_size'' 50)) (\<lambda>requested s.
        kb_then (gc_locked kp now s) (\<lambda>_ s.
          let env = payload_envelope_of kp payload; page_size = page_size_of requested;
              offset = page_offset (field_text kp payload ''page_token'');
              filtered = evidence_listing kp payload s; window = page_window offset page_size filtered in
          kb_then (kb_audit call ctx version ''query_learning_evidence'' ''allow'' (if window \<noteq> [] then ''KB_QUERY_HIT'' else ''KB_QUERY_EMPTY'')
              (Some (length window)) (window \<noteq> []) (scope_resource env) s) (\<lambda>_ s.
            (kb_count ''learning_evidence'' (window \<noteq> []) s,
             Inr \<lparr>ep_evidence = map learning_public_view window,
                  ep_next_page_token = (if offset + page_size < int (length filtered) then show_int (offset + page_size) else []),
                  ep_total_count = length filtered\<rparr>)))))))"

section \<open>Learning policy\<close>

record learning_policy =
  lp_policy_version :: string
  lp_trigger_min_records :: int
  lp_trigger_min_runtime_decisions :: int
  lp_trigger_min_benchmark_runs :: int
  lp_retention_days :: int
  lp_quarantine_on_invalid :: bool

definition normalize_learning_policy :: "kb_platform \<Rightarrow> json_dict \<Rightarrow> (pyexn, learning_policy) result" where
  "normalize_learning_policy kp payload =
     rbind (field_int kp payload ''trigger_min_records'' 1000) (\<lambda>records.
     rbind (field_int kp payload ''trigger_min_runtime_decisions'' 10) (\<lambda>decisions.
     rbind (field_int kp payload ''trigger_min_benchmark_runs'' 3) (\<lambda>runs.
     rbind (field_int kp payload ''retention_days'' 90) (\<lambda>days.
       Inr \<lparr>lp_policy_version = text_or (field_str kp payload ''policy_version'' ''learning-policy-v1'') ''learning-policy-v1'',
            lp_trigger_min_records = max records 1, lp_trigger_min_runtime_decisions = max decisions 1,
            lp_trigger_min_benchmark_runs = max runs 1, lp_retention_days = max days 1,
            lp_quarantine_on_invalid = field_bool payload ''quarantine_on_invalid'' True\<rparr>))))"

definition policy_json :: "learning_policy \<Rightarrow> pyval" where
  "policy_json pol =
     PDict [(''policy_version'', PStr (lp_policy_version pol)), (''trigger_min_records'', PInt (lp_trigger_min_records pol)),
       (''trigger_min_runtime_decisions'', PInt (lp_trigger_min_runtime_decisions pol)),
       (''trigger_min_benchmark_runs'', PInt (lp_trigger_min_benchmark_runs pol)), (''retention_days'', PInt (lp_retention_days pol)),
       (''quarantine_on_invalid'', PBool (lp_quarantine_on_invalid pol))]"

section \<open>Assembled datasets\<close>

definition LEARNING_KINDS :: "string list" where
  "LEARNING_KINDS = [''learning'', ''optimizer'', ''runtime'', ''benchmark'', ''dataset'']"

definition scoped_evidence :: "kb_platform \<Rightarrow> json_dict \<Rightarrow> kb_state \<Rightarrow> learning_evidence list" where
  "scoped_evidence kp payload s =
     (let version = field_text kp payload ''model_version'' in
      filter (\<lambda>e. evidence_in_scope (payload_envelope_of kp payload) e \<and> (version = [] \<or> le_model_version e = version)
        \<and> scope_within (le_capability_scope e) (requested_scope_tokens kp payload)) (kb_learning_evidence s))"

definition of_kind :: "string \<Rightarrow> learning_evidence list \<Rightarrow> learning_evidence list" where
  "of_kind kind es = filter (\<lambda>e. le_evidence_kind e = kind) es"

definition dataset_triggered :: "learning_policy \<Rightarrow> learning_evidence list \<Rightarrow> bool" where
  "dataset_triggered pol scoped \<longleftrightarrow>
     lp_trigger_min_records pol \<le> int (length (filter (\<lambda>e. le_evidence_kind e \<in> set LEARNING_KINDS) scoped))
     \<and> lp_trigger_min_runtime_decisions pol \<le> int (length (of_kind ''runtime'' scoped))
     \<and> lp_trigger_min_benchmark_runs pol \<le> int (length (of_kind ''benchmark'' scoped))"

definition lineage_json :: "learning_evidence \<Rightarrow> pyval" where
  "lineage_json e =
     PDict [(''model_version'', PStr (le_model_version e)), (''training_set_hash'', PStr (le_training_set_hash e)),
       (''evaluation_bundle_hash'', PStr (le_evaluation_bundle_hash e)),
       (''promotion_policy_version'', PStr (le_promotion_policy_version e)), (''lifecycle_state'', PStr (le_lifecycle_state e)),
       (''quarantine_state'', PStr (le_quarantine_state e))]"

definition assembled_id :: "kb_platform \<Rightarrow> json_dict \<Rightarrow> learning_policy \<Rightarrow> learning_evidence list \<Rightarrow> string" where
  "assembled_id kp payload pol sorted_evidence =
     (let env = payload_envelope_of kp payload in
      py_str (kp_sec kp) (val_or (vget payload ''dataset_id'') (PStr (''ds_'' @ take 24 (kp_sha256 kp (raw_text (canon
        (PDict [(''tenant_id'', PStr (pv_tenant_id env)), (''project_id'', PStr (pv_project_id env)), (''policy'', policy_json pol),
          (''model_version'', PStr (field_text kp payload ''model_version'')),
          (''evidence_ids'', strs (map le_evidence_id sorted_evidence))]))))))))"

definition assembled_summary ::
  "kb_platform \<Rightarrow> json_dict \<Rightarrow> learning_policy \<Rightarrow> learning_evidence list \<Rightarrow> learning_evidence list \<Rightarrow> json_dict" where
  "assembled_summary kp payload pol scoped sorted_evidence =
     (let env = payload_envelope_of kp payload; version = field_text kp payload ''model_version'';
          dataset_id = assembled_id kp payload pol sorted_evidence; triggered = dataset_triggered pol scoped in
      [(''dataset_id'', PStr dataset_id), (''dataset_version'', PStr (str_else version (lp_policy_version pol))),
       (''tenant_id'', PStr (pv_tenant_id env)), (''project_id'', PStr (pv_project_id env)),
       (''policy_version'', PStr (lp_policy_version pol)), (''model_version'', PStr version), (''triggered'', PBool triggered),
       (''assembly_state'', PStr (if triggered then ''assembled'' else ''held'')),
       (''quarantine_state'', PStr (if list_ex (\<lambda>e. le_quarantine_state e \<noteq> ''none'') scoped then ''quarantine'' else ''none'')),
       (''retention_days'', PInt (lp_retention_days pol)), (''evidence_ids'', strs (map le_evidence_id sorted_evidence)),
       (''runtime_decision_ids'',
          strs (map (\<lambda>e. str_else (le_command e) (str_else (le_decision e) (le_evidence_id e))) (of_kind ''runtime'' scoped))),
       (''benchmark_record_ids'',
          PList (map (\<lambda>e. dget_or (le_metadata e) (PStr ''record_id'') (PStr (le_evidence_id e))) (of_kind ''benchmark'' scoped))),
       (''model_lineage'', PList (map lineage_json (filter (\<lambda>e. le_model_version e \<noteq> []) sorted_evidence))),
       (''policy'', policy_json pol), (''queryable_ref'', PStr (''kb://datasets/'' @ dataset_id))])"

definition file_dataset :: "scope3 \<Rightarrow> string \<Rightarrow> json_dict \<Rightarrow> kb_state \<Rightarrow> kb_state" where
  "file_dataset key version d s =
     s\<lparr>kb_learning_datasets := dset key (dset version d (dget_or (kb_learning_datasets s) key [])) (kb_learning_datasets s)\<rparr>"

definition assemble_learning_dataset :: "kb_platform \<Rightarrow> int \<Rightarrow> json_dict \<Rightarrow> json_dict kb_op" where
  "assemble_learning_dataset kp now payload s =
     (if storage_unavailable s then (s, Inl no_storage)
      else
        kb_then (s, kb_py (capability_scope_tokens kp payload)) (\<lambda>_ s.
        kb_then (s, kb_py (normalize_learning_policy kp payload)) (\<lambda>pol s.
        kb_then (gc_locked kp now s) (\<lambda>_ s.
          let env = payload_envelope_of kp payload; scoped = scoped_evidence kp payload s;
              sorted_evidence = sort_key (\<lambda>e. (le_created_at e, le_evidence_id e)) (filter (\<lambda>e. le_evidence_kind e \<in> set LEARNING_KINDS) scoped);
              summary = assembled_summary kp payload pol scoped sorted_evidence in
          kb_then (s, kb_py (stable_hash kp (PDict summary))) (\<lambda>h s.
            let whole = summary @ [(''dataset_hash'', PStr h), (''evidence_hashes'', strs (map le_evidence_hash sorted_evidence))] in
            (kb_count ''learning_datasets'' (scoped \<noteq> [])
               (file_dataset (pv_tenant_id env, pv_project_id env, assembled_id kp payload pol sorted_evidence)
                  (str_else (field_text kp payload ''model_version'') (lp_policy_version pol)) whole s),
             Inr whole))))))"

definition learning_dataset_lookup :: "scope3 \<Rightarrow> string \<Rightarrow> kb_state \<Rightarrow> (kb_failure, json_dict option) result" where
  "learning_dataset_lookup key version s =
     (case dget_or (kb_learning_datasets s) key [] of
        [] \<Rightarrow> Inr None
      | versions \<Rightarrow>
          (if version \<noteq> [] then Inr (dget versions version)
           else case versions of [(_, d)] \<Rightarrow> Inr (Some d)
             | _ \<Rightarrow> Inl (KbValueError ''dataset_version is required when multiple versions exist'')))"

text \<open>\<open>json.loads(_stable_json(d))\<close>: a copy with its keys in order.\<close>

definition kb_json_copy :: "json_dict \<Rightarrow> (pyexn, json_dict) result" where
  "kb_json_copy d = rbind (stable_json (PDict d)) (\<lambda>_. Inr (sort_key fst (map (\<lambda>(k, v). (k, canon v)) d)))"

definition get_training_dataset :: "kb_platform \<Rightarrow> int \<Rightarrow> json_dict \<Rightarrow> grpc_call option \<Rightarrow> json_dict kb_op" where
  "get_training_dataset kp now payload call s =
     (let env = payload_envelope_of kp payload; dataset_id = field_text kp payload ''dataset_id'' in
      if storage_unavailable s then (s, Inl no_storage)
      else if dataset_id = [] then (s, Inl (KbValueError ''dataset_id is required''))
      else
        kb_then (s, retrieval_security_context kp call ''get_training_dataset'') (\<lambda>(ctx, version) s.
        kb_then (gc_locked kp now s) (\<lambda>_ s.
        kb_then (s, learning_dataset_lookup (pv_tenant_id env, pv_project_id env, dataset_id) (field_text kp payload ''dataset_version'') s) (\<lambda>found s.
          case found of
            None \<Rightarrow>
              kb_then (kb_audit call ctx version ''get_training_dataset'' ''deny'' ''KB_DATASET_NOT_FOUND'' None False dataset_id s) (\<lambda>_ s.
                (s, Inl (KbUnavailable ''dataset unavailable'')))
          | Some d \<Rightarrow>
              kb_then (kb_audit call ctx version ''get_training_dataset'' ''allow'' ''KB_DATASET_FOUND'' None True dataset_id s) (\<lambda>_ s.
                (kb_count ''learning_datasets'' True s, kb_py (kb_json_copy d)))))))"

section \<open>Model lifecycle\<close>

definition LEARNING_ALLOWED_STATES :: "string list" where
  "LEARNING_ALLOWED_STATES = [''DRAFT'', ''TRAINED'', ''VALIDATED'', ''SHADOW'', ''CANARY'', ''PROMOTED'', ''RETIRED'']"

definition LEARNING_ALLOWED_TRANSITIONS :: "(string, string list) dict" where
  "LEARNING_ALLOWED_TRANSITIONS =
     [(''DRAFT'', [''TRAINED'', ''RETIRED'']), (''TRAINED'', [''VALIDATED'', ''RETIRED'']), (''VALIDATED'', [''SHADOW'', ''RETIRED'']),
      (''SHADOW'', [''CANARY'', ''RETIRED'']), (''CANARY'', [''PROMOTED'', ''ROLLBACK_TO_VALIDATED'', ''RETIRED'']),
      (''PROMOTED'', [''ROLLBACK_TO_VALIDATED'', ''RETIRED'']), (''RETIRED'', [])]"

definition known_state :: "string \<Rightarrow> string" where
  "known_state st =
     (let up = (if st = [] then ''DRAFT'' else py_upper st) in if up \<in> set LEARNING_ALLOWED_STATES then up else ''DRAFT'')"

definition transition_allowed :: "string \<Rightarrow> string \<Rightarrow> bool" where
  "transition_allowed current target \<longleftrightarrow> target = current \<or> target \<in> set (dget_or LEARNING_ALLOWED_TRANSITIONS current [])"

record transition_result =
  tr_tenant_id :: string
  tr_project_id :: string
  tr_model_version :: string
  tr_previous_state :: string
  tr_current_state :: string
  tr_allowed_transitions :: "string list"
  tr_policy_version :: string
  tr_retention_days :: int
  tr_gate_results :: vdict
  tr_queryable_ref :: string
  tr_evidence_ref :: pyval
  tr_command :: string
  tr_updated_at :: string

definition learning_transition ::
  "kb_platform \<Rightarrow> int \<Rightarrow> scope3 \<Rightarrow> string \<Rightarrow> string \<Rightarrow> learning_policy \<Rightarrow> vdict \<Rightarrow> string \<Rightarrow> pyval \<Rightarrow> string \<Rightarrow> transition_result kb_op" where
  "learning_transition kp now key from_state to_state pol gates queryable_ref evidence_ref command s =
     (let (tenant_id, project_id, model_version) = key;
          current = known_state from_state; target = known_state to_state;
          old = dget (kb_learning_models s) key;
          model = \<lparr>lm_tenant_id = tenant_id, lm_project_id = project_id, lm_model_version = model_version,
            lm_training_set_hash = (case old of None \<Rightarrow> [] | Some m \<Rightarrow> lm_training_set_hash m),
            lm_evaluation_bundle_hash = (case old of None \<Rightarrow> [] | Some m \<Rightarrow> lm_evaluation_bundle_hash m),
            lm_promotion_policy_version = lp_policy_version pol, lm_lifecycle_state = target, lm_gate_results = gates,
            lm_updated_at = kp_iso kp now, lm_queryable_ref = queryable_ref, lm_evidence_ref = evidence_ref,
            lm_quarantine_state = ''none''\<rparr> in
      if \<not> transition_allowed current target
      then (s, Inl (KbPermissionError (''transition '' @ current @ '' -> '' @ target @ '' is not allowed'')))
      else
        (s\<lparr>kb_learning_models := dset key model (kb_learning_models s)\<rparr>,
         Inr \<lparr>tr_tenant_id = tenant_id, tr_project_id = project_id, tr_model_version = model_version, tr_previous_state = current,
              tr_current_state = target, tr_allowed_transitions = dget_or LEARNING_ALLOWED_TRANSITIONS target [],
              tr_policy_version = lp_policy_version pol, tr_retention_days = lp_retention_days pol, tr_gate_results = gates,
              tr_queryable_ref = queryable_ref, tr_evidence_ref = evidence_ref, tr_command = str_else command target,
              tr_updated_at = kp_iso kp now\<rparr>))"

text \<open>\<open>d[k]\<close> on a dataset.\<close>

definition dataset_item :: "json_dict \<Rightarrow> string \<Rightarrow> (kb_failure, pyval) result" where
  "dataset_item d k = (case dget d k of None \<Rightarrow> Inl (KbPy (KeyError k)) | Some v \<Rightarrow> Inr v)"

record dataset_ref =
  dr_dataset_id :: pyval
  dr_dataset_version :: pyval
  dr_dataset_digest :: pyval
  dr_manifest_digest :: pyval
  dr_record_count :: pyval

definition dataset_ref_of :: "json_dict \<Rightarrow> (kb_failure, dataset_ref) result" where
  "dataset_ref_of d =
     rbind (dataset_item d ''dataset_id'') (\<lambda>i. rbind (dataset_item d ''dataset_version'') (\<lambda>v.
     rbind (dataset_item d ''dataset_digest_sha256'') (\<lambda>g. rbind (dataset_item d ''manifest_digest_sha256'') (\<lambda>m.
     rbind (dataset_item d ''record_count'') (\<lambda>n.
       Inr \<lparr>dr_dataset_id = i, dr_dataset_version = v, dr_dataset_digest = g, dr_manifest_digest = m, dr_record_count = n\<rparr>)))))"

definition model_key :: "kb_platform \<Rightarrow> json_dict \<Rightarrow> scope3" where
  "model_key kp payload =
     (let env = payload_envelope_of kp payload in (pv_tenant_id env, pv_project_id env, field_text kp payload ''model_version''))"

definition found_dataset :: "kb_platform \<Rightarrow> json_dict \<Rightarrow> kb_state \<Rightarrow> (kb_failure, json_dict) result" where
  "found_dataset kp payload s =
     (let env = payload_envelope_of kp payload in
      rbind (learning_dataset_lookup (pv_tenant_id env, pv_project_id env, field_text kp payload ''dataset_id'')
               (field_text kp payload ''dataset_version'') s) (\<lambda>found.
        case found of None \<Rightarrow> Inl (KbUnavailable ''dataset unavailable'') | Some d \<Rightarrow> Inr d))"

definition start_training :: "kb_platform \<Rightarrow> int \<Rightarrow> json_dict \<Rightarrow> (transition_result \<times> dataset_ref) kb_op" where
  "start_training kp now payload s =
     (let version = field_text kp payload ''model_version'' in
      if storage_unavailable s then (s, Inl no_storage)
      else
        kb_then (s, kb_py (normalize_learning_policy kp payload)) (\<lambda>pol s.
        if version = [] \<or> field_text kp payload ''dataset_id'' = [] then (s, Inl (KbValueError ''model_version and dataset_id are required''))
        else
          kb_then (gc_locked kp now s) (\<lambda>_ s.
          kb_then (s, found_dataset kp payload s) (\<lambda>d s.
          kb_then (s, dataset_item d ''dataset_digest_sha256'') (\<lambda>digest s.
          kb_then (s, dataset_item d ''queryable_ref'') (\<lambda>ref s.
          kb_then (learning_transition kp now (model_key kp payload) ''DRAFT'' ''TRAINED'' pol [(PStr ''dataset_hash'', digest)]
              (''kb://models/'' @ version) ref [] s) (\<lambda>r s.
          kb_then (s, dataset_ref_of d) (\<lambda>dr s. (kb_count ''learning_models'' True s, Inr (r, dr))))))))))"

record evaluation_result =
  er_transition :: transition_result
  er_shadow_validated :: bool
  er_canary_passed :: bool
  er_dataset :: dataset_ref

definition run_evaluation :: "kb_platform \<Rightarrow> int \<Rightarrow> json_dict \<Rightarrow> evaluation_result kb_op" where
  "run_evaluation kp now payload s =
     (let version = field_text kp payload ''model_version'' in
      if storage_unavailable s then (s, Inl no_storage)
      else
        kb_then (s, kb_py (normalize_learning_policy kp payload)) (\<lambda>pol s.
        kb_then (s, kb_py (field_vdict payload ''gate_results'')) (\<lambda>gates s.
        if version = [] \<or> field_text kp payload ''dataset_id'' = [] then (s, Inl (KbValueError ''model_version and dataset_id are required''))
        else
          kb_then (gc_locked kp now s) (\<lambda>_ s.
          kb_then (s, found_dataset kp payload s) (\<lambda>d s.
          kb_then (s, dataset_item d ''queryable_ref'') (\<lambda>ref s.
          kb_then (learning_transition kp now (model_key kp payload) ''TRAINED'' ''VALIDATED'' pol gates
              (''kb://models/'' @ version) ref [] s) (\<lambda>r s.
          kb_then (s, dataset_ref_of d) (\<lambda>dr s.
            (kb_count ''learning_models'' True s,
             Inr \<lparr>er_transition = r, er_shadow_validated = field_bool payload ''shadow_validated'' False,
                  er_canary_passed = field_bool payload ''canary_passed'' False, er_dataset = dr\<rparr>)))))))))"

definition promote_model :: "kb_platform \<Rightarrow> int \<Rightarrow> json_dict \<Rightarrow> transition_result kb_op" where
  "promote_model kp now payload s =
     (if storage_unavailable s then (s, Inl no_storage)
      else
        kb_then (s, kb_py (normalize_learning_policy kp payload)) (\<lambda>pol s.
        kb_then (s, kb_py (field_vdict payload ''gate_results'')) (\<lambda>gates s.
        if field_text kp payload ''model_version'' = [] then (s, Inl (KbValueError ''model_version is required''))
        else
          kb_then (gc_locked kp now s) (\<lambda>_ s.
            case dget (kb_learning_models s) (model_key kp payload) of
              None \<Rightarrow> (s, Inl (KbUnavailable ''model unavailable''))
            | Some m \<Rightarrow>
                (if \<not> field_bool payload ''shadow_validated'' False \<or> \<not> field_bool payload ''canary_passed'' False
                 then (s, Inl (KbPermissionError ''promotion requires shadow validation and canary pass''))
                 else
                   kb_then (learning_transition kp now (model_key kp payload) (lm_lifecycle_state m) ''PROMOTED'' pol gates
                       (lm_queryable_ref m) (lm_evidence_ref m) [] s) (\<lambda>r s.
                     (kb_count ''learning_models'' True s, Inr r)))))))"

definition rollback_model :: "kb_platform \<Rightarrow> int \<Rightarrow> json_dict \<Rightarrow> (transition_result \<times> bool) kb_op" where
  "rollback_model kp now payload s =
     (if storage_unavailable s then (s, Inl no_storage)
      else
        kb_then (s, kb_py (normalize_learning_policy kp payload)) (\<lambda>pol s.
        kb_then (s, kb_py (field_vdict payload ''gate_results'')) (\<lambda>gates s.
        if field_text kp payload ''model_version'' = [] then (s, Inl (KbValueError ''model_version is required''))
        else
          kb_then (gc_locked kp now s) (\<lambda>_ s.
            case dget (kb_learning_models s) (model_key kp payload) of
              None \<Rightarrow> (s, Inl (KbUnavailable ''model unavailable''))
            | Some m \<Rightarrow>
                kb_then (learning_transition kp now (model_key kp payload) (lm_lifecycle_state m) ''VALIDATED'' pol gates
                    (lm_queryable_ref m) (lm_evidence_ref m) ''ROLLBACK'' s) (\<lambda>r s.
                  (kb_count ''learning_models'' True s, Inr (r, True)))))))"

record model_view =
  mv_model :: learning_model
  mv_allowed_transitions :: "string list"
  mv_lineage :: "evidence_view list"

definition learning_collect_lineage :: "payload_envelope \<Rightarrow> string \<Rightarrow> kb_state \<Rightarrow> evidence_view list" where
  "learning_collect_lineage env version s =
     sort_key (\<lambda>v. (vw_model_version v, vw_evidence_id v))
       (map learning_public_view (filter (\<lambda>e. evidence_in_scope env e \<and> (version = [] \<or> le_model_version e = version)) (kb_learning_evidence s)))"

definition get_model_lifecycle :: "kb_platform \<Rightarrow> int \<Rightarrow> json_dict \<Rightarrow> grpc_call option \<Rightarrow> model_view kb_op" where
  "get_model_lifecycle kp now payload call s =
     (let version = field_text kp payload ''model_version'' in
      if storage_unavailable s then (s, Inl no_storage)
      else if version = [] then (s, Inl (KbValueError ''model_version is required''))
      else
        kb_then (s, retrieval_security_context kp call ''get_model_lifecycle'') (\<lambda>(ctx, policy_version) s.
        kb_then (gc_locked kp now s) (\<lambda>_ s.
          case dget (kb_learning_models s) (model_key kp payload) of
            None \<Rightarrow>
              kb_then (kb_audit call ctx policy_version ''get_model_lifecycle'' ''deny'' ''KB_MODEL_NOT_FOUND'' None False version s) (\<lambda>_ s.
                (s, Inl (KbUnavailable ''model unavailable'')))
          | Some m \<Rightarrow>
              kb_then (kb_audit call ctx policy_version ''get_model_lifecycle'' ''allow'' ''KB_MODEL_FOUND'' None True version s) (\<lambda>_ s.
                (kb_count ''learning_models'' True s,
                 Inr \<lparr>mv_model = m, mv_allowed_transitions = dget_or LEARNING_ALLOWED_TRANSITIONS (lm_lifecycle_state m) [],
                      mv_lineage = learning_collect_lineage (payload_envelope_of kp payload) (lm_model_version m) s\<rparr>)))))"

end
