(* ===== verification/KbStore.thy ===== *)
theory KbStore
  imports KbLearning
begin

text \<open>
  The record store of the knowledge base (\<open>knowledge_base.py\<close>, lines 577 to 760 and 2641 to 3012): authorisation and the
  request envelope, inserting records and decision logs, reading them page by page with cursors. A call of
  \<open>context.abort\<close> raises, so it ends an operation.
\<close>

section \<open>Requests\<close>

text \<open>The bytes of \<open>SerializeToString(deterministic=True)\<close> are a field of the request.\<close>

record api_request =
  rq_contract_version :: string
  rq_request_id :: string
  rq_traceparent :: string
  rq_tenant_id :: string
  rq_project_id :: string
  rq_client_version :: string
  rq_bytes :: string

record contract_envelope =
  ce_contract_version :: string
  ce_request :: api_request

record kb_envelope =
  ke_contract_version :: string
  ke_request_id :: string
  ke_traceparent :: string
  ke_trace_id :: string
  ke_tenant_id :: string
  ke_project_id :: string
  ke_client_version :: string
  ke_subject :: string
  ke_roles :: "string list"

text \<open>The pattern \<open>_SEMVER_RE\<close>; the version is stripped before.\<close>

definition semver_num :: "string \<Rightarrow> string option" where
  "semver_num s =
     (let d = takeWhile is_digit s in
      if d \<noteq> [] \<and> (d = ''0'' \<or> hd d \<noteq> CHR ''0'') then Some (dropWhile is_digit s) else None)"

definition semver_dot :: "string \<Rightarrow> string option" where
  "semver_dot s = (case s of c # t \<Rightarrow> if c = CHR ''.'' then Some t else None | [] \<Rightarrow> None)"

definition semver_char :: "char \<Rightarrow> bool" where
  "semver_char c \<longleftrightarrow> is_digit c \<or> (let n = ord c in (65 \<le> n \<and> n \<le> 90) \<or> (97 \<le> n \<and> n \<le> 122)) \<or> c = CHR ''.'' \<or> c = CHR ''-''"

definition semver_tail :: "string \<Rightarrow> bool" where
  "semver_tail s \<longleftrightarrow>
     (case s of [] \<Rightarrow> True | c # t \<Rightarrow> (c = CHR ''-'' \<or> c = CHR ''+'') \<and> t \<noteq> [] \<and> list_all semver_char t)"

definition is_semver :: "string \<Rightarrow> bool" where
  "is_semver s \<longleftrightarrow>
     (case Option.bind (semver_num s) (\<lambda>a. Option.bind (semver_dot a) (\<lambda>a. Option.bind (semver_num a) (\<lambda>b.
        Option.bind (semver_dot b) semver_num))) of None \<Rightarrow> False | Some rest \<Rightarrow> semver_tail rest)"

definition contract_version_from_envelope :: "contract_envelope \<Rightarrow> string" where
  "contract_version_from_envelope e =
     (let v = py_strip (str_else (ce_contract_version e) (str_else (rq_contract_version (ce_request e)) KB_CONTRACT_VERSION)) in
      if is_semver v then v else [])"

text \<open>\<open>(a or b or c).strip() or d\<close>\<close>

definition first_text :: "string list \<Rightarrow> string" where
  "first_text xs = (case filter (\<lambda>x. x \<noteq> []) xs of [] \<Rightarrow> [] | x # _ \<Rightarrow> py_strip x)"

definition lift_rpc :: "'a rpc \<Rightarrow> (kb_failure, 'a) result" where
  "lift_rpc r = (case r of Inl e \<Rightarrow> Inl (KbAbort e) | Inr x \<Rightarrow> Inr x)"

definition kb_md :: "grpc_call \<Rightarrow> string \<Rightarrow> string" where
  "kb_md call k = dget_or (call_metadata call) k []"

definition normalize_envelope :: "kb_platform \<Rightarrow> grpc_call \<Rightarrow> contract_envelope \<Rightarrow> (kb_failure, kb_envelope) result" where
  "normalize_envelope kp call e =
     (let version = contract_version_from_envelope e; rq = ce_request e; (subject, roles, auth_tenant) = auth_context (kp_sec kp) call;
          traceparent = first_text [rq_traceparent rq, kb_md call ''traceparent''] in
      if version = [] then
        lift_rpc (abort_invalid_argument ''validation failed'' [api_violation_of ''envelope.contract_version'' ''contract_version must be semver''])
      else if version \<noteq> KB_CONTRACT_VERSION then
        lift_rpc (abort_with_error_info FAILED_PRECONDITION (''unsupported public contract_version: '' @ version)
          ''EIGEN_PUBLIC_CONTRACT_VERSION_UNSUPPORTED'' ''eigen.api.v1''
          [(''contract_version'', version), (''supported_contract_version'', KB_CONTRACT_VERSION)])
      else
        Inr \<lparr>ke_contract_version = version,
             ke_request_id = first_text [rq_request_id rq, kb_md call ''x-request-id'', ''req_'' @ take 24 (kp_sha256 kp (rq_bytes rq))],
             ke_traceparent = traceparent,
             ke_trace_id = (case (if traceparent = [] then None else kb_trace_id traceparent) of None \<Rightarrow> kb_md call ''trace_id'' | Some t \<Rightarrow> t),
             ke_tenant_id = str_else (first_text [rq_tenant_id rq, auth_tenant, ''tenant-default'']) ''tenant-default'',
             ke_project_id = str_else (first_text [rq_project_id rq, kb_md call ''x-project-id'', kb_md call ''x-eigen-project'', ''project-default'']) ''project-default'',
             ke_client_version = first_text [rq_client_version rq, kb_md call ''x-client-version''],
             ke_subject = subject, ke_roles = roles\<rparr>)"

section \<open>Authorisation\<close>

text \<open>
  \<open>security.py\<close> of the service is the one of the system API, but it takes the audit sink and \<open>log_authz_denied\<close> from
  its own \<open>observability.py\<close>, where the logger of \<open>log_authz_denied\<close> is not defined: the call raises \<open>NameError\<close>.
\<close>

definition authz_event :: "string \<Rightarrow> string \<Rightarrow> security_context \<Rightarrow> string option \<Rightarrow> string \<Rightarrow> json_dict" where
  "authz_event decision reason ctx trace_id traceparent =
     [(''method'', PStr ''authz''), (''decision'', PStr decision), (''reason'', PStr reason),
      (''trace_id'', PStr (case trace_id of None \<Rightarrow> [] | Some t \<Rightarrow> t)), (''traceparent'', PStr traceparent)]
     @ map (\<lambda>(k, v). (k, PStr v))
         (sanitized_security_metadata (sx_subject ctx) (sx_roles ctx) (sx_auth_mode ctx) (sx_policy_version ctx)
            (sx_service_identity ctx) (sx_sandbox_profile ctx) (dget (sx_claims ctx) ''replay_marker''))"

definition kb_write_event :: "json_dict \<Rightarrow> unit kb_op" where
  "kb_write_event event s = (case kb_audit_event event (kb_obs s) of Inl e \<Rightarrow> (s, Inl e) | Inr o1 \<Rightarrow> (s\<lparr>kb_obs := o1\<rparr>, Inr ()))"

definition kb_decide_authz :: "kb_platform \<Rightarrow> grpc_call \<Rightarrow> string \<Rightarrow> security_config \<Rightarrow> policy_snapshot \<Rightarrow> unit kb_op" where
  "kb_decide_authz kp call required_permission cfg snapshot s =
     (let md = call_metadata call;
          trace_id = (if dget_or md ''trace_id'' [] \<noteq> [] then dget md ''trace_id''
                      else if dget_or md ''traceparent'' [] = [] then None else kb_trace_id (dget_or md ''traceparent'' []));
          (subject, roles, tenant) = auth_context (kp_sec kp) call;
          granted = granted_permissions snapshot (dget_or md ''x-eigen-permissions'' []) roles;
          need = py_lower (py_strip required_permission);
          ctx = authz_context cfg snapshot subject tenant (replay_marker_of md) (sort granted) in
      if blank subject \<or> blank tenant then
        kb_then (kb_write_event (authz_event ''deny'' ''POLICY_DENY_MISSING_AUTH_CONTEXT'' ctx trace_id []) s) (\<lambda>_ s. (s, Inl KbNameError))
      else if blank (ps_version snapshot) then
        (s, Inl (KbSec (denied ''policy backend unavailable'' ''EIGEN_PUBLIC_POLICY_BACKEND_UNAVAILABLE''
           [(''policy'', ''POLICY_BACKEND_UNAVAILABLE'')] ''Security policy snapshot could not be loaded; fail closed.'')))
      else if need \<in> set granted \<or> split_head (CHR '':'') need @ '':*'' \<in> set granted \<or> ''*'' \<in> set granted then
        kb_write_event (authz_event ''allow'' need ctx trace_id (dget_or md ''traceparent'' [])) s
      else (s, Inl KbNameError))"

definition kb_enforce_authz :: "kb_platform \<Rightarrow> grpc_call \<Rightarrow> string \<Rightarrow> unit kb_op" where
  "kb_enforce_authz kp call required_permission s =
     (let cfg = load_security_config (kp_sec kp) in
      if cf_auth_mode cfg = AUTH_ALLOW_ALL then (s, Inr ())
      else case load_policy_snapshot_cfg (kp_sec kp) cfg of
        Inl e \<Rightarrow> (s, Inl (KbPy e))
      | Inr snapshot \<Rightarrow> kb_decide_authz kp call required_permission cfg snapshot s)"

definition abort_storage_unavailable :: "string \<Rightarrow> unit kb_op" where
  "abort_storage_unavailable operation s =
     (s\<lparr>kb_obs := record_kb_fallback ''storage_unavailable'' (kb_obs s)\<rparr>,
      Inl (KbAbort ((public_error UNAVAILABLE ''knowledge base storage unavailable'' ''KB_INDEX_UNAVAILABLE'' True)
        \<lparr>pe_metadata := [(''operation'', operation), (''storage_mode'', kb_storage_mode s)], pe_retry_delay_seconds := Some 1,
         pe_detail := ''Knowledge base storage is disabled or unavailable; retry the operation after recovery.''\<rparr>)))"

definition require_access :: "kb_platform \<Rightarrow> int \<Rightarrow> grpc_call \<Rightarrow> string \<Rightarrow> string \<Rightarrow> unit kb_op" where
  "require_access kp now call permission operation s =
     kb_then (s, lift_sec (enforce_authn (kp_sec kp) (now div 1000000) call (''KnowledgeBaseService.'' @ operation))) (\<lambda>_ s.
     kb_then (kb_enforce_authz kp call permission s) (\<lambda>_ s.
       if kb_storage_mode s = ''disabled'' then abort_storage_unavailable operation s else (s, Inr ())))"

definition require_write :: "kb_platform \<Rightarrow> int \<Rightarrow> grpc_call \<Rightarrow> string \<Rightarrow> unit kb_op" where
  "require_write kp now call operation = require_access kp now call ''kb:write'' operation"

definition require_read :: "kb_platform \<Rightarrow> int \<Rightarrow> grpc_call \<Rightarrow> string \<Rightarrow> unit kb_op" where
  "require_read kp now call operation = require_access kp now call ''kb:read'' operation"

section \<open>Fingerprints\<close>

definition attributes_json :: "(string, string) dict \<Rightarrow> pyval" where
  "attributes_json d = PDict (map (\<lambda>(k, v). (k, PStr v)) (sort_key fst d))"

definition record_fingerprint :: "kb_platform \<Rightarrow> int \<Rightarrow> knowledge_record \<Rightarrow> string \<Rightarrow> string" where
  "record_fingerprint kp now r replay_bundle_ref =
     stable_digest kp (PDict
       [(''record_id'', PStr (kr_record_id r)), (''job_id'', PStr (kr_job_id r)), (''circuit_id'', PStr (kr_circuit_id r)),
        (''artifact_ref'', PStr (kr_artifact_ref r)), (''dataset_ref'', PStr (kr_dataset_ref r)),
        (''backend_profile'', PStr (kr_backend_profile r)), (''optimizer_version'', PStr (kr_optimizer_version r)),
        (''qubit_count'', PInt (kr_qubit_count r)), (''entanglement_score'', PFloat (kr_entanglement_score r)),
        (''noise_profile_id'', PStr (kr_noise_profile_id r)), (''backend_class'', PStr (kr_backend_class r)),
        (''provenance'', PDict [(''compiler_ref'', PStr (rp_compiler_ref (kr_provenance r))),
           (''optimizer_ref'', PStr (rp_optimizer_ref (kr_provenance r))), (''runtime_ref'', PStr (rp_runtime_ref (kr_provenance r))),
           (''checkpoint_ref'', PStr (rp_checkpoint_ref (kr_provenance r)))]),
        (''lineage'', PDict [(''model_version'', PStr (ml_model_version (kr_lineage r))),
           (''training_set_hash'', PStr (ml_training_set_hash (kr_lineage r))),
           (''evaluation_bundle_hash'', PStr (ml_evaluation_bundle_hash (kr_lineage r))),
           (''promotion_policy_version'', PStr (ml_promotion_policy_version (kr_lineage r))),
           (''promotion_outcome'', PStr (ml_promotion_outcome (kr_lineage r)))]),
        (''attributes'', attributes_json (kr_attributes r)), (''replay_bundle_ref'', PStr replay_bundle_ref),
        (''created_at'', PStr (ts_signature kp now (kr_created_at r)))])"

definition decision_fingerprint :: "kb_platform \<Rightarrow> int \<Rightarrow> decision_log \<Rightarrow> string" where
  "decision_fingerprint kp now d =
     stable_digest kp (PDict
       [(''decision_id'', PStr (dl_decision_id d)), (''trace_id'', PStr (dl_trace_id d)), (''model_version'', PStr (dl_model_version d)),
        (''component'', PStr (dl_component d)), (''policy_branch'', PStr (dl_policy_branch d)),
        (''selected_action'', PStr (dl_selected_action d)), (''fallback_used'', PBool (dl_fallback_used d)),
        (''feature_snapshot'', attributes_json (dl_feature_snapshot d)), (''decided_at'', PStr (ts_signature kp now (dl_decided_at d)))])"

section \<open>Inserting\<close>

record upsert_result =
  ur_record_id :: string
  ur_created :: bool
  ur_updated_at :: int

definition replay_bundle_ref :: "string \<Rightarrow> string" where
  "replay_bundle_ref record_id = ''kb://replay/'' @ record_id"

definition opt_text :: "string option \<Rightarrow> pyval" where
  "opt_text v = (case v of None \<Rightarrow> PNone | Some s \<Rightarrow> PStr s)"

text \<open>The capability scope of the attributes, and the one written back to them.\<close>

definition attrs_scope :: "kb_platform \<Rightarrow> knowledge_record \<Rightarrow> (string, string) dict \<Rightarrow> string list \<Rightarrow> (pyexn, string list) result" where
  "attrs_scope kp r attrs scope =
     (if scope \<noteq> [] then Inr scope
      else capability_scope_tokens kp
        [(''backend_profile'', PStr (kr_backend_profile r)), (''capability_scope'', opt_text (dget attrs ''capability_scope'')),
         (''capabilities'', opt_text (dget attrs ''capabilities'')), (''capability_tags'', opt_text (dget attrs ''capability_tags''))])"

definition json_attrs :: "(string, string) dict \<Rightarrow> json_dict" where
  "json_attrs d = map (\<lambda>(k, v). (k, PStr v)) d"

definition already_exists :: "grpc_call option \<Rightarrow> string \<Rightarrow> kb_failure" where
  "already_exists call record_id =
     (case call of
        None \<Rightarrow> KbValueError (''Record '' @ record_id @ '' already exists and overwrite is disabled.'')
      | Some _ \<Rightarrow> KbAbort ((public_error ALREADY_EXISTS (''Record '' @ record_id @ '' already exists'') ''KB_RECORD_ALREADY_EXISTS'' False)
          \<lparr>pe_domain := ''eigen.api.v1''\<rparr>))"

record upsert_args =
  ua_tenant_id :: string
  ua_project_id :: string
  ua_allow_overwrite :: bool
  ua_anonymize :: bool
  ua_source :: string
  ua_replay_bundle_ref :: string
  ua_scope :: "string list"

definition upsert_record ::
  "kb_platform \<Rightarrow> int \<Rightarrow> grpc_call option \<Rightarrow> upsert_args \<Rightarrow> knowledge_record \<Rightarrow> upsert_result kb_op" where
  "upsert_record kp now call a r0 s =
     (let record_id = kr_record_id r0;
          existing = dget (kb_records s) record_id;
          created_at = (case existing of None \<Rightarrow> ts_to_dt now (kr_created_at r0) | Some e \<Rightarrow> sr_created_at e);
          r = r0\<lparr>kr_created_at := ts_from_dt created_at\<rparr>;
          attrs = (if ua_anonymize a then anonymize_attributes kp (kb_anon_salt s) (kb_anon_epoch s) (kr_attributes r0) else kr_attributes r0) in
      case attrs_scope kp r attrs (ua_scope a) of
        Inl e \<Rightarrow> (s, Inl (KbPy e))
      | Inr scope \<Rightarrow>
          (let fingerprint = record_fingerprint kp now r (ua_replay_bundle_ref a);
               attrs1 = dset ''replay_bundle_ref'' (ua_replay_bundle_ref a) (dset ''request_hash'' fingerprint
                  (dset ''capability_scope'' (if scope = [] then [] else raw_text (canon (strs scope))) attrs));
               stored = r\<lparr>kr_attributes := attrs1\<rparr>;
               entry = \<lparr>sr_record = stored, sr_tenant_id = ua_tenant_id a, sr_project_id = ua_project_id a,
                  sr_capability_scope = (if ua_scope a \<noteq> [] then ua_scope a else requested_scope_tokens kp (json_attrs attrs1)),
                  sr_created_at = created_at, sr_updated_at = now, sr_fingerprint = fingerprint, sr_sequence = kb_sequence s + 1\<rparr>;
               insert = (okb_sync_index_scope kp now (ua_tenant_id a) (ua_project_id a) (ua_source a)
                  (s\<lparr>kb_sequence := kb_sequence s + 1, kb_records := dset record_id entry (kb_records s)\<rparr>),
                  Inr \<lparr>ur_record_id = record_id, ur_created = (existing = None), ur_updated_at = now\<rparr>) in
           case existing of
             None \<Rightarrow> insert
           | Some e \<Rightarrow>
               (if ua_allow_overwrite a then insert
                else if sr_fingerprint e = fingerprint
                then (s, Inr \<lparr>ur_record_id = record_id, ur_created = False, ur_updated_at = sr_updated_at e\<rparr>)
                else (s, Inl (already_exists call record_id)))))"

definition record_violations :: "knowledge_record \<Rightarrow> api_violation list" where
  "record_violations r = (if blank (kr_record_id r) then [api_violation_of ''record.record_id'' ''record_id is required''] else [])"

definition rpc_args :: "kb_envelope \<Rightarrow> bool \<Rightarrow> knowledge_record \<Rightarrow> upsert_args" where
  "rpc_args env overwrite r =
     \<lparr>ua_tenant_id = ke_tenant_id env, ua_project_id = ke_project_id env, ua_allow_overwrite = overwrite, ua_anonymize = True,
      ua_source = ''rpc'', ua_replay_bundle_ref = replay_bundle_ref (kr_record_id r), ua_scope = []\<rparr>"

definition kb_contract :: "kb_envelope \<Rightarrow> string \<Rightarrow> kb_state \<Rightarrow> kb_state" where
  "kb_contract env outcome s = s\<lparr>kb_obs := record_kb_contract_marker (ke_contract_version env) outcome (kb_obs s)\<rparr>"

definition UpsertRecord ::
  "kb_platform \<Rightarrow> int \<Rightarrow> grpc_call \<Rightarrow> contract_envelope \<Rightarrow> knowledge_record \<Rightarrow> bool \<Rightarrow> upsert_result kb_op" where
  "UpsertRecord kp now call e r overwrite s =
     kb_then (require_write kp now call ''upsert_record'' s) (\<lambda>_ s.
     kb_then (s, normalize_envelope kp call e) (\<lambda>env s.
     if record_violations r \<noteq> [] then (s, lift_rpc (abort_invalid_argument ''validation failed'' (record_violations r)))
     else
       kb_then (gc_locked kp now s) (\<lambda>_ s.
       kb_then (upsert_record kp now (Some call) (rpc_args env overwrite r) r s) (\<lambda>res s.
         (kb_contract env ''accepted'' s, Inr res)))))"

text \<open>One record of a batch: refused before the store is asked, or refused by it, or accepted.\<close>

definition batch_step ::
  "kb_platform \<Rightarrow> int \<Rightarrow> grpc_call \<Rightarrow> kb_envelope \<Rightarrow> bool \<Rightarrow> kb_state \<times> nat \<times> string list \<Rightarrow> knowledge_record \<Rightarrow> kb_state \<times> nat \<times> string list" where
  "batch_step kp now call env overwrite acc r =
     (case acc of (s, accepted, errors) \<Rightarrow>
        if record_violations r \<noteq> [] then (s, accepted, errors @ [''INVALID_ARGUMENT''])
        else case upsert_record kp now (Some call) (rpc_args env overwrite r) r s of
          (u, Inl _) \<Rightarrow> (u, accepted, errors @ [''INTERNAL''])
        | (u, Inr _) \<Rightarrow> (u, Suc accepted, errors))"

record batch_result =
  br_accepted :: nat
  br_rejected :: nat
  br_errors :: "string list"

definition BatchUpsertRecords ::
  "kb_platform \<Rightarrow> int \<Rightarrow> grpc_call \<Rightarrow> contract_envelope \<Rightarrow> knowledge_record list \<Rightarrow> bool \<Rightarrow> batch_result kb_op" where
  "BatchUpsertRecords kp now call e rs overwrite s =
     kb_then (require_write kp now call ''batch_upsert_records'' s) (\<lambda>_ s.
     kb_then (s, normalize_envelope kp call e) (\<lambda>env s.
     kb_then (gc_locked kp now s) (\<lambda>_ s.
       case foldl (batch_step kp now call env overwrite) (s, 0, []) rs of (u, accepted, errors) \<Rightarrow>
         (kb_contract env (if accepted = 0 then ''error'' else ''accepted'') u,
          Inr \<lparr>br_accepted = accepted, br_rejected = length errors, br_errors = errors\<rparr>))))"

section \<open>Decision logs\<close>

text \<open>\<open>_audit_string_list\<close>: the stripped texts of a value, each once.\<close>

definition audit_string_list :: "kb_platform \<Rightarrow> pyval \<Rightarrow> string list" where
  "audit_string_list kp v =
     (if v = PNone \<or> v = PStr [] then []
      else foldl (\<lambda>items raw. let t = py_strip (py_str (kp_sec kp) raw) in if t \<noteq> [] \<and> t \<notin> set items then items @ [t] else items) []
        (case v of PList xs \<Rightarrow> xs | _ \<Rightarrow> [v]))"

definition decision_violations :: "decision_log \<Rightarrow> api_violation list" where
  "decision_violations d =
     (if blank (dl_decision_id d) then [api_violation_of ''decision_log.decision_id'' ''decision_id is required''] else [])
     @ (if blank (dl_trace_id d) then [api_violation_of ''decision_log.trace_id'' ''trace_id is required''] else [])"

definition snapshot_field :: "decision_log \<Rightarrow> string \<Rightarrow> string" where
  "snapshot_field d k = dget_or (dl_feature_snapshot d) k []"

text \<open>The audit line of a decision. A confidence that is no number is left out.\<close>

definition decision_event :: "kb_platform \<Rightarrow> kb_envelope \<Rightarrow> security_context \<Rightarrow> string \<Rightarrow> decision_log \<Rightarrow> json_dict" where
  "decision_event kp env ctx policy_version d =
     (let sources = audit_string_list kp (PStr (str_else (snapshot_field d ''retrieval_sources'')
            (str_else (snapshot_field d ''retrieval_references'') (snapshot_field d ''retrieval_source''))));
          policy = py_strip (str_else (snapshot_field d ''policy_snapshot_version'') (str_else (snapshot_field d ''policy_version'') policy_version));
          final_decision = py_strip (str_else (dl_selected_action d) (snapshot_field d ''final_decision''));
          confidence = (if snapshot_field d ''confidence'' = [] then None else kp_round6 kp (snapshot_field d ''confidence'')) in
      foldl (\<lambda>e (k, v). dset k v e)
       ([(''audit_kind'', PStr ''immutable_decision''), (''operation'', PStr ''append_decision_log''), (''decision'', PStr final_decision),
         (''final_decision'', PStr final_decision), (''decision_id'', PStr (py_strip (dl_decision_id d))),
         (''caller_identity'', PStr (sx_subject ctx)), (''tenant'', PStr (ke_tenant_id env)), (''tenant_id'', PStr (ke_tenant_id env)),
         (''project_id'', PStr (ke_project_id env)), (''policy_version'', PStr policy), (''policy_snapshot_version'', PStr policy),
         (''model_version'', PStr (py_strip (str_else (dl_model_version d) (snapshot_field d ''model_version'')))),
         (''retrieval_sources'', strs sources), (''retrieval_references'', strs sources),
         (''retrieval_source_count'', PInt (int (length sources))), (''trace_id'', PStr (py_strip (dl_trace_id d))),
         (''traceparent'', PStr []), (''replay_digest'', PStr (py_strip (snapshot_field d ''replay_digest''))), (''immutable'', PBool True)]
        @ (case confidence of None \<Rightarrow> [] | Some c \<Rightarrow> [(''confidence'', PFloat c)]))
       (map (\<lambda>(k, v). (k, PStr v))
          (sanitized_security_metadata (sx_subject ctx) (sx_roles ctx) (str_else (sx_auth_mode ctx) ''allow_all'') policy
             (sx_service_identity ctx) (sx_sandbox_profile ctx) (dget (sx_claims ctx) ''replay_marker''))))"

definition store_decision_log ::
  "kb_platform \<Rightarrow> int \<Rightarrow> string \<Rightarrow> string \<Rightarrow> string list \<Rightarrow> decision_log \<Rightarrow> kb_state \<Rightarrow> kb_state \<times> stored_decision" where
  "store_decision_log kp now t p scope d0 s =
     (let decided_at = ts_to_dt now (dl_decided_at d0); d = d0\<lparr>dl_decided_at := ts_from_dt decided_at\<rparr>;
          entry = \<lparr>sd_decision_log = d, sd_tenant_id = t, sd_project_id = p, sd_capability_scope = scope, sd_decided_at = decided_at,
            sd_fingerprint = decision_fingerprint kp now d, sd_sequence = kb_sequence s + 1\<rparr> in
      (okb_sync_index_scope kp now t p ''decision_log''
         (s\<lparr>kb_sequence := kb_sequence s + 1, kb_decision_logs := kb_decision_logs s @ [entry]\<rparr>), entry))"

definition AppendDecisionLog ::
  "kb_platform \<Rightarrow> int \<Rightarrow> grpc_call \<Rightarrow> contract_envelope \<Rightarrow> decision_log \<Rightarrow> (string \<times> timestamp) kb_op" where
  "AppendDecisionLog kp now call e d s =
     kb_then (require_write kp now call ''append_decision_log'' s) (\<lambda>_ s.
     kb_then (s, normalize_envelope kp call e) (\<lambda>env s.
     if decision_violations d \<noteq> [] then (s, lift_rpc (abort_invalid_argument ''validation failed'' (decision_violations d)))
     else
       kb_then (s, retrieval_security_context kp (Some call) ''append_decision_log'') (\<lambda>(ctx, policy_version) s.
       kb_then (kb_write_event (decision_event kp env ctx policy_version d) s) (\<lambda>_ s.
       kb_then (gc_locked kp now s) (\<lambda>_ s.
         case store_decision_log kp now (ke_tenant_id env) (ke_project_id env) [] d s of (u, entry) \<Rightarrow>
           (kb_contract env ''accepted'' u,
            Inr (dl_decision_id (sd_decision_log entry), dl_decided_at (sd_decision_log entry))))))))"

section \<open>Filters\<close>

text \<open>The dates of a filter are \<open>None\<close> where \<open>HasField\<close> is false. A number that is 0 does not restrict.\<close>

record query_filter =
  qf_trace_id :: string
  qf_model_version :: string
  qf_min_qubit_count :: int
  qf_max_qubit_count :: int
  qf_min_entanglement_score :: string
  qf_max_entanglement_score :: string
  qf_noise_profile_id :: string
  qf_backend_class :: string
  qf_optimizer_version :: string
  qf_created_after :: "timestamp option"
  qf_created_before :: "timestamp option"

definition text_filter :: "string \<Rightarrow> string \<Rightarrow> bool" where
  "text_filter want have \<longleftrightarrow> blank want \<or> have = py_strip want"

definition float_zero :: "string \<Rightarrow> bool" where
  "float_zero r \<longleftrightarrow> r \<in> {''0.0'', ''-0.0''}"

definition record_matches_filter :: "kb_platform \<Rightarrow> int \<Rightarrow> query_filter \<Rightarrow> knowledge_record \<Rightarrow> bool" where
  "record_matches_filter kp now f r \<longleftrightarrow>
     text_filter (qf_trace_id f) (dget_or (kr_attributes r) ''trace_id'' [])
     \<and> text_filter (qf_model_version f) (ml_model_version (kr_lineage r))
     \<and> text_filter (qf_noise_profile_id f) (kr_noise_profile_id r)
     \<and> text_filter (qf_backend_class f) (kr_backend_class r)
     \<and> text_filter (qf_optimizer_version f) (kr_optimizer_version r)
     \<and> (qf_min_qubit_count f = 0 \<or> qf_min_qubit_count f \<le> kr_qubit_count r)
     \<and> (qf_max_qubit_count f = 0 \<or> kr_qubit_count r \<le> qf_max_qubit_count f)
     \<and> (float_zero (qf_min_entanglement_score f) \<or> \<not> kp_float_less kp (kr_entanglement_score r) (qf_min_entanglement_score f))
     \<and> (float_zero (qf_max_entanglement_score f) \<or> \<not> kp_float_less kp (qf_max_entanglement_score f) (kr_entanglement_score r))
     \<and> (case qf_created_after f of None \<Rightarrow> True | Some t \<Rightarrow> ts_to_dt now t < ts_to_dt now (kr_created_at r))
     \<and> (case qf_created_before f of None \<Rightarrow> True | Some t \<Rightarrow> ts_to_dt now (kr_created_at r) < ts_to_dt now t)"

definition decision_matches_filter :: "string \<Rightarrow> string \<Rightarrow> decision_log \<Rightarrow> bool" where
  "decision_matches_filter trace_id model_version d \<longleftrightarrow>
     (trace_id = [] \<or> dl_trace_id d = trace_id) \<and> (model_version = [] \<or> dl_model_version d = model_version)"

text \<open>An unset date signs as the default timestamp.\<close>

definition filter_signature :: "kb_platform \<Rightarrow> int \<Rightarrow> query_filter \<Rightarrow> pyval" where
  "filter_signature kp now f =
     PDict [(''trace_id'', PStr (qf_trace_id f)), (''model_version'', PStr (qf_model_version f)),
       (''min_qubit_count'', PInt (qf_min_qubit_count f)), (''max_qubit_count'', PInt (qf_max_qubit_count f)),
       (''min_entanglement_score'', PFloat (if float_zero (qf_min_entanglement_score f) then ''0.0'' else qf_min_entanglement_score f)),
       (''max_entanglement_score'', PFloat (if float_zero (qf_max_entanglement_score f) then ''0.0'' else qf_max_entanglement_score f)),
       (''noise_profile_id'', PStr (qf_noise_profile_id f)), (''backend_class'', PStr (qf_backend_class f)),
       (''optimizer_version'', PStr (qf_optimizer_version f)),
       (''created_after'', PStr (ts_signature kp now (case qf_created_after f of None \<Rightarrow> (0, 0) | Some t \<Rightarrow> t))),
       (''created_before'', PStr (ts_signature kp now (case qf_created_before f of None \<Rightarrow> (0, 0) | Some t \<Rightarrow> t)))]"

section \<open>Cursors\<close>

definition query_signature :: "kb_platform \<Rightarrow> kb_envelope \<Rightarrow> pyval \<Rightarrow> string \<Rightarrow> string" where
  "query_signature kp env filter_payload kind =
     kp_sha256 kp (raw_text (canon (PDict [(''kind'', PStr kind), (''tenant_id'', PStr (ke_tenant_id env)),
       (''project_id'', PStr (ke_project_id env)), (''filter'', filter_payload)])))"

definition kb_encode_cursor :: "string \<Rightarrow> string \<Rightarrow> int \<Rightarrow> bool \<Rightarrow> string" where
  "kb_encode_cursor kind signature offset has_next =
     (if \<not> has_next then [] else b64url_encode (''v1:'' @ kind @ '':'' @ signature @ '':'' @ show_int offset))"

text \<open>\<open>raw.split(":", 3)\<close> into exactly four parts.\<close>

definition split4 :: "string \<Rightarrow> (string \<times> string \<times> string \<times> string) option" where
  "split4 s = (case py_split (CHR '':'') s of a # b # c # d # ds \<Rightarrow> Some (a, b, c, py_join '':'' (d # ds)) | _ \<Rightarrow> None)"

definition cursor_offset :: "kb_platform \<Rightarrow> string \<Rightarrow> string \<Rightarrow> string \<Rightarrow> int option" where
  "cursor_offset kp kind signature token =
     Option.bind (b64url_decode token) (\<lambda>bytes. Option.bind (se_decode (kp_sec kp) bytes) (\<lambda>raw.
     Option.bind (split4 raw) (\<lambda>(version, cursor_kind, cursor_sig, offset).
       if version \<noteq> ''v1'' \<or> cursor_kind \<noteq> kind \<or> cursor_sig \<noteq> signature then None else map_option (max 0) (py_int offset))))"

definition kb_decode_cursor :: "kb_platform \<Rightarrow> string \<Rightarrow> string \<Rightarrow> string \<Rightarrow> int kb_op" where
  "kb_decode_cursor kp kind signature token s =
     (if token = [] then (s, Inr 0)
      else case cursor_offset kp kind signature token of
        Some offset \<Rightarrow> (s, Inr offset)
      | None \<Rightarrow>
          (s\<lparr>kb_obs := record_kb_replay_failure (kb_obs s)\<rparr>,
           lift_rpc (abort_with_error_info INVALID_ARGUMENT ''invalid page_token'' ''KB_INVALID_ARGUMENT'' ''eigen.api.v1'' [(''page_token'', token)])))"

section \<open>Reading\<close>

definition record_listing :: "kb_platform \<Rightarrow> int \<Rightarrow> kb_envelope \<Rightarrow> query_filter \<Rightarrow> kb_state \<Rightarrow> knowledge_record list" where
  "record_listing kp now env f s =
     sort_key (\<lambda>r. (ts_signature kp now (kr_created_at r), kr_record_id r))
       (map sr_record (filter (\<lambda>e. in_scope_record (ke_tenant_id env) (ke_project_id env) e \<and> record_matches_filter kp now f (sr_record e))
          (dvalues (kb_records s))))"

definition decision_listing :: "kb_platform \<Rightarrow> int \<Rightarrow> kb_envelope \<Rightarrow> string \<Rightarrow> string \<Rightarrow> kb_state \<Rightarrow> decision_log list" where
  "decision_listing kp now env trace_id model_version s =
     sort_key (\<lambda>d. (ts_signature kp now (dl_decided_at d), dl_decision_id d))
       (map sd_decision_log (filter (\<lambda>e. in_scope_decision (ke_tenant_id env) (ke_project_id env) e
          \<and> decision_matches_filter trace_id model_version (sd_decision_log e)) (kb_decision_logs s)))"

definition env_resource :: "kb_envelope \<Rightarrow> string" where
  "env_resource env = ke_tenant_id env @ ''/'' @ ke_project_id env"

text \<open>What the two queries share: security, retention, cursor, window, audit.\<close>

definition query_page ::
  "kb_platform \<Rightarrow> int \<Rightarrow> grpc_call \<Rightarrow> contract_envelope \<Rightarrow> string \<Rightarrow> string \<Rightarrow> pyval \<Rightarrow> (kb_envelope \<Rightarrow> kb_state \<Rightarrow> 'a list) \<Rightarrow> int \<Rightarrow> string
   \<Rightarrow> ('a list \<times> string) kb_op" where
  "query_page kp now call e operation kind filter_payload listing requested token s =
     kb_then (require_read kp now call operation s) (\<lambda>_ s.
     kb_then (s, normalize_envelope kp call e) (\<lambda>env s.
     kb_then (s, retrieval_security_context kp (Some call) operation) (\<lambda>(ctx, policy_version) s.
     kb_then (gc_locked kp now s) (\<lambda>_ s.
       let page_size = page_size_of requested; filtered = listing env s; signature = query_signature kp env filter_payload kind in
       kb_then (kb_decode_cursor kp kind signature token s) (\<lambda>offset s.
         let window = page_window offset page_size filtered in
         kb_then (kb_audit (Some call) ctx policy_version operation ''allow'' (if window \<noteq> [] then ''KB_QUERY_HIT'' else ''KB_QUERY_EMPTY'')
             (Some (length window)) (window \<noteq> []) (env_resource env) s) (\<lambda>_ s.
           (kb_count kind (window \<noteq> []) s,
            Inr (window, kb_encode_cursor kind signature (offset + page_size) (offset + page_size < int (length filtered))))))))))"

definition QueryRecords ::
  "kb_platform \<Rightarrow> int \<Rightarrow> grpc_call \<Rightarrow> contract_envelope \<Rightarrow> query_filter \<Rightarrow> int \<Rightarrow> string \<Rightarrow> (knowledge_record list \<times> string) kb_op" where
  "QueryRecords kp now call e f requested token =
     query_page kp now call e ''query_records'' ''records'' (filter_signature kp now f) (\<lambda>env. record_listing kp now env f) requested token"

definition QueryDecisionLogs ::
  "kb_platform \<Rightarrow> int \<Rightarrow> grpc_call \<Rightarrow> contract_envelope \<Rightarrow> string \<Rightarrow> string \<Rightarrow> int \<Rightarrow> string \<Rightarrow> (decision_log list \<times> string) kb_op" where
  "QueryDecisionLogs kp now call e trace_id model_version requested token =
     query_page kp now call e ''query_decision_logs'' ''decision_logs''
       (PDict [(''trace_id'', PStr trace_id), (''model_version'', PStr model_version)])
       (\<lambda>env. decision_listing kp now env trace_id model_version) requested token"

definition abort_not_found :: "string \<Rightarrow> kb_failure" where
  "abort_not_found record_id =
     KbAbort ((public_error NOT_FOUND (''Knowledge record '' @ record_id @ '' not found'') ''KB_RECORD_NOT_FOUND'' False)\<lparr>pe_domain := ''eigen.api.v1''\<rparr>)"

definition GetRecord :: "kb_platform \<Rightarrow> int \<Rightarrow> grpc_call \<Rightarrow> contract_envelope \<Rightarrow> string \<Rightarrow> knowledge_record kb_op" where
  "GetRecord kp now call e record_id s =
     kb_then (require_read kp now call ''get_record'' s) (\<lambda>_ s.
     kb_then (s, normalize_envelope kp call e) (\<lambda>env s.
     kb_then (s, retrieval_security_context kp (Some call) ''get_record'') (\<lambda>(ctx, policy_version) s.
     kb_then (gc_locked kp now s) (\<lambda>_ s.
       let visible = (case dget (kb_records s) record_id of None \<Rightarrow> None
            | Some x \<Rightarrow> if in_scope_record (ke_tenant_id env) (ke_project_id env) x then Some x else None) in
       case visible of
         None \<Rightarrow>
           kb_then (kb_audit (Some call) ctx policy_version ''get_record'' ''deny'' ''KB_RECORD_NOT_FOUND'' None False record_id s) (\<lambda>_ s.
             (kb_count ''records'' False s, Inl (abort_not_found record_id)))
       | Some x \<Rightarrow>
           kb_then (kb_audit (Some call) ctx policy_version ''get_record'' ''allow'' ''KB_RECORD_FOUND'' None True record_id s) (\<lambda>_ s.
             (kb_count ''records'' True s, Inr (sr_record x)))))))"

end
