(* ===== verification/KbLifecycle.thy ===== *)
theory KbLifecycle
  imports KbLearning
begin

text \<open>
  What the learning registry does to the state: which operations leave the models alone, what a transition may do, the
  invariant that commands alone never take a model live, and what a dataset without a date does to retention.
\<close>

section \<open>Sequencing\<close>

lemma kb_then_simps [simp]: "kb_then (s, Inl e) f = (s, Inl e)" "kb_then (s, Inr x) f = f x s"
  by (simp_all add: kb_then_def)

lemma kb_then_inv: "P (fst r) \<Longrightarrow> (\<And>x u. P u \<Longrightarrow> P (fst (f x u))) \<Longrightarrow> P (fst (kb_then r f))"
  by (cases r; cases "snd r") auto

lemma kb_then_Inr: "kb_then r f = (u, Inr y) \<longleftrightarrow> (\<exists>x v. r = (v, Inr x) \<and> f x v = (u, Inr y))"
  by (cases r; cases "snd r") auto

lemma kb_then_fails: "snd r = Inl e \<Longrightarrow> snd (kb_then r f) = Inl e"
  by (cases r) auto

lemma kb_guarded_fst [simp]: "fst (kb_guarded r) = fst r"
  by (auto simp: kb_guarded_def split: prod.splits sum.splits)

lemma kb_guarded_Inr [simp]: "kb_guarded r = (u, Inr y) \<longleftrightarrow> r = (u, Inr y)"
  by (auto simp: kb_guarded_def split: prod.splits sum.splits)

lemma kb_py_Inr [simp]: "kb_py r = Inr x \<longleftrightarrow> r = Inr x"
  by (simp add: kb_py_def split: sum.splits)

lemma kb_count_simps [simp]:
  "kb_learning_models (kb_count k h s) = kb_learning_models s" "kb_learning_datasets (kb_count k h s) = kb_learning_datasets s"
  "kb_learning_evidence (kb_count k h s) = kb_learning_evidence s" "kb_retention_seconds (kb_count k h s) = kb_retention_seconds s"
  "kb_storage_mode (kb_count k h s) = kb_storage_mode s"
  by (simp_all add: kb_count_def)

lemma kb_audit_models [simp]:
  "kb_learning_models (fst (kb_audit call ctx v op d r n h res s)) = kb_learning_models s"
  "kb_learning_datasets (fst (kb_audit call ctx v op d r n h res s)) = kb_learning_datasets s"
  by (simp_all add: kb_audit_def split: sum.split)

section \<open>Retention\<close>

lemma gc_primary_simps [simp]:
  "kb_learning_datasets (gc_primary kp now c s) = kb_learning_datasets s"
  "kb_learning_models (gc_primary kp now c s) = filter (\<lambda>(_, m). c \<le> parse_iso_datetime kp now (lm_updated_at m)) (kb_learning_models s)"
  "kb_storage_mode (gc_primary kp now c s) = kb_storage_mode s" "kb_retention_seconds (gc_primary kp now c s) = kb_retention_seconds s"
  by (simp_all add: gc_primary_def)

lemma rebuild_learning [simp]:
  "kb_learning_models (fst (rebuild_indexes_locked kp now t p reason s)) = kb_learning_models s"
  "kb_learning_datasets (fst (rebuild_indexes_locked kp now t p reason s)) = kb_learning_datasets s"
  "kb_learning_evidence (fst (rebuild_indexes_locked kp now t p reason s)) = kb_learning_evidence s"
  "kb_storage_mode (fst (rebuild_indexes_locked kp now t p reason s)) = kb_storage_mode s"
  "kb_retention_seconds (fst (rebuild_indexes_locked kp now t p reason s)) = kb_retention_seconds s"
  using rebuild_same_store [of s kp now t p reason] by (simp_all add: same_store_def)

lemma gc_models_sub: "set (kb_learning_models (fst (gc_locked kp now s))) \<subseteq> set (kb_learning_models s)"
  by (auto simp: gc_locked_def Let_def split: sum.splits)

lemma gc_config [simp]:
  "kb_storage_mode (fst (gc_locked kp now s)) = kb_storage_mode s" "kb_retention_seconds (fst (gc_locked kp now s)) = kb_retention_seconds s"
  by (simp_all add: gc_locked_def Let_def split: sum.splits)

text \<open>The models that stay are the ones updated since the cutoff.\<close>

lemma gc_models:
  "gc_locked kp now s = (u, Inr ()) \<Longrightarrow>
    kb_learning_models u = filter (\<lambda>(_, m). now - kb_retention_seconds s * 1000000 \<le> parse_iso_datetime kp now (lm_updated_at m)) (kb_learning_models s)"
  by (auto simp: gc_locked_def Let_def split: sum.splits if_splits)

section \<open>Datasets without a date\<close>

definition undated :: "kb_state \<Rightarrow> bool" where
  "undated s \<longleftrightarrow> (\<exists>e\<in>set (kb_learning_datasets s). \<exists>vd\<in>set (snd e). dget (snd vd) ''updated_at'' = None)"

lemma rmap_fails: "x \<in> set xs \<Longrightarrow> f x = Inl e \<Longrightarrow> \<exists>e'. rmap f xs = Inl e'"
  by (induction xs) (auto simp: rbind_def split: sum.splits)

lemma dataset_time_error: "dataset_time kp now d = Inl e \<Longrightarrow> e = KeyError ''updated_at''"
  by (auto simp: dataset_time_def split: option.splits pyval.splits)

lemma rmap_error: "rmap f xs = Inl e \<Longrightarrow> \<exists>x\<in>set xs. f x = Inl e"
  by (induction xs) (auto simp: rbind_def split: sum.splits)

lemma dataset_gc_error: "dataset_gc kp now c e = Inl x \<Longrightarrow> x = KeyError ''updated_at''"
  by (auto simp: dataset_gc_def rbind_eq_Inl dest!: rmap_error dataset_time_error)

lemma undated_dataset_gc:
  assumes "vd \<in> set (snd e)" "dget (snd vd) ''updated_at'' = None"
  shows "\<exists>x. dataset_gc kp now c e = Inl x"
proof -
  let ?f = "\<lambda>(v, d). rbind (dataset_time kp now d) (\<lambda>t. Inr ((v, d), c \<le> t))"
  have "?f vd = Inl (KeyError ''updated_at'')" using assms(2) by (cases vd) (simp add: dataset_time_def)
  then have "\<exists>x. rmap ?f (snd e) = Inl x" by (rule rmap_fails [OF assms(1), of ?f])
  then show ?thesis by (auto simp: dataset_gc_def)
qed

text \<open>Retention stops at such a dataset and leaves it where it is.\<close>

lemma undated_gc:
  assumes "undated s"
  shows "snd (gc_locked kp now s) \<in> {Inl (KbPy (KeyError ''updated_at'')), Inl (KbPy OverflowError)} \<and> undated (fst (gc_locked kp now s))"
proof -
  obtain e vd where e: "e \<in> set (kb_learning_datasets s)" "vd \<in> set (snd e)" "dget (snd vd) ''updated_at'' = None"
    using assms by (auto simp: undated_def)
  obtain x where x: "rmap (dataset_gc kp now c) (kb_learning_datasets s) = Inl x" for c
    using undated_dataset_gc [OF e(2,3)] rmap_fails [OF e(1)] dataset_gc_error rmap_error by metis
  then have "x = KeyError ''updated_at''" using rmap_error [OF x] dataset_gc_error by blast
  with x assms show ?thesis by (auto simp: gc_locked_def Let_def undated_def)
qed

section \<open>Transitions\<close>

definition live_states :: "string set" where
  "live_states = {''SHADOW'', ''CANARY'', ''PROMOTED''}"

lemma known_state_cases: "known_state st \<in> {''DRAFT'', ''TRAINED'', ''VALIDATED'', ''SHADOW'', ''CANARY'', ''PROMOTED'', ''RETIRED''}"
  by (auto simp: known_state_def Let_def LEARNING_ALLOWED_STATES_def)

lemma known_state_id: "st \<in> set LEARNING_ALLOWED_STATES \<Longrightarrow> known_state st = st"
proof -
  have "list_all (\<lambda>st. known_state st = st) LEARNING_ALLOWED_STATES" by code_simp
  then show "st \<in> set LEARNING_ALLOWED_STATES \<Longrightarrow> known_state st = st" by (simp add: list_all_iff)
qed

lemma known_states [simp]:
  "known_state ''DRAFT'' = ''DRAFT''" "known_state ''TRAINED'' = ''TRAINED''" "known_state ''VALIDATED'' = ''VALIDATED''"
  "known_state ''PROMOTED'' = ''PROMOTED''"
  by (simp_all add: known_state_id LEARNING_ALLOWED_STATES_def)

text \<open>Who may become trained, validated or promoted.\<close>

lemma transition_table:
  "transition_allowed (known_state st) ''TRAINED'' \<longleftrightarrow> known_state st \<in> {''DRAFT'', ''TRAINED''}"
  "transition_allowed (known_state st) ''VALIDATED'' \<longleftrightarrow> known_state st \<in> {''TRAINED'', ''VALIDATED''}"
  "transition_allowed (known_state st) ''PROMOTED'' \<longleftrightarrow> known_state st \<in> {''CANARY'', ''PROMOTED''}"
  using known_state_cases [of st]
  by (auto simp: transition_allowed_def LEARNING_ALLOWED_TRANSITIONS_def dget_or_def)

lemma model_transition_Inr:
  assumes "learning_transition kp now key from_state to_state pol gates q r c s = (u, Inr y)"
  shows "transition_allowed (known_state from_state) (known_state to_state)"
    and "\<exists>m. u = s\<lparr>kb_learning_models := dset key m (kb_learning_models s)\<rparr> \<and> lm_lifecycle_state m = known_state to_state"
    and "tr_current_state y = known_state to_state \<and> tr_previous_state y = known_state from_state"
  using assms by (auto simp: learning_transition_def Let_def split: prod.splits if_splits)

lemma transition_Inl:
  "snd (learning_transition kp now key from_state to_state pol gates q r c s) = Inl e \<longleftrightarrow>
     \<not> transition_allowed (known_state from_state) (known_state to_state)
     \<and> e = KbPermissionError (''transition '' @ known_state from_state @ '' -> '' @ known_state to_state @ '' is not allowed'')"
  by (auto simp: learning_transition_def Let_def split: prod.splits)

lemma transition_state:
  "fst (learning_transition kp now key from_state to_state pol gates q r c s) = s
   \<or> (\<exists>m. fst (learning_transition kp now key from_state to_state pol gates q r c s) = s\<lparr>kb_learning_models := dset key m (kb_learning_models s)\<rparr>
        \<and> lm_lifecycle_state m = known_state to_state \<and> transition_allowed (known_state from_state) (known_state to_state))"
  by (auto simp: learning_transition_def Let_def split: prod.splits)

section \<open>Commands never take a model live\<close>

definition no_live_model :: "kb_state \<Rightarrow> bool" where
  "no_live_model s \<longleftrightarrow> (\<forall>e\<in>set (kb_learning_models s). known_state (lm_lifecycle_state (snd e)) \<notin> live_states)"

lemma set_dset_sub: "set (dset k v d) \<subseteq> insert (k, v) (set d)"
  by (induction d) auto

lemma no_live_model_sub: "no_live_model s \<Longrightarrow> set (kb_learning_models u) \<subseteq> set (kb_learning_models s) \<Longrightarrow> no_live_model u"
  by (auto simp: no_live_model_def)

lemma no_live_model_cong: "kb_learning_models u = kb_learning_models s \<Longrightarrow> no_live_model u = no_live_model s"
  by (simp add: no_live_model_def)

lemma no_live_gc: "no_live_model s \<Longrightarrow> no_live_model (fst (gc_locked kp now s))"
  using no_live_model_sub gc_models_sub by blast

lemma no_live_transition:
  assumes "no_live_model s" "known_state from_state \<notin> live_states" "to_state \<in> {''TRAINED'', ''VALIDATED'', ''PROMOTED''}"
  shows "no_live_model (fst (learning_transition kp now key from_state to_state pol gates q r c s))"
proof -
  have to: "known_state to_state = to_state" using assms(3) by auto
  have "transition_allowed (known_state from_state) to_state \<Longrightarrow> to_state \<notin> live_states"
    using assms(2,3) transition_table [of from_state] by (auto simp: live_states_def)
  then show ?thesis
    using transition_state [of kp now key from_state to_state pol gates q r c s] assms(1) to set_dset_sub
    by (fastforce simp: no_live_model_def)
qed

lemma found_not_live: "no_live_model s \<Longrightarrow> dget (kb_learning_models s) k = Some m \<Longrightarrow> known_state (lm_lifecycle_state m) \<notin> live_states"
  by (auto simp: no_live_model_def dest!: map_of_SomeD)

end
