(* ===== verification/KbCommands.thy ===== *)
theory KbCommands
  imports KbLifecycle
begin

text \<open>
  The operations of the learning registry as steps of a state machine: the commands on models, datasets and indexes, and
  beside them the ingestion of evidence.
\<close>

section \<open>Steps\<close>

inductive kb_command :: "kb_platform \<Rightarrow> kb_state \<Rightarrow> kb_state \<Rightarrow> bool" for kp where
  train: "kb_command kp s (fst (start_training kp now payload s))"
| evaluate: "kb_command kp s (fst (run_evaluation kp now payload s))"
| promote: "kb_command kp s (fst (promote_model kp now payload s))"
| rollback: "kb_command kp s (fst (rollback_model kp now payload s))"
| assemble: "kb_command kp s (fst (assemble_learning_dataset kp now payload s))"
| query: "kb_command kp s (fst (query_learning_evidence kp now payload call s))"
| dataset: "kb_command kp s (fst (get_training_dataset kp now payload call s))"
| lifecycle: "kb_command kp s (fst (get_model_lifecycle kp now payload call s))"
| rebuild: "kb_command kp s (fst (rebuild_indexes_op kp now reason payload s))"

inductive kb_learning_step :: "kb_platform \<Rightarrow> kb_state \<Rightarrow> kb_state \<Rightarrow> bool" for kp where
  command: "kb_command kp s u \<Longrightarrow> kb_learning_step kp s u"
| ingest: "kb_learning_step kp s (fst (ingest_learning_evidence kp now payload s))"

section \<open>No command takes a model live\<close>

lemma no_live_count [simp]: "no_live_model (kb_count k h s) = no_live_model s"
  by (simp add: no_live_model_def)

lemma no_live_audit [simp]: "no_live_model (fst (kb_audit call ctx v op d r n h res s)) = no_live_model s"
  by (simp add: no_live_model_def)

lemma no_live_file_dataset [simp]: "no_live_model (file_dataset k v d s) = no_live_model s"
  by (simp add: no_live_model_def file_dataset_def)

lemma no_live_rebuild [simp]: "no_live_model (fst (rebuild_indexes_locked kp now t p r s)) = no_live_model s"
  by (simp add: no_live_model_def)

lemmas no_live_intros = kb_then_inv [where P = no_live_model] no_live_gc no_live_transition found_not_live

lemma no_live_training: "no_live_model s \<Longrightarrow> no_live_model (fst (start_training kp now payload s))"
  unfolding start_training_def Let_def by (auto intro!: no_live_intros simp: live_states_def)

lemma no_live_evaluation: "no_live_model s \<Longrightarrow> no_live_model (fst (run_evaluation kp now payload s))"
  unfolding run_evaluation_def Let_def by (auto intro!: no_live_intros simp: live_states_def)

lemma no_live_promotion: "no_live_model s \<Longrightarrow> no_live_model (fst (promote_model kp now payload s))"
  unfolding promote_model_def Let_def
  by (auto intro!: kb_then_inv [where P = no_live_model] no_live_gc no_live_transition split: option.split; use found_not_live in blast)

lemma no_live_rollback: "no_live_model s \<Longrightarrow> no_live_model (fst (rollback_model kp now payload s))"
  unfolding rollback_model_def Let_def
  by (auto intro!: kb_then_inv [where P = no_live_model] no_live_gc no_live_transition split: option.split; use found_not_live in blast)

lemma no_live_assembly: "no_live_model s \<Longrightarrow> no_live_model (fst (assemble_learning_dataset kp now payload s))"
  unfolding assemble_learning_dataset_def Let_def by (auto intro!: kb_then_inv [where P = no_live_model] no_live_gc)

lemma no_live_reads:
  "no_live_model s \<Longrightarrow> no_live_model (fst (query_learning_evidence kp now payload call s))"
  "no_live_model s \<Longrightarrow> no_live_model (fst (get_training_dataset kp now payload call s))"
  "no_live_model s \<Longrightarrow> no_live_model (fst (get_model_lifecycle kp now payload call s))"
  unfolding query_learning_evidence_def get_training_dataset_def get_model_lifecycle_def Let_def
  by (auto intro!: kb_then_inv [where P = no_live_model] no_live_gc split: prod.splits option.split)

lemma no_live_rebuilds: "no_live_model s \<Longrightarrow> no_live_model (fst (rebuild_indexes_op kp now reason payload s))"
  unfolding rebuild_indexes_op_def
  by (rule kb_then_inv [where P = no_live_model]) (auto intro: no_live_gc simp: case_prod_unfold)

interpretation kb_commands: invariant_system no_live_model "kb_command kp" no_live_model for kp
proof unfold_locales
  fix s t assume "no_live_model s" "kb_command kp s t"
  from this(2,1) show "no_live_model t"
    by cases (simp_all add: no_live_training no_live_evaluation no_live_promotion no_live_rollback no_live_assembly no_live_reads no_live_rebuilds)
qed

section \<open>A dataset without a date stops the service\<close>

definition blocked :: "kb_state \<times> (kb_failure, 'a) result \<Rightarrow> bool" where
  "blocked r \<longleftrightarrow> undated (fst r) \<and> (\<exists>e. snd r = Inl e)"

lemma blocked_Inl [simp]: "blocked (s, Inl e) = undated s"
  by (simp add: blocked_def)

lemma blocked_pure: "undated s \<Longrightarrow> (\<And>x. blocked (f x s)) \<Longrightarrow> blocked (kb_then (s, r) f)"
  by (cases r) (simp_all add: blocked_def)

lemma blocked_gc: "undated s \<Longrightarrow> blocked (kb_then (gc_locked kp now s) f)"
  using undated_gc [of s kp now] by (cases "gc_locked kp now s") (auto simp: blocked_def)

lemma blocked_then: "blocked r \<Longrightarrow> blocked (kb_then r f)"
  by (cases r) (auto simp: blocked_def)

lemma blocked_guarded: "blocked r \<Longrightarrow> blocked (kb_guarded r)"
  by (cases r) (auto simp: blocked_def kb_guarded_def)

lemmas blocked_intros = blocked_pure blocked_gc

lemma blocked_operations:
  assumes "undated s"
  shows "blocked (start_training kp now payload s)" "blocked (run_evaluation kp now payload s)" "blocked (promote_model kp now payload s)"
    "blocked (rollback_model kp now payload s)" "blocked (assemble_learning_dataset kp now payload s)"
    "blocked (query_learning_evidence kp now payload call s)" "blocked (get_training_dataset kp now payload call s)"
    "blocked (get_model_lifecycle kp now payload call s)" "blocked (rebuild_indexes_op kp now reason payload s)"
    "blocked (ingest_learning_evidence kp now payload s)"
  using assms
  unfolding start_training_def run_evaluation_def promote_model_def rollback_model_def assemble_learning_dataset_def
    query_learning_evidence_def get_training_dataset_def get_model_lifecycle_def rebuild_indexes_op_def ingest_learning_evidence_def Let_def
  by (auto intro!: blocked_intros intro: blocked_then blocked_guarded split: prod.splits)

lemma blocked_undated: "blocked r \<Longrightarrow> undated (fst r)"
  by (simp add: blocked_def)

lemmas undated_operations = blocked_operations [THEN blocked_undated]

interpretation kb_blocked: invariant_system undated "kb_learning_step kp" undated for kp
proof unfold_locales
  fix s t assume "undated s" "kb_learning_step kp s t"
  from this(2,1) show "undated t"
  proof cases
    case command
    then show "undated s \<Longrightarrow> undated t" by cases (simp_all add: undated_operations)
  qed (simp add: undated_operations)
qed

lemma undated_file_dataset: "dget d ''updated_at'' = None \<Longrightarrow> undated (file_dataset key version d s)"
proof -
  assume d: "dget d ''updated_at'' = None"
  let ?vs = "dset version d (dget_or (kb_learning_datasets s) key [])"
  have "dget (kb_learning_datasets (file_dataset key version d s)) key = Some ?vs" "dget ?vs version = Some d"
    by (simp_all add: file_dataset_def)
  note map_of_SomeD [OF this(1)] map_of_SomeD [OF this(2)]
  with d show ?thesis unfolding undated_def by force
qed

lemma undated_count [simp]: "undated (kb_count k h s) = undated s"
  by (simp add: undated_def)

lemma summary_undated [simp]: "dget (assembled_summary kp payload pol scoped es) ''updated_at'' = None"
  by (simp add: assembled_summary_def Let_def)

lemma assembled_undated: "assemble_learning_dataset kp now payload s = (u, Inr d) \<Longrightarrow> undated u"
  unfolding assemble_learning_dataset_def Let_def
  by (auto simp: kb_then_Inr undated_file_dataset split: if_splits)

end
