(* ===== verification/KbRecords.thy ===== *)
theory KbRecords
  imports KbStore KbCommands
begin

text \<open>
  Facts on the record store: what an insertion leaves in it, what retention takes out, the invariant of the store under every
  operation of the service, and the cursors of the queries.
\<close>

section \<open>The store invariant\<close>

text \<open>
  Records are filed under their identifier, sequence numbers of records and logs are used once and never exceed the counter,
  and there is one shard per index mode.
\<close>

definition kb_sequences :: "kb_state \<Rightarrow> int list" where
  "kb_sequences s = map sr_sequence (dvalues (kb_records s)) @ map sd_sequence (kb_decision_logs s)"

definition kb_wf :: "kb_state \<Rightarrow> bool" where
  "kb_wf s \<longleftrightarrow> wf_dict (kb_records s) \<and> (\<forall>e\<in>set (kb_records s). kr_record_id (sr_record (snd e)) = fst e)
     \<and> distinct (kb_sequences s) \<and> (\<forall>n\<in>set (kb_sequences s). 0 < n \<and> n \<le> kb_sequence s) \<and> 0 \<le> kb_sequence s
     \<and> dkeys (kb_okb_indexes s) = OKB_INDEX_MODES"

lemma sync_dkeys [simp]: "dkeys (kb_okb_indexes (okb_sync_index_scope kp now t p reason s)) = dkeys (kb_okb_indexes s)"
  by (auto simp: okb_sync_index_scope_def)

lemma sync_all_dkeys:
  "dkeys (kb_okb_indexes (foldl (\<lambda>u (t, p). okb_sync_index_scope kp now t p reason u) s scopes)) = dkeys (kb_okb_indexes s)"
  by (induction scopes arbitrary: s) (auto simp: case_prod_unfold)

lemma rebuild_dkeys [simp]: "dkeys (kb_okb_indexes (fst (rebuild_indexes_locked kp now t p reason s))) = dkeys (kb_okb_indexes s)"
  by (auto simp: rebuild_indexes_locked_def Let_def sync_all_dkeys)

lemma kb_wf_same_store:
  "same_store s u \<Longrightarrow> dkeys (kb_okb_indexes u) = dkeys (kb_okb_indexes s) \<Longrightarrow> kb_wf u = kb_wf s"
  by (simp add: same_store_def kb_wf_def kb_sequences_def)

lemma kb_wf_rebuild [simp]: "kb_wf (fst (rebuild_indexes_locked kp now t p reason s)) = kb_wf s"
  by (rule kb_wf_same_store [OF rebuild_same_store]) simp

lemma kb_wf_sync [simp]: "kb_wf (okb_sync_index_scope kp now t p reason s) = kb_wf s"
  by (rule kb_wf_same_store [OF sync_same_store]) simp

lemma distinct_filter_keys: "wf_dict d \<Longrightarrow> wf_dict (filter P d)"
  by (rule distinct_map_filter)

lemma distinct_append_filter:
  "distinct (map f xs @ map g ys) \<Longrightarrow> distinct (map f (filter P xs) @ map g (filter Q ys))"
  by (auto simp: distinct_map_filter)

lemma kb_wf_gc_primary: "kb_wf s \<Longrightarrow> kb_wf (gc_primary kp now c s)"
proof -
  assume wf: "kb_wf s"
  let ?u = "gc_primary kp now c s"
  have seqs: "kb_sequences ?u = map (\<lambda>e. sr_sequence (snd e)) (filter (\<lambda>(_, e). c \<le> sr_created_at e) (kb_records s))
      @ map sd_sequence (filter (\<lambda>e. c \<le> sd_decided_at e) (kb_decision_logs s))"
    by (simp add: kb_sequences_def gc_primary_def)
  have "distinct (kb_sequences ?u)" unfolding seqs
    by (rule distinct_append_filter) (use wf in \<open>simp add: kb_wf_def kb_sequences_def comp_def\<close>)
  moreover have "set (kb_sequences ?u) \<subseteq> set (kb_sequences s)" unfolding seqs by (auto simp: kb_sequences_def)
  ultimately show ?thesis using wf by (auto simp: kb_wf_def gc_primary_def distinct_map_filter)
qed

lemma kb_wf_datasets [simp]: "kb_wf (s\<lparr>kb_learning_datasets := ds\<rparr>) = kb_wf s"
  by (simp add: kb_wf_def kb_sequences_def)

lemma kb_wf_models [simp]: "kb_wf (s\<lparr>kb_learning_models := ms\<rparr>) = kb_wf s"
  by (simp add: kb_wf_def kb_sequences_def)

lemma kb_wf_evidence [simp]: "kb_wf (s\<lparr>kb_learning_evidence := es\<rparr>) = kb_wf s"
  by (simp add: kb_wf_def kb_sequences_def)

lemma kb_wf_obs [simp]: "kb_wf (s\<lparr>kb_obs := o1\<rparr>) = kb_wf s"
  by (simp add: kb_wf_def kb_sequences_def)

lemma kb_wf_gc: "kb_wf s \<Longrightarrow> kb_wf (fst (gc_locked kp now s))"
  by (auto simp: gc_locked_def Let_def kb_wf_gc_primary split: sum.splits)

text \<open>A new entry with the next number keeps the invariant.\<close>

lemma dset_values_distinct:
  "wf_dict d \<Longrightarrow> distinct (map (\<lambda>e. f (snd e)) d) \<Longrightarrow> f x \<notin> (\<lambda>e. f (snd e)) ` set d \<Longrightarrow> distinct (map (\<lambda>e. f (snd e)) (dset k x d))"
proof (induction d)
  case (Cons e d)
  have "(\<lambda>e. f (snd e)) ` set (dset k x d) \<subseteq> insert (f x) ((\<lambda>e. f (snd e)) ` set d)"
    using set_dset_sub [of k x d] by force
  with Cons show ?case by (cases e) auto
qed simp

lemma disjoint_grown: "A' \<subseteq> insert n A \<Longrightarrow> A \<inter> D = {} \<Longrightarrow> n \<notin> D \<Longrightarrow> A' \<inter> D = {}"
  by blast

lemma kb_wf_insert_record:
  assumes wf: "kb_wf s" and e: "sr_sequence e = kb_sequence s + 1" "kr_record_id (sr_record e) = k"
  shows "kb_wf (s\<lparr>kb_sequence := kb_sequence s + 1, kb_records := dset k e (kb_records s)\<rparr>)"
proof -
  let ?u = "s\<lparr>kb_sequence := kb_sequence s + 1, kb_records := dset k e (kb_records s)\<rparr>"
  let ?R = "\<lambda>d. (\<lambda>x. sr_sequence (snd x)) ` set d" and ?D = "sd_sequence ` set (kb_decision_logs s)"
  have old: "\<forall>n\<in>set (kb_sequences s). n \<noteq> kb_sequence s + 1" using wf by (auto simp: kb_wf_def)
  have "distinct (map (\<lambda>x. sr_sequence (snd x)) (dset k e (kb_records s)))"
    by (rule dset_values_distinct) (use wf old e(1) in \<open>auto simp: kb_wf_def kb_sequences_def comp_def\<close>)
  moreover have sub: "?R (dset k e (kb_records s)) \<subseteq> insert (kb_sequence s + 1) (?R (kb_records s))"
    using set_dset_sub [of k e "kb_records s"] e(1) by force
  have RD: "?R (kb_records s) \<inter> ?D = {}" "kb_sequence s + 1 \<notin> ?D" and D: "distinct (map sd_sequence (kb_decision_logs s))"
    using wf old by (simp_all add: kb_wf_def kb_sequences_def image_image) blast
  note disjoint_grown [OF sub RD]
  ultimately have seqs: "distinct (kb_sequences ?u)" using D by (simp add: kb_sequences_def comp_def image_image)
  have "set (kb_sequences ?u) = ?R (dset k e (kb_records s)) \<union> ?D" "set (kb_sequences s) = ?R (kb_records s) \<union> ?D"
    by (simp_all add: kb_sequences_def image_image)
  then have seqs2: "set (kb_sequences ?u) \<subseteq> insert (kb_sequence s + 1) (set (kb_sequences s))"
    using Un_mono [OF sub subset_refl [of ?D]] by simp
  have "\<forall>n\<in>insert (kb_sequence s + 1) (set (kb_sequences s)). 0 < n \<and> n \<le> kb_sequence s + 1" using wf by (auto simp: kb_wf_def)
  then have "\<forall>n\<in>set (kb_sequences ?u). 0 < n \<and> n \<le> kb_sequence ?u" using seqs2 by auto
  moreover have "\<forall>x\<in>set (kb_records ?u). kr_record_id (sr_record (snd x)) = fst x"
  proof -
    have "\<forall>x\<in>insert (k, e) (set (kb_records s)). kr_record_id (sr_record (snd x)) = fst x" using wf e(2) by (simp add: kb_wf_def)
    then have "\<forall>x\<in>set (dset k e (kb_records s)). kr_record_id (sr_record (snd x)) = fst x"
      by (rule ballI [OF bspec]) (rule subsetD [OF set_dset_sub])
    then show ?thesis by simp
  qed
  ultimately show ?thesis using wf seqs by (simp add: kb_wf_def wf_dict_dset)
qed

lemma kb_wf_append_decision:
  assumes "kb_wf s" "sd_sequence e = kb_sequence s + 1"
  shows "kb_wf (s\<lparr>kb_sequence := kb_sequence s + 1, kb_decision_logs := kb_decision_logs s @ [e]\<rparr>)"
proof -
  let ?u = "s\<lparr>kb_sequence := kb_sequence s + 1, kb_decision_logs := kb_decision_logs s @ [e]\<rparr>"
  have "kb_sequences ?u = kb_sequences s @ [kb_sequence s + 1]" using assms(2) by (simp add: kb_sequences_def)
  moreover have "kb_sequence s + 1 \<notin> set (kb_sequences s)" using assms(1) by (auto simp: kb_wf_def)
  ultimately show ?thesis using assms(1) unfolding kb_wf_def by force
qed

section \<open>Insertions\<close>

lemma kb_wf_upsert: "kb_wf s \<Longrightarrow> kb_wf (fst (upsert_record kp now call a r s))"
  by (auto simp: upsert_record_def Let_def kb_wf_insert_record split: sum.splits option.splits)

lemma kb_wf_store_decision: "kb_wf s \<Longrightarrow> kb_wf (fst (store_decision_log kp now t p scope d s))"
  by (simp add: store_decision_log_def Let_def kb_wf_append_decision)

lemma kb_wf_batch_step: "kb_wf (fst acc) \<Longrightarrow> kb_wf (fst (batch_step kp now call env ov acc r))"
proof (cases acc)
  fix s n es assume acc: "acc = (s, n, es)" and "kb_wf (fst acc)"
  then have "kb_wf (fst (upsert_record kp now (Some call) (rpc_args env ov r) r s))" by (simp add: kb_wf_upsert)
  with acc \<open>kb_wf (fst acc)\<close> show ?thesis by (auto simp: batch_step_def split: prod.splits sum.splits)
qed

lemma kb_wf_batch: "kb_wf (fst acc) \<Longrightarrow> kb_wf (fst (foldl (batch_step kp now call env ov) acc rs))"
proof (induction rs arbitrary: acc)
  case (Cons r rs)
  show ?case unfolding foldl_Cons by (rule Cons.IH) (rule kb_wf_batch_step [OF Cons.prems])
qed simp

section \<open>The whole service as a state machine\<close>

lemma kb_wf_write_event [simp]: "kb_wf (fst (kb_write_event event s)) = kb_wf s"
  by (simp add: kb_write_event_def split: sum.split)

lemma kb_wf_audit [simp]: "kb_wf (fst (kb_audit call ctx v op d r n h res s)) = kb_wf s"
  by (simp add: kb_audit_def split: sum.split)

lemma kb_wf_count [simp]: "kb_wf (kb_count k h s) = kb_wf s"
  by (simp add: kb_count_def)

lemma kb_wf_contract [simp]: "kb_wf (kb_contract env outcome s) = kb_wf s"
  by (simp add: kb_contract_def)

lemma kb_wf_file_dataset [simp]: "kb_wf (file_dataset k v d s) = kb_wf s"
  by (simp add: file_dataset_def)

lemma kb_wf_decode [simp]: "kb_wf (fst (kb_decode_cursor kp kind sig token s)) = kb_wf s"
  by (simp add: kb_decode_cursor_def split: option.split)

lemma kb_wf_transition [simp]: "kb_wf (fst (learning_transition kp now key f t pol g q r c s)) = kb_wf s"
  by (simp add: learning_transition_def Let_def split: prod.split)

lemma kb_wf_file_evidence [simp]: "kb_wf (file_evidence e s) = kb_wf s"
  by (simp add: file_evidence_def Let_def)

lemma kb_wf_store_evidence [simp]: "kb_wf (fst (learning_store_evidence kp now a s)) = kb_wf s"
  by (simp add: learning_store_evidence_def split: sum.split)

lemmas kb_wf_then = kb_then_inv [where P = kb_wf]

lemma kb_wf_authz: "kb_wf s \<Longrightarrow> kb_wf (fst (kb_enforce_authz kp call perm s))"
  by (auto simp: kb_enforce_authz_def kb_decide_authz_def Let_def intro!: kb_wf_then split: sum.split prod.split)

lemma kb_wf_access: "kb_wf s \<Longrightarrow> kb_wf (fst (require_access kp now call perm operation s))"
  unfolding require_access_def by (auto intro!: kb_wf_then kb_wf_authz simp: abort_storage_unavailable_def)

lemmas kb_wf_intros = kb_wf_then kb_wf_gc kb_wf_access kb_wf_upsert

lemma kb_wf_rpc:
  assumes "kb_wf s"
  shows "kb_wf (fst (UpsertRecord kp now call e r ov s))" "kb_wf (fst (BatchUpsertRecords kp now call e rs ov s))"
    "kb_wf (fst (AppendDecisionLog kp now call e d s))" "kb_wf (fst (GetRecord kp now call e record_id s))"
    "kb_wf (fst (query_page kp now call e operation kind fp listing requested token s))"
proof -
  show "kb_wf (fst (UpsertRecord kp now call e r ov s))"
    unfolding UpsertRecord_def require_write_def using assms by (auto intro!: kb_wf_intros)
  show "kb_wf (fst (BatchUpsertRecords kp now call e rs ov s))"
    unfolding BatchUpsertRecords_def require_write_def using assms kb_wf_batch
    by (auto intro!: kb_wf_intros simp: case_prod_unfold)
  show "kb_wf (fst (AppendDecisionLog kp now call e d s))"
    unfolding AppendDecisionLog_def require_write_def using assms kb_wf_store_decision
    by (auto intro!: kb_wf_intros simp: case_prod_unfold)
  show "kb_wf (fst (GetRecord kp now call e record_id s))"
    unfolding GetRecord_def require_read_def Let_def using assms by (auto intro!: kb_wf_intros simp: case_prod_unfold split: option.split)
  show "kb_wf (fst (query_page kp now call e operation kind fp listing requested token s))"
    unfolding query_page_def require_read_def Let_def using assms by (auto intro!: kb_wf_intros simp: case_prod_unfold)
qed

inductive kb_step :: "kb_platform \<Rightarrow> kb_state \<Rightarrow> kb_state \<Rightarrow> bool" for kp where
  learning: "kb_learning_step kp s u \<Longrightarrow> kb_step kp s u"
| upsert: "kb_step kp s (fst (UpsertRecord kp now call e r ov s))"
| batch: "kb_step kp s (fst (BatchUpsertRecords kp now call e rs ov s))"
| append: "kb_step kp s (fst (AppendDecisionLog kp now call e d s))"
| get: "kb_step kp s (fst (GetRecord kp now call e record_id s))"
| query_records: "kb_step kp s (fst (QueryRecords kp now call e f requested token s))"
| query_logs: "kb_step kp s (fst (QueryDecisionLogs kp now call e trace_id model_version requested token s))"
| restart: "kb_step kp s (reset_okb_index_runtime_state s)"

lemma kb_wf_command: "kb_command kp s u \<Longrightarrow> kb_wf s \<Longrightarrow> kb_wf u"
proof (cases rule: kb_command.cases)
qed (auto simp: start_training_def run_evaluation_def promote_model_def rollback_model_def assemble_learning_dataset_def
    query_learning_evidence_def get_training_dataset_def get_model_lifecycle_def rebuild_indexes_op_def Let_def case_prod_unfold
    intro!: kb_wf_intros split: option.split)

lemma kb_wf_learning: "kb_learning_step kp s u \<Longrightarrow> kb_wf s \<Longrightarrow> kb_wf u"
  by (cases rule: kb_learning_step.cases)
    (auto simp: kb_wf_command ingest_learning_evidence_def intro!: kb_wf_intros)

lemma dkeys_new_indexes [simp]: "dkeys new_indexes = OKB_INDEX_MODES"
  by (simp add: new_indexes_def comp_def)

lemma kb_wf_restart: "kb_wf s \<Longrightarrow> kb_wf (reset_okb_index_runtime_state s)"
  by (simp add: reset_okb_index_runtime_state_def kb_wf_def kb_sequences_def)

lemma kb_wf_init: "kb_init kp mode ret o1 = Inr s \<Longrightarrow> kb_wf s"
  by (auto simp: kb_init_def Let_def kb_wf_def kb_sequences_def split: option.splits)

interpretation kb_service: invariant_system "\<lambda>s. \<exists>mode ret o1. kb_init kp mode ret o1 = Inr s" "kb_step kp" kb_wf for kp
proof unfold_locales
  fix s assume "\<exists>mode ret o1. kb_init kp mode ret o1 = Inr s"
  then show "kb_wf s" using kb_wf_init by blast
next
  fix s t assume "kb_wf s" "kb_step kp s t"
  from this(2,1) show "kb_wf t"
    by cases (simp_all add: kb_wf_learning kb_wf_rpc QueryRecords_def QueryDecisionLogs_def kb_wf_restart)
qed

end
