(* ===== verification/KbCandidates.thy ===== *)
theory KbCandidates
  imports KbRecords
begin

text \<open>
  The optimisation candidates of the knowledge base (\<open>knowledge_base.py\<close>, lines 765 to 843, 2039 to 2283 and 2619 to
  2639): a query is normalised, its scope brought up to date, the sources of the index turned into scored candidates, and the
  best of them returned. Scores are floats rounded to six places; the model counts them in millionths, which keeps their
  order. The two roundings that depend on float arithmetic are parameters.
\<close>

section \<open>Queries\<close>

record score_platform =
  sc_vector :: "nat \<Rightarrow> int"
  sc_hybrid :: "int \<Rightarrow> int \<Rightarrow> int"
  sc_mean :: "int \<Rightarrow> int \<Rightarrow> int"

record okb_query =
  oq_tenant_id :: string
  oq_project_id :: string
  oq_job_id :: string
  oq_semantic_hash :: string
  oq_aqo_hash :: string
  oq_backend_profile_id :: string
  oq_capability_scope :: "string list"
  oq_topology_snapshot_digest :: string
  oq_policy_envelope_digest :: string
  oq_kb_schema_version :: string
  oq_compiler_version :: string
  oq_optimizer_version :: string
  oq_seed :: int
  oq_deterministic :: bool
  oq_query_mode :: string
  oq_candidate_budget :: int

definition OKB_MAX_CANDIDATES :: int where "OKB_MAX_CANDIDATES = 8"

definition normalize_okb_query :: "kb_platform \<Rightarrow> json_dict \<Rightarrow> (kb_failure, okb_query) result" where
  "normalize_okb_query kp payload =
     (let t = field_text kp payload ''tenant_id''; p = field_text kp payload ''project_id'';
          mode = str_else (py_lower (py_strip (field_str kp payload ''query_mode'' ''structural''))) ''structural'' in
      if t = [] \<or> p = [] then Inl (KbValueError ''tenant_id and project_id are required'')
      else if mode \<notin> {''structural'', ''vector'', ''hybrid''} then Inl (KbValueError ''query_mode must be structural, vector, or hybrid'')
      else
        rbind (kb_py (field_int kp payload ''candidate_budget'' 1)) (\<lambda>budget.
        rbind (kb_py (field_int kp payload ''seed'' 0)) (\<lambda>seed.
        rbind (kb_py (capability_scope_tokens kp payload)) (\<lambda>scope.
          Inr \<lparr>oq_tenant_id = t, oq_project_id = p, oq_job_id = field_text kp payload ''job_id'',
               oq_semantic_hash = field_text kp payload ''semantic_hash'', oq_aqo_hash = field_text kp payload ''aqo_hash'',
               oq_backend_profile_id = field_text kp payload ''backend_profile_id'', oq_capability_scope = scope,
               oq_topology_snapshot_digest = field_text kp payload ''topology_snapshot_digest'',
               oq_policy_envelope_digest = field_text kp payload ''policy_envelope_digest'',
               oq_kb_schema_version = str_else (py_strip (field_str kp payload ''kb_schema_version'' KB_CONTRACT_VERSION)) KB_CONTRACT_VERSION,
               oq_compiler_version = field_text kp payload ''compiler_version'', oq_optimizer_version = field_text kp payload ''optimizer_version'',
               oq_seed = seed, oq_deterministic = field_bool payload ''deterministic'' True, oq_query_mode = mode,
               oq_candidate_budget = max 1 (min budget OKB_MAX_CANDIDATES)\<rparr>))))"

text \<open>The query inside a basis, and the part of it that is signed.\<close>

definition query_json :: "okb_query \<Rightarrow> pyval" where
  "query_json q =
     PDict [(''tenant_id'', PStr (oq_tenant_id q)), (''project_id'', PStr (oq_project_id q)), (''job_id'', PStr (oq_job_id q)),
       (''semantic_hash'', PStr (oq_semantic_hash q)), (''aqo_hash'', PStr (oq_aqo_hash q)),
       (''backend_profile_id'', PStr (oq_backend_profile_id q)), (''capability_scope'', strs (oq_capability_scope q)),
       (''topology_snapshot_digest'', PStr (oq_topology_snapshot_digest q)), (''policy_envelope_digest'', PStr (oq_policy_envelope_digest q)),
       (''kb_schema_version'', PStr (oq_kb_schema_version q)), (''compiler_version'', PStr (oq_compiler_version q)),
       (''optimizer_version'', PStr (oq_optimizer_version q)), (''seed'', PInt (oq_seed q)), (''deterministic'', PBool (oq_deterministic q)),
       (''query_mode'', PStr (oq_query_mode q)), (''candidate_budget'', PInt (oq_candidate_budget q))]"

definition signed_query_json :: "okb_query \<Rightarrow> pyval" where
  "signed_query_json q =
     PDict [(''tenant_id'', PStr (oq_tenant_id q)), (''project_id'', PStr (oq_project_id q)), (''semantic_hash'', PStr (oq_semantic_hash q)),
       (''aqo_hash'', PStr (oq_aqo_hash q)), (''backend_profile_id'', PStr (oq_backend_profile_id q)),
       (''capability_scope'', strs (oq_capability_scope q)), (''topology_snapshot_digest'', PStr (oq_topology_snapshot_digest q)),
       (''policy_envelope_digest'', PStr (oq_policy_envelope_digest q)), (''seed'', PInt (oq_seed q)), (''query_mode'', PStr (oq_query_mode q)),
       (''deterministic'', PBool (oq_deterministic q))]"

section \<open>Candidates\<close>

record candidate =
  cd_candidate_id :: string
  cd_candidate_source :: string
  cd_optimization_type :: string
  cd_transformation_ref :: string
  cd_provenance_ref :: string
  cd_compatibility_window :: string
  cd_deterministic_digest :: string
  cd_explanation_ref :: string
  cd_selection_reason :: string
  cd_confidence :: int
  cd_structural_score :: int
  cd_vector_score :: int
  cd_score_total :: int
  cd_rank_source :: string
  cd_capability_scope :: "string list"

text \<open>What a candidate is built from; the basis is the dictionary that is signed, the two identifiers excepted for the score.\<close>

record candidate_spec =
  cs_candidate_id :: string
  cs_candidate_source :: string
  cs_optimization_type :: string
  cs_transformation_ref :: string
  cs_provenance_ref :: string
  cs_compatibility_window :: string
  cs_selection_reason :: string
  cs_explanation_ref :: string
  cs_backend :: string
  cs_optimizer :: string
  cs_basis :: json_dict

definition record_spec :: "okb_query \<Rightarrow> stored_record \<Rightarrow> candidate_spec" where
  "record_spec q e =
     (let r = sr_record e in
      \<lparr>cs_candidate_id = ''okb-record-'' @ kr_record_id r, cs_candidate_source = ''record'',
       cs_optimization_type = (if oq_query_mode q \<noteq> ''vector'' then ''structural-reuse'' else ''vector-reuse''),
       cs_transformation_ref = str_else (kr_artifact_ref r) (kr_record_id r),
       cs_provenance_ref = str_else (rp_compiler_ref (kr_provenance r)) (kr_record_id r),
       cs_compatibility_window = str_else (kr_optimizer_version r) (oq_optimizer_version q) @ ''::''
          @ str_else (kr_backend_profile r) (oq_backend_profile_id q),
       cs_selection_reason = (if oq_query_mode q = ''structural'' then ''structural_match'' else ''vector_similarity''),
       cs_explanation_ref = ''kb://records/'' @ kr_record_id r @ ''/explain'',
       cs_backend = kr_backend_profile r, cs_optimizer = kr_optimizer_version r,
       cs_basis = [(''kind'', PStr ''record''), (''record_id'', PStr (kr_record_id r)), (''backend_profile'', PStr (kr_backend_profile r)),
         (''optimizer_version'', PStr (kr_optimizer_version r)), (''trace_id'', PStr (dget_or (kr_attributes r) ''trace_id'' [])),
         (''lineage_model_version'', PStr (ml_model_version (kr_lineage r))), (''artifact_ref'', PStr (kr_artifact_ref r)),
         (''provenance_ref'', PStr (rp_compiler_ref (kr_provenance r))), (''capability_scope'', strs (sr_capability_scope e)),
         (''query'', query_json q)]\<rparr>)"

definition decision_spec :: "okb_query \<Rightarrow> stored_decision \<Rightarrow> candidate_spec" where
  "decision_spec q e =
     (let d = sd_decision_log e in
      \<lparr>cs_candidate_id = ''okb-decision-'' @ dl_decision_id d, cs_candidate_source = ''decision_log'',
       cs_optimization_type = ''decision-lineage-reuse'',
       cs_transformation_ref = str_else (dl_selected_action d) (dl_decision_id d),
       cs_provenance_ref = str_else (dl_trace_id d) (dl_decision_id d),
       cs_compatibility_window = str_else (dl_model_version d) (oq_optimizer_version q) @ ''::'' @ str_else (oq_backend_profile_id q) ''any'',
       cs_selection_reason = (if oq_query_mode q = ''structural'' then ''lineage_match'' else ''vector_similarity''),
       cs_explanation_ref = ''kb://decision-logs/'' @ dl_decision_id d @ ''/explain'',
       cs_backend = dl_selected_action d, cs_optimizer = dl_model_version d,
       cs_basis = [(''kind'', PStr ''decision_log''), (''decision_id'', PStr (dl_decision_id d)), (''trace_id'', PStr (dl_trace_id d)),
         (''model_version'', PStr (dl_model_version d)), (''component'', PStr (dl_component d)),
         (''policy_branch'', PStr (dl_policy_branch d)), (''selected_action'', PStr (dl_selected_action d)),
         (''capability_scope'', strs (sd_capability_scope e)), (''query'', query_json q)]\<rparr>)"

definition candidate_signature :: "kb_platform \<Rightarrow> okb_query \<Rightarrow> candidate_spec \<Rightarrow> json_dict \<Rightarrow> string" where
  "candidate_signature kp q c basis =
     stable_digest kp (PDict [(''candidate_source'', PStr (cs_candidate_source c)), (''optimization_type'', PStr (cs_optimization_type c)),
       (''basis'', PDict basis), (''query'', signed_query_json q)])"

text \<open>The weights 0.45, 0.35 and 0.20.\<close>

definition structural_score :: "okb_query \<Rightarrow> candidate_spec \<Rightarrow> int" where
  "structural_score q c =
     (let backend = py_strip (cs_backend c); optimizer = py_strip (cs_optimizer c) in
      (if backend \<noteq> [] \<and> backend = oq_backend_profile_id q then 450000 else 0)
      + (if optimizer \<noteq> [] \<and> optimizer = oq_optimizer_version q then 350000 else 0)
      + (if cs_compatibility_window c = oq_optimizer_version q @ ''::'' @ oq_backend_profile_id q then 200000 else 0))"

text \<open>\<open>int(text, 16)\<close> of a part of a hexadecimal digest.\<close>

fun hex_number :: "nat \<Rightarrow> string \<Rightarrow> nat option" where
  "hex_number a [] = Some a"
| "hex_number a (c # cs) = (case hex_val c of None \<Rightarrow> None | Some n \<Rightarrow> hex_number (16 * a + n) cs)"

definition vector_score :: "score_platform \<Rightarrow> string \<Rightarrow> (kb_failure, int) result" where
  "vector_score sp signature =
     (let digits = take 16 (drop (length ''sha256:'') signature) in
      case (if digits = [] then None else hex_number 0 digits) of
        None \<Rightarrow> Inl (KbPy (ValueError ''invalid literal for int()''))
      | Some raw \<Rightarrow> Inr (sc_vector sp raw))"

definition score_of :: "score_platform \<Rightarrow> string \<Rightarrow> int \<Rightarrow> int \<Rightarrow> int" where
  "score_of sp mode structural vec =
     (if mode = ''vector'' then vec else if mode = ''hybrid'' then sc_hybrid sp structural vec else structural)"

definition rank_source :: "string \<Rightarrow> string" where
  "rank_source mode = (if mode = ''vector'' then ''vector'' else if mode = ''hybrid'' then ''hybrid'' else ''structural'')"

definition build_candidate :: "kb_platform \<Rightarrow> score_platform \<Rightarrow> okb_query \<Rightarrow> candidate_spec \<Rightarrow> (kb_failure, candidate) result" where
  "build_candidate kp sp q c =
     (let score_basis = filter (\<lambda>(k, _). k \<notin> {''record_id'', ''decision_id''}) (cs_basis c);
          structural = structural_score q c in
      rbind (vector_score sp (candidate_signature kp q c score_basis)) (\<lambda>vec.
        Inr \<lparr>cd_candidate_id = cs_candidate_id c, cd_candidate_source = cs_candidate_source c, cd_optimization_type = cs_optimization_type c,
             cd_transformation_ref = cs_transformation_ref c, cd_provenance_ref = cs_provenance_ref c,
             cd_compatibility_window = cs_compatibility_window c, cd_deterministic_digest = candidate_signature kp q c (cs_basis c),
             cd_explanation_ref = cs_explanation_ref c, cd_selection_reason = cs_selection_reason c,
             cd_confidence = sc_mean sp structural vec, cd_structural_score = structural, cd_vector_score = vec,
             cd_score_total = score_of sp (oq_query_mode q) structural vec, cd_rank_source = rank_source (oq_query_mode q),
             cd_capability_scope = oq_capability_scope q\<rparr>))"

section \<open>The pool\<close>

definition scope_fits :: "okb_query \<Rightarrow> string list \<Rightarrow> string list \<Rightarrow> bool" where
  "scope_fits q stored requested \<longleftrightarrow> scope_equal (okb_filter_scope_tokens stored (oq_backend_profile_id q)) requested"

definition source_spec :: "okb_query \<Rightarrow> string list \<Rightarrow> kb_state \<Rightarrow> string \<Rightarrow> candidate_spec option" where
  "source_spec q requested s source_id =
     (if py_startswith source_id ''record:'' then
        (case dget (kb_records s) (drop 7 source_id) of
           None \<Rightarrow> None
         | Some e \<Rightarrow> if in_scope_record (oq_tenant_id q) (oq_project_id q) e \<and> scope_fits q (sr_capability_scope e) requested
                     then Some (record_spec q e) else None)
      else if py_startswith source_id ''decision:'' then
        map_option (decision_spec q) (find (\<lambda>e. dl_decision_id (sd_decision_log e) = drop 9 source_id
           \<and> in_scope_decision (oq_tenant_id q) (oq_project_id q) e \<and> scope_fits q (sd_capability_scope e) requested) (kb_decision_logs s))
      else None)"

definition pool_sources :: "okb_query \<Rightarrow> kb_state \<Rightarrow> string list" where
  "pool_sources q s =
     (let ids = okb_index_sources_for_mode s (oq_query_mode q) (okb_scope_key (oq_tenant_id q) (oq_project_id q)) in
      if ids \<noteq> [] then ids
      else map (\<lambda>e. ''record:'' @ kr_record_id (sr_record e)) (filter (in_scope_record (oq_tenant_id q) (oq_project_id q)) (dvalues (kb_records s)))
         @ map (\<lambda>e. ''decision:'' @ dl_decision_id (sd_decision_log e)) (filter (in_scope_decision (oq_tenant_id q) (oq_project_id q)) (kb_decision_logs s)))"

definition okb_candidate_pool :: "kb_platform \<Rightarrow> score_platform \<Rightarrow> okb_query \<Rightarrow> kb_state \<Rightarrow> (kb_failure, candidate list) result" where
  "okb_candidate_pool kp sp q s =
     (let requested = okb_filter_scope_tokens (oq_capability_scope q) (oq_backend_profile_id q) in
      rbind (rmap (build_candidate kp sp q) (List.map_filter (source_spec q requested s) (pool_sources q s))) (\<lambda>pool.
        Inr (filter (\<lambda>c. 0 < cd_score_total c
          \<and> scope_within (okb_filter_scope_tokens (cd_capability_scope c) (oq_backend_profile_id q)) requested) pool)))"

definition candidate_rank :: "candidate \<Rightarrow> int \<times> int \<times> string" where
  "candidate_rank c = (- cd_score_total c, - cd_confidence c, cd_candidate_id c)"

section \<open>The query\<close>

record candidate_page =
  cp_query :: okb_query
  cp_selected_candidate_id :: string
  cp_candidates :: "(candidate \<times> bool) list"
  cp_explanation_ref :: string
  cp_selection_digest :: string
  cp_index_status :: index_health

definition selection_digest :: "kb_platform \<Rightarrow> okb_query \<Rightarrow> string \<Rightarrow> candidate list \<Rightarrow> string" where
  "selection_digest kp q selected cs =
     stable_digest kp (PDict [(''query'', PDict (filter (\<lambda>(k, _). k \<noteq> ''job_id'') (case query_json q of PDict d \<Rightarrow> d | _ \<Rightarrow> []))),
       (''selected_candidate_id'', PStr selected), (''candidate_ids'', strs (map cd_candidate_id cs))])"

definition candidate_page_of :: "kb_platform \<Rightarrow> okb_query \<Rightarrow> candidate list \<Rightarrow> index_health \<Rightarrow> candidate_page" where
  "candidate_page_of kp q pool health =
     (let ordered = take (nat (oq_candidate_budget q)) (sort_key candidate_rank pool);
          selected = (case ordered of [] \<Rightarrow> [] | c # _ \<Rightarrow> cd_candidate_id c);
          digest = selection_digest kp q selected ordered in
      \<lparr>cp_query = q, cp_selected_candidate_id = selected, cp_candidates = map (\<lambda>c. (c, cd_candidate_id c = selected)) ordered,
       cp_explanation_ref = (if oq_job_id q \<noteq> [] then ''qfs://jobs/'' @ oq_job_id q @ ''/kb/explain.json'' else ''kb://explain/'' @ digest),
       cp_selection_digest = digest, cp_index_status = health\<rparr>)"

definition query_optimization_candidates ::
  "kb_platform \<Rightarrow> score_platform \<Rightarrow> int \<Rightarrow> json_dict \<Rightarrow> grpc_call option \<Rightarrow> candidate_page kb_op" where
  "query_optimization_candidates kp sp now payload call s =
     (if storage_unavailable s then (s, Inl no_storage)
      else
        kb_then (s, normalize_okb_query kp payload) (\<lambda>q s.
        kb_then (s, retrieval_security_context kp call ''query_optimization_candidates'') (\<lambda>_ s.
        kb_then (gc_locked kp now s) (\<lambda>_ s.
          let s1 = fst (okb_ensure_indexes_ready kp now (oq_tenant_id q) (oq_project_id q) s) in
          kb_then (s1, okb_candidate_pool kp sp q s1) (\<lambda>pool s.
            (s, Inr (candidate_page_of kp q pool (describe_index_health kp s (Some (oq_tenant_id q)) (Some (oq_project_id q))))))))))"

end
