(* ===== verification/KbProperties.thy ===== *)
theory KbProperties
  imports KbRecords SecurityProperties JobSpecProperties
begin

text \<open>
  The properties of the knowledge base: the lifecycle of models, the retention of datasets, what evidence is stored and shown,
  the derived indexes, and the record store.
\<close>

section \<open>A platform for the witnesses\<close>

text \<open>Times are written as numbers; the digests are constant.\<close>

definition demo_kp :: "(string \<times> string) list \<Rightarrow> kb_platform" where
  "demo_kp env =
     \<lparr>kp_sec = demo_sec env, kp_sha256 = (\<lambda>_. ''00''), kp_hmac_hex = (\<lambda>_ _. ''00''), kp_iso = show_int, kp_parse_iso = py_int,
      kp_float_less = (\<lambda>_ _. False), kp_round6 = Some\<rparr>"

definition demo_kb_obs :: kb_obs where
  "demo_kb_obs = \<lparr>ko_writable = True, ko_lines = [], ko_query_total = [], ko_fallback_total = [], ko_replay_failures = 0, ko_contract_total = []\<rparr>"

definition demo_kb :: kb_state where
  "demo_kb =
     \<lparr>kb_storage_mode = ''memory'', kb_retention_seconds = 100, kb_anon_salt = ''salt'', kb_anon_epoch = ''1'', kb_records = [],
      kb_decision_logs = [], kb_learning_evidence = [], kb_learning_models = [], kb_learning_datasets = [], kb_sequence = 0,
      kb_okb_indexes = new_indexes, kb_okb_restart_count = 0, kb_obs = demo_kb_obs\<rparr>"

definition demo_model :: "string \<Rightarrow> learning_model" where
  "demo_model st =
     \<lparr>lm_tenant_id = ''t'', lm_project_id = ''p'', lm_model_version = ''m1'', lm_training_set_hash = [], lm_evaluation_bundle_hash = [],
      lm_promotion_policy_version = [], lm_lifecycle_state = st, lm_gate_results = [], lm_updated_at = ''7'', lm_queryable_ref = ''kb://models/m1'',
      lm_evidence_ref = PStr ''kb://learning/e'', lm_quarantine_state = ''none''\<rparr>"

definition demo_kb_model :: "string \<Rightarrow> kb_state" where
  "demo_kb_model st = demo_kb\<lparr>kb_learning_models := [((''t'', ''p'', ''m1''), demo_model st)]\<rparr>"

definition demo_payload :: json_dict where
  "demo_payload =
     [(''tenant_id'', PStr ''t''), (''project_id'', PStr ''p''), (''model_version'', PStr ''m1''), (''shadow_validated'', PBool True),
      (''canary_passed'', PBool True)]"

section \<open>Promotion\<close>

text \<open>A call that gets as far as the model.\<close>

definition reaches_model :: "kb_platform \<Rightarrow> int \<Rightarrow> json_dict \<Rightarrow> kb_state \<Rightarrow> kb_state \<Rightarrow> learning_model \<Rightarrow> bool" where
  "reaches_model kp now payload s u m \<longleftrightarrow>
     \<not> storage_unavailable s \<and> (\<exists>pol. normalize_learning_policy kp payload = Inr pol) \<and> (\<exists>g. field_vdict payload ''gate_results'' = Inr g)
     \<and> field_text kp payload ''model_version'' \<noteq> [] \<and> gc_locked kp now s = (u, Inr ()) \<and> dget (kb_learning_models u) (model_key kp payload) = Some m"

lemma promote_outcome:
  assumes "reaches_model kp now payload s u m"
  shows "(\<exists>v r. promote_model kp now payload s = (v, Inr r)
       \<and> (\<forall>k. dget (kb_learning_models v) k \<noteq> dget (kb_learning_models u) k \<longrightarrow> k = model_key kp payload)
       \<and> (\<exists>m'. dget (kb_learning_models v) (model_key kp payload) = Some m' \<and> lm_lifecycle_state m' = ''PROMOTED''))
    \<or> (\<exists>v e. promote_model kp now payload s = (v, Inl (KbPermissionError e)) \<and> kb_learning_models v = kb_learning_models u)"
  and "(\<exists>v r. promote_model kp now payload s = (v, Inr r)) \<longleftrightarrow>
    field_bool payload ''shadow_validated'' False \<and> field_bool payload ''canary_passed'' False
    \<and> known_state (lm_lifecycle_state m) \<in> {''CANARY'', ''PROMOTED''}"
  using assms transition_table(3) [of "lm_lifecycle_state m"]
  by (auto simp: reaches_model_def promote_model_def learning_transition_def Let_def kb_py_def split: prod.splits if_splits)


lemma demo_seven: "py_int ''7'' = Some 7"
  by code_simp

lemma demo_gc: "gc_locked (demo_kp env) 0 (demo_kb_model st) = (demo_kb_model st, Inr ())"
  by (simp add: gc_locked_def gc_primary_def demo_kb_model_def demo_kb_def demo_model_def demo_kp_def parse_iso_datetime_def demo_seven Let_def)

lemma demo_key: "model_key (demo_kp env) demo_payload = (''t'', ''p'', ''m1'')" "field_text (demo_kp env) demo_payload ''model_version'' = ''m1''"
proof -
  have "py_strip ''m1'' = ''m1''" by code_simp
  then show "model_key (demo_kp env) demo_payload = (''t'', ''p'', ''m1'')" "field_text (demo_kp env) demo_payload ''model_version'' = ''m1''"
    by (simp_all add: model_key_def payload_envelope_of_def field_text_def field_str_def demo_payload_def dget_or_def Let_def)
qed

lemma demo_reaches: "reaches_model (demo_kp []) 0 demo_payload (demo_kb_model st) (demo_kb_model st) (demo_model st)"
  by (simp add: reaches_model_def demo_gc demo_key storage_unavailable_def normalize_learning_policy_def field_int_def field_vdict_def)
    (simp add: demo_kb_model_def demo_kb_def demo_payload_def dget_or_def val_or_def to_int_val_def py_dict_def)

lemma demo_flags: "field_bool demo_payload ''shadow_validated'' False" "field_bool demo_payload ''canary_passed'' False"
  by (simp_all add: field_bool_def demo_payload_def dget_or_def)


section \<open>Rollback\<close>

text \<open>C34. A live model cannot be rolled back: the table of transitions names the rollback \<open>ROLLBACK_TO_VALIDATED\<close>, but the
  command asks for the state \<open>VALIDATED\<close>, which no entry of a model in shadow, canary or promoted allows. The command
  raises \<open>PermissionError\<close> and the model stays as it is; it only moves a trained or validated model.\<close>

theorem live_model_cannot_roll_back:
  assumes "reaches_model kp now payload s u m"
  shows "(known_state (lm_lifecycle_state m) \<in> live_states \<longrightarrow>
      rollback_model kp now payload s = (u, Inl (KbPermissionError (''transition '' @ known_state (lm_lifecycle_state m) @ '' -> VALIDATED is not allowed''))))
    \<and> ((\<exists>v r. rollback_model kp now payload s = (v, Inr r)) \<longleftrightarrow> known_state (lm_lifecycle_state m) \<in> {''TRAINED'', ''VALIDATED''})"
  using assms transition_table(2) [of "lm_lifecycle_state m"]
  by (auto simp: reaches_model_def rollback_model_def learning_transition_def Let_def kb_py_def live_states_def split: prod.splits if_splits)

theorem live_model_cannot_roll_back_witness:
  "rollback_model (demo_kp []) 0 demo_payload (demo_kb_model ''PROMOTED'') =
     (demo_kb_model ''PROMOTED'', Inl (KbPermissionError ''transition PROMOTED -> VALIDATED is not allowed''))"
  using live_model_cannot_roll_back [OF demo_reaches [of "''PROMOTED''"]] by (simp add: demo_model_def live_states_def)

section \<open>Commands never take a model live\<close>

lemma promote_reaches: "promote_model kp now payload s = (v, Inr r) \<Longrightarrow> \<exists>u m. reaches_model kp now payload s u m"
  by (auto simp: promote_model_def reaches_model_def kb_then_Inr split: if_splits option.splits)

text \<open>C10. From a registry without a live model no sequence of commands (training, evaluation, promotion, rollback, assembling
  datasets, reads, rebuilds, in any order and at any times) makes a model live, and promotion fails after each of them: no command
  leads to the states shadow and canary that promotion needs. Only ingested evidence does.\<close>

theorem commands_never_promote:
  assumes "no_live_model s" "(kb_command kp)\<^sup>*\<^sup>* s u"
  shows "(\<forall>e\<in>set (kb_learning_models u). known_state (lm_lifecycle_state (snd e)) \<notin> {''SHADOW'', ''CANARY'', ''PROMOTED''})
    \<and> (\<exists>e. snd (promote_model kp now payload u) = Inl e)"
proof
  have live: "no_live_model u" by (rule kb_commands.reach_inv_from [OF assms(2,1)])
  then show "\<forall>e\<in>set (kb_learning_models u). known_state (lm_lifecycle_state (snd e)) \<notin> {''SHADOW'', ''CANARY'', ''PROMOTED''}"
    by (simp add: no_live_model_def live_states_def)
  have "\<not> (\<exists>v r. promote_model kp now payload u = (v, Inr r))"
  proof
    assume ex: "\<exists>v r. promote_model kp now payload u = (v, Inr r)"
    then obtain w m where m: "reaches_model kp now payload u w m" using promote_reaches by blast
    with ex have "known_state (lm_lifecycle_state m) \<in> {''CANARY'', ''PROMOTED''}" using promote_outcome(2) [OF m] by blast
    moreover have "no_live_model w" using m no_live_gc [OF live, of kp now] by (simp add: reaches_model_def)
    ultimately show False using m found_not_live by (fastforce simp: reaches_model_def live_states_def)
  qed
  then show "\<exists>e. snd (promote_model kp now payload u) = Inl e" by (cases "promote_model kp now payload u"; cases "snd (promote_model kp now payload u)") auto
qed

theorem commands_never_promote_witness:
  "\<exists>e. snd (promote_model (demo_kp []) 0 demo_payload (fst (rollback_model (demo_kp []) 0 demo_payload (demo_kb_model ''VALIDATED'')))) = Inl e"
proof -
  have "no_live_model (demo_kb_model ''VALIDATED'')" by (simp add: no_live_model_def demo_kb_model_def demo_model_def live_states_def)
  then show ?thesis using commands_never_promote [OF _ r_into_rtranclp [of "kb_command (demo_kp [])", OF kb_command.rollback]] by blast
qed

section \<open>Assembled datasets\<close>

lemma blocked_fails: "blocked r \<Longrightarrow> \<exists>e. snd r = Inl e"
  by (simp add: blocked_def)

text \<open>C17. A dataset assembled from evidence stops the service: its summary has no \<open>updated_at\<close>, which the retention pass
  reads at the start of every operation, and the pass raises \<open>KeyError\<close> before it can remove the dataset. Whatever
  operations of the registry follow, each of them fails from then on, whatever it is asked.\<close>

theorem assembled_dataset_stops_service:
  assumes "assemble_learning_dataset kp now payload s = (u, Inr d)" "(kb_learning_step kp)\<^sup>*\<^sup>* u v"
  shows "(\<exists>e. snd (ingest_learning_evidence kp t p v) = Inl e) \<and> (\<exists>e. snd (query_learning_evidence kp t p c v) = Inl e)
    \<and> (\<exists>e. snd (assemble_learning_dataset kp t p v) = Inl e) \<and> (\<exists>e. snd (get_training_dataset kp t p c v) = Inl e)
    \<and> (\<exists>e. snd (start_training kp t p v) = Inl e) \<and> (\<exists>e. snd (run_evaluation kp t p v) = Inl e)
    \<and> (\<exists>e. snd (promote_model kp t p v) = Inl e) \<and> (\<exists>e. snd (rollback_model kp t p v) = Inl e)
    \<and> (\<exists>e. snd (get_model_lifecycle kp t p c v) = Inl e) \<and> (\<exists>e. snd (rebuild_indexes kp t p v) = Inl e)"
proof -
  have "undated v" by (rule kb_blocked.reach_inv_from [OF assms(2) assembled_undated [OF assms(1)]])
  then show ?thesis unfolding rebuild_indexes_def by (intro conjI blocked_fails blocked_operations)
qed

lemma demo_assembles: "\<exists>u d. assemble_learning_dataset (demo_kp []) 0 [] (demo_kb_model ''DRAFT'') = (u, Inr d)"
proof -
  have "capability_scope_tokens (demo_kp []) [] = Inr []" by (simp add: capability_scope_tokens_def)
  moreover obtain pol where "normalize_learning_policy (demo_kp []) [] = Inr pol"
    by (simp add: normalize_learning_policy_def field_int_def dget_or_def val_or_def to_int_val_def)
  moreover have "scoped_evidence (demo_kp []) [] (demo_kb_model ''DRAFT'') = []"
    by (simp add: scoped_evidence_def demo_kb_model_def demo_kb_def Let_def)
  moreover have "json_error True (PDict (assembled_summary (demo_kp []) [] pol [] [])) = None"
    by (simp add: assembled_summary_def Let_def policy_json_def strs_def of_kind_def)
  moreover have "\<not> storage_unavailable (demo_kb_model ''DRAFT'')" by (simp add: storage_unavailable_def demo_kb_model_def demo_kb_def)
  ultimately show ?thesis
    by (simp add: assemble_learning_dataset_def demo_gc kb_py_def stable_hash_def stable_json_def Let_def)
qed

theorem assembled_dataset_stops_service_witness:
  "\<exists>e. snd (promote_model (demo_kp []) 5 demo_payload (fst (assemble_learning_dataset (demo_kp []) 0 [] (demo_kb_model ''DRAFT'')))) = Inl e"
proof -
  obtain u d where "assemble_learning_dataset (demo_kp []) 0 [] (demo_kb_model ''DRAFT'') = (u, Inr d)" using demo_assembles by blast
  with assembled_dataset_stops_service [OF this rtranclp.rtrancl_refl] show ?thesis by simp
qed

section \<open>Evidence\<close>

text \<open>Every string under a sensitive key is a pseudonym of the epoch.\<close>

fun pseudonymised :: "string \<Rightarrow> string option \<Rightarrow> pyval \<Rightarrow> bool" where
  "pseudonymised epoch key (PDict d) = list_all (\<lambda>(k, v). pseudonymised epoch (Some k) v) d"
| "pseudonymised epoch key (PList xs) = list_all (pseudonymised epoch key) xs"
| "pseudonymised epoch key (PStr s) =
     (case key of Some k \<Rightarrow> py_lower (py_strip k) \<in> set SENSITIVE_KEYS \<longrightarrow> py_startswith s (''anon:'' @ epoch @ '':'') | None \<Rightarrow> True)"
| "pseudonymised epoch key v = True"

lemma anon_token_prefix: "py_startswith (anon_token kp salt epoch s) (''anon:'' @ epoch @ '':'')"
  using py_startswith_append [of "''anon:'' @ epoch @ '':''" "take 32 (kp_hmac_hex kp salt (epoch @ '':'' @ s))"] by (simp add: anon_token_def)

lemma rmap_source: "rmap f xs = Inr ys \<Longrightarrow> y \<in> set ys \<Longrightarrow> \<exists>x\<in>set xs. f x = Inr y"
  by (induction xs arbitrary: ys) (auto simp: rbind_eq_Inr)

lemma anonymize_pseudonymises: "anonymize_value kp salt epoch key v = Inr w \<Longrightarrow> pseudonymised epoch key w"
proof (induction kp salt epoch key v arbitrary: w rule: anonymize_value.induct)
  case (1 kp salt epoch key d)
  then obtain e where e: "w = PDict e" "rmap (\<lambda>(k, v). rbind (anonymize_value kp salt epoch (Some k) v) (\<lambda>w. Inr (k, w))) d = Inr e"
    by (auto simp: rbind_eq_Inr)
  have "pseudonymised epoch (Some k) v" if "(k, v) \<in> set e" for k v
    using rmap_source [OF e(2) that] "1.IH" by (auto simp: rbind_eq_Inr)
  with e(1) show ?case by (auto simp: list_all_iff)
next
  case (2 kp salt epoch key xs)
  then obtain ys where ys: "w = PList ys" "rmap (anonymize_value kp salt epoch key) xs = Inr ys"
    by (auto simp: rbind_eq_Inr)
  have "pseudonymised epoch key y" if "y \<in> set ys" for y
    using rmap_source [OF ys(2) that] "2.IH" by blast
  with ys(1) show ?case by (auto simp: list_all_iff)
next
  case (3 kp salt epoch key s)
  then show ?case using anon_token_prefix by (auto split: option.splits)
qed auto

lemma rebuild_anon [simp]:
  "kb_anon_epoch (fst (rebuild_indexes_locked kp now t p reason s)) = kb_anon_epoch s"
  using rebuild_same_store [of s kp now t p reason] by (simp add: same_store_def)

lemma gc_anon [simp]: "kb_anon_epoch (fst (gc_locked kp now s)) = kb_anon_epoch s"
  by (simp add: gc_locked_def Let_def gc_primary_def split: sum.splits)

lemma gc_evidence_sub: "set (kb_learning_evidence (fst (gc_locked kp now s))) \<subseteq> set (kb_learning_evidence s)"
  by (auto simp: gc_locked_def Let_def gc_primary_def split: sum.splits)

lemma evidence_of_Inr:
  assumes "evidence_of kp now s a scope = Inr e"
  shows "le_tenant_id e = ea_tenant_id a" "le_project_id e = ea_project_id a" "le_quarantine_state e = ea_quarantine_state a"
    "le_model_version e = ea_model_version a" "le_capability_scope e = scope"
    "le_lifecycle_state e = (if ea_lifecycle_state a = [] then ''DRAFT'' else py_upper (ea_lifecycle_state a))"
    "pseudonymised (kb_anon_epoch s) None (PDict (le_payload e))"
    "\<forall>x\<in>set (le_metadata e). pseudonymised (kb_anon_epoch s) (str_key (fst x)) (snd x)"
proof -
  obtain md payload where md: "anonymize_vdict kp (kb_anon_salt s) (kb_anon_epoch s) (ea_metadata a) = Inr md"
      "anonymize_json kp (kb_anon_salt s) (kb_anon_epoch s) (ea_payload a) = Inr payload"
    and e: "le_metadata e = md" "le_payload e = payload" "le_tenant_id e = ea_tenant_id a" "le_project_id e = ea_project_id a"
      "le_quarantine_state e = ea_quarantine_state a" "le_model_version e = ea_model_version a" "le_capability_scope e = scope"
      "le_lifecycle_state e = (if ea_lifecycle_state a = [] then ''DRAFT'' else py_upper (ea_lifecycle_state a))"
    using assms by (auto simp: evidence_of_def rbind_eq_Inr Let_def)
  show "le_tenant_id e = ea_tenant_id a" "le_project_id e = ea_project_id a" "le_quarantine_state e = ea_quarantine_state a"
    "le_model_version e = ea_model_version a" "le_capability_scope e = scope"
    "le_lifecycle_state e = (if ea_lifecycle_state a = [] then ''DRAFT'' else py_upper (ea_lifecycle_state a))"
    using e by simp_all
  show "pseudonymised (kb_anon_epoch s) None (PDict (le_payload e))"
    using e(2) rmap_source [OF md(2) [unfolded anonymize_json_def]] anonymize_pseudonymises
    by (fastforce simp: list_all_iff rbind_eq_Inr)
  show "\<forall>x\<in>set (le_metadata e). pseudonymised (kb_anon_epoch s) (str_key (fst x)) (snd x)"
    using e(1) rmap_source [OF md(1) [unfolded anonymize_vdict_def]] anonymize_pseudonymises
    by (fastforce simp: rbind_eq_Inr)
qed

lemma store_evidence_Inr:
  "learning_store_evidence kp now a s = (u, Inr e) \<longleftrightarrow>
     (\<exists>scope. capability_scope_tokens kp (ea_payload a) = Inr scope \<and> evidence_of kp now s a scope = Inr e \<and> u = file_evidence e s)"
  by (auto simp: learning_store_evidence_def split: sum.splits)


lemma demo_ingests: "\<exists>u i. ingest_learning_evidence (demo_kp []) 0 [(''user_id'', PStr ''alice'')] demo_kb = (u, Inr i)"
proof -
  have "\<not> isl (snd (ingest_learning_evidence (demo_kp []) 0 [(''user_id'', PStr ''alice'')] demo_kb))" by code_simp
  then show ?thesis
    by (cases "ingest_learning_evidence (demo_kp []) 0 [(''user_id'', PStr ''alice'')] demo_kb"; cases "snd (ingest_learning_evidence (demo_kp []) 0 [(''user_id'', PStr ''alice'')] demo_kb)") auto
qed


lemma page_window_length: "length (page_window offset (page_size_of n) xs) \<le> 100"
proof -
  have "nat (page_size_of n) \<le> 100" by (simp add: page_size_of_def nat_le_iff min_def)
  then show ?thesis by (simp add: page_window_def)
qed


definition demo_call :: grpc_call where
  "demo_call = \<lparr>gc_metadata = [], gc_method = ''/kb''\<rparr>"

lemma demo_kp_sec [simp]: "kp_sec (demo_kp env) = demo_sec env"
  by (simp add: demo_kp_def)

lemma demo_context: "\<exists>ctx. retrieval_security_context (demo_kp []) (Some demo_call) operation = Inr (ctx, ''1.0.0'')"
proof -
  have "load_policy_snapshot_cfg (demo_sec []) demo_cfg = Inr (builtin_snapshot demo_cfg)" by (rule builtin_loaded) (simp_all add: demo_cfg_def)
  moreover have "\<not> blank ''1.0.0''" "py_strip ''1.0.0'' = ''1.0.0''" by code_simp+
  ultimately show ?thesis
    by (simp add: retrieval_security_context_def security_context_of_def demo_cfg_loaded lift_sec_def Let_def builtin_snapshot_def demo_cfg_def
      AUTH_ALLOW_ALL_def case_prod_unfold)
qed

lemma demo_queries:
  "\<exists>u r. query_learning_evidence (demo_kp []) 0 [(''page_size'', PInt 5)] (Some demo_call) (demo_kb_model ''DRAFT'') = (u, Inr r)"
proof -
  obtain ctx where "retrieval_security_context (demo_kp []) (Some demo_call) ''query_learning_evidence'' = Inr (ctx, ''1.0.0'')"
    using demo_context by blast
  moreover have "capability_scope_tokens (demo_kp []) [(''page_size'', PInt 5)] = Inr []" by code_simp
  moreover have "\<not> storage_unavailable (demo_kb_model ''DRAFT'')" "ko_writable (kb_obs (demo_kb_model ''DRAFT''))"
    by (simp_all add: storage_unavailable_def demo_kb_model_def demo_kb_def demo_kb_obs_def)
  ultimately show ?thesis
    by (simp add: query_learning_evidence_def demo_gc kb_py_def field_int_def dget_or_def val_or_def to_int_val_def Let_def kb_audit_def
      audit_retrieval_def kb_audit_event_def)
qed


section \<open>Derived indexes\<close>

text \<open>The sources of a tenant and a project, read off the store.\<close>

definition scope_sources :: "kb_state \<Rightarrow> string \<Rightarrow> string \<Rightarrow> string list" where
  "scope_sources s t p =
     map (\<lambda>e. ''record:'' @ kr_record_id (sr_record e)) (filter (in_scope_record t p) (dvalues (kb_records s)))
     @ map (\<lambda>e. ''decision:'' @ dl_decision_id (sd_decision_log e)) (filter (in_scope_decision t p) (kb_decision_logs s))"

lemma mset_ordered: "mset (okb_order_scope_snapshot snap mode) = mset snap"
  by (simp add: okb_order_scope_snapshot_def)

lemma mset_expected: "mset (okb_expected_scope_entries kp s t p mode) = mset (scope_sources s t p)"
proof -
  have "mset (okb_expected_scope_entries kp s t p mode) = image_mset si_source_id (mset (okb_scope_snapshot kp s t p))"
    by (simp add: okb_expected_scope_entries_def mset_ordered)
  also have "\<dots> = mset (map si_source_id (map (record_item kp) (filter (in_scope_record t p) (dvalues (kb_records s)))
      @ map (decision_item kp) (filter (in_scope_decision t p) (kb_decision_logs s))))"
    unfolding okb_scope_snapshot_def mset_sort by (rule mset_map [symmetric])
  also have "\<dots> = mset (scope_sources s t p)"
    by (rule arg_cong [where f = mset]) (simp add: scope_sources_def record_item_def decision_item_def)
  finally show ?thesis .
qed

text \<open>C11. A query always reads a ready index: whatever state the shards were in (fresh, restarted, out of date), the check before a
  query leaves the scope ready and in sync without touching the store, and each shard then lists every record and decision log of
  the tenant and project exactly once, and nothing else. The name of the tenant must not hold the separator.\<close>

theorem query_reads_ready_index:
  assumes "clean_tenant t" "kb_storage_mode s \<noteq> ''disabled''"
  shows "case okb_ensure_indexes_ready kp now t p s of (u, health) \<Rightarrow>
      ih_overall_status health = IndexReady \<and> \<not> ih_desynced health \<and> same_store s u
      \<and> (\<forall>mode shard. dget (kb_okb_indexes u) mode = Some shard \<longrightarrow>
           mset (dget_or (ix_scope_entries shard) (okb_scope_key t p) []) = mset (scope_sources s t p))"
proof (cases "okb_ensure_indexes_ready kp now t p s")
  case (Pair u health)
  have ready: "ih_overall_status health = IndexReady" "\<not> ih_desynced health" using ensure_ready [OF assms, of kp now p] Pair by simp_all
  have store: "same_store s u" using ensure_same_store [of s kp now t p] Pair by simp
  have "health = describe_index_health kp u (Some t) (Some p)"
    using Pair by (auto simp: okb_ensure_indexes_ready_def Let_def split: if_splits)
  then have "okb_overall_status kp u (Some t) (Some p) = IndexReady" using ready(1) by simp
  note entries = ready_entries [OF this]
  show ?thesis using Pair ready store by (auto simp: entries expected_same_store [OF store] mset_expected)
qed

theorem query_reads_ready_index_witness:
  "case okb_ensure_indexes_ready (demo_kp []) 7 ''t'' ''p'' demo_kb of (u, health) \<Rightarrow> ih_overall_status health = IndexReady \<and> same_store demo_kb u"
proof -
  have "clean_tenant ''t''" "kb_storage_mode demo_kb \<noteq> ''disabled''" by (code_simp, simp add: demo_kb_def)
  from query_reads_ready_index [OF this, where kp = "demo_kp []" and now = 7 and p = "''p''"] show ?thesis by (auto split: prod.splits)
qed

text \<open>A rebuild of everything keeps the entries of scopes whose sources are gone: once the store is empty, a rebuild reports
  the indexes ready, yet the health report taken at once after it calls them degraded, and so does every later one.\<close>

theorem stale_scopes_survive_rebuild:
  assumes "kb_records s = []" "kb_decision_logs s = []" "kb_storage_mode s \<noteq> ''disabled''"
    and "(mode, shard) \<in> set (kb_okb_indexes s)" "dget_or (ix_scope_entries shard) key [] \<noteq> []"
  shows "case rebuild_indexes_locked kp now None None reason s of (u, reported) \<Rightarrow>
      reported = IndexReady \<and> ih_overall_status (describe_index_health kp u None None) = IndexDegraded
      \<and> ih_desynced (describe_index_health kp u None None)"
proof (cases "rebuild_indexes_locked kp now None None reason s")
  case (Pair u reported)
  have "reported = IndexReady" using rebuild_nothing [OF assms(1,2), of kp now reason] Pair by simp
  moreover have "okb_overall_status kp u None None = IndexDegraded" using stale_entries_degrade [OF assms, of kp now reason] Pair by simp
  ultimately show ?thesis using Pair by (simp add: describe_index_health_def)
qed

definition stale_kb :: kb_state where
  "stale_kb = demo_kb\<lparr>kb_okb_indexes := [(''structural'', (new_index_state ''structural'')\<lparr>ix_scope_entries := [(''t::p'', [''record:r''])]\<rparr>)]\<rparr>"

theorem stale_scopes_survive_rebuild_witness:
  "case rebuild_indexes_locked (demo_kp []) 7 None None ''backfill'' stale_kb of (u, reported) \<Rightarrow>
     reported = IndexReady \<and> ih_overall_status (describe_index_health (demo_kp []) u None None) = IndexDegraded"
proof -
  have "kb_records stale_kb = []" "kb_decision_logs stale_kb = []" "kb_storage_mode stale_kb \<noteq> ''disabled''"
    "(''structural'', (new_index_state ''structural'')\<lparr>ix_scope_entries := [(''t::p'', [''record:r''])]\<rparr>) \<in> set (kb_okb_indexes stale_kb)"
    "dget_or (ix_scope_entries ((new_index_state ''structural'')\<lparr>ix_scope_entries := [(''t::p'', [''record:r''])]\<rparr>)) ''t::p'' [] \<noteq> []"
    by (simp_all add: stale_kb_def demo_kb_def dget_or_def)
  from stale_scopes_survive_rebuild [OF this, where kp = "demo_kp []" and now = 7 and reason = "''backfill''"] show ?thesis by (auto split: prod.splits)
qed

text \<open>The text under which a scope is filed reads back as that scope exactly for the tenants whose name holds no separator;
  for the others two scopes share a key: tenant \<open>a::b\<close> with project \<open>c\<close> is filed where tenant \<open>a\<close> with project \<open>b::c\<close> is.\<close>

theorem scope_key_reads_back:
  "(okb_scope_tuple (okb_scope_key t p) = (t, p) \<longleftrightarrow> clean_tenant t)
   \<and> (\<forall>a b c. okb_scope_key (a @ ''::'' @ b) c = okb_scope_key a (b @ ''::'' @ c))
   \<and> (clean_tenant t \<and> clean_tenant t' \<and> okb_scope_key t p = okb_scope_key t' p' \<longrightarrow> t = t' \<and> p = p')"
proof -
  have "t = t' \<and> p = p'" if "clean_tenant t" "clean_tenant t'" "okb_scope_key t p = okb_scope_key t' p'"
    using scope_tuple_key [of t p] scope_tuple_key [of t' p'] that by simp
  then show ?thesis using scope_tuple_key [of t p] by (auto simp: okb_scope_key_def)
qed

theorem scope_key_reads_back_witness:
  "okb_scope_tuple (okb_scope_key ''t'' ''p'') = (''t'', ''p'') \<and> okb_scope_key ''a::b'' ''c'' = okb_scope_key ''a'' ''b::c''"
proof -
  have "clean_tenant ''t''" by code_simp
  with scope_key_reads_back [of "''t''" "''p''" "''t''" "''p''"] have "okb_scope_tuple (okb_scope_key ''t'' ''p'') = (''t'', ''p'')"
    "\<forall>a b c. okb_scope_key (a @ ''::'' @ b) c = okb_scope_key a (b @ ''::'' @ c)" by auto
  from this(1) this(2) [rule_format, of "''a''" "''b''" "''c''"] show ?thesis by simp
qed

end
