(* ===== verification/KbRedaction.thy ===== *)
theory KbRedaction
  imports KbBase
begin

text \<open>
  The redaction of dataset records (\<open>knowledge_base.py\<close>, lines 46 to 143). The four patterns are terms of a small
  language of regular expressions whose matcher tries alternatives in the order of Python's \<open>re\<close>: repetitions are greedy,
  and the first way to match wins. \<open>sub\<close> replaces the matches from left to right; none of the patterns matches the empty text.
\<close>

section \<open>Regular expressions\<close>

datatype rx =
    RxChar "char \<Rightarrow> bool"
  | RxSeq "rx list"
  | RxRep nat "nat option" rx
  | RxWordEdge
  | RxNotBehind "char \<Rightarrow> bool"
  | RxNotAhead "char \<Rightarrow> bool"

text \<open>A position in a text: the character before it, if any, and the text after it.\<close>

type_synonym position = "char option \<times> string"

text \<open>Every round of a repetition reads a character, so the length of the text bounds the number of rounds.\<close>

fun rx_rounds :: "(position \<Rightarrow> position list) \<Rightarrow> nat \<Rightarrow> nat \<Rightarrow> nat option \<Rightarrow> position \<Rightarrow> position list" where
  "rx_rounds step 0 low high pos = (if low = 0 then [pos] else [])"
| "rx_rounds step (Suc k) low high pos =
     (if high = Some 0 then []
      else concat (map (rx_rounds step k (low - 1) (map_option (\<lambda>n. n - 1) high)) (step pos))) @ (if low = 0 then [pos] else [])"

text \<open>\<open>\w\<close> over the characters of Latin-1.\<close>

definition word_char :: "char \<Rightarrow> bool" where
  "word_char c \<longleftrightarrow>
     (let n = ord c in (48 \<le> n \<and> n \<le> 57) \<or> (65 \<le> n \<and> n \<le> 90) \<or> n = 95 \<or> (97 \<le> n \<and> n \<le> 122)
        \<or> n \<in> {170, 178, 179, 181, 185, 186, 188, 189, 190} \<or> (192 \<le> n \<and> n \<noteq> 215 \<and> n \<noteq> 247))"

definition at_word :: "char option \<Rightarrow> bool" where
  "at_word c = (case c of None \<Rightarrow> False | Some x \<Rightarrow> word_char x)"

definition next_char :: "string \<Rightarrow> char option" where
  "next_char s = (case s of [] \<Rightarrow> None | c # _ \<Rightarrow> Some c)"

fun rx_ends :: "rx \<Rightarrow> position \<Rightarrow> position list" where
  "rx_ends (RxChar p) (b, s) = (case s of [] \<Rightarrow> [] | c # t \<Rightarrow> if p c then [(Some c, t)] else [])"
| "rx_ends (RxSeq []) pos = [pos]"
| "rx_ends (RxSeq (r # rs)) pos = concat (map (rx_ends (RxSeq rs)) (rx_ends r pos))"
| "rx_ends (RxRep low high r) pos = rx_rounds (rx_ends r) (length (snd pos)) low high pos"
| "rx_ends RxWordEdge (b, s) = (if at_word b \<noteq> at_word (next_char s) then [(b, s)] else [])"
| "rx_ends (RxNotBehind p) (b, s) = (case b of Some c \<Rightarrow> if p c then [] else [(b, s)] | None \<Rightarrow> [(b, s)])"
| "rx_ends (RxNotAhead p) (b, s) = (case s of c # _ \<Rightarrow> if p c then [] else [(b, s)] | [] \<Rightarrow> [(b, s)])"

function rx_sub :: "rx \<Rightarrow> string \<Rightarrow> char option \<Rightarrow> string \<Rightarrow> string" where
  "rx_sub r repl b [] = []"
| "rx_sub r repl b (c # s) =
     (case rx_ends r (b, c # s) of
        (b', t) # _ \<Rightarrow> if length t < length (c # s) then repl @ rx_sub r repl b' t else c # rx_sub r repl (Some c) s
      | [] \<Rightarrow> c # rx_sub r repl (Some c) s)"
  by pat_completeness auto
termination by (relation "measure (\<lambda>(r, repl, b, s). length s)") auto

section \<open>The patterns\<close>

definition is_letter :: "char \<Rightarrow> bool" where
  "is_letter c \<longleftrightarrow> (let n = ord c in (65 \<le> n \<and> n \<le> 90) \<or> (97 \<le> n \<and> n \<le> 122))"

definition is_blank_char :: "char \<Rightarrow> bool" where
  "is_blank_char c \<longleftrightarrow> (let n = ord c in (9 \<le> n \<and> n \<le> 13) \<or> (28 \<le> n \<and> n \<le> 32) \<or> n = 133 \<or> n = 160)"

definition rx_one :: "string \<Rightarrow> rx" where
  "rx_one cs = RxChar (\<lambda>c. c \<in> set cs)"

definition alnum_or :: "string \<Rightarrow> rx" where
  "alnum_or cs = RxChar (\<lambda>c. is_letter c \<or> is_digit c \<or> c \<in> set cs)"

definition EMAIL_RE :: rx where
  "EMAIL_RE = RxSeq [RxWordEdge, RxRep 1 None (alnum_or ''._%+-''), rx_one ''@'', RxRep 1 None (alnum_or ''.-''), rx_one ''.'',
     RxRep 2 None (RxChar is_letter), RxWordEdge]"

definition phone_gap :: rx where
  "phone_gap = RxRep 0 (Some 1) (RxChar (\<lambda>c. c \<in> set ''-.'' \<or> is_blank_char c))"

definition PHONE_RE :: rx where
  "PHONE_RE = RxSeq [RxNotBehind is_digit,
     RxRep 0 (Some 1) (RxSeq [RxRep 0 (Some 1) (rx_one ''+''), RxRep 1 (Some 3) (RxChar is_digit), phone_gap]),
     RxRep 1 (Some 3) (RxSeq [RxRep 0 (Some 1) (rx_one ''(''), RxRep 2 (Some 4) (RxChar is_digit), RxRep 0 (Some 1) (rx_one '')''), phone_gap]),
     RxRep 2 (Some 4) (RxChar is_digit), RxNotAhead is_digit]"

definition BEARER_RE :: rx where
  "BEARER_RE = RxSeq ([RxWordEdge] @ map (\<lambda>c. RxChar (\<lambda>x. py_lower [x] = [c])) ''bearer''
     @ [RxRep 1 None (RxChar is_blank_char), RxRep 8 None (alnum_or ''._~+/=-''), RxWordEdge])"

definition is_hex_char :: "char \<Rightarrow> bool" where
  "is_hex_char c \<longleftrightarrow> hex_val c \<noteq> None"

definition hex_group :: "nat \<Rightarrow> rx" where
  "hex_group n = RxRep n (Some n) (RxChar is_hex_char)"

definition UUID_RE :: rx where
  "UUID_RE = RxSeq [RxWordEdge, hex_group 8, rx_one ''-'', hex_group 4, rx_one ''-'', hex_group 4, rx_one ''-'', hex_group 4, rx_one ''-'', hex_group 12, RxWordEdge]"

section \<open>Redaction\<close>

definition REDACTED_VALUE :: string where "REDACTED_VALUE = ''[REDACTED]''"
definition MASKED_EMAIL_VALUE :: string where "MASKED_EMAIL_VALUE = ''[REDACTED_EMAIL]''"
definition MASKED_PHONE_VALUE :: string where "MASKED_PHONE_VALUE = ''[REDACTED_PHONE]''"
definition MASKED_IDENTIFIER_VALUE :: string where "MASKED_IDENTIFIER_VALUE = ''[REDACTED_ID]''"

definition REDACT_DELETE_KEYS :: "string list" where
  "REDACT_DELETE_KEYS =
     [''authorization'', ''auth_header'', ''bearer'', ''cookie'', ''credentials'', ''credential'', ''password'', ''passwd'', ''pwd'', ''secret'',
      ''session_cookie'', ''session_token'', ''token'', ''api_key'', ''access_token'', ''refresh_token'', ''id_token'', ''raw_authorization'',
      ''raw_auth_header'', ''body'', ''payload'', ''raw_payload'', ''raw_request_body'', ''request_body'', ''stack_trace'', ''trace_dump'']"

definition REDACT_MASK_EMAIL_KEYS :: "string list" where
  "REDACT_MASK_EMAIL_KEYS = [''email'', ''email_address'', ''contact_email'', ''e_mail'']"

definition REDACT_MASK_PHONE_KEYS :: "string list" where
  "REDACT_MASK_PHONE_KEYS = [''phone'', ''phone_number'', ''mobile'', ''msisdn'', ''contact_phone'']"

definition REDACT_MASK_IDENTIFIER_KEYS :: "string list" where
  "REDACT_MASK_IDENTIFIER_KEYS =
     [''id'', ''identifier'', ''internal_id'', ''internal_identifier'', ''subject_id'', ''user_id'', ''tenant_id'', ''project_id'', ''request_id'',
      ''trace_id'', ''session_id'', ''correlation_id'', ''device_id'', ''account_id'']"

definition redact_scalar_text :: "string \<Rightarrow> string \<Rightarrow> string \<times> string list" where
  "redact_scalar_text path s =
     (let s' = rx_sub UUID_RE MASKED_IDENTIFIER_VALUE None (rx_sub PHONE_RE MASKED_PHONE_VALUE None
            (rx_sub EMAIL_RE MASKED_EMAIL_VALUE None (rx_sub BEARER_RE REDACTED_VALUE None s)))
      in (s', if s' \<noteq> s then [path] else []))"

definition ends_with :: "string \<Rightarrow> string \<Rightarrow> bool" where
  "ends_with s p \<longleftrightarrow> drop (length s - length p) s = p \<and> length p \<le> length s"

text \<open>What the key alone decides.\<close>

definition key_mask :: "string \<Rightarrow> string option" where
  "key_mask k =
     (let key_lower = py_lower (py_strip k) in
      if key_lower \<in> set REDACT_DELETE_KEYS then Some REDACTED_VALUE
      else if key_lower \<in> set REDACT_MASK_EMAIL_KEYS then Some MASKED_EMAIL_VALUE
      else if key_lower \<in> set REDACT_MASK_PHONE_KEYS then Some MASKED_PHONE_VALUE else None)"

definition identifier_key :: "string \<Rightarrow> bool" where
  "identifier_key k \<longleftrightarrow> (let key_lower = py_lower (py_strip k) in key_lower \<in> set REDACT_MASK_IDENTIFIER_KEYS \<or> ends_with key_lower ''_id'')"

definition nested_path :: "string \<Rightarrow> string \<Rightarrow> string" where
  "nested_path path k = (if path \<noteq> [] then path @ ''.'' @ k else k)"

fun is_container :: "pyval \<Rightarrow> bool" where
  "is_container (PDict _) = True"
| "is_container (PList _) = True"
| "is_container _ = False"

text \<open>The redacted value and the paths of what was redacted; the code collects them in a set.\<close>

function redact_json_value :: "string \<Rightarrow> pyval \<Rightarrow> pyval \<times> string list" where
  "redact_json_value path (PDict d) =
     (let rs = map (\<lambda>(k, v). (k, let np = nested_path path k in
           case key_mask k of
             Some repl \<Rightarrow> (PStr repl, [np])
           | None \<Rightarrow> if identifier_key k \<and> \<not> is_container v then (PStr MASKED_IDENTIFIER_VALUE, [np]) else redact_json_value np v)) d
      in (PDict (map (\<lambda>(k, r). (k, fst r)) rs), concat (map (\<lambda>(k, r). snd r) rs)))"
| "redact_json_value path (PList xs) =
     (let rs = map (\<lambda>(i, x). redact_json_value (path @ ''['' @ show_nat i @ '']'') x) (enumerate 0 xs)
      in (PList (map fst rs), concat (map snd rs)))"
| "redact_json_value path (PStr s) = (let r = redact_scalar_text path s in (PStr (fst r), snd r))"
| "redact_json_value path PNone = (PNone, [])"
| "redact_json_value path (PBool b) = (PBool b, [])"
| "redact_json_value path (PInt i) = (PInt i, [])"
| "redact_json_value path (PFloat r) = (PFloat r, [])"
| "redact_json_value path (PComplex r) = (PComplex r, [])"
  by pat_completeness auto
termination
proof (relation "measure (\<lambda>(path, v). size v)", simp, goal_cases)
  case (1 path d e k v np)
  then have "(k, v) \<in> set d" by simp
  then have "size v \<le> size_list (size_prod (\<lambda>x. 0) size) d" by (rule size_list_estimation') simp
  then show ?case by simp
next
  case (2 path xs e i x)
  then have "x \<in> set xs" by (auto simp: in_set_enumerate_eq)
  then have "size x \<le> size_list size xs" by (rule size_list_estimation') simp
  then show ?case by simp
qed

end
