(* ===== verification/KbIngest.thy ===== *)
theory KbIngest
  imports KbRecords
begin

text \<open>
  The telemetry the knowledge base ingests (\<open>knowledge_base.py\<close>, lines 330 to 378 and 845 to 1098): runtime decisions
  with their explainability_envelope envelope, and benchmark runs. Both file a source and a piece of evidence. Payloads are JSON
  values, so the branches for timestamps and dates inside them do not arise; a timestamp inside evidence is its ISO text. The
  conversion to float and the format with six places are parameters.
\<close>

section \<open>Explainability\<close>

record ingest_platform =
  ig_float :: "string \<Rightarrow> string option"
  ig_fmt6 :: "string \<Rightarrow> string"

text \<open>\<open>a or b or c\<close>\<close>

fun py_or :: "pyval list \<Rightarrow> pyval" where
  "py_or [] = PNone"
| "py_or [v] = v"
| "py_or (v # vs) = (if truthy v then v else py_or vs)"

definition or_text :: "kb_platform \<Rightarrow> pyval list \<Rightarrow> string" where
  "or_text kp vs = py_strip (py_str (kp_sec kp) (py_or (vs @ [PStr []])))"

text \<open>\<open>float\<close> of an integer overflows from half a unit below \<open>2 ** 1024\<close> on.\<close>

definition float_overflows :: "int \<Rightarrow> bool" where
  "float_overflows i \<longleftrightarrow> 2 ^ 1024 - 2 ^ 970 \<le> abs i"

definition float_text :: "pyval \<Rightarrow> string option" where
  "float_text v =
     (case v of PStr s \<Rightarrow> Some s | PFloat r \<Rightarrow> Some r | PInt i \<Rightarrow> Some (show_int i) | PBool b \<Rightarrow> Some (if b then ''1'' else ''0'') | _ \<Rightarrow> None)"

definition confidence_of :: "kb_platform \<Rightarrow> pyval \<Rightarrow> (pyexn, string) result" where
  "confidence_of kp v =
     (case v of
        PInt i \<Rightarrow> if float_overflows i then Inl OverflowError else Inr (case kp_round6 kp (show_int i) of None \<Rightarrow> ''0.0'' | Some r \<Rightarrow> r)
      | _ \<Rightarrow> Inr (case Option.bind (float_text v) (kp_round6 kp) of None \<Rightarrow> ''0.0'' | Some r \<Rightarrow> r))"

record explainability_envelope =
  xe_contract_version :: string
  xe_model_version :: string
  xe_feature_set :: json_dict
  xe_confidence :: string
  xe_retrieval_references :: "string list"
  xe_replay_digest :: string
  xe_decision_digest :: string
  xe_policy_snapshot_version :: string

definition raw_explainability :: "kb_platform \<Rightarrow> json_dict \<Rightarrow> json_dict" where
  "raw_explainability kp payload =
     [(''contract_version'', PStr (str_else (field_text kp payload ''contract_version'') KB_CONTRACT_VERSION)),
      (''model_version'', PStr (field_text kp payload ''model_version'')),
      (''feature_set'', case vget payload ''feature_set'' of PDict d \<Rightarrow> PDict d | _ \<Rightarrow> PDict []),
      (''confidence'', dget_or payload ''confidence'' (PFloat ''0.0'')),
      (''retrieval_references'', py_or [vget payload ''retrieval_references'', vget payload ''retrieval_sources'', PList []]),
      (''replay_digest'', PStr (field_text kp payload ''replay_digest'')), (''decision_digest'', PStr (field_text kp payload ''decision_digest'')),
      (''policy_snapshot_version'', PStr (field_text kp payload ''policy_snapshot_version''))]"

definition given_explainability :: "kb_platform \<Rightarrow> json_dict \<Rightarrow> json_dict" where
  "given_explainability kp payload =
     (case vget payload ''explainability_envelope'' of PDict d \<Rightarrow> if d \<noteq> [] then d else raw_explainability kp payload
      | _ \<Rightarrow> raw_explainability kp payload)"

definition feature_set_of :: "kb_platform \<Rightarrow> string \<Rightarrow> string \<Rightarrow> pyval \<Rightarrow> (pyexn, json_dict) result" where
  "feature_set_of kp salt epoch v =
     (case v of PDict d \<Rightarrow> anonymize_json kp salt epoch d
      | _ \<Rightarrow> Inr (if truthy v then [(''value'', PStr (py_str (kp_sec kp) v))] else []))"

definition references_of :: "kb_platform \<Rightarrow> pyval \<Rightarrow> string list" where
  "references_of kp v =
     (case v of PList xs \<Rightarrow> filter (\<lambda>t. t \<noteq> []) (map (\<lambda>x. py_strip (py_str (kp_sec kp) x)) xs)
      | _ \<Rightarrow> if truthy v then [py_strip (py_str (kp_sec kp) v)] else [])"

definition explainability_of :: "kb_platform \<Rightarrow> string \<Rightarrow> string \<Rightarrow> json_dict \<Rightarrow> (pyexn, explainability_envelope) result" where
  "explainability_of kp salt epoch payload =
     (let e = given_explainability kp payload in
      rbind (feature_set_of kp salt epoch (vget e ''feature_set'')) (\<lambda>features.
      rbind (confidence_of kp (dget_or e ''confidence'' (PFloat ''0.0''))) (\<lambda>confidence.
        Inr \<lparr>xe_contract_version = str_else (field_text kp e ''contract_version'') KB_CONTRACT_VERSION,
             xe_model_version = field_text kp e ''model_version'', xe_feature_set = features, xe_confidence = confidence,
             xe_retrieval_references = references_of kp (vget e ''retrieval_references''),
             xe_replay_digest = field_text kp e ''replay_digest'',
             xe_decision_digest = or_text kp [vget e ''decision_digest'', vget e ''replay_digest''],
             xe_policy_snapshot_version = field_text kp e ''policy_snapshot_version''\<rparr>)))"

definition explainability_json :: "explainability_envelope \<Rightarrow> pyval" where
  "explainability_json x =
     PDict [(''contract_version'', PStr (xe_contract_version x)), (''model_version'', PStr (xe_model_version x)),
       (''feature_set'', PDict (xe_feature_set x)), (''confidence'', PFloat (xe_confidence x)),
       (''retrieval_references'', strs (xe_retrieval_references x)),
       (''retrieval_reference_count'', PInt (int (length (xe_retrieval_references x)))), (''replay_digest'', PStr (xe_replay_digest x)),
       (''decision_digest'', PStr (xe_decision_digest x)), (''policy_snapshot_version'', PStr (xe_policy_snapshot_version x))]"

section \<open>Runtime decisions\<close>

record runtime_context =
  rx_subject :: string
  rx_tenant_id :: string
  rx_project_id :: string
  rx_policy_snapshot_version :: string
  rx_auth_mode :: string
  rx_service_identity :: string
  rx_retrieval_sources :: "string list"

definition runtime_context_of :: "kb_platform \<Rightarrow> json_dict \<Rightarrow> runtime_context" where
  "runtime_context_of kp payload =
     (let sec = (case vget payload ''security_context'' of PDict d \<Rightarrow> d | _ \<Rightarrow> []) in
      \<lparr>rx_subject = or_text kp [vget sec ''subject'', vget payload ''caller_identity'', vget payload ''subject''],
       rx_tenant_id = or_text kp [vget sec ''tenant'', vget sec ''tenant_id'', vget payload ''tenant_id''],
       rx_project_id = or_text kp [vget sec ''project_id'', vget payload ''project_id''],
       rx_policy_snapshot_version = or_text kp [vget sec ''policy_version'', vget payload ''policy_snapshot_version'', vget payload ''policy_version''],
       rx_auth_mode = py_lower (or_text kp [vget sec ''auth_mode'', vget payload ''auth_mode'']),
       rx_service_identity = or_text kp [vget sec ''service_identity'', vget payload ''service_identity''],
       rx_retrieval_sources = audit_string_list kp
         (py_or [vget payload ''retrieval_sources'', vget sec ''retrieval_sources'', vget payload ''retrieval_references''])\<rparr>)"

definition runtime_context_ok :: "runtime_context \<Rightarrow> bool" where
  "runtime_context_ok x \<longleftrightarrow> rx_subject x \<noteq> [] \<and> rx_tenant_id x \<noteq> [] \<and> rx_project_id x \<noteq> [] \<and> rx_policy_snapshot_version x \<noteq> []
     \<and> rx_service_identity x \<noteq> [] \<and> rx_auth_mode x \<noteq> [] \<and> rx_auth_mode x \<noteq> AUTH_ALLOW_ALL \<and> rx_retrieval_sources x \<noteq> []"

definition decision_id_of :: "kb_platform \<Rightarrow> json_dict \<Rightarrow> (pyexn, string) result" where
  "decision_id_of kp payload =
     (let v = vget payload ''decision_id'' in
      if truthy v then Inr (py_str (kp_sec kp) v)
      else rbind (stable_json (PDict payload)) (\<lambda>t. Inr (''dec_'' @ take 24 (kp_sha256 kp t))))"

text \<open>A protobuf map takes strings as keys only.\<close>

definition string_keys :: "vdict \<Rightarrow> (pyexn, json_dict) result" where
  "string_keys d = rmap (\<lambda>(k, v). case str_key k of None \<Rightarrow> Inl TypeError | Some t \<Rightarrow> Inr (t, v)) d"

definition dset_all :: "json_dict \<Rightarrow> json_dict \<Rightarrow> json_dict" where
  "dset_all new d = foldl (\<lambda>e (k, v). dset k v e) d new"

definition str_values :: "kb_platform \<Rightarrow> json_dict \<Rightarrow> (string, string) dict" where
  "str_values kp d = map (\<lambda>(k, v). (k, py_str (kp_sec kp) v)) d"

definition runtime_snapshot ::
  "kb_platform \<Rightarrow> ingest_platform \<Rightarrow> string \<Rightarrow> string \<Rightarrow> json_dict \<Rightarrow> runtime_context \<Rightarrow> explainability_envelope \<Rightarrow> (pyexn, (string, string) dict) result" where
  "runtime_snapshot kp ig salt epoch payload x xe =
     rbind (field_vdict payload ''feature_snapshot'') (\<lambda>given.
     rbind (anonymize_vdict kp salt epoch given) (\<lambda>anon.
     rbind (string_keys anon) (\<lambda>snapshot.
     rbind (stable_json (explainability_json xe)) (\<lambda>xe_text.
     rbind (stable_json (PDict (xe_feature_set xe))) (\<lambda>features.
       Inr (str_values kp (dset_all
         [(''caller_identity'', PStr (rx_subject x)), (''tenant_id'', PStr (rx_tenant_id x)), (''project_id'', PStr (rx_project_id x)),
          (''policy_snapshot_version'', PStr (str_else (rx_policy_snapshot_version x) (xe_policy_snapshot_version xe))),
          (''model_version'', PStr (str_else (xe_model_version xe) (field_text kp payload ''model_version''))),
          (''retrieval_sources'', PStr (raw_text (strs (rx_retrieval_sources x)))),
          (''final_decision'', PStr (field_text kp payload ''selected_action'')), (''explainability_envelope'', PStr xe_text),
          (''feature_set'', PStr features), (''confidence'', PStr (ig_fmt6 ig (xe_confidence xe))),
          (''retrieval_references'', PStr (raw_text (strs (xe_retrieval_references xe)))), (''replay_digest'', PStr (xe_replay_digest xe))]
         snapshot)))))))"

definition runtime_decision_log :: "kb_platform \<Rightarrow> int \<Rightarrow> json_dict \<Rightarrow> string \<Rightarrow> (string, string) dict \<Rightarrow> decision_log" where
  "runtime_decision_log kp now payload decision_id snapshot =
     \<lparr>dl_decision_id = decision_id, dl_trace_id = field_text kp payload ''trace_id'', dl_model_version = field_text kp payload ''model_version'',
      dl_component = field_text kp payload ''component'', dl_policy_branch = field_text kp payload ''policy_branch'',
      dl_selected_action = field_text kp payload ''selected_action'', dl_fallback_used = field_bool payload ''fallback_used'' False,
      dl_feature_snapshot = snapshot, dl_decided_at = ts_from_dt now\<rparr>"

text \<open>The audit record of a runtime decision has no security context.\<close>

definition runtime_event :: "kb_platform \<Rightarrow> runtime_context \<Rightarrow> payload_envelope \<Rightarrow> explainability_envelope \<Rightarrow> decision_log \<Rightarrow> json_dict" where
  "runtime_event kp x env xe d =
     (let policy = str_else (xe_policy_snapshot_version xe) (str_else (rx_policy_snapshot_version x) (pv_contract_version env)) in
      dset_all (map (\<lambda>(k, v). (k, PStr v)) (sanitized_security_metadata [] [] AUTH_ALLOW_ALL policy None None (Some [])))
       ([(''audit_kind'', PStr ''immutable_decision''), (''operation'', PStr ''ingest_runtime_decision''), (''decision'', PStr (dl_selected_action d)),
         (''final_decision'', PStr (dl_selected_action d)), (''decision_id'', PStr (dl_decision_id d)), (''caller_identity'', PStr (rx_subject x)),
         (''tenant'', PStr (pv_tenant_id env)), (''tenant_id'', PStr (pv_tenant_id env)), (''project_id'', PStr (pv_project_id env)),
         (''policy_version'', PStr policy), (''policy_snapshot_version'', PStr policy), (''model_version'', PStr (dl_model_version d)),
         (''retrieval_sources'', strs (rx_retrieval_sources x)), (''retrieval_references'', strs (rx_retrieval_sources x)),
         (''retrieval_source_count'', PInt (int (length (rx_retrieval_sources x)))), (''trace_id'', PStr (dl_trace_id d)), (''traceparent'', PStr []),
         (''replay_digest'', PStr (xe_replay_digest xe)), (''immutable'', PBool True)]
        @ (case kp_round6 kp (xe_confidence xe) of None \<Rightarrow> [] | Some c \<Rightarrow> [(''confidence'', PFloat c)])))"

definition runtime_evidence ::
  "kb_platform \<Rightarrow> int \<Rightarrow> json_dict \<Rightarrow> payload_envelope \<Rightarrow> string list \<Rightarrow> explainability_envelope \<Rightarrow> decision_log \<Rightarrow> evidence_args" where
  "runtime_evidence kp now payload env scope xe d =
     \<lparr>ea_source = ''runtime'', ea_evidence_kind = ''runtime'', ea_tenant_id = pv_tenant_id env, ea_project_id = pv_project_id env,
      ea_payload = [(''decision_id'', PStr (dl_decision_id d)), (''trace_id'', PStr (dl_trace_id d)), (''model_version'', PStr (dl_model_version d)),
        (''component'', PStr (dl_component d)), (''policy_branch'', PStr (dl_policy_branch d)), (''selected_action'', PStr (dl_selected_action d)),
        (''fallback_used'', PBool (dl_fallback_used d)), (''feature_snapshot'', PDict (json_attrs (dl_feature_snapshot d))),
        (''capability_scope'', strs scope), (''decided_at'', PStr (ts_signature kp now (dl_decided_at d))),
        (''training_set_hash'', PStr (field_text kp payload ''training_set_hash'')),
        (''evaluation_bundle_hash'', PStr (field_text kp payload ''evaluation_bundle_hash'')),
        (''promotion_policy_version'', PStr (field_text kp payload ''promotion_policy_version'')),
        (''explainability_envelope'', explainability_json xe)],
      ea_model_version = dl_model_version d, ea_training_set_hash = field_text kp payload ''training_set_hash'',
      ea_evaluation_bundle_hash = field_text kp payload ''evaluation_bundle_hash'',
      ea_promotion_policy_version = field_text kp payload ''promotion_policy_version'', ea_lifecycle_state = ''VALIDATED'',
      ea_quarantine_state = (if contains_quarantine_fields (PDict payload) then ''quarantine'' else ''none''),
      ea_gate_results = [(PStr ''fallback_used'', PBool (dl_fallback_used d)), (PStr ''trace_id'', PStr (dl_trace_id d))],
      ea_metadata = [(PStr ''component'', PStr (dl_component d)), (PStr ''policy_branch'', PStr (dl_policy_branch d)),
        (PStr ''explainability_envelope_json'', PStr (raw_text (canon (explainability_json xe))))],
      ea_command = ''runtime_decision'', ea_decision = dl_selected_action d\<rparr>"

definition ingest_runtime_decision :: "kb_platform \<Rightarrow> ingest_platform \<Rightarrow> int \<Rightarrow> json_dict \<Rightarrow> string kb_op" where
  "ingest_runtime_decision kp ig now payload s =
     (let x = runtime_context_of kp payload in
      if storage_unavailable s then (s, Inl no_storage)
      else if \<not> runtime_context_ok x then (s, Inl (KbUnavailable ''security context unavailable''))
      else
        kb_then (s, kb_py (decision_id_of kp payload)) (\<lambda>decision_id s.
        kb_then (kb_guarded (
          kb_then (s, kb_py (explainability_of kp (kb_anon_salt s) (kb_anon_epoch s) payload)) (\<lambda>xe s.
          if xe_policy_snapshot_version xe = [] then (s, Inl (KbUnavailable ''policy snapshot unavailable''))
          else
            kb_then (s, kb_py (runtime_snapshot kp ig (kb_anon_salt s) (kb_anon_epoch s) payload x xe)) (\<lambda>snapshot s.
            kb_then (s, kb_py (capability_scope_tokens kp payload)) (\<lambda>scope s.
            let d = runtime_decision_log kp now payload decision_id snapshot;
                env = payload_envelope_of kp (dset_all [(''tenant_id'', PStr (rx_tenant_id x)), (''project_id'', PStr (rx_project_id x))] payload) in
            kb_then (kb_write_event (runtime_event kp x env xe d) s) (\<lambda>_ s.
            kb_then (gc_locked kp now s) (\<lambda>_ s.
            case store_decision_log kp now (pv_tenant_id env) (pv_project_id env) (requested_scope_tokens kp payload) d s of
              (s, entry) \<Rightarrow> learning_store_evidence kp now (runtime_evidence kp now payload env scope xe (sd_decision_log entry)) s)))))))
          (\<lambda>_ s. (kb_count ''runtime_decisions'' True s, Inr decision_id))))"

section \<open>Benchmark runs\<close>

definition in_int32 :: "int \<Rightarrow> bool" where
  "in_int32 i \<longleftrightarrow> - (2 ^ 31) \<le> i \<and> i < 2 ^ 31"

text \<open>\<open>float(payload.get(key, 0.0) or 0.0)\<close>\<close>

definition field_float :: "ingest_platform \<Rightarrow> json_dict \<Rightarrow> string \<Rightarrow> (pyexn, string) result" where
  "field_float ig d k =
     (let v = val_or (dget_or d k (PFloat ''0.0'')) (PFloat ''0.0'') in
      case v of
        PInt i \<Rightarrow> if float_overflows i then Inl OverflowError
          else (case ig_float ig (show_int i) of None \<Rightarrow> Inl (ValueError ''could not convert string to float'') | Some r \<Rightarrow> Inr r)
      | PFloat r \<Rightarrow> Inr r
      | _ \<Rightarrow> (case float_text v of
            None \<Rightarrow> Inl TypeError
          | Some t \<Rightarrow> (case ig_float ig t of None \<Rightarrow> Inl (ValueError ''could not convert string to float'') | Some r \<Rightarrow> Inr r)))"

definition benchmark_record_id :: "kb_platform \<Rightarrow> json_dict \<Rightarrow> (pyexn, string) result" where
  "benchmark_record_id kp payload =
     (if truthy (vget payload ''record_id'') then Inr (py_str (kp_sec kp) (vget payload ''record_id''))
      else case dget payload ''run_id'' of None \<Rightarrow> Inl (KeyError ''run_id'') | Some v \<Rightarrow> Inr (''run:'' @ py_str (kp_sec kp) v))"

definition sub_dict :: "json_dict \<Rightarrow> string \<Rightarrow> json_dict" where
  "sub_dict payload k = (case vget payload k of PDict d \<Rightarrow> d | _ \<Rightarrow> [])"

definition benchmark_record :: "kb_platform \<Rightarrow> ingest_platform \<Rightarrow> int \<Rightarrow> json_dict \<Rightarrow> (pyexn, knowledge_record) result" where
  "benchmark_record kp ig now payload =
     rbind (benchmark_record_id kp payload) (\<lambda>record_id.
     rbind (field_int kp payload ''qubit_count'' 0) (\<lambda>qubits.
     if \<not> in_int32 qubits then Inl (ValueError ''Value out of range'')
     else
       rbind (field_float ig payload ''entanglement_score'') (\<lambda>score.
         let prov = sub_dict payload ''provenance''; lin = sub_dict payload ''lineage'' in
         Inr \<lparr>kr_record_id = record_id, kr_job_id = py_str (kp_sec kp) (py_or [vget payload ''job_id'', vget payload ''run_id'', PStr []]),
              kr_circuit_id = field_text kp payload ''circuit_id'', kr_artifact_ref = field_text kp payload ''artifact_ref'',
              kr_dataset_ref = field_text kp payload ''dataset_ref'', kr_backend_profile = field_text kp payload ''backend_profile'',
              kr_optimizer_version = field_text kp payload ''optimizer_version'', kr_qubit_count = qubits, kr_entanglement_score = score,
              kr_noise_profile_id = field_text kp payload ''noise_profile_id'', kr_backend_class = field_text kp payload ''backend_class'',
              kr_created_at = ts_from_dt now,
              kr_provenance = \<lparr>rp_compiler_ref = field_text kp prov ''compiler_ref'', rp_optimizer_ref = field_text kp prov ''optimizer_ref'',
                rp_runtime_ref = field_text kp prov ''runtime_ref'', rp_checkpoint_ref = field_text kp prov ''checkpoint_ref''\<rparr>,
              kr_attributes = [],
              kr_lineage = \<lparr>ml_model_version = field_text kp lin ''model_version'', ml_training_set_hash = field_text kp lin ''training_set_hash'',
                ml_evaluation_bundle_hash = field_text kp lin ''evaluation_bundle_hash'',
                ml_promotion_policy_version = field_text kp lin ''promotion_policy_version'',
                ml_promotion_outcome = field_text kp lin ''promotion_outcome''\<rparr>\<rparr>)))"

definition scope_token :: "kb_platform \<Rightarrow> string \<Rightarrow> string \<Rightarrow> json_dict \<Rightarrow> string \<Rightarrow> string" where
  "scope_token kp salt epoch payload k =
     (if truthy (vget payload k) then anon_token kp salt epoch (field_str kp payload k []) else [])"

definition benchmark_attributes ::
  "kb_platform \<Rightarrow> string \<Rightarrow> string \<Rightarrow> json_dict \<Rightarrow> string list \<Rightarrow> string \<Rightarrow> (pyexn, json_dict) result" where
  "benchmark_attributes kp salt epoch payload scope record_id =
     rbind (field_vdict payload ''attributes'') (\<lambda>given.
     rbind (anonymize_vdict kp salt epoch given) (\<lambda>anon.
     rbind (string_keys anon) (\<lambda>attrs.
       Inr (dset_all
         [(''record_kind'', PStr ''benchmark_run''), (''request_hash'', PStr (field_text kp payload ''request_hash'')),
          (''idempotency_key'', PStr (field_text kp payload ''idempotency_key'')), (''parent_run_id'', PStr (field_text kp payload ''parent_run_id'')),
          (''run_state'', PStr (field_text kp payload ''state'')), (''capability_scope'', PStr (raw_text (strs scope))),
          (''tenant_id'', PStr (scope_token kp salt epoch payload ''tenant_id'')), (''project_id'', PStr (scope_token kp salt epoch payload ''project_id'')),
          (''trace_id'', PStr (field_text kp payload ''trace_id'')),
          (''replay_bundle_ref'', PStr (py_strip (py_str (kp_sec kp) (py_or [vget payload ''replay_bundle_ref'', PStr (replay_bundle_ref record_id)]))))]
         attrs))))"

definition benchmark_upsert :: "kb_platform \<Rightarrow> json_dict \<Rightarrow> payload_envelope \<Rightarrow> string \<Rightarrow> upsert_args" where
  "benchmark_upsert kp payload env replay_ref =
     \<lparr>ua_tenant_id = pv_tenant_id env, ua_project_id = pv_project_id env, ua_allow_overwrite = True, ua_anonymize = False,
      ua_source = ''benchmark'', ua_replay_bundle_ref = replay_ref, ua_scope = requested_scope_tokens kp payload\<rparr>"

definition benchmark_evidence :: "kb_platform \<Rightarrow> int \<Rightarrow> payload_envelope \<Rightarrow> string list \<Rightarrow> knowledge_record \<Rightarrow> evidence_args" where
  "benchmark_evidence kp now env scope r =
     (let lin = kr_lineage r; prov = kr_provenance r in
      \<lparr>ea_source = ''benchmark'', ea_evidence_kind = ''benchmark'', ea_tenant_id = pv_tenant_id env, ea_project_id = pv_project_id env,
       ea_payload = [(''record_id'', PStr (kr_record_id r)), (''job_id'', PStr (kr_job_id r)), (''circuit_id'', PStr (kr_circuit_id r)),
         (''artifact_ref'', PStr (kr_artifact_ref r)), (''dataset_ref'', PStr (kr_dataset_ref r)), (''backend_profile'', PStr (kr_backend_profile r)),
         (''optimizer_version'', PStr (kr_optimizer_version r)), (''qubit_count'', PInt (kr_qubit_count r)),
         (''entanglement_score'', PFloat (kr_entanglement_score r)), (''noise_profile_id'', PStr (kr_noise_profile_id r)),
         (''backend_class'', PStr (kr_backend_class r)), (''capability_scope'', strs scope),
         (''provenance'', PDict [(''compiler_ref'', PStr (rp_compiler_ref prov)), (''optimizer_ref'', PStr (rp_optimizer_ref prov)),
            (''runtime_ref'', PStr (rp_runtime_ref prov)), (''checkpoint_ref'', PStr (rp_checkpoint_ref prov))]),
         (''lineage'', PDict [(''model_version'', PStr (ml_model_version lin)), (''training_set_hash'', PStr (ml_training_set_hash lin)),
            (''evaluation_bundle_hash'', PStr (ml_evaluation_bundle_hash lin)), (''promotion_policy_version'', PStr (ml_promotion_policy_version lin)),
            (''promotion_outcome'', PStr (ml_promotion_outcome lin))]),
         (''created_at'', PStr (ts_signature kp now (kr_created_at r)))],
       ea_model_version = ml_model_version lin, ea_training_set_hash = ml_training_set_hash lin,
       ea_evaluation_bundle_hash = ml_evaluation_bundle_hash lin, ea_promotion_policy_version = ml_promotion_policy_version lin,
       ea_lifecycle_state = ''VALIDATED'', ea_quarantine_state = ''none'',
       ea_gate_results = [(PStr ''promotion_outcome'', PStr (ml_promotion_outcome lin)), (PStr ''optimizer_version'', PStr (kr_optimizer_version r))],
       ea_metadata = [(PStr ''backend_profile'', PStr (kr_backend_profile r)), (PStr ''backend_class'', PStr (kr_backend_class r)),
         (PStr ''noise_profile_id'', PStr (kr_noise_profile_id r))],
       ea_command = ''benchmark_ingest'', ea_decision = ''validated''\<rparr>)"

text \<open>The insertion sets the date of the record it is given, which the evidence then shows.\<close>

definition ingest_benchmark_run :: "kb_platform \<Rightarrow> ingest_platform \<Rightarrow> int \<Rightarrow> json_dict \<Rightarrow> string kb_op" where
  "ingest_benchmark_run kp ig now payload s =
     (if storage_unavailable s then (s, Inl no_storage)
      else
        kb_then (s, kb_py (benchmark_record kp ig now payload)) (\<lambda>r s.
        kb_then (s, kb_py (capability_scope_tokens kp payload)) (\<lambda>scope s.
        kb_then (kb_guarded (
          kb_then (s, kb_py (benchmark_attributes kp (kb_anon_salt s) (kb_anon_epoch s) payload scope (kr_record_id r))) (\<lambda>attrs s.
          let env = payload_envelope_of kp payload; strings = str_values kp attrs; filed = r\<lparr>kr_attributes := strings\<rparr> in
          kb_then (gc_locked kp now s) (\<lambda>_ s.
          kb_then (upsert_record kp now None (benchmark_upsert kp payload env (dget_or strings ''replay_bundle_ref'' [])) filed s) (\<lambda>_ s.
            let dated = (case dget (kb_records s) (kr_record_id r) of None \<Rightarrow> filed
                  | Some e \<Rightarrow> filed\<lparr>kr_created_at := kr_created_at (sr_record e)\<rparr>) in
            learning_store_evidence kp now (benchmark_evidence kp now env scope dated) s)))))
          (\<lambda>_ s. (kb_count ''benchmark_runs'' True s, Inr (kr_record_id r))))))"

end
