(* ===== verification/KbDatasets.thy ===== *)
theory KbDatasets
  imports KbRedaction KbIngest
begin

text \<open>
  The ingestion of training datasets (\<open>knowledge_base.py\<close>, lines 1247 to 1651): the manifest is checked part by part
  against its own digests, its records must be redacted already, and a version that exists is never replaced. The manifest is a
  JSON value, copied by writing and reading it.
\<close>

section \<open>Reading a manifest\<close>

definition MANIFEST_SCHEMA :: string where "MANIFEST_SCHEMA = ''neuro-symbolic.training-dataset.manifest.v1''"

definition lower_text :: "kb_platform \<Rightarrow> json_dict \<Rightarrow> string \<Rightarrow> string" where
  "lower_text kp d k = py_lower (field_text kp d k)"

text \<open>\<open>str(d.get(key, dflt)).strip() or dflt\<close>\<close>

definition text_dflt :: "kb_platform \<Rightarrow> json_dict \<Rightarrow> string \<Rightarrow> string \<Rightarrow> string" where
  "text_dflt kp d k dflt = str_else (py_strip (field_str kp d k dflt)) dflt"

definition sha_hex :: "string \<Rightarrow> bool" where
  "sha_hex s \<longleftrightarrow> length s = 64 \<and> list_all (\<lambda>c. c \<in> set ''0123456789abcdef'') s"

text \<open>The digest of a part without the field that holds it.\<close>

definition digest_without :: "kb_platform \<Rightarrow> string \<Rightarrow> json_dict \<Rightarrow> (kb_failure, string) result" where
  "digest_without kp k d = rbind (kb_py (stable_json (PDict (filter (\<lambda>(k', _). k' \<noteq> k) d)))) (\<lambda>t. Inr (kp_sha256 kp t))"

definition require :: "bool \<Rightarrow> kb_failure \<Rightarrow> (kb_failure, unit) result" where
  "require c e = (if c then Inr () else Inl e)"

definition require_obj :: "json_dict \<Rightarrow> string \<Rightarrow> string \<Rightarrow> (kb_failure, json_dict) result" where
  "require_obj d k message = (case vget d k of PDict o1 \<Rightarrow> Inr o1 | _ \<Rightarrow> Inl (KbValueError message))"

record manifest_head =
  mh_dataset_id :: string
  mh_dataset_version :: string
  mh_record_schema_version :: string
  mh_tenant_id :: string
  mh_project_id :: string
  mh_policy_snapshot_version :: string
  mh_manifest_digest :: string

definition check_head :: "kb_platform \<Rightarrow> string \<Rightarrow> json_dict \<Rightarrow> (kb_failure, manifest_head) result" where
  "check_head kp active_policy m =
     (let h = \<lparr>mh_dataset_id = field_text kp m ''dataset_id'', mh_dataset_version = field_text kp m ''dataset_version'',
               mh_record_schema_version = field_text kp m ''record_schema_version'', mh_tenant_id = field_text kp m ''tenant_id'',
               mh_project_id = field_text kp m ''project_id'', mh_policy_snapshot_version = field_text kp m ''policy_snapshot_version'',
               mh_manifest_digest = lower_text kp m ''manifest_digest_sha256''\<rparr> in
      rbind (require (field_text kp m ''schema_version'' = MANIFEST_SCHEMA) (KbValueError ''unsupported training dataset manifest schema_version'')) (\<lambda>_.
      rbind (require (field_text kp m ''contract_version'' = KB_CONTRACT_VERSION) (KbValueError ''unsupported training dataset contract_version'')) (\<lambda>_.
      rbind (require (mh_dataset_id h \<noteq> [] \<and> mh_dataset_version h \<noteq> [] \<and> mh_record_schema_version h \<noteq> [] \<and> mh_tenant_id h \<noteq> []
          \<and> mh_project_id h \<noteq> [] \<and> mh_policy_snapshot_version h \<noteq> [] \<and> mh_manifest_digest h \<noteq> [])
        (KbValueError ''dataset_id, dataset_version, record_schema_version, tenant_id, project_id, policy_snapshot_version, and manifest_digest_sha256 are required'')) (\<lambda>_.
      rbind (require (mh_policy_snapshot_version h = active_policy) (KbUnavailable ''policy snapshot mismatch'')) (\<lambda>_.
      rbind (require (sha_hex (mh_manifest_digest h)) (KbValueError ''manifest_digest_sha256 must be a SHA-256 hex digest'')) (\<lambda>_. Inr h))))))"

definition check_ownership :: "kb_platform \<Rightarrow> string \<Rightarrow> json_dict \<Rightarrow> (kb_failure, json_dict) result" where
  "check_ownership kp caller m =
     rbind (require_obj m ''ownership'' ''ownership is required'') (\<lambda>o1.
     let owner = field_text kp o1 ''service_identity''; by1 = field_text kp o1 ''requested_by''; role = field_text kp o1 ''service_role'' in
     rbind (require (owner \<noteq> [] \<and> by1 \<noteq> [] \<and> role \<noteq> [])
       (KbValueError ''ownership.service_identity, ownership.requested_by, and ownership.service_role are required'')) (\<lambda>_.
     rbind (require (owner = caller) (KbUnavailable ''caller identity mismatch'')) (\<lambda>_.
       Inr [(''service_identity'', PStr owner), (''requested_by'', PStr by1), (''service_role'', PStr role)])))"

definition PROVENANCE_KEYS :: "string list" where
  "PROVENANCE_KEYS = [''source_ref'', ''captured_at'', ''signed_by'', ''signature_algorithm'', ''signature'']"

definition check_provenance :: "kb_platform \<Rightarrow> json_dict \<Rightarrow> (kb_failure, json_dict) result" where
  "check_provenance kp m =
     rbind (require_obj m ''provenance'' ''provenance is required'') (\<lambda>p.
     let digest = lower_text kp p ''source_digest_sha256'' in
     rbind (require (list_all (\<lambda>k. field_text kp p k \<noteq> []) PROVENANCE_KEYS \<and> digest \<noteq> [])
       (KbValueError ''provenance.source_ref, provenance.captured_at, provenance.signed_by, provenance.signature_algorithm, provenance.signature, and provenance.source_digest_sha256 are required'')) (\<lambda>_.
     rbind (require (sha_hex digest) (KbValueError ''provenance.source_digest_sha256 must be a SHA-256 hex digest'')) (\<lambda>_.
     rbind (digest_without kp ''source_digest_sha256'' p) (\<lambda>computed.
     rbind (require (computed = digest) (KbUnavailable ''provenance digest mismatch'')) (\<lambda>_.
       Inr (map (\<lambda>k. (k, PStr (field_text kp p k))) PROVENANCE_KEYS @ [(''source_digest_sha256'', PStr digest)]))))))"

definition rule_texts :: "kb_platform \<Rightarrow> pyval list \<Rightarrow> string list" where
  "rule_texts kp rules = filter (\<lambda>t. t \<noteq> []) (map (\<lambda>r. py_strip (py_str (kp_sec kp) r)) rules)"

definition redaction_json :: "string list \<Rightarrow> string \<Rightarrow> json_dict" where
  "redaction_json rules digest =
     [(''applied'', PBool True), (''validated'', PBool True), (''rules'', strs rules), (''redaction_digest_sha256'', PStr digest)]"

definition check_redaction :: "kb_platform \<Rightarrow> json_dict \<Rightarrow> (kb_failure, string list \<times> string) result" where
  "check_redaction kp m =
     rbind (require_obj m ''redaction'' ''redaction is required'') (\<lambda>r.
     rbind (require (field_bool r ''applied'' False \<and> field_bool r ''validated'' False)
       (KbUnavailable ''dataset redaction must be applied and validated'')) (\<lambda>_.
     rbind (case vget r ''rules'' of PList xs \<Rightarrow> if rule_texts kp xs \<noteq> [] then Inr (rule_texts kp xs) else Inl (KbValueError ''redaction.rules are required'')
            | _ \<Rightarrow> Inl (KbValueError ''redaction.rules are required'')) (\<lambda>rules.
     let digest = lower_text kp r ''redaction_digest_sha256'' in
     rbind (require (sha_hex digest) (KbValueError ''redaction.redaction_digest_sha256 must be a SHA-256 hex digest'')) (\<lambda>_.
     rbind (digest_without kp ''redaction_digest_sha256'' r) (\<lambda>computed.
     rbind (require (computed = digest) (KbUnavailable ''redaction digest mismatch'')) (\<lambda>_. Inr (rules, digest)))))))"

record selection =
  sn_selection_id :: string
  sn_trace_ids :: "string list"
  sn_replay_ids :: "string list"
  sn_json :: json_dict

definition check_selection :: "kb_platform \<Rightarrow> manifest_head \<Rightarrow> json_dict \<Rightarrow> (kb_failure, selection option) result" where
  "check_selection kp h m =
     (case vget m ''selection'' of
        PNone \<Rightarrow> Inr None
      | PDict d \<Rightarrow>
          (let traces = audit_string_list kp (py_or [vget d ''trace_ids'', vget d ''selected_trace_ids'']);
               replays = audit_string_list kp (vget d ''replay_ids'');
               i = field_text kp d ''selection_id''; who = field_text kp d ''selected_by''; why = field_text kp d ''selection_reason'';
               policy = text_dflt kp d ''policy_snapshot_version'' (mh_policy_snapshot_version h);
               t = text_dflt kp d ''tenant_id'' (mh_tenant_id h); p = text_dflt kp d ''project_id'' (mh_project_id h) in
           rbind (require (i \<noteq> [] \<and> who \<noteq> [] \<and> why \<noteq> [] \<and> traces \<noteq> [] \<and> replays \<noteq> [])
             (KbValueError ''selection.selection_id, selected_by, selection_reason, trace_ids, and replay_ids are required'')) (\<lambda>_.
           rbind (require (t = mh_tenant_id h \<and> p = mh_project_id h) (KbUnavailable ''selection must remain tenant-scoped'')) (\<lambda>_.
           rbind (require (policy = mh_policy_snapshot_version h) (KbUnavailable ''selection policy snapshot version mismatch'')) (\<lambda>_.
             Inr (Some \<lparr>sn_selection_id = i, sn_trace_ids = traces, sn_replay_ids = replays,
               sn_json = [(''selection_id'', PStr i), (''selected_by'', PStr who), (''selection_reason'', PStr why), (''trace_ids'', strs traces),
                 (''replay_ids'', strs replays), (''tenant_id'', PStr t), (''project_id'', PStr p), (''policy_snapshot_version'', PStr policy)]\<rparr>)))))
      | _ \<Rightarrow> Inl (KbValueError ''selection must be an object''))"

record approval =
  ap_approval_id :: string
  ap_json :: json_dict

definition check_approval :: "kb_platform \<Rightarrow> manifest_head \<Rightarrow> selection option \<Rightarrow> json_dict \<Rightarrow> (kb_failure, approval option) result" where
  "check_approval kp h sel m =
     (case vget m ''approval'' of
        PNone \<Rightarrow> Inr None
      | PDict d \<Rightarrow>
          (let i = field_text kp d ''approval_id''; who = field_text kp d ''approved_by''; at1 = field_text kp d ''approved_at'';
               decision = lower_text kp d ''decision''; ticket = field_text kp d ''ticket_ref'';
               policy = text_dflt kp d ''policy_snapshot_version'' (mh_policy_snapshot_version h);
               t = text_dflt kp d ''tenant_id'' (mh_tenant_id h); p = text_dflt kp d ''project_id'' (mh_project_id h);
               given = audit_string_list kp (vget d ''replay_ids'');
               replays = (if given = [] then (case sel of None \<Rightarrow> [] | Some x \<Rightarrow> sn_replay_ids x) else given) in
           rbind (require (i \<noteq> [] \<and> who \<noteq> [] \<and> at1 \<noteq> [] \<and> ticket \<noteq> [] \<and> decision = ''approved'' \<and> replays \<noteq> [])
             (KbValueError ''approval.approval_id, approved_by, approved_at, decision, ticket_ref, and replay_ids are required'')) (\<lambda>_.
           rbind (require (t = mh_tenant_id h \<and> p = mh_project_id h) (KbUnavailable ''approval must remain tenant-scoped'')) (\<lambda>_.
           rbind (require (policy = mh_policy_snapshot_version h) (KbUnavailable ''approval policy snapshot version mismatch'')) (\<lambda>_.
           rbind (require (case sel of None \<Rightarrow> True | Some x \<Rightarrow> set (sn_replay_ids x) \<subseteq> set replays)
             (KbUnavailable ''approval replay_ids must cover all selected replay identifiers'')) (\<lambda>_.
             Inr (Some \<lparr>ap_approval_id = i, ap_json = [(''approval_id'', PStr i), (''approved_by'', PStr who), (''approved_at'', PStr at1),
               (''decision'', PStr decision), (''ticket_ref'', PStr ticket), (''policy_snapshot_version'', PStr policy), (''tenant_id'', PStr t),
               (''project_id'', PStr p), (''replay_ids'', strs replays)]\<rparr>))))))
      | _ \<Rightarrow> Inl (KbValueError ''approval must be an object''))"

section \<open>Records\<close>

definition at_record :: "nat \<Rightarrow> string \<Rightarrow> string" where
  "at_record idx message = ''records['' @ show_nat idx @ '']'' @ message"

text \<open>\<open>redacted_payload != payload\<close>; a bare \<open>nan\<close> is not equal to itself.\<close>

definition changed_by_redaction :: "pyval \<Rightarrow> bool" where
  "changed_by_redaction v \<longleftrightarrow> fst (redact_json_value ''$'' v) \<noteq> v \<or> v = PFloat ''nan''"

definition record_check_provenance :: "kb_platform \<Rightarrow> nat \<Rightarrow> json_dict \<Rightarrow> (kb_failure, json_dict) result" where
  "record_check_provenance kp idx r =
     rbind (require_obj r ''provenance'' (at_record idx ''.provenance is required'')) (\<lambda>p.
     let ref = field_text kp p ''source_ref''; at1 = field_text kp p ''captured_at''; by1 = field_text kp p ''requested_by'';
         digest = lower_text kp p ''source_digest_sha256'' in
     rbind (require (ref \<noteq> [] \<and> at1 \<noteq> [] \<and> by1 \<noteq> [] \<and> digest \<noteq> [])
       (KbValueError (at_record idx ''.provenance.source_ref, captured_at, requested_by, and source_digest_sha256 are required''))) (\<lambda>_.
     rbind (require (sha_hex digest) (KbValueError (at_record idx ''.provenance.source_digest_sha256 must be a SHA-256 hex digest''))) (\<lambda>_.
     rbind (digest_without kp ''source_digest_sha256'' p) (\<lambda>computed.
     rbind (require (computed = digest) (KbUnavailable (at_record idx '' provenance digest mismatch''))) (\<lambda>_.
       Inr [(''source_ref'', PStr ref), (''captured_at'', PStr at1), (''requested_by'', PStr by1), (''source_digest_sha256'', PStr digest)])))))"

text \<open>\<open>rules\<close> that are no list and have a value would be iterated; a string gives its characters, a number raises.\<close>

definition record_rules :: "kb_platform \<Rightarrow> json_dict \<Rightarrow> (kb_failure, string list) result" where
  "record_rules kp r = rbind (kb_py (py_iter (val_or (vget r ''rules'') (PList [])))) (\<lambda>xs. Inr (rule_texts kp xs))"

definition record_check_redaction :: "kb_platform \<Rightarrow> nat \<Rightarrow> json_dict \<Rightarrow> (kb_failure, json_dict) result" where
  "record_check_redaction kp idx r =
     rbind (require_obj r ''redaction'' (at_record idx ''.redaction is required'')) (\<lambda>d.
     rbind (require (field_bool d ''validated'' False \<and> field_bool d ''applied'' False)
       (KbUnavailable (at_record idx '' redaction must be applied and validated''))) (\<lambda>_.
     let digest = lower_text kp d ''redaction_digest_sha256'' in
     rbind (require (sha_hex digest) (KbValueError (at_record idx ''.redaction.redaction_digest_sha256 must be a SHA-256 hex digest''))) (\<lambda>_.
     rbind (digest_without kp ''redaction_digest_sha256'' d) (\<lambda>computed.
     rbind (require (computed = digest) (KbUnavailable (at_record idx '' redaction digest mismatch''))) (\<lambda>_.
     rbind (record_rules kp d) (\<lambda>rules.
       Inr [(''applied'', PBool True), (''validated'', PBool True), (''redaction_digest_sha256'', PStr digest), (''rules'', strs rules)]))))))"

definition record_extras :: "kb_platform \<Rightarrow> json_dict \<Rightarrow> json_dict" where
  "record_extras kp r =
     (let trace = field_text kp r ''trace_id''; replay = field_text kp r ''replay_id'';
          given = (\<lambda>k. let t = field_text kp r k in if t \<noteq> [] then [(k, PStr t)] else []) in
      (if trace \<noteq> [] then [(''trace_id'', PStr trace), (''trace_ref'', PStr (''nsc://trace/'' @ trace))] else [])
      @ (if replay \<noteq> [] then [(''replay_id'', PStr replay)]
           @ (if trace \<noteq> [] then [(''replay_ref'', PStr (''nsc://replay/'' @ trace @ ''/'' @ replay))] else []) else [])
      @ given ''tenant_id'' @ given ''project_id'' @ given ''policy_snapshot_version'' @ given ''source_kind'')"

definition check_record :: "kb_platform \<Rightarrow> manifest_head \<Rightarrow> nat \<times> pyval \<Rightarrow> (kb_failure, json_dict \<times> string) result" where
  "check_record kp h e =
     (case e of (idx, v) \<Rightarrow> case v of
        PDict r \<Rightarrow>
          (let record_id = field_text kp r ''record_id''; schema = field_text kp r ''schema_version''; payload = vget r ''payload'';
               digest = lower_text kp r ''content_digest_sha256'' in
           rbind (require (record_id \<noteq> [] \<and> schema = mh_record_schema_version h)
             (KbValueError (at_record idx ''.record_id and schema_version are required''))) (\<lambda>_.
           rbind (require (payload \<noteq> PNone) (KbValueError (at_record idx ''.payload must be JSON-serializable''))) (\<lambda>_.
           rbind (require (\<not> changed_by_redaction payload) (KbUnavailable (at_record idx '' must be redacted before ingestion''))) (\<lambda>_.
           rbind (require (sha_hex digest) (KbValueError (at_record idx ''.content_digest_sha256 must be a SHA-256 hex digest''))) (\<lambda>_.
           rbind (kb_py (stable_json payload)) (\<lambda>t.
           rbind (require (kp_sha256 kp t = digest) (KbUnavailable (at_record idx '' content digest mismatch''))) (\<lambda>_.
           rbind (record_check_provenance kp idx r) (\<lambda>prov.
           rbind (record_check_redaction kp idx r) (\<lambda>red.
             Inr ([(''record_id'', PStr record_id), (''schema_version'', PStr schema), (''content_digest_sha256'', PStr digest), (''payload'', payload),
                   (''provenance'', PDict prov), (''redaction'', PDict red)] @ record_extras kp r, digest))))))))))
      | _ \<Rightarrow> Inl (KbValueError (at_record idx '' must be a mapping'')))"

definition check_records :: "kb_platform \<Rightarrow> manifest_head \<Rightarrow> json_dict \<Rightarrow> (kb_failure, (json_dict \<times> string) list) result" where
  "check_records kp h m =
     (case vget m ''records'' of
        PList xs \<Rightarrow> if xs = [] then Inl (KbValueError ''records must be a non-empty list'') else rmap (check_record kp h) (enumerate 0 xs)
      | _ \<Rightarrow> Inl (KbValueError ''records must be a non-empty list''))"

section \<open>The dataset\<close>

record checked_manifest =
  ck_head :: manifest_head
  ck_ownership :: json_dict
  ck_provenance :: json_dict
  ck_rules :: "string list"
  ck_redaction_digest :: string
  ck_selection :: "selection option"
  ck_approval :: "approval option"
  ck_records :: "(json_dict \<times> string) list"
  ck_source_kind :: string

definition opt_entry :: "string \<Rightarrow> pyval option \<Rightarrow> json_dict" where
  "opt_entry k v = (case v of None \<Rightarrow> [] | Some x \<Rightarrow> [(k, x)])"

definition source_kind_entry :: "checked_manifest \<Rightarrow> json_dict" where
  "source_kind_entry c = (if ck_source_kind c = [] then [] else [(''source_kind'', PStr (ck_source_kind c))])"

definition selection_entry :: "checked_manifest \<Rightarrow> json_dict" where
  "selection_entry c = opt_entry ''selection'' (map_option (\<lambda>x. PDict (sn_json x)) (ck_selection c))"

definition selected_ids :: "checked_manifest \<Rightarrow> json_dict" where
  "selected_ids c = (case ck_selection c of None \<Rightarrow> [] | Some x \<Rightarrow> [(''trace_ids'', strs (sn_trace_ids x)), (''replay_ids'', strs (sn_replay_ids x))])"

definition approval_entry :: "checked_manifest \<Rightarrow> json_dict" where
  "approval_entry c = opt_entry ''approval'' (map_option (\<lambda>x. PDict (ap_json x)) (ck_approval c))"

definition part_entries :: "checked_manifest \<Rightarrow> json_dict" where
  "part_entries c =
     [(''ownership'', PDict (ck_ownership c)), (''provenance'', PDict (ck_provenance c)),
      (''redaction'', PDict (redaction_json (ck_rules c) (ck_redaction_digest c)))]"

definition normalized_manifest :: "checked_manifest \<Rightarrow> json_dict" where
  "normalized_manifest c =
     (let h = ck_head c in
      [(''schema_version'', PStr MANIFEST_SCHEMA), (''contract_version'', PStr KB_CONTRACT_VERSION), (''dataset_id'', PStr (mh_dataset_id h)),
       (''dataset_version'', PStr (mh_dataset_version h)), (''record_schema_version'', PStr (mh_record_schema_version h)),
       (''tenant_id'', PStr (mh_tenant_id h)), (''project_id'', PStr (mh_project_id h)),
       (''policy_snapshot_version'', PStr (mh_policy_snapshot_version h))]
      @ part_entries c
      @ [(''records'', PList (map (\<lambda>(r, _). PDict r) (ck_records c))), (''manifest_digest_sha256'', PStr (mh_manifest_digest h))]
      @ source_kind_entry c @ selection_entry c @ approval_entry c)"

definition check_manifest :: "kb_platform \<Rightarrow> string \<Rightarrow> string \<Rightarrow> json_dict \<Rightarrow> (kb_failure, checked_manifest) result" where
  "check_manifest kp caller active_policy m =
     rbind (check_head kp active_policy m) (\<lambda>h.
     rbind (check_ownership kp caller m) (\<lambda>own.
     rbind (check_provenance kp m) (\<lambda>prov.
     rbind (check_redaction kp m) (\<lambda>(rules, red_digest).
     rbind (check_selection kp h m) (\<lambda>sel.
     rbind (check_approval kp h sel m) (\<lambda>appr.
     rbind (check_records kp h m) (\<lambda>records.
     let c = \<lparr>ck_head = h, ck_ownership = own, ck_provenance = prov, ck_rules = rules, ck_redaction_digest = red_digest, ck_selection = sel,
              ck_approval = appr, ck_records = records, ck_source_kind = field_text kp m ''source_kind''\<rparr> in
     rbind (digest_without kp ''manifest_digest_sha256'' (normalized_manifest c)) (\<lambda>computed.
     rbind (require (computed = mh_manifest_digest h) (KbUnavailable ''manifest digest mismatch'')) (\<lambda>_. Inr c)))))))))"

definition dataset_digest :: "kb_platform \<Rightarrow> checked_manifest \<Rightarrow> (kb_failure, string) result" where
  "dataset_digest kp c =
     (let h = ck_head c in
      rbind (kb_py (stable_json (PDict
        ([(''dataset_id'', PStr (mh_dataset_id h)), (''dataset_version'', PStr (mh_dataset_version h)), (''tenant_id'', PStr (mh_tenant_id h)),
          (''project_id'', PStr (mh_project_id h)), (''policy_snapshot_version'', PStr (mh_policy_snapshot_version h))]
         @ part_entries c @ [(''record_digests'', strs (map snd (ck_records c)))] @ selection_entry c @ selected_ids c @ approval_entry c)))) (\<lambda>t.
        Inr (kp_sha256 kp t)))"

definition dataset_summary :: "kb_platform \<Rightarrow> int \<Rightarrow> checked_manifest \<Rightarrow> string \<Rightarrow> json_dict" where
  "dataset_summary kp now c digest =
     (let h = ck_head c in
      [(''dataset_id'', PStr (mh_dataset_id h)), (''dataset_version'', PStr (mh_dataset_version h)), (''tenant_id'', PStr (mh_tenant_id h)),
       (''project_id'', PStr (mh_project_id h)), (''policy_snapshot_version'', PStr (mh_policy_snapshot_version h)),
       (''record_schema_version'', PStr (mh_record_schema_version h))]
      @ part_entries c
      @ [(''record_count'', PInt (int (length (ck_records c)))), (''records'', PList (map (\<lambda>(r, _). PDict r) (ck_records c))),
         (''record_digests'', strs (map snd (ck_records c))), (''manifest_digest_sha256'', PStr (mh_manifest_digest h)),
         (''dataset_digest_sha256'', PStr digest),
         (''queryable_ref'', PStr (''kb://datasets/'' @ mh_dataset_id h @ ''/'' @ mh_dataset_version h)),
         (''created_at'', PStr (kp_iso kp now)), (''updated_at'', PStr (kp_iso kp now))]
      @ source_kind_entry c @ selection_entry c @ selected_ids c @ approval_entry c)"

definition owner_field :: "checked_manifest \<Rightarrow> string \<Rightarrow> pyval" where
  "owner_field c k = vget (ck_ownership c) k"

definition dataset_evidence :: "checked_manifest \<Rightarrow> string \<Rightarrow> evidence_args" where
  "dataset_evidence c digest =
     (let h = ck_head c; n = PInt (int (length (ck_records c))); manifest = PStr (mh_manifest_digest h) in
      \<lparr>ea_source = ''cli'', ea_evidence_kind = ''dataset'', ea_tenant_id = mh_tenant_id h, ea_project_id = mh_project_id h,
       ea_payload = normalized_manifest c, ea_model_version = mh_dataset_version h, ea_training_set_hash = digest,
       ea_evaluation_bundle_hash = mh_manifest_digest h, ea_promotion_policy_version = mh_policy_snapshot_version h,
       ea_lifecycle_state = ''DRAFT'', ea_quarantine_state = ''none'',
       ea_gate_results = [(PStr ''manifest_digest_sha256'', manifest), (PStr ''record_count'', n),
         (PStr ''record_schema_version'', PStr (mh_record_schema_version h))],
       ea_metadata = [(PStr ''dataset_id'', PStr (mh_dataset_id h)), (PStr ''dataset_version'', PStr (mh_dataset_version h)),
         (PStr ''requested_by'', owner_field c ''requested_by''), (PStr ''service_identity'', owner_field c ''service_identity''),
         (PStr ''service_role'', owner_field c ''service_role''), (PStr ''source_ref'', vget (ck_provenance c) ''source_ref''),
         (PStr ''source_digest_sha256'', vget (ck_provenance c) ''source_digest_sha256''), (PStr ''record_count'', n),
         (PStr ''manifest_digest_sha256'', manifest), (PStr ''redaction_digest_sha256'', PStr (ck_redaction_digest c))]
         @ (case ck_selection c of None \<Rightarrow> []
            | Some x \<Rightarrow> [(PStr ''selection_id'', PStr (sn_selection_id x)), (PStr ''replay_ids'', strs (sn_replay_ids x)), (PStr ''trace_ids'', strs (sn_trace_ids x))])
         @ (case ck_approval c of None \<Rightarrow> [] | Some x \<Rightarrow> [(PStr ''approval_id'', PStr (ap_approval_id x))]),
       ea_command = ''ingest_training_dataset'', ea_decision = ''accepted''\<rparr>)"

definition dataset_event :: "checked_manifest \<Rightarrow> string \<Rightarrow> json_dict" where
  "dataset_event c digest =
     (let h = ck_head c in
      [(''audit_kind'', PStr ''immutable_dataset_ingest''), (''operation'', PStr ''ingest_training_dataset''), (''dataset_id'', PStr (mh_dataset_id h)),
       (''dataset_version'', PStr (mh_dataset_version h)), (''tenant_id'', PStr (mh_tenant_id h)), (''project_id'', PStr (mh_project_id h)),
       (''policy_snapshot_version'', PStr (mh_policy_snapshot_version h)), (''caller_identity'', owner_field c ''service_identity''),
       (''requested_by'', owner_field c ''requested_by''), (''service_role'', owner_field c ''service_role''),
       (''provenance_source_ref'', vget (ck_provenance c) ''source_ref''),
       (''provenance_source_digest_sha256'', vget (ck_provenance c) ''source_digest_sha256''),
       (''manifest_digest_sha256'', PStr (mh_manifest_digest h)), (''dataset_digest_sha256'', PStr digest),
       (''record_count'', PInt (int (length (ck_records c)))), (''record_schema_version'', PStr (mh_record_schema_version h)),
       (''redaction_rules'', strs (ck_rules c)), (''immutable'', PBool True)])"

definition dataset_key :: "checked_manifest \<Rightarrow> scope3" where
  "dataset_key c = (mh_tenant_id (ck_head c), mh_project_id (ck_head c), mh_dataset_id (ck_head c))"

definition stored_version :: "kb_state \<Rightarrow> scope3 \<Rightarrow> string \<Rightarrow> json_dict option" where
  "stored_version s key version = dget (dget_or (kb_learning_datasets s) key []) version"

text \<open>\<open>setdefault(key, {})\<close> leaves an empty entry behind when the evidence cannot be filed.\<close>

definition ensure_versions :: "scope3 \<Rightarrow> kb_state \<Rightarrow> kb_state" where
  "ensure_versions key s =
     s\<lparr>kb_learning_datasets := dset key (dget_or (kb_learning_datasets s) key []) (kb_learning_datasets s)\<rparr>"

definition file_checked :: "kb_platform \<Rightarrow> int \<Rightarrow> checked_manifest \<Rightarrow> string \<Rightarrow> json_dict kb_op" where
  "file_checked kp now c digest s =
     (let version = mh_dataset_version (ck_head c); s1 = ensure_versions (dataset_key c) s in
      case stored_version s1 (dataset_key c) version of
        Some existing \<Rightarrow>
          (if vget existing ''manifest_digest_sha256'' \<noteq> PStr (mh_manifest_digest (ck_head c))
           then (s1, Inl (KbUnavailable ''dataset version already exists with different content''))
           else (s1, kb_py (kb_json_copy existing)))
      | None \<Rightarrow>
          kb_then (learning_store_evidence kp now (dataset_evidence c digest) s1) (\<lambda>e s.
            let d = dataset_summary kp now c digest @ [(''evidence_id'', PStr (le_evidence_id e)), (''evidence_ref'', PStr (le_queryable_ref e))] in
            kb_then (kb_write_event (dataset_event c digest) (file_dataset (dataset_key c) version d s)) (\<lambda>_ s.
              (kb_count ''learning_datasets'' True s, kb_py (kb_json_copy d)))))"

definition ingest_training_dataset :: "kb_platform \<Rightarrow> int \<Rightarrow> pyval \<Rightarrow> string option \<Rightarrow> json_dict kb_op" where
  "ingest_training_dataset kp now manifest caller_identity s =
     (let given = (case caller_identity of None \<Rightarrow> [] | Some c \<Rightarrow> c);
          caller = py_strip (str_else given (getenv (kp_sec kp) ''NEURO_SYMBOLIC_CLI_CALLER_IDENTITY'' [])) in
      if storage_unavailable s then (s, Inl no_storage)
      else if caller = [] then (s, Inl (KbValueError ''caller identity is required''))
      else case manifest of
        PDict d \<Rightarrow>
          kb_then (s, require_explicit_policy_snapshot kp None ''ingest_training_dataset'') (\<lambda>policy s.
          kb_then (s, kb_py (kb_json_copy d)) (\<lambda>m s.
          kb_then (s, check_manifest kp caller policy m) (\<lambda>c s.
          kb_then (s, dataset_digest kp c) (\<lambda>digest s.
          kb_then (gc_locked kp now s) (\<lambda>_ s. file_checked kp now c digest s)))))
      | _ \<Rightarrow> (s, Inl (KbValueError ''training dataset manifest must be a mapping'')))"

end
