(* ===== verification/KbService.thy ===== *)
theory KbService
  imports KbCandidates KbDatasets
begin

text \<open>All operations of the knowledge base as one step relation, and the invariant of the store under it.\<close>

lemma kb_wf_versions [simp]: "kb_wf (ensure_versions key s) = kb_wf s"
  by (simp add: ensure_versions_def)

lemma kb_wf_ensure [simp]: "kb_wf (fst (okb_ensure_indexes_ready kp now t p s)) = kb_wf s"
  by (simp add: okb_ensure_indexes_ready_def Let_def)

lemma kb_wf_candidates: "kb_wf s \<Longrightarrow> kb_wf (fst (query_optimization_candidates kp sp now payload call s))"
  unfolding query_optimization_candidates_def Let_def by (auto intro!: kb_wf_intros)

lemma kb_wf_runtime: "kb_wf s \<Longrightarrow> kb_wf (fst (ingest_runtime_decision kp ig now payload s))"
  unfolding ingest_runtime_decision_def Let_def
  by (auto intro!: kb_wf_intros simp: case_prod_unfold kb_wf_store_decision)

lemma kb_wf_benchmark: "kb_wf s \<Longrightarrow> kb_wf (fst (ingest_benchmark_run kp ig now payload s))"
  unfolding ingest_benchmark_run_def Let_def by (auto intro!: kb_wf_intros)

lemma kb_wf_file_checked: "kb_wf s \<Longrightarrow> kb_wf (fst (file_checked kp now c digest s))"
  unfolding file_checked_def Let_def by (auto intro!: kb_wf_intros split: option.split)

lemma kb_wf_training: "kb_wf s \<Longrightarrow> kb_wf (fst (ingest_training_dataset kp now manifest caller s))"
  unfolding ingest_training_dataset_def Let_def by (auto intro!: kb_wf_intros kb_wf_file_checked split: pyval.split)

inductive kb_service_step :: "kb_platform \<Rightarrow> kb_state \<Rightarrow> kb_state \<Rightarrow> bool" for kp where
  store: "kb_step kp s u \<Longrightarrow> kb_service_step kp s u"
| candidates: "kb_service_step kp s (fst (query_optimization_candidates kp sp now payload call s))"
| runtime: "kb_service_step kp s (fst (ingest_runtime_decision kp ig now payload s))"
| benchmark: "kb_service_step kp s (fst (ingest_benchmark_run kp ig now payload s))"
| training: "kb_service_step kp s (fst (ingest_training_dataset kp now manifest caller s))"

interpretation kb_whole: invariant_system "\<lambda>s. \<exists>mode ret o1. kb_init kp mode ret o1 = Inr s" "kb_service_step kp" kb_wf for kp
proof unfold_locales
  fix s assume "\<exists>mode ret o1. kb_init kp mode ret o1 = Inr s"
  then show "kb_wf s" by (rule kb_service.init_inv)
next
  fix s t assume "kb_wf s" "kb_service_step kp s t"
  from this(2,1) show "kb_wf t"
    by cases (simp_all add: kb_service.step_inv kb_wf_candidates kb_wf_runtime kb_wf_benchmark kb_wf_training)
qed

end
