(* ===== verification/KbStoreProperties.thy ===== *)
theory KbStoreProperties
  imports KbProperties KbService
begin

text \<open>
  The properties of the record store of the knowledge base: its invariant, what an insertion does on every branch, what a reader
  of records sees, and the cursors of the pages.
\<close>

section \<open>The invariant\<close>

text \<open>C12. After any sequence of requests, queries, commands, ingestions and restarts the store is well formed: each record is filed under its own
  identifier, once; no two records or decision logs share a sequence number and none is beyond the counter; and there is one
  shard for each index mode.\<close>

theorem kb_store_invariant:
  assumes "kb_init kp mode retention obs = Inr s" "(kb_service_step kp)\<^sup>*\<^sup>* s u"
  shows "wf_dict (kb_records u) \<and> (\<forall>e\<in>set (kb_records u). kr_record_id (sr_record (snd e)) = fst e)
    \<and> distinct (map sr_sequence (dvalues (kb_records u)) @ map sd_sequence (kb_decision_logs u))
    \<and> (\<forall>n\<in>set (map sr_sequence (dvalues (kb_records u)) @ map sd_sequence (kb_decision_logs u)). 0 < n \<and> n \<le> kb_sequence u)
    \<and> dkeys (kb_okb_indexes u) = OKB_INDEX_MODES"
proof -
  have "kb_wf u" by (rule kb_whole.reach_inv [OF _ assms(2)]) (use assms(1) in blast)
  then show ?thesis unfolding kb_wf_def kb_sequences_def by blast
qed

theorem kb_store_invariant_witness:
  "\<exists>s. kb_init (demo_kp []) (Some ''memory'') (Some 60) demo_kb_obs = Inr s \<and> dkeys (kb_okb_indexes (reset_okb_index_runtime_state s)) = OKB_INDEX_MODES"
proof -
  obtain s where s: "kb_init (demo_kp []) (Some ''memory'') (Some 60) demo_kb_obs = Inr s" by (simp add: kb_init_def Let_def)
  with kb_store_invariant [OF s r_into_rtranclp [of "kb_service_step (demo_kp [])", OF kb_service_step.store [OF kb_step.restart]]] show ?thesis by blast
qed

section \<open>Inserting a record\<close>

lemma sync_records [simp]: "kb_records (okb_sync_index_scope kp now t p reason s) = kb_records s"
  "kb_storage_mode (okb_sync_index_scope kp now t p reason s) = kb_storage_mode s"
  by (simp_all add: okb_sync_index_scope_def)


definition demo_lineage :: model_lineage where
  "demo_lineage = \<lparr>ml_model_version = [], ml_training_set_hash = [], ml_evaluation_bundle_hash = [], ml_promotion_policy_version = [],
     ml_promotion_outcome = []\<rparr>"

definition demo_provenance :: record_provenance where
  "demo_provenance = \<lparr>rp_compiler_ref = [], rp_optimizer_ref = [], rp_runtime_ref = [], rp_checkpoint_ref = []\<rparr>"

definition demo_record :: knowledge_record where
  "demo_record =
     \<lparr>kr_record_id = ''r1'', kr_job_id = ''j1'', kr_circuit_id = [], kr_artifact_ref = [], kr_dataset_ref = [], kr_backend_profile = [],
      kr_optimizer_version = [], kr_qubit_count = 3, kr_entanglement_score = ''0.0'', kr_noise_profile_id = [], kr_backend_class = [],
      kr_created_at = (5, 0), kr_provenance = demo_provenance, kr_attributes = [], kr_lineage = demo_lineage\<rparr>"

definition demo_filed :: stored_record where
  "demo_filed =
     \<lparr>sr_record = demo_record, sr_tenant_id = ''a'', sr_project_id = ''p'', sr_capability_scope = [], sr_created_at = 5000000,
      sr_updated_at = 5000000, sr_fingerprint = ''00'', sr_sequence = 1\<rparr>"

definition demo_kb_record :: kb_state where
  "demo_kb_record = demo_kb\<lparr>kb_records := [(''r1'', demo_filed)], kb_sequence := 1\<rparr>"

definition demo_args :: upsert_args where
  "demo_args = \<lparr>ua_tenant_id = ''b'', ua_project_id = ''p'', ua_allow_overwrite = True, ua_anonymize = False, ua_source = ''rpc'',
     ua_replay_bundle_ref = ''kb://replay/r1'', ua_scope = [''x'']\<rparr>"


section \<open>Cursors\<close>

text \<open>A digest as \<open>hexdigest\<close> writes it.\<close>

definition hex_text :: "string \<Rightarrow> bool" where
  "hex_text s \<longleftrightarrow> list_all (\<lambda>c. c \<in> set ''0123456789abcdef'') s"

lemma hex_text_facts: assumes "hex_text s" shows "printable s" "CHR '':'' \<notin> set s"
proof -
  have "set s \<subseteq> set ''0123456789abcdef''" using assms unfolding hex_text_def list_all_iff by blast
  moreover have "\<forall>c\<in>set ''0123456789abcdef''. 32 \<le> ord c \<and> ord c \<le> 126 \<and> c \<noteq> CHR '':''" by simp
  ultimately show "printable s" "CHR '':'' \<notin> set s" unfolding printable_def list_all_iff by blast+
qed

text \<open>\<open>int\<close> reads at most this many digits.\<close>

definition int_digit_limit :: nat where
  "int_digit_limit = 4300"

lemma show_nat_length: "n < 10 ^ k \<Longrightarrow> 0 < k \<Longrightarrow> length (show_nat n) \<le> k"
proof (induction k arbitrary: n)
  case (Suc k)
  show ?case
  proof (cases "n < 10")
    case False
    then have "0 < k" using Suc.prems by (cases k) auto
    moreover have "n div 10 < 10 ^ k" using Suc.prems(1) by (simp add: div_less_iff_less_mult mult.commute)
    ultimately show ?thesis using Suc.IH [of "n div 10"] False by (subst show_nat.simps) simp
  qed (subst show_nat.simps, simp)
qed simp

lemma show_int_no_colon: "0 \<le> i \<Longrightarrow> CHR '':'' \<notin> set (show_int i)"
  using show_nat_digits [of "nat i"] by (auto simp: show_int_def list_all_iff is_digit_def)

lemma split4_cursor:
  assumes "CHR '':'' \<notin> set a" "CHR '':'' \<notin> set b" "CHR '':'' \<notin> set c" "CHR '':'' \<notin> set d"
  shows "split4 (a @ '':'' @ b @ '':'' @ c @ '':'' @ d) = Some (a, b, c, d)"
  using py_split_append [OF assms(1), of "b @ CHR '':'' # c @ CHR '':'' # d"] py_split_append [OF assms(2), of "c @ CHR '':'' # d"]
    py_split_append [OF assms(3), of d] py_split_absent [OF assms(4)]
  by (simp add: split4_def)

lemma cursor_resumes:
  assumes "decodes_ascii (kp_sec kp)" "hex_text sig" "printable kind" "CHR '':'' \<notin> set kind" "0 \<le> n" "n < 10 ^ int_digit_limit"
  shows "kb_encode_cursor kind sig n True \<noteq> []" "cursor_offset kp kind' sig' (kb_encode_cursor kind sig n True) = (if kind' = kind \<and> sig' = sig then Some n else None)"
proof -
  let ?raw = "''v1'' @ '':'' @ kind @ '':'' @ sig @ '':'' @ show_int n"
  have "nat n < 10 ^ int_digit_limit" using assms(5,6) by (simp add: nat_less_iff)
  then have "length (show_nat (nat n)) \<le> 4300" using show_nat_length [of "nat n" int_digit_limit] int_digit_limit_def by linarith
  then have "py_int (show_int n) = Some n" using py_int_show_nat [of "nat n"] assms(5) by (simp add: show_int_def)
  moreover have "printable ?raw" using assms(3) hex_text_facts(1) [OF assms(2)] printable_show_int [of n]
    by (simp add: printable_def)
  then have "se_decode (kp_sec kp) ?raw = Some ?raw" using assms(1) unfolding decodes_ascii_def by blast
  moreover have "split4 ?raw = Some (''v1'', kind, sig, show_int n)"
    by (rule split4_cursor) (use assms(4,5) hex_text_facts(2) [OF assms(2)] show_int_no_colon in simp_all)
  moreover have "b64url_decode (kb_encode_cursor kind sig n True) = Some ?raw" by (simp add: kb_encode_cursor_def b64url_roundtrip)
  ultimately show "cursor_offset kp kind' sig' (kb_encode_cursor kind sig n True) = (if kind' = kind \<and> sig' = sig then Some n else None)"
    using assms(5) by (auto simp: cursor_offset_def)
  have "b64url_decode [] = Some []" by code_simp
  then show "kb_encode_cursor kind sig n True \<noteq> []" using \<open>b64url_decode _ = Some ?raw\<close> by (metis append_is_Nil_conv list.distinct(1) option.inject)
qed

section \<open>Pages of records\<close>

text \<open>The store as retention leaves it for a reader.\<close>

definition retained :: "int \<Rightarrow> kb_state \<Rightarrow> kb_state" where
  "retained now s = s\<lparr>kb_records := filter (\<lambda>(_, x). now - kb_retention_seconds s * 1000000 \<le> sr_created_at x) (kb_records s)\<rparr>"

lemma rebuild_records [simp]: "kb_records (fst (rebuild_indexes_locked kp now t p reason s)) = kb_records s"
  using rebuild_same_store [of s kp now t p reason] by (simp add: same_store_def)

lemma gc_records: "gc_locked kp now s = (u, Inr ()) \<Longrightarrow> kb_records u = kb_records (retained now s)"
  by (auto simp: gc_locked_def gc_primary_def retained_def Let_def split: sum.splits if_splits)

definition reads_as :: "kb_state \<Rightarrow> kb_state \<Rightarrow> bool" where
  "reads_as s u \<longleftrightarrow> kb_records u = kb_records s \<and> kb_retention_seconds u = kb_retention_seconds s"

lemma write_reads [simp]: "reads_as s (fst (kb_write_event event u)) = reads_as s u"
  by (simp add: kb_write_event_def reads_as_def split: sum.split)

lemma authz_reads: "reads_as s s \<Longrightarrow> reads_as s (fst (kb_enforce_authz kp call perm s))"
  by (auto simp: kb_enforce_authz_def kb_decide_authz_def Let_def intro!: kb_then_inv [where P = "reads_as s"] split: sum.split prod.split)

lemma access_reads:
  assumes "require_access kp now call perm operation s = (u, res)" shows "reads_as s u"
proof -
  have "reads_as s (fst (kb_enforce_authz kp call perm s))" by (rule authz_reads) (simp add: reads_as_def)
  then have "reads_as s (fst (require_access kp now call perm operation s))"
    unfolding require_access_def
    by (auto simp: reads_as_def abort_storage_unavailable_def kb_then_def split: sum.splits prod.splits)
  with assms show ?thesis by simp
qed

lemma abort_fails: "lift_rpc (abort_with_error_info st msg reason domain md) \<noteq> Inr x"
  by (simp add: lift_rpc_def abort_with_error_info_def abort_public_def Let_def)

lemma cursor_nonneg: "cursor_offset kp kind sig token = Some offset \<Longrightarrow> 0 \<le> offset"
  by (auto simp: cursor_offset_def bind_eq_Some_conv split: if_splits)

lemma decode_cursor_Inr:
  "kb_decode_cursor kp kind sig token s = (u, Inr offset) \<Longrightarrow>
     0 \<le> offset \<and> (if token = [] then offset = 0 else cursor_offset kp kind sig token = Some offset)"
  by (auto simp: kb_decode_cursor_def cursor_nonneg abort_fails split: if_splits option.splits)

lemma query_page_Inr:
  assumes "query_page kp now call e operation kind fp listing requested token s = (u, Inr (page, next))"
  shows "\<exists>env v offset. normalize_envelope kp call e = Inr env \<and> kb_records v = kb_records (retained now s) \<and> 0 \<le> offset
    \<and> (if token = [] then offset = 0 else cursor_offset kp kind (query_signature kp env fp kind) token = Some offset)
    \<and> page = page_window offset (page_size_of requested) (listing env v)
    \<and> next = kb_encode_cursor kind (query_signature kp env fp kind) (offset + page_size_of requested)
        (offset + page_size_of requested < int (length (listing env v)))"
proof -
  obtain v w w' env offset where v: "require_read kp now call operation s = (v, Inr ())" "normalize_envelope kp call e = Inr env"
      "gc_locked kp now v = (w, Inr ())" "kb_decode_cursor kp kind (query_signature kp env fp kind) token w = (w', Inr offset)"
    and page: "page = page_window offset (page_size_of requested) (listing env w)"
      "next = kb_encode_cursor kind (query_signature kp env fp kind) (offset + page_size_of requested) (offset + page_size_of requested < int (length (listing env w)))"
    using assms by (auto simp: query_page_def kb_then_Inr Let_def)
  have "reads_as s v" using access_reads v(1) unfolding require_read_def by blast
  then have "kb_records w = kb_records (retained now s)" using gc_records [OF v(3)] by (simp add: reads_as_def retained_def)
  then show ?thesis using v page decode_cursor_Inr [OF v(4)] by blast
qed

lemma listing_records: "kb_records v = kb_records w \<Longrightarrow> record_listing kp now env f v = record_listing kp now env f w"
  by (simp add: record_listing_def)

lemma listing_length: "length (record_listing kp now env f (retained now s)) \<le> length (kb_records s)"
proof -
  have "length (record_listing kp now env f (retained now s)) \<le> length (dvalues (kb_records (retained now s)))" by (simp add: record_listing_def)
  also have "\<dots> \<le> length (kb_records s)" by (simp add: retained_def)
  finally show ?thesis .
qed


definition demo_filter :: query_filter where
  "demo_filter =
     \<lparr>qf_trace_id = [], qf_model_version = [], qf_min_qubit_count = 0, qf_max_qubit_count = 0, qf_min_entanglement_score = ''0.0'',
      qf_max_entanglement_score = ''0.0'', qf_noise_profile_id = [], qf_backend_class = [], qf_optimizer_version = [],
      qf_created_after = None, qf_created_before = None\<rparr>"

definition demo_envelope :: contract_envelope where
  "demo_envelope =
     \<lparr>ce_contract_version = ''1.0.0'', ce_request = \<lparr>rq_contract_version = [], rq_request_id = ''q'', rq_traceparent = [], rq_tenant_id = ''a'',
        rq_project_id = ''p'', rq_client_version = [], rq_bytes = []\<rparr>\<rparr>"

lemma demo_access: "require_access (demo_kp []) 0 demo_call perm operation demo_kb_record = (demo_kb_record, Inr ())"
proof -
  have "enforce_authn (demo_sec []) 0 demo_call (''KnowledgeBaseService.'' @ operation) = Inr ()"
    "kb_enforce_authz (demo_kp []) demo_call perm demo_kb_record = (demo_kb_record, Inr ())"
    by (simp_all only: enforce_authn_def kb_enforce_authz_def demo_kp_sec demo_cfg_loaded Let_def) (simp_all add: demo_cfg_def AUTH_ALLOW_ALL_def)
  then show ?thesis by (simp add: require_access_def lift_sec_def demo_kb_record_def demo_kb_def)
qed

lemma demo_gc_record: "gc_locked (demo_kp []) 0 demo_kb_record = (demo_kb_record, Inr ())"
  by (simp add: gc_locked_def gc_primary_def demo_kb_record_def demo_kb_def demo_filed_def Let_def)

lemma demo_normalized: "\<exists>env. normalize_envelope (demo_kp []) demo_call demo_envelope = Inr env"
proof -
  have "contract_version_from_envelope demo_envelope = ''1.0.0''" by code_simp
  then show ?thesis by (simp add: normalize_envelope_def KB_CONTRACT_VERSION_def Let_def split: prod.split)
qed

lemma demo_reads: "\<exists>u page token. QueryRecords (demo_kp []) 0 demo_call demo_envelope demo_filter 1 [] demo_kb_record = (u, Inr (page, token))"
proof -
  obtain ctx where "retrieval_security_context (demo_kp []) (Some demo_call) ''query_records'' = Inr (ctx, ''1.0.0'')" using demo_context by blast
  moreover obtain env where "normalize_envelope (demo_kp []) demo_call demo_envelope = Inr env" using demo_normalized by blast
  moreover have "ko_writable (kb_obs demo_kb_record)" by (simp add: demo_kb_record_def demo_kb_def demo_kb_obs_def)
  ultimately show ?thesis
    by (simp add: QueryRecords_def query_page_def require_read_def demo_access demo_gc_record kb_decode_cursor_def kb_audit_def audit_retrieval_def
      kb_audit_event_def Let_def)
qed


end
