(* ===== verification/KbCandidateProperties.thy ===== *)
theory KbCandidateProperties
  imports KbCandidates KbStoreProperties
begin

text \<open>The properties of the query for optimisation candidates: which sources it considers, and how it ranks them.\<close>

section \<open>The pool\<close>

lemma source_spec_Some:
  assumes "source_spec q requested s i = Some c"
  shows "(\<exists>e\<in>set (dvalues (kb_records s)). in_scope_record (oq_tenant_id q) (oq_project_id q) e
      \<and> scope_fits q (sr_capability_scope e) requested \<and> c = record_spec q e)
    \<or> (\<exists>e\<in>set (kb_decision_logs s). in_scope_decision (oq_tenant_id q) (oq_project_id q) e
      \<and> scope_fits q (sd_capability_scope e) requested \<and> c = decision_spec q e)"
proof (cases "py_startswith i ''record:''")
  case True
  then obtain e where "dget (kb_records s) (drop 7 i) = Some e" "in_scope_record (oq_tenant_id q) (oq_project_id q) e"
      "scope_fits q (sr_capability_scope e) requested" "c = record_spec q e"
    using assms by (auto simp: source_spec_def split: option.splits if_splits)
  moreover from this(1) have "e \<in> set (dvalues (kb_records s))" by (force dest: map_of_SomeD)
  ultimately show ?thesis by blast
next
  case False
  then show ?thesis using assms by (auto simp: source_spec_def find_Some_iff split: if_splits)
qed

lemma build_candidate_Inr:
  "build_candidate kp sp q c = Inr d \<Longrightarrow>
     cd_candidate_id d = cs_candidate_id c \<and> cd_structural_score d = structural_score q c
     \<and> cd_score_total d = score_of sp (oq_query_mode q) (structural_score q c) (cd_vector_score d)"
  by (auto simp: build_candidate_def rbind_eq_Inr Let_def)

lemma candidate_pool_Inr:
  assumes "okb_candidate_pool kp sp q s = Inr pool" "d \<in> set pool"
  shows "0 < cd_score_total d \<and> (\<exists>i\<in>set (pool_sources q s). \<exists>c.
    source_spec q (okb_filter_scope_tokens (oq_capability_scope q) (oq_backend_profile_id q)) s i = Some c \<and> build_candidate kp sp q c = Inr d)"
proof -
  let ?requested = "okb_filter_scope_tokens (oq_capability_scope q) (oq_backend_profile_id q)"
  obtain ds where ds: "rmap (build_candidate kp sp q) (List.map_filter (source_spec q ?requested s) (pool_sources q s)) = Inr ds" "d \<in> set ds" "0 < cd_score_total d"
    using assms by (auto simp: okb_candidate_pool_def Let_def rbind_eq_Inr)
  obtain c where "c \<in> set (List.map_filter (source_spec q ?requested s) (pool_sources q s))" "build_candidate kp sp q c = Inr d"
    using rmap_source [OF ds(1,2)] by blast
  with ds(3) show ?thesis by (auto simp: List.map_filter_def) blast
qed

text \<open>Every record of the scope that fits the query and has a score is in the pool.\<close>

lemma rmap_target: "rmap f xs = Inr ys \<Longrightarrow> x \<in> set xs \<Longrightarrow> \<exists>y\<in>set ys. f x = Inr y"
  by (induction xs arbitrary: ys) (auto simp: rbind_eq_Inr)

lemma scope_within_refl: "scope_within r r"
  by (simp add: scope_within_def)

lemma pool_has_source:
  assumes "okb_candidate_pool kp sp q s = Inr pool" "i \<in> set (pool_sources q s)"
    "source_spec q (okb_filter_scope_tokens (oq_capability_scope q) (oq_backend_profile_id q)) s i = Some c"
  shows "\<exists>d. build_candidate kp sp q c = Inr d \<and> (0 < cd_score_total d \<longrightarrow> d \<in> set pool)"
proof -
  let ?requested = "okb_filter_scope_tokens (oq_capability_scope q) (oq_backend_profile_id q)"
  obtain ds where ds: "rmap (build_candidate kp sp q) (List.map_filter (source_spec q ?requested s) (pool_sources q s)) = Inr ds"
    "pool = filter (\<lambda>d. 0 < cd_score_total d \<and> scope_within (okb_filter_scope_tokens (cd_capability_scope d) (oq_backend_profile_id q)) ?requested) ds"
    using assms(1) by (auto simp: okb_candidate_pool_def Let_def rbind_eq_Inr)
  have "c \<in> set (List.map_filter (source_spec q ?requested s) (pool_sources q s))"
    using assms(2,3) by (auto simp: List.map_filter_def intro!: image_eqI [of _ _ i])
  then obtain d where d: "d \<in> set ds" "build_candidate kp sp q c = Inr d" using rmap_target [OF ds(1)] by blast
  moreover from d(2) have "cd_capability_scope d = oq_capability_scope q" by (auto simp: build_candidate_def rbind_eq_Inr Let_def)
  ultimately show ?thesis using ds(2) scope_within_refl by auto
qed

lemma sources_for_mode:
  assumes "kb_wf s" "okb_overall_status kp s (Some t) (Some p) = IndexReady"
  shows "set (okb_index_sources_for_mode s mode (okb_scope_key t p)) = set (scope_sources s t p)"
proof -
  have keys: "dkeys (kb_okb_indexes s) = [''structural'', ''vector'']" using assms(1) by (simp add: kb_wf_def OKB_INDEX_MODES_def)
  have *: "\<exists>shard. dget (kb_okb_indexes s) m = Some shard \<and> set (dget_or (ix_scope_entries shard) (okb_scope_key t p) []) = set (scope_sources s t p)"
    if "m \<in> {''structural'', ''vector''}" for m
  proof -
    have "m \<in> set (dkeys (kb_okb_indexes s))" using keys that by auto
    then obtain shard where "dget (kb_okb_indexes s) m = Some shard" by (metis dhas_iff dhas_def not_None_eq)
    moreover from ready_entries [OF assms(2) this]
    have "mset (dget_or (ix_scope_entries shard) (okb_scope_key t p) []) = mset (scope_sources s t p)" using mset_expected by simp
    ultimately show ?thesis using mset_eq_setD by blast
  qed
  obtain a b where a: "dget (kb_okb_indexes s) ''structural'' = Some a" "set (dget_or (ix_scope_entries a) (okb_scope_key t p) []) = set (scope_sources s t p)"
    and b: "dget (kb_okb_indexes s) ''vector'' = Some b" "set (dget_or (ix_scope_entries b) (okb_scope_key t p) []) = set (scope_sources s t p)"
    using * [of "''structural''"] * [of "''vector''"] by auto
  have merge: "set (foldl (\<lambda>m x. if x \<in> set m then m else m @ [x]) acc xs) = set acc \<union> set xs" for acc xs :: "string list"
    by (induction xs arbitrary: acc) auto
  show ?thesis using a b merge by (auto simp: okb_index_sources_for_mode_def Let_def)
qed

lemma pool_sources_all:
  assumes "kb_wf s" "okb_overall_status kp s (Some (oq_tenant_id q)) (Some (oq_project_id q)) = IndexReady"
  shows "set (pool_sources q s) = set (scope_sources s (oq_tenant_id q) (oq_project_id q))"
proof (cases "okb_index_sources_for_mode s (oq_query_mode q) (okb_scope_key (oq_tenant_id q) (oq_project_id q)) = []")
  case True
  then show ?thesis by (simp add: pool_sources_def scope_sources_def)
next
  case False
  then show ?thesis using sources_for_mode [OF assms] by (simp add: pool_sources_def)
qed

section \<open>The ranking\<close>

lemma sorted_split:
  assumes "sorted (map f xs)" "x \<in> set (take n xs)" "y \<in> set (drop n xs)"
  shows "f x \<le> f y"
proof -
  have "sorted (map f (take n xs) @ map f (drop n xs))" using assms(1) by (simp flip: map_append)
  then show ?thesis using assms(2,3) by (auto simp: sorted_append)
qed

lemma candidates_Inr:
  assumes "query_optimization_candidates kp sp now payload call s = (u, Inr r)"
  shows "call \<noteq> None \<and> kb_storage_mode s \<noteq> ''disabled'' \<and> (\<exists>q v pool. normalize_okb_query kp payload = Inr q \<and> gc_locked kp now s = (v, Inr ())
    \<and> u = fst (okb_ensure_indexes_ready kp now (oq_tenant_id q) (oq_project_id q) v) \<and> okb_candidate_pool kp sp q u = Inr pool
    \<and> r = candidate_page_of kp q pool (describe_index_health kp u (Some (oq_tenant_id q)) (Some (oq_project_id q))))"
  using assms by (auto simp: query_optimization_candidates_def storage_unavailable_def kb_then_Inr Let_def retrieval_security_context_def fail_closed_def
    split: if_splits option.splits)

lemma budget_bounds: "normalize_okb_query kp payload = Inr q \<Longrightarrow> 1 \<le> oq_candidate_budget q \<and> oq_candidate_budget q \<le> 8"
  by (auto simp: normalize_okb_query_def Let_def rbind_eq_Inr OKB_MAX_CANDIDATES_def split: if_splits)

lemma structural_score_bounds: "0 \<le> structural_score q c \<and> structural_score q c \<le> 1000000"
  by (simp add: structural_score_def Let_def)

text \<open>Where a candidate comes from.\<close>

definition from_scope :: "kb_state \<Rightarrow> okb_query \<Rightarrow> candidate \<Rightarrow> bool" where
  "from_scope s q d \<longleftrightarrow>
     (\<exists>e\<in>set (dvalues (kb_records s)). in_scope_record (oq_tenant_id q) (oq_project_id q) e \<and> cd_candidate_id d = ''okb-record-'' @ kr_record_id (sr_record e))
     \<or> (\<exists>e\<in>set (kb_decision_logs s). in_scope_decision (oq_tenant_id q) (oq_project_id q) e \<and> cd_candidate_id d = ''okb-decision-'' @ dl_decision_id (sd_decision_log e))"

lemma pool_from_scope:
  assumes "okb_candidate_pool kp sp q s = Inr pool" "d \<in> set pool"
  shows "from_scope s q d"
proof -
  obtain i c where "source_spec q (okb_filter_scope_tokens (oq_capability_scope q) (oq_backend_profile_id q)) s i = Some c" "build_candidate kp sp q c = Inr d"
    using candidate_pool_Inr [OF assms] by blast
  then show ?thesis using source_spec_Some build_candidate_Inr unfolding from_scope_def
    by (fastforce simp: record_spec_def decision_spec_def Let_def)
qed

text \<open>C38. The answer to a query for candidates is the head of a ranking: between none and the budget of the query, which is at most
  eight, ordered by score, then confidence, then identifier; whatever is left out of the pool ranks no better; the first is the
  selected one. Every candidate is a record or decision of the tenant and project of the query and has a positive score, in structural
  mode one of at most 1. Without a security context there is no answer.\<close>

theorem candidates_ranked:
  assumes "query_optimization_candidates kp sp now payload call s = (u, Inr r)"
  shows "call \<noteq> None \<and> (\<exists>q pool rest. normalize_okb_query kp payload = Inr q \<and> okb_candidate_pool kp sp q u = Inr pool
      \<and> oq_candidate_budget q \<le> 8 \<and> length (cp_candidates r) = min (nat (oq_candidate_budget q)) (length pool)
      \<and> sorted (map (\<lambda>c. candidate_rank (fst c)) (cp_candidates r))
      \<and> mset (map fst (cp_candidates r)) + mset rest = mset pool
      \<and> (\<forall>c\<in>set (cp_candidates r). \<forall>d\<in>set rest. candidate_rank (fst c) \<le> candidate_rank d)
      \<and> (\<forall>c\<in>set (cp_candidates r). 0 < cd_score_total (fst c) \<and> from_scope u q (fst c)
           \<and> (oq_query_mode q = ''structural'' \<longrightarrow> cd_score_total (fst c) \<le> 1000000)
           \<and> (snd c \<longleftrightarrow> cd_candidate_id (fst c) = cp_selected_candidate_id r))
      \<and> (cp_candidates r \<noteq> [] \<longrightarrow> snd (hd (cp_candidates r))))"
proof -
  obtain q pool where q: "call \<noteq> None" "normalize_okb_query kp payload = Inr q" "okb_candidate_pool kp sp q u = Inr pool"
      "r = candidate_page_of kp q pool (describe_index_health kp u (Some (oq_tenant_id q)) (Some (oq_project_id q)))"
    using candidates_Inr [OF assms] by blast
  let ?n = "nat (oq_candidate_budget q)" and ?s = "sort_key candidate_rank pool"
  have cands: "map fst (cp_candidates r) = take ?n ?s" "\<forall>c\<in>set (cp_candidates r). snd c = (cd_candidate_id (fst c) = cp_selected_candidate_id r)"
    "cp_candidates r \<noteq> [] \<longrightarrow> snd (hd (cp_candidates r))"
    using q(4) by (cases "take ?n ?s"; auto simp: candidate_page_of_def Let_def comp_def)+
  have mem: "fst ` set (cp_candidates r) = set (take ?n ?s)" using cands(1) by (metis set_map)
  have sub: "set (take ?n ?s) \<subseteq> set pool" using set_take_subset [of ?n ?s] by simp
  have "0 < cd_score_total d \<and> from_scope u q d \<and> (oq_query_mode q = ''structural'' \<longrightarrow> cd_score_total d \<le> 1000000)" if "d \<in> set pool" for d
    using candidate_pool_Inr [OF q(3) that] pool_from_scope [OF q(3) that] build_candidate_Inr structural_score_bounds
    by (auto simp: score_of_def)
  then have good: "\<forall>c\<in>set (cp_candidates r). 0 < cd_score_total (fst c) \<and> from_scope u q (fst c)
      \<and> (oq_query_mode q = ''structural'' \<longrightarrow> cd_score_total (fst c) \<le> 1000000)"
    using mem sub by blast
  have split: "\<forall>c\<in>set (cp_candidates r). \<forall>d\<in>set (drop ?n ?s). candidate_rank (fst c) \<le> candidate_rank d"
    using sorted_split [of candidate_rank ?s _ ?n] mem by (metis imageI sorted_sort_key)
  have msets: "mset (map fst (cp_candidates r)) + mset (drop ?n ?s) = mset pool"
    unfolding cands(1) by (metis append_take_drop_id mset_append mset_sort)
  have sorted: "sorted (map (\<lambda>c. candidate_rank (fst c)) (cp_candidates r))"
  proof -
    have "map (\<lambda>c. candidate_rank (fst c)) (cp_candidates r) = take ?n (map candidate_rank ?s)"
      using cands(1) by (metis (no_types, lifting) comp_def list.map_comp map_eq_conv take_map)
    then show ?thesis by (simp add: sorted_wrt_take)
  qed
  have "length (cp_candidates r) = min ?n (length pool)" using arg_cong [OF cands(1), of length] by (simp add: min.commute)
  then show ?thesis using q(1,2,3) budget_bounds [OF q(2)] sorted msets split good cands(2,3) by blast
qed

section \<open>Completeness\<close>

lemma spec_of_record:
  assumes "kb_wf s" "(k, e) \<in> set (kb_records s)" "in_scope_record (oq_tenant_id q) (oq_project_id q) e" "scope_fits q (sr_capability_scope e) requested"
  shows "source_spec q requested s (''record:'' @ kr_record_id (sr_record e)) = Some (record_spec q e)"
proof -
  have k: "kr_record_id (sr_record e) = k" "wf_dict (kb_records s)" using assms(1,2) by (auto simp: kb_wf_def)
  then have "dget (kb_records s) k = Some e" using assms(2) by simp
  then show ?thesis using assms(3,4) k(1) by (simp add: source_spec_def)
qed

text \<open>C15. No record is overlooked: for a tenant whose name holds no separator, in a well-formed store, every record of the scope that fits
  the capabilities of the query is turned into a candidate, and one with a positive score is either in the answer or ranks no better
  than everything in it. The indexes are ready when they are read, whatever state they were in before.\<close>

theorem candidates_complete:
  assumes "query_optimization_candidates kp sp now payload call s = (u, Inr r)" "kb_wf s"
    and "normalize_okb_query kp payload = Inr q" "clean_tenant (oq_tenant_id q)"
    and "(k, e) \<in> set (kb_records u)" "in_scope_record (oq_tenant_id q) (oq_project_id q) e"
    and "scope_fits q (sr_capability_scope e) (okb_filter_scope_tokens (oq_capability_scope q) (oq_backend_profile_id q))"
  shows "ih_overall_status (cp_index_status r) = IndexReady \<and> (\<exists>d. build_candidate kp sp q (record_spec q e) = Inr d
    \<and> (0 < cd_score_total d \<longrightarrow> d \<in> fst ` set (cp_candidates r) \<or> (\<forall>c\<in>set (cp_candidates r). candidate_rank (fst c) \<le> candidate_rank d)))"
proof -
  let ?t = "oq_tenant_id q" and ?p = "oq_project_id q"
  obtain v pool where v: "kb_storage_mode s \<noteq> ''disabled''" "gc_locked kp now s = (v, Inr ())" "u = fst (okb_ensure_indexes_ready kp now ?t ?p v)"
      "okb_candidate_pool kp sp q u = Inr pool" "r = candidate_page_of kp q pool (describe_index_health kp u (Some ?t) (Some ?p))"
    using candidates_Inr [OF assms(1)] assms(3) by auto
  have wf: "kb_wf u" using kb_wf_gc [OF assms(2), of kp now] v(2,3) by (simp add: kb_wf_ensure)
  have "kb_storage_mode v \<noteq> ''disabled''" using gc_config(1) [of kp now s] v(1,2) by simp
  then have "okb_overall_status kp u (Some ?t) (Some ?p) = IndexReady"
    using ensure_ready [OF assms(4), of v kp now ?p] v(3)
    by (auto simp: okb_ensure_indexes_ready_def Let_def split: if_splits)
  note ready = this
  have "''record:'' @ kr_record_id (sr_record e) \<in> set (pool_sources q u)"
    unfolding pool_sources_all [OF wf ready] using assms(5,6) by (auto simp: scope_sources_def intro!: image_eqI [of _ _ e] image_eqI [of _ _ "(k, e)"])
  from pool_has_source [OF v(4) this spec_of_record [OF wf assms(5,6,7)]]
  obtain d where d: "build_candidate kp sp q (record_spec q e) = Inr d" "0 < cd_score_total d \<longrightarrow> d \<in> set pool" by blast
  let ?n = "nat (oq_candidate_budget q)" and ?s = "sort_key candidate_rank pool"
  have cands: "fst ` set (cp_candidates r) = set (take ?n ?s)" using v(5) by (simp add: candidate_page_of_def Let_def image_image)
  have "d \<in> set (take ?n ?s) \<or> (\<forall>c\<in>set (take ?n ?s). candidate_rank c \<le> candidate_rank d)" if "d \<in> set pool"
  proof -
    have "d \<in> set (take ?n ?s) \<union> set (drop ?n ?s)" using that by (metis append_take_drop_id set_append set_sort)
    then show ?thesis using sorted_split [of candidate_rank ?s _ ?n d] by auto
  qed
  then show ?thesis using d ready v(5) cands by (auto simp: candidate_page_of_def Let_def)
qed

section \<open>Witnesses\<close>

definition demo_scores :: score_platform where
  "demo_scores = \<lparr>sc_vector = (\<lambda>n. int n + 250000), sc_hybrid = (\<lambda>a b. (6 * a + 4 * b) div 10), sc_mean = (\<lambda>a b. (a + b) div 2)\<rparr>"

definition demo_candidate_query :: json_dict where
  "demo_candidate_query = [(''tenant_id'', PStr ''a''), (''project_id'', PStr ''p'')]"

lemma rmap_total: "(\<And>x. \<exists>y. f x = Inr y) \<Longrightarrow> \<exists>ys. rmap f xs = Inr ys"
proof (induction xs)
  case (Cons x xs)
  then obtain y ys where "f x = Inr y" "rmap f xs = Inr ys" by blast
  then show ?case by simp
qed simp

lemma demo_builds: "\<exists>d. build_candidate (demo_kp []) demo_scores q c = Inr d"
proof -
  have "vector_score demo_scores (candidate_signature (demo_kp []) q c b) = Inr 250000" for b
    by (simp add: vector_score_def candidate_signature_def stable_digest_def demo_kp_def demo_scores_def hex_val_def Let_def)
  then show ?thesis by (simp add: build_candidate_def Let_def)
qed

lemma demo_pool: "\<exists>pool. okb_candidate_pool (demo_kp []) demo_scores q s = Inr pool"
proof -
  obtain ds where "rmap (build_candidate (demo_kp []) demo_scores q)
      (List.map_filter (source_spec q (okb_filter_scope_tokens (oq_capability_scope q) (oq_backend_profile_id q)) s) (pool_sources q s)) = Inr ds"
    using rmap_total [of "build_candidate (demo_kp []) demo_scores q", OF demo_builds] by blast
  then show ?thesis by (simp add: okb_candidate_pool_def Let_def)
qed

lemma demo_query_normal: "\<exists>q. normalize_okb_query (demo_kp []) demo_candidate_query = Inr q \<and> oq_tenant_id q = ''a'' \<and> oq_project_id q = ''p''
  \<and> okb_filter_scope_tokens (oq_capability_scope q) (oq_backend_profile_id q) = []"
proof -
  have "case normalize_okb_query (demo_kp []) demo_candidate_query of Inl _ \<Rightarrow> False | Inr q \<Rightarrow> oq_tenant_id q = ''a'' \<and> oq_project_id q = ''p''
      \<and> okb_filter_scope_tokens (oq_capability_scope q) (oq_backend_profile_id q) = []" by code_simp
  then show ?thesis by (cases "normalize_okb_query (demo_kp []) demo_candidate_query") auto
qed

lemma demo_candidates_answer:
  "\<exists>u r. query_optimization_candidates (demo_kp []) demo_scores 0 demo_candidate_query (Some demo_call) demo_kb_record = (u, Inr r)"
proof -
  obtain q where q: "normalize_okb_query (demo_kp []) demo_candidate_query = Inr q" using demo_query_normal by blast
  obtain ctx where "retrieval_security_context (demo_kp []) (Some demo_call) ''query_optimization_candidates'' = Inr (ctx, ''1.0.0'')" using demo_context by blast
  moreover obtain pool where "okb_candidate_pool (demo_kp []) demo_scores q (fst (okb_ensure_indexes_ready (demo_kp []) 0 (oq_tenant_id q) (oq_project_id q) demo_kb_record)) = Inr pool"
    using demo_pool by blast
  moreover have "\<not> storage_unavailable demo_kb_record" by (simp add: storage_unavailable_def demo_kb_record_def demo_kb_def)
  ultimately show ?thesis using q by (simp add: query_optimization_candidates_def demo_gc_record Let_def)
qed

theorem candidates_ranked_witness:
  "\<exists>u r. query_optimization_candidates (demo_kp []) demo_scores 0 demo_candidate_query (Some demo_call) demo_kb_record = (u, Inr r)
     \<and> length (cp_candidates r) \<le> 8 \<and> sorted (map (\<lambda>c. candidate_rank (fst c)) (cp_candidates r))"
proof -
  obtain u r where r: "query_optimization_candidates (demo_kp []) demo_scores 0 demo_candidate_query (Some demo_call) demo_kb_record = (u, Inr r)"
    using demo_candidates_answer by blast
  then show ?thesis using candidates_ranked [OF r] by force
qed

theorem candidates_complete_witness:
  "\<exists>u r. query_optimization_candidates (demo_kp []) demo_scores 0 demo_candidate_query (Some demo_call) demo_kb_record = (u, Inr r)
     \<and> ih_overall_status (cp_index_status r) = IndexReady"
proof -
  obtain u r where r: "query_optimization_candidates (demo_kp []) demo_scores 0 demo_candidate_query (Some demo_call) demo_kb_record = (u, Inr r)"
    using demo_candidates_answer by blast
  obtain q where q: "normalize_okb_query (demo_kp []) demo_candidate_query = Inr q" "oq_tenant_id q = ''a''" "oq_project_id q = ''p''"
      "okb_filter_scope_tokens (oq_capability_scope q) (oq_backend_profile_id q) = []"
    using demo_query_normal by blast
  have wf: "kb_wf demo_kb_record"
    by (simp add: kb_wf_def kb_sequences_def demo_kb_record_def demo_kb_def demo_filed_def demo_record_def)
  have clean: "clean_tenant (oq_tenant_id q)" unfolding q(2) by code_simp
  have "u = fst (okb_ensure_indexes_ready (demo_kp []) 0 (oq_tenant_id q) (oq_project_id q) demo_kb_record)"
    using candidates_Inr [OF r] q(1) by (auto simp: demo_gc_record)
  then have "kb_records u = [(''r1'', demo_filed)]"
    using ensure_same_store [of demo_kb_record "demo_kp []" 0 "oq_tenant_id q" "oq_project_id q"] by (simp add: same_store_def demo_kb_record_def)
  then have "(''r1'', demo_filed) \<in> set (kb_records u)" by simp
  from candidates_complete [OF r wf q(1) clean this] r show ?thesis
    by (auto simp: in_scope_record_def demo_filed_def q scope_fits_def scope_equal_def)
qed

end
