(* ===== verification/KbIngestProperties.thy ===== *)
theory KbIngestProperties
  imports KbService KbProperties
begin

text \<open>
  The properties of what the knowledge base ingests: redaction, training datasets, runtime decisions.
\<close>

section \<open>Redaction\<close>

text \<open>Whatever a sensitive key holds is a mask.\<close>

function masked :: "pyval \<Rightarrow> bool" where
  "masked (PDict d) = list_all (\<lambda>(k, v).
     case key_mask k of Some m \<Rightarrow> v = PStr m
     | None \<Rightarrow> if identifier_key k \<and> \<not> is_container v then v = PStr MASKED_IDENTIFIER_VALUE else masked v) d"
| "masked (PList xs) = list_all masked xs"
| "masked (PStr s) = True" | "masked PNone = True" | "masked (PBool b) = True" | "masked (PInt i) = True"
| "masked (PFloat r) = True" | "masked (PComplex r) = True"
  by pat_completeness auto
termination
proof (relation "measure size", simp, goal_cases)
  case (1 d e k v)
  then have "size v \<le> size_list (size_prod (\<lambda>x. 0) size) d" by (intro size_list_estimation' [of "(k, v)"]) auto
  then show ?case by simp
next
  case (2 xs x)
  then have "size x \<le> size_list size xs" by (intro size_list_estimation' [of x]) auto
  then show ?case by simp
qed

lemma redact_container: "is_container (fst (redact_json_value path v)) = is_container v"
  by (cases "(path, v)" rule: redact_json_value.cases) (auto simp: Let_def)

lemma redact_masked: "masked (fst (redact_json_value path v))"
proof (induction path v rule: redact_json_value.induct)
  case (1 path d)
  then show ?case by (fastforce simp: Let_def list_all_iff redact_container split: option.split if_split)
next
  case (2 path xs)
  then show ?case by (fastforce simp: Let_def list_all_iff)
qed (simp_all add: Let_def)

lemma redact_unchanged: "snd (redact_json_value path v) = [] \<Longrightarrow> fst (redact_json_value path v) = v"
proof (induction path v rule: redact_json_value.induct)
  case (1 path d)
  let ?F = "\<lambda>k v. let np = nested_path path k in
           case key_mask k of Some m \<Rightarrow> (PStr m, [np])
           | None \<Rightarrow> if identifier_key k \<and> \<not> is_container v then (PStr MASKED_IDENTIFIER_VALUE, [np]) else redact_json_value np v"
  have quiet: "snd (?F k v) = []" if "(k, v) \<in> set d" for k v
  proof -
    have "\<forall>x\<in>set d. snd (?F (fst x) (snd x)) = []" using "1.prems" by (simp add: case_prod_unfold Let_def comp_def)
    from bspec [OF this that] show ?thesis by (simp only: fst_conv snd_conv)
  qed
  have "fst (?F k v) = v" if kv: "(k, v) \<in> set d" for k v
    using quiet [OF kv] "1.IH" [OF kv refl refl] by (auto simp: Let_def split: option.splits if_splits)
  then have "map (\<lambda>(k, r). (k, fst r)) (map (\<lambda>(k, v). (k, ?F k v)) d) = d" by (auto simp: comp_def intro!: map_idI)
  then show ?case by (simp only: redact_json_value.simps Let_def fst_conv)
next
  case (2 path xs)
  let ?G = "\<lambda>i x. redact_json_value (path @ ''['' @ show_nat i @ '']'') x"
  have quiet: "\<forall>e\<in>set (enumerate 0 xs). snd (?G (fst e) (snd e)) = []" using "2.prems" by (simp add: case_prod_unfold Let_def comp_def)
  have "fst (?G i x) = x" if "(i, x) \<in> set (enumerate 0 xs)" for i x
    using bspec [OF quiet that] "2.IH" [OF that refl] by (simp only: fst_conv snd_conv)
  then have "map (\<lambda>e. fst (?G (fst e) (snd e))) (enumerate 0 xs) = map snd (enumerate 0 xs)" by (intro map_cong) auto
  then show ?case by (simp add: Let_def case_prod_unfold comp_def)
next
  case (3 path s)
  then show ?case by (auto simp: Let_def redact_scalar_text_def split: if_splits)
qed (simp_all add: Let_def)



text \<open>Redaction is not stable and not complete. Redacted text may change when it is redacted again, because a masked number ends a word that
  an address then matches; a dataset redacted once is then refused. And the pattern for telephone numbers runs before the one for
  identifiers: it takes digits out of an identifier, which is no longer recognised and keeps the rest of its characters.\<close>

theorem redaction_not_stable:
  "fst (redact_json_value ''$'' (PStr ''a@b.co1234'')) = PStr ''a@b.co[REDACTED_PHONE]''
   \<and> fst (redact_json_value ''$'' (PStr ''a@b.co[REDACTED_PHONE]'')) = PStr ''[REDACTED_EMAIL][REDACTED_PHONE]''
   \<and> fst (redact_json_value ''$'' (PStr ''123e4567-e89b-12d3-a456-426614174000'')) = PStr ''123e[REDACTED_PHONE]-e89b-12d3-a[REDACTED_PHONE]''
   \<and> fst (redact_json_value ''$'' (PStr ''in 2024'')) = PStr ''in [REDACTED_PHONE]''"
  by code_simp

section \<open>Training datasets\<close>

lemma require_Inr [simp]: "require c e = Inr () \<longleftrightarrow> c"
  by (simp add: require_def)

lemma require_obj_Inr: "require_obj d k msg = Inr o1 \<Longrightarrow> vget d k = PDict o1"
  by (simp add: require_obj_def split: pyval.splits)

lemma check_record_Inr:
  assumes "check_record kp h e = Inr (r, digest)"
  shows "masked (vget r ''payload'') \<and> (\<exists>t. stable_json (vget r ''payload'') = Inr t \<and> kp_sha256 kp t = digest)"
proof -
  obtain d where d: "snd e = PDict d" "\<not> changed_by_redaction (vget d ''payload'')" "vget r ''payload'' = vget d ''payload''"
      "\<exists>t. stable_json (vget d ''payload'') = Inr t \<and> kp_sha256 kp t = digest"
    using assms by (cases e; cases "snd e") (auto simp: check_record_def rbind_eq_Inr Let_def kb_py_def split: sum.splits)
  then have "fst (redact_json_value ''$'' (vget d ''payload'')) = vget d ''payload''" by (simp add: changed_by_redaction_def)
  then show ?thesis using d(3,4) redact_masked by metis
qed

lemma check_records_Inr: "check_records kp h m = Inr rs \<Longrightarrow> rs \<noteq> [] \<and> (\<forall>x\<in>set rs. \<exists>e. check_record kp h e = Inr x)"
proof -
  assume "check_records kp h m = Inr rs"
  then obtain xs where xs: "xs \<noteq> []" "rmap (check_record kp h) (enumerate 0 xs) = Inr rs"
    by (auto simp: check_records_def split: pyval.splits if_splits)
  have "rs \<noteq> []" using rmap_length [OF xs(2)] xs(1) by auto
  moreover have "\<forall>x\<in>set rs. \<exists>e. check_record kp h e = Inr x" using rmap_source [OF xs(2)] by blast
  ultimately show ?thesis by blast
qed

lemma check_manifest_Inr:
  assumes "check_manifest kp caller policy m = Inr c"
  shows "mh_policy_snapshot_version (ck_head c) = policy" "vget (ck_ownership c) ''service_identity'' = PStr caller"
    "digest_without kp ''manifest_digest_sha256'' (normalized_manifest c) = Inr (mh_manifest_digest (ck_head c))" "ck_records c \<noteq> []"
    "\<forall>x\<in>set (ck_records c). \<exists>e. check_record kp (ck_head c) e = Inr x"
proof -
  obtain h own where h: "check_head kp policy m = Inr h" "check_ownership kp caller m = Inr own" "ck_head c = h" "ck_ownership c = own"
      "check_records kp h m = Inr (ck_records c)"
    and digest: "digest_without kp ''manifest_digest_sha256'' (normalized_manifest c) = Inr (mh_manifest_digest (ck_head c))"
    using assms by (auto simp: check_manifest_def rbind_eq_Inr Let_def)
  show "mh_policy_snapshot_version (ck_head c) = policy" unfolding h(3) using h(1) by (auto simp: check_head_def rbind_eq_Inr Let_def)
  show "vget (ck_ownership c) ''service_identity'' = PStr caller" unfolding h(4) using h(2) by (auto simp: check_ownership_def rbind_eq_Inr Let_def)
  show "digest_without kp ''manifest_digest_sha256'' (normalized_manifest c) = Inr (mh_manifest_digest (ck_head c))" by (rule digest)
  show "ck_records c \<noteq> []" "\<forall>x\<in>set (ck_records c). \<exists>e. check_record kp (ck_head c) e = Inr x" using check_records_Inr [OF h(5)] h(3) by auto
qed

lemma file_dataset_version [simp]:
  "stored_version (file_dataset key version d s) key' version' = (if key' = key \<and> version' = version then Some d else stored_version s key' version')"
  by (simp add: stored_version_def file_dataset_def dget_or_def)

lemma ensure_versions_version [simp]: "stored_version (ensure_versions key s) key' version' = stored_version s key' version'"
  by (auto simp: stored_version_def ensure_versions_def dget_or_def split: option.splits)

lemma version_frame [simp]:
  "stored_version (kb_count k h s) key version = stored_version s key version"
  "stored_version (fst (kb_write_event ev s)) key version = stored_version s key version"
  "stored_version (fst (learning_store_evidence kp now a s)) key version = stored_version s key version"
  by (simp_all add: stored_version_def kb_count_def kb_write_event_def learning_store_evidence_def file_evidence_def Let_def split: sum.split)

lemma file_checked_keeps:
  "stored_version s key version = Some e \<Longrightarrow> stored_version (fst (file_checked kp now c digest s)) key version = Some e"
proof -
  assume e: "stored_version s key version = Some e"
  let ?s = "ensure_versions (dataset_key c) s" and ?v = "mh_dataset_version (ck_head c)"
  show ?thesis
  proof (cases "stored_version ?s (dataset_key c) ?v")
    case (Some old)
    then show ?thesis using e by (simp add: file_checked_def Let_def)
  next
    case None
    then have other: "\<not> (key = dataset_key c \<and> version = ?v)" using e by auto
    have "fst (file_checked kp now c digest s) = fst (kb_then (learning_store_evidence kp now (dataset_evidence c digest) ?s) (\<lambda>e s.
            let d = dataset_summary kp now c digest @ [(''evidence_id'', PStr (le_evidence_id e)), (''evidence_ref'', PStr (le_queryable_ref e))] in
            kb_then (kb_write_event (dataset_event c digest) (file_dataset (dataset_key c) ?v d s)) (\<lambda>_ s.
              (kb_count ''learning_datasets'' True s, kb_py (kb_json_copy d)))))"
      using None by (simp add: file_checked_def Let_def)
    also have "stored_version \<dots> key version = Some e"
      unfolding Let_def by (intro kb_then_inv [where P = "\<lambda>u. stored_version u key version = Some e"]) (simp_all add: e other)
    finally show ?thesis .
  qed
qed

text \<open>C39. An ingestion never replaces a dataset: whatever manifest comes, either the state is as it was before, or every version of every
  dataset that retention has kept is stored as it was.\<close>

theorem ingestion_keeps_versions:
  assumes "gc_locked kp now s = (v, Inr ())" "stored_version v key version = Some e"
  shows "fst (ingest_training_dataset kp now manifest caller s) = s
    \<or> stored_version (fst (ingest_training_dataset kp now manifest caller s)) key version = Some e"
  using assms(1) file_checked_keeps [OF assms(2)]
  by (auto simp: ingest_training_dataset_def Let_def kb_then_def split: pyval.split sum.split)

text \<open>A manifest that is accepted, for a platform whose digests are all the same; the texts it digests need not be computed.\<close>

declare raw_text.simps [code del]

definition hex0 :: string where "hex0 = replicate 64 (CHR ''0'')"

definition demo_dataset_kp :: kb_platform where
  "demo_dataset_kp = (demo_kp [(''SYSTEM_API_POLICY_SNAPSHOT_JSON'', ''{}'')])\<lparr>kp_sha256 := \<lambda>_. hex0\<rparr>"

definition demo_manifest :: "string \<Rightarrow> json_dict" where
  "demo_manifest run =
     [(''schema_version'', PStr MANIFEST_SCHEMA), (''contract_version'', PStr KB_CONTRACT_VERSION), (''dataset_id'', PStr ''d''),
      (''dataset_version'', PStr ''1''), (''record_schema_version'', PStr ''r1''), (''tenant_id'', PStr ''t''), (''project_id'', PStr ''p''),
      (''policy_snapshot_version'', PStr ''1.0.0''), (''manifest_digest_sha256'', PStr hex0),
      (''ownership'', PDict [(''service_identity'', PStr ''cli''), (''requested_by'', PStr ''ann''), (''service_role'', PStr ''op'')]),
      (''provenance'', PDict [(''source_ref'', PStr ''s''), (''captured_at'', PStr ''now''), (''signed_by'', PStr ''k''),
         (''signature_algorithm'', PStr ''a''), (''signature'', PStr ''x''), (''source_digest_sha256'', PStr hex0)]),
      (''redaction'', PDict [(''applied'', PBool True), (''validated'', PBool True), (''rules'', PList [PStr ''email'']),
         (''redaction_digest_sha256'', PStr hex0)]),
      (''records'', PList [PDict [(''record_id'', PStr ''r''), (''schema_version'', PStr ''r1''), (''content_digest_sha256'', PStr hex0),
         (''payload'', PDict [(''email'', PStr ''[REDACTED_EMAIL]''), (''run'', PStr run)]),
         (''provenance'', PDict [(''source_ref'', PStr ''s''), (''captured_at'', PStr ''now''), (''requested_by'', PStr ''ann''),
            (''source_digest_sha256'', PStr hex0)]),
         (''redaction'', PDict [(''applied'', PBool True), (''validated'', PBool True), (''rules'', PList []),
            (''redaction_digest_sha256'', PStr hex0)])]])]"

definition demo_dataset :: json_dict where
  "demo_dataset = [(''manifest_digest_sha256'', PStr hex0), (''updated_at'', PStr ''7'')]"

definition demo_kb_dataset :: kb_state where
  "demo_kb_dataset = demo_kb\<lparr>kb_learning_datasets := [((''t'', ''p'', ''d''), [(''1'', demo_dataset)])]\<rparr>"

lemma demo_dataset_gc: "gc_locked demo_dataset_kp 0 demo_kb_dataset = (demo_kb_dataset, Inr ())"
  by (simp add: gc_locked_def gc_primary_def demo_kb_dataset_def demo_kb_def demo_dataset_kp_def demo_kp_def demo_dataset_def dataset_gc_def dataset_time_def
      parse_iso_datetime_def demo_seven Let_def)

lemma demo_policy: "require_explicit_policy_snapshot demo_dataset_kp None ''ingest_training_dataset'' = Inr ''1.0.0''"
proof -
  have "json_loads ''{}'' = Some (PDict [])" "blank ''{}'' = False" "blank [] = True" "py_strip ''1.0.0'' = ''1.0.0''" by (code_simp, code_simp, code_simp, code_simp)
  moreover have "permission_set sp (strs [''default'']) = Inr [''default'']" for sp by (simp add: permission_set_def strs_def) code_simp
  ultimately show ?thesis
    by (simp add: require_explicit_policy_snapshot_def policy_snapshot_configured_def snapshot_version_def load_policy_snapshot_def load_policy_snapshot_cfg_def
        load_security_config_def getenv_def demo_dataset_kp_def demo_kp_def demo_sec_def Let_def snapshot_of_def permission_table_def dget_or_def py_dict_def)
qed

lemma demo_checked:
  "case rbind (kb_py (kb_json_copy (demo_manifest ''x''))) (\<lambda>m. rbind (check_manifest demo_dataset_kp ''cli'' ''1.0.0'' m) (\<lambda>c.
      rbind (dataset_digest demo_dataset_kp c) (\<lambda>d. Inr (c, d)))) of
     Inl e \<Rightarrow> False
   | Inr (c, d) \<Rightarrow> dataset_key c = (''t'', ''p'', ''d'') \<and> mh_dataset_version (ck_head c) = ''1'' \<and> mh_manifest_digest (ck_head c) = hex0"
  by code_simp

lemma demo_accepted:
  "\<exists>u d. ingest_training_dataset demo_dataset_kp 0 (PDict (demo_manifest ''x'')) (Some ''cli'') demo_kb_dataset = (u, Inr d)"
proof -
  obtain m c d where m: "kb_json_copy (demo_manifest ''x'') = Inr m" "check_manifest demo_dataset_kp ''cli'' ''1.0.0'' m = Inr c"
      "dataset_digest demo_dataset_kp c = Inr d" "dataset_key c = (''t'', ''p'', ''d'')" "mh_dataset_version (ck_head c) = ''1''"
      "mh_manifest_digest (ck_head c) = hex0"
    using demo_checked by (auto simp: rbind_eq_Inr kb_py_def split: sum.splits prod.splits)
  have "stored_version demo_kb_dataset (''t'', ''p'', ''d'') ''1'' = Some demo_dataset"
    by (simp add: stored_version_def demo_kb_dataset_def dget_or_def)
  moreover have "\<not> isl (kb_json_copy demo_dataset)" by code_simp
  then have "\<exists>d. kb_json_copy demo_dataset = Inr d" by (cases "kb_json_copy demo_dataset") auto
  moreover have "py_strip ''cli'' = ''cli''" by code_simp
  moreover have "\<not> storage_unavailable demo_kb_dataset" by (simp add: storage_unavailable_def demo_kb_dataset_def demo_kb_def)
  ultimately show ?thesis using m demo_policy demo_dataset_gc
    by (auto simp: ingest_training_dataset_def file_checked_def str_else_def Let_def kb_py_def demo_dataset_def)
qed

theorem ingestion_keeps_versions_witness:
  "stored_version (fst (ingest_training_dataset demo_dataset_kp 0 (PDict (demo_manifest ''x'')) (Some ''cli'') demo_kb_dataset)) (''t'', ''p'', ''d'') ''1''
     = Some demo_dataset"
proof -
  have v: "stored_version demo_kb_dataset (''t'', ''p'', ''d'') ''1'' = Some demo_dataset" by (simp add: stored_version_def demo_kb_dataset_def dget_or_def)
  from ingestion_keeps_versions [OF demo_dataset_gc v, of "PDict (demo_manifest ''x'')" "Some ''cli''"] show ?thesis using v by auto
qed



section \<open>Runtime decisions\<close>

lemma write_event_frame: "kb_write_event ev s = (u, r) \<Longrightarrow> kb_learning_evidence u = kb_learning_evidence s \<and> kb_decision_logs u = kb_decision_logs s
    \<and> kb_anon_epoch u = kb_anon_epoch s"
  by (auto simp: kb_write_event_def Let_def split: sum.splits if_splits prod.splits)

lemma sync_frame [simp]: "kb_learning_evidence (okb_sync_index_scope kp now t p reason s) = kb_learning_evidence s"
  "kb_anon_epoch (okb_sync_index_scope kp now t p reason s) = kb_anon_epoch s"
  "kb_decision_logs (okb_sync_index_scope kp now t p reason s) = kb_decision_logs s"
  by (simp_all add: okb_sync_index_scope_def)

lemma store_decision_frame:
  assumes "store_decision_log kp now t p scope d s = (u, entry)"
  shows "kb_learning_evidence u = kb_learning_evidence s" "kb_anon_epoch u = kb_anon_epoch s" "kb_decision_logs u = kb_decision_logs s @ [entry]"
    "sd_tenant_id entry = t" "sd_project_id entry = p" "dl_decision_id (sd_decision_log entry) = dl_decision_id d"
    "dl_model_version (sd_decision_log entry) = dl_model_version d"
  using assms by (auto simp: store_decision_log_def Let_def)

lemma gc_logs_sub: "set (kb_decision_logs (fst (gc_locked kp now s))) \<subseteq> set (kb_decision_logs s)"
proof -
  have "kb_decision_logs (fst (rebuild_indexes_locked kp now t p reason v)) = kb_decision_logs v" for t p reason v
    using rebuild_same_store [of v kp now t p reason] by (simp add: same_store_def)
  then show ?thesis by (auto simp: gc_locked_def Let_def gc_primary_def split: sum.splits)
qed

lemma ingest_runtime_steps:
  assumes "ingest_runtime_decision kp ig now payload s = (u, Inr i)"
  obtains xe ev d scope1 scope w v x entry y e where "runtime_context_ok (runtime_context_of kp payload)"
    "kb_write_event ev s = (w, Inr ())" "gc_locked kp now w = (v, Inr ())" "dl_decision_id d = i" "dl_model_version d = field_text kp payload ''model_version''"
    "store_decision_log kp now (rx_tenant_id (runtime_context_of kp payload)) (rx_project_id (runtime_context_of kp payload)) scope1 d v = (x, entry)"
    "learning_store_evidence kp now (runtime_evidence kp now payload (payload_envelope_of kp (dset_all
        [(''tenant_id'', PStr (rx_tenant_id (runtime_context_of kp payload))), (''project_id'', PStr (rx_project_id (runtime_context_of kp payload)))] payload))
        scope xe (sd_decision_log entry)) x = (y, Inr e)"
    "u = kb_count ''runtime_decisions'' True y"
proof -
  let ?x = "runtime_context_of kp payload"
  let ?env = "payload_envelope_of kp (dset_all [(''tenant_id'', PStr (rx_tenant_id ?x)), (''project_id'', PStr (rx_project_id ?x))] payload)"
  have env: "pv_tenant_id ?env = rx_tenant_id ?x" "pv_project_id ?env = rx_project_id ?x"
    by (simp_all add: payload_envelope_of_def field_str_def dset_all_def dget_or_def)
  have d: "dl_decision_id (runtime_decision_log kp now payload j sn) = j" "dl_model_version (runtime_decision_log kp now payload j sn) = field_text kp payload ''model_version''" for j sn
    by (simp_all add: runtime_decision_log_def)
  obtain j xe sn scope ev w v y e where j: "kb_py (decision_id_of kp payload) = Inr j" "runtime_context_ok ?x" "kb_write_event ev s = (w, Inr ())"
      "gc_locked kp now w = (v, Inr ())" "u = kb_count ''runtime_decisions'' True y" "i = j"
    and e: "(case store_decision_log kp now (pv_tenant_id ?env) (pv_project_id ?env) (requested_scope_tokens kp payload)
        (runtime_decision_log kp now payload j sn) v of (x, entry) \<Rightarrow>
        learning_store_evidence kp now (runtime_evidence kp now payload ?env scope xe (sd_decision_log entry)) x) = (y, Inr e)"
    using assms unfolding ingest_runtime_decision_def Let_def by (auto simp: kb_then_Inr simp del: kb_py_Inr split: if_splits)
  obtain x entry where st: "store_decision_log kp now (rx_tenant_id ?x) (rx_project_id ?x) (requested_scope_tokens kp payload)
        (runtime_decision_log kp now payload j sn) v = (x, entry)" by fastforce
  show ?thesis by (rule that [OF j(2-4) _ d(2) st _ j(5)]) (use st e env d j(6) in simp_all)
qed


definition demo_ig :: ingest_platform where
  "demo_ig = \<lparr>ig_float = Some, ig_fmt6 = id\<rparr>"

definition demo_runtime :: json_dict where
  "demo_runtime =
     [(''caller_identity'', PStr ''ann''), (''tenant_id'', PStr ''t''), (''project_id'', PStr ''p''), (''policy_version'', PStr ''1''), (''policy_snapshot_version'', PStr ''1''),
      (''auth_mode'', PStr ''mtls''), (''service_identity'', PStr ''svc''), (''retrieval_sources'', PList [PStr ''k'']), (''model_version'', PStr ''m1'')]"

lemma demo_runtime_accepted: "\<not> isl (snd (ingest_runtime_decision (demo_kp []) demo_ig 0 demo_runtime demo_kb))"
  by code_simp


declare raw_text.simps [code]

end
