(* ===== verification/Spec2Isabelle.thy ===== *)
theory Spec2Isabelle
  imports CompilerProperties DriverProperties BenchmarkProperties QfsProperties SecurityProperties JobSpecProperties
    KbCandidateProperties KbIngestProperties
begin

text \<open>
  Verification of the Python services of Eigen OS (\<open>src/src/services\<close>).

  \<^bold>\<open>The program.\<close> Eigen OS takes quantum programs written in a small Python dialect, compiles them to a circuit
  format (AQO, a JSON document) and runs them on drivers. The services modelled here are the compiler
  (\<open>eigen-compiler\<close>), the driver manager with its simulator (\<open>driver-manager\<close>), the benchmark service
  (\<open>benchmark-service\<close>), the system API (\<open>system-api\<close>), which authenticates and authorises callers, normalises job
  specifications and keeps artifacts, and the knowledge base of the neuro-symbolic service
  (\<open>neuro-symbolic-service\<close>), which stores records, decisions and learning evidence and answers queries on them. The
  system API turns a job specification into a submission whose source the compiler compiles; the compiler hands the
  bytes of an AQO document to the driver manager; the benchmark service records runs; the knowledge base ingests runs and
  decisions and authorises its callers with a copy of the system API's \<open>security.py\<close>. Section \<open>Compiler and driver\<close> of
  this theory joins two of them: which compiled circuits the simulator executes.

  \<^bold>\<open>Shared theories.\<close> \<open>Prelude\<close>: results of code that may raise (\<open>rbind\<close>, \<open>rmap\<close>, \<open>rfold\<close>), dictionaries in
  insertion order, and the interfaces as locales: \<open>invariant_system\<close> (a state with operations that keep an
  invariant) and \<open>decides\<close> (a check that reports nothing exactly when its specification holds), with the gate
  the code builds on it. \<open>PyString\<close>, \<open>PyValue\<close>, \<open>PyJson\<close>, \<open>PyBase64\<close>: the parts of Python and its library the
  services use: string methods, \<open>int\<close> of a string, dynamically typed values, \<open>json.dumps\<close> and \<open>json.loads\<close>
  with their round trip (locale \<open>canonical_encoding\<close>), base64 with its round trip.

  \<^bold>\<open>Compiler\<close> (\<open>compiler.py\<close>, \<open>validation.py\<close>, \<open>errors.py\<close>). \<open>Violations\<close>: \<open>FieldViolation\<close> and the sanitising of
  violations. \<open>Profiles\<close>: the catalogue of workload profiles, option parsing, \<open>resolve_workload_profile\<close>,
  \<open>validate_workload_profile\<close>, \<open>backend_contract_payload\<close>, request checks. \<open>PyAst\<close>: the syntax trees the parser
  gives, \<open>ast.walk\<close>, constant expressions. \<open>Frontend\<close>: resource limits and forbidden constructs. \<open>AqoSchema\<close>:
  \<open>_validate_aqo_payload\<close> against a specification of AQO documents. \<open>Lowering\<close>: parameters, observables and
  \<open>_collect_operations\<close>. \<open>RequestContext\<close>: normalisation, redaction and the reading of sources from the QFS root.
  \<open>Pipeline\<close>, \<open>Passes\<close>, \<open>Stages\<close>: distributed configuration, the three passes, the staged execution with its
  observer. \<open>Compile\<close>: the whole \<open>compile_eigen_lang\<close> with digests and metadata. \<open>Reprs\<close> and \<open>CompileCorrect\<close>
  hold the lemmas about it, \<open>Demo\<close> a concrete platform and programs for the witnesses, \<open>CompilerProperties\<close> the
  properties: a successful compilation emits exactly the lowered circuit, in a document that satisfies the AQO
  contract and decodes to it; which inputs are accepted; only validation errors are raised; the trace of stages;
  the front end admits only safe programs; nothing outside the QFS root is read; credentials are redacted.

  \<^bold>\<open>Driver manager\<close> (\<open>registry.py\<close>, \<open>base_driver.py\<close>, \<open>simulator_driver.py\<close>). \<open>DriverRegistry\<close>: sessions, plugin
  and signature policies, drivers, the device index, profiles, snapshots; a step relation over all operations
  that change the registry, with its invariant. \<open>Simulator\<close>: payload parsing, angle resolution, state-vector
  gates, sampling, expectation values; \<open>StateVector\<close> and \<open>SimulatorRuns\<close> prove the loops equal to their
  matrices, unitarity and the histogram; \<open>DriverAccepts\<close> says which payloads \<open>execute_circuit\<close> runs;
  \<open>DriverProperties\<close> holds the properties.

  \<^bold>\<open>Benchmark service\<close> (\<open>run_lifecycle.py\<close>, \<open>run_api.py\<close>, \<open>history_api.py\<close>). \<open>BenchmarkRuns\<close>: the run service as a
  record of its three dictionaries and the records sent to the knowledge base, \<open>start_run\<close>, \<open>retry_run\<close>,
  \<open>transition\<close>, the run API; a step relation and its invariant. \<open>BenchmarkHistory\<close>: validation, selection and
  order of runs, page tokens, trends. \<open>BenchmarkProperties\<close>: consistency of the tables, idempotent starts, the
  lifecycle, which requests are answered, and that following the page tokens lists every selected run once.

  \<^bold>\<open>System API\<close> (\<open>qfs_store.py\<close>, \<open>security.py\<close>, \<open>errors.py\<close>, \<open>observability.py\<close>, \<open>jobspec_parser.py\<close>, \<open>validation.py\<close>).
  \<open>QfsCatalog\<close>: the checkpoint catalogue with its quota and the restore cache, refined by a least-recently-used list.
  \<open>QfsStore\<close>: the local backend over a file system as a map from paths, the retrying facade over several backends, the
  layout validator, the metadata index, the retention executor. \<open>PublicErrors\<close>: error specifications, the audit sink, trace
  identifiers. \<open>Security\<close> and \<open>SecurityTokens\<close>: configuration, policy snapshots, HS256 tokens, authentication,
  authorisation with its audit records, sandbox profiles, the recommendation gateway. \<open>JobSpec\<close> and \<open>JobSpecChecks\<close>: the
  normaliser of \<open>job.yaml\<close> documents, the workload contract, program files, the submission request and its limits.
  \<open>QfsProperties\<close>, \<open>SecurityProperties\<close> and \<open>JobSpecProperties\<close> show that an upload is read back, quotas hold, retention
  deletes exactly what expired, a failing backend is passed over; which calls are authenticated and authorised and that each
  decision is audited; which documents are accepted, and that only files next to the document are read.

  \<^bold>\<open>Knowledge base\<close> (\<open>neuro_symbolic_service/knowledge_base.py\<close>, \<open>observability.py\<close>, \<open>security.py\<close>). \<open>KbBase\<close>: the state of
  the service as a record of its dictionaries, canonical text and digests, pseudonyms, capability scopes, the security context
  of a read. \<open>KbIndexes\<close>: the two derived indexes, their synchronisation, rebuild and health. \<open>KbLearning\<close>: retention,
  evidence, assembled datasets, the lifecycle of models and the commands on it; \<open>KbLifecycle\<close> and \<open>KbCommands\<close> hold their
  lemmas and step relations. \<open>KbStore\<close>: authorisation, envelopes, insertion, batches, queries with cursors; \<open>KbRecords\<close>
  proves the invariant of the store. \<open>KbCandidates\<close>: the query for optimisation candidates. \<open>KbIngest\<close>: runtime decisions
  and benchmark runs. \<open>KbRedaction\<close>: the redaction patterns over a matcher of regular expressions. \<open>KbDatasets\<close>: the
  ingestion of training datasets. \<open>KbService\<close>: all operations as one step relation with its invariant. \<open>KbProperties\<close>,
  \<open>KbStoreProperties\<close>, \<open>KbCandidateProperties\<close> and \<open>KbIngestProperties\<close>: promotion is decided by the state of a model and commands never reach it;
  evidence is filed pseudonymised and shown to its tenant only; a query reads a ready index; record pages join; candidates are
  ranked; datasets are verified and never replaced by an ingestion; and the failures found on the way, each as a theorem.

  \<^bold>\<open>Conventions.\<close> A method that changes its object takes the record and returns it with the result; a raised
  exception is the left side of a sum; an operation of the knowledge base that raises keeps what it had already written. Strings
  are lists of characters with codes below 256. Code outside the repository is a parameter: the Python parser, SHA-256 and
  HMAC, file access, the YAML loader, the parsing, rounding and printing of floats, the random generator, the clock,
  \<open>datetime\<close>, UTF-8 decoding; what a theorem needs of it is a named hypothesis (\<open>platform_ok\<close>, \<open>utf8_ok\<close>,
  \<open>decodes_ascii\<close>, hexadecimal digests), and its witness instantiates the parameter. The clock is read once per operation of
  the knowledge base. A float is identified by its \<open>repr\<close>; in the simulator amplitudes are exact complex numbers, so
  rounding is outside the model, and infinite and undefined angles are kept as the cases in which the code raises; scores of
  candidates are counted in millionths, the unit the code rounds to.

  \<^bold>\<open>Termination and fuel.\<close> All definitions terminate. \<open>json_loads\<close> runs its parser with twice the length of the text
  plus one as fuel, and \<open>json_loads_text\<close> shows that this is enough for every text \<open>json.dumps\<close> writes. The
  resolution of a chain of angle bindings carries the set of keys already seen, as the code does. \<open>follow_pages\<close>
  models a client; one more request than there are runs is shown to be enough. A repetition of a regular expression runs at
  most as many rounds as there are characters left, and each round reads one.

  \<^bold>\<open>Not modelled.\<close> The gRPC layers of the services (status codes on the wire, caching, metrics), the hardware drivers
  (adapters of vendor libraries), secret and rollback governance of the driver manager, comparison, reproducibility, dataset
  ingestion and optimizer evaluation of the benchmark service, the kernel client of the system API and its S3 backend, the
  file based versions, pattern miner and offline training of the neuro-symbolic service, monitoring, and the Rust kernel.
\<close>

section \<open>Compiler and driver\<close>

lemma json_loads_empty: "json_loads [] = None"
  by code_simp

lemma no_expectation_terms: "no_expectation (vget aqo ''annotations'') \<Longrightarrow> expectation_terms aqo = None"
  by (cases "vget aqo ''annotations''") (simp_all add: no_expectation_def expectation_terms_def)

text \<open>C2. The compiler and the simulator fit together: the bytes of a successful compilation of a program
  without expectation values are executed by the simulator, under a plain request, exactly when the
  circuit has at most 16 qubits, its gates are rotations with an angle that resolves to a finite number,
  controlled nots on different qubits, and measurements into different classical bits. Every other
  opcode the compiler emits (H, X, CZ and so on) is refused.\<close>

theorem compiled_circuit_executes_iff:
  assumes "platform_ok pl" "snd (compile_eigen_lang pl source source_ref opts ctx) = Inr r"
    and "resolve_source_bytes (pl_env pl) (pl_fs pl) source source_ref = Inr (resolved, precedence)"
    and "pl_parse pl resolved = Some tree" "\<not> has_call ''ExpectationValue'' tree"
    and "collect_operations (pl_floats pl) tree (fst (collect_params (pl_floats pl) tree)) = Inr (los, n)"
    and "sp_decode sp (aqo_json r) = Some (aqo_json r)" "plain_request shots options"
  shows "\<exists>aqo. json_loads (aqo_json r) = Some (PDict aqo) \<and>
    ((\<exists>out. execute_circuit sp (aqo_json r) shots options = Inr out) \<longleftrightarrow>
      n \<le> 16 \<and> (\<forall>lo\<in>set (measured los n). driver_accepts sp aqo options (canon (op_payload lo))
                    \<and> \<not> nan_angle sp aqo options (canon (op_payload lo))))"
proof -
  obtain aqo where aqo: "json_loads (aqo_json r) = Some (PDict aqo)" "aqo_ok aqo" "vget aqo ''qubits'' = PInt n"
      "vget aqo ''operations'' = PList (map (\<lambda>lo. canon (op_payload lo)) (measured los n))"
      "no_expectation (vget aqo ''annotations'')"
    using compile_decodes [OF assms(1,2)] assms(3-6) by auto
  then have "aqo_json r \<noteq> []" using json_loads_empty by auto
  then have "decodes_to sp (aqo_json r) aqo" using aqo(1) assms(7) by (simp add: decodes_to_def)
  from execute_returns_iff [OF assms(8) this aqo(2,4) no_expectation_terms [OF aqo(5)]]
  show ?thesis using aqo(1,3) by (auto simp: MAX_QUBITS_def)
qed

lemma entangle_facts:
  "frontend_ok (pl_env demo_platform) entangle"
  "collect_params demo_floats entangle = ([], [])"
  "collect_operations demo_floats entangle [] = Inr ([plain_op ''CX'' [0, 1]], 2)"
  "annotations_serializable demo_platform entangle" "\<not> has_call ''ExpectationValue'' entangle" "\<not> has_call ''minimize'' entangle"
  unfolding validate_tree_iff [symmetric] by code_simp+

lemma entangle_measured:
  "map (\<lambda>lo. canon (op_payload lo)) (measured [plain_op ''CX'' [0, 1]] 2) =
     [PDict [(''op'', PStr ''CX''), (''q'', PList [PInt 0, PInt 1])],
      PDict [(''c'', PList [PInt 0, PInt 1]), (''op'', PStr ''MEASURE''), (''q'', PList [PInt 0, PInt 1])]]"
  by code_simp

lemma entangle_accepted:
  assumes "lo \<in> set (measured [plain_op ''CX'' [0, 1]] 2)"
  shows "driver_accepts demo_sim aqo options (canon (op_payload lo))" "\<not> nan_angle demo_sim aqo options (canon (op_payload lo))"
proof -
  have "canon (op_payload lo) \<in> set (map (\<lambda>lo. canon (op_payload lo)) (measured [plain_op ''CX'' [0, 1]] 2))"
    using assms by simp
  then have "canon (op_payload lo) = PDict [(''op'', PStr ''CX''), (''q'', PList [PInt 0, PInt 1])]
      \<or> canon (op_payload lo) = PDict [(''c'', PList [PInt 0, PInt 1]), (''op'', PStr ''MEASURE''), (''q'', PList [PInt 0, PInt 1])]"
    unfolding entangle_measured by simp
  then show "driver_accepts demo_sim aqo options (canon (op_payload lo))" "\<not> nan_angle demo_sim aqo options (canon (op_payload lo))"
    by (auto simp: driver_accepts_def nan_angle_def SUPPORTED_OPS_def op_text_def py_upper_def upper_char_def)
qed

lemma demo_plain_request: "plain_request 100 []"
proof -
  have "validate_provider_profile [] = Inr ()" "simulate_error [] = Inr ()" "py_int ''0'' = Some 0" by code_simp+
  then show ?thesis by (simp add: plain_request_def dget_or_def)
qed

theorem compiled_circuit_executes_iff_witness:
  "\<exists>r out. snd (compile_eigen_lang demo_platform ''entangle'' None None None) = Inr r
     \<and> execute_circuit demo_sim (aqo_json r) 100 [] = Inr out"
proof -
  have parse: "pl_parse demo_platform ''entangle'' = Some entangle"
      "resolve_source_bytes (pl_env demo_platform) (pl_fs demo_platform) ''entangle'' None = Inr (''entangle'', ''source'')"
      "pl_floats demo_platform = demo_floats"
    by (simp_all add: demo_platform_def resolve_source_bytes_def)
  then have "request_ok demo_platform ''entangle'' None None None"
    using entangle_facts default_request(3)
    by (intro demo_request_ok [where los = "[plain_op ''CX'' [0, 1]]"]) (simp_all add: nonneg_plain)
  then obtain r where r: "snd (compile_eigen_lang demo_platform ''entangle'' None None None) = Inr r"
    using request_ok_compiles [OF demo_platform_ok] by blast
  have "collect_operations (pl_floats demo_platform) entangle (fst (collect_params (pl_floats demo_platform) entangle))
      = Inr ([plain_op ''CX'' [0, 1]], 2)"
    using entangle_facts parse(3) by simp
  moreover have "sp_decode demo_sim (aqo_json r) = Some (aqo_json r)" by (simp add: demo_sim_def)
  ultimately show ?thesis
    using compiled_circuit_executes_iff [OF demo_platform_ok r parse(2,1) entangle_facts(5) _ _ demo_plain_request]
      r entangle_accepted by fastforce
qed

end
